(* ===== verification/Osv_Prelude.thy ===== *)
theory Osv_Prelude
  imports Main "HOL-Library.Word" "HOL-Library.List_Lexorder" "HOL-Library.Char_ord"
begin

text \<open>
  What every component shares: the result-and-state monad in which the asynchronous
  Rust functions are written, the environment that answers the calls to
  \<open>Uuid::new_v4\<close> and \<open>Local::now\<close>, iteration over a \<open>HashSet\<close>, and generic lemmas
  on lists and maps.

  A Rust function \<open>async fn f(..) -> Result<T, E>\<close> that reads and writes a state of type
  \<open>'s\<close> is a function \<open>'s \<Rightarrow> ('e + 't) \<times> 's\<close>: \<open>Inl e\<close> is \<open>Err(e)\<close>, \<open>Inr x\<close> is
  \<open>Ok(x)\<close>, and the state is returned in both cases, because what was written before an
  error stays written. The operator \<open>?\<close> is \<open>sbind\<close>.
\<close>

named_theorems sm_simps \<open>evaluation rules of the result-and-state monad\<close>
named_theorems row_simps \<open>conversions between domain values and database rows\<close>

section \<open>Results and state\<close>

type_synonym ('s, 'e, 'a) sm = "'s \<Rightarrow> ('e + 'a) \<times> 's"

definition sret :: "'a \<Rightarrow> ('s, 'e, 'a) sm" where
  "sret x s = (Inr x, s)"

definition sthrow :: "'e \<Rightarrow> ('s, 'e, 'a) sm" where
  "sthrow e s = (Inl e, s)"

definition sbind :: "('s, 'e, 'a) sm \<Rightarrow> ('a \<Rightarrow> ('s, 'e, 'b) sm) \<Rightarrow> ('s, 'e, 'b) sm" where
  "sbind m f s = (case m s of (Inl e, s') \<Rightarrow> (Inl e, s') | (Inr x, s') \<Rightarrow> f x s')"

definition sget :: "('s \<Rightarrow> 'a) \<Rightarrow> ('s, 'e, 'a) sm" where
  "sget f s = (Inr (f s), s)"

definition smodify :: "('s \<Rightarrow> 's) \<Rightarrow> ('s, 'e, unit) sm" where
  "smodify f s = (Inr (), f s)"

definition slift :: "'e + 'a \<Rightarrow> ('s, 'e, 'a) sm" where
  "slift r s = (r, s)"

text \<open>\<open>map_err\<close>, and \<open>match m { Ok(x) => .., Err(e) => .. }\<close> with \<open>scatch\<close>.\<close>

definition smap_err :: "('e \<Rightarrow> 'f) \<Rightarrow> ('s, 'e, 'a) sm \<Rightarrow> ('s, 'f, 'a) sm" where
  "smap_err g m s = (case m s of (Inl e, s') \<Rightarrow> (Inl (g e), s') | (Inr x, s') \<Rightarrow> (Inr x, s'))"

definition scatch ::
  "('s, 'e, 'a) sm \<Rightarrow> ('a \<Rightarrow> ('s, 'f, 'b) sm) \<Rightarrow> ('e \<Rightarrow> ('s, 'f, 'b) sm) \<Rightarrow> ('s, 'f, 'b) sm" where
  "scatch m ok err s = (case m s of (Inl e, s') \<Rightarrow> err e s' | (Inr x, s') \<Rightarrow> ok x s')"

text \<open>A \<open>for\<close> loop whose body may fail, and one that also collects a value per item.\<close>

primrec sfor :: "('x \<Rightarrow> ('s, 'e, unit) sm) \<Rightarrow> 'x list \<Rightarrow> ('s, 'e, unit) sm" where
  "sfor f [] = sret ()"
| "sfor f (x # xs) = sbind (f x) (\<lambda>_. sfor f xs)"

primrec smap :: "('x \<Rightarrow> ('s, 'e, 'y) sm) \<Rightarrow> 'x list \<Rightarrow> ('s, 'e, 'y list) sm" where
  "smap f [] = sret []"
| "smap f (x # xs) = sbind (f x) (\<lambda>y. sbind (smap f xs) (\<lambda>ys. sret (y # ys)))"

text \<open>The same for functions that only compute: \<open>Result\<close> without a state.\<close>

definition rbind :: "'e + 'a \<Rightarrow> ('a \<Rightarrow> 'e + 'b) \<Rightarrow> 'e + 'b" where
  "rbind r f = (case r of Inl e \<Rightarrow> Inl e | Inr x \<Rightarrow> f x)"

definition rmap_err :: "('e \<Rightarrow> 'f) \<Rightarrow> 'e + 'a \<Rightarrow> 'f + 'a" where
  "rmap_err g r = (case r of Inl e \<Rightarrow> Inl (g e) | Inr x \<Rightarrow> Inr x)"

lemma rbind_simps [simp]: "rbind (Inl e) f = Inl e" "rbind (Inr x) f = f x"
  by (simp_all add: rbind_def)

lemma rmap_err_simps [simp]: "rmap_err g (Inl e) = Inl (g e)" "rmap_err g (Inr x) = Inr x"
  by (simp_all add: rmap_err_def)

lemma rbind_eq_Inr: "rbind r f = Inr y \<longleftrightarrow> (\<exists>x. r = Inr x \<and> f x = Inr y)"
  by (cases r) simp_all

lemma rmap_err_eq_Inr [simp]: "rmap_err g r = Inr x \<longleftrightarrow> r = Inr x"
  by (cases r) simp_all

lemma sfor_map: "sfor f (map g xs) = sfor (\<lambda>x. f (g x)) xs"
  by (induction xs) simp_all

lemma sret_apply [simp, sm_simps]: "sret x s = (Inr x, s)"
  by (simp add: sret_def)

lemma sthrow_apply [simp, sm_simps]: "sthrow e s = (Inl e, s)"
  by (simp add: sthrow_def)

lemma sget_apply [simp, sm_simps]: "sget f s = (Inr (f s), s)"
  by (simp add: sget_def)

lemma smodify_apply [simp, sm_simps]: "smodify f s = (Inr (), f s)"
  by (simp add: smodify_def)

lemma slift_apply [simp, sm_simps]: "slift r s = (r, s)"
  by (simp add: slift_def)

lemma sbind_Inr [sm_simps]: "m s = (Inr x, s') \<Longrightarrow> sbind m f s = f x s'"
  by (simp add: sbind_def)

lemma sbind_Inl [sm_simps]: "m s = (Inl e, s') \<Longrightarrow> sbind m f s = (Inl e, s')"
  by (simp add: sbind_def)

lemma sbind_eq_Inr:
  "sbind m f s = (Inr y, t) \<longleftrightarrow> (\<exists>x s'. m s = (Inr x, s') \<and> f x s' = (Inr y, t))"
  by (auto simp: sbind_def split: prod.splits sum.splits)

lemma sbind_eq_Inl:
  "sbind m f s = (Inl e, t) \<longleftrightarrow>
     m s = (Inl e, t) \<or> (\<exists>x s'. m s = (Inr x, s') \<and> f x s' = (Inl e, t))"
  by (auto simp: sbind_def split: prod.splits sum.splits)

lemma smap_err_eq_Inr [simp]: "smap_err g m s = (Inr y, t) \<longleftrightarrow> m s = (Inr y, t)"
  by (auto simp: smap_err_def split: prod.splits sum.splits)

lemma smap_err_eq_Inl: "smap_err g m s = (Inl f, t) \<longleftrightarrow> (\<exists>e. m s = (Inl e, t) \<and> f = g e)"
  by (auto simp: smap_err_def split: prod.splits sum.splits)

text \<open>
  A property of the state that each step of a program keeps is kept by the program. The rules
  are applied by the automation through the collection \<open>keeps\<close>.
\<close>

definition keeps :: "('s \<Rightarrow> bool) \<Rightarrow> ('s, 'e, 'a) sm \<Rightarrow> bool" where
  "keeps P m \<longleftrightarrow> (\<forall>s. P s \<longrightarrow> P (snd (m s)))"

lemma keepsI: "(\<And>s. P s \<Longrightarrow> P (snd (m s))) \<Longrightarrow> keeps P m"
  by (simp add: keeps_def)

lemma keepsD: "keeps P m \<Longrightarrow> P s \<Longrightarrow> m s = (r, t) \<Longrightarrow> P t"
  by (metis keeps_def snd_conv)

lemma keeps_sret [intro]: "keeps P (sret x)"
  by (simp add: keeps_def)

lemma keeps_sthrow [intro]: "keeps P (sthrow e)"
  by (simp add: keeps_def)

lemma keeps_sget [intro]: "keeps P (sget f)"
  by (simp add: keeps_def)

lemma keeps_slift [intro]: "keeps P (slift r)"
  by (simp add: keeps_def)

lemma keeps_smodify: "(\<And>s. P s \<Longrightarrow> P (f s)) \<Longrightarrow> keeps P (smodify f)"
  by (simp add: keeps_def)

lemma keeps_sbind [intro]: "keeps P m \<Longrightarrow> (\<And>x. keeps P (f x)) \<Longrightarrow> keeps P (sbind m f)"
  unfolding keeps_def sbind_def by (simp split: prod.splits sum.splits) (metis snd_conv)

lemma keeps_smap_err [intro]: "keeps P m \<Longrightarrow> keeps P (smap_err g m)"
  unfolding keeps_def smap_err_def by (simp split: prod.splits sum.splits) (metis snd_conv)

lemma keeps_scatch [intro]:
  "keeps P m \<Longrightarrow> (\<And>x. keeps P (ok x)) \<Longrightarrow> (\<And>e. keeps P (err e)) \<Longrightarrow> keeps P (scatch m ok err)"
  unfolding keeps_def scatch_def by (simp split: prod.splits sum.splits) (metis snd_conv)

lemma keeps_case_sum:
  "(\<And>x. r = Inl x \<Longrightarrow> keeps P (f x)) \<Longrightarrow> (\<And>x. r = Inr x \<Longrightarrow> keeps P (g x)) \<Longrightarrow>
    keeps P (case r of Inl x \<Rightarrow> f x | Inr x \<Rightarrow> g x)"
  by (cases r) simp_all

lemma keeps_case_option:
  "keeps P a \<Longrightarrow> (\<And>x. keeps P (f x)) \<Longrightarrow> keeps P (case r of None \<Rightarrow> a | Some x \<Rightarrow> f x)"
  by (cases r) simp_all

lemma keeps_case_prod: "(\<And>x y. keeps P (f x y)) \<Longrightarrow> keeps P (case r of (x, y) \<Rightarrow> f x y)"
  by (cases r) simp

lemma keeps_if: "keeps P m \<Longrightarrow> keeps P n \<Longrightarrow> keeps P (if c then m else n)"
  by simp

lemmas keeps_control = keeps_sret keeps_sthrow keeps_slift keeps_sbind keeps_smap_err keeps_scatch
  keeps_case_sum keeps_case_option keeps_case_prod keeps_if

lemma keeps_sfor [intro]: "(\<And>x. keeps P (f x)) \<Longrightarrow> keeps P (sfor f xs)"
  by (induction xs) auto

lemma keeps_smap [intro]: "(\<And>x. keeps P (f x)) \<Longrightarrow> keeps P (smap f xs)"
  by (induction xs) auto

section \<open>Identifiers and time\<close>

text \<open>
  \<open>Uuid::new_v4()\<close> and \<open>Local::now().timestamp_millis()\<close> are answered by the environment:
  \<open>uuid_src n\<close> is the \<open>n\<close>-th identifier drawn, \<open>time_src n\<close> the \<open>n\<close>-th reading of the clock.
  Random bytes (\<open>OsRng\<close>) are the stream \<open>rand_src\<close>. Nothing is known of any of them; a theorem
  that needs fresh identifiers says so.
\<close>

type_synonym ident = string
type_synonym millis = int
type_synonym u64 = "64 word"
type_synonym i32 = "32 word"

record env =
  uuid_src :: "nat \<Rightarrow> ident"
  uuid_n :: nat
  time_src :: "nat \<Rightarrow> millis"
  time_n :: nat
  rand_src :: "nat \<Rightarrow> 8 word"
  rand_n :: nat

definition fresh_uuid :: "('a env_scheme, 'e, ident) sm" where
  "fresh_uuid w = (Inr (uuid_src w (uuid_n w)), w\<lparr>uuid_n := Suc (uuid_n w)\<rparr>)"

definition now_millis :: "('a env_scheme, 'e, millis) sm" where
  "now_millis w = (Inr (time_src w (time_n w)), w\<lparr>time_n := Suc (time_n w)\<rparr>)"

text \<open>
  \<open>Utc::now().timestamp()\<close> reads the same clock in seconds; \<open>OsRng.fill_bytes\<close> takes the next
  bytes of the random stream, and a library call that draws randomness itself gets the position
  in the stream as its seed.
\<close>

definition now_secs :: "('a env_scheme, 'e, int) sm" where
  "now_secs w = (Inr (time_src w (time_n w) div 1000), w\<lparr>time_n := Suc (time_n w)\<rparr>)"

definition fill_bytes :: "nat \<Rightarrow> ('a env_scheme, 'e, 8 word list) sm" where
  "fill_bytes n w = (Inr (map (rand_src w) [rand_n w..<rand_n w + n]), w\<lparr>rand_n := rand_n w + n\<rparr>)"

definition draw_seed :: "('a env_scheme, 'e, nat) sm" where
  "draw_seed w = (Inr (rand_n w), w\<lparr>rand_n := Suc (rand_n w)\<rparr>)"

section \<open>Iterating over a hash set\<close>

text \<open>
  The order in which a \<open>HashSet\<close> yields its elements is not fixed. Code that collects one into
  a vector takes the order as a parameter \<open>ord\<close>, of which only this is known.
\<close>

definition iteration_order :: "('a set \<Rightarrow> 'a list) \<Rightarrow> bool" where
  "iteration_order ord \<longleftrightarrow> (\<forall>S. finite S \<longrightarrow> set (ord S) = S \<and> distinct (ord S))"

lemma iteration_order_set [simp]: "iteration_order ord \<Longrightarrow> finite S \<Longrightarrow> set (ord S) = S"
  by (simp add: iteration_order_def)

lemma iteration_order_distinct: "iteration_order ord \<Longrightarrow> finite S \<Longrightarrow> distinct (ord S)"
  by (simp add: iteration_order_def)

lemma iteration_order_sorted: "iteration_order (sorted_list_of_set :: 'a::linorder set \<Rightarrow> 'a list)"
  by (simp add: iteration_order_def)

section \<open>Lists\<close>

lemma find_None_iff_ex: "List.find P xs = None \<longleftrightarrow> \<not> list_ex P xs"
  by (induction xs) auto

lemma find_SomeD: "List.find P xs = Some x \<Longrightarrow> x \<in> set xs \<and> P x"
  by (induction xs) (auto split: if_splits)

lemma find_key_distinct:
  "distinct (map k xs) \<Longrightarrow> x \<in> set xs \<Longrightarrow> List.find (\<lambda>y. k y = k x) xs = Some x"
  by (induction xs) force+

lemma find_map_update:
  assumes "\<And>x. P (f x) = P x"
  shows "List.find P (map f xs) = map_option f (List.find P xs)"
  using assms by (induction xs) auto

lemma find_append: "List.find P (xs @ ys) = (case List.find P xs of None \<Rightarrow> List.find P ys | Some x \<Rightarrow> Some x)"
  by (induction xs) auto


lemma option_eqI: "(\<And>x. a = Some x \<longleftrightarrow> b = Some x) \<Longrightarrow> a = b"
  by (cases a; cases b) auto

text \<open>Collecting pairs into a \<open>HashMap\<close>: the last pair for a key wins.\<close>

definition hash_map_of :: "('a \<times> 'b) list \<Rightarrow> 'a \<rightharpoonup> 'b" where
  "hash_map_of xs = map_of (rev xs)"

text \<open>\<open>m.entry(k).or_insert_with(Vec::new).push(v)\<close> for each pair of a list.\<close>

definition push_entry :: "'k \<times> 'v \<Rightarrow> ('k \<rightharpoonup> 'v list) \<Rightarrow> ('k \<rightharpoonup> 'v list)" where
  "push_entry = (\<lambda>(k, v) m. m(k \<mapsto> (case m k of None \<Rightarrow> [] | Some vs \<Rightarrow> vs) @ [v]))"

definition group_pairs :: "('k \<times> 'v) list \<Rightarrow> ('k \<rightharpoonup> 'v list)" where
  "group_pairs ps = fold push_entry ps Map.empty"

lemma fold_push_entry:
  "fold push_entry ps m k = (let vs = map snd (filter (\<lambda>p. fst p = k) ps) in
     case m k of None \<Rightarrow> if vs = [] then None else Some vs | Some ws \<Rightarrow> Some (ws @ vs))"
proof (induction ps arbitrary: m)
  case Nil
  then show ?case by (simp split: option.splits)
next
  case (Cons p ps)
  have "push_entry p m k = (if fst p = k
      then Some ((case m k of None \<Rightarrow> [] | Some vs \<Rightarrow> vs) @ [snd p]) else m k)"
    by (cases p) (simp add: push_entry_def)
  then show ?case
    using Cons.IH [of "push_entry p m"] by (simp add: Let_def split: option.splits)
qed

lemma group_pairs_eq:
  "group_pairs ps k = (let vs = map snd (filter (\<lambda>p. fst p = k) ps) in
     if vs = [] then None else Some vs)"
  by (simp add: group_pairs_def fold_push_entry)

lemma dom_group_pairs: "dom (group_pairs ps) = fst ` set ps"
  by (force simp: dom_def group_pairs_eq Let_def filter_empty_conv split: if_splits)

lemma group_pairs_get:
  "(case group_pairs ps k of None \<Rightarrow> [] | Some vs \<Rightarrow> vs) = map snd (filter (\<lambda>p. fst p = k) ps)"
  by (simp add: group_pairs_eq Let_def)

end
