(* ===== verification/Core_Models.thy ===== *)
theory Core_Models
  imports Osv_Prelude
begin

text \<open>
  The domain types of \<open>core/src/models\<close>: certificates, devices, users, folders, resources and
  their keys, share records, and the manifests exchanged during synchronisation. A struct is a
  record whose fields carry a prefix for the struct; an enum is a datatype. Timestamps
  (\<open>i64\<close>, only stored and compared) are integers, clock values keep their width.
  The constructors that call \<open>Uuid::new_v4\<close> or \<open>Local::now\<close> are written in the
  result-and-state monad over the environment.
\<close>

section \<open>Enumerations and their string forms\<close>

datatype share_operation = Share | Revoke

datatype permission_level = Read | Write | Admin

datatype resource_type = Notes | Chat | Default

datatype connection_type = DeviceConn | UserConn

datatype connection_action = DeviceSync | AddDevice | LiveEdit | UserSync

fun share_operation_to_string :: "share_operation \<Rightarrow> string" where
  "share_operation_to_string Share = ''share''"
| "share_operation_to_string Revoke = ''revoke''"

definition share_operation_from :: "string \<Rightarrow> share_operation" where
  "share_operation_from s =
     (if s = ''share'' then Share else if s = ''revoke'' then Revoke else Share)"

fun permission_level_to_string :: "permission_level \<Rightarrow> string" where
  "permission_level_to_string Read = ''read''"
| "permission_level_to_string Write = ''write''"
| "permission_level_to_string Admin = ''admin''"

definition permission_level_from :: "string \<Rightarrow> permission_level" where
  "permission_level_from s =
     (if s = ''read'' then Read else if s = ''write'' then Write
      else if s = ''admin'' then Admin else Read)"

text \<open>
  \<open>str::to_lowercase\<close> on the bytes of a string: no character outside ASCII has a lower-case
  form among the letters of the two literals it is compared with.
\<close>

definition lower_char :: "char \<Rightarrow> char" where
  "lower_char c =
     (if 65 \<le> (of_char c :: nat) \<and> (of_char c :: nat) \<le> 90
      then char_of ((of_char c :: nat) + 32) else c)"

definition resource_type_from_str :: "string \<Rightarrow> resource_type" where
  "resource_type_from_str s =
     (let t = map lower_char s in
      if t = ''notes'' then Notes else if t = ''chat'' then Chat else Default)"

fun resource_type_to_string :: "resource_type \<Rightarrow> string" where
  "resource_type_to_string Notes = ''notes''"
| "resource_type_to_string Chat = ''chat''"
| "resource_type_to_string Default = ''default''"

fun has_crdt :: "resource_type \<Rightarrow> bool" where
  "has_crdt Notes = True"
| "has_crdt Chat = True"
| "has_crdt Default = True"

fun document_state_keys :: "resource_type \<Rightarrow> string list" where
  "document_state_keys Notes = [''main_doc'', ''image_state'', ''comment_state'']"
| "document_state_keys Chat = [''chat'', ''image_state'']"
| "document_state_keys Default = [''yjs_state'']"

fun primary_state_key :: "resource_type \<Rightarrow> string option" where
  "primary_state_key Notes = Some ''main_doc''"
| "primary_state_key Chat = Some ''chat''"
| "primary_state_key Default = Some ''yjs_state''"

section \<open>Structs\<close>

record certificate =
  crt_private_key :: string
  crt_public_key :: string
  crt_salt :: string

record device =
  dev_id :: ident
  dev_device_key :: string
  dev_user_id :: ident
  dev_created_at :: millis
  dev_updated_at :: millis
  dev_last_synced_at :: "millis option"

record user =
  usr_id :: ident
  usr_username :: string
  usr_public_key :: string
  usr_created_at :: millis
  usr_signature :: string
  usr_ucan_token :: string
  usr_ucan_pub_key :: string
  usr_ucan_cid :: string
  usr_first_sync :: bool
  usr_updated_at :: millis
  usr_owner :: bool
  usr_deleted :: bool
  usr_deleted_at :: "millis option"

record user_with_device_ids =
  uwi_user_id :: ident
  uwi_device_ids :: "ident list"

record user_with_devices =
  uwd_user :: user
  uwd_devices :: "device list"

record folder =
  fol_id :: ident
  fol_name :: string
  fol_default_folder :: bool
  fol_parent_folder_id :: "ident option"
  fol_description :: "string option"
  fol_created_at :: millis
  fol_updated_at :: millis
  fol_deleted :: bool
  fol_deleted_at :: "millis option"

record folder_manifest_data =
  fmd_folder_id :: ident
  fmd_recipient_user_ids :: "ident list"

record resource =
  res_id :: ident
  res_resource_type :: resource_type
  res_data :: string
  res_folder_id :: ident
  res_created_folder_id :: ident
  res_signature :: string
  res_created_at :: millis
  res_updated_at :: millis
  res_favourite :: bool
  res_created_by :: ident
  res_last_accessed :: millis
  res_deleted :: bool
  res_deleted_at :: "millis option"

record resource_key =
  key_id :: ident
  key_resource_id :: ident
  key_user_id :: ident
  key_encrypted_key :: string
  key_is_owner :: bool
  key_created_at :: millis
  key_updated_at :: millis

record share_record =
  shr_id :: ident
  shr_resource_id :: ident
  shr_shared_by_user_id :: ident
  shr_recipient_user_id :: ident
  shr_permission_level :: permission_level
  shr_ucan_token :: string
  shr_ucan_cid :: string
  shr_operation_type :: share_operation
  shr_created_at :: millis
  shr_updated_at :: millis

record folder_share_record =
  fsr_id :: ident
  fsr_folder_id :: ident
  fsr_shared_by_user_id :: ident
  fsr_recipient_user_id :: ident
  fsr_permission_level :: permission_level
  fsr_ucan_token :: string
  fsr_ucan_cid :: string
  fsr_operation_type :: share_operation
  fsr_created_at :: millis
  fsr_updated_at :: millis

record resource_vector_clock =
  vc_id :: ident
  vc_resource_id :: ident
  vc_device_id :: ident
  vc_clock_value :: u64
  vc_created_at :: millis
  vc_updated_at :: millis

record resource_with_key =
  rwk_resource :: resource
  rwk_encrypted_key :: string

record resource_key_pair =
  rkp_resource :: resource
  rkp_key :: resource_key

record resource_manifest_data =
  rmd_resource_id :: ident
  rmd_share_record_ids :: "ident list"
  rmd_vector_clocks :: "resource_vector_clock list"

record resource_sync_data =
  rsd_resource :: resource
  rsd_resource_keys :: "resource_key list"
  rsd_share_records :: "share_record list"
  rsd_vector_clocks :: "resource_vector_clock list"

section \<open>Constructors\<close>

definition device_new :: "ident \<Rightarrow> string \<Rightarrow> ident \<Rightarrow> ('a env_scheme, 'e, device) sm" where
  "device_new i device_public_key user_id =
     sbind now_millis (\<lambda>now. sret
       \<lparr>dev_id = i, dev_device_key = device_public_key, dev_user_id = user_id,
        dev_created_at = now, dev_updated_at = now, dev_last_synced_at = None\<rparr>)"

definition user_new ::
  "string \<Rightarrow> ident \<Rightarrow> string \<Rightarrow> string \<Rightarrow> bool \<Rightarrow> bool \<Rightarrow> string \<Rightarrow> string \<Rightarrow> string
     \<Rightarrow> ('a env_scheme, 'e, user) sm" where
  "user_new username i public_key signature owner first_sync ucan_token ucan_cid ucan_pub_key =
     sbind now_millis (\<lambda>now. sret
       \<lparr>usr_id = i, usr_username = username, usr_public_key = public_key, usr_created_at = now,
        usr_signature = signature, usr_ucan_token = ucan_token, usr_ucan_pub_key = ucan_pub_key,
        usr_ucan_cid = ucan_cid, usr_first_sync = first_sync, usr_updated_at = now,
        usr_owner = owner, usr_deleted = False, usr_deleted_at = None\<rparr>)"

definition folder_new ::
  "string \<Rightarrow> string option \<Rightarrow> bool \<Rightarrow> ('a env_scheme, 'e, folder) sm" where
  "folder_new name description default_folder =
     sbind now_millis (\<lambda>now. sbind fresh_uuid (\<lambda>i. sret
       \<lparr>fol_id = i, fol_name = name, fol_default_folder = default_folder,
        fol_parent_folder_id = None, fol_description = description, fol_created_at = now,
        fol_updated_at = now, fol_deleted = False, fol_deleted_at = None\<rparr>))"

definition resource_new ::
  "string \<Rightarrow> string \<Rightarrow> ident \<Rightarrow> string \<Rightarrow> ident \<Rightarrow> ('a env_scheme, 'e, resource) sm" where
  "resource_new rtype dat folder_id signature created_by =
     sbind now_millis (\<lambda>now. sbind fresh_uuid (\<lambda>i. sret
       \<lparr>res_id = i, res_resource_type = resource_type_from_str rtype, res_data = dat,
        res_folder_id = folder_id, res_created_folder_id = folder_id, res_signature = signature,
        res_created_at = now, res_updated_at = now, res_favourite = False,
        res_created_by = created_by, res_last_accessed = now, res_deleted = False,
        res_deleted_at = None\<rparr>))"

definition resource_key_new ::
  "ident \<Rightarrow> ident \<Rightarrow> string \<Rightarrow> bool \<Rightarrow> ('a env_scheme, 'e, resource_key) sm" where
  "resource_key_new resource_id user_id encrypted_key is_owner =
     sbind now_millis (\<lambda>now. sbind fresh_uuid (\<lambda>i. sret
       \<lparr>key_id = i, key_resource_id = resource_id, key_user_id = user_id,
        key_encrypted_key = encrypted_key, key_is_owner = is_owner,
        key_created_at = now, key_updated_at = now\<rparr>))"

definition prepare_share_record ::
  "ident \<Rightarrow> ident \<Rightarrow> ident \<Rightarrow> permission_level \<Rightarrow> string \<Rightarrow> string
     \<Rightarrow> ('a env_scheme, 'e, share_record) sm" where
  "prepare_share_record resource_id shared_by recipient perm ucan_token ucan_cid =
     sbind now_millis (\<lambda>now. sbind fresh_uuid (\<lambda>i. sret
       \<lparr>shr_id = i, shr_resource_id = resource_id, shr_shared_by_user_id = shared_by,
        shr_recipient_user_id = recipient, shr_permission_level = perm,
        shr_ucan_token = ucan_token, shr_ucan_cid = ucan_cid, shr_operation_type = Share,
        shr_created_at = now, shr_updated_at = now\<rparr>))"

definition prepare_folder_share_record ::
  "ident \<Rightarrow> ident \<Rightarrow> ident \<Rightarrow> permission_level \<Rightarrow> string \<Rightarrow> string
     \<Rightarrow> ('a env_scheme, 'e, folder_share_record) sm" where
  "prepare_folder_share_record folder_id shared_by recipient perm ucan_token ucan_cid =
     sbind now_millis (\<lambda>now. sbind fresh_uuid (\<lambda>i. sret
       \<lparr>fsr_id = i, fsr_folder_id = folder_id, fsr_shared_by_user_id = shared_by,
        fsr_recipient_user_id = recipient, fsr_permission_level = perm,
        fsr_ucan_token = ucan_token, fsr_ucan_cid = ucan_cid, fsr_operation_type = Share,
        fsr_created_at = now, fsr_updated_at = now\<rparr>))"

section \<open>String forms round-trip\<close>

lemma share_operation_roundtrip [simp]:
  "share_operation_from (share_operation_to_string op) = op"
  by (cases op) (simp_all add: share_operation_from_def)

lemma permission_level_roundtrip [simp]:
  "permission_level_from (permission_level_to_string p) = p"
  by (cases p) (simp_all add: permission_level_from_def)

lemma resource_type_roundtrip [simp]:
  "resource_type_from_str (resource_type_to_string t) = t"
  by (cases t) (simp_all add: resource_type_from_str_def lower_char_def)

lemma share_operation_to_string_eq_share [simp]:
  "share_operation_to_string op = ''share'' \<longleftrightarrow> op = Share"
  by (cases op) simp_all

lemma primary_key_is_first: "primary_state_key t = Some (hd (document_state_keys t))"
  by (cases t) simp_all

end
