(* ===== verification/Vector_Clock.thy ===== *)
theory Vector_Clock
  imports Core_Models
begin

text \<open>
  \<open>core/src/models/vector_clock.rs\<close>: one clock entry per device and resource, the
  constructors for the entries of a new resource, a new device and a sharing, and
  \<open>ResourceVectorClock::merge\<close> with its \<open>MergeResult\<close>. The abstract view of a list of entries
  is the map from devices to clock values; what the merge promises is stated over the
  pointwise maximum of two such maps.
\<close>

section \<open>Entries\<close>

definition vc_new :: "ident \<Rightarrow> ident \<Rightarrow> u64 \<Rightarrow> ('a env_scheme, 'e, resource_vector_clock) sm" where
  "vc_new resource_id device_id v =
     sbind now_millis (\<lambda>now. sbind fresh_uuid (\<lambda>i. sret
       \<lparr>vc_id = i, vc_resource_id = resource_id, vc_device_id = device_id, vc_clock_value = v,
        vc_created_at = now, vc_updated_at = now\<rparr>))"

definition vc_initialize :: "ident \<Rightarrow> ident \<Rightarrow> ('a env_scheme, 'e, resource_vector_clock) sm" where
  "vc_initialize resource_id device_id = vc_new resource_id device_id 1"

definition create_initial_entries ::
  "ident \<Rightarrow> ident list \<Rightarrow> ident \<Rightarrow> ('a env_scheme, 'e, resource_vector_clock list) sm" where
  "create_initial_entries resource_id device_ids source_device_id =
     smap (\<lambda>d. vc_new resource_id d (if d = source_device_id then 1 else 0)) device_ids"

definition create_entries_for_new_device ::
  "ident list \<Rightarrow> ident \<Rightarrow> ('a env_scheme, 'e, resource_vector_clock list) sm" where
  "create_entries_for_new_device resource_ids device_id =
     smap (\<lambda>r. vc_new r device_id 0) resource_ids"

definition create_entry_for_new_device ::
  "ident \<Rightarrow> ident \<Rightarrow> ('a env_scheme, 'e, resource_vector_clock) sm" where
  "create_entry_for_new_device resource_id device_id = vc_new resource_id device_id 0"

definition create_entries_for_sharing ::
  "ident \<Rightarrow> ident list \<Rightarrow> ('a env_scheme, 'e, resource_vector_clock list) sm" where
  "create_entries_for_sharing resource_id device_ids =
     smap (\<lambda>d. vc_new resource_id d 0) device_ids"

section \<open>Merging two sets of entries\<close>

record merge_result =
  mr_update_local :: "resource_vector_clock list"
  mr_add_local :: "resource_vector_clock list"
  mr_update_remote :: "resource_vector_clock list"
  mr_add_remote :: "resource_vector_clock list"
  mr_local_needs_update :: bool
  mr_remote_needs_update :: bool

definition empty_merge :: merge_result where
  "empty_merge =
     \<lparr>mr_update_local = [], mr_add_local = [], mr_update_remote = [], mr_add_remote = [],
      mr_local_needs_update = False, mr_remote_needs_update = False\<rparr>"

text \<open>The body of the first loop, over the remote entries, and of the second, over the local ones.\<close>

definition merge_remote_entry ::
  "resource_vector_clock list \<Rightarrow> resource_vector_clock \<Rightarrow> merge_result \<Rightarrow> merge_result" where
  "merge_remote_entry local_entries remote m =
     (case List.find (\<lambda>e. vc_device_id e = vc_device_id remote) local_entries of
        Some loc \<Rightarrow>
          if vc_clock_value loc < vc_clock_value remote
          then m\<lparr>mr_update_local := mr_update_local m @ [remote], mr_local_needs_update := True\<rparr>
          else if vc_clock_value remote < vc_clock_value loc
          then m\<lparr>mr_update_remote := mr_update_remote m @ [loc], mr_remote_needs_update := True\<rparr>
          else m
      | None \<Rightarrow>
          m\<lparr>mr_add_local := mr_add_local m @ [remote], mr_local_needs_update := True\<rparr>)"

definition merge_local_entry ::
  "resource_vector_clock list \<Rightarrow> resource_vector_clock \<Rightarrow> merge_result \<Rightarrow> merge_result" where
  "merge_local_entry remote_entries loc m =
     (let remote_has_entry = list_ex (\<lambda>e. vc_device_id e = vc_device_id loc) remote_entries in
      if \<not> remote_has_entry
      then m\<lparr>mr_add_remote := mr_add_remote m @ [loc], mr_remote_needs_update := True\<rparr>
      else m)"

definition vc_merge ::
  "resource_vector_clock list \<Rightarrow> resource_vector_clock list \<Rightarrow> merge_result" where
  "vc_merge local_entries remote_entries =
     fold (merge_local_entry remote_entries) local_entries
       (fold (merge_remote_entry local_entries) remote_entries empty_merge)"

section \<open>The abstract view\<close>

type_synonym clock_view = "ident \<rightharpoonup> u64"

definition clock_map :: "resource_vector_clock list \<Rightarrow> clock_view" where
  "clock_map cs = map_of (map (\<lambda>c. (vc_device_id c, vc_clock_value c)) cs)"

definition vjoin :: "clock_view \<Rightarrow> clock_view \<Rightarrow> clock_view" where
  "vjoin a b d =
     (case a d of None \<Rightarrow> b d | Some x \<Rightarrow> (case b d of None \<Rightarrow> Some x | Some y \<Rightarrow> Some (max x y)))"

definition vle :: "clock_view \<Rightarrow> clock_view \<Rightarrow> bool" where
  "vle a b \<longleftrightarrow> (\<forall>d x. a d = Some x \<longrightarrow> (\<exists>y. b d = Some y \<and> x \<le> y))"

text \<open>What a replica holds after it overwrote the entries \<open>upd\<close> and inserted the entries \<open>add\<close>.\<close>

definition view_update :: "clock_view \<Rightarrow> resource_vector_clock list \<Rightarrow> resource_vector_clock list \<Rightarrow> clock_view" where
  "view_update v upd add d =
     (case clock_map add d of
        Some x \<Rightarrow> Some x
      | None \<Rightarrow> (case clock_map upd d of Some x \<Rightarrow> Some x | None \<Rightarrow> v d))"

definition distinct_devices :: "resource_vector_clock list \<Rightarrow> bool" where
  "distinct_devices cs \<longleftrightarrow> distinct (map vc_device_id cs)"


lemma clock_map_Nil [simp]: "clock_map [] = Map.empty"
  by (simp add: clock_map_def)

lemma clock_map_Cons [simp]:
  "clock_map (c # cs) = (clock_map cs)(vc_device_id c \<mapsto> vc_clock_value c)"
  by (simp add: clock_map_def)

lemma clock_map_None_iff: "clock_map cs d = None \<longleftrightarrow> (\<forall>c \<in> set cs. vc_device_id c \<noteq> d)"
  by (induction cs) auto

lemma clock_map_SomeD: "clock_map cs d = Some x \<Longrightarrow> \<exists>c \<in> set cs. vc_device_id c = d \<and> vc_clock_value c = x"
  by (induction cs) (auto split: if_splits)

lemma clock_map_find:
  "clock_map cs d = map_option vc_clock_value (List.find (\<lambda>c. vc_device_id c = d) cs)"
  by (induction cs) auto

lemma clock_map_Some_iff:
  "distinct_devices cs \<Longrightarrow>
     clock_map cs d = Some x \<longleftrightarrow> (\<exists>c \<in> set cs. vc_device_id c = d \<and> vc_clock_value c = x)"
  by (induction cs) (auto simp: distinct_devices_def image_iff dest!: clock_map_SomeD)

lemma distinct_devices_filter: "distinct_devices cs \<Longrightarrow> distinct_devices (filter P cs)"
  by (simp add: distinct_devices_def distinct_map_filter)

lemma clock_map_filter:
  assumes "distinct_devices cs"
  shows "clock_map (filter P cs) d = Some x \<longleftrightarrow>
    (\<exists>c \<in> set cs. P c \<and> vc_device_id c = d \<and> vc_clock_value c = x)"
  using clock_map_Some_iff [OF distinct_devices_filter [OF assms]] by auto

lemma find_device_Some_iff:
  "distinct_devices cs \<Longrightarrow>
     List.find (\<lambda>e. vc_device_id e = d) cs = Some c \<longleftrightarrow> c \<in> set cs \<and> vc_device_id c = d"
  by (induction cs) (auto simp: distinct_devices_def)

lemma list_ex_device_iff: "list_ex (\<lambda>e. vc_device_id e = d) cs \<longleftrightarrow> clock_map cs d \<noteq> None"
  by (induction cs) auto

section \<open>The join of two views\<close>

lemma vjoin_idem [simp]: "vjoin a a = a"
  by (rule ext) (simp add: vjoin_def split: option.splits)

lemma vjoin_commute: "vjoin a b = vjoin b a"
  by (rule ext) (simp add: vjoin_def max.commute split: option.splits)

lemma vjoin_assoc: "vjoin (vjoin a b) c = vjoin a (vjoin b c)"
  by (rule ext) (simp add: vjoin_def max.assoc split: option.splits)

lemma vle_vjoin1: "vle a (vjoin a b)"
  by (auto simp: vle_def vjoin_def split: option.splits)

lemma vle_vjoin2: "vle b (vjoin a b)"
  using vle_vjoin1 [of b a] by (simp add: vjoin_commute)

lemma vjoin_least: "vle a c \<Longrightarrow> vle b c \<Longrightarrow> vle (vjoin a b) c"
  unfolding vle_def vjoin_def
  by (intro allI impI) (auto split: option.splits if_splits simp: max_def)

lemma vle_iff_vjoin: "vle a b \<longleftrightarrow> vjoin a b = b"
proof
  assume le: "vle a b"
  show "vjoin a b = b"
  proof
    fix d
    show "vjoin a b d = b d"
    proof (cases "a d")
      case None
      then show ?thesis by (simp add: vjoin_def)
    next
      case (Some x)
      with le obtain y where "b d = Some y" "x \<le> y"
        by (auto simp: vle_def)
      with Some show ?thesis by (simp add: vjoin_def max_def)
    qed
  qed
next
  assume "vjoin a b = b"
  then show "vle a b" using vle_vjoin1 [of a b] by simp
qed

section \<open>What the merge computes\<close>

definition newer_remote :: "resource_vector_clock list \<Rightarrow> resource_vector_clock \<Rightarrow> bool" where
  "newer_remote L r = (case List.find (\<lambda>e. vc_device_id e = vc_device_id r) L of
     None \<Rightarrow> False | Some l \<Rightarrow> vc_clock_value l < vc_clock_value r)"

definition newer_local ::
  "resource_vector_clock list \<Rightarrow> resource_vector_clock \<Rightarrow> resource_vector_clock option" where
  "newer_local L r = (case List.find (\<lambda>e. vc_device_id e = vc_device_id r) L of
     None \<Rightarrow> None | Some l \<Rightarrow> if vc_clock_value r < vc_clock_value l then Some l else None)"

definition lacks_device :: "resource_vector_clock list \<Rightarrow> resource_vector_clock \<Rightarrow> bool" where
  "lacks_device cs c \<longleftrightarrow> clock_map cs (vc_device_id c) = None"

lemma fold_merge_remote:
  "fold (merge_remote_entry L) R m =
     \<lparr>mr_update_local = mr_update_local m @ filter (newer_remote L) R,
      mr_add_local = mr_add_local m @ filter (lacks_device L) R,
      mr_update_remote = mr_update_remote m @ List.map_filter (newer_local L) R,
      mr_add_remote = mr_add_remote m,
      mr_local_needs_update =
        (mr_local_needs_update m \<or> (\<exists>r \<in> set R. newer_remote L r \<or> lacks_device L r)),
      mr_remote_needs_update =
        (mr_remote_needs_update m \<or> List.map_filter (newer_local L) R \<noteq> [])\<rparr>"
proof (induction R arbitrary: m)
  case Nil
  then show ?case by (simp add: map_filter_simps)
next
  case (Cons r R)
  have step: "merge_remote_entry L r m = m\<lparr>
      mr_update_local := mr_update_local m @ filter (newer_remote L) [r],
      mr_add_local := mr_add_local m @ filter (lacks_device L) [r],
      mr_update_remote := mr_update_remote m @ List.map_filter (newer_local L) [r],
      mr_local_needs_update := (mr_local_needs_update m \<or> newer_remote L r \<or> lacks_device L r),
      mr_remote_needs_update := (mr_remote_needs_update m \<or> newer_local L r \<noteq> None)\<rparr>"
    by (cases "List.find (\<lambda>e. vc_device_id e = vc_device_id r) L")
      (auto simp: merge_remote_entry_def newer_remote_def newer_local_def lacks_device_def
        clock_map_find map_filter_simps)
  show ?case
    by (auto simp: step Cons.IH map_filter_simps split: option.splits)
qed

lemma fold_merge_local:
  "fold (merge_local_entry R) L m =
     m\<lparr>mr_add_remote := mr_add_remote m @ filter (lacks_device R) L,
       mr_remote_needs_update := (mr_remote_needs_update m \<or> (\<exists>l \<in> set L. lacks_device R l))\<rparr>"
proof (induction L arbitrary: m)
  case Nil
  then show ?case by simp
next
  case (Cons l L)
  have step: "merge_local_entry R l m = m\<lparr>
      mr_add_remote := mr_add_remote m @ filter (lacks_device R) [l],
      mr_remote_needs_update := (mr_remote_needs_update m \<or> lacks_device R l)\<rparr>"
    by (cases "clock_map R (vc_device_id l)")
      (simp_all add: merge_local_entry_def lacks_device_def list_ex_device_iff Let_def)
  show ?case
    by (auto simp: step Cons.IH)
qed

lemma vc_merge_eq:
  "vc_merge L R =
     \<lparr>mr_update_local = filter (newer_remote L) R,
      mr_add_local = filter (lacks_device L) R,
      mr_update_remote = List.map_filter (newer_local L) R,
      mr_add_remote = filter (lacks_device R) L,
      mr_local_needs_update = (\<exists>r \<in> set R. newer_remote L r \<or> lacks_device L r),
      mr_remote_needs_update =
        (List.map_filter (newer_local L) R \<noteq> [] \<or> (\<exists>l \<in> set L. lacks_device R l))\<rparr>"
  by (simp add: vc_merge_def fold_merge_remote fold_merge_local empty_merge_def)


lemma newer_remote_iff:
  "newer_remote L r \<longleftrightarrow> (\<exists>x. clock_map L (vc_device_id r) = Some x \<and> x < vc_clock_value r)"
  by (auto simp: newer_remote_def clock_map_find split: option.splits)

lemma newer_local_Some_iff:
  "newer_local L r = Some l \<longleftrightarrow>
     List.find (\<lambda>e. vc_device_id e = vc_device_id r) L = Some l \<and> vc_clock_value r < vc_clock_value l"
  by (cases "List.find (\<lambda>e. vc_device_id e = vc_device_id r) L") (auto simp: newer_local_def)

lemma newer_local_SomeD:
  assumes "newer_local L r = Some l"
  shows "l \<in> set L" "vc_device_id l = vc_device_id r" "vc_clock_value r < vc_clock_value l"
    "clock_map L (vc_device_id r) = Some (vc_clock_value l)"
proof -
  from assms have f: "List.find (\<lambda>e. vc_device_id e = vc_device_id r) L = Some l"
    and lt: "vc_clock_value r < vc_clock_value l"
    by (simp_all add: newer_local_Some_iff)
  show "l \<in> set L" "vc_device_id l = vc_device_id r"
    using find_SomeD [OF f] by simp_all
  show "vc_clock_value r < vc_clock_value l" by (rule lt)
  show "clock_map L (vc_device_id r) = Some (vc_clock_value l)"
    using f by (simp add: clock_map_find)
qed

lemma newer_local_None_iff:
  "newer_local L r = None \<longleftrightarrow> (\<forall>x. clock_map L (vc_device_id r) = Some x \<longrightarrow> x \<le> vc_clock_value r)"
  by (auto simp: newer_local_def clock_map_find split: option.splits)

lemma map_filter_newer_local_devices:
  assumes "distinct_devices R"
  shows "distinct_devices (List.map_filter (newer_local L) R)"
  using assms
proof (induction R)
  case Nil
  then show ?case by (simp add: map_filter_simps distinct_devices_def)
next
  case (Cons r R)
  have in_R: "vc_device_id l \<in> vc_device_id ` set R" if "l \<in> set (List.map_filter (newer_local L) R)" for l
    using that newer_local_SomeD(2) by (fastforce simp: map_filter_def)
  show ?case
    using Cons newer_local_SomeD(2) [of L r]
    by (auto simp: map_filter_simps distinct_devices_def dest: in_R split: option.splits)
qed

lemma clock_map_newer_local:
  assumes "distinct_devices R"
  shows "clock_map (List.map_filter (newer_local L) R) d =
    (case clock_map R d of None \<Rightarrow> None | Some y \<Rightarrow>
      (case clock_map L d of None \<Rightarrow> None | Some x \<Rightarrow> if y < x then Some x else None))"
    (is "?lhs = ?rhs")
proof (rule option_eqI)
  fix x
  have "?lhs = Some x \<longleftrightarrow>
      (\<exists>l \<in> set (List.map_filter (newer_local L) R). vc_device_id l = d \<and> vc_clock_value l = x)"
    by (rule clock_map_Some_iff [OF map_filter_newer_local_devices [OF assms]])
  also have "\<dots> \<longleftrightarrow> (\<exists>r \<in> set R. \<exists>l. newer_local L r = Some l \<and> vc_device_id l = d \<and> vc_clock_value l = x)"
    by (force simp: map_filter_def)
  also have "\<dots> \<longleftrightarrow> (\<exists>r \<in> set R. vc_device_id r = d \<and> clock_map L d = Some x \<and> vc_clock_value r < x)"
  proof (rule bex_cong [OF refl])
    fix r
    show "(\<exists>l. newer_local L r = Some l \<and> vc_device_id l = d \<and> vc_clock_value l = x) \<longleftrightarrow>
        vc_device_id r = d \<and> clock_map L d = Some x \<and> vc_clock_value r < x" (is "?a \<longleftrightarrow> ?b")
    proof
      assume ?a then show ?b using newer_local_SomeD by metis
    next
      assume b: ?b
      then obtain l where l: "List.find (\<lambda>c. vc_device_id c = d) L = Some l" "vc_clock_value l = x"
        by (auto simp: clock_map_find)
      with b find_SomeD [OF l(1)] show ?a by (auto simp: newer_local_Some_iff)
    qed
  qed
  also have "\<dots> \<longleftrightarrow> (\<exists>y. clock_map R d = Some y \<and> clock_map L d = Some x \<and> y < x)"
    by (auto simp: clock_map_Some_iff [OF assms])
  also have "\<dots> \<longleftrightarrow> ?rhs = Some x"
    by (auto split: option.splits)
  finally show "?lhs = Some x \<longleftrightarrow> ?rhs = Some x" .
qed

lemma clock_map_newer_remote:
  assumes "distinct_devices R"
  shows "clock_map (filter (newer_remote L) R) d =
    (case clock_map R d of None \<Rightarrow> None | Some y \<Rightarrow>
      (case clock_map L d of None \<Rightarrow> None | Some x \<Rightarrow> if x < y then Some y else None))"
    (is "?lhs = ?rhs")
proof (rule option_eqI)
  fix y
  have "?lhs = Some y \<longleftrightarrow> (\<exists>x. clock_map L d = Some x \<and> clock_map R d = Some y \<and> x < y)"
    by (auto simp: clock_map_filter [OF assms] newer_remote_iff clock_map_Some_iff [OF assms])
  also have "\<dots> \<longleftrightarrow> ?rhs = Some y" by (auto split: option.splits)
  finally show "?lhs = Some y \<longleftrightarrow> ?rhs = Some y" .
qed

lemma clock_map_lacking:
  assumes "distinct_devices R"
  shows "clock_map (filter (lacks_device L) R) d =
    (if clock_map L d = None then clock_map R d else None)" (is "?lhs = ?rhs")
proof (rule option_eqI)
  fix y
  show "?lhs = Some y \<longleftrightarrow> ?rhs = Some y"
    by (auto simp: clock_map_filter [OF assms] lacks_device_def clock_map_Some_iff [OF assms])
qed

text \<open>
  The two halves of the merge result bring either side to the join of the two views.
\<close>

lemma merge_local_join:
  assumes "distinct_devices L" "distinct_devices R"
  shows "view_update (clock_map L) (mr_update_local (vc_merge L R)) (mr_add_local (vc_merge L R))
    = vjoin (clock_map L) (clock_map R)" (is "?v = ?j")
proof
  fix d
  show "?v d = ?j d"
    by (simp add: view_update_def vjoin_def vc_merge_eq max_def clock_map_lacking [OF assms(2)]
        clock_map_newer_remote [OF assms(2)] split: option.splits) auto
qed

lemma merge_remote_join:
  assumes "distinct_devices L" "distinct_devices R"
  shows "view_update (clock_map R) (mr_update_remote (vc_merge L R)) (mr_add_remote (vc_merge L R))
    = vjoin (clock_map L) (clock_map R)" (is "?v = ?j")
proof
  fix d
  show "?v d = ?j d"
    by (simp add: view_update_def vjoin_def vc_merge_eq max_def clock_map_lacking [OF assms(1)]
        clock_map_newer_local [OF assms(2)] split: option.splits) auto
qed

lemma merge_local_flag:
  assumes "distinct_devices R"
  shows "mr_local_needs_update (vc_merge L R) \<longleftrightarrow> vjoin (clock_map L) (clock_map R) \<noteq> clock_map L"
proof
  assume "mr_local_needs_update (vc_merge L R)"
  then obtain r where r: "r \<in> set R" "newer_remote L r \<or> lacks_device L r"
    by (auto simp: vc_merge_eq)
  then have "clock_map R (vc_device_id r) = Some (vc_clock_value r)"
    using clock_map_Some_iff [OF assms] by blast
  with r(2) have "vjoin (clock_map L) (clock_map R) (vc_device_id r) \<noteq> clock_map L (vc_device_id r)"
    by (auto simp: vjoin_def newer_remote_iff lacks_device_def max_def split: option.splits)
  then show "vjoin (clock_map L) (clock_map R) \<noteq> clock_map L" by metis
next
  assume "vjoin (clock_map L) (clock_map R) \<noteq> clock_map L"
  then obtain d where d: "vjoin (clock_map L) (clock_map R) d \<noteq> clock_map L d" by blast
  then obtain y where y: "clock_map R d = Some y"
    by (auto simp: vjoin_def split: option.splits)
  then obtain r where "r \<in> set R" "vc_device_id r = d" "vc_clock_value r = y"
    using clock_map_SomeD by blast
  with d y show "mr_local_needs_update (vc_merge L R)"
    by (auto simp: vc_merge_eq newer_remote_iff lacks_device_def vjoin_def max_def
        split: option.splits if_splits intro!: bexI [of _ r])
qed

lemma vc_merge_idem:
  assumes "distinct_devices L"
  shows "vc_merge L L = empty_merge"
proof -
  have self: "clock_map L (vc_device_id l) = Some (vc_clock_value l)" if "l \<in> set L" for l
    using that clock_map_Some_iff [OF assms] by blast
  have none: "newer_local L l = None" if "l \<in> set L" for l
    using self [OF that] by (simp add: newer_local_None_iff)
  show ?thesis
    using self none by (auto simp: vc_merge_eq empty_merge_def newer_remote_iff lacks_device_def
        filter_empty_conv map_filter_def)
qed

end
