(* ===== verification/Row_Models.thy ===== *)
theory Row_Models
  imports Vector_Clock
begin

text \<open>
  \<open>persistance/src/models.rs\<close> and \<open>persistance/src/database/schema.rs\<close>: the rows of the SQLite
  tables and the conversions between them and the domain types.

  A row record has the columns of its table. Writing a value (\<open>Insertable\<close>) fills the columns
  by name. Reading one has two forms in diesel: \<open>as_select()\<close> (\<open>Selectable\<close>) reads the columns
  by name, while loading a whole table row (\<open>Queryable\<close>) assigns the columns to the fields of
  the struct by position. The second form is written here as the pair of the tuple of columns in
  the order of \<open>schema.rs\<close> and a function from tuples in the order of the struct's fields.
  \<open>FolderModel\<close>, \<open>DeviceModel\<close> and \<open>UserModel\<close> list \<open>created_at\<close> before \<open>updated_at\<close>, their
  tables the other way round; the five other structs follow their table.
\<close>

section \<open>Rows\<close>

record users_row =
  ur_id :: ident
  ur_username :: string
  ur_public_key :: string
  ur_updated_at :: millis
  ur_created_at :: millis
  ur_signature :: string
  ur_ucan_token :: string
  ur_ucan_pub_key :: string
  ur_ucan_cid :: string
  ur_owner :: bool
  ur_first_sync :: bool
  ur_deleted :: bool
  ur_deleted_at :: "millis option"

record folders_row =
  fr_id :: ident
  fr_name :: string
  fr_description :: "string option"
  fr_default_folder :: bool
  fr_parent_folder_id :: "ident option"
  fr_deleted :: bool
  fr_deleted_at :: "millis option"
  fr_updated_at :: millis
  fr_created_at :: millis

record devices_row =
  dr_id :: ident
  dr_device_key :: string
  dr_user_id :: ident
  dr_updated_at :: millis
  dr_created_at :: millis
  dr_last_synced_at :: "millis option"

record resources_row =
  rr_id :: ident
  rr_resource_type :: string
  rr_data :: string
  rr_folder_id :: ident
  rr_created_folder_id :: ident
  rr_signature :: string
  rr_favourite :: bool
  rr_created_by :: ident
  rr_last_accessed :: millis
  rr_deleted :: bool
  rr_deleted_at :: "millis option"
  rr_updated_at :: millis
  rr_created_at :: millis

record clocks_row =
  cr_id :: ident
  cr_resource_id :: ident
  cr_device_id :: ident
  cr_clock_value :: i32
  cr_created_at :: millis
  cr_updated_at :: millis

record keys_row =
  kr_id :: ident
  kr_resource_id :: ident
  kr_user_id :: ident
  kr_encrypted_key :: string
  kr_is_owner :: bool
  kr_created_at :: millis
  kr_updated_at :: millis

record shares_row =
  sr_id :: ident
  sr_resource_id :: ident
  sr_shared_by_user_id :: ident
  sr_recipient_user_id :: ident
  sr_permission_level :: string
  sr_ucan_token :: string
  sr_ucan_cid :: string
  sr_operation_type :: string
  sr_created_at :: millis
  sr_updated_at :: millis

record fshares_row =
  fs_id :: ident
  fs_folder_id :: ident
  fs_shared_by_user_id :: ident
  fs_recipient_user_id :: ident
  fs_permission_level :: string
  fs_ucan_token :: string
  fs_ucan_cid :: string
  fs_operation_type :: string
  fs_created_at :: millis
  fs_updated_at :: millis

record store_row =
  st_key :: string
  st_value :: string
  st_updated_at :: millis

section \<open>Folders\<close>

definition folder_to_row :: "folder \<Rightarrow> folders_row" where
  "folder_to_row f =
     \<lparr>fr_id = fol_id f, fr_name = fol_name f, fr_description = fol_description f,
      fr_default_folder = fol_default_folder f, fr_parent_folder_id = fol_parent_folder_id f,
      fr_deleted = fol_deleted f, fr_deleted_at = fol_deleted_at f,
      fr_updated_at = fol_updated_at f, fr_created_at = fol_created_at f\<rparr>"

type_synonym folder_tuple =
  "ident \<times> string \<times> string option \<times> bool \<times> ident option \<times> bool \<times> millis option \<times> millis \<times> millis"

definition folders_columns :: "folders_row \<Rightarrow> folder_tuple" where
  "folders_columns r =
     (fr_id r, fr_name r, fr_description r, fr_default_folder r, fr_parent_folder_id r,
      fr_deleted r, fr_deleted_at r, fr_updated_at r, fr_created_at r)"

fun folder_queryable :: "folder_tuple \<Rightarrow> folder" where
  "folder_queryable (i, name, description, default_folder, parent_folder_id, deleted, deleted_at,
     created_at, updated_at) =
     \<lparr>fol_id = i, fol_name = name, fol_default_folder = default_folder,
      fol_parent_folder_id = parent_folder_id, fol_description = description,
      fol_created_at = created_at, fol_updated_at = updated_at, fol_deleted = deleted,
      fol_deleted_at = deleted_at\<rparr>"

definition folder_load :: "folders_row \<Rightarrow> folder" where
  "folder_load r = folder_queryable (folders_columns r)"

section \<open>Devices\<close>

definition device_to_row :: "device \<Rightarrow> devices_row" where
  "device_to_row d =
     \<lparr>dr_id = dev_id d, dr_device_key = dev_device_key d, dr_user_id = dev_user_id d,
      dr_updated_at = dev_updated_at d, dr_created_at = dev_created_at d,
      dr_last_synced_at = dev_last_synced_at d\<rparr>"

type_synonym device_tuple = "ident \<times> string \<times> ident \<times> millis \<times> millis \<times> millis option"

definition devices_columns :: "devices_row \<Rightarrow> device_tuple" where
  "devices_columns r =
     (dr_id r, dr_device_key r, dr_user_id r, dr_updated_at r, dr_created_at r, dr_last_synced_at r)"

fun device_queryable :: "device_tuple \<Rightarrow> device" where
  "device_queryable (i, device_key, user_id, created_at, updated_at, last_synced_at) =
     \<lparr>dev_id = i, dev_device_key = device_key, dev_user_id = user_id,
      dev_created_at = created_at, dev_updated_at = updated_at,
      dev_last_synced_at = last_synced_at\<rparr>"

definition device_load :: "devices_row \<Rightarrow> device" where
  "device_load r = device_queryable (devices_columns r)"

section \<open>Users\<close>

definition user_to_row :: "user \<Rightarrow> users_row" where
  "user_to_row u =
     \<lparr>ur_id = usr_id u, ur_username = usr_username u, ur_public_key = usr_public_key u,
      ur_updated_at = usr_updated_at u, ur_created_at = usr_created_at u,
      ur_signature = usr_signature u, ur_ucan_token = usr_ucan_token u,
      ur_ucan_pub_key = usr_ucan_pub_key u, ur_ucan_cid = usr_ucan_cid u, ur_owner = usr_owner u,
      ur_first_sync = usr_first_sync u, ur_deleted = usr_deleted u,
      ur_deleted_at = usr_deleted_at u\<rparr>"

type_synonym user_tuple =
  "ident \<times> string \<times> string \<times> millis \<times> millis \<times> string \<times> string \<times> string \<times> string \<times> bool \<times> bool
     \<times> bool \<times> millis option"

definition users_columns :: "users_row \<Rightarrow> user_tuple" where
  "users_columns r =
     (ur_id r, ur_username r, ur_public_key r, ur_updated_at r, ur_created_at r, ur_signature r,
      ur_ucan_token r, ur_ucan_pub_key r, ur_ucan_cid r, ur_owner r, ur_first_sync r,
      ur_deleted r, ur_deleted_at r)"

fun user_queryable :: "user_tuple \<Rightarrow> user" where
  "user_queryable (i, username, public_key, created_at, updated_at, signature, ucan_token,
     ucan_pub_key, ucan_cid, owner, first_sync, deleted, deleted_at) =
     \<lparr>usr_id = i, usr_username = username, usr_public_key = public_key,
      usr_created_at = created_at, usr_signature = signature, usr_ucan_token = ucan_token,
      usr_ucan_pub_key = ucan_pub_key, usr_ucan_cid = ucan_cid, usr_first_sync = first_sync,
      usr_updated_at = updated_at, usr_owner = owner, usr_deleted = deleted,
      usr_deleted_at = deleted_at\<rparr>"

definition user_load :: "users_row \<Rightarrow> user" where
  "user_load r = user_queryable (users_columns r)"

text \<open>\<open>UserModel::as_select()\<close>: the columns are read in the order of the struct's fields.\<close>

definition user_select :: "users_row \<Rightarrow> user" where
  "user_select r = user_queryable
     (ur_id r, ur_username r, ur_public_key r, ur_created_at r, ur_updated_at r, ur_signature r,
      ur_ucan_token r, ur_ucan_pub_key r, ur_ucan_cid r, ur_owner r, ur_first_sync r,
      ur_deleted r, ur_deleted_at r)"

section \<open>Resources, keys, clocks and share records\<close>

definition resource_to_row :: "resource \<Rightarrow> resources_row" where
  "resource_to_row r =
     \<lparr>rr_id = res_id r, rr_resource_type = resource_type_to_string (res_resource_type r),
      rr_data = res_data r, rr_folder_id = res_folder_id r,
      rr_created_folder_id = res_created_folder_id r, rr_signature = res_signature r,
      rr_favourite = res_favourite r, rr_created_by = res_created_by r,
      rr_last_accessed = res_last_accessed r, rr_deleted = res_deleted r,
      rr_deleted_at = res_deleted_at r, rr_updated_at = res_updated_at r,
      rr_created_at = res_created_at r\<rparr>"

definition resource_load :: "resources_row \<Rightarrow> resource" where
  "resource_load r =
     \<lparr>res_id = rr_id r, res_resource_type = resource_type_from_str (rr_resource_type r),
      res_data = rr_data r, res_folder_id = rr_folder_id r,
      res_created_folder_id = rr_created_folder_id r, res_signature = rr_signature r,
      res_created_at = rr_created_at r, res_updated_at = rr_updated_at r,
      res_favourite = rr_favourite r, res_created_by = rr_created_by r,
      res_last_accessed = rr_last_accessed r, res_deleted = rr_deleted r,
      res_deleted_at = rr_deleted_at r\<rparr>"

definition resource_key_to_row :: "resource_key \<Rightarrow> keys_row" where
  "resource_key_to_row k =
     \<lparr>kr_id = key_id k, kr_resource_id = key_resource_id k, kr_user_id = key_user_id k,
      kr_encrypted_key = key_encrypted_key k, kr_is_owner = key_is_owner k,
      kr_created_at = key_created_at k, kr_updated_at = key_updated_at k\<rparr>"

definition resource_key_load :: "keys_row \<Rightarrow> resource_key" where
  "resource_key_load r =
     \<lparr>key_id = kr_id r, key_resource_id = kr_resource_id r, key_user_id = kr_user_id r,
      key_encrypted_key = kr_encrypted_key r, key_is_owner = kr_is_owner r,
      key_created_at = kr_created_at r, key_updated_at = kr_updated_at r\<rparr>"

text \<open>\<open>clock_value as i32\<close> keeps the low 32 bits, \<open>clock_value as u64\<close> extends the sign.\<close>

definition clock_to_row :: "resource_vector_clock \<Rightarrow> clocks_row" where
  "clock_to_row c =
     \<lparr>cr_id = vc_id c, cr_resource_id = vc_resource_id c, cr_device_id = vc_device_id c,
      cr_clock_value = ucast (vc_clock_value c), cr_created_at = vc_created_at c,
      cr_updated_at = vc_updated_at c\<rparr>"

definition clock_load :: "clocks_row \<Rightarrow> resource_vector_clock" where
  "clock_load r =
     \<lparr>vc_id = cr_id r, vc_resource_id = cr_resource_id r, vc_device_id = cr_device_id r,
      vc_clock_value = scast (cr_clock_value r), vc_created_at = cr_created_at r,
      vc_updated_at = cr_updated_at r\<rparr>"

definition share_record_to_row :: "share_record \<Rightarrow> shares_row" where
  "share_record_to_row s =
     \<lparr>sr_id = shr_id s, sr_resource_id = shr_resource_id s,
      sr_shared_by_user_id = shr_shared_by_user_id s,
      sr_recipient_user_id = shr_recipient_user_id s,
      sr_permission_level = permission_level_to_string (shr_permission_level s),
      sr_ucan_token = shr_ucan_token s, sr_ucan_cid = shr_ucan_cid s,
      sr_operation_type = share_operation_to_string (shr_operation_type s),
      sr_created_at = shr_created_at s, sr_updated_at = shr_updated_at s\<rparr>"

definition share_record_load :: "shares_row \<Rightarrow> share_record" where
  "share_record_load r =
     \<lparr>shr_id = sr_id r, shr_resource_id = sr_resource_id r,
      shr_shared_by_user_id = sr_shared_by_user_id r,
      shr_recipient_user_id = sr_recipient_user_id r,
      shr_permission_level = permission_level_from (sr_permission_level r),
      shr_ucan_token = sr_ucan_token r, shr_ucan_cid = sr_ucan_cid r,
      shr_operation_type = share_operation_from (sr_operation_type r),
      shr_created_at = sr_created_at r, shr_updated_at = sr_updated_at r\<rparr>"

definition folder_share_record_to_row :: "folder_share_record \<Rightarrow> fshares_row" where
  "folder_share_record_to_row s =
     \<lparr>fs_id = fsr_id s, fs_folder_id = fsr_folder_id s,
      fs_shared_by_user_id = fsr_shared_by_user_id s,
      fs_recipient_user_id = fsr_recipient_user_id s,
      fs_permission_level = permission_level_to_string (fsr_permission_level s),
      fs_ucan_token = fsr_ucan_token s, fs_ucan_cid = fsr_ucan_cid s,
      fs_operation_type = share_operation_to_string (fsr_operation_type s),
      fs_created_at = fsr_created_at s, fs_updated_at = fsr_updated_at s\<rparr>"

definition folder_share_record_load :: "fshares_row \<Rightarrow> folder_share_record" where
  "folder_share_record_load r =
     \<lparr>fsr_id = fs_id r, fsr_folder_id = fs_folder_id r,
      fsr_shared_by_user_id = fs_shared_by_user_id r,
      fsr_recipient_user_id = fs_recipient_user_id r,
      fsr_permission_level = permission_level_from (fs_permission_level r),
      fsr_ucan_token = fs_ucan_token r, fsr_ucan_cid = fs_ucan_cid r,
      fsr_operation_type = share_operation_from (fs_operation_type r),
      fsr_created_at = fs_created_at r, fsr_updated_at = fs_updated_at r\<rparr>"

section \<open>Reading back what was written\<close>

text \<open>A clock value that fits the 31 value bits of the column survives the two casts.\<close>

definition clock_fits :: "u64 \<Rightarrow> bool" where
  "clock_fits v \<longleftrightarrow> v < 2147483648"

lemma clock_fits_bits:
  assumes "clock_fits v"
  shows "bit v n \<longleftrightarrow> n < 31 \<and> bit v n"
proof -
  from assms have "unat v < 2 ^ 31"
    by (simp add: clock_fits_def word_less_nat_alt)
  then have "take_bit 31 (unat v) = unat v" by (simp add: take_bit_nat_eq_self)
  then have "take_bit 31 v = v" by (metis unsigned_take_bit_eq word_unat_eq_iff)
  then show ?thesis by (metis bit_take_bit_iff)
qed

lemma scast_ucast_fits:
  assumes "clock_fits v"
  shows "scast (ucast v :: i32) = v"
proof (rule bit_word_eqI)
  fix n assume "n < LENGTH(64)"
  then show "bit (scast (ucast v :: i32) :: u64) n = bit v n"
    using clock_fits_bits [OF assms, of n] clock_fits_bits [OF assms, of 31]
    by (auto simp: bit_signed_iff bit_unsigned_iff min_def)
qed

lemma ucast_scast: "ucast (scast (x :: i32) :: u64) = x"
proof (rule bit_word_eqI)
  fix n assume n: "n < LENGTH(32)"
  then have "n < 31 \<or> n = 31" by auto
  then show "bit (ucast (scast x :: u64) :: i32) n = bit x n"
    by (auto simp: bit_unsigned_iff bit_signed_iff min_def)
qed

lemma ucast_succ: "(ucast (v + 1 :: u64) :: i32) = ucast v + 1"
proof -
  have one: "take_bit 32 (1 :: int) = 1" by simp
  have "take_bit 32 (take_bit 64 (uint v + 1)) = take_bit 32 (uint v + 1)"
    by (simp only: take_bit_take_bit)
  also have "\<dots> = take_bit 32 (take_bit 32 (uint v) + 1)"
    using take_bit_add [of 32 "uint v" 1] one by simp
  finally have eq: "take_bit 32 (take_bit 64 (uint v + 1)) = take_bit 32 (take_bit 32 (uint v) + 1)" .
  have l: "uint (ucast (v + 1) :: i32) = take_bit 32 (take_bit 64 (uint v + 1))"
    by (simp add: unsigned_ucast_eq uint_word_ariths(1) take_bit_eq_mod)
  have r: "uint (ucast v + 1 :: i32) = take_bit 32 (take_bit 32 (uint v) + 1)"
    by (simp add: unsigned_ucast_eq uint_word_ariths(1) take_bit_eq_mod)
  show ?thesis by (rule word_uint_eqI) (simp only: l r eq)
qed

text \<open>Incrementing the column is incrementing the clock, as long as the result fits.\<close>

lemma scast_succ_fits:
  assumes "clock_fits (scast x + 1)"
  shows "(scast (x + 1 :: i32) :: u64) = scast x + 1"
  using scast_ucast_fits [OF assms] by (simp add: ucast_succ ucast_scast)

lemma clock_to_row_load [simp, row_simps]: "clock_to_row (clock_load r) = r"
  by (simp add: clock_to_row_def clock_load_def ucast_scast)

lemma resource_load_to_row [simp, row_simps]: "resource_load (resource_to_row r) = r"
  by (simp add: resource_load_def resource_to_row_def)

lemma resource_key_load_to_row [simp, row_simps]: "resource_key_load (resource_key_to_row k) = k"
  by (simp add: resource_key_load_def resource_key_to_row_def)

lemma share_record_load_to_row [simp, row_simps]: "share_record_load (share_record_to_row s) = s"
  by (simp add: share_record_load_def share_record_to_row_def)

lemma folder_share_record_load_to_row [simp, row_simps]:
  "folder_share_record_load (folder_share_record_to_row s) = s"
  by (simp add: folder_share_record_load_def folder_share_record_to_row_def)

lemma user_select_to_row [simp, row_simps]: "user_select (user_to_row u) = u"
  by (simp add: user_select_def user_to_row_def)

lemma clock_load_to_row [row_simps]: "clock_fits (vc_clock_value c) \<Longrightarrow> clock_load (clock_to_row c) = c"
  by (simp add: clock_load_def clock_to_row_def scast_ucast_fits)

lemma folder_load_to_row [row_simps]:
  "folder_load (folder_to_row f) =
     f\<lparr>fol_created_at := fol_updated_at f, fol_updated_at := fol_created_at f\<rparr>"
  by (simp add: folder_load_def folder_to_row_def folders_columns_def)

lemma device_load_to_row [row_simps]:
  "device_load (device_to_row d) =
     d\<lparr>dev_created_at := dev_updated_at d, dev_updated_at := dev_created_at d\<rparr>"
  by (simp add: device_load_def device_to_row_def devices_columns_def)

lemma user_load_to_row [row_simps]:
  "user_load (user_to_row u) =
     u\<lparr>usr_created_at := usr_updated_at u, usr_updated_at := usr_created_at u\<rparr>"
  by (simp add: user_load_def user_to_row_def users_columns_def)

end
