(* ===== verification/Sql_Table.thy ===== *)
theory Sql_Table
  imports Row_Models
begin

text \<open>
  SQL statements on one table. A table is the list of its rows in insertion order; its
  uniqueness constraints are a relation \<open>clash\<close> (two rows that may not both be there) and its
  foreign keys a predicate \<open>refs\<close> on the row to insert. The operations are the statements the
  repositories use: \<open>INSERT\<close>, \<open>INSERT .. ON CONFLICT (c) DO NOTHING\<close>,
  \<open>INSERT .. ON CONFLICT (c) DO UPDATE\<close>, \<open>UPDATE\<close> and \<open>DELETE\<close>. As SQLite documents it, the
  conflict target of an \<open>ON CONFLICT\<close> clause is tested before the other constraints.

  The locale \<open>sql_table\<close> is the interface the repositories rely on; each table of the schema
  is an interpretation of it.
\<close>

datatype sql_error = UniqueViolation | ForeignKeyViolation | RollbackTransaction

definition tbl_insert ::
  "('r \<Rightarrow> 'r \<Rightarrow> bool) \<Rightarrow> ('r \<Rightarrow> bool) \<Rightarrow> 'r \<Rightarrow> 'r list \<Rightarrow> sql_error + 'r list" where
  "tbl_insert clash refs row t =
     (if list_ex (clash row) t then Inl UniqueViolation
      else if \<not> refs row then Inl ForeignKeyViolation
      else Inr (t @ [row]))"

definition tbl_insert_ignore ::
  "('r \<Rightarrow> 'r \<Rightarrow> bool) \<Rightarrow> ('r \<Rightarrow> 'r \<Rightarrow> bool) \<Rightarrow> ('r \<Rightarrow> bool) \<Rightarrow> 'r \<Rightarrow> 'r list
     \<Rightarrow> sql_error + 'r list" where
  "tbl_insert_ignore target clash refs row t =
     (if list_ex (target row) t then Inr t else tbl_insert clash refs row t)"

definition tbl_upsert ::
  "('r \<Rightarrow> 'r \<Rightarrow> bool) \<Rightarrow> ('r \<Rightarrow> 'r) \<Rightarrow> ('r \<Rightarrow> 'r \<Rightarrow> bool) \<Rightarrow> ('r \<Rightarrow> bool) \<Rightarrow> 'r \<Rightarrow> 'r list
     \<Rightarrow> sql_error + 'r list" where
  "tbl_upsert target upd clash refs row t =
     (if list_ex (target row) t then Inr (map (\<lambda>r. if target row r then upd r else r) t)
      else tbl_insert clash refs row t)"

definition tbl_update :: "('r \<Rightarrow> bool) \<Rightarrow> ('r \<Rightarrow> 'r) \<Rightarrow> 'r list \<Rightarrow> 'r list" where
  "tbl_update p upd t = map (\<lambda>r. if p r then upd r else r) t"

definition tbl_delete :: "('r \<Rightarrow> bool) \<Rightarrow> 'r list \<Rightarrow> 'r list" where
  "tbl_delete p t = filter (\<lambda>r. \<not> p r) t"

text \<open>No two rows of a table clash.\<close>

definition clash_free :: "('r \<Rightarrow> 'r \<Rightarrow> bool) \<Rightarrow> 'r list \<Rightarrow> bool" where
  "clash_free clash t \<longleftrightarrow> sorted_wrt (\<lambda>a b. \<not> clash a b) t"

lemma clash_free_Nil [simp]: "clash_free clash []"
  by (simp add: clash_free_def)

locale sql_table =
  fixes pk :: "'r \<Rightarrow> 'k"
    and clash :: "'r \<Rightarrow> 'r \<Rightarrow> bool"
  assumes pk_clash: "pk a = pk b \<Longrightarrow> clash a b"
    and clash_sym: "clash a b \<Longrightarrow> clash b a"
begin

lemma clash_free_distinct: "clash_free clash t \<Longrightarrow> distinct (map pk t)"
  by (induction t) (auto simp: clash_free_def pk_clash)

lemma clash_free_eq:
  assumes "clash_free clash t" "a \<in> set t" "b \<in> set t" "clash a b"
  shows "a = b"
  using assms by (induction t) (auto simp: clash_free_def dest: clash_sym)

lemma insert_clash_free:
  assumes "clash_free clash t" "tbl_insert clash refs row t = Inr t'"
  shows "clash_free clash t'"
  using assms
  by (auto simp: tbl_insert_def clash_free_def sorted_wrt_append list_ex_iff split: if_splits)
    (blast dest: clash_sym)

lemma insert_ignore_clash_free:
  assumes "clash_free clash t" "tbl_insert_ignore target clash refs row t = Inr t'"
  shows "clash_free clash t'"
  using assms insert_clash_free by (auto simp: tbl_insert_ignore_def split: if_splits)

lemma update_clash_free:
  assumes same: "\<And>r r'. clash (upd r) r' = clash r r'"
  shows "clash_free clash t \<Longrightarrow> clash_free clash (tbl_update p upd t)"
proof -
  have same': "clash r (upd r') = clash r r'" for r r'
    using same clash_sym by metis
  have "clash (if p a then upd a else a) (if p b then upd b else b) = clash a b" for a b
    by (simp add: same same')
  then show "clash_free clash t \<Longrightarrow> clash_free clash (tbl_update p upd t)"
    by (simp add: clash_free_def tbl_update_def sorted_wrt_map)
qed

lemma upsert_clash_free:
  assumes "\<And>r r'. clash (upd r) r' = clash r r'"
    and "clash_free clash t" "tbl_upsert target upd clash refs row t = Inr t'"
  shows "clash_free clash t'"
  using assms(3) update_clash_free [OF assms(1) assms(2), of "target row"]
    insert_clash_free [OF assms(2)]
  by (auto simp: tbl_upsert_def tbl_update_def split: if_splits)

lemma delete_clash_free: "clash_free clash t \<Longrightarrow> clash_free clash (tbl_delete p t)"
  by (simp add: clash_free_def tbl_delete_def sorted_wrt_filter)

lemma lookup_insert:
  assumes "tbl_insert clash refs row t = Inr t'"
  shows "List.find (\<lambda>r. pk r = k) t' = (if k = pk row then Some row else List.find (\<lambda>r. pk r = k) t)"
proof -
  from assms have t': "t' = t @ [row]" and nc: "\<not> list_ex (clash row) t"
    by (auto simp: tbl_insert_def split: if_splits)
  from nc have "List.find (\<lambda>r. pk r = pk row) t = None"
    using pk_clash [of row] by (force simp: find_None_iff_ex list_ex_iff)
  then show ?thesis by (simp add: t' find_append split: option.splits)
qed

lemma insert_ignore_idem:
  assumes "tbl_insert_ignore (\<lambda>a b. pk b = pk a) clash refs row t = Inr t'"
  shows "tbl_insert_ignore (\<lambda>a b. pk b = pk a) clash refs row t' = Inr t'"
  using assms by (auto simp: tbl_insert_ignore_def tbl_insert_def list_ex_iff split: if_splits)

lemma insert_ignore_set:
  assumes "tbl_insert_ignore (\<lambda>a b. pk b = pk a) clash refs row t = Inr t'"
  shows "set t \<subseteq> set t'" "set t' \<subseteq> insert row (set t)" "pk row \<in> pk ` set t'"
  using assms
  by (auto simp: tbl_insert_ignore_def tbl_insert_def list_ex_iff image_iff split: if_splits)
    (metis+)

end

lemma tbl_insert_rows: "tbl_insert clash refs row t = Inr t' \<Longrightarrow> t' = t @ [row] \<and> refs row"
  by (auto simp: tbl_insert_def split: if_splits)

lemma tbl_insert_ignore_rows:
  "tbl_insert_ignore target clash refs row t = Inr t' \<Longrightarrow> t' = t \<or> t' = t @ [row] \<and> refs row"
  by (auto simp: tbl_insert_ignore_def tbl_insert_def split: if_splits)

end
