(* ===== verification/Database.thy ===== *)
theory Database
  imports Sql_Table
begin

text \<open>
  The database of \<open>persistance\<close>: its tables with the constraints of the migration
  \<open>create_initial_schema/up.sql\<close>, the connection pool, transactions, and the errors of
  \<open>core/src/repositories/mod.rs\<close>.

  \<open>pool_src n\<close> says whether the \<open>n\<close>-th \<open>connection.get()\<close> yields a connection; the r2d2 pool
  behind it is not part of the repository. \<open>fk_on\<close> says whether the SQLite build enforces
  foreign keys: the code never sets the pragma, so this is a property of the linked library.
  The text of a database error is only logged; the model keeps its cause.
\<close>

datatype db_cause = ConnectionFailed | StatementFailed sql_error

datatype repository_error = DatabaseError db_cause | NotFound | CustomError string

record world = env +
  pool_src :: "nat \<Rightarrow> bool"
  pool_n :: nat
  fk_on :: bool
  t_users :: "users_row list"
  t_folders :: "folders_row list"
  t_devices :: "devices_row list"
  t_resources :: "resources_row list"
  t_clocks :: "clocks_row list"
  t_keys :: "keys_row list"
  t_shares :: "shares_row list"
  t_store :: "store_row list"
  t_fshares :: "fshares_row list"

type_synonym 'a repo = "(world, repository_error, 'a) sm"
type_synonym 'a stmt = "(world, sql_error, 'a) sm"

section \<open>Constraints\<close>

definition users_clash :: "users_row \<Rightarrow> users_row \<Rightarrow> bool" where
  "users_clash a b \<longleftrightarrow> ur_id a = ur_id b \<or> ur_username a = ur_username b"

definition folders_clash :: "folders_row \<Rightarrow> folders_row \<Rightarrow> bool" where
  "folders_clash a b \<longleftrightarrow> fr_id a = fr_id b"

definition devices_clash :: "devices_row \<Rightarrow> devices_row \<Rightarrow> bool" where
  "devices_clash a b \<longleftrightarrow> dr_id a = dr_id b \<or> dr_device_key a = dr_device_key b"

definition resources_clash :: "resources_row \<Rightarrow> resources_row \<Rightarrow> bool" where
  "resources_clash a b \<longleftrightarrow> rr_id a = rr_id b"

definition clocks_clash :: "clocks_row \<Rightarrow> clocks_row \<Rightarrow> bool" where
  "clocks_clash a b \<longleftrightarrow> cr_id a = cr_id b \<or>
     cr_resource_id a = cr_resource_id b \<and> cr_device_id a = cr_device_id b"

definition keys_clash :: "keys_row \<Rightarrow> keys_row \<Rightarrow> bool" where
  "keys_clash a b \<longleftrightarrow> kr_id a = kr_id b \<or>
     kr_resource_id a = kr_resource_id b \<and> kr_user_id a = kr_user_id b"

definition shares_clash :: "shares_row \<Rightarrow> shares_row \<Rightarrow> bool" where
  "shares_clash a b \<longleftrightarrow> sr_id a = sr_id b"

definition store_clash :: "store_row \<Rightarrow> store_row \<Rightarrow> bool" where
  "store_clash a b \<longleftrightarrow> st_key a = st_key b"

definition fshares_clash :: "fshares_row \<Rightarrow> fshares_row \<Rightarrow> bool" where
  "fshares_clash a b \<longleftrightarrow> fs_id a = fs_id b"

lemmas clash_defs =
  users_clash_def folders_clash_def devices_clash_def resources_clash_def clocks_clash_def
  keys_clash_def shares_clash_def store_clash_def fshares_clash_def

interpretation users_tbl: sql_table ur_id users_clash
  by unfold_locales (auto simp: users_clash_def)

interpretation folders_tbl: sql_table fr_id folders_clash
  by unfold_locales (auto simp: folders_clash_def)

interpretation devices_tbl: sql_table dr_id devices_clash
  by unfold_locales (auto simp: devices_clash_def)

interpretation resources_tbl: sql_table rr_id resources_clash
  by unfold_locales (auto simp: resources_clash_def)

interpretation clocks_tbl: sql_table cr_id clocks_clash
  by unfold_locales (auto simp: clocks_clash_def)

text \<open>The second uniqueness constraint of the clocks, read as a key of its own.\<close>

interpretation clock_entries: sql_table "\<lambda>r. (cr_resource_id r, cr_device_id r)" clocks_clash
  by unfold_locales (auto simp: clocks_clash_def)

interpretation keys_tbl: sql_table kr_id keys_clash
  by unfold_locales (auto simp: keys_clash_def)

interpretation key_holders: sql_table "\<lambda>r. (kr_resource_id r, kr_user_id r)" keys_clash
  by unfold_locales (auto simp: keys_clash_def)

interpretation shares_tbl: sql_table sr_id shares_clash
  by unfold_locales (auto simp: shares_clash_def)

interpretation store_tbl: sql_table st_key store_clash
  by unfold_locales (auto simp: store_clash_def)

interpretation fshares_tbl: sql_table fs_id fshares_clash
  by unfold_locales (auto simp: fshares_clash_def)

definition has_user :: "world \<Rightarrow> ident \<Rightarrow> bool" where
  "has_user w u \<longleftrightarrow> list_ex (\<lambda>r. ur_id r = u) (t_users w)"

definition has_folder :: "world \<Rightarrow> ident \<Rightarrow> bool" where
  "has_folder w f \<longleftrightarrow> list_ex (\<lambda>r. fr_id r = f) (t_folders w)"

definition has_device :: "world \<Rightarrow> ident \<Rightarrow> bool" where
  "has_device w d \<longleftrightarrow> list_ex (\<lambda>r. dr_id r = d) (t_devices w)"

definition has_resource :: "world \<Rightarrow> ident \<Rightarrow> bool" where
  "has_resource w i \<longleftrightarrow> list_ex (\<lambda>r. rr_id r = i) (t_resources w)"

lemmas has_defs = has_user_def has_folder_def has_device_def has_resource_def

definition devices_refs :: "world \<Rightarrow> devices_row \<Rightarrow> bool" where
  "devices_refs w r \<longleftrightarrow> (fk_on w \<longrightarrow> has_user w (dr_user_id r))"

definition resources_refs :: "world \<Rightarrow> resources_row \<Rightarrow> bool" where
  "resources_refs w r \<longleftrightarrow>
     (fk_on w \<longrightarrow> has_folder w (rr_folder_id r) \<and> has_user w (rr_created_by r))"

definition clocks_refs :: "world \<Rightarrow> clocks_row \<Rightarrow> bool" where
  "clocks_refs w r \<longleftrightarrow>
     (fk_on w \<longrightarrow> has_resource w (cr_resource_id r) \<and> has_device w (cr_device_id r))"

definition keys_refs :: "world \<Rightarrow> keys_row \<Rightarrow> bool" where
  "keys_refs w r \<longleftrightarrow>
     (fk_on w \<longrightarrow> has_resource w (kr_resource_id r) \<and> has_user w (kr_user_id r))"

definition shares_refs :: "world \<Rightarrow> shares_row \<Rightarrow> bool" where
  "shares_refs w r \<longleftrightarrow>
     (fk_on w \<longrightarrow> has_resource w (sr_resource_id r) \<and> has_user w (sr_shared_by_user_id r) \<and>
        has_user w (sr_recipient_user_id r))"

definition fshares_refs :: "world \<Rightarrow> fshares_row \<Rightarrow> bool" where
  "fshares_refs w r \<longleftrightarrow>
     (fk_on w \<longrightarrow> has_folder w (fs_folder_id r) \<and> has_user w (fs_shared_by_user_id r) \<and>
        has_user w (fs_recipient_user_id r))"

lemmas refs_defs =
  devices_refs_def resources_refs_def clocks_refs_def keys_refs_def shares_refs_def
  fshares_refs_def

definition no_refs :: "world \<Rightarrow> 'r \<Rightarrow> bool" where
  "no_refs w r \<longleftrightarrow> True"

section \<open>Statements\<close>

text \<open>A statement rewrites one table; an error leaves every table as it was.\<close>

definition on_table ::
  "(world \<Rightarrow> 'r list) \<Rightarrow> ('r list \<Rightarrow> world \<Rightarrow> world)
     \<Rightarrow> (world \<Rightarrow> 'r list \<Rightarrow> sql_error + 'r list) \<Rightarrow> unit stmt" where
  "on_table get put f w =
     (case f w (get w) of Inl e \<Rightarrow> (Inl e, w) | Inr t \<Rightarrow> (Inr (), put t w))"

lemma on_table_eq_Inr:
  "on_table get put f w = (Inr x, w1) \<longleftrightarrow> (\<exists>t. f w (get w) = Inr t \<and> w1 = put t w)"
  by (auto simp: on_table_def split: sum.splits)

definition put_users :: "users_row list \<Rightarrow> world \<Rightarrow> world" where
  "put_users t w = w\<lparr>t_users := t\<rparr>"
definition put_folders :: "folders_row list \<Rightarrow> world \<Rightarrow> world" where
  "put_folders t w = w\<lparr>t_folders := t\<rparr>"
definition put_devices :: "devices_row list \<Rightarrow> world \<Rightarrow> world" where
  "put_devices t w = w\<lparr>t_devices := t\<rparr>"
definition put_resources :: "resources_row list \<Rightarrow> world \<Rightarrow> world" where
  "put_resources t w = w\<lparr>t_resources := t\<rparr>"
definition put_clocks :: "clocks_row list \<Rightarrow> world \<Rightarrow> world" where
  "put_clocks t w = w\<lparr>t_clocks := t\<rparr>"
definition put_keys :: "keys_row list \<Rightarrow> world \<Rightarrow> world" where
  "put_keys t w = w\<lparr>t_keys := t\<rparr>"
definition put_shares :: "shares_row list \<Rightarrow> world \<Rightarrow> world" where
  "put_shares t w = w\<lparr>t_shares := t\<rparr>"
definition put_store :: "store_row list \<Rightarrow> world \<Rightarrow> world" where
  "put_store t w = w\<lparr>t_store := t\<rparr>"
definition put_fshares :: "fshares_row list \<Rightarrow> world \<Rightarrow> world" where
  "put_fshares t w = w\<lparr>t_fshares := t\<rparr>"

lemmas put_defs =
  put_users_def put_folders_def put_devices_def put_resources_def put_clocks_def put_keys_def
  put_shares_def put_store_def put_fshares_def

definition ins_user :: "users_row \<Rightarrow> unit stmt" where
  "ins_user r = on_table t_users put_users (\<lambda>w. tbl_insert users_clash (no_refs w) r)"

definition ins_user_ignore :: "users_row \<Rightarrow> unit stmt" where
  "ins_user_ignore r = on_table t_users put_users
     (\<lambda>w. tbl_insert_ignore (\<lambda>a b. ur_id b = ur_id a) users_clash (no_refs w) r)"

definition ups_user :: "(users_row \<Rightarrow> users_row) \<Rightarrow> users_row \<Rightarrow> unit stmt" where
  "ups_user upd r = on_table t_users put_users
     (\<lambda>w. tbl_upsert (\<lambda>a b. ur_id b = ur_id a) upd users_clash (no_refs w) r)"

definition upd_users :: "(users_row \<Rightarrow> bool) \<Rightarrow> (users_row \<Rightarrow> users_row) \<Rightarrow> unit stmt" where
  "upd_users p upd = on_table t_users put_users (\<lambda>_ t. Inr (tbl_update p upd t))"

definition ins_folder :: "folders_row \<Rightarrow> unit stmt" where
  "ins_folder r = on_table t_folders put_folders (\<lambda>w. tbl_insert folders_clash (no_refs w) r)"

definition ins_folder_ignore :: "folders_row \<Rightarrow> unit stmt" where
  "ins_folder_ignore r = on_table t_folders put_folders
     (\<lambda>w. tbl_insert_ignore (\<lambda>a b. fr_id b = fr_id a) folders_clash (no_refs w) r)"

definition ups_folder :: "(folders_row \<Rightarrow> folders_row) \<Rightarrow> folders_row \<Rightarrow> unit stmt" where
  "ups_folder upd r = on_table t_folders put_folders
     (\<lambda>w. tbl_upsert (\<lambda>a b. fr_id b = fr_id a) upd folders_clash (no_refs w) r)"

definition upd_folders :: "(folders_row \<Rightarrow> bool) \<Rightarrow> (folders_row \<Rightarrow> folders_row) \<Rightarrow> unit stmt" where
  "upd_folders p upd = on_table t_folders put_folders (\<lambda>_ t. Inr (tbl_update p upd t))"

definition ins_device :: "devices_row \<Rightarrow> unit stmt" where
  "ins_device r = on_table t_devices put_devices (\<lambda>w. tbl_insert devices_clash (devices_refs w) r)"

definition ins_device_ignore :: "devices_row \<Rightarrow> unit stmt" where
  "ins_device_ignore r = on_table t_devices put_devices
     (\<lambda>w. tbl_insert_ignore (\<lambda>a b. dr_id b = dr_id a) devices_clash (devices_refs w) r)"

definition upd_devices :: "(devices_row \<Rightarrow> bool) \<Rightarrow> (devices_row \<Rightarrow> devices_row) \<Rightarrow> unit stmt" where
  "upd_devices p upd = on_table t_devices put_devices (\<lambda>_ t. Inr (tbl_update p upd t))"

definition ins_resource :: "resources_row \<Rightarrow> unit stmt" where
  "ins_resource r = on_table t_resources put_resources
     (\<lambda>w. tbl_insert resources_clash (resources_refs w) r)"

definition ins_resource_ignore :: "resources_row \<Rightarrow> unit stmt" where
  "ins_resource_ignore r = on_table t_resources put_resources
     (\<lambda>w. tbl_insert_ignore (\<lambda>a b. rr_id b = rr_id a) resources_clash (resources_refs w) r)"

definition upd_resources ::
  "(resources_row \<Rightarrow> bool) \<Rightarrow> (resources_row \<Rightarrow> resources_row) \<Rightarrow> unit stmt" where
  "upd_resources p upd = on_table t_resources put_resources (\<lambda>_ t. Inr (tbl_update p upd t))"

text \<open>Deleting a resource that a key, a share record or a clock still names violates their keys.\<close>

definition resource_referenced :: "world \<Rightarrow> ident \<Rightarrow> bool" where
  "resource_referenced w i \<longleftrightarrow>
     list_ex (\<lambda>k. kr_resource_id k = i) (t_keys w) \<or> list_ex (\<lambda>s. sr_resource_id s = i) (t_shares w) \<or>
     list_ex (\<lambda>c. cr_resource_id c = i) (t_clocks w)"

definition del_resources :: "(resources_row \<Rightarrow> bool) \<Rightarrow> unit stmt" where
  "del_resources p = on_table t_resources put_resources
     (\<lambda>w t. if fk_on w \<and> list_ex (\<lambda>r. p r \<and> resource_referenced w (rr_id r)) t
            then Inl ForeignKeyViolation else Inr (tbl_delete p t))"

definition ins_clock :: "clocks_row \<Rightarrow> unit stmt" where
  "ins_clock r = on_table t_clocks put_clocks (\<lambda>w. tbl_insert clocks_clash (clocks_refs w) r)"

definition ins_clock_ignore :: "clocks_row \<Rightarrow> unit stmt" where
  "ins_clock_ignore r = on_table t_clocks put_clocks
     (\<lambda>w. tbl_insert_ignore (\<lambda>a b. cr_id b = cr_id a) clocks_clash (clocks_refs w) r)"

definition ups_clock :: "(clocks_row \<Rightarrow> clocks_row) \<Rightarrow> clocks_row \<Rightarrow> unit stmt" where
  "ups_clock upd r = on_table t_clocks put_clocks
     (\<lambda>w. tbl_upsert (\<lambda>a b. cr_resource_id b = cr_resource_id a \<and> cr_device_id b = cr_device_id a)
            upd clocks_clash (clocks_refs w) r)"

definition upd_clocks :: "(clocks_row \<Rightarrow> bool) \<Rightarrow> (clocks_row \<Rightarrow> clocks_row) \<Rightarrow> unit stmt" where
  "upd_clocks p upd = on_table t_clocks put_clocks (\<lambda>_ t. Inr (tbl_update p upd t))"

definition ins_key :: "keys_row \<Rightarrow> unit stmt" where
  "ins_key r = on_table t_keys put_keys (\<lambda>w. tbl_insert keys_clash (keys_refs w) r)"

definition ins_key_ignore :: "keys_row \<Rightarrow> unit stmt" where
  "ins_key_ignore r = on_table t_keys put_keys
     (\<lambda>w. tbl_insert_ignore (\<lambda>a b. kr_id b = kr_id a) keys_clash (keys_refs w) r)"

definition del_keys :: "(keys_row \<Rightarrow> bool) \<Rightarrow> unit stmt" where
  "del_keys p = on_table t_keys put_keys (\<lambda>_ t. Inr (tbl_delete p t))"

definition ins_share :: "shares_row \<Rightarrow> unit stmt" where
  "ins_share r = on_table t_shares put_shares (\<lambda>w. tbl_insert shares_clash (shares_refs w) r)"

definition ins_share_ignore :: "shares_row \<Rightarrow> unit stmt" where
  "ins_share_ignore r = on_table t_shares put_shares
     (\<lambda>w. tbl_insert_ignore (\<lambda>a b. sr_id b = sr_id a) shares_clash (shares_refs w) r)"

definition ins_fshare :: "fshares_row \<Rightarrow> unit stmt" where
  "ins_fshare r = on_table t_fshares put_fshares (\<lambda>w. tbl_insert fshares_clash (fshares_refs w) r)"

definition ins_fshare_ignore :: "fshares_row \<Rightarrow> unit stmt" where
  "ins_fshare_ignore r = on_table t_fshares put_fshares
     (\<lambda>w. tbl_insert_ignore (\<lambda>a b. fs_id b = fs_id a) fshares_clash (fshares_refs w) r)"

definition ins_store :: "store_row \<Rightarrow> unit stmt" where
  "ins_store r = on_table t_store put_store (\<lambda>w. tbl_insert store_clash (no_refs w) r)"

definition ups_store :: "(store_row \<Rightarrow> store_row) \<Rightarrow> store_row \<Rightarrow> unit stmt" where
  "ups_store upd r = on_table t_store put_store
     (\<lambda>w. tbl_upsert (\<lambda>a b. st_key b = st_key a) upd store_clash (no_refs w) r)"

lemmas insert_stmt_defs =
  ins_user_def ins_folder_def ins_device_def ins_resource_def ins_clock_def ins_key_def
  ins_share_def ins_fshare_def ins_store_def

lemmas ignore_stmt_defs =
  ins_user_ignore_def ins_folder_ignore_def ins_device_ignore_def ins_resource_ignore_def
  ins_clock_ignore_def ins_key_ignore_def ins_share_ignore_def ins_fshare_ignore_def

text \<open>An \<open>INSERT\<close> of several rows: all of them or none.\<close>

definition ins_all :: "('r \<Rightarrow> unit stmt) \<Rightarrow> 'r list \<Rightarrow> unit stmt" where
  "ins_all ins rs w = (case sfor ins rs w of (Inl e, _) \<Rightarrow> (Inl e, w) | (Inr x, w') \<Rightarrow> (Inr x, w'))"

section \<open>Connections, transactions, queries\<close>

definition get_conn :: "unit repo" where
  "get_conn w =
     (if pool_src w (pool_n w) then Inr () else Inl (DatabaseError ConnectionFailed),
      w\<lparr>pool_n := Suc (pool_n w)\<rparr>)"

definition with_conn :: "'a repo \<Rightarrow> 'a repo" where
  "with_conn m = sbind get_conn (\<lambda>_. m)"

text \<open>\<open>.execute(&mut *conn).map_err(..)?\<close>\<close>

definition run_stmt :: "'a stmt \<Rightarrow> 'a repo" where
  "run_stmt m = smap_err (\<lambda>e. DatabaseError (StatementFailed e)) m"

text \<open>
  \<open>conn.transaction(..)\<close>: on an error the tables are as before; identifiers drawn and clock
  readings made inside the closure stay used.
\<close>

definition rollback :: "world \<Rightarrow> world \<Rightarrow> world" where
  "rollback w w' = w\<lparr>uuid_n := uuid_n w', time_n := time_n w', pool_n := pool_n w'\<rparr>"

definition transaction :: "'a stmt \<Rightarrow> 'a repo" where
  "transaction m w = (case m w of
     (Inl e, w') \<Rightarrow> (Inl (DatabaseError (StatementFailed e)), rollback w w')
   | (Inr x, w') \<Rightarrow> (Inr x, w'))"

text \<open>\<open>.filter(p).first(..)\<close> with \<open>diesel::NotFound\<close> mapped to \<open>RepositoryError::NotFound\<close>.\<close>

definition first_row :: "(world \<Rightarrow> 'r list) \<Rightarrow> ('r \<Rightarrow> bool) \<Rightarrow> 'r repo" where
  "first_row tbl p w = (case List.find p (tbl w) of None \<Rightarrow> (Inl NotFound, w) | Some r \<Rightarrow> (Inr r, w))"

text \<open>\<open>.filter(p).load(..)\<close>.\<close>

definition load_rows :: "(world \<Rightarrow> 'r list) \<Rightarrow> ('r \<Rightarrow> bool) \<Rightarrow> 'r list repo" where
  "load_rows tbl p = sget (\<lambda>w. filter p (tbl w))"

end
