(* ===== verification/Db_Integrity.thy ===== *)
theory Db_Integrity
  imports Database
begin

text \<open>
  The integrity invariant of the database: no two rows of a table violate a uniqueness
  constraint and, where the build enforces foreign keys, every reference has its row. Every
  statement keeps it; the rules are collected in \<open>stmt_keeps\<close>, from which the repositories'
  operations follow by the rules for \<open>sbind\<close>, \<open>sfor\<close> and \<open>transaction\<close>.
\<close>

named_theorems stmt_keeps \<open>statements that keep the integrity of the database\<close>

definition unique_inv :: "world \<Rightarrow> bool" where
  "unique_inv w \<longleftrightarrow>
     clash_free users_clash (t_users w) \<and> clash_free folders_clash (t_folders w) \<and>
     clash_free devices_clash (t_devices w) \<and> clash_free resources_clash (t_resources w) \<and>
     clash_free clocks_clash (t_clocks w) \<and> clash_free keys_clash (t_keys w) \<and>
     clash_free shares_clash (t_shares w) \<and> clash_free store_clash (t_store w) \<and>
     clash_free fshares_clash (t_fshares w)"

definition ref_inv :: "world \<Rightarrow> bool" where
  "ref_inv w \<longleftrightarrow>
     (\<forall>r \<in> set (t_devices w). devices_refs w r) \<and> (\<forall>r \<in> set (t_resources w). resources_refs w r) \<and>
     (\<forall>r \<in> set (t_clocks w). clocks_refs w r) \<and> (\<forall>r \<in> set (t_keys w). keys_refs w r) \<and>
     (\<forall>r \<in> set (t_shares w). shares_refs w r) \<and> (\<forall>r \<in> set (t_fshares w). fshares_refs w r)"

definition db_inv :: "world \<Rightarrow> bool" where
  "db_inv w \<longleftrightarrow> unique_inv w \<and> ref_inv w"

lemmas db_inv_defs = db_inv_def unique_inv_def ref_inv_def

section \<open>Rewriting one table\<close>

text \<open>A world in which every referenced row of another is still there.\<close>

definition grows :: "world \<Rightarrow> world \<Rightarrow> bool" where
  "grows w w' \<longleftrightarrow> fk_on w' = fk_on w \<and>
     (\<forall>x. has_user w x \<longrightarrow> has_user w' x) \<and> (\<forall>x. has_folder w x \<longrightarrow> has_folder w' x) \<and>
     (\<forall>x. has_device w x \<longrightarrow> has_device w' x) \<and> (\<forall>x. has_resource w x \<longrightarrow> has_resource w' x)"

lemma refs_mono:
  assumes "grows w w'"
  shows "devices_refs w d \<Longrightarrow> devices_refs w' d" "resources_refs w r \<Longrightarrow> resources_refs w' r"
    "clocks_refs w c \<Longrightarrow> clocks_refs w' c" "keys_refs w k \<Longrightarrow> keys_refs w' k"
    "shares_refs w s \<Longrightarrow> shares_refs w' s" "fshares_refs w f \<Longrightarrow> fshares_refs w' f"
  using assms by (auto simp: grows_def refs_defs)

lemma has_put_frame [simp]:
  "has_user (put_folders tf w) x = has_user w x" "has_user (put_devices td w) x = has_user w x"
  "has_user (put_resources tr w) x = has_user w x" "has_user (put_clocks tc w) x = has_user w x"
  "has_user (put_keys tk w) x = has_user w x" "has_user (put_shares ts w) x = has_user w x"
  "has_user (put_store tt w) x = has_user w x" "has_user (put_fshares tg w) x = has_user w x"
  "has_folder (put_users tu w) x = has_folder w x" "has_folder (put_devices td w) x = has_folder w x"
  "has_folder (put_resources tr w) x = has_folder w x" "has_folder (put_clocks tc w) x = has_folder w x"
  "has_folder (put_keys tk w) x = has_folder w x" "has_folder (put_shares ts w) x = has_folder w x"
  "has_folder (put_store tt w) x = has_folder w x" "has_folder (put_fshares tg w) x = has_folder w x"
  "has_device (put_users tu w) x = has_device w x" "has_device (put_folders tf w) x = has_device w x"
  "has_device (put_resources tr w) x = has_device w x" "has_device (put_clocks tc w) x = has_device w x"
  "has_device (put_keys tk w) x = has_device w x" "has_device (put_shares ts w) x = has_device w x"
  "has_device (put_store tt w) x = has_device w x" "has_device (put_fshares tg w) x = has_device w x"
  "has_resource (put_users tu w) x = has_resource w x"
  "has_resource (put_folders tf w) x = has_resource w x"
  "has_resource (put_devices td w) x = has_resource w x"
  "has_resource (put_clocks tc w) x = has_resource w x"
  "has_resource (put_keys tk w) x = has_resource w x"
  "has_resource (put_shares ts w) x = has_resource w x"
  "has_resource (put_store tt w) x = has_resource w x"
  "has_resource (put_fshares tg w) x = has_resource w x"
  by (simp_all add: has_defs put_defs)

lemma db_inv_put_users:
  assumes inv: "db_inv w" and cf: "clash_free users_clash t"
    and ids: "\<And>x. has_user w x \<Longrightarrow> list_ex (\<lambda>r. ur_id r = x) t"
  shows "db_inv (put_users t w)"
proof -
  have g: "grows w (put_users t w)"
    using ids by (simp add: grows_def) (simp add: has_user_def put_users_def)
  show ?thesis
    using inv cf refs_mono [OF g] by (simp add: db_inv_defs) (simp add: put_users_def)
qed

lemma db_inv_put_folders:
  assumes inv: "db_inv w" and cf: "clash_free folders_clash t"
    and ids: "\<And>x. has_folder w x \<Longrightarrow> list_ex (\<lambda>r. fr_id r = x) t"
  shows "db_inv (put_folders t w)"
proof -
  have g: "grows w (put_folders t w)"
    using ids by (simp add: grows_def) (simp add: has_folder_def put_folders_def)
  show ?thesis
    using inv cf refs_mono [OF g] by (simp add: db_inv_defs) (simp add: put_folders_def)
qed

lemma db_inv_put_devices:
  assumes inv: "db_inv w" and cf: "clash_free devices_clash t"
    and ids: "\<And>x. has_device w x \<Longrightarrow> list_ex (\<lambda>r. dr_id r = x) t"
    and refs: "\<And>r. r \<in> set t \<Longrightarrow> devices_refs w r"
  shows "db_inv (put_devices t w)"
proof -
  have g: "grows w (put_devices t w)"
    using ids by (simp add: grows_def) (simp add: has_device_def put_devices_def)
  show ?thesis
    using inv cf refs_mono [OF g] refs by (simp add: db_inv_defs) (simp add: put_devices_def)
qed

text \<open>Resources may also shrink, as long as no remaining row names one that is gone.\<close>

lemma db_inv_put_resources:
  assumes inv: "db_inv w" and cf: "clash_free resources_clash t"
    and ids: "\<And>x. has_resource w x \<Longrightarrow> \<not> fk_on w \<or> \<not> resource_referenced w x \<or> list_ex (\<lambda>r. rr_id r = x) t"
    and refs: "\<And>r. r \<in> set t \<Longrightarrow> resources_refs w r"
  shows "db_inv (put_resources t w)"
proof -
  have has: "has_resource (put_resources t w) x \<longleftrightarrow> list_ex (\<lambda>r. rr_id r = x) t" for x
    by (simp add: has_resource_def put_resources_def)
  have fk: "fk_on (put_resources t w) = fk_on w"
    by (simp add: put_resources_def)
  have "clocks_refs w c \<Longrightarrow> c \<in> set (t_clocks w) \<Longrightarrow> clocks_refs (put_resources t w) c" for c
    using ids [of "cr_resource_id c"]
    by (auto simp: clocks_refs_def has fk resource_referenced_def list_ex_iff)
  moreover have "keys_refs w k \<Longrightarrow> k \<in> set (t_keys w) \<Longrightarrow> keys_refs (put_resources t w) k" for k
    using ids [of "kr_resource_id k"]
    by (auto simp: keys_refs_def has fk resource_referenced_def list_ex_iff)
  moreover have "shares_refs w s \<Longrightarrow> s \<in> set (t_shares w) \<Longrightarrow> shares_refs (put_resources t w) s" for s
    using ids [of "sr_resource_id s"]
    by (auto simp: shares_refs_def has fk resource_referenced_def list_ex_iff)
  moreover have "devices_refs (put_resources t w) d = devices_refs w d"
    "fshares_refs (put_resources t w) f = fshares_refs w f"
    "resources_refs (put_resources t w) r = resources_refs w r" for d f r
    by (simp_all add: refs_defs) (simp_all add: put_defs)
  ultimately show ?thesis
    using inv cf refs by (simp add: db_inv_defs) (simp add: put_resources_def)
qed

text \<open>The tables nothing refers to: only their own rows matter.\<close>

lemma refs_leaf [simp]:
  "devices_refs (put_clocks tc w) = devices_refs w" "devices_refs (put_keys tk w) = devices_refs w"
  "devices_refs (put_shares ts w) = devices_refs w" "devices_refs (put_fshares tg w) = devices_refs w"
  "devices_refs (put_store tt w) = devices_refs w"
  "resources_refs (put_clocks tc w) = resources_refs w" "resources_refs (put_keys tk w) = resources_refs w"
  "resources_refs (put_shares ts w) = resources_refs w"
  "resources_refs (put_fshares tg w) = resources_refs w" "resources_refs (put_store tt w) = resources_refs w"
  "clocks_refs (put_clocks tc w) = clocks_refs w" "clocks_refs (put_keys tk w) = clocks_refs w"
  "clocks_refs (put_shares ts w) = clocks_refs w" "clocks_refs (put_fshares tg w) = clocks_refs w"
  "clocks_refs (put_store tt w) = clocks_refs w"
  "keys_refs (put_clocks tc w) = keys_refs w" "keys_refs (put_keys tk w) = keys_refs w"
  "keys_refs (put_shares ts w) = keys_refs w" "keys_refs (put_fshares tg w) = keys_refs w"
  "keys_refs (put_store tt w) = keys_refs w"
  "shares_refs (put_clocks tc w) = shares_refs w" "shares_refs (put_keys tk w) = shares_refs w"
  "shares_refs (put_shares ts w) = shares_refs w" "shares_refs (put_fshares tg w) = shares_refs w"
  "shares_refs (put_store tt w) = shares_refs w"
  "fshares_refs (put_clocks tc w) = fshares_refs w" "fshares_refs (put_keys tk w) = fshares_refs w"
  "fshares_refs (put_shares ts w) = fshares_refs w" "fshares_refs (put_fshares tg w) = fshares_refs w"
  "fshares_refs (put_store tt w) = fshares_refs w"
  by (rule ext, simp add: refs_defs, simp add: put_defs)+

lemma db_inv_put_clocks:
  "db_inv w \<Longrightarrow> clash_free clocks_clash t \<Longrightarrow> (\<And>r. r \<in> set t \<Longrightarrow> clocks_refs w r) \<Longrightarrow>
     db_inv (put_clocks t w)"
  by (simp add: db_inv_defs) (simp add: put_clocks_def)

lemma db_inv_put_keys:
  "db_inv w \<Longrightarrow> clash_free keys_clash t \<Longrightarrow> (\<And>r. r \<in> set t \<Longrightarrow> keys_refs w r) \<Longrightarrow>
     db_inv (put_keys t w)"
  by (simp add: db_inv_defs) (simp add: put_keys_def)

lemma db_inv_put_shares:
  "db_inv w \<Longrightarrow> clash_free shares_clash t \<Longrightarrow> (\<And>r. r \<in> set t \<Longrightarrow> shares_refs w r) \<Longrightarrow>
     db_inv (put_shares t w)"
  by (simp add: db_inv_defs) (simp add: put_shares_def)

lemma db_inv_put_fshares:
  "db_inv w \<Longrightarrow> clash_free fshares_clash t \<Longrightarrow> (\<And>r. r \<in> set t \<Longrightarrow> fshares_refs w r) \<Longrightarrow>
     db_inv (put_fshares t w)"
  by (simp add: db_inv_defs) (simp add: put_fshares_def)

lemma db_inv_put_store:
  "db_inv w \<Longrightarrow> clash_free store_clash t \<Longrightarrow> db_inv (put_store t w)"
  by (simp add: db_inv_defs) (simp add: put_store_def)

section \<open>Every statement keeps the invariant\<close>

lemma keeps_on_table:
  assumes "\<And>w t'. db_inv w \<Longrightarrow> f w (get w) = Inr t' \<Longrightarrow> db_inv (put t' w)"
  shows "keeps db_inv (on_table get put f)"
  using assms by (simp add: keeps_def on_table_def split: sum.splits)

lemma db_inv_clash_free:
  assumes "db_inv w"
  shows "clash_free users_clash (t_users w)" "clash_free folders_clash (t_folders w)"
    "clash_free devices_clash (t_devices w)" "clash_free resources_clash (t_resources w)"
    "clash_free clocks_clash (t_clocks w)" "clash_free keys_clash (t_keys w)"
    "clash_free shares_clash (t_shares w)" "clash_free store_clash (t_store w)"
    "clash_free fshares_clash (t_fshares w)"
  using assms by (simp_all add: db_inv_defs)

lemma db_inv_refs:
  assumes "db_inv w"
  shows "d \<in> set (t_devices w) \<Longrightarrow> devices_refs w d" "r \<in> set (t_resources w) \<Longrightarrow> resources_refs w r"
    "c \<in> set (t_clocks w) \<Longrightarrow> clocks_refs w c" "k \<in> set (t_keys w) \<Longrightarrow> keys_refs w k"
    "s \<in> set (t_shares w) \<Longrightarrow> shares_refs w s" "f \<in> set (t_fshares w) \<Longrightarrow> fshares_refs w f"
  using assms by (simp_all add: db_inv_defs)

lemma no_refs [simp]: "no_refs w r"
  by (simp add: no_refs_def)

lemma keeps_ins_user [stmt_keeps]: "keeps db_inv (ins_user r)"
  unfolding ins_user_def
  by (rule keeps_on_table, rule db_inv_put_users, assumption,
      erule (1) users_tbl.insert_clash_free [OF db_inv_clash_free(1)])
    (auto simp: has_user_def dest!: tbl_insert_rows)

lemma keeps_ins_user_ignore [stmt_keeps]: "keeps db_inv (ins_user_ignore r)"
  unfolding ins_user_ignore_def
  by (rule keeps_on_table, rule db_inv_put_users, assumption,
      erule (1) users_tbl.insert_ignore_clash_free [OF db_inv_clash_free(1)])
    (auto simp: has_user_def dest!: tbl_insert_ignore_rows)

lemma keeps_ins_folder [stmt_keeps]: "keeps db_inv (ins_folder r)"
  unfolding ins_folder_def
  by (rule keeps_on_table, rule db_inv_put_folders, assumption,
      erule (1) folders_tbl.insert_clash_free [OF db_inv_clash_free(2)])
    (auto simp: has_folder_def dest!: tbl_insert_rows)

lemma keeps_ins_folder_ignore [stmt_keeps]: "keeps db_inv (ins_folder_ignore r)"
  unfolding ins_folder_ignore_def
  by (rule keeps_on_table, rule db_inv_put_folders, assumption,
      erule (1) folders_tbl.insert_ignore_clash_free [OF db_inv_clash_free(2)])
    (auto simp: has_folder_def dest!: tbl_insert_ignore_rows)

lemma keeps_ins_device [stmt_keeps]: "keeps db_inv (ins_device r)"
  unfolding ins_device_def
  by (rule keeps_on_table, rule db_inv_put_devices, assumption,
      erule (1) devices_tbl.insert_clash_free [OF db_inv_clash_free(3)])
    (auto simp: has_device_def db_inv_refs dest!: tbl_insert_rows)

lemma keeps_ins_device_ignore [stmt_keeps]: "keeps db_inv (ins_device_ignore r)"
  unfolding ins_device_ignore_def
  by (rule keeps_on_table, rule db_inv_put_devices, assumption,
      erule (1) devices_tbl.insert_ignore_clash_free [OF db_inv_clash_free(3)])
    (auto simp: has_device_def db_inv_refs dest!: tbl_insert_ignore_rows)

lemma keeps_ins_resource [stmt_keeps]: "keeps db_inv (ins_resource r)"
  unfolding ins_resource_def
  by (rule keeps_on_table, rule db_inv_put_resources, assumption,
      erule (1) resources_tbl.insert_clash_free [OF db_inv_clash_free(4)])
    (auto simp: has_resource_def db_inv_refs dest!: tbl_insert_rows)

lemma keeps_ins_resource_ignore [stmt_keeps]: "keeps db_inv (ins_resource_ignore r)"
  unfolding ins_resource_ignore_def
  by (rule keeps_on_table, rule db_inv_put_resources, assumption,
      erule (1) resources_tbl.insert_ignore_clash_free [OF db_inv_clash_free(4)])
    (auto simp: has_resource_def db_inv_refs dest!: tbl_insert_ignore_rows)

lemma keeps_ins_clock [stmt_keeps]: "keeps db_inv (ins_clock r)"
  unfolding ins_clock_def
  by (rule keeps_on_table, rule db_inv_put_clocks, assumption,
      erule (1) clocks_tbl.insert_clash_free [OF db_inv_clash_free(5)])
    (auto simp: db_inv_refs dest!: tbl_insert_rows)

lemma keeps_ins_clock_ignore [stmt_keeps]: "keeps db_inv (ins_clock_ignore r)"
  unfolding ins_clock_ignore_def
  by (rule keeps_on_table, rule db_inv_put_clocks, assumption,
      erule (1) clocks_tbl.insert_ignore_clash_free [OF db_inv_clash_free(5)])
    (auto simp: db_inv_refs dest!: tbl_insert_ignore_rows)

lemma keeps_ins_key [stmt_keeps]: "keeps db_inv (ins_key r)"
  unfolding ins_key_def
  by (rule keeps_on_table, rule db_inv_put_keys, assumption,
      erule (1) keys_tbl.insert_clash_free [OF db_inv_clash_free(6)])
    (auto simp: db_inv_refs dest!: tbl_insert_rows)

lemma keeps_ins_key_ignore [stmt_keeps]: "keeps db_inv (ins_key_ignore r)"
  unfolding ins_key_ignore_def
  by (rule keeps_on_table, rule db_inv_put_keys, assumption,
      erule (1) keys_tbl.insert_ignore_clash_free [OF db_inv_clash_free(6)])
    (auto simp: db_inv_refs dest!: tbl_insert_ignore_rows)

lemma keeps_ins_share [stmt_keeps]: "keeps db_inv (ins_share r)"
  unfolding ins_share_def
  by (rule keeps_on_table, rule db_inv_put_shares, assumption,
      erule (1) shares_tbl.insert_clash_free [OF db_inv_clash_free(7)])
    (auto simp: db_inv_refs dest!: tbl_insert_rows)

lemma keeps_ins_share_ignore [stmt_keeps]: "keeps db_inv (ins_share_ignore r)"
  unfolding ins_share_ignore_def
  by (rule keeps_on_table, rule db_inv_put_shares, assumption,
      erule (1) shares_tbl.insert_ignore_clash_free [OF db_inv_clash_free(7)])
    (auto simp: db_inv_refs dest!: tbl_insert_ignore_rows)

lemma keeps_ins_fshare [stmt_keeps]: "keeps db_inv (ins_fshare r)"
  unfolding ins_fshare_def
  by (rule keeps_on_table, rule db_inv_put_fshares, assumption,
      erule (1) fshares_tbl.insert_clash_free [OF db_inv_clash_free(9)])
    (auto simp: db_inv_refs dest!: tbl_insert_rows)

lemma keeps_ins_fshare_ignore [stmt_keeps]: "keeps db_inv (ins_fshare_ignore r)"
  unfolding ins_fshare_ignore_def
  by (rule keeps_on_table, rule db_inv_put_fshares, assumption,
      erule (1) fshares_tbl.insert_ignore_clash_free [OF db_inv_clash_free(9)])
    (auto simp: db_inv_refs dest!: tbl_insert_ignore_rows)

lemma keeps_ins_store [stmt_keeps]: "keeps db_inv (ins_store r)"
  unfolding ins_store_def
  by (rule keeps_on_table, rule db_inv_put_store, assumption,
      erule (1) store_tbl.insert_clash_free [OF db_inv_clash_free(8)])

text \<open>Updates that leave the constrained columns alone.\<close>

lemma list_ex_update:
  "(\<And>r. P (upd r) = P r) \<Longrightarrow> list_ex P (tbl_update p upd t) = list_ex P t"
  by (induction t) (auto simp: tbl_update_def)

lemma set_update: "r \<in> set (tbl_update p upd t) \<Longrightarrow> r \<in> set t \<or> (\<exists>r'\<in>set t. r = upd r')"
  by (auto simp: tbl_update_def)

lemma set_delete [simp]: "r \<in> set (tbl_delete p t) \<longleftrightarrow> r \<in> set t \<and> \<not> p r"
  by (simp add: tbl_delete_def)

lemma bex_delete [simp]: "(\<exists>r \<in> set (tbl_delete p t). P r) \<longleftrightarrow> (\<exists>r \<in> set t. \<not> p r \<and> P r)"
  by auto

lemma tbl_upsert_cases:
  assumes "tbl_upsert target upd clash refs row t = Inr t'"
  shows "t' = tbl_update (target row) upd t \<or> t' = t @ [row] \<and> refs row"
  using assms by (auto simp: tbl_upsert_def tbl_update_def tbl_insert_def split: if_splits)

lemma keeps_upd_users [stmt_keeps]:
  assumes same: "\<And>r. ur_id (upd r) = ur_id r" "\<And>r. ur_username (upd r) = ur_username r"
  shows "keeps db_inv (upd_users p upd)"
proof -
  have "db_inv (put_users (tbl_update p upd (t_users w)) w)" if "db_inv w" for w
    using that users_tbl.update_clash_free [OF _ db_inv_clash_free(1) [OF that], of upd p] same
    by (intro db_inv_put_users) (auto simp: users_clash_def has_user_def list_ex_update)
  then show ?thesis unfolding upd_users_def by (auto intro: keeps_on_table)
qed

lemma keeps_upd_folders [stmt_keeps]:
  assumes same: "\<And>r. fr_id (upd r) = fr_id r"
  shows "keeps db_inv (upd_folders p upd)"
proof -
  have "db_inv (put_folders (tbl_update p upd (t_folders w)) w)" if "db_inv w" for w
    using that folders_tbl.update_clash_free [OF _ db_inv_clash_free(2) [OF that], of upd p] same
    by (intro db_inv_put_folders) (auto simp: folders_clash_def has_folder_def list_ex_update)
  then show ?thesis unfolding upd_folders_def by (auto intro: keeps_on_table)
qed

lemma keeps_upd_devices [stmt_keeps]:
  assumes same: "\<And>r. dr_id (upd r) = dr_id r" "\<And>r. dr_device_key (upd r) = dr_device_key r"
    "\<And>r. dr_user_id (upd r) = dr_user_id r"
  shows "keeps db_inv (upd_devices p upd)"
proof -
  have "db_inv (put_devices (tbl_update p upd (t_devices w)) w)" if "db_inv w" for w
    using that devices_tbl.update_clash_free [OF _ db_inv_clash_free(3) [OF that], of upd p] same
      db_inv_refs(1) [OF that]
    by (intro db_inv_put_devices)
      (auto simp: devices_clash_def has_device_def list_ex_update devices_refs_def dest!: set_update)
  then show ?thesis unfolding upd_devices_def by (auto intro: keeps_on_table)
qed

lemma keeps_upd_resources [stmt_keeps]:
  assumes same: "\<And>r. rr_id (upd r) = rr_id r" "\<And>r. rr_folder_id (upd r) = rr_folder_id r"
    "\<And>r. rr_created_by (upd r) = rr_created_by r"
  shows "keeps db_inv (upd_resources p upd)"
proof -
  have "db_inv (put_resources (tbl_update p upd (t_resources w)) w)" if "db_inv w" for w
    using that resources_tbl.update_clash_free [OF _ db_inv_clash_free(4) [OF that], of upd p] same
      db_inv_refs(2) [OF that]
    by (intro db_inv_put_resources)
      (auto simp: resources_clash_def has_resource_def list_ex_update resources_refs_def
        dest!: set_update)
  then show ?thesis unfolding upd_resources_def by (auto intro: keeps_on_table)
qed

lemma db_inv_update_clocks:
  assumes inv: "db_inv w"
    and same: "\<And>r. cr_id (upd r) = cr_id r" "\<And>r. cr_resource_id (upd r) = cr_resource_id r"
    "\<And>r. cr_device_id (upd r) = cr_device_id r"
  shows "db_inv (put_clocks (tbl_update p upd (t_clocks w)) w)"
  using inv clocks_tbl.update_clash_free [OF _ db_inv_clash_free(5) [OF inv], of upd p] same
    db_inv_refs(3) [OF inv]
  by (intro db_inv_put_clocks)
    (auto simp: clocks_clash_def clocks_refs_def dest!: set_update)

lemma keeps_upd_clocks [stmt_keeps]:
  assumes "\<And>r. cr_id (upd r) = cr_id r" "\<And>r. cr_resource_id (upd r) = cr_resource_id r"
    "\<And>r. cr_device_id (upd r) = cr_device_id r"
  shows "keeps db_inv (upd_clocks p upd)"
  unfolding upd_clocks_def
  by (rule keeps_on_table) (auto intro: db_inv_update_clocks assms)

lemma keeps_ups_clock [stmt_keeps]:
  assumes same: "\<And>r. cr_id (upd r) = cr_id r" "\<And>r. cr_resource_id (upd r) = cr_resource_id r"
    "\<And>r. cr_device_id (upd r) = cr_device_id r"
  shows "keeps db_inv (ups_clock upd r)"
  unfolding ups_clock_def
proof (rule keeps_on_table)
  fix w t' assume inv: "db_inv w"
    and ok: "tbl_upsert (\<lambda>a b. cr_resource_id b = cr_resource_id a \<and> cr_device_id b = cr_device_id a)
      upd clocks_clash (clocks_refs w) r (t_clocks w) = Inr t'"
  have cf: "clash_free clocks_clash t'"
    using clocks_tbl.upsert_clash_free [OF _ db_inv_clash_free(5) [OF inv] ok] same
    by (simp add: clocks_clash_def)
  from tbl_upsert_cases [OF ok] show "db_inv (put_clocks t' w)"
  proof
    assume "t' = t_clocks w @ [r] \<and> clocks_refs w r"
    with cf inv show ?thesis by (intro db_inv_put_clocks) (auto simp: db_inv_refs)
  qed (simp add: db_inv_update_clocks inv same)
qed

lemma keeps_ups_user [stmt_keeps]:
  assumes same: "\<And>r. ur_id (upd r) = ur_id r" "\<And>r. ur_username (upd r) = ur_username r"
  shows "keeps db_inv (ups_user upd r)"
  unfolding ups_user_def
proof (rule keeps_on_table)
  fix w t' assume inv: "db_inv w"
    and ok: "tbl_upsert (\<lambda>a b. ur_id b = ur_id a) upd users_clash (no_refs w) r (t_users w) = Inr t'"
  have cf: "clash_free users_clash t'"
    using users_tbl.upsert_clash_free [OF _ db_inv_clash_free(1) [OF inv] ok] same
    by (simp add: users_clash_def)
  from tbl_upsert_cases [OF ok] inv cf show "db_inv (put_users t' w)"
    by (intro db_inv_put_users) (auto simp: has_user_def list_ex_update same)
qed

lemma keeps_ups_folder [stmt_keeps]:
  assumes same: "\<And>r. fr_id (upd r) = fr_id r"
  shows "keeps db_inv (ups_folder upd r)"
  unfolding ups_folder_def
proof (rule keeps_on_table)
  fix w t' assume inv: "db_inv w"
    and ok: "tbl_upsert (\<lambda>a b. fr_id b = fr_id a) upd folders_clash (no_refs w) r (t_folders w) = Inr t'"
  have cf: "clash_free folders_clash t'"
    using folders_tbl.upsert_clash_free [OF _ db_inv_clash_free(2) [OF inv] ok] same
    by (simp add: folders_clash_def)
  from tbl_upsert_cases [OF ok] inv cf show "db_inv (put_folders t' w)"
    by (intro db_inv_put_folders) (auto simp: has_folder_def list_ex_update same)
qed

lemma keeps_ups_store [stmt_keeps]:
  assumes same: "\<And>r. st_key (upd r) = st_key r"
  shows "keeps db_inv (ups_store upd r)"
  unfolding ups_store_def
proof (rule keeps_on_table)
  fix w t' assume inv: "db_inv w"
    and ok: "tbl_upsert (\<lambda>a b. st_key b = st_key a) upd store_clash (no_refs w) r (t_store w) = Inr t'"
  then show "db_inv (put_store t' w)"
    using store_tbl.upsert_clash_free [OF _ db_inv_clash_free(8) [OF inv] ok] same
    by (intro db_inv_put_store) (simp_all add: store_clash_def)
qed

lemma keeps_del_keys [stmt_keeps]: "keeps db_inv (del_keys p)"
  unfolding del_keys_def
  by (rule keeps_on_table)
    (auto intro!: db_inv_put_keys keys_tbl.delete_clash_free simp: db_inv_clash_free db_inv_refs)

lemma keeps_del_resources [stmt_keeps]: "keeps db_inv (del_resources p)"
  unfolding del_resources_def
proof (rule keeps_on_table)
  fix w t' assume inv: "db_inv w"
    and ok: "(if fk_on w \<and> list_ex (\<lambda>r. p r \<and> resource_referenced w (rr_id r)) (t_resources w)
      then Inl ForeignKeyViolation else Inr (tbl_delete p (t_resources w))) = Inr t'"
  then have t': "t' = tbl_delete p (t_resources w)"
    and nr: "\<not> fk_on w \<or> (\<forall>r \<in> set (t_resources w). p r \<longrightarrow> \<not> resource_referenced w (rr_id r))"
    by (auto split: if_splits simp: list_ex_iff)
  show "db_inv (put_resources t' w)"
    using inv nr
    by (intro db_inv_put_resources)
      (auto simp: t' resources_tbl.delete_clash_free db_inv_clash_free db_inv_refs has_resource_def
        list_ex_iff)
qed

section \<open>Programs\<close>

lemma keeps_ins_all [stmt_keeps]: "(\<And>r. keeps db_inv (ins r)) \<Longrightarrow> keeps db_inv (ins_all ins rs)"
  using keeps_sfor [of db_inv ins rs]
  by (auto simp: keeps_def ins_all_def split: sum.splits prod.splits)

lemma db_inv_env [simp]:
  "db_inv (w\<lparr>uuid_n := n\<rparr>) = db_inv w" "db_inv (w\<lparr>time_n := n\<rparr>) = db_inv w"
  "db_inv (w\<lparr>pool_n := n\<rparr>) = db_inv w" "db_inv (w\<lparr>rand_n := n\<rparr>) = db_inv w"
  by (simp_all add: db_inv_defs refs_defs has_defs)

lemma keeps_get_conn [stmt_keeps]: "keeps db_inv get_conn"
  by (simp add: keeps_def get_conn_def)

lemma keeps_fresh_uuid [stmt_keeps]: "keeps db_inv fresh_uuid"
  by (simp add: keeps_def fresh_uuid_def)

lemma keeps_now_millis [stmt_keeps]: "keeps db_inv now_millis"
  by (simp add: keeps_def now_millis_def)

lemma keeps_with_conn [stmt_keeps]: "keeps db_inv m \<Longrightarrow> keeps db_inv (with_conn m)"
  unfolding with_conn_def by (intro keeps_sbind keeps_get_conn)

lemma keeps_run_stmt [stmt_keeps]: "keeps db_inv m \<Longrightarrow> keeps db_inv (run_stmt m)"
  unfolding run_stmt_def by (rule keeps_smap_err)

lemma keeps_transaction [stmt_keeps]: "keeps db_inv m \<Longrightarrow> keeps db_inv (transaction m)"
  by (auto simp: keeps_def transaction_def rollback_def split: prod.splits sum.splits)

lemma keeps_first_row [stmt_keeps]: "keeps db_inv (first_row tbl p)"
  by (simp add: keeps_def first_row_def split: option.splits)

lemma keeps_load_rows [stmt_keeps]: "keeps db_inv (load_rows tbl p)"
  unfolding load_rows_def by (rule keeps_sget)

lemmas keeps_monad [stmt_keeps] =
  keeps_sret keeps_sthrow keeps_sget keeps_slift keeps_sbind keeps_smap_err keeps_scatch keeps_sfor
  keeps_smap

section \<open>Inserting rows that may be there\<close>

text \<open>
  A loop of \<open>ON CONFLICT (id) DO NOTHING\<close> inserts adds rows of the list only, loses no row, and
  afterwards every id of the list is in the table.
\<close>

lemma sfor_insert_ignore:
  assumes tbl: "sql_table pk clash"
    and lens: "\<And>t w. get (put t w) = t" "\<And>t t' w. put t' (put t w) = put t' w" "\<And>w. put (get w) w = w"
    and "sfor (\<lambda>r. on_table get put
      (\<lambda>w. tbl_insert_ignore (\<lambda>a b. pk b = pk a) clash (refs w) r)) rows w = (Inr (), w')"
  shows "\<exists>t. w' = put t w \<and> set (get w) \<subseteq> set t \<and> set t \<subseteq> set (get w) \<union> set rows \<and>
    (\<forall>r \<in> set rows. pk r \<in> pk ` set t)"
  using assms(5)
proof (induction rows arbitrary: w)
  case Nil
  then show ?case using lens(3) by (auto intro!: exI [of _ "get w"])
next
  case (Cons r rows)
  then obtain t1 where t1: "tbl_insert_ignore (\<lambda>a b. pk b = pk a) clash (refs w) r (get w) = Inr t1"
    and rest: "sfor (\<lambda>r. on_table get put
      (\<lambda>w. tbl_insert_ignore (\<lambda>a b. pk b = pk a) clash (refs w) r)) rows (put t1 w) = (Inr (), w')"
    by (auto simp: sbind_eq_Inr on_table_eq_Inr)
  from Cons.IH [OF rest] obtain t where t: "w' = put t w" "set t1 \<subseteq> set t"
      "set t \<subseteq> set t1 \<union> set rows" "\<forall>r \<in> set rows. pk r \<in> pk ` set t"
    by (auto simp: lens)
  note new = sql_table.insert_ignore_set [OF tbl t1]
  have "pk r \<in> pk ` set t" using new(3) t(2) by blast
  with new t show ?case by (intro exI [of _ t]) auto
qed

text \<open>The loop inserts every row when none of them clashes with anything.\<close>

lemma sfor_insert_ignore_new:
  assumes tbl: "sql_table pk clash"
    and lens: "\<And>t w. get (put t w) = t" "\<And>t t' w. put t' (put t w) = put t' w" "\<And>w. put (get w) w = w"
    and stable: "\<And>t w. refs (put t w) = refs w"
    and "clash_free clash (get w @ rows)" "\<forall>r \<in> set rows. refs w r"
  shows "sfor (\<lambda>r. on_table get put
      (\<lambda>w. tbl_insert_ignore (\<lambda>a b. pk b = pk a) clash (refs w) r)) rows w =
    (Inr (), put (get w @ rows) w)"
  using assms(6,7)
proof (induction rows arbitrary: w)
  case Nil
  then show ?case using lens(3) by simp
next
  case (Cons r rows)
  have no: "\<not> clash r x" if "x \<in> set (get w)" for x
    using Cons.prems(1) that sql_table.clash_sym [OF tbl, of r x]
    by (auto simp: clash_free_def sorted_wrt_append)
  then have "\<not> list_ex (\<lambda>b. pk b = pk r) (get w)" "\<not> list_ex (clash r) (get w)"
    using sql_table.pk_clash [OF tbl, of r] by (force simp: list_ex_iff)+
  then have ok: "tbl_insert_ignore (\<lambda>a b. pk b = pk a) clash (refs w) r (get w) = Inr (get w @ [r])"
    using Cons.prems(2) by (simp add: tbl_insert_ignore_def tbl_insert_def)
  have "sfor (\<lambda>r. on_table get put
      (\<lambda>w. tbl_insert_ignore (\<lambda>a b. pk b = pk a) clash (refs w) r)) rows (put (get w @ [r]) w) =
    (Inr (), put (get (put (get w @ [r]) w) @ rows) (put (get w @ [r]) w))"
    by (rule Cons.IH) (use Cons.prems in \<open>simp_all add: lens stable\<close>)
  moreover have "on_table get put (\<lambda>w. tbl_insert_ignore (\<lambda>a b. pk b = pk a) clash (refs w) r) w =
      (Inr (), put (get w @ [r]) w)"
    by (simp add: on_table_def ok)
  ultimately show ?case by (simp add: sbind_def lens)
qed

end
