(* ===== verification/Repo_Clocks.thy ===== *)
theory Repo_Clocks
  imports Db_Integrity
begin

text \<open>
  \<open>persistance/src/repositories/vector_clock_repository.rs\<close>: the stored vector clocks. The
  abstract state is, for each resource, the map from devices to clock values; the update that
  ends a merge is shown to implement \<open>view_update\<close> on it, and an increment adds one to the entry
  of one device.
\<close>

section \<open>Operations\<close>

definition save_vector_clocks :: "resource_vector_clock list \<Rightarrow> unit repo" where
  "save_vector_clocks vector_clocks =
     (if vector_clocks = [] then sret ()
      else with_conn (run_stmt (ins_all ins_clock (map clock_to_row vector_clocks))))"

definition save_vector_clock :: "resource_vector_clock \<Rightarrow> unit repo" where
  "save_vector_clock vector_clock = with_conn
     (sbind (sget (\<lambda>w. List.find (\<lambda>r. cr_device_id r = vc_device_id vector_clock \<and>
                                    cr_resource_id r = vc_resource_id vector_clock) (t_clocks w)))
        (\<lambda>existing_record. case existing_record of
           Some _ \<Rightarrow> sret ()
         | None \<Rightarrow> run_stmt (ins_clock (clock_to_row vector_clock))))"

text \<open>\<open>clock_value += 1\<close> on \<open>i32\<close>: a release build wraps around.\<close>

definition increment_vector_clock :: "ident \<Rightarrow> ident \<Rightarrow> resource_vector_clock repo" where
  "increment_vector_clock resource_id device_id =
     sbind now_millis (\<lambda>now. with_conn
       (sbind (transaction
          (sbind (sget (\<lambda>w. List.find (\<lambda>r. cr_resource_id r = resource_id \<and>
                                         cr_device_id r = device_id) (t_clocks w)))
             (\<lambda>result. case result of
                Some found \<Rightarrow>
                  (let model = found\<lparr>cr_clock_value := cr_clock_value found + 1, cr_updated_at := now\<rparr> in
                   sbind (upd_clocks (\<lambda>r. cr_id r = cr_id model)
                            (\<lambda>r. r\<lparr>cr_clock_value := cr_clock_value model, cr_updated_at := now\<rparr>))
                     (\<lambda>_. sret model))
              | None \<Rightarrow>
                  sbind (vc_initialize resource_id device_id) (\<lambda>new_clock.
                    (let model = clock_to_row new_clock in
                     sbind (ins_clock model) (\<lambda>_. sret model))))))
          (\<lambda>model. sret (clock_load model))))"

definition get_vector_clocks_for_resource :: "ident \<Rightarrow> resource_vector_clock list repo" where
  "get_vector_clocks_for_resource resource_id = with_conn
     (sbind (load_rows t_clocks (\<lambda>r. cr_resource_id r = resource_id))
        (\<lambda>models. sret (map clock_load models)))"

definition get_vector_clock :: "ident \<Rightarrow> ident \<Rightarrow> resource_vector_clock repo" where
  "get_vector_clock resource_id device_id = with_conn
     (sbind (first_row t_clocks (\<lambda>r. cr_resource_id r = resource_id \<and> cr_device_id r = device_id))
        (\<lambda>model. sret (clock_load model)))"

definition check_if_device_needs_update :: "ident list \<Rightarrow> millis \<Rightarrow> ident \<Rightarrow> bool repo" where
  "check_if_device_needs_update resource_ids last_synced_at device_id = with_conn
     (sbind (load_rows t_clocks (\<lambda>r. cr_resource_id r \<in> set resource_ids \<and>
               last_synced_at < cr_updated_at r \<and> cr_device_id r \<noteq> device_id))
        (\<lambda>rows. sret (length rows > 0)))"

definition get_resource_ids_needing_updates :: "ident list \<Rightarrow> millis \<Rightarrow> ident \<Rightarrow> ident list repo" where
  "get_resource_ids_needing_updates resource_ids last_synced_at device_id = with_conn
     (sbind (load_rows t_clocks (\<lambda>r. cr_resource_id r \<in> set resource_ids \<and>
               last_synced_at < cr_updated_at r \<and> cr_device_id r \<noteq> device_id))
        (\<lambda>rows. sret (remdups (map cr_resource_id rows))))"

definition update_stored_clock :: "resource_vector_clock \<Rightarrow> unit stmt" where
  "update_stored_clock clock =
     upd_clocks (\<lambda>r. cr_resource_id r = vc_resource_id clock \<and> cr_device_id r = vc_device_id clock)
       (\<lambda>r. r\<lparr>cr_clock_value := ucast (vc_clock_value clock), cr_updated_at := vc_updated_at clock\<rparr>)"

definition update_vector_clocks ::
  "resource_vector_clock list \<Rightarrow> resource_vector_clock list \<Rightarrow> unit repo" where
  "update_vector_clocks update_clocks add_clocks = with_conn (transaction
     (sbind (sfor update_stored_clock update_clocks) (\<lambda>_.
        if add_clocks = [] then sret ()
        else ins_all ins_clock (map clock_to_row add_clocks))))"

section \<open>Integrity\<close>

lemma keeps_vector_clock_repository [stmt_keeps]:
  "keeps db_inv (save_vector_clocks cs)" "keeps db_inv (save_vector_clock c)"
  "keeps db_inv (increment_vector_clock r d)" "keeps db_inv (get_vector_clocks_for_resource r)"
  "keeps db_inv (get_vector_clock r d)" "keeps db_inv (check_if_device_needs_update rs t d)"
  "keeps db_inv (get_resource_ids_needing_updates rs t d)"
  "keeps db_inv (update_vector_clocks us as)"
  unfolding save_vector_clocks_def save_vector_clock_def increment_vector_clock_def
    get_vector_clocks_for_resource_def get_vector_clock_def check_if_device_needs_update_def
    get_resource_ids_needing_updates_def update_vector_clocks_def update_stored_clock_def
    vc_initialize_def vc_new_def Let_def
  by (auto intro!: stmt_keeps split: option.splits)

section \<open>The abstract state\<close>

definition stored_clocks :: "world \<Rightarrow> ident \<Rightarrow> resource_vector_clock list" where
  "stored_clocks w rid = map clock_load (filter (\<lambda>r. cr_resource_id r = rid) (t_clocks w))"

definition stored_view :: "world \<Rightarrow> ident \<Rightarrow> clock_view" where
  "stored_view w rid = clock_map (stored_clocks w rid)"

text \<open>Clock values below \<open>2 ^ 31\<close>, the ones that survive the column's type.\<close>

definition fitting :: "resource_vector_clock list \<Rightarrow> bool" where
  "fitting cs \<longleftrightarrow> (\<forall>c \<in> set cs. clock_fits (vc_clock_value c))"

lemma stored_view_find:
  "stored_view w rid d = map_option (\<lambda>r. scast (cr_clock_value r))
     (List.find (\<lambda>r. cr_resource_id r = rid \<and> cr_device_id r = d) (t_clocks w))"
proof -
  have "clock_map (map clock_load (filter (\<lambda>r. cr_resource_id r = rid) t)) d =
      map_option (\<lambda>r. scast (cr_clock_value r))
        (List.find (\<lambda>r. cr_resource_id r = rid \<and> cr_device_id r = d) t)" for t
    by (induction t) (auto simp: clock_load_def)
  then show ?thesis by (simp add: stored_view_def stored_clocks_def)
qed

lemma stored_view_put_clocks:
  "stored_view (put_clocks t w) rid d = map_option (\<lambda>r. scast (cr_clock_value r))
     (List.find (\<lambda>r. cr_resource_id r = rid \<and> cr_device_id r = d) t)"
  by (simp add: stored_view_find put_clocks_def)

lemma stored_view_frame [simp]:
  "stored_view (w\<lparr>uuid_n := n\<rparr>) = stored_view w" "stored_view (w\<lparr>time_n := n\<rparr>) = stored_view w"
  "stored_view (w\<lparr>pool_n := n\<rparr>) = stored_view w"
  by (simp_all add: fun_eq_iff stored_view_find)

lemma stored_clocks_frame [simp]:
  "stored_clocks (w\<lparr>uuid_n := n\<rparr>) = stored_clocks w" "stored_clocks (w\<lparr>time_n := n\<rparr>) = stored_clocks w"
  "stored_clocks (w\<lparr>pool_n := n\<rparr>) = stored_clocks w"
  by (simp_all add: fun_eq_iff stored_clocks_def)

lemma distinct_stored_clocks:
  assumes "db_inv w"
  shows "distinct_devices (stored_clocks w rid)"
proof -
  have "distinct (map (\<lambda>r. (cr_resource_id r, cr_device_id r)) (t_clocks w))"
    by (rule clock_entries.clash_free_distinct [OF db_inv_clash_free(5) [OF assms]])
  then have "distinct (map cr_device_id (filter (\<lambda>r. cr_resource_id r = rid) (t_clocks w)))"
    by (simp add: distinct_map inj_on_def)
  then show ?thesis
    by (simp add: distinct_devices_def stored_clocks_def comp_def clock_load_def)
qed

lemma get_vector_clocks_for_resource_ok:
  "get_vector_clocks_for_resource rid w = (Inr cs, w') \<Longrightarrow>
     cs = stored_clocks w rid \<and> w' = w\<lparr>pool_n := Suc (pool_n w)\<rparr>"
  by (auto simp: get_vector_clocks_for_resource_def with_conn_def get_conn_def sbind_def
      load_rows_def stored_clocks_def split: if_splits)

section \<open>Effects of the statements\<close>

lemma ins_clocks_rows:
  assumes "sfor ins_clock rows w = (Inr (), w')"
  shows "w' = put_clocks (t_clocks w @ rows) w"
  using assms
proof (induction rows arbitrary: w)
  case Nil
  then show ?case by (simp add: put_clocks_def)
next
  case (Cons r rows)
  then obtain w1 where w1: "ins_clock r w = (Inr (), w1)" and rest: "sfor ins_clock rows w1 = (Inr (), w')"
    by (auto simp: sbind_eq_Inr)
  from w1 have "w1 = put_clocks (t_clocks w @ [r]) w"
    by (auto simp: ins_clock_def on_table_def dest!: tbl_insert_rows split: sum.splits)
  with Cons.IH [OF rest] show ?case by (simp add: put_clocks_def)
qed

lemma ins_clocks_ok:
  assumes "clash_free clocks_clash (t_clocks w @ rows)" "\<forall>r \<in> set rows. clocks_refs w r"
  shows "sfor ins_clock rows w = (Inr (), put_clocks (t_clocks w @ rows) w)"
  using assms
proof (induction rows arbitrary: w)
  case Nil
  then show ?case by (simp add: put_clocks_def)
next
  case (Cons r rows)
  from Cons.prems have "\<not> list_ex (clocks_clash r) (t_clocks w)"
    by (auto simp: clash_free_def sorted_wrt_append list_ex_iff dest: clocks_tbl.clash_sym)
  with Cons.prems have "ins_clock r w = (Inr (), put_clocks (t_clocks w @ [r]) w)"
    by (simp add: ins_clock_def on_table_def tbl_insert_def)
  moreover have "sfor ins_clock rows (put_clocks (t_clocks w @ [r]) w) =
      (Inr (), put_clocks (t_clocks w @ r # rows) w)"
    using Cons.IH [of "put_clocks (t_clocks w @ [r]) w"] Cons.prems
    by (simp add: refs_leaf) (simp add: put_clocks_def)
  ultimately show ?case by (simp add: sbind_def)
qed

lemma update_stored_clock_run:
  "update_stored_clock c w = (Inr (), put_clocks (tbl_update
     (\<lambda>r. cr_resource_id r = vc_resource_id c \<and> cr_device_id r = vc_device_id c)
     (\<lambda>r. r\<lparr>cr_clock_value := ucast (vc_clock_value c), cr_updated_at := vc_updated_at c\<rparr>)
     (t_clocks w)) w)"
  by (simp add: update_stored_clock_def upd_clocks_def on_table_def)

lemma update_stored_clock_view:
  assumes "clock_fits (vc_clock_value c)" and w': "update_stored_clock c w = (Inr (), w')"
  shows "stored_view w' rid d =
    (if rid = vc_resource_id c \<and> d = vc_device_id c \<and> stored_view w rid d \<noteq> None
     then Some (vc_clock_value c) else stored_view w rid d)"
proof -
  define upd where "upd r = (if cr_resource_id r = vc_resource_id c \<and> cr_device_id r = vc_device_id c
    then r\<lparr>cr_clock_value := ucast (vc_clock_value c), cr_updated_at := vc_updated_at c\<rparr> else r)" for r :: clocks_row
  define P where "P r \<longleftrightarrow> cr_resource_id r = rid \<and> cr_device_id r = d" for r :: clocks_row
  have inv: "P (upd r) = P r" for r
    by (simp add: P_def upd_def)
  from w' have "w' = put_clocks (map upd (t_clocks w)) w"
    by (simp add: update_stored_clock_run tbl_update_def upd_def [abs_def])
  then have new: "stored_view w' rid d =
      map_option (\<lambda>r. scast (cr_clock_value (upd r))) (List.find P (t_clocks w))"
    using find_map_update [of P upd, OF inv, of "t_clocks w"]
    by (simp add: stored_view_put_clocks P_def [abs_def] option.map_comp comp_def)
  have old: "stored_view w rid d = map_option (\<lambda>r. scast (cr_clock_value r)) (List.find P (t_clocks w))"
    by (simp add: stored_view_find P_def [abs_def])
  show ?thesis
  proof (cases "List.find P (t_clocks w)")
    case None
    then show ?thesis by (simp add: new old)
  next
    case (Some r)
    then have "cr_resource_id r = rid" "cr_device_id r = d"
      using find_SomeD [OF Some] by (simp_all add: P_def)
    with Some show ?thesis
      by (simp add: new old upd_def scast_ucast_fits [OF assms(1)])
  qed
qed

lemma update_stored_clocks_total: "\<exists>w'. sfor update_stored_clock us w = (Inr (), w')"
  by (induction us arbitrary: w) (auto simp: update_stored_clock_run sbind_def)

lemma update_stored_clocks_frame:
  assumes "sfor update_stored_clock us w = (Inr (), w')"
  shows "\<exists>t. w' = put_clocks t w \<and> map cr_id t = map cr_id (t_clocks w) \<and>
    map (\<lambda>r. (cr_resource_id r, cr_device_id r)) t =
      map (\<lambda>r. (cr_resource_id r, cr_device_id r)) (t_clocks w)"
  using assms
proof (induction us arbitrary: w)
  case Nil
  then show ?case by (auto simp: put_clocks_def intro!: exI [of _ "t_clocks w"])
next
  case (Cons c us)
  from Cons.prems obtain w1 where "update_stored_clock c w = (Inr (), w1)"
    and rest: "sfor update_stored_clock us w1 = (Inr (), w')"
    by (auto simp: sbind_eq_Inr)
  then show ?case
    using Cons.IH [OF rest] by (auto simp: update_stored_clock_run put_clocks_def tbl_update_def)
qed

lemma update_stored_clocks_view:
  assumes "sfor update_stored_clock us w = (Inr (), w')"
    and "fitting us" "distinct_devices us" "\<forall>c \<in> set us. vc_resource_id c = rid"
    and "\<forall>c \<in> set us. stored_view w rid (vc_device_id c) \<noteq> None"
  shows "stored_view w' rid d =
      (case clock_map us d of Some x \<Rightarrow> Some x | None \<Rightarrow> stored_view w rid d)"
    and "rid' \<noteq> rid \<Longrightarrow> stored_view w' rid' = stored_view w rid'"
proof -
  have "stored_view w' rid d =
        (case clock_map us d of Some x \<Rightarrow> Some x | None \<Rightarrow> stored_view w rid d) \<and>
      (rid' \<noteq> rid \<longrightarrow> stored_view w' rid' = stored_view w rid')"
    using assms
  proof (induction us arbitrary: w)
    case Nil
    then show ?case by simp
  next
    case (Cons c us)
    from Cons.prems(1) obtain w1 where step: "update_stored_clock c w = (Inr (), w1)"
      and rest: "sfor update_stored_clock us w1 = (Inr (), w')"
      by (auto simp: sbind_eq_Inr)
    have fit: "clock_fits (vc_clock_value c)"
      using Cons.prems(2) by (simp add: fitting_def)
    note view = update_stored_clock_view [OF fit step]
    have IH: "stored_view w' rid d =
          (case clock_map us d of Some x \<Rightarrow> Some x | None \<Rightarrow> stored_view w1 rid d) \<and>
        (rid' \<noteq> rid \<longrightarrow> stored_view w' rid' = stored_view w1 rid')"
      using Cons.prems by (intro Cons.IH [OF rest]) (auto simp: view fitting_def distinct_devices_def)
    have "clock_map us (vc_device_id c) = None"
      using Cons.prems(3) by (simp add: clock_map_None_iff distinct_devices_def) (metis image_eqI)
    then show ?case
      using IH Cons.prems(4,5) by (auto simp: view fun_eq_iff split: option.splits)
  qed
  then show "stored_view w' rid d =
      (case clock_map us d of Some x \<Rightarrow> Some x | None \<Rightarrow> stored_view w rid d)"
    and "rid' \<noteq> rid \<Longrightarrow> stored_view w' rid' = stored_view w rid'"
    by simp_all
qed

lemma find_clock_rows:
  assumes "fitting as" "\<forall>c \<in> set as. vc_resource_id c = rid"
  shows "map_option (\<lambda>r. scast (cr_clock_value r))
      (List.find (\<lambda>r. cr_resource_id r = rid' \<and> cr_device_id r = d) (map clock_to_row as)) =
    (if rid' = rid then clock_map as d else None)"
  using assms by (induction as) (auto simp: fitting_def clock_to_row_def scast_ucast_fits)

text \<open>Inserting entries into a table in which they clash with nothing.\<close>

lemma inserted_clocks_view:
  assumes w': "w' = put_clocks (t_clocks w @ map clock_to_row as) w" and "db_inv w'"
    and fit: "fitting as" and res: "\<forall>c \<in> set as. vc_resource_id c = rid"
  shows "stored_view w' rid d = (case clock_map as d of Some x \<Rightarrow> Some x | None \<Rightarrow> stored_view w rid d)"
    and "rid' \<noteq> rid \<Longrightarrow> stored_view w' rid' = stored_view w rid'"
proof -
  note split_find = w' stored_view_put_clocks find_append
  have app: "stored_view w' r d = (case stored_view w r d of Some x \<Rightarrow> Some x
      | None \<Rightarrow> if r = rid then clock_map as d else None)" for r d
    using find_clock_rows [OF fit res, of r d]
    by (auto simp: split_find stored_view_find [of w] split: option.splits)
  have "stored_view w rid d = None" if "clock_map as d = Some x" for d x
  proof (rule ccontr)
    assume "stored_view w rid d \<noteq> None"
    then obtain r where r: "r \<in> set (t_clocks w)" "cr_resource_id r = rid" "cr_device_id r = d"
      by (auto simp: stored_view_find dest: find_SomeD)
    from clock_map_SomeD [OF that] obtain c where c: "c \<in> set as" "vc_device_id c = d" by blast
    from \<open>db_inv w'\<close> have "clash_free clocks_clash (t_clocks w @ map clock_to_row as)"
      using db_inv_clash_free(5) [of w'] by (simp add: w' put_clocks_def)
    with r(1) c(1) have "\<not> clocks_clash r (clock_to_row c)"
      by (auto simp: clash_free_def sorted_wrt_append)
    with r c res show False
      by (simp add: clocks_clash_def clock_to_row_def)
  qed
  then show "stored_view w' rid d =
      (case clock_map as d of Some x \<Rightarrow> Some x | None \<Rightarrow> stored_view w rid d)"
    by (auto simp: app split: option.splits)
  show "rid' \<noteq> rid \<Longrightarrow> stored_view w' rid' = stored_view w rid'"
    by (auto simp: app fun_eq_iff split: option.splits)
qed

section \<open>Refinement\<close>

text \<open>
  What the callers of \<open>update_vector_clocks\<close> pass: clocks of one resource, at most one per
  device, with values that fit the column; the updated ones have an entry.
\<close>

definition clock_change ::
  "world \<Rightarrow> ident \<Rightarrow> resource_vector_clock list \<Rightarrow> resource_vector_clock list \<Rightarrow> bool" where
  "clock_change w rid us as \<longleftrightarrow>
     fitting us \<and> fitting as \<and> distinct_devices us \<and>
     (\<forall>c \<in> set us. vc_resource_id c = rid) \<and> (\<forall>c \<in> set as. vc_resource_id c = rid) \<and>
     (\<forall>c \<in> set us. stored_view w rid (vc_device_id c) \<noteq> None)"

lemma update_vector_clocks_steps:
  assumes "update_vector_clocks us as w = (Inr x, w')"
  obtains w1 where
    "sfor update_stored_clock us (w\<lparr>pool_n := Suc (pool_n w)\<rparr>) = (Inr (), w1)"
    "w' = put_clocks (t_clocks w1 @ map clock_to_row as) w1"
proof -
  define w0 where "w0 = w\<lparr>pool_n := Suc (pool_n w)\<rparr>"
  obtain w1 where w1: "sfor update_stored_clock us w0 = (Inr (), w1)"
    using update_stored_clocks_total by blast
  have "(if as = [] then sret () else ins_all ins_clock (map clock_to_row as)) w1 = (Inr (), w')"
    using assms w1
    by (auto simp: update_vector_clocks_def with_conn_def get_conn_def sbind_def transaction_def
        w0_def [symmetric] split: if_splits prod.splits sum.splits)
  then have "w' = put_clocks (t_clocks w1 @ map clock_to_row as) w1"
    using ins_clocks_rows [of "map clock_to_row as" w1 w']
    by (auto simp: ins_all_def put_clocks_def split: if_splits prod.splits sum.splits)
  with w1 show ?thesis using that by (simp add: w0_def)
qed

lemma update_vector_clocks_view:
  assumes inv: "db_inv w" and ok: "update_vector_clocks us as w = (Inr x, w')"
    and change: "clock_change w rid us as"
  shows "stored_view w' rid = view_update (stored_view w rid) us as"
    and "rid' \<noteq> rid \<Longrightarrow> stored_view w' rid' = stored_view w rid'"
proof -
  from change have c: "fitting us" "fitting as" "distinct_devices us"
      "\<forall>c \<in> set us. vc_resource_id c = rid" "\<forall>c \<in> set as. vc_resource_id c = rid"
      "\<forall>c \<in> set us. stored_view (w\<lparr>pool_n := Suc (pool_n w)\<rparr>) rid (vc_device_id c) \<noteq> None"
    by (simp_all add: clock_change_def)
  from ok obtain w1 where
    us: "sfor update_stored_clock us (w\<lparr>pool_n := Suc (pool_n w)\<rparr>) = (Inr (), w1)"
    and as: "w' = put_clocks (t_clocks w1 @ map clock_to_row as) w1"
    by (rule update_vector_clocks_steps)
  have inv': "db_inv w'"
    using keepsD [OF keeps_vector_clock_repository(8) inv ok] .
  note v1 = update_stored_clocks_view [OF us c(1,3,4,6)]
  note v2 = inserted_clocks_view [OF as inv' c(2,5)]
  show "stored_view w' rid = view_update (stored_view w rid) us as"
    by (rule ext) (simp add: v1 v2 view_update_def split: option.splits)
  show "rid' \<noteq> rid \<Longrightarrow> stored_view w' rid' = stored_view w rid'"
    by (simp add: v1 v2)
qed

section \<open>Increments\<close>

lemma increment_new_steps:
  assumes inv: "db_inv w" and ok: "increment_vector_clock rid d w = (Inr c, w')"
    and none: "List.find (\<lambda>r. cr_resource_id r = rid \<and> cr_device_id r = d) (t_clocks w) = None"
  obtains c0 w0 where "stored_view w0 = stored_view w" "db_inv w0"
    "ins_clock (clock_to_row c0) w0 = (Inr (), w')"
    "vc_resource_id c0 = rid" "vc_device_id c0 = d" "vc_clock_value c0 = 1"
    "c = clock_load (clock_to_row c0)"
proof -
  let ?w1 = "w\<lparr>time_n := Suc (time_n w), pool_n := Suc (pool_n w)\<rparr>"
  let ?w0 = "?w1\<lparr>time_n := Suc (Suc (time_n w)), uuid_n := Suc (uuid_n w)\<rparr>"
  define c0 where "c0 = \<lparr>vc_id = uuid_src w (uuid_n w), vc_resource_id = rid, vc_device_id = d,
    vc_clock_value = 1, vc_created_at = time_src w (Suc (time_n w)),
    vc_updated_at = time_src w (Suc (time_n w))\<rparr>"
  have "ins_clock (clock_to_row c0) ?w0 = (Inr (), w') \<and> c = clock_load (clock_to_row c0)"
    using ok none
    by (auto simp: increment_vector_clock_def now_millis_def fresh_uuid_def with_conn_def get_conn_def
        sbind_def transaction_def vc_initialize_def vc_new_def Let_def c0_def
        split: if_splits prod.splits sum.splits)
  then show ?thesis
    using that [of ?w0 c0] inv by (simp add: c0_def)
qed

lemma increment_found_steps:
  assumes ok: "increment_vector_clock rid d w = (Inr c, w')"
    and found: "List.find (\<lambda>r. cr_resource_id r = rid \<and> cr_device_id r = d) (t_clocks w) = Some found"
  obtains now w0 where "stored_view w0 = stored_view w" "t_clocks w0 = t_clocks w"
    "c = clock_load (found\<lparr>cr_clock_value := cr_clock_value found + 1, cr_updated_at := now\<rparr>)"
    "w' = put_clocks (tbl_update (\<lambda>r. cr_id r = cr_id found)
      (\<lambda>r. r\<lparr>cr_clock_value := cr_clock_value found + 1, cr_updated_at := now\<rparr>) (t_clocks w)) w0"
proof -
  let ?w0 = "w\<lparr>time_n := Suc (time_n w), pool_n := Suc (pool_n w)\<rparr>" and ?now = "time_src w (time_n w)"
  have "w' = put_clocks (tbl_update (\<lambda>r. cr_id r = cr_id found)
      (\<lambda>r. r\<lparr>cr_clock_value := cr_clock_value found + 1, cr_updated_at := ?now\<rparr>) (t_clocks w)) ?w0 \<and>
    c = clock_load (found\<lparr>cr_clock_value := cr_clock_value found + 1, cr_updated_at := ?now\<rparr>)"
    using ok found
    by (auto simp: increment_vector_clock_def now_millis_def with_conn_def get_conn_def sbind_def
        transaction_def upd_clocks_def on_table_def Let_def split: if_splits)
  then show ?thesis using that [of ?w0 ?now] by simp
qed

text \<open>Setting the value of the row with a given id, which no other row has.\<close>

lemma updated_clock_view:
  assumes inv: "db_inv w" and found: "found \<in> set (t_clocks w)" "cr_resource_id found = rid"
    "cr_device_id found = d"
  shows "stored_view (put_clocks (tbl_update (\<lambda>r. cr_id r = cr_id found)
      (\<lambda>r. r\<lparr>cr_clock_value := v, cr_updated_at := now\<rparr>) (t_clocks w)) w0) r e =
    (if r = rid \<and> e = d then Some (scast v) else stored_view w r e)"
proof -
  define upd where "upd x = (if cr_id x = cr_id found then x\<lparr>cr_clock_value := v, cr_updated_at := now\<rparr>
    else x)" for x :: clocks_row
  define P where "P x \<longleftrightarrow> cr_resource_id x = r \<and> cr_device_id x = e" for x :: clocks_row
  have inv_P: "P (upd x) = P x" for x
    by (simp add: P_def upd_def)
  note eq = clocks_tbl.clash_free_eq [OF db_inv_clash_free(5) [OF inv]]
  have lhs: "stored_view (put_clocks (tbl_update (\<lambda>r. cr_id r = cr_id found)
      (\<lambda>r. r\<lparr>cr_clock_value := v, cr_updated_at := now\<rparr>) (t_clocks w)) w0) r e =
      map_option (\<lambda>x. scast (cr_clock_value (upd x))) (List.find P (t_clocks w))"
    using find_map_update [of P upd, OF inv_P, of "t_clocks w"]
    by (simp add: stored_view_put_clocks tbl_update_def upd_def [abs_def] P_def [abs_def]
        option.map_comp comp_def)
  have rhs: "stored_view w r e = map_option (\<lambda>x. scast (cr_clock_value x)) (List.find P (t_clocks w))"
    by (simp add: stored_view_find P_def [abs_def])
  show ?thesis
  proof (cases "List.find P (t_clocks w)")
    case None
    then have "\<not> (r = rid \<and> e = d)"
      using found by (auto simp: find_None_iff_ex list_ex_iff P_def)
    with None show ?thesis by (simp add: lhs rhs)
  next
    case (Some x)
    then have x: "x \<in> set (t_clocks w)" "cr_resource_id x = r" "cr_device_id x = e"
      using find_SomeD [OF Some] by (simp_all add: P_def)
    have "cr_id x = cr_id found \<longleftrightarrow> r = rid \<and> e = d"
      using eq [OF x(1) found(1)] x found by (auto simp: clocks_clash_def)
    with Some show ?thesis by (auto simp: lhs rhs upd_def)
  qed
qed

text \<open>
  A local edit advances exactly one clock: a successful \<open>increment_vector_clock\<close> sets the
  entry of the device to its successor, or to 1 when the device had none, returns that entry, and
  changes no other entry of any resource. The new value has to fit the 31 value bits of the
  column.
\<close>

theorem increment_vector_clock_view:
  assumes inv: "db_inv w" and ok: "increment_vector_clock rid d w = (Inr c, w')"
    and fits: "\<forall>v. stored_view w rid d = Some v \<longrightarrow> clock_fits (v + 1)"
  shows "stored_view w' rid =
      (stored_view w rid)(d \<mapsto> (case stored_view w rid d of None \<Rightarrow> 1 | Some v \<Rightarrow> v + 1)) \<and>
    vc_device_id c = d \<and> vc_resource_id c = rid \<and>
    stored_view w' rid d = Some (vc_clock_value c) \<and>
    (\<forall>r. r \<noteq> rid \<longrightarrow> stored_view w' r = stored_view w r)"
proof (cases "List.find (\<lambda>r. cr_resource_id r = rid \<and> cr_device_id r = d) (t_clocks w)")
  case None
  obtain c0 w0 where w0: "stored_view w0 = stored_view w" "db_inv w0"
    and ins: "ins_clock (clock_to_row c0) w0 = (Inr (), w')"
    and c0: "vc_resource_id c0 = rid" "vc_device_id c0 = d" "vc_clock_value c0 = 1"
    and c: "c = clock_load (clock_to_row c0)"
    by (rule increment_new_steps [OF inv ok None])
  have one: "clock_fits (vc_clock_value c0)" by (simp add: c0 clock_fits_def)
  have w': "w' = put_clocks (t_clocks w0 @ map clock_to_row [c0]) w0"
    using ins_clocks_rows [of "[clock_to_row c0]" w0 w'] ins by (simp add: sbind_def)
  have "db_inv w'" using keepsD [OF keeps_ins_clock w0(2) ins] .
  note view = inserted_clocks_view [OF w' this, of rid]
  have "stored_view w' rid = (stored_view w0 rid)(d \<mapsto> 1)"
    by (rule ext) (simp add: view fitting_def clock_fits_def c0)
  moreover have "stored_view w rid d = None"
    using None by (simp add: stored_view_find)
  moreover have "r \<noteq> rid \<Longrightarrow> stored_view w' r = stored_view w0 r" for r
    by (rule view) (simp_all add: fitting_def clock_fits_def c0)
  moreover have "c = c0" by (simp add: c clock_load_to_row one)
  ultimately show ?thesis by (simp add: w0 c0)
next
  case (Some found)
  obtain now w0 where w0: "stored_view w0 = stored_view w" "t_clocks w0 = t_clocks w"
    and c: "c = clock_load (found\<lparr>cr_clock_value := cr_clock_value found + 1, cr_updated_at := now\<rparr>)"
    and w': "w' = put_clocks (tbl_update (\<lambda>r. cr_id r = cr_id found)
      (\<lambda>r. r\<lparr>cr_clock_value := cr_clock_value found + 1, cr_updated_at := now\<rparr>) (t_clocks w)) w0"
    by (rule increment_found_steps [OF ok Some])
  have found: "found \<in> set (t_clocks w)" "cr_resource_id found = rid" "cr_device_id found = d"
    using find_SomeD [OF Some] by simp_all
  have old: "stored_view w rid d = Some (scast (cr_clock_value found))"
    using Some by (simp add: stored_view_find)
  have new: "scast (cr_clock_value found + 1) = (scast (cr_clock_value found) :: u64) + 1"
    using fits old by (intro scast_succ_fits) simp
  have row: "stored_view w' r e =
      (if r = rid \<and> e = d then Some (scast (cr_clock_value found + 1)) else stored_view w r e)" for r e
    unfolding w' by (rule updated_clock_view [OF inv found])
  show ?thesis
    using old row by (auto simp: c clock_load_def found new fun_eq_iff)
qed

end
