(* ===== verification/Repo_Sharing.thy ===== *)
theory Repo_Sharing
  imports Repo_Clocks
begin

text \<open>
  \<open>resource_key_repository.rs\<close>, \<open>share_repository.rs\<close> and \<open>folder_share_repository.rs\<close> of
  \<open>persistance/src/repositories\<close>: the keys of a resource, its share records, and the share
  records of folders. The operations of the three traits with the same name carry the prefix
  \<open>key_\<close>, \<open>share_\<close> or \<open>fshare_\<close>.
\<close>

section \<open>Resource keys\<close>

definition key_save :: "resource_key \<Rightarrow> unit repo" where
  "key_save key = with_conn (run_stmt (ins_key (resource_key_to_row key)))"

definition add_resource_keys :: "resource_key list \<Rightarrow> unit repo" where
  "add_resource_keys keys =
     (if keys = [] then sret ()
      else with_conn (transaction (sfor ins_key_ignore (map resource_key_to_row keys))))"

definition key_find_by_resource_id :: "ident \<Rightarrow> resource_key list repo" where
  "key_find_by_resource_id resource_id = with_conn
     (sbind (load_rows t_keys (\<lambda>r. kr_resource_id r = resource_id))
        (\<lambda>models. sret (map resource_key_load models)))"

definition key_find_by_resource_and_user :: "ident \<Rightarrow> ident \<Rightarrow> resource_key repo" where
  "key_find_by_resource_and_user resource_id user_id = with_conn
     (sbind (first_row t_keys (\<lambda>r. kr_resource_id r = resource_id \<and> kr_user_id r = user_id))
        (\<lambda>model. sret (resource_key_load model)))"

definition key_delete_by_resource_id :: "ident \<Rightarrow> unit repo" where
  "key_delete_by_resource_id resource_id =
     with_conn (run_stmt (del_keys (\<lambda>r. kr_resource_id r = resource_id)))"

definition key_delete_by_resource_and_user :: "ident \<Rightarrow> ident \<Rightarrow> unit repo" where
  "key_delete_by_resource_and_user resource_id user_id =
     with_conn (run_stmt (del_keys (\<lambda>r. kr_resource_id r = resource_id \<and> kr_user_id r = user_id)))"

section \<open>Share records\<close>

definition share_save :: "share_record \<Rightarrow> unit repo" where
  "share_save share_record = with_conn (run_stmt (ins_share (share_record_to_row share_record)))"

definition share_save_many :: "share_record list \<Rightarrow> unit repo" where
  "share_save_many share_records =
     (if share_records = [] then sret ()
      else with_conn (transaction (sfor ins_share_ignore (map share_record_to_row share_records))))"

definition find_by_resource_and_operation :: "ident \<Rightarrow> string \<Rightarrow> share_record list repo" where
  "find_by_resource_and_operation resource_id operation_type = with_conn
     (sbind (load_rows t_shares (\<lambda>r. sr_resource_id r = resource_id \<and>
                                     sr_operation_type r = operation_type))
        (\<lambda>models. sret (map share_record_load models)))"

definition get_ucan_token_by_resource :: "ident \<Rightarrow> ident \<Rightarrow> string repo" where
  "get_ucan_token_by_resource resource_id user_id = with_conn
     (sbind (first_row t_shares (\<lambda>r. sr_resource_id r = resource_id \<and>
               sr_recipient_user_id r = user_id \<and> sr_operation_type r = ''share''))
        (\<lambda>model. sret (sr_ucan_token model)))"

definition share_find_by_resource :: "ident \<Rightarrow> share_record list repo" where
  "share_find_by_resource resource_id = with_conn
     (sbind (load_rows t_shares (\<lambda>r. sr_resource_id r = resource_id))
        (\<lambda>models. sret (map share_record_load models)))"

definition share_find_by_id :: "ident \<Rightarrow> share_record repo" where
  "share_find_by_id i = with_conn
     (sbind (first_row t_shares (\<lambda>r. sr_id r = i)) (\<lambda>model. sret (share_record_load model)))"

definition get_user_share_records :: "ident \<Rightarrow> share_record list repo" where
  "get_user_share_records user_id = with_conn
     (sbind (load_rows t_shares (\<lambda>r. sr_recipient_user_id r = user_id)) (\<lambda>user_share_records.
        (let resource_ids = map sr_resource_id user_share_records in
         sbind (if resource_ids = [] then sret []
                else load_rows t_shares (\<lambda>r. sr_resource_id r \<in> set resource_ids))
           (\<lambda>all_share_records. sret (map share_record_load all_share_records)))))"

definition find_by_resource_and_operation_and_user ::
  "ident \<Rightarrow> string \<Rightarrow> ident \<Rightarrow> share_record repo" where
  "find_by_resource_and_operation_and_user resource_id operation_type user_id = with_conn
     (sbind (first_row t_shares (\<lambda>r. sr_resource_id r = resource_id \<and>
               sr_recipient_user_id r = user_id \<and> sr_operation_type r = operation_type))
        (\<lambda>model. sret (share_record_load model)))"

definition share_get_ucan_by_cid :: "string \<Rightarrow> string repo" where
  "share_get_ucan_by_cid cid = with_conn
     (sbind (first_row t_shares (\<lambda>r. sr_ucan_cid r = cid)) (\<lambda>model. sret (sr_ucan_token model)))"

section \<open>Folder share records\<close>

definition fshare_save :: "folder_share_record \<Rightarrow> unit repo" where
  "fshare_save folder_share_record =
     with_conn (run_stmt (ins_fshare (folder_share_record_to_row folder_share_record)))"

definition get_records_by_folder_id :: "ident \<Rightarrow> folder_share_record list repo" where
  "get_records_by_folder_id folder_id = with_conn
     (sbind (load_rows t_fshares (\<lambda>r. fs_folder_id r = folder_id \<and>
               fs_operation_type r = share_operation_to_string Share))
        (\<lambda>models. sret (map folder_share_record_load models)))"

definition get_records_by_recipient_user_id :: "ident \<Rightarrow> folder_share_record list repo" where
  "get_records_by_recipient_user_id user_id = with_conn
     (sbind (load_rows t_fshares (\<lambda>r. fs_recipient_user_id r = user_id \<and>
               fs_operation_type r = share_operation_to_string Share))
        (\<lambda>models. sret (map folder_share_record_load models)))"

definition save_bulk_with_conflict_ignore :: "folder_share_record list \<Rightarrow> unit repo" where
  "save_bulk_with_conflict_ignore records =
     (if records = [] then sret ()
      else with_conn (transaction (sfor ins_fshare_ignore (map folder_share_record_to_row records))))"

definition fshare_get_ucan_by_cid :: "string \<Rightarrow> string repo" where
  "fshare_get_ucan_by_cid cid = with_conn
     (sbind (first_row t_fshares (\<lambda>r. fs_ucan_cid r = cid)) (\<lambda>model. sret (fs_ucan_token model)))"

definition share_folder_transaction ::
  "folder_share_record \<Rightarrow> resource_key list \<Rightarrow> share_record list \<Rightarrow> resource_vector_clock list
     \<Rightarrow> unit repo" where
  "share_folder_transaction folder_share_record resource_keys resource_share_records clocks =
     with_conn (transaction
       (sbind (ins_fshare (folder_share_record_to_row folder_share_record)) (\<lambda>_.
        sbind (sfor ins_key (map resource_key_to_row resource_keys)) (\<lambda>_.
        sbind (sfor ins_share (map share_record_to_row resource_share_records)) (\<lambda>_.
        sfor ins_clock (map clock_to_row clocks))))))"

text \<open>\<open>inner_join(users.on(recipient_user_id = users.id))\<close>: one row per record and user.\<close>

definition get_shared_users :: "ident \<Rightarrow> user list repo" where
  "get_shared_users folder_id = with_conn
     (sbind (sget (\<lambda>w. [u. s \<leftarrow> t_fshares w,
               fs_folder_id s = folder_id \<and> fs_operation_type s = share_operation_to_string Share,
               u \<leftarrow> t_users w, ur_id u = fs_recipient_user_id s]))
        (\<lambda>user_models. sret (map user_load user_models)))"

section \<open>Integrity\<close>

lemma keeps_resource_key_repository [stmt_keeps]:
  "keeps db_inv (key_save k)" "keeps db_inv (add_resource_keys ks)"
  "keeps db_inv (key_find_by_resource_id r)" "keeps db_inv (key_find_by_resource_and_user r u)"
  "keeps db_inv (key_delete_by_resource_id r)" "keeps db_inv (key_delete_by_resource_and_user r u)"
  unfolding key_save_def add_resource_keys_def key_find_by_resource_id_def
    key_find_by_resource_and_user_def key_delete_by_resource_id_def
    key_delete_by_resource_and_user_def
  by (auto intro!: stmt_keeps)

lemma keeps_share_repository [stmt_keeps]:
  "keeps db_inv (share_save s)" "keeps db_inv (share_save_many ss)"
  "keeps db_inv (find_by_resource_and_operation r op)" "keeps db_inv (get_ucan_token_by_resource r u)"
  "keeps db_inv (share_find_by_resource r)" "keeps db_inv (share_find_by_id i)"
  "keeps db_inv (get_user_share_records u)"
  "keeps db_inv (find_by_resource_and_operation_and_user r op u)"
  "keeps db_inv (share_get_ucan_by_cid c)"
  unfolding share_save_def share_save_many_def find_by_resource_and_operation_def
    get_ucan_token_by_resource_def share_find_by_resource_def share_find_by_id_def
    get_user_share_records_def find_by_resource_and_operation_and_user_def
    share_get_ucan_by_cid_def Let_def
  by (auto intro!: stmt_keeps)

lemma keeps_folder_share_repository [stmt_keeps]:
  "keeps db_inv (fshare_save f)" "keeps db_inv (get_records_by_folder_id i)"
  "keeps db_inv (get_records_by_recipient_user_id u)"
  "keeps db_inv (save_bulk_with_conflict_ignore fs)" "keeps db_inv (fshare_get_ucan_by_cid c)"
  "keeps db_inv (share_folder_transaction f ks ss cs)" "keeps db_inv (get_shared_users i)"
  unfolding fshare_save_def get_records_by_folder_id_def get_records_by_recipient_user_id_def
    save_bulk_with_conflict_ignore_def fshare_get_ucan_by_cid_def share_folder_transaction_def
    get_shared_users_def
  by (auto intro!: stmt_keeps)

end
