(* ===== verification/Repo_Users_Devices.thy ===== *)
theory Repo_Users_Devices
  imports Repo_Sharing
begin

text \<open>
  \<open>user_repository.rs\<close>, \<open>device_repository.rs\<close> and \<open>store_repository.rs\<close> of
  \<open>persistance/src/repositories\<close>: the known users and their devices, and the store of named
  items that keeps the certificates. A join is a list comprehension over the two tables; a
  \<open>HashMap\<close> turned into a vector takes the order of its keys as the parameter \<open>ord\<close>.
\<close>

section \<open>Users\<close>

definition add_known_user :: "user \<Rightarrow> unit repo" where
  "add_known_user user = with_conn (run_stmt (ins_user (user_to_row user)))"

definition get_known_users :: "user list repo" where
  "get_known_users = with_conn
     (sbind (load_rows t_users (\<lambda>r. \<not> ur_owner r)) (\<lambda>models. sret (map user_load models)))"

definition get_users_by_ids :: "ident list \<Rightarrow> user list repo" where
  "get_users_by_ids user_ids = with_conn
     (sbind (load_rows t_users (\<lambda>r. \<not> ur_owner r \<and> ur_id r \<in> set user_ids))
        (\<lambda>models. sret (map user_load models)))"

definition get_user_by_id :: "ident \<Rightarrow> user repo" where
  "get_user_by_id user_id = with_conn
     (sbind (first_row t_users (\<lambda>r. ur_id r = user_id)) (\<lambda>model. sret (user_load model)))"

definition complete_user_addition :: "ident \<Rightarrow> unit repo" where
  "complete_user_addition user_id = sbind now_millis (\<lambda>now. with_conn (run_stmt
     (upd_users (\<lambda>r. ur_id r = user_id) (\<lambda>r. r\<lparr>ur_first_sync := True, ur_updated_at := now\<rparr>))))"

definition add_known_users_bulk :: "user list \<Rightarrow> unit repo" where
  "add_known_users_bulk users =
     (if users = [] then sret ()
      else with_conn (transaction (sfor ins_user_ignore (map user_to_row users))))"

definition commit_signup_transaction ::
  "user \<Rightarrow> certificate \<Rightarrow> device \<Rightarrow> certificate \<Rightarrow> device option \<Rightarrow> certificate \<Rightarrow> unit repo" where
  "commit_signup_transaction user primary_certificate device device_certificate peer_device
     ucan_certificate = with_conn (sbind now_millis (\<lambda>now. transaction
       (let item = (\<lambda>k v. ins_store \<lparr>st_key = k, st_value = v, st_updated_at = now\<rparr>) in
        sbind (ins_user (user_to_row user)) (\<lambda>_.
        sbind (item ''primary_key'' (crt_private_key primary_certificate)) (\<lambda>_.
        sbind (item ''primary_key_salt'' (crt_salt primary_certificate)) (\<lambda>_.
        sbind (item ''device_key'' (crt_private_key device_certificate)) (\<lambda>_.
        sbind (item ''device_key_salt'' (crt_salt device_certificate)) (\<lambda>_.
        sbind (item ''device_id'' (dev_id device)) (\<lambda>_.
        sbind (item ''ucan_key'' (crt_private_key ucan_certificate)) (\<lambda>_.
        sbind (ins_device (device_to_row device)) (\<lambda>_.
        case peer_device of
          Some p \<Rightarrow> ins_device (device_to_row p)
        | None \<Rightarrow> sret ())))))))))))"

text \<open>\<open>devices.inner_join(users.on(user_id = users.id)).filter(p).select((user_id, id))\<close>\<close>

definition joined_device_ids :: "(users_row \<Rightarrow> bool) \<Rightarrow> world \<Rightarrow> (ident \<times> ident) list" where
  "joined_device_ids p w =
     [(dr_user_id d, dr_id d). d \<leftarrow> t_devices w, u \<leftarrow> t_users w, ur_id u = dr_user_id d \<and> p u]"

definition users_with_ids ::
  "(ident set \<Rightarrow> ident list) \<Rightarrow> (ident \<rightharpoonup> ident list) \<Rightarrow> user_with_device_ids list" where
  "users_with_ids ord m =
     map (\<lambda>u. \<lparr>uwi_user_id = u, uwi_device_ids = the (m u)\<rparr>) (ord (dom m))"

definition get_other_users_with_device_ids ::
  "(ident set \<Rightarrow> ident list) \<Rightarrow> user_with_device_ids list repo" where
  "get_other_users_with_device_ids ord = with_conn
     (sbind (sget (joined_device_ids (\<lambda>u. \<not> ur_owner u)))
        (\<lambda>user_devices. sret (users_with_ids ord (group_pairs user_devices))))"

definition get_users_with_devices_by_user_ids :: "ident list \<Rightarrow> user_with_devices list repo" where
  "get_users_with_devices_by_user_ids user_ids =
     (if user_ids = [] then sret []
      else with_conn
        (sbind (load_rows t_users (\<lambda>r. ur_id r \<in> set user_ids)) (\<lambda>user_models.
         sbind (load_rows t_devices (\<lambda>d. dr_user_id d \<in> ur_id ` set user_models)) (\<lambda>device_models.
         sret (map (\<lambda>u. \<lparr>uwd_user = user_load u,
                         uwd_devices = map device_load
                           (filter (\<lambda>d. dr_user_id d = ur_id u) device_models)\<rparr>) user_models)))))"

definition add_users_with_devices_bulk :: "user_with_devices list \<Rightarrow> unit repo" where
  "add_users_with_devices_bulk users_with_devices =
     (if users_with_devices = [] then sret ()
      else with_conn (transaction (sfor (\<lambda>ud.
        sbind (ups_user (\<lambda>r. r\<lparr>ur_ucan_pub_key := usr_ucan_pub_key (uwd_user ud),
                               ur_ucan_token := usr_ucan_token (uwd_user ud),
                               ur_first_sync := usr_first_sync (uwd_user ud),
                               ur_ucan_cid := usr_ucan_cid (uwd_user ud)\<rparr>)
                  (user_to_row (uwd_user ud))) (\<lambda>_.
        sfor (\<lambda>device. ins_device_ignore (device_to_row device)) (uwd_devices ud)))
        users_with_devices)))"

definition get_user_device_mapping :: "(ident \<rightharpoonup> ident list) repo" where
  "get_user_device_mapping = with_conn
     (sbind (sget (joined_device_ids (\<lambda>_. True))) (\<lambda>user_devices. sret (group_pairs user_devices)))"

definition get_users_with_device_ids_by_user_ids ::
  "(ident set \<Rightarrow> ident list) \<Rightarrow> ident list \<Rightarrow> user_with_device_ids list repo" where
  "get_users_with_device_ids_by_user_ids ord user_ids =
     (if user_ids = [] then sret []
      else with_conn (sbind (sget (joined_device_ids (\<lambda>u. ur_id u \<in> set user_ids)))
        (\<lambda>user_devices. sret (users_with_ids ord (group_pairs user_devices)))))"

definition get_user_by_device_id :: "ident \<Rightarrow> user repo" where
  "get_user_by_device_id device_id = with_conn
     (sbind (first_row (\<lambda>w. [(d, u). d \<leftarrow> t_devices w, u \<leftarrow> t_users w, ur_id u = dr_user_id d])
               (\<lambda>(d, u). dr_id d = device_id))
        (\<lambda>(d, u). sret (user_load u)))"

definition user_get_ucan_by_cid :: "string \<Rightarrow> string repo" where
  "user_get_ucan_by_cid cid = with_conn
     (sbind (first_row t_users (\<lambda>r. ur_ucan_cid r = cid))
        (\<lambda>model. sret (ur_ucan_token model)))"

section \<open>Devices\<close>

definition device_save :: "device \<Rightarrow> unit repo" where
  "device_save device = with_conn (run_stmt (ins_device (device_to_row device)))"

definition device_find_by_id :: "ident \<Rightarrow> device repo" where
  "device_find_by_id device_id = with_conn
     (sbind (first_row t_devices (\<lambda>r. dr_id r = device_id)) (\<lambda>model. sret (device_load model)))"

definition get_devices_by_user_id :: "ident \<Rightarrow> device list repo" where
  "get_devices_by_user_id user_id = with_conn
     (sbind (load_rows t_devices (\<lambda>r. dr_user_id r = user_id))
        (\<lambda>models. sret (map device_load (sort_key (\<lambda>r. - dr_created_at r) models))))"

definition update_last_synced_at :: "ident \<Rightarrow> unit repo" where
  "update_last_synced_at device_id = with_conn (sbind now_millis (\<lambda>timestamp. run_stmt
     (upd_devices (\<lambda>r. dr_id r = device_id) (\<lambda>r. r\<lparr>dr_last_synced_at := Some timestamp\<rparr>))))"

definition get_devices_by_user_except :: "ident \<Rightarrow> ident list \<Rightarrow> device list repo" where
  "get_devices_by_user_except user_id exclude_ids = with_conn
     (sbind (load_rows t_devices (\<lambda>r. dr_id r \<notin> set exclude_ids \<and> dr_user_id r = user_id))
        (\<lambda>models. sret (map device_load (sort_key (\<lambda>r. - dr_created_at r) models))))"

definition get_all_devices_except :: "ident list \<Rightarrow> device list repo" where
  "get_all_devices_except except_devices = with_conn
     (sbind (load_rows t_devices (\<lambda>r. dr_id r \<notin> set except_devices))
        (\<lambda>models. sret (map device_load models)))"

definition device_save_many :: "device list \<Rightarrow> unit repo" where
  "device_save_many devices =
     (if devices = [] then sret ()
      else with_conn (transaction (sfor (\<lambda>d. smap_err (\<lambda>_. RollbackTransaction) (ins_device_ignore d))
        (map device_to_row devices))))"

definition get_devices_by_user_ids :: "ident list \<Rightarrow> device list repo" where
  "get_devices_by_user_ids user_ids = with_conn
     (if user_ids = [] then sret []
      else sbind (load_rows t_devices (\<lambda>r. dr_user_id r \<in> set user_ids))
        (\<lambda>models. sret (map device_load (sort_key (\<lambda>r. - dr_created_at r) models))))"

definition get_device_ids_by_user_id :: "ident \<Rightarrow> ident list repo" where
  "get_device_ids_by_user_id user_id = with_conn
     (sbind (load_rows t_devices (\<lambda>r. dr_user_id r = user_id)) (\<lambda>rows. sret (map dr_id rows)))"

definition get_devices_by_ids :: "ident list \<Rightarrow> device list repo" where
  "get_devices_by_ids device_ids = with_conn
     (if device_ids = [] then sret []
      else sbind (load_rows t_devices (\<lambda>r. dr_id r \<in> set device_ids))
        (\<lambda>models. sret (map device_load models)))"

section \<open>Store items\<close>

definition put_item :: "millis \<Rightarrow> string \<Rightarrow> string \<Rightarrow> unit stmt" where
  "put_item now k v = ups_store (\<lambda>r. r\<lparr>st_value := v, st_updated_at := now\<rparr>)
     \<lparr>st_key = k, st_value = v, st_updated_at = now\<rparr>"

definition get_item :: "string \<Rightarrow> string repo" where
  "get_item k = sbind (first_row t_store (\<lambda>r. st_key r = k)) (\<lambda>r. sret (st_value r))"

definition store_certificate :: "certificate \<Rightarrow> string \<Rightarrow> string \<Rightarrow> unit repo" where
  "store_certificate certificate certificate_key salt_key = with_conn (sbind now_millis (\<lambda>now.
     transaction (sbind (put_item now certificate_key (crt_private_key certificate)) (\<lambda>_.
       put_item now salt_key (crt_salt certificate)))))"

definition get_certificate :: "string \<Rightarrow> string \<Rightarrow> certificate repo" where
  "get_certificate certificate_key salt_key = with_conn
     (sbind (get_item certificate_key) (\<lambda>private_key.
      sbind (get_item salt_key) (\<lambda>salt.
      sret \<lparr>crt_private_key = private_key, crt_public_key = [], crt_salt = salt\<rparr>)))"

definition is_signed_up :: "bool repo" where
  "is_signed_up = with_conn
     (sbind (load_rows t_store (\<lambda>r. st_key r = ''primary_key'')) (\<lambda>rows. sret (length rows > 0)))"

definition store_device_key :: "string \<Rightarrow> unit repo" where
  "store_device_key device_key = with_conn
     (sbind now_millis (\<lambda>now. run_stmt (put_item now ''device_id'' device_key)))"

definition add_index_key :: "string \<Rightarrow> unit repo" where
  "add_index_key index_key = with_conn
     (sbind now_millis (\<lambda>now. run_stmt (put_item now ''index_key'' index_key)))"

definition get_index_key :: "string repo" where
  "get_index_key = with_conn (get_item ''index_key'')"

definition get_device_key :: "string repo" where
  "get_device_key = with_conn (get_item ''device_id'')"

definition get_node_key :: "string repo" where
  "get_node_key = with_conn (get_item ''device_key'')"

definition get_ucan_key :: "string repo" where
  "get_ucan_key = with_conn (get_item ''ucan_key'')"

section \<open>Integrity\<close>

lemma keeps_user_repository [stmt_keeps]:
  "keeps db_inv (add_known_user u)" "keeps db_inv get_known_users"
  "keeps db_inv (get_users_by_ids is)" "keeps db_inv (get_user_by_id i)"
  "keeps db_inv (complete_user_addition i)" "keeps db_inv (add_known_users_bulk us)"
  "keeps db_inv (commit_signup_transaction u c1 d c2 p c3)"
  "keeps db_inv (get_other_users_with_device_ids ord)"
  "keeps db_inv (get_users_with_devices_by_user_ids is)"
  "keeps db_inv (add_users_with_devices_bulk uds)" "keeps db_inv get_user_device_mapping"
  "keeps db_inv (get_users_with_device_ids_by_user_ids ord is)"
  "keeps db_inv (get_user_by_device_id i)" "keeps db_inv (user_get_ucan_by_cid c)"
  unfolding add_known_user_def get_known_users_def get_users_by_ids_def get_user_by_id_def
    complete_user_addition_def add_known_users_bulk_def commit_signup_transaction_def
    get_other_users_with_device_ids_def get_users_with_devices_by_user_ids_def
    add_users_with_devices_bulk_def get_user_device_mapping_def
    get_users_with_device_ids_by_user_ids_def get_user_by_device_id_def user_get_ucan_by_cid_def
    Let_def
  by (auto intro!: stmt_keeps split: option.splits prod.splits)

lemma keeps_device_repository [stmt_keeps]:
  "keeps db_inv (device_save d)" "keeps db_inv (device_find_by_id i)"
  "keeps db_inv (get_devices_by_user_id i)" "keeps db_inv (update_last_synced_at i)"
  "keeps db_inv (get_devices_by_user_except i is)" "keeps db_inv (get_all_devices_except is)"
  "keeps db_inv (device_save_many ds)" "keeps db_inv (get_devices_by_user_ids is)"
  "keeps db_inv (get_device_ids_by_user_id i)" "keeps db_inv (get_devices_by_ids is)"
  unfolding device_save_def device_find_by_id_def get_devices_by_user_id_def
    update_last_synced_at_def get_devices_by_user_except_def get_all_devices_except_def
    device_save_many_def get_devices_by_user_ids_def get_device_ids_by_user_id_def
    get_devices_by_ids_def
  by (auto intro!: stmt_keeps)

lemma keeps_store_repository [stmt_keeps]:
  "keeps db_inv (store_certificate c k s)" "keeps db_inv (get_certificate k s)"
  "keeps db_inv is_signed_up" "keeps db_inv (store_device_key k)" "keeps db_inv (add_index_key k)"
  "keeps db_inv get_index_key" "keeps db_inv get_device_key" "keeps db_inv get_node_key"
  "keeps db_inv get_ucan_key"
  unfolding store_certificate_def get_certificate_def is_signed_up_def store_device_key_def
    add_index_key_def get_index_key_def get_device_key_def get_node_key_def get_ucan_key_def
    put_item_def get_item_def
  by (auto intro!: stmt_keeps)

end
