(* ===== verification/Repo_Folders.thy ===== *)
theory Repo_Folders
  imports Repo_Users_Devices
begin

text \<open>
  \<open>persistance/src/repositories/folder_repository.rs\<close>: folders, their soft deletion together
  with the resources they hold, and the manifest of the folders shared with a user.
\<close>

section \<open>Operations\<close>

definition save_folder_with_share_record :: "folder \<Rightarrow> folder_share_record \<Rightarrow> unit repo" where
  "save_folder_with_share_record folder folder_share_record = with_conn (transaction
     (sbind (ins_folder (folder_to_row folder)) (\<lambda>_.
      ins_fshare (folder_share_record_to_row folder_share_record))))"

definition folder_find_all :: "folder list repo" where
  "folder_find_all = with_conn
     (sbind (load_rows t_folders (\<lambda>r. \<not> fr_deleted r)) (\<lambda>models. sret (map folder_load models)))"

definition folder_find_by_id :: "ident \<Rightarrow> folder repo" where
  "folder_find_by_id i = with_conn
     (sbind (first_row t_folders (\<lambda>r. fr_id r = i)) (\<lambda>model. sret (folder_load model)))"

definition folder_soft_delete :: "ident \<Rightarrow> unit repo" where
  "folder_soft_delete folder_id = with_conn (sbind now_millis (\<lambda>now. transaction
     (sbind (upd_resources (\<lambda>r. rr_folder_id r = folder_id)
               (\<lambda>r. r\<lparr>rr_deleted := True, rr_deleted_at := Some now, rr_updated_at := now\<rparr>)) (\<lambda>_.
      upd_folders (\<lambda>r. fr_id r = folder_id)
        (\<lambda>r. r\<lparr>fr_deleted := True, fr_deleted_at := Some now, fr_updated_at := now\<rparr>)))))"

definition get_default_folder :: "folder repo" where
  "get_default_folder = with_conn
     (sbind (first_row (\<lambda>w. sort_key fr_created_at (t_folders w))
               (\<lambda>r. \<not> fr_deleted r \<and> fr_default_folder r))
        (\<lambda>model. sret (folder_load model)))"

definition get_folders_by_ids :: "ident list \<Rightarrow> folder list repo" where
  "get_folders_by_ids folder_ids =
     (if folder_ids = [] then sret []
      else with_conn
        (sbind (load_rows t_folders (\<lambda>r. fr_id r \<in> set folder_ids \<and> \<not> fr_deleted r))
           (\<lambda>models. sret (map folder_load models))))"

definition add_folders_bulk :: "folder list \<Rightarrow> unit repo" where
  "add_folders_bulk folders =
     (if folders = [] then sret ()
      else with_conn (transaction (sfor ins_folder_ignore (map folder_to_row folders))))"

definition get_folder_manifest_for_user :: "ident \<Rightarrow> folder_manifest_data list repo" where
  "get_folder_manifest_for_user peer_user_id = with_conn
     (sbind (load_rows t_fshares (\<lambda>r. fs_recipient_user_id r = peer_user_id)) (\<lambda>rows.
        (let folder_ids = remdups (map fs_folder_id rows) in
         if folder_ids = [] then sret []
         else smap (\<lambda>folder_id.
           sbind (load_rows t_fshares (\<lambda>r. fs_folder_id r = folder_id)) (\<lambda>recipients.
           sret \<lparr>fmd_folder_id = folder_id,
                 fmd_recipient_user_ids = remdups (map fs_recipient_user_id recipients)\<rparr>))
           folder_ids)))"

definition save_folder_with_share_records :: "folder \<Rightarrow> folder_share_record list \<Rightarrow> unit repo" where
  "save_folder_with_share_records folder share_records = with_conn (transaction
     (sbind (ups_folder (\<lambda>r. r\<lparr>fr_name := fol_name folder, fr_description := fol_description folder,
                                fr_updated_at := fol_updated_at folder\<rparr>) (folder_to_row folder)) (\<lambda>_.
      sfor (\<lambda>share_record. ins_fshare_ignore (folder_share_record_to_row share_record))
        share_records)))"

definition get_share_records_for_folder_and_recipients ::
  "ident \<Rightarrow> ident list \<Rightarrow> folder_share_record list repo" where
  "get_share_records_for_folder_and_recipients folder_id recipient_ids =
     (if recipient_ids = [] then sret []
      else with_conn
        (sbind (load_rows t_fshares (\<lambda>r. fs_folder_id r = folder_id \<and>
                  fs_recipient_user_id r \<in> set recipient_ids))
           (\<lambda>models. sret (map folder_share_record_load models))))"

definition add_folder_share_records_bulk :: "folder_share_record list \<Rightarrow> unit repo" where
  "add_folder_share_records_bulk share_records =
     (if share_records = [] then sret ()
      else with_conn (transaction
        (sfor ins_fshare_ignore (map folder_share_record_to_row share_records))))"

section \<open>Integrity\<close>

lemma keeps_folder_repository [stmt_keeps]:
  "keeps db_inv (save_folder_with_share_record f s)" "keeps db_inv folder_find_all"
  "keeps db_inv (folder_find_by_id i)" "keeps db_inv (folder_soft_delete i)"
  "keeps db_inv get_default_folder" "keeps db_inv (get_folders_by_ids is)"
  "keeps db_inv (add_folders_bulk fs)" "keeps db_inv (get_folder_manifest_for_user u)"
  "keeps db_inv (save_folder_with_share_records f ss)"
  "keeps db_inv (get_share_records_for_folder_and_recipients i is)"
  "keeps db_inv (add_folder_share_records_bulk ss)"
  unfolding save_folder_with_share_record_def folder_find_all_def folder_find_by_id_def
    folder_soft_delete_def get_default_folder_def get_folders_by_ids_def add_folders_bulk_def
    get_folder_manifest_for_user_def save_folder_with_share_records_def
    get_share_records_for_folder_and_recipients_def add_folder_share_records_bulk_def Let_def
  by (auto intro!: stmt_keeps)

end
