(* ===== verification/Repo_Resources.thy ===== *)
theory Repo_Resources
  imports Repo_Folders
begin

text \<open>
  \<open>persistance/src/repositories/resource_repository.rs\<close>: resources with the keys of a user, and
  the transactions that write a resource together with its key, share record and clocks, when it
  is created, shared or received from a peer.
\<close>

section \<open>Reading\<close>

text \<open>\<open>resources.inner_join(resource_keys.on(id = resource_id and user_id = u))\<close>\<close>

definition joined_resource_keys :: "ident \<Rightarrow> world \<Rightarrow> (resources_row \<times> keys_row) list" where
  "joined_resource_keys user_id w =
     [(r, k). r \<leftarrow> t_resources w, k \<leftarrow> t_keys w, kr_resource_id k = rr_id r \<and> kr_user_id k = user_id]"

definition with_key :: "resources_row \<times> keys_row \<Rightarrow> resource_with_key" where
  "with_key = (\<lambda>(r, k). \<lparr>rwk_resource = resource_load r, rwk_encrypted_key = kr_encrypted_key k\<rparr>)"

definition query_resources_with_keys ::
  "ident \<Rightarrow> ident option \<Rightarrow> bool \<Rightarrow> bool \<Rightarrow> resource_with_key list repo" where
  "query_resources_with_keys user_id folder_id favorites_only include_deleted = with_conn
     (sbind (load_rows (joined_resource_keys user_id) (\<lambda>(r, k).
               (\<not> include_deleted \<longrightarrow> \<not> rr_deleted r) \<and>
               (favorites_only \<longrightarrow> rr_favourite r) \<and>
               (case folder_id of Some folder \<Rightarrow> rr_folder_id r = folder | None \<Rightarrow> True)))
        (\<lambda>results. sret (map with_key (sort_key (\<lambda>(r, k). - rr_last_accessed r) results))))"

definition find_by_folder :: "ident \<Rightarrow> ident \<Rightarrow> resource_with_key list repo" where
  "find_by_folder folder_id user_id = query_resources_with_keys user_id (Some folder_id) False False"

definition find_all_by_folder :: "ident \<Rightarrow> ident \<Rightarrow> resource_with_key list repo" where
  "find_all_by_folder folder_id user_id = query_resources_with_keys user_id (Some folder_id) False True"

definition get_all_resources :: "ident \<Rightarrow> resource_with_key list repo" where
  "get_all_resources user_id = query_resources_with_keys user_id None False False"

definition get_favourites :: "ident \<Rightarrow> resource_with_key list repo" where
  "get_favourites user_id = query_resources_with_keys user_id None True False"

definition resource_find_by_id :: "ident \<Rightarrow> ident \<Rightarrow> resource_with_key repo" where
  "resource_find_by_id i user_id = with_conn
     (sbind (first_row (joined_resource_keys user_id) (\<lambda>(r, k). rr_id r = i))
        (\<lambda>found. sret (with_key found)))"

definition find_resource_with_key :: "ident \<Rightarrow> ident \<Rightarrow> resource_key_pair repo" where
  "find_resource_with_key resource_id user_id = with_conn
     (sbind (first_row t_resources (\<lambda>r. rr_id r = resource_id)) (\<lambda>resource_model.
      sbind (first_row t_keys (\<lambda>k. kr_resource_id k = resource_id \<and> kr_user_id k = user_id)) (\<lambda>key_model.
      sret \<lparr>rkp_resource = resource_load resource_model, rkp_key = resource_key_load key_model\<rparr>)))"

definition find_by_id_raw :: "ident \<Rightarrow> resource repo" where
  "find_by_id_raw i = with_conn
     (sbind (first_row t_resources (\<lambda>r. rr_id r = i)) (\<lambda>model. sret (resource_load model)))"

text \<open>Each id of the list takes its group out of the two maps.\<close>

primrec take_groups ::
  "(ident \<rightharpoonup> ident list) \<Rightarrow> (ident \<rightharpoonup> resource_vector_clock list) \<Rightarrow> ident list
     \<Rightarrow> resource_manifest_data list" where
  "take_groups shares clocks [] = []"
| "take_groups shares clocks (i # is) =
     \<lparr>rmd_resource_id = i,
      rmd_share_record_ids = (case shares i of None \<Rightarrow> [] | Some vs \<Rightarrow> vs),
      rmd_vector_clocks = (case clocks i of None \<Rightarrow> [] | Some vs \<Rightarrow> vs)\<rparr>
     # take_groups (shares(i := None)) (clocks(i := None)) is"

definition get_resource_manifest_data :: "ident list option \<Rightarrow> resource_manifest_data list repo" where
  "get_resource_manifest_data resource_ids = with_conn
     (sbind (case resource_ids of
               Some ids \<Rightarrow> sret ids
             | None \<Rightarrow> sget (\<lambda>w. map rr_id (filter (\<lambda>r. \<not> rr_deleted r) (t_resources w))))
        (\<lambda>target_resource_ids.
           if target_resource_ids = [] then sret []
           else
             sbind (load_rows t_shares (\<lambda>s. sr_resource_id s \<in> set target_resource_ids)) (\<lambda>shares.
             sbind (load_rows t_clocks (\<lambda>c. cr_resource_id c \<in> set target_resource_ids)) (\<lambda>clocks.
             sret (take_groups
               (group_pairs (map (\<lambda>s. (sr_resource_id s, sr_id s)) shares))
               (group_pairs (map (\<lambda>c. (cr_resource_id c, clock_load c)) clocks))
               target_resource_ids)))))"

definition get_resource_sync_data :: "ident \<Rightarrow> resource_sync_data repo" where
  "get_resource_sync_data resource_id = with_conn
     (sbind (first_row t_resources (\<lambda>r. rr_id r = resource_id)) (\<lambda>resource_model.
      sbind (load_rows t_keys (\<lambda>k. kr_resource_id k = rr_id resource_model)) (\<lambda>key_models.
      sbind (load_rows t_shares (\<lambda>s. sr_resource_id s = rr_id resource_model)) (\<lambda>share_models.
      sbind (load_rows t_clocks (\<lambda>c. cr_resource_id c = rr_id resource_model)) (\<lambda>clock_models.
      sret \<lparr>rsd_resource = resource_load resource_model,
            rsd_resource_keys = map resource_key_load key_models,
            rsd_share_records = map share_record_load share_models,
            rsd_vector_clocks = map clock_load clock_models\<rparr>)))))"

definition get_all_resource_ids :: "ident list repo" where
  "get_all_resource_ids = with_conn
     (sbind (load_rows t_resources (\<lambda>r. \<not> rr_deleted r))
        (\<lambda>rows. sret (map rr_id (sort_key (\<lambda>r. - rr_last_accessed r) rows))))"

definition find_owner_by_resource_id :: "ident \<Rightarrow> user repo" where
  "find_owner_by_resource_id resource_id = with_conn
     (sbind (first_row (\<lambda>w. [(u, r). u \<leftarrow> t_users w, r \<leftarrow> t_resources w, ur_id u = rr_created_by r])
               (\<lambda>(u, r). rr_id r = resource_id))
        (\<lambda>(u, r). sret (user_select u)))"

definition get_folder_ids_for_resources :: "ident list \<Rightarrow> (ident \<rightharpoonup> ident list) repo" where
  "get_folder_ids_for_resources resource_ids =
     (if resource_ids = [] then sret Map.empty
      else with_conn
        (sbind (load_rows t_resources (\<lambda>r. rr_id r \<in> set resource_ids \<and> \<not> rr_deleted r))
           (\<lambda>results. sret (group_pairs (map (\<lambda>r. (rr_folder_id r, rr_id r)) results)))))"

definition get_resource_ids_by_folder_id :: "ident \<Rightarrow> ident list repo" where
  "get_resource_ids_by_folder_id folder_id = with_conn
     (sbind (load_rows t_resources (\<lambda>r. rr_folder_id r = folder_id \<and> \<not> rr_deleted r))
        (\<lambda>rows. sret (map rr_id rows)))"

section \<open>Writing one resource\<close>

definition resource_save :: "resource \<Rightarrow> unit repo" where
  "resource_save resource = with_conn (run_stmt (ins_resource (resource_to_row resource)))"

definition delete_resource :: "ident \<Rightarrow> unit repo" where
  "delete_resource i = with_conn (run_stmt (del_resources (\<lambda>r. rr_id r = i)))"

definition soft_delete_resource :: "ident \<Rightarrow> unit repo" where
  "soft_delete_resource i = with_conn (sbind now_millis (\<lambda>now. run_stmt
     (upd_resources (\<lambda>r. rr_id r = i)
        (\<lambda>r. r\<lparr>rr_deleted := True, rr_deleted_at := Some now, rr_updated_at := now\<rparr>))))"

definition toggle_fav :: "ident \<Rightarrow> unit repo" where
  "toggle_fav resource_id = with_conn (sbind now_millis (\<lambda>now.
     sbind (first_row t_resources (\<lambda>r. rr_id r = resource_id)) (\<lambda>found.
       (let current_favourite = rr_favourite found in
        run_stmt (upd_resources (\<lambda>r. rr_id r = resource_id)
          (\<lambda>r. r\<lparr>rr_favourite := \<not> current_favourite, rr_updated_at := now\<rparr>))))))"

definition update_last_accessed :: "ident \<Rightarrow> unit repo" where
  "update_last_accessed resource_id = with_conn (sbind now_millis (\<lambda>now. run_stmt
     (upd_resources (\<lambda>r. rr_id r = resource_id) (\<lambda>r. r\<lparr>rr_last_accessed := now\<rparr>))))"

definition repo_update_resource :: "string \<Rightarrow> ident \<Rightarrow> unit repo" where
  "repo_update_resource dat resource_id = with_conn (sbind now_millis (\<lambda>now. run_stmt
     (upd_resources (\<lambda>r. rr_id r = resource_id) (\<lambda>r. r\<lparr>rr_data := dat, rr_updated_at := now\<rparr>))))"

section \<open>Transactions over several tables\<close>

definition save_resource_with_key :: "resource \<Rightarrow> resource_key \<Rightarrow> unit repo" where
  "save_resource_with_key resource key = with_conn (transaction
     (sbind (ins_resource (resource_to_row resource)) (\<lambda>_. ins_key (resource_key_to_row key))))"

definition save_resource_with_dependencies ::
  "resource \<Rightarrow> resource_key \<Rightarrow> share_record \<Rightarrow> resource_vector_clock list \<Rightarrow> unit repo" where
  "save_resource_with_dependencies resource resource_key share_record vector_clocks =
     with_conn (transaction
       (sbind (ins_resource (resource_to_row resource)) (\<lambda>_.
        sbind (ins_key (resource_key_to_row resource_key)) (\<lambda>_.
        sbind (ins_share (share_record_to_row share_record)) (\<lambda>_.
        if vector_clocks = [] then sret ()
        else ins_all ins_clock (map clock_to_row vector_clocks))))))"

definition share_resource_transaction ::
  "resource_key \<Rightarrow> share_record \<Rightarrow> resource_vector_clock list \<Rightarrow> unit repo" where
  "share_resource_transaction resource_key share_record recipient_vector_clocks =
     with_conn (transaction
       (sbind (ins_key (resource_key_to_row resource_key)) (\<lambda>_.
        sbind (ins_share (share_record_to_row share_record)) (\<lambda>_.
        if recipient_vector_clocks = [] then sret ()
        else ins_all ins_clock (map clock_to_row recipient_vector_clocks)))))"

definition add_device_with_vector_clocks :: "device \<Rightarrow> resource_vector_clock list \<Rightarrow> unit repo" where
  "add_device_with_vector_clocks device vector_clocks = with_conn (transaction
     (sbind (ins_device (device_to_row device)) (\<lambda>_.
      if vector_clocks = [] then sret ()
      else ins_all ins_clock (map clock_to_row vector_clocks))))"

definition save_resource_sync_data :: "resource_sync_data \<Rightarrow> unit repo" where
  "save_resource_sync_data sync_data = with_conn (transaction
     (sbind (ins_resource_ignore (resource_to_row (rsd_resource sync_data))) (\<lambda>_.
      sbind (sfor (\<lambda>k. ins_key_ignore (resource_key_to_row k)) (rsd_resource_keys sync_data)) (\<lambda>_.
      sbind (sfor (\<lambda>s. ins_share_ignore (share_record_to_row s)) (rsd_share_records sync_data)) (\<lambda>_.
      sfor (\<lambda>c. ins_clock_ignore (clock_to_row c)) (rsd_vector_clocks sync_data))))))"

text \<open>\<open>on_conflict((resource_id, device_id)).do_update().set(clock_value)\<close>\<close>

definition put_clock :: "resource_vector_clock \<Rightarrow> unit stmt" where
  "put_clock c = ups_clock (\<lambda>r. r\<lparr>cr_clock_value := ucast (vc_clock_value c)\<rparr>) (clock_to_row c)"

definition save_resource_and_folder_sharing_data ::
  "resource_key list \<Rightarrow> share_record list \<Rightarrow> resource_vector_clock list \<Rightarrow> folder_share_record list
     \<Rightarrow> unit repo" where
  "save_resource_and_folder_sharing_data resource_keys share_records vector_clocks folder_shares =
     (if resource_keys = [] \<and> share_records = [] \<and> vector_clocks = [] \<and> folder_shares = []
      then sret ()
      else with_conn (transaction
        (sbind (sfor (\<lambda>k. ins_key_ignore (resource_key_to_row k)) resource_keys) (\<lambda>_.
         sbind (sfor (\<lambda>s. ins_share_ignore (share_record_to_row s)) share_records) (\<lambda>_.
         sbind (sfor put_clock vector_clocks) (\<lambda>_.
         sfor (\<lambda>f. ins_fshare_ignore (folder_share_record_to_row f)) folder_shares))))))"

definition save_bulk_sharing_data ::
  "resource_key list \<Rightarrow> share_record list \<Rightarrow> resource_vector_clock list \<Rightarrow> unit repo" where
  "save_bulk_sharing_data resource_keys share_records vector_clocks =
     (if resource_keys = [] \<and> share_records = [] \<and> vector_clocks = [] then sret ()
      else with_conn (transaction
        (sbind (sfor (\<lambda>k. ins_key_ignore (resource_key_to_row k)) resource_keys) (\<lambda>_.
         sbind (sfor (\<lambda>s. ins_share_ignore (share_record_to_row s)) share_records) (\<lambda>_.
         sfor put_clock vector_clocks)))))"

section \<open>Integrity\<close>

lemma keeps_resource_reads [stmt_keeps]:
  "keeps db_inv (query_resources_with_keys u fo fav del)" "keeps db_inv (find_by_folder f u)"
  "keeps db_inv (find_all_by_folder f u)" "keeps db_inv (get_all_resources u)"
  "keeps db_inv (get_favourites u)" "keeps db_inv (resource_find_by_id i u)"
  "keeps db_inv (find_resource_with_key i u)" "keeps db_inv (find_by_id_raw i)"
  "keeps db_inv (get_resource_manifest_data ids)" "keeps db_inv (get_resource_sync_data i)"
  "keeps db_inv get_all_resource_ids" "keeps db_inv (find_owner_by_resource_id i)"
  "keeps db_inv (get_folder_ids_for_resources is)" "keeps db_inv (get_resource_ids_by_folder_id i)"
  unfolding find_by_folder_def find_all_by_folder_def get_all_resources_def get_favourites_def
    query_resources_with_keys_def resource_find_by_id_def find_resource_with_key_def
    find_by_id_raw_def get_resource_manifest_data_def get_resource_sync_data_def
    get_all_resource_ids_def find_owner_by_resource_id_def get_folder_ids_for_resources_def
    get_resource_ids_by_folder_id_def
  by (auto intro!: stmt_keeps split: option.splits prod.splits)

lemma keeps_resource_writes [stmt_keeps]:
  "keeps db_inv (resource_save r)" "keeps db_inv (delete_resource i)"
  "keeps db_inv (soft_delete_resource i)" "keeps db_inv (toggle_fav i)"
  "keeps db_inv (update_last_accessed i)" "keeps db_inv (repo_update_resource dat i)"
  "keeps db_inv (save_resource_with_key r k)"
  "keeps db_inv (save_resource_with_dependencies r k s cs)"
  "keeps db_inv (share_resource_transaction k s cs)" "keeps db_inv (add_device_with_vector_clocks d cs)"
  "keeps db_inv (save_resource_sync_data sd)"
  "keeps db_inv (save_resource_and_folder_sharing_data ks ss cs fs)"
  "keeps db_inv (save_bulk_sharing_data ks ss cs)"
  unfolding resource_save_def delete_resource_def soft_delete_resource_def toggle_fav_def
    update_last_accessed_def repo_update_resource_def save_resource_with_key_def
    save_resource_with_dependencies_def share_resource_transaction_def
    add_device_with_vector_clocks_def save_resource_sync_data_def put_clock_def
    save_resource_and_folder_sharing_data_def save_bulk_sharing_data_def Let_def
  by (auto intro!: stmt_keeps)

end
