(* ===== verification/Repo_Properties.thy ===== *)
theory Repo_Properties
  imports Repo_Resources
begin

text \<open>
  Properties of the repositories as a whole: every writing operation keeps the integrity of the
  database, a write that fails changes no table, what is written in one transaction is read back, and
  listing and deleting folders is exact.
\<close>

section \<open>The writing operations\<close>

datatype (plugins only: size) repo_write =
    Key_save resource_key | Add_keys "resource_key list" | Key_delete ident
  | Key_delete_user ident ident
  | Share_save share_record | Share_save_many "share_record list"
  | Fshare_save folder_share_record | Fshare_save_bulk "folder_share_record list"
  | Share_folder folder_share_record "resource_key list" "share_record list" "resource_vector_clock list"
  | Clocks_save "resource_vector_clock list" | Clock_save resource_vector_clock
  | Clock_increment ident ident
  | Clocks_update "resource_vector_clock list" "resource_vector_clock list"
  | User_add user | User_complete ident | Users_add "user list"
  | Signup user certificate device certificate "device option" certificate
  | Users_devices_add "user_with_devices list"
  | Device_save device | Device_synced ident | Devices_save "device list"
  | Certificate_store certificate string string | Device_key_store string | Index_key_add string
  | Folder_save folder folder_share_record | Folder_delete ident | Folders_add "folder list"
  | Folder_save_shares folder "folder_share_record list" | Folder_shares_add "folder_share_record list"
  | Resource_save resource | Resource_delete ident | Resource_soft_delete ident
  | Resource_toggle ident | Resource_accessed ident | Resource_update string ident
  | Resource_save_key resource resource_key
  | Resource_save_deps resource resource_key share_record "resource_vector_clock list"
  | Resource_share resource_key share_record "resource_vector_clock list"
  | Device_add device "resource_vector_clock list" | Sync_save resource_sync_data
  | Sharing_save "resource_key list" "share_record list" "resource_vector_clock list"
      "folder_share_record list"
  | Bulk_sharing_save "resource_key list" "share_record list" "resource_vector_clock list"

fun run_write :: "repo_write \<Rightarrow> unit repo" where
  "run_write (Key_save k) = key_save k"
| "run_write (Add_keys ks) = add_resource_keys ks"
| "run_write (Key_delete i) = key_delete_by_resource_id i"
| "run_write (Key_delete_user i u) = key_delete_by_resource_and_user i u"
| "run_write (Share_save s) = share_save s"
| "run_write (Share_save_many ss) = share_save_many ss"
| "run_write (Fshare_save f) = fshare_save f"
| "run_write (Fshare_save_bulk fs) = save_bulk_with_conflict_ignore fs"
| "run_write (Share_folder f ks ss cs) = share_folder_transaction f ks ss cs"
| "run_write (Clocks_save cs) = save_vector_clocks cs"
| "run_write (Clock_save c) = save_vector_clock c"
| "run_write (Clock_increment i d) = sbind (increment_vector_clock i d) (\<lambda>_. sret ())"
| "run_write (Clocks_update us as) = update_vector_clocks us as"
| "run_write (User_add u) = add_known_user u"
| "run_write (User_complete i) = complete_user_addition i"
| "run_write (Users_add us) = add_known_users_bulk us"
| "run_write (Signup u c1 d c2 p c3) = commit_signup_transaction u c1 d c2 p c3"
| "run_write (Users_devices_add uds) = add_users_with_devices_bulk uds"
| "run_write (Device_save d) = device_save d"
| "run_write (Device_synced i) = update_last_synced_at i"
| "run_write (Devices_save ds) = device_save_many ds"
| "run_write (Certificate_store c k s) = store_certificate c k s"
| "run_write (Device_key_store k) = store_device_key k"
| "run_write (Index_key_add k) = add_index_key k"
| "run_write (Folder_save f s) = save_folder_with_share_record f s"
| "run_write (Folder_delete i) = folder_soft_delete i"
| "run_write (Folders_add fs) = add_folders_bulk fs"
| "run_write (Folder_save_shares f ss) = save_folder_with_share_records f ss"
| "run_write (Folder_shares_add ss) = add_folder_share_records_bulk ss"
| "run_write (Resource_save r) = resource_save r"
| "run_write (Resource_delete i) = delete_resource i"
| "run_write (Resource_soft_delete i) = soft_delete_resource i"
| "run_write (Resource_toggle i) = toggle_fav i"
| "run_write (Resource_accessed i) = update_last_accessed i"
| "run_write (Resource_update d i) = repo_update_resource d i"
| "run_write (Resource_save_key r k) = save_resource_with_key r k"
| "run_write (Resource_save_deps r k s cs) = save_resource_with_dependencies r k s cs"
| "run_write (Resource_share k s cs) = share_resource_transaction k s cs"
| "run_write (Device_add d cs) = add_device_with_vector_clocks d cs"
| "run_write (Sync_save sd) = save_resource_sync_data sd"
| "run_write (Sharing_save ks ss cs fs) = save_resource_and_folder_sharing_data ks ss cs fs"
| "run_write (Bulk_sharing_save ks ss cs) = save_bulk_sharing_data ks ss cs"

lemma keeps_run_write [stmt_keeps]: "keeps db_inv (run_write op)"
  by (cases op) (auto intro!: stmt_keeps)

section \<open>Atomicity\<close>

text \<open>
  \<open>rollback w w' = w'\<close> says that \<open>w'\<close> has the tables of \<open>w\<close> and only drew identifiers, clock
  readings or connections.
\<close>

definition silent :: "(world, 'e, 'a) sm \<Rightarrow> bool" where
  "silent m \<longleftrightarrow> (\<forall>w r w'. m w = (r, w') \<longrightarrow> rollback w w' = w')"

definition atomic :: "(world, 'e, 'a) sm \<Rightarrow> bool" where
  "atomic m \<longleftrightarrow> (\<forall>w e w'. m w = (Inl e, w') \<longrightarrow> rollback w w' = w')"

named_theorems atomic_intros

lemma rollback_self [simp]: "rollback w w = w"
  by (simp add: rollback_def)

lemma rollback_eq_iff:
  "rollback w v = v \<longleftrightarrow> (\<exists>i t p. v = w\<lparr>uuid_n := i, time_n := t, pool_n := p\<rparr>)"
proof
  assume "rollback w v = v"
  then show "\<exists>i t p. v = w\<lparr>uuid_n := i, time_n := t, pool_n := p\<rparr>"
    unfolding rollback_def by metis
qed (auto simp: rollback_def)

lemma rollback_trans: "rollback w v = v \<Longrightarrow> rollback v u = u \<Longrightarrow> rollback w u = u"
  unfolding rollback_eq_iff by (elim exE) (simp, blast)

lemma silent_atomic: "silent m \<Longrightarrow> atomic m"
  by (simp add: silent_def atomic_def)

lemma silent_monad [atomic_intros]: "silent (sret x)" "silent (sthrow e)" "silent (sget f)"
  by (auto simp: silent_def)

lemma atomic_sret [atomic_intros]: "atomic (sret x)"
  by (simp add: atomic_def)

lemma silent_steps [atomic_intros]:
  "silent get_conn" "silent fresh_uuid" "silent now_millis" "silent (first_row tbl p)"
  "silent (load_rows tbl p)"
  by (auto simp: silent_def get_conn_def fresh_uuid_def now_millis_def first_row_def load_rows_def
      rollback_def split: option.splits)

lemma atomic_sbind [atomic_intros]: "silent m \<Longrightarrow> (\<And>x. atomic (f x)) \<Longrightarrow> atomic (sbind m f)"
  unfolding silent_def atomic_def sbind_eq_Inl by (metis rollback_trans)

lemma atomic_then_sret: "atomic m \<Longrightarrow> atomic (sbind m (\<lambda>x. sret (g x)))"
  by (simp add: atomic_def sbind_eq_Inl)

lemma atomic_with_conn [atomic_intros]: "atomic m \<Longrightarrow> atomic (with_conn m)"
  unfolding with_conn_def by (intro atomic_intros)

lemma atomic_transaction [atomic_intros]: "atomic (transaction m)"
  by (auto simp: atomic_def transaction_def rollback_def split: prod.splits sum.splits)

lemma atomic_run_stmt [atomic_intros]: "atomic m \<Longrightarrow> atomic (run_stmt m)"
  by (auto simp: atomic_def run_stmt_def smap_err_eq_Inl)

lemma atomic_on_table: "atomic (on_table get put f)"
  by (auto simp: atomic_def on_table_def split: sum.splits)

lemma atomic_ins_all [atomic_intros]: "atomic (ins_all ins rs)"
  by (auto simp: atomic_def ins_all_def split: sum.splits prod.splits)

lemma atomic_stmts [atomic_intros]:
  "atomic (ins_user u)" "atomic (ins_key k)" "atomic (ins_share s)" "atomic (ins_fshare f)"
  "atomic (ins_clock c)" "atomic (ins_device d)" "atomic (ins_resource r)" "atomic (del_keys p)"
  "atomic (del_resources pr)" "atomic (upd_users pu g)" "atomic (upd_devices pd h)"
  "atomic (upd_resources pr j)" "atomic (put_item n a v)"
  by (simp_all add: ins_user_def ins_key_def ins_share_def ins_fshare_def ins_clock_def
      ins_device_def ins_resource_def del_keys_def del_resources_def upd_users_def upd_devices_def
      upd_resources_def put_item_def ups_store_def atomic_on_table)

lemma atomic_run_write: "atomic (run_write op)"
proof (cases op)
  case (Clock_increment i d)
  have "atomic (increment_vector_clock i d)"
    unfolding increment_vector_clock_def by (intro atomic_intros atomic_then_sret)
  then show ?thesis by (simp add: Clock_increment atomic_then_sret)
next
  case (Clock_save c)
  have "atomic (save_vector_clock c)"
    unfolding save_vector_clock_def by (intro atomic_intros) (auto intro!: atomic_intros split: option.splits)
  then show ?thesis by (simp add: Clock_save)
next
  case (Resource_toggle i)
  then show ?thesis by (auto simp: toggle_fav_def Let_def intro!: atomic_intros)
qed (auto simp: key_save_def add_resource_keys_def key_delete_by_resource_id_def
    key_delete_by_resource_and_user_def share_save_def share_save_many_def fshare_save_def
    save_bulk_with_conflict_ignore_def share_folder_transaction_def save_vector_clocks_def
    update_vector_clocks_def add_known_user_def complete_user_addition_def add_known_users_bulk_def
    commit_signup_transaction_def add_users_with_devices_bulk_def device_save_def
    update_last_synced_at_def device_save_many_def store_certificate_def store_device_key_def
    add_index_key_def save_folder_with_share_record_def folder_soft_delete_def add_folders_bulk_def
    save_folder_with_share_records_def add_folder_share_records_bulk_def resource_save_def
    delete_resource_def soft_delete_resource_def update_last_accessed_def repo_update_resource_def
    save_resource_with_key_def save_resource_with_dependencies_def share_resource_transaction_def
    add_device_with_vector_clocks_def save_resource_sync_data_def
    save_resource_and_folder_sharing_data_def save_bulk_sharing_data_def
    intro!: atomic_intros)

text \<open>
  C14. Atomicity: a repository write that returns an error leaves every table as it was; at most
  it drew identifiers, read the clock or took a connection.
\<close>

theorem failed_write_changes_nothing:
  "run_write op w = (Inl e, w') \<Longrightarrow>
     \<exists>i t p. w' = w\<lparr>uuid_n := i, time_n := t, pool_n := p\<rparr>"
  using atomic_run_write [of op] by (auto simp: atomic_def rollback_eq_iff)

section \<open>Replicating a resource\<close>

text \<open>
  A replica that has never seen the resource: no row of it, no row that refers to it, and no row
  with one of the ids of the payload; the users, devices and the folder it refers to are known.
\<close>

definition unseen :: "world \<Rightarrow> resource_sync_data \<Rightarrow> bool" where
  "unseen v sd \<longleftrightarrow>
     \<not> has_resource v (res_id (rsd_resource sd)) \<and>
     \<not> resource_referenced v (res_id (rsd_resource sd)) \<and>
     (\<forall>k \<in> set (rsd_resource_keys sd). \<forall>x \<in> set (t_keys v). kr_id x \<noteq> key_id k) \<and>
     (\<forall>s \<in> set (rsd_share_records sd). \<forall>x \<in> set (t_shares v). sr_id x \<noteq> shr_id s) \<and>
     (\<forall>c \<in> set (rsd_vector_clocks sd). \<forall>x \<in> set (t_clocks v). cr_id x \<noteq> vc_id c)"

definition parties_known :: "world \<Rightarrow> resource_sync_data \<Rightarrow> bool" where
  "parties_known v sd \<longleftrightarrow>
     has_folder v (res_folder_id (rsd_resource sd)) \<and> has_user v (res_created_by (rsd_resource sd)) \<and>
     (\<forall>k \<in> set (rsd_resource_keys sd). has_user v (key_user_id k)) \<and>
     (\<forall>s \<in> set (rsd_share_records sd). has_user v (shr_shared_by_user_id s) \<and>
        has_user v (shr_recipient_user_id s)) \<and>
     (\<forall>c \<in> set (rsd_vector_clocks sd). has_device v (vc_device_id c))"

lemma get_resource_sync_data_ok:
  assumes "get_resource_sync_data rid w = (Inr sd, w')"
  obtains r where "List.find (\<lambda>r. rr_id r = rid) (t_resources w) = Some r"
    "sd = \<lparr>rsd_resource = resource_load r,
      rsd_resource_keys = map resource_key_load (filter (\<lambda>k. kr_resource_id k = rid) (t_keys w)),
      rsd_share_records = map share_record_load (filter (\<lambda>s. sr_resource_id s = rid) (t_shares w)),
      rsd_vector_clocks = map clock_load (filter (\<lambda>c. cr_resource_id c = rid) (t_clocks w))\<rparr>"
  using assms
  by (auto simp: get_resource_sync_data_def with_conn_def get_conn_def sbind_def first_row_def
      load_rows_def split: if_splits option.splits dest: find_SomeD)

lemma clash_free_append:
  "clash_free clash (xs @ ys) \<longleftrightarrow>
     clash_free clash xs \<and> clash_free clash ys \<and> (\<forall>x \<in> set xs. \<forall>y \<in> set ys. \<not> clash x y)"
  by (auto simp: clash_free_def sorted_wrt_append)

lemma clash_free_map_filter:
  assumes "clash_free clash t" "\<And>a b. clash (f a) (f b) = clash a b"
  shows "clash_free clash (map f (filter p t))"
  using assms by (simp add: clash_free_def sorted_wrt_map sorted_wrt_filter)

lemma reload_rows:
  "map (\<lambda>r. resource_key_to_row (resource_key_load r)) ks = ks"
  "map (\<lambda>r. clock_to_row (clock_load r)) cs = cs"
proof -
  have "resource_key_to_row (resource_key_load r) = r" for r
    by (simp add: resource_key_to_row_def resource_key_load_def)
  then show "map (\<lambda>r. resource_key_to_row (resource_key_load r)) ks = ks" by simp
  show "map (\<lambda>r. clock_to_row (clock_load r)) cs = cs" by (induction cs) simp_all
qed

lemma ins_keys_new:
  assumes "clash_free keys_clash (t_keys w @ map resource_key_to_row ks)"
    and "\<forall>k \<in> set ks. keys_refs w (resource_key_to_row k)"
  shows "sfor (\<lambda>k. ins_key_ignore (resource_key_to_row k)) ks w =
    (Inr (), put_keys (t_keys w @ map resource_key_to_row ks) w)"
proof -
  have lens: "t_keys (put_keys t v) = t" "put_keys t' (put_keys t v) = put_keys t' v"
    "put_keys (t_keys v) v = v" for t t' v
    by (simp_all add: put_keys_def)
  show ?thesis
    using sfor_insert_ignore_new [where refs = keys_refs, OF keys_tbl.sql_table_axioms lens _ assms(1)] assms(2)
    by (simp add: ins_key_ignore_def [abs_def] sfor_map)
qed

lemma ins_shares_new:
  assumes "clash_free shares_clash (t_shares w @ map share_record_to_row ss)"
    and "\<forall>s \<in> set ss. shares_refs w (share_record_to_row s)"
  shows "sfor (\<lambda>s. ins_share_ignore (share_record_to_row s)) ss w =
    (Inr (), put_shares (t_shares w @ map share_record_to_row ss) w)"
proof -
  have lens: "t_shares (put_shares t v) = t" "put_shares t' (put_shares t v) = put_shares t' v"
    "put_shares (t_shares v) v = v" for t t' v
    by (simp_all add: put_shares_def)
  show ?thesis
    using sfor_insert_ignore_new [where refs = shares_refs, OF shares_tbl.sql_table_axioms lens _ assms(1)] assms(2)
    by (simp add: ins_share_ignore_def [abs_def] sfor_map)
qed

lemma ins_clocks_new:
  assumes "clash_free clocks_clash (t_clocks w @ map clock_to_row cs)"
    and "\<forall>c \<in> set cs. clocks_refs w (clock_to_row c)"
  shows "sfor (\<lambda>c. ins_clock_ignore (clock_to_row c)) cs w =
    (Inr (), put_clocks (t_clocks w @ map clock_to_row cs) w)"
proof -
  have lens: "t_clocks (put_clocks t v) = t" "put_clocks t' (put_clocks t v) = put_clocks t' v"
    "put_clocks (t_clocks v) v = v" for t t' v
    by (simp_all add: put_clocks_def)
  show ?thesis
    using sfor_insert_ignore_new [where refs = clocks_refs, OF clocks_tbl.sql_table_axioms lens _ assms(1)] assms(2)
    by (simp add: ins_clock_ignore_def [abs_def] sfor_map)
qed

text \<open>The payload of a well-formed database has no clashes, also not with a replica it is new to.\<close>

lemma payload_clash_free:
  assumes inv: "db_inv w" "db_inv v" and unseen: "unseen v sd"
    and sd: "sd = \<lparr>rsd_resource = resource_load r,
      rsd_resource_keys = map resource_key_load (filter (\<lambda>k. kr_resource_id k = rr_id r) (t_keys w)),
      rsd_share_records = map share_record_load (filter (\<lambda>s. sr_resource_id s = rr_id r) (t_shares w)),
      rsd_vector_clocks = map clock_load (filter (\<lambda>c. cr_resource_id c = rr_id r) (t_clocks w))\<rparr>"
  shows "clash_free keys_clash (t_keys v @ map resource_key_to_row (rsd_resource_keys sd))"
    and "clash_free shares_clash (t_shares v @ map share_record_to_row (rsd_share_records sd))"
    and "clash_free clocks_clash (t_clocks v @ map clock_to_row (rsd_vector_clocks sd))"
proof -
  have rid: "res_id (rsd_resource sd) = rr_id r"
    by (simp add: sd resource_load_def)
  have keys: "map resource_key_to_row (rsd_resource_keys sd) =
      filter (\<lambda>k. kr_resource_id k = rr_id r) (t_keys w)"
    and clocks: "map clock_to_row (rsd_vector_clocks sd) =
      filter (\<lambda>c. cr_resource_id c = rr_id r) (t_clocks w)"
    by (simp_all add: sd reload_rows comp_def)
  have keys_new: "kr_id x \<noteq> kr_id k \<and> kr_resource_id x \<noteq> rr_id r"
    if "x \<in> set (t_keys v)" "k \<in> set (t_keys w)" "kr_resource_id k = rr_id r" for x k
  proof -
    have "resource_key_load k \<in> set (rsd_resource_keys sd)" using that by (simp add: sd)
    with unseen that(1) have "kr_id x \<noteq> key_id (resource_key_load k)" by (auto simp: unseen_def)
    with unseen that(1) show ?thesis
      by (auto simp: unseen_def rid resource_referenced_def list_ex_iff resource_key_load_def)
  qed
  have clocks_new: "cr_id x \<noteq> cr_id c \<and> cr_resource_id x \<noteq> rr_id r"
    if "x \<in> set (t_clocks v)" "c \<in> set (t_clocks w)" "cr_resource_id c = rr_id r" for x c
  proof -
    have "clock_load c \<in> set (rsd_vector_clocks sd)" using that by (simp add: sd)
    with unseen that(1) have "cr_id x \<noteq> vc_id (clock_load c)" by (auto simp: unseen_def)
    with unseen that(1) show ?thesis
      by (auto simp: unseen_def rid resource_referenced_def list_ex_iff clock_load_def)
  qed
  have filtered: "clash_free clash t \<Longrightarrow> clash_free clash (filter p t)" for clash :: "'x \<Rightarrow> 'x \<Rightarrow> bool" and t p
    by (simp add: clash_free_def sorted_wrt_filter)
  show "clash_free keys_clash (t_keys v @ map resource_key_to_row (rsd_resource_keys sd))"
    using keys_new by (auto simp: keys clash_free_append filtered db_inv_clash_free inv keys_clash_def)
  show "clash_free clocks_clash (t_clocks v @ map clock_to_row (rsd_vector_clocks sd))"
    using clocks_new by (auto simp: clocks clash_free_append filtered db_inv_clash_free inv clocks_clash_def)
  have "clash_free shares_clash (map share_record_to_row (rsd_share_records sd))"
    by (simp add: sd)
      (rule clash_free_map_filter [OF db_inv_clash_free(7) [OF inv(1)]],
        simp add: shares_clash_def share_record_to_row_def share_record_load_def)
  moreover have "sr_id x \<noteq> shr_id s" if "x \<in> set (t_shares v)" "s \<in> set (rsd_share_records sd)" for x s
    using unseen that by (auto simp: unseen_def)
  ultimately show "clash_free shares_clash (t_shares v @ map share_record_to_row (rsd_share_records sd))"
    by (auto simp: clash_free_append db_inv_clash_free inv shares_clash_def share_record_to_row_def)
qed

lemma find_append_new:
  "List.find P xs = None \<Longrightarrow> P y \<Longrightarrow> List.find P (xs @ [y]) = Some y"
  by (simp add: find_append)

text \<open>
  C15. A resource is replicated faithfully: what \<open>get_resource_sync_data\<close> reads on one device
  (the resource, its keys, share records and clocks), \<open>save_resource_sync_data\<close> stores on a device
  that has not seen the resource, and reading it back there gives the same payload.
\<close>

theorem resource_replication:
  assumes inv: "db_inv w" "db_inv v"
    and sent: "get_resource_sync_data rid w = (Inr sd, w')"
    and new: "unseen v sd" and known: "parties_known v sd"
    and pool: "pool_src v (pool_n v)" "pool_src v (Suc (pool_n v))"
  shows "\<exists>v'. save_resource_sync_data sd v = (Inr (), v') \<and> fst (get_resource_sync_data rid v') = Inr sd"
proof -
  from sent obtain r where r: "List.find (\<lambda>r. rr_id r = rid) (t_resources w) = Some r"
    and sd: "sd = \<lparr>rsd_resource = resource_load r,
      rsd_resource_keys = map resource_key_load (filter (\<lambda>k. kr_resource_id k = rid) (t_keys w)),
      rsd_share_records = map share_record_load (filter (\<lambda>s. sr_resource_id s = rid) (t_shares w)),
      rsd_vector_clocks = map clock_load (filter (\<lambda>c. cr_resource_id c = rid) (t_clocks w))\<rparr>"
    by (rule get_resource_sync_data_ok)
  have rid: "rr_id r = rid" using find_SomeD [OF r] by simp
  let ?res = "resource_to_row (rsd_resource sd)"
  let ?v1 = "v\<lparr>pool_n := Suc (pool_n v)\<rparr>"
  let ?v2 = "put_resources (t_resources v @ [?res]) ?v1"
  let ?v3 = "put_keys (t_keys ?v2 @ map resource_key_to_row (rsd_resource_keys sd)) ?v2"
  let ?v4 = "put_shares (t_shares ?v3 @ map share_record_to_row (rsd_share_records sd)) ?v3"
  let ?v5 = "put_clocks (t_clocks ?v4 @ map clock_to_row (rsd_vector_clocks sd)) ?v4"
  have id: "rr_id ?res = rid" "res_id (rsd_resource sd) = rid"
    by (simp_all add: sd resource_to_row_def resource_load_def rid)
  note cf = payload_clash_free [OF inv new, of r, unfolded rid, OF sd]
  have no_res: "\<not> list_ex (\<lambda>x. rr_id x = rid) (t_resources v)"
    using new by (simp add: unseen_def has_resource_def id)
  have none: "kr_resource_id k \<noteq> rid" "sr_resource_id s \<noteq> rid" "cr_resource_id c \<noteq> rid"
    if "k \<in> set (t_keys v)" "s \<in> set (t_shares v)" "c \<in> set (t_clocks v)" for k s c
    using new that by (auto simp: unseen_def id resource_referenced_def list_ex_iff)
  have frame: "t_keys (put_resources t x) = t_keys x" "t_shares (put_resources t x) = t_shares x"
    "t_clocks (put_resources t x) = t_clocks x" "t_shares (put_keys tk x) = t_shares x"
    "t_clocks (put_keys tk x) = t_clocks x" "t_clocks (put_shares ts x) = t_clocks x" for t tk ts x
    by (simp_all add: put_defs)
  have has: "has_resource ?v2 rid" "has_user ?v2 = has_user v" "has_device ?v2 = has_device v"
    using id by (simp_all add: fun_eq_iff has_defs put_resources_def)
  have mine: "\<forall>k \<in> set (rsd_resource_keys sd). key_resource_id k = rid"
    "\<forall>s \<in> set (rsd_share_records sd). shr_resource_id s = rid"
    "\<forall>c \<in> set (rsd_vector_clocks sd). vc_resource_id c = rid"
    by (auto simp: sd resource_key_load_def share_record_load_def clock_load_def)
  have clash: "resources_clash ?res = (\<lambda>x. rr_id x = rid)"
    by (auto simp: fun_eq_iff resources_clash_def id)
  have "resources_refs ?v1 ?res"
    using known by (auto simp: resources_refs_def parties_known_def resource_to_row_def has_defs)
  then have s1: "ins_resource_ignore ?res ?v1 = (Inr (), ?v2)"
    using no_res id by (simp add: ins_resource_ignore_def on_table_def tbl_insert_ignore_def
        tbl_insert_def clash)
  have s2: "sfor (\<lambda>k. ins_key_ignore (resource_key_to_row k)) (rsd_resource_keys sd) ?v2 = (Inr (), ?v3)"
    using cf(1) known mine has
    by (intro ins_keys_new) (auto simp: frame keys_refs_def parties_known_def resource_key_to_row_def)
  have s3: "sfor (\<lambda>s. ins_share_ignore (share_record_to_row s)) (rsd_share_records sd) ?v3 = (Inr (), ?v4)"
    using cf(2) known mine has
    by (intro ins_shares_new) (auto simp: frame shares_refs_def parties_known_def share_record_to_row_def)
  have s4: "sfor (\<lambda>c. ins_clock_ignore (clock_to_row c)) (rsd_vector_clocks sd) ?v4 = (Inr (), ?v5)"
    using cf(3) known mine has
    by (intro ins_clocks_new) (auto simp: frame clocks_refs_def parties_known_def clock_to_row_def)
  have save: "save_resource_sync_data sd v = (Inr (), ?v5)"
    using pool(1) by (simp add: save_resource_sync_data_def with_conn_def get_conn_def sbind_def
        transaction_def s1 s2 s3 s4)
  have kept: "filter (\<lambda>k. kr_resource_id k = rid) (t_keys v) = []"
    "filter (\<lambda>s. sr_resource_id s = rid) (t_shares v) = []"
    "filter (\<lambda>c. cr_resource_id c = rid) (t_clocks v) = []"
    using new by (auto simp: unseen_def id resource_referenced_def list_ex_iff filter_empty_conv)
  have clocks: "map (\<lambda>c. clock_load (clock_to_row c)) (rsd_vector_clocks sd) = rsd_vector_clocks sd"
    by (simp add: sd)
  have found: "List.find (\<lambda>x. rr_id x = rid) (t_resources v @ [?res]) = Some ?res"
    using no_res id by (simp add: find_append_new find_None_iff_ex)
  have tables: "t_resources ?v5 = t_resources v @ [?res]"
    "t_keys ?v5 = t_keys v @ map resource_key_to_row (rsd_resource_keys sd)"
    "t_shares ?v5 = t_shares v @ map share_record_to_row (rsd_share_records sd)"
    "t_clocks ?v5 = t_clocks v @ map clock_to_row (rsd_vector_clocks sd)"
    "pool_src ?v5 (pool_n ?v5)"
    using pool(2) by (simp_all add: put_defs)
  have columns: "kr_resource_id (resource_key_to_row k) = key_resource_id k"
    "sr_resource_id (share_record_to_row s) = shr_resource_id s"
    "cr_resource_id (clock_to_row c) = vc_resource_id c" for k s c
    by (simp_all add: resource_key_to_row_def share_record_to_row_def clock_to_row_def)
  have loads: "map resource_key_load (filter (\<lambda>k. kr_resource_id k = rid) (t_keys ?v5)) = rsd_resource_keys sd"
    "map share_record_load (filter (\<lambda>s. sr_resource_id s = rid) (t_shares ?v5)) = rsd_share_records sd"
    "map clock_load (filter (\<lambda>c. cr_resource_id c = rid) (t_clocks ?v5)) = rsd_vector_clocks sd"
    using mine clocks by (simp_all add: tables kept filter_map comp_def columns cong: filter_cong)
  have "fst (get_resource_sync_data rid ?v5) = Inr sd"
    using tables(5) loads
    by (simp add: get_resource_sync_data_def with_conn_def get_conn_def sbind_def first_row_def
        load_rows_def tables(1) found id)
  with save show ?thesis by blast
qed

section \<open>Listing and deleting\<close>

lemma joined_resource_keys_eq:
  "joined_resource_keys u w = concat (map (\<lambda>r. map (Pair r)
     (filter (\<lambda>k. kr_resource_id k = rr_id r \<and> kr_user_id k = u) (t_keys w))) (t_resources w))"
proof -
  have "concat (map (\<lambda>k. if P k then [(r, k)] else []) ks) = map (Pair r) (filter P ks)"
    for r :: resources_row and P and ks :: "keys_row list"
    by (induction ks) simp_all
  then show ?thesis by (simp add: joined_resource_keys_def)
qed

lemma all_clash_length:
  "clash_free clash xs \<Longrightarrow> \<forall>a \<in> set xs. \<forall>b \<in> set xs. clash a b \<Longrightarrow> length xs \<le> 1"
  by (cases xs; cases "tl xs") (auto simp: clash_free_def)

lemma distinct_concat_keyed:
  "distinct (map k xs) \<Longrightarrow> \<forall>x \<in> set xs. length (f x) \<le> 1 \<Longrightarrow> \<forall>x \<in> set xs. \<forall>y \<in> set (f x). g y = k x \<Longrightarrow>
     distinct (map g (concat (map f xs)))"
proof (induction xs)
  case (Cons x xs)
  from Cons.prems(2) have "f x = [] \<or> (\<exists>y. f x = [y])"
    by (cases "f x"; cases "tl (f x)") auto
  moreover have "k x \<notin> g ` (\<Union>z \<in> set xs. set (f z))"
    using Cons.prems(1,3) by force
  ultimately show ?case
    using Cons by auto
qed simp

lemma distinct_joined:
  assumes inv: "db_inv w"
  shows "distinct (map (\<lambda>(r, k). rr_id r) (joined_resource_keys u w))"
  unfolding joined_resource_keys_eq
proof (rule distinct_concat_keyed [where k = rr_id])
  show "distinct (map rr_id (t_resources w))"
    by (rule resources_tbl.clash_free_distinct [OF db_inv_clash_free(4) [OF inv]])
  show "\<forall>r \<in> set (t_resources w). length (map (Pair r)
      (filter (\<lambda>k. kr_resource_id k = rr_id r \<and> kr_user_id k = u) (t_keys w))) \<le> 1"
  proof
    fix r
    have "clash_free keys_clash (filter (\<lambda>k. kr_resource_id k = rr_id r \<and> kr_user_id k = u) (t_keys w))"
      using db_inv_clash_free(6) [OF inv] by (simp add: clash_free_def sorted_wrt_filter)
    then have "length (filter (\<lambda>k. kr_resource_id k = rr_id r \<and> kr_user_id k = u) (t_keys w)) \<le> 1"
      by (rule all_clash_length) (simp add: keys_clash_def)
    then show "length (map (Pair r)
        (filter (\<lambda>k. kr_resource_id k = rr_id r \<and> kr_user_id k = u) (t_keys w))) \<le> 1"
      by simp
  qed
qed auto

text \<open>
  C31. Listing a folder: \<open>find_by_folder\<close> returns exactly the resources of the folder that are not
  deleted and for which the user has a key, each once and with that key, most recently accessed
  first.
\<close>

theorem find_by_folder_exact:
  assumes inv: "db_inv w" and ok: "find_by_folder f u w = (Inr rs, w')"
  shows "set rs = {\<lparr>rwk_resource = resource_load r, rwk_encrypted_key = kr_encrypted_key k\<rparr> | r k.
      r \<in> set (t_resources w) \<and> k \<in> set (t_keys w) \<and> kr_resource_id k = rr_id r \<and>
      kr_user_id k = u \<and> rr_folder_id r = f \<and> \<not> rr_deleted r} \<and>
    distinct (map (\<lambda>x. res_id (rwk_resource x)) rs) \<and>
    sorted_wrt (\<lambda>x y. res_last_accessed (rwk_resource y) \<le> res_last_accessed (rwk_resource x)) rs"
proof -
  define p :: "resources_row \<times> keys_row \<Rightarrow> bool" where
    "p = (\<lambda>(r, k). \<not> rr_deleted r \<and> rr_folder_id r = f)"
  define key :: "resources_row \<times> keys_row \<Rightarrow> int" where "key = (\<lambda>(r, k). - rr_last_accessed r)"
  have rs: "rs = map with_key (sort_key key (filter p (joined_resource_keys u w)))"
    using ok by (auto simp: find_by_folder_def query_resources_with_keys_def with_conn_def get_conn_def
        sbind_def load_rows_def joined_resource_keys_def p_def key_def split: if_splits)
  have "set rs = {\<lparr>rwk_resource = resource_load r, rwk_encrypted_key = kr_encrypted_key k\<rparr> | r k.
      r \<in> set (t_resources w) \<and> k \<in> set (t_keys w) \<and> kr_resource_id k = rr_id r \<and>
      kr_user_id k = u \<and> rr_folder_id r = f \<and> \<not> rr_deleted r}"
    by (force simp: rs joined_resource_keys_eq with_key_def p_def)
  moreover have "distinct (map (\<lambda>x. res_id (rwk_resource x)) rs)"
  proof -
    have "distinct (map (\<lambda>(r, k). rr_id r) (sort_key key (filter p (joined_resource_keys u w))))"
      using distinct_map_filter [OF distinct_joined [OF inv]] by (simp add: distinct_map)
    moreover have "res_id (rwk_resource (with_key x)) = (case x of (r, k) \<Rightarrow> rr_id r)" for x
      by (cases x) (simp add: with_key_def resource_load_def)
    ultimately show ?thesis by (simp add: rs comp_def)
  qed
  moreover have "sorted_wrt (\<lambda>x y. res_last_accessed (rwk_resource y) \<le> res_last_accessed (rwk_resource x)) rs"
  proof -
    have "sorted_wrt (\<le>) (map key (sort_key key (filter p (joined_resource_keys u w))))"
      by (simp add: sorted_sort_key)
    moreover have "key x = - res_last_accessed (rwk_resource (with_key x))" for x
      by (cases x) (simp add: key_def with_key_def resource_load_def)
    ultimately show ?thesis by (simp add: rs sorted_wrt_map)
  qed
  ultimately show ?thesis by blast
qed

text \<open>
  C30. Deleting a folder marks the folder and every resource in it as deleted at the time of the call,
  keeps everything else in their rows, so that neither is listed any more, and leaves all other rows
  and all other tables as they were.
\<close>

theorem folder_soft_delete_exact:
  assumes ok: "folder_soft_delete f w = (Inr (), w')"
  shows "t_resources w' = map (\<lambda>r. if rr_folder_id r = f then r\<lparr>rr_deleted := True,
      rr_deleted_at := Some (time_src w (time_n w)), rr_updated_at := time_src w (time_n w)\<rparr> else r) (t_resources w) \<and>
    t_folders w' = map (\<lambda>x. if fr_id x = f then x\<lparr>fr_deleted := True,
      fr_deleted_at := Some (time_src w (time_n w)), fr_updated_at := time_src w (time_n w)\<rparr> else x) (t_folders w) \<and>
    (t_users w', t_devices w', t_clocks w', t_keys w', t_shares w', t_store w', t_fshares w') =
    (t_users w, t_devices w, t_clocks w, t_keys w, t_shares w, t_store w, t_fshares w) \<and>
    (\<forall>u rs v. find_by_folder f u w' = (Inr rs, v) \<longrightarrow> rs = []) \<and>
    (\<forall>fs v. folder_find_all w' = (Inr fs, v) \<longrightarrow> f \<notin> fol_id ` set fs)"
proof -
  let ?now = "time_src w (time_n w)"
  have upd: "t_resources w' = tbl_update (\<lambda>r. rr_folder_id r = f)
      (\<lambda>r. r\<lparr>rr_deleted := True, rr_deleted_at := Some ?now, rr_updated_at := ?now\<rparr>) (t_resources w)"
    "t_folders w' = tbl_update (\<lambda>x. fr_id x = f)
      (\<lambda>x. x\<lparr>fr_deleted := True, fr_deleted_at := Some ?now, fr_updated_at := ?now\<rparr>) (t_folders w)"
    and rest: "(t_users w', t_devices w', t_clocks w', t_keys w', t_shares w', t_store w', t_fshares w') =
      (t_users w, t_devices w, t_clocks w, t_keys w, t_shares w, t_store w, t_fshares w)"
    using ok by (auto simp: folder_soft_delete_def with_conn_def get_conn_def sbind_def now_millis_def
        transaction_def upd_resources_def upd_folders_def on_table_def put_defs split: if_splits)
  note res = upd(1) [unfolded tbl_update_def] and fol = upd(2) [unfolded tbl_update_def]
  have "rs = []" if "find_by_folder f u w' = (Inr rs, v)" for u rs v
  proof -
    have "\<forall>r \<in> set (t_resources w'). rr_folder_id r = f \<longrightarrow> rr_deleted r" unfolding res set_map by (intro ballI, elim imageE) simp
    then have "x \<notin> set rs" for x
      using that by (auto simp: find_by_folder_def query_resources_with_keys_def with_conn_def
          get_conn_def sbind_def load_rows_def joined_resource_keys_eq split: if_splits)
    then show ?thesis by (cases rs) auto
  qed
  moreover have "f \<notin> fol_id ` set fs" if "folder_find_all w' = (Inr fs, v)" for fs v
  proof -
    have "\<forall>x \<in> set (t_folders w'). fr_id x = f \<longrightarrow> fr_deleted x" unfolding fol set_map by (intro ballI, elim imageE) simp
    with that show ?thesis by (auto simp: folder_find_all_def with_conn_def get_conn_def sbind_def
        load_rows_def folder_load_def folders_columns_def split: if_splits)
  qed
  ultimately show ?thesis using res fol rest by blast
qed

end
