(* ===== verification/Text_Json.thy ===== *)
theory Text_Json
  imports Osv_Prelude "HOL-Library.AList"
begin

text \<open>
  Text, bytes and JSON values. A Rust string is the list of the bytes of its UTF-8 form, so
  \<open>as_bytes\<close> only changes the type of each element and \<open>String::from_utf8\<close> fails on a sequence
  that is not well formed. A \<open>serde_json::Value\<close> is a datatype; an object is the list of its
  entries, whose order the code never looks at. Reading and printing JSON text is done by
  \<open>serde_json\<close> and a parameter of the model.
\<close>

type_synonym byte = "8 word"
type_synonym bytes = "byte list"

section \<open>Strings\<close>

definition starts_with :: "string \<Rightarrow> string \<Rightarrow> bool" where
  "starts_with s p \<longleftrightarrow> take (length p) s = p"

definition ends_with_char :: "string \<Rightarrow> char \<Rightarrow> bool" where
  "ends_with_char s c \<longleftrightarrow> s \<noteq> [] \<and> last s = c"

text \<open>\<open>s.find(pat)\<close>: the offset of the first occurrence.\<close>

fun str_find :: "string \<Rightarrow> string \<Rightarrow> nat option" where
  "str_find pat [] = (if pat = [] then Some 0 else None)"
| "str_find pat (c # cs) = (if starts_with (c # cs) pat then Some 0 else map_option Suc (str_find pat cs))"

text \<open>
  \<open>s.trim().is_empty()\<close>: every character is Unicode white space, which is one, two or three bytes
  long: \<open>U+0009\<close> to \<open>U+000D\<close>, the space, \<open>U+0085\<close>, \<open>U+00A0\<close>, \<open>U+1680\<close>, \<open>U+2000\<close> to \<open>U+200A\<close>,
  \<open>U+2028\<close>, \<open>U+2029\<close>, \<open>U+202F\<close>, \<open>U+205F\<close> and \<open>U+3000\<close>.
\<close>

definition white2 :: "nat \<Rightarrow> nat \<Rightarrow> bool" where
  "white2 a b \<longleftrightarrow> a = 194 \<and> (b = 133 \<or> b = 160)"

definition white3 :: "nat \<Rightarrow> nat \<Rightarrow> nat \<Rightarrow> bool" where
  "white3 a b c \<longleftrightarrow>
     a = 225 \<and> b = 154 \<and> c = 128 \<or>
     a = 226 \<and> b = 128 \<and> (128 \<le> c \<and> c \<le> 138 \<or> c = 168 \<or> c = 169 \<or> c = 175) \<or>
     a = 226 \<and> b = 129 \<and> c = 159 \<or> a = 227 \<and> b = 128 \<and> c = 128"

fun white_space :: "nat list \<Rightarrow> bool" where
  "white_space [] = True"
| "white_space (a # xs) =
     (if 9 \<le> a \<and> a \<le> 13 \<or> a = 32 then white_space xs
      else case xs of
        b # ys \<Rightarrow> if white2 a b then white_space ys
          else (case ys of c # zs \<Rightarrow> white3 a b c \<and> white_space zs | [] \<Rightarrow> False)
      | [] \<Rightarrow> False)"

definition trims_to_empty :: "string \<Rightarrow> bool" where
  "trims_to_empty s = white_space (map of_char s)"

lemma starts_with_append [simp]: "starts_with (p @ s) p"
  by (simp add: starts_with_def)

lemma starts_with_iff: "starts_with s p \<longleftrightarrow> (\<exists>t. s = p @ t)"
  by (metis append_eq_conv_conj append_take_drop_id starts_with_def)

lemma str_find_Some: "str_find pat s = Some i \<Longrightarrow> i \<le> length s \<and> starts_with (drop i s) pat"
  by (induction pat s arbitrary: i rule: str_find.induct) (auto simp: starts_with_def split: if_splits)

lemma str_find_first: "str_find pat s = Some i \<Longrightarrow> j < i \<Longrightarrow> \<not> starts_with (drop j s) pat"
proof (induction pat s arbitrary: i j rule: str_find.induct)
  case (2 pat c cs)
  then show ?case by (cases j) (auto split: if_splits)
qed (auto split: if_splits)

text \<open>\<open>{}\<close> and \<open>{:02x}\<close> of a number.\<close>

definition digit :: "nat \<Rightarrow> char" where
  "digit d = char_of (if d < 10 then 48 + d else 87 + d)"

fun decimal :: "nat \<Rightarrow> string" where
  "decimal n = (if n < 10 then [digit n] else decimal (n div 10) @ [digit (n mod 10)])"

declare decimal.simps [simp del]

definition hex_byte :: "8 word \<Rightarrow> string" where
  "hex_byte b = [digit (unat b div 16), digit (unat b mod 16)]"

text \<open>\<open>xs.join(sep)\<close>.\<close>

fun join_text :: "string \<Rightarrow> string list \<Rightarrow> string" where
  "join_text sep [] = []"
| "join_text sep [x] = x"
| "join_text sep (x # y # zs) = x @ sep @ join_text sep (y # zs)"

section \<open>UTF-8\<close>

definition cont_byte :: "nat \<Rightarrow> bool" where
  "cont_byte b \<longleftrightarrow> 128 \<le> b \<and> b \<le> 191"

fun utf8_ok :: "nat list \<Rightarrow> bool" where
  "utf8_ok [] = True"
| "utf8_ok (a # xs) =
     (if a < 128 then utf8_ok xs
      else if 194 \<le> a \<and> a \<le> 223 then (case xs of b # ys \<Rightarrow> cont_byte b \<and> utf8_ok ys | _ \<Rightarrow> False)
      else if 224 \<le> a \<and> a \<le> 239 then (case xs of b # c # ys \<Rightarrow>
        cont_byte b \<and> (a = 224 \<longrightarrow> 160 \<le> b) \<and> (a = 237 \<longrightarrow> b \<le> 159) \<and> cont_byte c \<and> utf8_ok ys
        | _ \<Rightarrow> False)
      else if 240 \<le> a \<and> a \<le> 244 then (case xs of b # c # d # ys \<Rightarrow>
        cont_byte b \<and> (a = 240 \<longrightarrow> 144 \<le> b) \<and> (a = 244 \<longrightarrow> b \<le> 143) \<and> cont_byte c \<and> cont_byte d \<and>
        utf8_ok ys | _ \<Rightarrow> False)
      else False)"

definition as_bytes :: "string \<Rightarrow> bytes" where
  "as_bytes s = map (\<lambda>c. word_of_nat (of_char c)) s"

definition bytes_text :: "bytes \<Rightarrow> string" where
  "bytes_text bs = map (\<lambda>b. char_of (unat b)) bs"

definition from_utf8 :: "bytes \<Rightarrow> string + string" where
  "from_utf8 bs = (if utf8_ok (map unat bs) then Inr (bytes_text bs)
     else Inl ''invalid utf-8 sequence'')"

definition is_text :: "string \<Rightarrow> bool" where
  "is_text s \<longleftrightarrow> utf8_ok (map of_char s)"

lemma unat_of_char [simp]: "unat (word_of_nat (of_char c) :: byte) = of_char c"
  by (simp add: unat_of_nat of_char_def take_bit_eq_mod flip: take_bit_eq_mod)

lemma bytes_text_as_bytes [simp]: "bytes_text (as_bytes s) = s"
  by (simp add: bytes_text_def as_bytes_def comp_def)

lemma from_utf8_as_bytes [simp]: "is_text s \<Longrightarrow> from_utf8 (as_bytes s) = Inr s"
  by (simp add: from_utf8_def is_text_def as_bytes_def comp_def bytes_text_def)

section \<open>JSON values\<close>

text \<open>A number is an integer of the range of \<open>i64\<close> and \<open>u64\<close>, or a floating point literal.\<close>

datatype json =
    JNull | JBool bool | JInt int | JFloat string | JString string
  | JArray "json list" | JObject "(string \<times> json) list"

type_synonym json_map = "(string \<times> json) list"

fun json_get :: "string \<Rightarrow> json \<Rightarrow> json option" where
  "json_get k (JObject m) = map_of m k"
| "json_get k _ = None"

fun as_array :: "json \<Rightarrow> json list option" where
  "as_array (JArray xs) = Some xs"
| "as_array _ = None"

fun as_str :: "json \<Rightarrow> string option" where
  "as_str (JString s) = Some s"
| "as_str _ = None"

fun as_u64 :: "json \<Rightarrow> int option" where
  "as_u64 (JInt n) = (if 0 \<le> n then Some n else None)"
| "as_u64 _ = None"

fun as_i64 :: "json \<Rightarrow> int option" where
  "as_i64 (JInt n) = (if - (2 ^ 63) \<le> n \<and> n < 2 ^ 63 then Some n else None)"
| "as_i64 _ = None"

text \<open>\<open>Number::from(b)\<close> for each byte, and back: \<open>as_u64\<close> and the cast \<open>as u8\<close>.\<close>

definition json_bytes :: "bytes \<Rightarrow> json" where
  "json_bytes bs = JArray (map (\<lambda>b. JInt (uint b)) bs)"

definition array_bytes :: "json list \<Rightarrow> bytes" where
  "array_bytes xs = List.map_filter (\<lambda>v. map_option word_of_int (as_u64 v)) xs"

lemma array_bytes_json [simp]: "array_bytes (map (\<lambda>b. JInt (uint b)) bs) = bs"
  by (induction bs) (simp_all add: array_bytes_def)

end
