(* ===== verification/Service_Errors.thy ===== *)
theory Service_Errors
  imports Database
begin

text \<open>
  The error types of \<open>crypto_utils/src/errors.rs\<close>, \<open>services/src/errors.rs\<close> and
  \<open>network/src/p2p/errors.rs\<close>, one datatype per enum with the source's variants. Where two enums
  share a variant name, the variant carries its enum's name in front. The payload of a variant that
  wraps an error of a library (\<open>io::Error\<close>, \<open>FromUtf8Error\<close>, \<open>DecodeError\<close>,
  \<open>serde_json::Error\<close>) is its text. An error converted with \<open>?\<close> goes through the wrapping variant.

  Two constructors are no variants of the source: \<open>AesPanic\<close> is the outcome of a call that panics
  (a key of the wrong length, the \<open>unwrap\<close> on a malformed salt), and \<open>ProofChainDiverges\<close> that of a
  proof chain longer than the fuel, which stands for a recursion that does not return.
\<close>

section \<open>The crypto layer\<close>

datatype (plugins only: code size) aes_error =
    KeyDerivationError string | CipherCreationError string | EncryptionError string
  | Aes_DecryptionError string | Aes_CertificateParseError string
  | Aes_Base64DecodeError string | Aes_Utf8ConversionError string | AesPanic string

datatype (plugins only: code size) pgp_error =
    HashContextCreationError string | DigestComputationError string | EncryptorCreationError string
  | LiteralWriterCreationError string | FinalizationError string | ArmorWriterCreationError string
  | DecryptorCreationError string | PolicyApplicationError string | Pgp_DecryptionError string
  | NoSuitableEncryptionKeyError | NoSuitableSigningKeyError | NoSuitableDecryptionKeyError
  | KeyPairCreationError string | Pgp_IoError string | SignerCreationError string
  | MessageWriteError string | SignatureFinalizationError string | SignatureWriteError string
  | ArmorFinalizationError string | Pgp_CertificateParseError string | Pgp_Base64DecodeError string
  | VerifierCreationError string | VerificationError string | Pgp_Utf8ConversionError string
  | InvalidSignature string

datatype (plugins only: code size) crypto_utils_error =
    NoCertificateError | ContextLockError string | MissingFieldValue | InvalidSaltLength
  | SigningKeyError string | SigningError string | Cu_Utf8ConversionError string
  | CertificateDecryptionError string | Cu_Other string

datatype (plugins only: code size) ucan_error =
    CreationError string | SignatureError string | EncodingError string | DecodingError string
  | ExpiredError | FormatError string | DidError string | KeyExtractionError string
  | Ucan_CryptoUtilsError crypto_utils_error | Ucan_ParseError string | ValidationError string
  | InvalidAudience | DidDecodeError string | Ucan_Base64DecodeError string
  | InvalidDidFormat string | PublicKeyMismatch | CapabilityNotFound | ProofRequired
  | ProofChainInvalid string | UcanCidConvertionFailed string | DelegationNotPermitted
  | InvalidIssuer | ProofChainDiverges

datatype (plugins only: code size) crypto_error =
    AesError aes_error | PgpError pgp_error | CryptoUtilsError crypto_utils_error
  | Crypto_IoError string | Utf8Error string | Base64Error string | CertError string
  | UcanError ucan_error | Crypto_Other string

section \<open>The services\<close>

datatype (plugins only: code size) auth_service_error =
    InvalidCredentials | UserAlreadyExists string | Auth_UserNotFound ident
  | Auth_DeviceNotFound string | CertificateNotFound | InvalidPassphrase
  | ChallengeGenerationFailed | UcanTokenGenerationFailed string | CertificateImportFailed string
  | CertificateExportFailed string | PasswordChangeFailed string | SignupFailed string
  | CertificateLoadingFailed string | AlreadySignedUp | NotSignedUp
  | Auth_Crypto crypto_error | Auth_Repository repository_error

datatype (plugins only: code size) resource_service_error =
    ParseError string | ResourceNotFound ident | InvalidResourceType string | AccessDenied ident
  | ResourceAlreadyExists ident | ShareFailed string | SyncFailed ident string
  | VectorClockMergeFailed string | AuthorityValidationFailed string
  | Resource_Crypto crypto_error | Resource_Repository repository_error

datatype (plugins only: code size) folder_service_error =
    Folder_Validation string | FolderNotFound ident | EmptyFolderName | FolderAlreadyExists string
  | CannotDeleteDefaultFolder | FolderNotEmpty | InsufficientPermissions
  | Folder_Repository repository_error

datatype (plugins only: code size) user_service_error =
    User_UserNotFound ident | User_DeviceNotFound ident | InvalidUserData string string
  | UserAlreadyConnected ident | InvalidUcanToken | User_SignatureVerificationFailed
  | ConnectionFailed_User string | PermissionDenied string | UcanTokenIssueFailed string
  | UcanSigningFailed string | User_Crypto crypto_error | User_Repository repository_error

datatype (plugins only: code size) sync_service_error =
    DeviceManifestFailed string | UserManifestFailed string | ResourceSyncFailed ident string
  | NetworkSyncFailed string | VectorClockFailed string | ShareRecordSyncFailed string
  | DeviceSyncFailed string | UserSyncFailed string | FolderSyncFailed string
  | UcanDelegationFailed string | DefaultFolderNotFound
  | Sync_Crypto crypto_error | Sync_Repository repository_error

datatype (plugins only: code size) service_error =
    Auth auth_service_error | Resource resource_service_error | Folder folder_service_error
  | User user_service_error | Sync sync_service_error | Crypto crypto_error
  | Repository repository_error | Validation string string | Internal string

type_synonym 'a service = "(world, service_error, 'a) sm"

text \<open>\<open>?\<close> on a repository or crypto call in a function that returns a \<open>ServiceResult\<close>.\<close>

definition repo_call :: "'a repo \<Rightarrow> 'a service" where
  "repo_call m = smap_err Repository m"

definition crypto_call :: "crypto_error + 'a \<Rightarrow> 'a service" where
  "crypto_call r = smap_err Crypto (slift r)"

lemma repo_call_Inr [simp]: "repo_call m w = (Inr x, w') \<longleftrightarrow> m w = (Inr x, w')"
  by (simp add: repo_call_def)

lemma crypto_call_apply [simp]:
  "crypto_call r w = ((case r of Inl e \<Rightarrow> Inl (Crypto e) | Inr x \<Rightarrow> Inr x), w)"
  by (simp add: crypto_call_def smap_err_def split: sum.splits)

end
