(* ===== verification/Crypto_Lib.thy ===== *)
theory Crypto_Lib
  imports Text_Json Service_Errors
begin

text \<open>
  What \<open>crypto_utils\<close> takes from libraries, as the parameter \<open>L\<close> of every function that uses it:
  base64 and base58, Argon2, AES-256-GCM, Ed25519, OpenPGP (the functions of \<open>pgp_utils.rs\<close> and
  \<open>signature_utils.rs\<close>, each a sequence of calls to sequoia) and the \<open>ucan\<close> crate. A key is its
  bytes and a certificate its serialisation. A call that draws randomness takes a seed, one whose
  answer depends on the time takes the time in seconds. \<open>Inl\<close> carries the text of the error. The
  texts of the error enums are generated by \<open>thiserror\<close> and fields too. \<open>chain_fuel\<close> bounds the
  proof chains that are followed.
\<close>

type_synonym cert = bytes

record capability =
  cap_resource :: string
  cap_ability :: string

text \<open>What the code reads of a parsed token, and what it hands to \<open>UcanBuilder\<close>.\<close>

record ucan =
  u_issuer :: string
  u_audience :: string
  u_capabilities :: "capability list"
  u_proofs :: "string list option"
  u_facts :: "json_map option"

record ucan_claims =
  uc_issued_by :: bytes
  uc_for_audience :: string
  uc_lifetime :: nat
  uc_claims :: "capability list"
  uc_witnessed_by :: "ucan list"
  uc_facts :: json_map

record crypto_lib =
  b64_encode :: "bytes \<Rightarrow> string"
  b64_decode :: "string \<Rightarrow> string + bytes"
  b58_encode :: "bytes \<Rightarrow> string"
  b58_decode :: "string \<Rightarrow> string + bytes"
  argon2 :: "bytes \<Rightarrow> bytes \<Rightarrow> string + bytes"
  aes_seal :: "bytes \<Rightarrow> bytes \<Rightarrow> bytes \<Rightarrow> string + bytes"
  aes_open :: "bytes \<Rightarrow> bytes \<Rightarrow> bytes \<Rightarrow> string + bytes"
  ed_verifying_key :: "bytes \<Rightarrow> bytes"
  cert_parse :: "bytes \<Rightarrow> string + cert"
  cert_from_str :: "string \<Rightarrow> string + cert"
  cert_serialize :: "cert \<Rightarrow> string + bytes"
  cert_armor :: "cert \<Rightarrow> string + bytes"
  pgp_generate :: "string \<Rightarrow> nat \<Rightarrow> string + cert"
  pgp_public_key :: "cert \<Rightarrow> string + string"
  pgp_key_id :: "string \<Rightarrow> string + string"
  pgp_recipient :: "string \<Rightarrow> pgp_error + bytes"
  pgp_encrypt :: "bytes \<Rightarrow> string \<Rightarrow> nat \<Rightarrow> string + string"
  pgp_decryption_key :: "cert \<Rightarrow> pgp_error + bytes"
  pgp_decrypt :: "bytes \<Rightarrow> bytes \<Rightarrow> pgp_error + bytes"
  pgp_signing_keypair :: "cert \<Rightarrow> pgp_error + bytes"
  pgp_sign :: "bytes \<Rightarrow> string \<Rightarrow> int \<Rightarrow> pgp_error + bytes"
  pgp_hash :: "string \<Rightarrow> pgp_error + bytes"
  pgp_eddsa_secret :: "cert \<Rightarrow> ucan_error + bytes"
  pgp_sign_cleartext :: "bytes \<Rightarrow> string \<Rightarrow> nat option \<Rightarrow> int \<Rightarrow> pgp_error + string"
  pgp_verify_cleartext :: "string \<Rightarrow> string \<Rightarrow> int \<Rightarrow> pgp_error + bool \<times> string option"
  ucan_try_from :: "string \<Rightarrow> string + ucan"
  ucan_check :: "ucan \<Rightarrow> int \<Rightarrow> string + unit"
  ucan_to_cid :: "ucan \<Rightarrow> string + string"
  ucan_build :: "ucan_claims \<Rightarrow> int \<Rightarrow> string + ucan"
  ucan_sign :: "bytes \<Rightarrow> ucan \<Rightarrow> string + ucan"
  ucan_encode :: "ucan \<Rightarrow> string + string"
  aes_text :: "aes_error \<Rightarrow> string"
  pgp_text :: "pgp_error \<Rightarrow> string"
  crypto_text :: "crypto_error \<Rightarrow> string"
  repository_text :: "repository_error \<Rightarrow> string"
  chain_fuel :: nat

text \<open>\<open>map_err(|e| V(e.to_string()))\<close> on the result of a library call.\<close>

definition lib_call :: "('e \<Rightarrow> 'f) \<Rightarrow> 'e + 'a \<Rightarrow> ('s, 'f, 'a) sm" where
  "lib_call V r = smap_err V (slift r)"

lemma lib_call_apply [simp]: "lib_call V r s = ((case r of Inl e \<Rightarrow> Inl (V e) | Inr x \<Rightarrow> Inr x), s)"
  by (simp add: lib_call_def smap_err_def split: sum.splits)

lemma case_err_eq_Inr [simp]:
  "(case r of Inl e \<Rightarrow> Inl (V e) | Inr x \<Rightarrow> Inr x) = Inr y \<longleftrightarrow> r = Inr y"
  by (cases r) simp_all

end
