(* ===== verification/Ucan.thy ===== *)
theory Ucan
  imports Crypto_Lib
begin

text \<open>
  \<open>crypto_utils/src/ucan_utils.rs\<close> and \<open>ucan_operations.rs\<close>: the tokens that authorise a peer.
  Parsing, signature and expiry checks, CIDs and the builder belong to the \<open>ucan\<close> crate and are
  fields of \<open>L\<close>; what is modelled is the decision logic built on them: audiences, capabilities,
  the chain of proofs by CID and the chain of embedded proofs.

  Both chain validations recurse along tokens that a peer supplies. They run on fuel and return
  \<open>ProofChainDiverges\<close> when it is used up; \<open>validate_ucan_permission_terminates\<close> and
  \<open>embedded_chain_terminates\<close> say when it is not.
\<close>

section \<open>Reading tokens\<close>

definition is_one_time_connect_token :: "ucan \<Rightarrow> string \<Rightarrow> bool" where
  "is_one_time_connect_token u domain =
     (let is_wildcard_audience = u_audience u = ''*'';
          required_prefix = domain @ '':user-connect'';
          has_connect_capability =
            list_ex (\<lambda>c. starts_with (cap_resource c) required_prefix \<and> cap_ability c = ''use'')
              (u_capabilities u)
      in is_wildcard_audience \<and> has_connect_capability)"

definition validate_structure :: "crypto_lib \<Rightarrow> string \<Rightarrow> ('a env_scheme, ucan_error, ucan) sm" where
  "validate_structure L token =
     sbind (lib_call Ucan_ParseError (ucan_try_from L token)) (\<lambda>u.
     sbind now_secs (\<lambda>now.
     sbind (lib_call ValidationError (ucan_check L u now)) (\<lambda>_. sret u)))"

definition verify_did_key_match :: "crypto_lib \<Rightarrow> string \<Rightarrow> string \<Rightarrow> ucan_error + unit" where
  "verify_did_key_match L did key_b64 =
     (if starts_with did ''did:key:z''
      then case b58_decode L (drop 9 did) of
             Inl e \<Rightarrow> Inl (DidError e)
           | Inr decoded_did \<Rightarrow>
               if length decoded_did \<le> 2 then Inl (FormatError ''DID is too short'')
               else (case b64_decode L key_b64 of
                       Inl e \<Rightarrow> Inl (DecodingError e)
                     | Inr key_from_b64 \<Rightarrow>
                         if drop 2 decoded_did \<noteq> key_from_b64 then Inl PublicKeyMismatch else Inr ())
      else Inl (FormatError ''Unsupported DID method''))"

definition validate_audience :: "crypto_lib \<Rightarrow> ucan \<Rightarrow> string \<Rightarrow> ucan_error + unit" where
  "validate_audience L u presenter =
     (case verify_did_key_match L (u_audience u) presenter of
        Inl e \<Rightarrow> Inl (if e = PublicKeyMismatch then InvalidAudience else e)
      | Inr x \<Rightarrow> Inr x)"

definition get_ucan_cid :: "crypto_lib \<Rightarrow> string \<Rightarrow> ucan_error + string" where
  "get_ucan_cid L token =
     (case ucan_try_from L token of
        Inl e \<Rightarrow> Inl (Ucan_ParseError e)
      | Inr u \<Rightarrow> (case ucan_to_cid L u of
          Inl e \<Rightarrow> Inl (UcanCidConvertionFailed e) | Inr cid \<Rightarrow> Inr cid))"

definition capability_grants :: "string \<Rightarrow> string \<Rightarrow> capability \<Rightarrow> bool" where
  "capability_grants required_resource required_ability c \<longleftrightarrow>
     cap_ability c = required_ability \<and>
     (if ends_with_char (cap_resource c) CHR ''*''
      then starts_with required_resource (butlast (cap_resource c))
      else cap_resource c = required_resource)"

definition check_capability :: "ucan \<Rightarrow> string \<Rightarrow> string \<Rightarrow> ucan_error + unit" where
  "check_capability u required_resource required_ability =
     (if list_ex (capability_grants required_resource required_ability) (u_capabilities u)
      then Inr () else Inl CapabilityNotFound)"

primrec extract_domain :: "string \<Rightarrow> capability list \<Rightarrow> ucan_error + string" where
  "extract_domain rtype [] = Inl CapabilityNotFound"
| "extract_domain rtype (c # cs) =
     (case str_find ('':'' @ rtype) (cap_resource c) of
        Some middle_pos \<Rightarrow>
          (let domain = take middle_pos (cap_resource c) in
           if domain \<noteq> [] then Inr domain else extract_domain rtype cs)
      | None \<Rightarrow> extract_domain rtype cs)"

definition extract_domain_from_ucan :: "ucan \<Rightarrow> string \<Rightarrow> ucan_error + string" where
  "extract_domain_from_ucan u rtype = extract_domain rtype (u_capabilities u)"

text \<open>The DID of a key: \<open>Ed25519KeyMaterial::get_did\<close> and \<open>pub_key_b64_to_did\<close>.\<close>

definition ed25519_magic :: bytes where
  "ed25519_magic = [0xed, 0x01]"

definition get_did :: "crypto_lib \<Rightarrow> bytes \<Rightarrow> string" where
  "get_did L verifying_key = ''did:key:z'' @ b58_encode L (ed25519_magic @ verifying_key)"

definition pub_key_b64_to_did :: "crypto_lib \<Rightarrow> string \<Rightarrow> ucan_error + string" where
  "pub_key_b64_to_did L key_b64 =
     (case b64_decode L key_b64 of
        Inl e \<Rightarrow> Inl (DecodingError e)
      | Inr key_bytes \<Rightarrow> Inr (''did:key:z'' @ b58_encode L (ed25519_magic @ key_bytes)))"

section \<open>Proofs by CID\<close>

text \<open>The loop over the proofs of a token; \<open>recur\<close> is the recursive call on a parent.\<close>

primrec try_proofs ::
  "crypto_lib \<Rightarrow> (ucan \<Rightarrow> ('a env_scheme, ucan_error, unit) sm) \<Rightarrow> ucan
     \<Rightarrow> (string \<Rightarrow> ('a env_scheme, ucan_error, string) sm) \<Rightarrow> string \<Rightarrow> string \<Rightarrow> string list
     \<Rightarrow> ('a env_scheme, ucan_error, unit) sm" where
  "try_proofs L recur u resolver res ab [] =
     sthrow (ProofChainInvalid ''No valid proof chain leads back to the verifier.'')"
| "try_proofs L recur u resolver res ab (cid # cids) =
     scatch (resolver cid)
       (\<lambda>parent_token. scatch (validate_structure L parent_token)
          (\<lambda>parent.
             if u_audience parent \<noteq> u_issuer u then try_proofs L recur u resolver res ab cids
             else (case check_capability parent res ab of
                     Inl _ \<Rightarrow> sthrow DelegationNotPermitted
                   | Inr _ \<Rightarrow> scatch (recur parent) (\<lambda>_. sret ())
                       (\<lambda>e. if e = ProofChainDiverges then sthrow e
                             else try_proofs L recur u resolver res ab cids)))
          (\<lambda>_. try_proofs L recur u resolver res ab cids))
       (\<lambda>_. try_proofs L recur u resolver res ab cids)"

primrec validate_ucan_permission ::
  "crypto_lib \<Rightarrow> nat \<Rightarrow> ucan \<Rightarrow> string \<Rightarrow> (string \<Rightarrow> ('a env_scheme, ucan_error, string) sm)
     \<Rightarrow> string \<Rightarrow> string \<Rightarrow> ('a env_scheme, ucan_error, unit) sm" where
  "validate_ucan_permission L 0 u verifier resolver res ab = sthrow ProofChainDiverges"
| "validate_ucan_permission L (Suc n) u verifier resolver res ab =
     (case verify_did_key_match L (u_issuer u) verifier of
        Inr _ \<Rightarrow> sret ()
      | Inl e \<Rightarrow>
          if e \<noteq> PublicKeyMismatch then sthrow e
          else (case u_proofs u of
                  Some proofs \<Rightarrow>
                    if proofs = [] then sthrow ProofRequired
                    else try_proofs L
                           (\<lambda>parent. validate_ucan_permission L n parent verifier resolver res ab)
                           u resolver res ab proofs
                | None \<Rightarrow> sthrow ProofRequired))"

section \<open>Embedded proofs\<close>

definition embedded_proof :: "ucan \<Rightarrow> string option" where
  "embedded_proof u =
     (case u_facts u of None \<Rightarrow> None | Some facts \<Rightarrow>
        (case map_of facts ''proof'' of None \<Rightarrow> None | Some v \<Rightarrow> as_str v))"

primrec embedded_chain ::
  "crypto_lib \<Rightarrow> nat \<Rightarrow> string \<Rightarrow> ident \<Rightarrow> string \<Rightarrow> string \<Rightarrow> string option
     \<Rightarrow> ('a env_scheme, ucan_error, unit) sm" where
  "embedded_chain L 0 token target_user target_pub domain expected = sthrow ProofChainDiverges"
| "embedded_chain L (Suc n) token target_user target_pub domain expected =
     sbind (validate_structure L token) (\<lambda>u.
       if (case expected of Some d \<Rightarrow> u_audience u \<noteq> d | None \<Rightarrow> False) then sthrow InvalidIssuer
       else sbind (slift (check_capability u (domain @ '':user-connect:'' @ target_user) ''use'')) (\<lambda>_.
         case verify_did_key_match L (u_issuer u) target_pub of
           Inr _ \<Rightarrow> sret ()
         | Inl _ \<Rightarrow>
             (case embedded_proof u of
                Some nested \<Rightarrow> sbind (slift (get_ucan_cid L nested)) (\<lambda>nested_cid.
                  if (case u_proofs u of Some cids \<Rightarrow> nested_cid \<notin> set cids | None \<Rightarrow> False)
                  then sthrow (ProofChainInvalid ''CID mismatch'')
                  else embedded_chain L n nested target_user target_pub domain (Some (u_issuer u)))
              | None \<Rightarrow> sthrow (ProofChainInvalid ''Chain doesn't reach root''))))"

text \<open>A nested proof is part of the text of its token, so the length of the token is fuel enough.\<close>

definition validate_embedded_proof_chain ::
  "crypto_lib \<Rightarrow> string \<Rightarrow> ident \<Rightarrow> string \<Rightarrow> string \<Rightarrow> string option
     \<Rightarrow> ('a env_scheme, ucan_error, unit) sm" where
  "validate_embedded_proof_chain L token = embedded_chain L (Suc (length token)) token"

section \<open>Operations\<close>

definition validate_connect_token ::
  "crypto_lib \<Rightarrow> string \<Rightarrow> string \<Rightarrow> string \<Rightarrow> ident \<Rightarrow> string
     \<Rightarrow> ('a env_scheme, crypto_error, bool) sm" where
  "validate_connect_token L token presenter verifier verifier_user domain =
     smap_err UcanError
       (sbind (validate_structure L token) (\<lambda>u.
          (let required_resource = domain @ '':user-connect:'' @ verifier_user in
           if is_one_time_connect_token u domain
           then sbind (slift (verify_did_key_match L (u_issuer u) verifier)) (\<lambda>_.
                sbind (slift (check_capability u required_resource ''use'')) (\<lambda>_. sret True))
           else sbind (slift (validate_audience L u presenter)) (\<lambda>_.
                sbind (validate_embedded_proof_chain L token verifier_user verifier domain None)
                  (\<lambda>_. sret True)))))"

definition validate_authority_for_update ::
  "crypto_lib \<Rightarrow> string \<Rightarrow> string \<Rightarrow> string \<Rightarrow> ident \<Rightarrow> string
     \<Rightarrow> (string \<Rightarrow> ('a env_scheme, ucan_error, string) sm) \<Rightarrow> ('a env_scheme, crypto_error, bool) sm" where
  "validate_authority_for_update L token peer root resource_id domain resolver =
     smap_err UcanError
       (sbind (validate_structure L token) (\<lambda>u.
        sbind (slift (validate_audience L u peer)) (\<lambda>_.
          (let resource_uri = domain @ '':resource:'' @ resource_id in
           sbind (validate_ucan_permission L (chain_fuel L) u root resolver resource_uri ''crud/update'')
             (\<lambda>_. sret True)))))"

definition get_cid_from_ucan_token :: "crypto_lib \<Rightarrow> string \<Rightarrow> crypto_error + string" where
  "get_cid_from_ucan_token L token =
     (case get_ucan_cid L token of Inl e \<Rightarrow> Inl (UcanError e) | Inr cid \<Rightarrow> Inr cid)"

section \<open>Issuing tokens\<close>

definition thirty_years :: nat where
  "thirty_years = 30 * 365 * 24 * 60 * 60"

definition cap :: "string \<Rightarrow> string \<Rightarrow> capability" where
  "cap r a = \<lparr>cap_resource = r, cap_ability = a\<rparr>"

text \<open>\<open>.build()\<close> and \<open>.sign()\<close>, with the variants their errors are mapped to.\<close>

definition build_and_sign ::
  "crypto_lib \<Rightarrow> (string \<Rightarrow> ucan_error) \<Rightarrow> (string \<Rightarrow> ucan_error) \<Rightarrow> ucan_claims
     \<Rightarrow> ('a env_scheme, ucan_error, ucan) sm" where
  "build_and_sign L build_err sign_err claims =
     sbind now_secs (\<lambda>now.
     sbind (lib_call build_err (ucan_build L claims now)) (\<lambda>u.
     lib_call sign_err (ucan_sign L (uc_issued_by claims) u)))"

definition generate_one_time_connection_token ::
  "crypto_lib \<Rightarrow> bytes \<Rightarrow> bytes \<Rightarrow> string \<Rightarrow> ('a env_scheme, ucan_error, string) sm" where
  "generate_one_time_connection_token L signing_key verifying_key capability_str =
     sbind (build_and_sign L (\<lambda>e. KeyExtractionError (''UCAN build error: '' @ e))
         (\<lambda>e. KeyExtractionError (''UCAN signing error: '' @ e))
         \<lparr>uc_issued_by = signing_key, uc_for_audience = ''*'', uc_lifetime = 24 * 60 * 60,
          uc_claims = [cap capability_str ''use''], uc_witnessed_by = [], uc_facts = []\<rparr>) (\<lambda>u.
     lib_call (\<lambda>e. KeyExtractionError (''UCAN encoding error: '' @ e)) (ucan_encode L u))"

definition generate_delegation_and_connection_token ::
  "crypto_lib \<Rightarrow> bytes \<Rightarrow> bytes \<Rightarrow> ident \<Rightarrow> string \<Rightarrow> string \<Rightarrow> nat
     \<Rightarrow> ('a env_scheme, ucan_error, string) sm" where
  "generate_delegation_and_connection_token L signing_key verifying_key issuer_user audience_pub domain
       lifetime =
     sbind (slift (pub_key_b64_to_did L audience_pub)) (\<lambda>audience_did.
     sbind (build_and_sign L CreationError SignatureError
         \<lparr>uc_issued_by = signing_key, uc_for_audience = audience_did, uc_lifetime = lifetime,
          uc_claims = [cap (domain @ '':user-connect:'' @ issuer_user) ''use'',
                       cap (domain @ '':user-share:'' @ issuer_user) ''use''],
          uc_witnessed_by = [], uc_facts = []\<rparr>) (\<lambda>u.
     lib_call EncodingError (ucan_encode L u)))"

text \<open>The last steps of the functions that return a token with its CID, in their two orders.\<close>

definition cid_then_encode :: "crypto_lib \<Rightarrow> ucan \<Rightarrow> ('s, ucan_error, string \<times> string) sm" where
  "cid_then_encode L u =
     sbind (lib_call UcanCidConvertionFailed (ucan_to_cid L u)) (\<lambda>cid.
     sbind (lib_call EncodingError (ucan_encode L u)) (\<lambda>token. sret (token, cid)))"

definition encode_then_cid :: "crypto_lib \<Rightarrow> ucan \<Rightarrow> ('s, ucan_error, string \<times> string) sm" where
  "encode_then_cid L u =
     sbind (lib_call EncodingError (ucan_encode L u)) (\<lambda>token.
     sbind (lib_call UcanCidConvertionFailed (ucan_to_cid L u)) (\<lambda>cid. sret (token, cid)))"

definition generate_resource_owner_ucan ::
  "crypto_lib \<Rightarrow> bytes \<Rightarrow> bytes \<Rightarrow> ident \<Rightarrow> string
     \<Rightarrow> ('a env_scheme, ucan_error, string \<times> string) sm" where
  "generate_resource_owner_ucan L signing_key verifying_key resource_id prefix =
     (let resource_uri = prefix @ '':resource:'' @ resource_id in
      sbind (build_and_sign L CreationError SignatureError
         \<lparr>uc_issued_by = signing_key, uc_for_audience = get_did L verifying_key,
          uc_lifetime = thirty_years,
          uc_claims = [cap resource_uri ''crud/read'', cap resource_uri ''crud/update'',
                       cap resource_uri ''crud/delete'', cap resource_uri ''ucan/share''],
          uc_witnessed_by = [], uc_facts = []\<rparr>) (cid_then_encode L))"

definition generate_folder_owner_ucan ::
  "crypto_lib \<Rightarrow> bytes \<Rightarrow> bytes \<Rightarrow> ident \<Rightarrow> string
     \<Rightarrow> ('a env_scheme, ucan_error, string \<times> string) sm" where
  "generate_folder_owner_ucan L signing_key verifying_key folder_id prefix =
     (let folder_uri = prefix @ '':folder:'' @ folder_id in
      sbind (build_and_sign L CreationError SignatureError
         \<lparr>uc_issued_by = signing_key, uc_for_audience = get_did L verifying_key,
          uc_lifetime = thirty_years,
          uc_claims = [cap folder_uri ''crud/read'', cap folder_uri ''crud/update'',
                       cap folder_uri ''crud/delete'', cap folder_uri ''add_resources'',
                       cap folder_uri ''share_folder''],
          uc_witnessed_by = [], uc_facts = []\<rparr>) (cid_then_encode L))"

definition generate_delegated_ucan ::
  "crypto_lib \<Rightarrow> bytes \<Rightarrow> bytes \<Rightarrow> string \<Rightarrow> (string \<times> string) list \<Rightarrow> string
     \<Rightarrow> ('a env_scheme, ucan_error, string \<times> string) sm" where
  "generate_delegated_ucan L signing_key verifying_key recipient_pub permissions proof_token =
     sbind (lib_call Ucan_ParseError (ucan_try_from L proof_token)) (\<lambda>authority_ucan.
     sbind (slift (pub_key_b64_to_did L recipient_pub)) (\<lambda>recipient_did.
     sbind (build_and_sign L CreationError SignatureError
         \<lparr>uc_issued_by = signing_key, uc_for_audience = recipient_did, uc_lifetime = thirty_years,
          uc_claims = map (\<lambda>(r, a). cap r a) permissions,
          uc_witnessed_by = [authority_ucan], uc_facts = []\<rparr>) (encode_then_cid L)))"

definition generate_delegated_user_connection_token ::
  "crypto_lib \<Rightarrow> bytes \<Rightarrow> bytes \<Rightarrow> ident \<Rightarrow> string \<Rightarrow> string \<Rightarrow> string
     \<Rightarrow> ('a env_scheme, ucan_error, string) sm" where
  "generate_delegated_user_connection_token L signing_key verifying_key target_user audience_pub domain
       parent_token =
     sbind (slift (pub_key_b64_to_did L audience_pub)) (\<lambda>audience_did.
     sbind (lib_call Ucan_ParseError (ucan_try_from L parent_token)) (\<lambda>parent_ucan.
     sbind (build_and_sign L CreationError SignatureError
         \<lparr>uc_issued_by = signing_key, uc_for_audience = audience_did, uc_lifetime = thirty_years,
          uc_claims = [cap (domain @ '':user-connect:'' @ target_user) ''use''],
          uc_witnessed_by = [parent_ucan],
          uc_facts = [(''proof'', JString parent_token)]\<rparr>) (\<lambda>u.
     lib_call EncodingError (ucan_encode L u))))"

section \<open>What a successful validation of a permission shows\<close>

text \<open>
  \<open>delegated L R root res ab u\<close>: the token \<open>u\<close> goes back to the root authority along proofs that
  \<open>R\<close> relates to their CIDs, each issued to the issuer of the next token and each granting the
  ability \<open>ab\<close> on \<open>res\<close>.
\<close>

inductive delegated ::
  "crypto_lib \<Rightarrow> (string \<Rightarrow> string \<Rightarrow> bool) \<Rightarrow> string \<Rightarrow> string \<Rightarrow> string \<Rightarrow> ucan \<Rightarrow> bool"
  for L R root res ab where
  issued_by_root: "verify_did_key_match L (u_issuer u) root = Inr () \<Longrightarrow> delegated L R root res ab u"
| issued_by_delegate:
    "u_proofs u = Some proofs \<Longrightarrow> cid \<in> set proofs \<Longrightarrow> R cid token \<Longrightarrow>
     ucan_try_from L token = Inr parent \<Longrightarrow> ucan_check L parent now = Inr () \<Longrightarrow>
     u_audience parent = u_issuer u \<Longrightarrow>
     list_ex (capability_grants res ab) (u_capabilities parent) \<Longrightarrow>
     delegated L R root res ab parent \<Longrightarrow> delegated L R root res ab u"

lemma check_capability_Inr [simp]:
  "check_capability u res ab = Inr x \<longleftrightarrow> list_ex (capability_grants res ab) (u_capabilities u)"
  by (simp add: check_capability_def)

lemma validate_structure_ok:
  assumes "validate_structure L token s = (Inr u, s')"
  shows "ucan_try_from L token = Inr u" "\<exists>now. ucan_check L u now = Inr ()"
    "s' = s\<lparr>time_n := Suc (time_n s)\<rparr>"
  using assms by (auto simp: validate_structure_def sbind_def now_secs_def split: sum.splits)

lemma keeps_validate_structure:
  assumes "\<And>s. P s \<Longrightarrow> P (s\<lparr>time_n := Suc (time_n s)\<rparr>)"
  shows "keeps P (validate_structure L token)"
  using assms by (auto simp: keeps_def validate_structure_def sbind_def now_secs_def split: sum.splits)

text \<open>
  The interface to the place where proofs are kept: looking a CID up keeps what is known of the
  state, so does reading the clock, and what is found is related to the CID. The repositories of
  share records are the interpretations.
\<close>

locale proof_store =
  fixes resolver :: "string \<Rightarrow> ('a env_scheme, ucan_error, string) sm"
    and known :: "'a env_scheme \<Rightarrow> bool"
    and proof_of :: "string \<Rightarrow> string \<Rightarrow> bool"
  assumes resolver_keeps: "keeps known (resolver cid)"
    and clock_keeps: "known s \<Longrightarrow> known (s\<lparr>time_n := Suc (time_n s)\<rparr>)"
    and answers: "known s \<Longrightarrow> resolver cid s = (Inr token, s') \<Longrightarrow> proof_of cid token"
begin

lemma structure_keeps: "keeps known (validate_structure L token)"
  by (rule keeps_validate_structure) (rule clock_keeps)

lemma try_proofs_keeps:
  assumes "\<And>p. keeps known (recur p)"
  shows "keeps known (try_proofs L recur u resolver res ab cids)"
  by (induction cids)
    (simp_all only: try_proofs.simps,
      (intro keeps_control resolver_keeps structure_keeps assms | assumption)+)

lemma permission_keeps: "keeps known (validate_ucan_permission L n u root resolver res ab)"
proof (induction n arbitrary: u)
  case 0
  then show ?case by (simp add: keeps_def)
next
  case (Suc n)
  then have "keeps known (try_proofs L (\<lambda>p. validate_ucan_permission L n p root resolver res ab) u
      resolver res ab ps)" for ps
    by (rule try_proofs_keeps)
  then show ?case by (auto simp: keeps_def split: sum.splits option.splits)
qed

text \<open>
  One round of the loop: it goes on with the other proofs, or the proof resolved to a parent that
  grants the ability and the recursive call decides.
\<close>

lemma try_proofs_step:
  assumes keep: "\<And>p. keeps known (recur p)" and s: "known s"
  obtains t where "known t" "try_proofs L recur u resolver res ab (cid # cids) s =
      try_proofs L recur u resolver res ab cids t"
  | "\<exists>t. try_proofs L recur u resolver res ab (cid # cids) s = (Inl DelegationNotPermitted, t)"
  | token parent now t where "known t" "proof_of cid token" "ucan_try_from L token = Inr parent"
    "ucan_check L parent now = Inr ()" "u_audience parent = u_issuer u"
    "list_ex (capability_grants res ab) (u_capabilities parent)"
    "try_proofs L recur u resolver res ab (cid # cids) s =
       scatch (recur parent) (\<lambda>_. sret ())
         (\<lambda>e. if e = ProofChainDiverges then sthrow e else try_proofs L recur u resolver res ab cids) t"
proof -
  obtain r s1 where res: "resolver cid s = (r, s1)" by fastforce
  have s1: "known s1" using keepsD [OF resolver_keeps s res] .
  show thesis
  proof (cases r)
    case (Inl e)
    then show thesis using that(1) [OF s1] res by (simp add: scatch_def)
  next
    case (Inr token)
    obtain v s2 where struct: "validate_structure L token s1 = (v, s2)" by fastforce
    have s2: "known s2" using keepsD [OF structure_keeps s1 struct] .
    show thesis
    proof (cases v)
      case (Inl e)
      then show thesis using that(1) [OF s2] res struct \<open>r = Inr token\<close> by (simp add: scatch_def)
    next
      case (Inr parent)
      note parsed = validate_structure_ok [OF struct [unfolded Inr]]
      have run: "try_proofs L recur u resolver res ab (cid # cids) s =
        (if u_audience parent \<noteq> u_issuer u then try_proofs L recur u resolver res ab cids s2
         else if list_ex (capability_grants res ab) (u_capabilities parent)
         then scatch (recur parent) (\<lambda>_. sret ())
           (\<lambda>e. if e = ProofChainDiverges then sthrow e else try_proofs L recur u resolver res ab cids) s2
         else (Inl DelegationNotPermitted, s2))"
        using res struct \<open>r = Inr token\<close> Inr by (simp add: scatch_def check_capability_def)
      show thesis
      proof (cases "u_audience parent = u_issuer u \<and> list_ex (capability_grants res ab) (u_capabilities parent)")
        case True
        from parsed(2) obtain now where "ucan_check L parent now = Inr ()" by blast
        then show thesis
          using that(3) [OF s2 answers [OF s] parsed(1)] res \<open>r = Inr token\<close> run True by auto
      next
        case False
        then show thesis using that(1) [OF s2] that(2) run by (auto split: if_splits)
      qed
    qed
  qed
qed

lemma try_proofs_ok:
  assumes keep: "\<And>p. keeps known (recur p)"
  shows "known s \<Longrightarrow> try_proofs L recur u resolver res ab cids s = (Inr (), s') \<Longrightarrow>
    \<exists>cid \<in> set cids. \<exists>token parent now t t'. proof_of cid token \<and> ucan_try_from L token = Inr parent \<and>
      ucan_check L parent now = Inr () \<and> u_audience parent = u_issuer u \<and>
      list_ex (capability_grants res ab) (u_capabilities parent) \<and> known t \<and> recur parent t = (Inr (), t')"
proof (induction cids arbitrary: s)
  case (Cons cid cids)
  show ?case
  proof (cases rule: try_proofs_step [where recur = recur and s = s and L = L and u = u and res = res and ab = ab
        and cid = cid and cids = cids, OF keep Cons.prems(1)])
    case (1 t)
    then show ?thesis using Cons by (metis list.set_intros(2))
  next
    case 2
    then show ?thesis using Cons.prems(2) by auto
  next
    case (3 token parent now t)
    obtain q t' where rec: "recur parent t = (q, t')" by fastforce
    show ?thesis
    proof (cases q)
      case (Inr x)
      then show ?thesis using 3 rec by auto
    next
      case (Inl e)
      then have "try_proofs L recur u resolver res ab cids t' = (Inr (), s')"
        using 3 rec Cons.prems(2) by (auto simp: scatch_def split: if_splits)
      from Cons.IH [OF keepsD [OF keep 3(1) rec] this] show ?thesis by auto
    qed
  qed
qed simp

lemma permission_sound:
  "known s \<Longrightarrow> validate_ucan_permission L n u root resolver res ab s = (Inr (), s') \<Longrightarrow>
    delegated L proof_of root res ab u"
proof (induction n arbitrary: u s s')
  case (Suc n)
  show ?case
  proof (cases "verify_did_key_match L (u_issuer u) root")
    case (Inr x)
    then show ?thesis by (simp add: issued_by_root)
  next
    case (Inl e)
    with Suc.prems(2) obtain proofs where proofs: "u_proofs u = Some proofs" and
      "try_proofs L (\<lambda>p. validate_ucan_permission L n p root resolver res ab) u resolver res ab proofs s =
         (Inr (), s')"
      by (auto split: if_splits option.splits)
    from try_proofs_ok [OF permission_keeps Suc.prems(1) this(2)]
    show ?thesis using issued_by_delegate [OF proofs] Suc.IH by metis
  qed
qed simp

text \<open>
  Fuel: a rank that decreases from a token to the parents its proofs resolve to bounds the depth of
  the recursion. CIDs are hashes of tokens, so a proof is older than the token that names it.
\<close>

lemma try_proofs_terminates:
  assumes keep: "\<And>p. keeps known (recur p)"
  shows "(\<And>cid token p t. cid \<in> set cids \<Longrightarrow> proof_of cid token \<Longrightarrow> ucan_try_from L token = Inr p \<Longrightarrow>
      known t \<Longrightarrow> fst (recur p t) \<noteq> Inl ProofChainDiverges) \<Longrightarrow>
    known s \<Longrightarrow> fst (try_proofs L recur u resolver res ab cids s) \<noteq> Inl ProofChainDiverges"
proof (induction cids arbitrary: s)
  case (Cons cid cids)
  have IH: "fst (try_proofs L recur u resolver res ab cids t) \<noteq> Inl ProofChainDiverges" if "known t" for t
    by (rule Cons.IH [OF _ that]) (rule Cons.prems(1), auto)
  show ?case
  proof (cases rule: try_proofs_step [where recur = recur and s = s and L = L and u = u and res = res and ab = ab
        and cid = cid and cids = cids, OF keep Cons.prems(2)])
    case (3 token parent now t)
    obtain q t' where rec: "recur parent t = (q, t')" by fastforce
    then have "q \<noteq> Inl ProofChainDiverges"
      using Cons.prems(1) [OF _ 3(2,3,1)] by (metis fst_conv list.set_intros(1))
    then show ?thesis
      using 3 rec IH [OF keepsD [OF keep 3(1) rec]] by (auto simp: scatch_def split: sum.splits)
  qed (use IH in auto)
qed simp

lemma permission_terminates:
  assumes rank: "\<And>u proofs cid token p. u_proofs u = Some proofs \<Longrightarrow> cid \<in> set proofs \<Longrightarrow>
      proof_of cid token \<Longrightarrow> ucan_try_from L token = Inr p \<Longrightarrow> rank p < (rank u :: nat)"
  shows "known s \<Longrightarrow> rank u < n \<Longrightarrow>
    fst (validate_ucan_permission L n u root resolver res ab s) \<noteq> Inl ProofChainDiverges"
proof (induction n arbitrary: u s)
  case (Suc n)
  have "fst (try_proofs L (\<lambda>p. validate_ucan_permission L n p root resolver res ab) u resolver res ab ps s)
    \<noteq> Inl ProofChainDiverges" if ps: "u_proofs u = Some ps" for ps
  proof (rule try_proofs_terminates [OF permission_keeps _ Suc.prems(1)])
    fix cid token p t assume "cid \<in> set ps" "proof_of cid token" "ucan_try_from L token = Inr p" "known t"
    then show "fst (validate_ucan_permission L n p root resolver res ab t) \<noteq> Inl ProofChainDiverges"
      using rank [OF ps, of cid token p] Suc.prems(2) by (intro Suc.IH) auto
  qed
  then show ?case
    by (auto simp: verify_did_key_match_def split: sum.splits option.splits)
qed simp

text \<open>
  The chains this program issues name one proof per token. If every proof of such a chain is at
  hand and valid at all times, the validation accepts it.
\<close>

inductive straight ::
  "crypto_lib \<Rightarrow> string \<Rightarrow> string \<Rightarrow> string \<Rightarrow> nat \<Rightarrow> ucan \<Rightarrow> bool"
  for L root res ab where
  straight_root: "verify_did_key_match L (u_issuer u) root = Inr () \<Longrightarrow> straight L root res ab n u"
| straight_link:
    "verify_did_key_match L (u_issuer u) root = Inl PublicKeyMismatch \<Longrightarrow> u_proofs u = Some [cid] \<Longrightarrow>
     (\<And>s. known s \<Longrightarrow> \<exists>s'. resolver cid s = (Inr token, s')) \<Longrightarrow>
     ucan_try_from L token = Inr parent \<Longrightarrow> (\<And>now. ucan_check L parent now = Inr ()) \<Longrightarrow>
     u_audience parent = u_issuer u \<Longrightarrow> list_ex (capability_grants res ab) (u_capabilities parent) \<Longrightarrow>
     straight L root res ab n parent \<Longrightarrow> straight L root res ab (Suc n) u"

lemma permission_complete:
  "straight L root res ab n u \<Longrightarrow> known s \<Longrightarrow>
    fst (validate_ucan_permission L (Suc n) u root resolver res ab s) = Inr ()"
proof (induction n u arbitrary: s rule: straight.induct)
  case (straight_link u cid token parent n)
  from straight_link.hyps(3) [OF straight_link.prems]
  obtain s1 where res: "resolver cid s = (Inr token, s1)" by blast
  have s1: "known s1" using keepsD [OF resolver_keeps straight_link.prems res] .
  have struct: "validate_structure L token s1 = (Inr parent, s1\<lparr>time_n := Suc (time_n s1)\<rparr>)"
    using straight_link.hyps(4,5) by (simp add: validate_structure_def sbind_def now_secs_def)
  obtain t where "validate_ucan_permission L (Suc n) parent root resolver res ab
      (s1\<lparr>time_n := Suc (time_n s1)\<rparr>) = (Inr (), t)"
    using straight_link.IH [OF clock_keeps [OF s1]] by (metis prod.collapse)
  moreover have "validate_ucan_permission L (Suc (Suc n)) u root resolver res ab s =
      try_proofs L (\<lambda>p. validate_ucan_permission L (Suc n) p root resolver res ab) u resolver res ab [cid] s"
    using straight_link.hyps(1,2) by (simp only: validate_ucan_permission.simps(2) [of L "Suc n" u]) simp
  ultimately show ?case
    using straight_link.hyps res struct
    by (simp add: scatch_def check_capability_def del: validate_ucan_permission.simps(2))
qed simp

end

section \<open>What a valid connect token shows\<close>

text \<open>
  \<open>connect_chain L root res token u\<close>: \<open>token\<close> parses to \<open>u\<close>, grants \<open>use\<close> on \<open>res\<close>, and is issued
  by the root or embeds such a token that was issued to its issuer.
\<close>

inductive connect_chain :: "crypto_lib \<Rightarrow> string \<Rightarrow> string \<Rightarrow> string \<Rightarrow> ucan \<Rightarrow> bool"
  for L root res where
  connect_root:
    "ucan_try_from L token = Inr u \<Longrightarrow> ucan_check L u now = Inr () \<Longrightarrow>
     list_ex (capability_grants res ''use'') (u_capabilities u) \<Longrightarrow>
     verify_did_key_match L (u_issuer u) root = Inr () \<Longrightarrow> connect_chain L root res token u"
| connect_link:
    "ucan_try_from L token = Inr u \<Longrightarrow> ucan_check L u now = Inr () \<Longrightarrow>
     list_ex (capability_grants res ''use'') (u_capabilities u) \<Longrightarrow>
     embedded_proof u = Some nested \<Longrightarrow> connect_chain L root res nested parent \<Longrightarrow>
     u_audience parent = u_issuer u \<Longrightarrow> connect_chain L root res token u"

lemma embedded_chain_sound:
  "embedded_chain L n token target root domain expected s = (Inr (), s') \<Longrightarrow>
    \<exists>u. ucan_try_from L token = Inr u \<and> (\<forall>d. expected = Some d \<longrightarrow> u_audience u = d) \<and>
      connect_chain L root (domain @ '':user-connect:'' @ target) token u"
proof (induction n arbitrary: token expected s)
  case (Suc n)
  let ?res = "domain @ '':user-connect:'' @ target"
  from Suc.prems obtain u s1 where struct: "validate_structure L token s = (Inr u, s1)"
    by (auto simp: sbind_eq_Inr)
  note parsed = validate_structure_ok [OF struct]
  obtain now where now: "ucan_check L u now = Inr ()" using parsed(2) by blast
  have exp: "\<forall>d. expected = Some d \<longrightarrow> u_audience u = d"
    and caps: "list_ex (capability_grants ?res ''use'') (u_capabilities u)"
    using Suc.prems struct
    by (auto simp: sbind_def check_capability_def split: if_splits option.splits)
  show ?case
  proof (cases "verify_did_key_match L (u_issuer u) root")
    case (Inr x)
    then show ?thesis using parsed(1) exp connect_root [OF parsed(1) now caps] by simp
  next
    case (Inl e)
    then obtain nested where nested: "embedded_proof u = Some nested"
      and "\<exists>t. embedded_chain L n nested target root domain (Some (u_issuer u)) t = (Inr (), s')"
      using Suc.prems struct caps exp
      by (auto simp: sbind_def check_capability_def split: option.splits sum.splits if_splits)
    then obtain parent where "u_audience parent = u_issuer u" "connect_chain L root ?res nested parent"
      using Suc.IH by blast
    then show ?thesis using parsed(1) exp connect_link [OF parsed(1) now caps nested] by blast
  qed
qed simp

lemma embedded_chain_terminates:
  assumes nested: "\<And>token u inner. ucan_try_from L token = Inr u \<Longrightarrow> embedded_proof u = Some inner \<Longrightarrow>
    length inner < length token"
  shows "length token < n \<Longrightarrow>
    fst (embedded_chain L n token target root domain expected (s :: 'a env_scheme)) \<noteq> Inl ProofChainDiverges"
proof (induction n arbitrary: token expected s)
  case (Suc n)
  have struct: "fst (validate_structure L token s) \<noteq> Inl ProofChainDiverges"
    by (auto simp: validate_structure_def sbind_def now_secs_def split: sum.splits)
  have cid: "get_ucan_cid L x \<noteq> Inl ProofChainDiverges" for x
    by (auto simp: get_ucan_cid_def split: sum.splits)
  have IH: "fst (embedded_chain L n inner target root domain exp' t) \<noteq> Inl ProofChainDiverges"
    if "validate_structure L token s = (Inr u, s1)" "embedded_proof u = Some inner" for u s1 inner exp' and t :: "'a env_scheme"
    using nested [OF validate_structure_ok(1) [OF that(1)] that(2)] Suc.prems by (intro Suc.IH) simp
  obtain r s1 where r: "validate_structure L token s = (r, s1)" by fastforce
  show ?case
    using struct r IH cid
    by (auto simp: sbind_def check_capability_def split: sum.splits option.splits)
qed simp

end
