(* ===== verification/Crypto_Utils.thy ===== *)
theory Crypto_Utils
  imports Ucan
begin

text \<open>
  \<open>crypto_utils\<close>: AES encryption and passphrase protection (\<open>aes_utils.rs\<close>), encryption for a user
  (\<open>data_encryption.rs\<close>), keys (\<open>key_management.rs\<close>), clear text signatures
  (\<open>signature_operations.rs\<close>) and the stateful \<open>CryptoUtils\<close> with the loaded certificate
  (\<open>crypto_utils.rs\<close>). What sequoia, \<open>aes_gcm\<close>, \<open>argon2\<close>, \<open>base64\<close> and \<open>ucan\<close> do is \<open>L\<close>.

  Functions that only compute return \<open>error + value\<close>; those that draw random bytes or read the
  clock run on the environment.
\<close>

section \<open>AES\<close>

definition generate_aes_key :: "('a env_scheme, 'e, bytes) sm" where
  "generate_aes_key = fill_bytes 32"

definition encrypt_with_aes :: "crypto_lib \<Rightarrow> bytes \<Rightarrow> string \<Rightarrow> ('a env_scheme, aes_error, string) sm" where
  "encrypt_with_aes L key plaintext =
     sbind (fill_bytes 12) (\<lambda>nonce.
     sbind (lib_call EncryptionError (aes_seal L key nonce (as_bytes plaintext))) (\<lambda>ciphertext.
     sret (b64_encode L (nonce @ ciphertext))))"

text \<open>\<open>Key::from_slice\<close> panics unless the key has 32 bytes.\<close>

definition decrypt_with_aes :: "crypto_lib \<Rightarrow> bytes \<Rightarrow> string \<Rightarrow> aes_error + string" where
  "decrypt_with_aes L key_bytes encoded =
     (if length key_bytes \<noteq> 32 then Inl (AesPanic ''from_slice'')
      else rbind (rmap_err Aes_Base64DecodeError (b64_decode L encoded)) (\<lambda>decoded.
        if length decoded < 12 then Inl (Aes_DecryptionError ''Invalid ciphertext'')
        else rbind (rmap_err Aes_DecryptionError (aes_open L key_bytes (take 12 decoded) (drop 12 decoded)))
               (\<lambda>plaintext. rmap_err Aes_Utf8ConversionError (from_utf8 plaintext))))"

definition derive_key :: "crypto_lib \<Rightarrow> string \<Rightarrow> bytes \<Rightarrow> aes_error + bytes" where
  "derive_key L password salt = rmap_err KeyDerivationError (argon2 L (as_bytes password) salt)"

definition new_cipher :: "bytes \<Rightarrow> aes_error + unit" where
  "new_cipher key = (if length key = 32 then Inr () else Inl (CipherCreationError ''Invalid Length''))"

definition encrypt_certificate :: "crypto_lib \<Rightarrow> bytes \<Rightarrow> string \<Rightarrow> bytes \<Rightarrow> aes_error + string" where
  "encrypt_certificate L dat password salt =
     rbind (derive_key L password salt) (\<lambda>key.
     rbind (new_cipher key) (\<lambda>_.
     rbind (rmap_err EncryptionError (aes_seal L key (take 12 salt) dat)) (\<lambda>encrypted_data.
     Inr (b64_encode L encrypted_data))))"

definition get_salt_arr :: "crypto_lib \<Rightarrow> string \<Rightarrow> string + bytes" where
  "get_salt_arr L salt_b64 =
     rbind (b64_decode L salt_b64) (\<lambda>salt.
       if length salt \<noteq> 16 then Inl ''Invalid salt length'' else Inr salt)"

definition decrypt_certificate_data :: "crypto_lib \<Rightarrow> string \<Rightarrow> string \<Rightarrow> string \<Rightarrow> aes_error + bytes" where
  "decrypt_certificate_data L encrypted_cert_b64 salt_b64 password =
     rbind (rmap_err Aes_Base64DecodeError (b64_decode L encrypted_cert_b64)) (\<lambda>encrypted_data.
     rbind (rmap_err AesPanic (get_salt_arr L salt_b64)) (\<lambda>salt.
     rbind (derive_key L password salt) (\<lambda>key.
     rbind (new_cipher key) (\<lambda>_.
     rmap_err Aes_DecryptionError (aes_open L key (take 12 salt) encrypted_data)))))"

definition decrypt_certificate :: "crypto_lib \<Rightarrow> string \<Rightarrow> string \<Rightarrow> string \<Rightarrow> aes_error + cert" where
  "decrypt_certificate L encrypted_cert_b64 salt_b64 password =
     rbind (decrypt_certificate_data L encrypted_cert_b64 salt_b64 password) (\<lambda>decrypted_data.
     rmap_err Aes_CertificateParseError (cert_parse L decrypted_data))"

section \<open>Encryption for a user\<close>

definition encrypt_string_with_public_key ::
  "crypto_lib \<Rightarrow> string \<Rightarrow> string \<Rightarrow> ('a env_scheme, crypto_error, string) sm" where
  "encrypt_string_with_public_key L dat public_key =
     sbind (lib_call PgpError (pgp_recipient L public_key)) (\<lambda>recipient.
     sbind draw_seed (\<lambda>seed.
     lib_call Crypto_Other (pgp_encrypt L recipient dat seed)))"

definition encrypt_data_for_user ::
  "crypto_lib \<Rightarrow> string \<Rightarrow> string \<Rightarrow> ('a env_scheme, crypto_error, string \<times> string) sm" where
  "encrypt_data_for_user L dat public_key =
     sbind generate_aes_key (\<lambda>aes_key.
     sbind (smap_err AesError (encrypt_with_aes L aes_key dat)) (\<lambda>encrypted_data.
     sbind (lib_call PgpError (pgp_recipient L public_key)) (\<lambda>recipient.
     sbind draw_seed (\<lambda>seed.
     sbind (lib_call Crypto_Other (pgp_encrypt L recipient (b64_encode L aes_key) seed)) (\<lambda>encrypted_key.
     sret (encrypted_data, encrypted_key))))))"

definition decrypt_with_encoded_key :: "crypto_lib \<Rightarrow> string \<Rightarrow> string \<Rightarrow> crypto_error + string" where
  "decrypt_with_encoded_key L ciphertext encoded_key =
     rbind (rmap_err Base64Error (b64_decode L encoded_key)) (\<lambda>key_bytes.
     rmap_err AesError (decrypt_with_aes L key_bytes ciphertext))"

definition verify_clear_text_message ::
  "crypto_lib \<Rightarrow> string \<Rightarrow> string \<Rightarrow> ('a env_scheme, crypto_error, string) sm" where
  "verify_clear_text_message L public_key signed_message =
     sbind now_secs (\<lambda>now.
     sbind (lib_call PgpError (pgp_verify_cleartext L public_key signed_message now))
       (\<lambda>(is_valid, message_option).
          if is_valid
          then (case message_option of
                  Some message \<Rightarrow> sret message
                | None \<Rightarrow> sthrow (PgpError (InvalidSignature
                    ''Signature is valid but message content is missing.'')))
          else sthrow (PgpError (InvalidSignature ''PGP signature verification failed.''))))"

section \<open>Keys\<close>

record generated_keys =
  gk_private_key :: string
  gk_public_key :: string
  gk_salt :: string

text \<open>Encrypting a certificate with a passphrase and a new salt, as two functions do it.\<close>

definition seal_certificate ::
  "crypto_lib \<Rightarrow> cert \<Rightarrow> string \<Rightarrow> bytes \<Rightarrow> crypto_error + string" where
  "seal_certificate L crt password salt =
     rbind (rmap_err Crypto_Other (cert_serialize L crt)) (\<lambda>cert_data.
     rmap_err (\<lambda>e. Crypto_Other (aes_text L e)) (encrypt_certificate L cert_data password salt))"

definition generate_keys ::
  "crypto_lib \<Rightarrow> string \<Rightarrow> string \<Rightarrow> ('a env_scheme, crypto_error, generated_keys) sm" where
  "generate_keys L password username =
     sbind draw_seed (\<lambda>seed.
     sbind (lib_call Crypto_Other (pgp_generate L username seed)) (\<lambda>crt.
     sbind (fill_bytes 16) (\<lambda>salt.
     sbind (slift (seal_certificate L crt password salt)) (\<lambda>encrypted_private_key.
     sbind (lib_call Crypto_Other (pgp_public_key L crt)) (\<lambda>public_key.
     sret \<lparr>gk_private_key = encrypted_private_key, gk_public_key = public_key,
           gk_salt = b64_encode L salt\<rparr>)))))"

definition generate_keys_without_password ::
  "crypto_lib \<Rightarrow> string \<Rightarrow> ('a env_scheme, crypto_error, generated_keys) sm" where
  "generate_keys_without_password L username =
     sbind draw_seed (\<lambda>seed.
     sbind (lib_call Crypto_Other (pgp_generate L username seed)) (\<lambda>crt.
     sbind (lib_call Crypto_Other (cert_serialize L crt)) (\<lambda>cert_data.
     sbind (lib_call Crypto_Other (pgp_public_key L crt)) (\<lambda>public_key.
     sret \<lparr>gk_private_key = b64_encode L cert_data, gk_public_key = public_key,
           gk_salt = b64_encode L []\<rparr>))))"

definition import_certificate ::
  "crypto_lib \<Rightarrow> string \<Rightarrow> string \<Rightarrow> ('a env_scheme, crypto_error, generated_keys) sm" where
  "import_certificate L cert_string passphrase =
     sbind (lib_call CertError (cert_from_str L cert_string)) (\<lambda>crt.
     sbind (lib_call Crypto_Other (pgp_public_key L crt)) (\<lambda>public_key.
     sbind (fill_bytes 16) (\<lambda>salt.
     sbind (slift (seal_certificate L crt passphrase salt)) (\<lambda>enc_priv_key.
     sret \<lparr>gk_private_key = enc_priv_key, gk_public_key = public_key,
           gk_salt = b64_encode L salt\<rparr>))))"

definition change_certificate_password ::
  "crypto_lib \<Rightarrow> string \<Rightarrow> string \<Rightarrow> string \<Rightarrow> string \<Rightarrow> crypto_error + string" where
  "change_certificate_password L encrypted_cert_b64 salt_b64 old_password new_password =
     rbind (rmap_err AesError (decrypt_certificate L encrypted_cert_b64 salt_b64 old_password)) (\<lambda>crt.
     rbind (rmap_err Crypto_Other (cert_serialize L crt)) (\<lambda>cert_data.
     rbind (rmap_err Crypto_Other (get_salt_arr L salt_b64)) (\<lambda>salt.
     rmap_err (\<lambda>e. Crypto_Other (aes_text L e)) (encrypt_certificate L cert_data new_password salt))))"

definition export_certificate :: "crypto_lib \<Rightarrow> string \<Rightarrow> string \<Rightarrow> string \<Rightarrow> crypto_error + string" where
  "export_certificate L passphrase enc_pvt_key salt =
     rbind (rmap_err AesError (decrypt_certificate L enc_pvt_key salt passphrase)) (\<lambda>crt.
     rbind (rmap_err Crypto_Other (cert_armor L crt)) (\<lambda>armored.
     rmap_err Utf8Error (from_utf8 armored)))"

definition generate_and_encrypt_ed25519_key ::
  "crypto_lib \<Rightarrow> string \<Rightarrow> ('a env_scheme, crypto_error, string \<times> string) sm" where
  "generate_and_encrypt_ed25519_key L user_public_key =
     sbind (fill_bytes 32) (\<lambda>device_key.
       (let private_key_b64 = b64_encode L device_key;
            public_key_b64 = b64_encode L (ed_verifying_key L device_key)
        in sbind (encrypt_string_with_public_key L private_key_b64 user_public_key)
             (\<lambda>encrypted_private_key. sret (encrypted_private_key, public_key_b64))))"

definition get_key_id :: "crypto_lib \<Rightarrow> string \<Rightarrow> crypto_error + string" where
  "get_key_id L public_key = rmap_err Crypto_Other (pgp_key_id L public_key)"

definition derive_node_id_from_public_key :: "crypto_lib \<Rightarrow> string \<Rightarrow> crypto_error + bytes" where
  "derive_node_id_from_public_key L public_key_b64 =
     rbind (rmap_err (\<lambda>e. Crypto_Other (''Failed to decode public key: '' @ e)) (b64_decode L public_key_b64))
       (\<lambda>public_key_bytes.
          if length public_key_bytes \<noteq> 32
          then Inl (Crypto_Other (''Invalid public key length: expected 32 bytes, got '' @
                 decimal (length public_key_bytes)))
          else Inr public_key_bytes)"

text \<open>The UCAN key of a user is derived from the secret of the OpenPGP primary key.\<close>

definition derive_ucan_signing_key :: "crypto_lib \<Rightarrow> bytes \<Rightarrow> ucan_error + bytes \<times> bytes" where
  "derive_ucan_signing_key L pgp_private_key =
     (let info = as_bytes ''osvauld-ucan-ed25519-v1'';
          salt = take 16 (as_bytes ''osvauld-ucan-salt-v1-16bytes'')
      in rbind (rmap_err (\<lambda>e. KeyExtractionError (''Argon2 derivation failed: '' @ e))
                  (argon2 L (pgp_private_key @ info) salt))
           (\<lambda>signing_key. Inr (signing_key, ed_verifying_key L signing_key)))"

definition derive_ucan_keys_from_pgp :: "crypto_lib \<Rightarrow> cert \<Rightarrow> ucan_error + bytes \<times> bytes" where
  "derive_ucan_keys_from_pgp L crt =
     rbind (pgp_eddsa_secret L crt) (\<lambda>pgp_private_key.
       if length pgp_private_key \<noteq> 32
       then Inl (KeyExtractionError (''Expected 32 bytes for Ed25519 secret key, got '' @
              decimal (length pgp_private_key)))
       else derive_ucan_signing_key L pgp_private_key)"

section \<open>The loaded certificate\<close>

record crypto_utils =
  cu_cert :: "cert option"

definition crypto_utils_new :: crypto_utils where
  "crypto_utils_new = \<lparr>cu_cert = None\<rparr>"

definition is_cert_loaded :: "crypto_utils \<Rightarrow> bool" where
  "is_cert_loaded cu \<longleftrightarrow> cu_cert cu \<noteq> None"

definition clear_cert :: "crypto_utils \<Rightarrow> crypto_utils" where
  "clear_cert cu = cu\<lparr>cu_cert := None\<rparr>"

definition get_cert :: "crypto_utils \<Rightarrow> crypto_utils_error + cert" where
  "get_cert cu = (case cu_cert cu of Some c \<Rightarrow> Inr c | None \<Rightarrow> Inl NoCertificateError)"

definition decrypt_and_load_certificate ::
  "crypto_lib \<Rightarrow> crypto_utils \<Rightarrow> string \<Rightarrow> string \<Rightarrow> string \<Rightarrow> crypto_utils_error + crypto_utils" where
  "decrypt_and_load_certificate L cu encrypted_cert_b64 salt_b64 passphrase =
     rbind (rmap_err (\<lambda>e. CertificateDecryptionError (aes_text L e))
              (decrypt_certificate L encrypted_cert_b64 salt_b64 passphrase))
       (\<lambda>c. Inr (cu\<lparr>cu_cert := Some c\<rparr>))"

text \<open>\<open>self.get_cert()?\<close> in a function that returns a \<open>CryptoError\<close>.\<close>

definition with_cert :: "crypto_utils \<Rightarrow> (cert \<Rightarrow> crypto_error + 'a) \<Rightarrow> crypto_error + 'a" where
  "with_cert cu f = rbind (rmap_err CryptoUtilsError (get_cert cu)) f"

definition cu_sign_message ::
  "crypto_lib \<Rightarrow> crypto_utils \<Rightarrow> string \<Rightarrow> ('a env_scheme, crypto_error, string) sm" where
  "cu_sign_message L cu message =
     sbind (slift (with_cert cu (\<lambda>c.
       rmap_err (\<lambda>e. CryptoUtilsError (SigningKeyError (pgp_text L e))) (pgp_signing_keypair L c))))
       (\<lambda>keypair.
     sbind now_secs (\<lambda>now.
     sbind (lib_call (\<lambda>e. CryptoUtilsError (SigningError (pgp_text L e))) (pgp_sign L keypair message now))
       (\<lambda>signature. sret (b64_encode L signature))))"

definition sign_and_hash_message ::
  "crypto_lib \<Rightarrow> crypto_utils \<Rightarrow> string \<Rightarrow> ('a env_scheme, crypto_error, string) sm" where
  "sign_and_hash_message L cu message =
     sbind (lib_call PgpError (pgp_hash L message)) (\<lambda>hash_text.
     cu_sign_message L cu (b64_encode L hash_text))"

definition get_public_key :: "crypto_lib \<Rightarrow> crypto_utils \<Rightarrow> crypto_error + string" where
  "get_public_key L cu = with_cert cu (\<lambda>c. rmap_err Crypto_Other (pgp_public_key L c))"

definition add_resource ::
  "crypto_lib \<Rightarrow> crypto_utils \<Rightarrow> string \<Rightarrow> ('a env_scheme, crypto_error, string \<times> string) sm" where
  "add_resource L cu dat =
     sbind (slift (get_public_key L cu)) (\<lambda>public_key. encrypt_data_for_user L dat public_key)"

text \<open>Decrypting text that was encrypted for the loaded certificate.\<close>

definition decrypt_for_cert :: "crypto_lib \<Rightarrow> crypto_utils \<Rightarrow> string \<Rightarrow> crypto_error + bytes" where
  "decrypt_for_cert L cu encrypted_key =
     with_cert cu (\<lambda>c.
     rbind (rmap_err PgpError (pgp_decryption_key L c)) (\<lambda>decrypt_key.
     rbind (rmap_err PgpError (pgp_decrypt L decrypt_key (as_bytes encrypted_key))) (\<lambda>decrypted_key.
     rbind (rmap_err Utf8Error (from_utf8 decrypted_key)) (\<lambda>utf8_key.
     rmap_err Base64Error (b64_decode L utf8_key)))))"

definition decrypt_aes_key :: "crypto_lib \<Rightarrow> crypto_utils \<Rightarrow> string \<Rightarrow> crypto_error + bytes" where
  "decrypt_aes_key L cu encrypted_key = decrypt_for_cert L cu encrypted_key"

definition decrypt_resource :: "crypto_lib \<Rightarrow> crypto_utils \<Rightarrow> string \<Rightarrow> string \<Rightarrow> crypto_error + string" where
  "decrypt_resource L cu dat encrypted_key =
     rbind (decrypt_for_cert L cu encrypted_key) (\<lambda>key_bytes.
     rmap_err AesError (decrypt_with_aes L key_bytes dat))"

definition cu_update_resource ::
  "crypto_lib \<Rightarrow> crypto_utils \<Rightarrow> string \<Rightarrow> string \<Rightarrow> ('a env_scheme, crypto_error, string) sm" where
  "cu_update_resource L cu dat encrypted_key =
     sbind (slift (decrypt_aes_key L cu encrypted_key)) (\<lambda>key_bytes.
       if length key_bytes \<noteq> 32 then sthrow (AesError (AesPanic ''from_slice''))
       else smap_err AesError (encrypt_with_aes L key_bytes dat))"

definition encrypt_key_with_new_pub_key ::
  "crypto_lib \<Rightarrow> crypto_utils \<Rightarrow> string \<Rightarrow> string \<Rightarrow> ('a env_scheme, crypto_error, string) sm" where
  "encrypt_key_with_new_pub_key L cu encrypted_key public_key =
     sbind (slift (decrypt_aes_key L cu encrypted_key)) (\<lambda>key_bytes.
     sbind (lib_call PgpError (pgp_recipient L public_key)) (\<lambda>recipient.
     sbind draw_seed (\<lambda>seed.
     lib_call Crypto_Other (pgp_encrypt L recipient (b64_encode L key_bytes) seed))))"

definition get_node_keypair :: "crypto_lib \<Rightarrow> crypto_utils \<Rightarrow> string \<Rightarrow> crypto_error + bytes" where
  "get_node_keypair L cu encrypted_private_key =
     rbind (decrypt_for_cert L cu encrypted_private_key) (\<lambda>key_bytes.
       if length key_bytes \<noteq> 32
       then Inl (Crypto_Other ''Invalid private key length, expected 32 bytes'') else Inr key_bytes)"

definition generate_and_encrypt_ucan_key ::
  "crypto_lib \<Rightarrow> crypto_utils \<Rightarrow> ('a env_scheme, crypto_error, string \<times> string) sm" where
  "generate_and_encrypt_ucan_key L cu =
     sbind (slift (with_cert cu Inr)) (\<lambda>c.
     sbind (slift (get_public_key L cu)) (\<lambda>pub_key.
     sbind (lib_call UcanError (derive_ucan_keys_from_pgp L c)) (\<lambda>(signing_key, verifying_key).
     sbind (smap_err (\<lambda>e. Crypto_Other (''Failed to encrypt UCAN private key: '' @ crypto_text L e))
              (encrypt_string_with_public_key L (b64_encode L signing_key) pub_key))
       (\<lambda>encrypted_private_key. sret (encrypted_private_key, b64_encode L verifying_key)))))"

definition decrypt_ucan_key :: "crypto_lib \<Rightarrow> crypto_utils \<Rightarrow> string \<Rightarrow> crypto_error + bytes \<times> bytes" where
  "decrypt_ucan_key L cu encrypted_private_key =
     rbind (decrypt_for_cert L cu encrypted_private_key) (\<lambda>key_bytes.
       if length key_bytes \<noteq> 32
       then Inl (Crypto_Other ''Invalid UCAN private key length, expected 32 bytes'')
       else Inr (key_bytes, ed_verifying_key L key_bytes))"

section \<open>Tokens in the user's name\<close>

definition generate_one_time_user_connect_token ::
  "crypto_lib \<Rightarrow> crypto_utils \<Rightarrow> string \<Rightarrow> string \<Rightarrow> ('a env_scheme, crypto_error, string \<times> string) sm" where
  "generate_one_time_user_connect_token L cu encrypted_private_key domain =
     sbind (slift (get_public_key L cu)) (\<lambda>public_key.
     sbind (slift (get_key_id L public_key)) (\<lambda>user_id.
     sbind (slift (decrypt_ucan_key L cu encrypted_private_key)) (\<lambda>(signing_key, verifying_key).
     sbind (smap_err UcanError (generate_one_time_connection_token L signing_key verifying_key
              (domain @ '':user-connect:'' @ user_id))) (\<lambda>token.
     sret (token, b64_encode L verifying_key)))))"

definition issue_connect_and_share_user_token ::
  "crypto_lib \<Rightarrow> crypto_utils \<Rightarrow> string \<Rightarrow> string \<Rightarrow> string \<Rightarrow> ('a env_scheme, crypto_error, string) sm" where
  "issue_connect_and_share_user_token L cu encrypted_private_key domain audience_ucan_pub_key =
     sbind (slift (decrypt_ucan_key L cu encrypted_private_key)) (\<lambda>(signing_key, verifying_key).
     sbind (slift (get_public_key L cu)) (\<lambda>public_key.
     sbind (slift (get_key_id L public_key)) (\<lambda>user_id.
     smap_err UcanError (generate_delegation_and_connection_token L signing_key verifying_key user_id
       audience_ucan_pub_key domain thirty_years))))"

definition issue_delegated_user_connect_token ::
  "crypto_lib \<Rightarrow> crypto_utils \<Rightarrow> string \<Rightarrow> string \<Rightarrow> ident \<Rightarrow> string \<Rightarrow> string
     \<Rightarrow> ('a env_scheme, crypto_error, string) sm" where
  "issue_delegated_user_connect_token L cu encrypted_private_key domain target_user_id
       audience_ucan_pub_key parent_token =
     sbind (slift (decrypt_ucan_key L cu encrypted_private_key)) (\<lambda>(signing_key, verifying_key).
     smap_err UcanError (generate_delegated_user_connection_token L signing_key verifying_key
       target_user_id audience_ucan_pub_key domain parent_token))"

definition get_public_ucan_key :: "crypto_lib \<Rightarrow> crypto_utils \<Rightarrow> string \<Rightarrow> crypto_error + string" where
  "get_public_ucan_key L cu encrypted_ucan_private_key =
     rbind (decrypt_ucan_key L cu encrypted_ucan_private_key)
       (\<lambda>(signing_key, verifying_key). Inr (b64_encode L verifying_key))"

definition sign_clear_text_message ::
  "crypto_lib \<Rightarrow> crypto_utils \<Rightarrow> string \<Rightarrow> ('a env_scheme, crypto_error, string) sm" where
  "sign_clear_text_message L cu message =
     sbind (slift (with_cert cu (\<lambda>c.
       rmap_err (\<lambda>e. CryptoUtilsError (SigningKeyError (pgp_text L e))) (pgp_signing_keypair L c))))
       (\<lambda>keypair.
     sbind now_secs (\<lambda>now.
     lib_call PgpError (pgp_sign_cleartext L keypair message (Some (10 * 60)) now)))"

definition cu_generate_resource_owner_ucan ::
  "crypto_lib \<Rightarrow> crypto_utils \<Rightarrow> string \<Rightarrow> ident \<Rightarrow> string \<Rightarrow> ('a env_scheme, crypto_error, string \<times> string) sm" where
  "cu_generate_resource_owner_ucan L cu encrypted_ucan_private_key resource_id capability_prefix =
     sbind (slift (decrypt_ucan_key L cu encrypted_ucan_private_key)) (\<lambda>(signing_key, verifying_key).
     smap_err UcanError (generate_resource_owner_ucan L signing_key verifying_key resource_id
       capability_prefix))"

definition cu_generate_folder_owner_ucan ::
  "crypto_lib \<Rightarrow> crypto_utils \<Rightarrow> string \<Rightarrow> ident \<Rightarrow> string \<Rightarrow> ('a env_scheme, crypto_error, string \<times> string) sm" where
  "cu_generate_folder_owner_ucan L cu encrypted_ucan_private_key folder_id capability_prefix =
     sbind (slift (decrypt_ucan_key L cu encrypted_ucan_private_key)) (\<lambda>(signing_key, verifying_key).
     smap_err UcanError (generate_folder_owner_ucan L signing_key verifying_key folder_id
       capability_prefix))"

text \<open>
  The two delegations differ in the kind of the resource and the ability they validate; they check
  the proof before they decrypt the key that signs.
\<close>

definition issue_delegated ::
  "string \<Rightarrow> string \<Rightarrow> crypto_lib \<Rightarrow> crypto_utils \<Rightarrow> string \<Rightarrow> string \<Rightarrow> string \<Rightarrow> ident \<Rightarrow> string
     \<Rightarrow> (string \<times> string) list \<Rightarrow> (string \<Rightarrow> ('a env_scheme, ucan_error, string) sm)
     \<Rightarrow> ('a env_scheme, crypto_error, string \<times> string) sm" where
  "issue_delegated kind ability L cu encrypted_private_key proof_token verifier item_id recipient_pub
       permissions resolver =
     sbind (smap_err UcanError (validate_structure L proof_token)) (\<lambda>ucan_to_prove.
     sbind (smap_err UcanError (slift (extract_domain_from_ucan ucan_to_prove kind))) (\<lambda>domain.
     sbind (smap_err UcanError (validate_ucan_permission L (chain_fuel L) ucan_to_prove verifier resolver
              (domain @ '':'' @ kind @ '':'' @ item_id) ability)) (\<lambda>_.
     sbind (slift (decrypt_ucan_key L cu encrypted_private_key)) (\<lambda>(signing_key, verifying_key).
     smap_err UcanError (generate_delegated_ucan L signing_key verifying_key recipient_pub permissions
       proof_token)))))"

definition issue_delegated_folder_ucan where
  "issue_delegated_folder_ucan = issue_delegated ''folder'' ''share_folder''"

definition issue_delegated_resource_ucan where
  "issue_delegated_resource_ucan = issue_delegated ''resource'' ''ucan/share''"

end
