(* ===== verification/Crypto_Frame.thy ===== *)
theory Crypto_Frame
  imports Crypto_Utils Db_Integrity
begin

text \<open>
  What \<open>crypto_utils\<close> does to the state: it reads the clock and draws random bytes, and changes
  nothing else. So every property of the state that does not look at these two positions is kept;
  the integrity of the database is one.
\<close>

definition env_blind :: "('a env_scheme \<Rightarrow> bool) \<Rightarrow> bool" where
  "env_blind P \<longleftrightarrow> (\<forall>w n. P w \<longrightarrow> P (w\<lparr>time_n := n\<rparr>) \<and> P (w\<lparr>rand_n := n\<rparr>))"

named_theorems crypto_keeps \<open>properties kept by the operations of the crypto layer\<close>

lemma env_keeps [crypto_keeps]:
  assumes "env_blind P"
  shows "keeps P now_secs" "keeps P (fill_bytes n)" "keeps P draw_seed" "keeps P (lib_call V r)"
  using assms
  by (auto simp: keeps_def env_blind_def now_secs_def fill_bytes_def draw_seed_def)

declare keeps_control [crypto_keeps]

lemma keeps_data_encryption [crypto_keeps]:
  assumes "env_blind P"
  shows "keeps P (encrypt_with_aes L k t)" "keeps P (encrypt_string_with_public_key L t pk)"
    "keeps P (encrypt_data_for_user L t pk)" "keeps P (verify_clear_text_message L pk m)"
  unfolding encrypt_with_aes_def encrypt_string_with_public_key_def encrypt_data_for_user_def
    generate_aes_key_def verify_clear_text_message_def
  using assms by (intro crypto_keeps | assumption)+

lemma keeps_keys [crypto_keeps]:
  assumes "env_blind P"
  shows "keeps P (generate_keys L pw u)" "keeps P (generate_keys_without_password L u)"
    "keeps P (import_certificate L c pw)" "keeps P (generate_and_encrypt_ed25519_key L pk)"
  unfolding generate_keys_def generate_keys_without_password_def import_certificate_def
    generate_and_encrypt_ed25519_key_def Let_def
  using assms by (intro crypto_keeps | assumption)+

lemma keeps_token_reading [crypto_keeps]:
  assumes "env_blind P"
  shows "keeps P (validate_structure L t)"
  unfolding validate_structure_def using assms by (intro crypto_keeps | assumption)+

lemma keeps_embedded_chain [crypto_keeps]:
  "env_blind P \<Longrightarrow> keeps P (embedded_chain L n t target root d e)"
  by (induction n arbitrary: t e) (simp_all only: embedded_chain.simps, (intro crypto_keeps | simp)+)

lemma keeps_validate_connect_token [crypto_keeps]:
  assumes "env_blind P"
  shows "keeps P (validate_connect_token L t p v u d)"
  unfolding validate_connect_token_def validate_embedded_proof_chain_def Let_def
  using assms by (intro crypto_keeps | assumption)+

lemma keeps_try_proofs:
  assumes "env_blind P" "\<And>cid. keeps P (resolver cid)" "\<And>p. keeps P (recur p)"
  shows "keeps P (try_proofs L recur u resolver res ab cids)"
  by (induction cids) (simp_all only: try_proofs.simps, (intro crypto_keeps assms | assumption)+)

lemma keeps_validate_ucan_permission [crypto_keeps]:
  assumes "env_blind P" "\<And>cid. keeps P (resolver cid)"
  shows "keeps P (validate_ucan_permission L n u root resolver res ab)"
  by (induction n arbitrary: u)
    (simp_all only: validate_ucan_permission.simps, (intro crypto_keeps keeps_try_proofs assms | assumption)+)

lemma keeps_validate_authority [crypto_keeps]:
  assumes "env_blind P" "\<And>cid. keeps P (resolver cid)"
  shows "keeps P (validate_authority_for_update L t p r i d resolver)"
  unfolding validate_authority_for_update_def Let_def by (intro crypto_keeps assms)

lemma keeps_issuing [crypto_keeps]:
  assumes "env_blind P"
  shows "keeps P (build_and_sign L be se c)" "keeps P (cid_then_encode L u)"
    "keeps P (encode_then_cid L u)"
  unfolding build_and_sign_def cid_then_encode_def encode_then_cid_def
  using assms by (intro crypto_keeps | assumption)+

lemma keeps_generate_tokens [crypto_keeps]:
  assumes "env_blind P"
  shows "keeps P (generate_one_time_connection_token L sk vk c)"
    "keeps P (generate_delegation_and_connection_token L sk vk u pk d l)"
    "keeps P (generate_resource_owner_ucan L sk vk i d)"
    "keeps P (generate_folder_owner_ucan L sk vk i d)"
    "keeps P (generate_delegated_ucan L sk vk pk ps t)"
    "keeps P (generate_delegated_user_connection_token L sk vk u pk d t)"
  unfolding generate_one_time_connection_token_def generate_delegation_and_connection_token_def
    generate_resource_owner_ucan_def generate_folder_owner_ucan_def generate_delegated_ucan_def
    generate_delegated_user_connection_token_def Let_def
  using assms by (intro crypto_keeps | assumption)+

lemma keeps_crypto_utils [crypto_keeps]:
  assumes "env_blind P"
  shows "keeps P (cu_sign_message L cu m)" "keeps P (sign_and_hash_message L cu m)"
    "keeps P (add_resource L cu dat)" "keeps P (cu_update_resource L cu dat k)"
    "keeps P (encrypt_key_with_new_pub_key L cu k pk)" "keeps P (generate_and_encrypt_ucan_key L cu)"
    "keeps P (generate_one_time_user_connect_token L cu k d)"
    "keeps P (issue_connect_and_share_user_token L cu k d a)"
    "keeps P (issue_delegated_user_connect_token L cu k d u a t)"
    "keeps P (sign_clear_text_message L cu m)" "keeps P (cu_generate_resource_owner_ucan L cu k i d)"
    "keeps P (cu_generate_folder_owner_ucan L cu k i d)"
  unfolding cu_sign_message_def sign_and_hash_message_def add_resource_def cu_update_resource_def
    encrypt_key_with_new_pub_key_def generate_and_encrypt_ucan_key_def
    generate_one_time_user_connect_token_def issue_connect_and_share_user_token_def
    issue_delegated_user_connect_token_def sign_clear_text_message_def
    cu_generate_resource_owner_ucan_def cu_generate_folder_owner_ucan_def
  using assms by (intro crypto_keeps | assumption)+

lemma keeps_issue_delegated [crypto_keeps]:
  assumes "env_blind P" "\<And>cid. keeps P (resolver cid)"
  shows "keeps P (issue_delegated_resource_ucan L cu k t v i a ps resolver)"
    "keeps P (issue_delegated_folder_ucan L cu k t v i a ps resolver)"
  unfolding issue_delegated_resource_ucan_def issue_delegated_folder_ucan_def issue_delegated_def
  by (intro crypto_keeps assms)+

lemma env_blind_db_inv [simp]: "env_blind db_inv"
  by (auto simp: env_blind_def)

end
