(* ===== verification/Crdt_Resource.thy ===== *)
theory Crdt_Resource
  imports Text_Json Core_Models
begin

text \<open>
  \<open>DecryptedResource\<close> of \<open>core/src/models/resource.rs\<close>: a resource whose data is a JSON object
  that holds, under the state keys of its type, the encoded states of Yjs documents, and the
  exchange of state vectors and updates between two replicas of it. The documents of the \<open>yrs\<close>
  crate and the reading and printing of JSON are the parameter \<open>Y\<close>: \<open>y_new\<close> is \<open>Doc::new\<close>, and
  the other fields are the calls of \<open>core/src/models/document.rs\<close>.
\<close>

record json_lib =
  json_read :: "string \<Rightarrow> string + json"
  json_read_map :: "string \<Rightarrow> string + json_map"
  json_print :: "json \<Rightarrow> string"

record ('d, 'u, 'v) yrs = json_lib +
  y_new :: 'd
  y_decode_update :: "bytes \<Rightarrow> string + 'u"
  y_apply :: "'d \<Rightarrow> 'u \<Rightarrow> string + 'd"
  y_state_vector :: "'d \<Rightarrow> bytes"
  y_decode_sv :: "bytes \<Rightarrow> string + 'v"
  y_diff :: "'d \<Rightarrow> 'v \<Rightarrow> bytes"
  y_encode_state :: "'d \<Rightarrow> bytes"

section \<open>Documents\<close>

definition apply_update_v2 :: "('d, 'u, 'v, 'z) yrs_scheme \<Rightarrow> 'd \<Rightarrow> bytes \<Rightarrow> string + 'd" where
  "apply_update_v2 Y doc update =
     (if update = [] then Inr doc
      else rbind (rmap_err (\<lambda>e. ''Failed to decode v2 update: '' @ e) (y_decode_update Y update)) (\<lambda>u.
           rmap_err (\<lambda>e. ''Failed to apply update to document: '' @ e) (y_apply Y doc u)))"

definition get_diff_update_v2 :: "('d, 'u, 'v, 'z) yrs_scheme \<Rightarrow> 'd \<Rightarrow> bytes \<Rightarrow> string + bytes" where
  "get_diff_update_v2 Y doc state_vector =
     (if state_vector = [] then Inr (y_encode_state Y doc)
      else rbind (rmap_err (\<lambda>e. ''Failed to decode v2 state vector: '' @ e) (y_decode_sv Y state_vector))
             (\<lambda>sv. Inr (y_diff Y doc sv)))"

section \<open>JSON objects\<close>

text \<open>\<open>Map::insert\<close>: the entries of an object are kept in the order of their keys.\<close>

fun obj_insert :: "string \<Rightarrow> json \<Rightarrow> json_map \<Rightarrow> json_map" where
  "obj_insert k v [] = [(k, v)]"
| "obj_insert k v ((l, w) # m) =
     (if k < l then (k, v) # (l, w) # m
      else if k = l then (k, v) # m else (l, w) # obj_insert k v m)"

fun json_canonical :: "json \<Rightarrow> bool" where
  "json_canonical (JArray xs) \<longleftrightarrow> (\<forall>x \<in> set xs. json_canonical x)"
| "json_canonical (JObject m) \<longleftrightarrow>
     sorted_wrt (<) (map fst m) \<and> (\<forall>p \<in> set m. json_canonical (snd p))"
| "json_canonical _ \<longleftrightarrow> True"

lemma obj_insert_lookup [simp]: "map_of (obj_insert k v m) = (map_of m)(k \<mapsto> v)"
  by (induction k v m rule: obj_insert.induct) (auto simp: fun_upd_twist)

lemma obj_insert_keys: "fst ` set (obj_insert k v m) = insert k (fst ` set m)"
  by (induction k v m rule: obj_insert.induct) auto

lemma obj_insert_sorted: "sorted_wrt (<) (map fst m) \<Longrightarrow> sorted_wrt (<) (map fst (obj_insert k v m))"
proof (induction k v m rule: obj_insert.induct)
  case (2 k v l w m)
  have "x \<in> fst ` set (obj_insert k v m) \<Longrightarrow> x = k \<or> x \<in> fst ` set m" for x
    by (auto simp: obj_insert_keys)
  with 2 show ?case by fastforce
qed simp

lemma obj_insert_values: "set (obj_insert k v m) \<subseteq> insert (k, v) (set m)"
  by (induction k v m rule: obj_insert.induct) auto

lemma obj_insert_canonical:
  "json_canonical (JObject m) \<Longrightarrow> json_canonical v \<Longrightarrow> json_canonical (JObject (obj_insert k v m))"
  using obj_insert_values [of k v m] by (auto simp: obj_insert_sorted)

lemma json_bytes_canonical [simp]: "json_canonical (json_bytes bs)"
  by (auto simp: json_bytes_def)

section \<open>Decrypted resources\<close>

record decrypted_resource =
  dcr_id :: ident
  dcr_resource_type :: resource_type
  dcr_data :: json
  dcr_last_accessed :: millis
  dcr_favourite :: bool
  dcr_folder_id :: ident

definition supports_crdt :: "decrypted_resource \<Rightarrow> bool" where
  "supports_crdt dr = has_crdt (dcr_resource_type dr)"

definition get_document_state :: "string \<Rightarrow> decrypted_resource \<Rightarrow> bytes option" where
  "get_document_state state_key dr =
     map_option array_bytes (Option.bind (json_get state_key (dcr_data dr)) as_array)"

text \<open>\<open>doc_data.get(field)\<close> as bytes, empty when it is missing or no array.\<close>

definition bytes_field :: "string \<Rightarrow> json \<Rightarrow> bytes" where
  "bytes_field field doc_data =
     (case Option.bind (json_get field doc_data) as_array of Some xs \<Rightarrow> array_bytes xs | None \<Rightarrow> [])"

definition doc_entry :: "bytes \<Rightarrow> bytes \<Rightarrow> json" where
  "doc_entry updates state_vector =
     JObject (obj_insert ''state_vector'' (json_bytes state_vector)
       (obj_insert ''updates'' (json_bytes updates) []))"

lemma bytes_field_entry [simp]:
  "bytes_field ''updates'' (doc_entry u v) = u" "bytes_field ''state_vector'' (doc_entry u v) = v"
  by (simp_all add: bytes_field_def doc_entry_def json_bytes_def)

lemma doc_entry_canonical [simp]: "json_canonical (doc_entry u v)"
  by (simp add: doc_entry_def obj_insert_canonical)

primrec state_vector_entries ::
  "('d, 'u, 'v, 'z) yrs_scheme \<Rightarrow> decrypted_resource \<Rightarrow> json_map \<Rightarrow> string list \<Rightarrow> string + json_map" where
  "state_vector_entries Y dr result [] = Inr result"
| "state_vector_entries Y dr result (key # keys) =
     (case get_document_state key dr of
        Some state_data \<Rightarrow>
          rbind (apply_update_v2 Y (y_new Y) state_data) (\<lambda>doc.
          state_vector_entries Y dr (obj_insert key (doc_entry [] (y_state_vector Y doc)) result) keys)
      | None \<Rightarrow> state_vector_entries Y dr result keys)"

definition get_state_vectors :: "('d, 'u, 'v, 'z) yrs_scheme \<Rightarrow> decrypted_resource \<Rightarrow> string + string" where
  "get_state_vectors Y dr =
     rbind (state_vector_entries Y dr [] (document_state_keys (dcr_resource_type dr)))
       (\<lambda>result. Inr (json_print Y (JObject result)))"

text \<open>
  What \<open>sync_updates\<close> does with one document: the stored state is loaded, updates that came with
  the request are applied, and a state vector that came with it is answered with the difference
  and the own state vector. The new state is returned when there were updates.
\<close>

definition sync_doc ::
  "('d, 'u, 'v, 'z) yrs_scheme \<Rightarrow> bytes \<Rightarrow> bytes \<Rightarrow> bytes \<Rightarrow> string + (bytes \<times> bytes) option \<times> bytes option" where
  "sync_doc Y our_state input_updates input_state_vector =
     rbind (apply_update_v2 Y (y_new Y) our_state) (\<lambda>doc.
     rbind (if input_updates \<noteq> [] then apply_update_v2 Y doc input_updates else Inr doc) (\<lambda>doc.
     rbind (if input_state_vector \<noteq> []
            then rbind (get_diff_update_v2 Y doc input_state_vector)
                   (\<lambda>updates_for_peer. Inr (Some (updates_for_peer, y_state_vector Y doc)))
            else Inr None) (\<lambda>reply.
     Inr (reply, if input_updates \<noteq> [] then Some (y_encode_state Y doc) else None))))"

definition set_document_state :: "string \<Rightarrow> bytes \<Rightarrow> decrypted_resource \<Rightarrow> decrypted_resource" where
  "set_document_state key state dr =
     (case dcr_data dr of
        JObject m \<Rightarrow> dr\<lparr>dcr_data := JObject (obj_insert key (json_bytes state) m)\<rparr>
      | _ \<Rightarrow> dr)"

definition sync_key ::
  "('d, 'u, 'v, 'z) yrs_scheme \<Rightarrow> json_map \<Rightarrow> json_map \<Rightarrow> string
     \<Rightarrow> (decrypted_resource, string, json_map) sm" where
  "sync_key Y input_json result_updates state_key =
     sbind (sget (get_document_state state_key)) (\<lambda>our_state.
       case our_state of
         None \<Rightarrow> sret result_updates
       | Some our_state_data \<Rightarrow>
           (case map_of input_json state_key of
              None \<Rightarrow> sret result_updates
            | Some doc_data \<Rightarrow>
                sbind (slift (sync_doc Y our_state_data (bytes_field ''updates'' doc_data)
                         (bytes_field ''state_vector'' doc_data))) (\<lambda>(reply, new_state).
                sbind (case new_state of Some s \<Rightarrow> smodify (set_document_state state_key s)
                                       | None \<Rightarrow> sret ()) (\<lambda>_.
                sret (case reply of
                        Some (updates, sv) \<Rightarrow> obj_insert state_key (doc_entry updates sv) result_updates
                      | None \<Rightarrow> result_updates)))))"

primrec sync_keys ::
  "('d, 'u, 'v, 'z) yrs_scheme \<Rightarrow> json_map \<Rightarrow> json_map \<Rightarrow> string list
     \<Rightarrow> (decrypted_resource, string, json_map) sm" where
  "sync_keys Y input_json result_updates [] = sret result_updates"
| "sync_keys Y input_json result_updates (key # keys) =
     sbind (sync_key Y input_json result_updates key) (\<lambda>result. sync_keys Y input_json result keys)"

definition sync_updates ::
  "('d, 'u, 'v, 'z) yrs_scheme \<Rightarrow> string \<Rightarrow> (decrypted_resource, string, string) sm" where
  "sync_updates Y input_data =
     sbind (slift (rmap_err (\<lambda>e. ''Invalid input JSON: '' @ e) (json_read_map Y input_data))) (\<lambda>input_json.
     sbind (sget (\<lambda>dr. document_state_keys (dcr_resource_type dr))) (\<lambda>keys.
     sbind (sync_keys Y input_json [] keys) (\<lambda>result.
     sret (json_print Y (JObject result)))))"

end
