(* ===== verification/Replica_Merge.thy ===== *)
theory Replica_Merge
  imports Repo_Resources Service_Errors
begin

text \<open>
  The part of \<open>services/src/resource_service.rs\<close> with which two replicas exchange what they know
  of a resource: \<open>find_missing_resource_keys\<close>, \<open>merge_vector_clocks\<close>, \<open>merge_share_records\<close> and
  the operations that apply the peer's answer. The locale \<open>clock_store\<close> states what the exchange
  of clocks relies on; the SQLite repository is an interpretation of it.
\<close>

lemma keeps_crypto_call [stmt_keeps]: "keeps db_inv (crypto_call r)"
  by (simp add: keeps_def)

lemma keeps_repo_call [stmt_keeps]: "keeps db_inv m \<Longrightarrow> keeps db_inv (repo_call m)"
  unfolding repo_call_def by (rule keeps_smap_err)

section \<open>The functions of the service\<close>

definition find_missing_resource_keys ::
  "resource_key list \<Rightarrow> resource_key list \<Rightarrow> resource_key list \<times> resource_key list" where
  "find_missing_resource_keys loc rem =
     (let missing_in_remote = filter (\<lambda>k1. \<not> list_ex (\<lambda>k2. key_id k2 = key_id k1) rem) loc;
          missing_in_local = filter (\<lambda>k2. \<not> list_ex (\<lambda>k1. key_id k1 = key_id k2) loc) rem
      in (missing_in_local, missing_in_remote))"

definition get_resource_keys_for_resource :: "ident \<Rightarrow> resource_key list service" where
  "get_resource_keys_for_resource resource_id = repo_call (key_find_by_resource_id resource_id)"

definition merge_vector_clocks ::
  "ident \<Rightarrow> resource_vector_clock list
     \<Rightarrow> (resource_vector_clock list \<times> resource_vector_clock list) service" where
  "merge_vector_clocks resource_id vector_clocks =
     sbind (repo_call (get_vector_clocks_for_resource resource_id)) (\<lambda>local_vector_clocks.
       (let merge_result = vc_merge local_vector_clocks vector_clocks in
        sbind (if mr_local_needs_update merge_result
               then repo_call (update_vector_clocks (mr_update_local merge_result)
                                 (mr_add_local merge_result))
               else sret ())
          (\<lambda>_. sret (mr_add_remote merge_result, mr_update_remote merge_result))))"

definition merge_share_records :: "ident \<Rightarrow> share_record list \<Rightarrow> share_record list service" where
  "merge_share_records resource_id remote_share_records =
     sbind (repo_call (share_find_by_resource resource_id)) (\<lambda>local_share_records.
       (let local_set = set (map shr_id local_share_records);
            remote_set = set (map shr_id remote_share_records);
            remote_only_records = filter (\<lambda>r. shr_id r \<notin> local_set) remote_share_records
        in sbind (repo_call (share_save_many remote_only_records)) (\<lambda>_.
             sret (filter (\<lambda>r. shr_id r \<notin> remote_set) local_share_records))))"

definition service_update_vector_clocks ::
  "resource_vector_clock list \<Rightarrow> resource_vector_clock list \<Rightarrow> unit service" where
  "service_update_vector_clocks add_clock update_clock =
     repo_call (update_vector_clocks update_clock add_clock)"

definition add_share_records :: "share_record list \<Rightarrow> unit service" where
  "add_share_records share_records = repo_call (share_save_many share_records)"

lemma keeps_replica_merge [stmt_keeps]:
  "keeps db_inv (get_resource_keys_for_resource i)" "keeps db_inv (merge_vector_clocks i cs)"
  "keeps db_inv (merge_share_records i ss)" "keeps db_inv (service_update_vector_clocks as us)"
  "keeps db_inv (add_share_records ss)"
  unfolding get_resource_keys_for_resource_def merge_vector_clocks_def merge_share_records_def
    service_update_vector_clocks_def add_share_records_def Let_def
  by (auto intro!: stmt_keeps)

section \<open>What the exchange of clocks relies on\<close>

locale clock_store =
  fixes inv :: "'s \<Rightarrow> bool"
    and entries :: "'s \<Rightarrow> ident \<Rightarrow> resource_vector_clock list"
    and storable :: "u64 \<Rightarrow> bool"
    and upd_store ::
      "resource_vector_clock list \<Rightarrow> resource_vector_clock list \<Rightarrow> ('s, 'e, unit) sm"
  assumes entries_distinct: "inv s \<Longrightarrow> distinct_devices (entries s rid)"
    and entries_resource: "c \<in> set (entries s rid) \<Longrightarrow> vc_resource_id c = rid"
    and upd_store_view:
      "inv s \<Longrightarrow> upd_store us as s = (Inr x, s') \<Longrightarrow> distinct_devices us \<Longrightarrow>
         \<forall>c \<in> set us \<union> set as. vc_resource_id c = rid \<and> storable (vc_clock_value c) \<Longrightarrow>
         \<forall>c \<in> set us. clock_map (entries s rid) (vc_device_id c) \<noteq> None \<Longrightarrow>
         clock_map (entries s' rid) = view_update (clock_map (entries s rid)) us as"
    and upd_store_other:
      "inv s \<Longrightarrow> upd_store us as s = (Inr x, s') \<Longrightarrow> distinct_devices us \<Longrightarrow>
         \<forall>c \<in> set us \<union> set as. vc_resource_id c = rid \<and> storable (vc_clock_value c) \<Longrightarrow>
         \<forall>c \<in> set us. clock_map (entries s rid) (vc_device_id c) \<noteq> None \<Longrightarrow>
         rid' \<noteq> rid \<Longrightarrow> clock_map (entries s' rid') = clock_map (entries s rid')"
begin

definition sendable :: "ident \<Rightarrow> resource_vector_clock list \<Rightarrow> bool" where
  "sendable rid cs \<longleftrightarrow> distinct_devices cs \<and>
     (\<forall>c \<in> set cs. vc_resource_id c = rid \<and> storable (vc_clock_value c))"

lemma apply_local:
  assumes "inv s" "sendable rid R"
    and "upd_store (mr_update_local (vc_merge (entries s rid) R))
      (mr_add_local (vc_merge (entries s rid) R)) s = (Inr x, s')"
  shows "clock_map (entries s' rid) = vjoin (clock_map (entries s rid)) (clock_map R)"
    and "rid' \<noteq> rid \<Longrightarrow> clock_map (entries s' rid') = clock_map (entries s rid')"
proof -
  let ?m = "vc_merge (entries s rid) R"
  have R: "distinct_devices R" "\<forall>c \<in> set R. vc_resource_id c = rid \<and> storable (vc_clock_value c)"
    using assms(2) by (simp_all add: sendable_def)
  have d: "distinct_devices (mr_update_local ?m)"
    using R(1) by (simp add: vc_merge_eq distinct_devices_filter)
  have r: "\<forall>c \<in> set (mr_update_local ?m) \<union> set (mr_add_local ?m).
      vc_resource_id c = rid \<and> storable (vc_clock_value c)"
    using R(2) by (auto simp: vc_merge_eq)
  have u: "\<forall>c \<in> set (mr_update_local ?m). clock_map (entries s rid) (vc_device_id c) \<noteq> None"
    by (auto simp: vc_merge_eq newer_remote_iff)
  show "clock_map (entries s' rid) = vjoin (clock_map (entries s rid)) (clock_map R)"
    using upd_store_view [OF assms(1,3) d r u] merge_local_join [OF entries_distinct [OF assms(1)] R(1)]
    by simp
  show "rid' \<noteq> rid \<Longrightarrow> clock_map (entries s' rid') = clock_map (entries s rid')"
    by (rule upd_store_other [OF assms(1,3) d r u])
qed

text \<open>The peer that sent its clocks applies the other half of the result.\<close>

lemma apply_remote:
  assumes "inv s" "sendable rid L"
    and "upd_store (mr_update_remote (vc_merge L (entries s rid)))
      (mr_add_remote (vc_merge L (entries s rid))) s = (Inr x, s')"
  shows "clock_map (entries s' rid) = vjoin (clock_map L) (clock_map (entries s rid))"
    and "rid' \<noteq> rid \<Longrightarrow> clock_map (entries s' rid') = clock_map (entries s rid')"
proof -
  let ?m = "vc_merge L (entries s rid)"
  have L: "distinct_devices L" "\<forall>c \<in> set L. vc_resource_id c = rid \<and> storable (vc_clock_value c)"
    using assms(2) by (simp_all add: sendable_def)
  note dist = entries_distinct [OF assms(1), of rid]
  have d: "distinct_devices (mr_update_remote ?m)"
    using map_filter_newer_local_devices [OF dist] by (simp add: vc_merge_eq)
  have mem: "c \<in> set L \<and> (\<exists>e \<in> set (entries s rid). vc_device_id c = vc_device_id e)"
    if c: "c \<in> set (mr_update_remote ?m)" for c
  proof -
    from c obtain e where e: "e \<in> set (entries s rid)" "newer_local L e = Some c"
      by (auto simp: vc_merge_eq map_filter_def)
    with newer_local_SomeD(1,2) [OF e(2)] show ?thesis by blast
  qed
  have r: "\<forall>c \<in> set (mr_update_remote ?m) \<union> set (mr_add_remote ?m).
      vc_resource_id c = rid \<and> storable (vc_clock_value c)"
  proof -
    have "set (mr_add_remote ?m) \<subseteq> set L" by (auto simp: vc_merge_eq)
    with L(2) mem show ?thesis by blast
  qed
  have u: "\<forall>c \<in> set (mr_update_remote ?m). clock_map (entries s rid) (vc_device_id c) \<noteq> None"
  proof
    fix c assume "c \<in> set (mr_update_remote ?m)"
    with mem obtain e where "e \<in> set (entries s rid)" "vc_device_id e = vc_device_id c" by metis
    then show "clock_map (entries s rid) (vc_device_id c) \<noteq> None"
      by (auto simp: clock_map_None_iff)
  qed
  show "clock_map (entries s' rid) = vjoin (clock_map L) (clock_map (entries s rid))"
    using upd_store_view [OF assms(1,3) d r u] merge_remote_join [OF L(1) dist] by simp
  show "rid' \<noteq> rid \<Longrightarrow> clock_map (entries s' rid') = clock_map (entries s rid')"
    by (rule upd_store_other [OF assms(1,3) d r u])
qed

end

interpretation sqlite_clocks: clock_store db_inv stored_clocks clock_fits update_vector_clocks
proof (unfold_locales, goal_cases)
  case (1 s rid)
  then show ?case by (rule distinct_stored_clocks)
next
  case (2 c s rid)
  then show ?case by (auto simp: stored_clocks_def clock_load_def)
next
  case (3 s us as x s' rid)
  then have "clock_change s rid us as"
    by (auto simp: clock_change_def fitting_def stored_view_def)
  with 3 show ?case using update_vector_clocks_view(1) by (simp add: stored_view_def)
next
  case (4 s us as x s' rid rid')
  then have "clock_change s rid us as"
    by (auto simp: clock_change_def fitting_def stored_view_def)
  with 4 show ?case using update_vector_clocks_view(2) by (simp add: stored_view_def)
qed

section \<open>The exchange of clocks\<close>

lemma merge_vector_clocks_steps:
  assumes "merge_vector_clocks rid R w = (Inr (add, upd), w')" and inv: "db_inv w"
  shows "add = mr_add_remote (vc_merge (stored_clocks w rid) R)"
    and "upd = mr_update_remote (vc_merge (stored_clocks w rid) R)"
    and "if mr_local_needs_update (vc_merge (stored_clocks w rid) R)
      then update_vector_clocks (mr_update_local (vc_merge (stored_clocks w rid) R))
             (mr_add_local (vc_merge (stored_clocks w rid) R)) (w\<lparr>pool_n := Suc (pool_n w)\<rparr>) = (Inr (), w')
      else w' = w\<lparr>pool_n := Suc (pool_n w)\<rparr>"
  using assms(1)
  by (auto simp: merge_vector_clocks_def sbind_eq_Inr Let_def
      dest!: get_vector_clocks_for_resource_ok split: if_splits)

lemma merge_vector_clocks_view:
  assumes inv: "db_inv w" and run: "merge_vector_clocks rid R w = (Inr (add, upd), w')"
    and R: "sqlite_clocks.sendable rid R"
  shows "stored_view w' rid = vjoin (stored_view w rid) (clock_map R)"
    and "rid' \<noteq> rid \<Longrightarrow> stored_view w' rid' = stored_view w rid'"
proof -
  let ?m = "vc_merge (stored_clocks w rid) R" and ?w = "w\<lparr>pool_n := Suc (pool_n w)\<rparr>"
  note steps = merge_vector_clocks_steps(3) [OF run inv]
  have "clock_map (stored_clocks w' rid) = vjoin (clock_map (stored_clocks w rid)) (clock_map R) \<and>
      (rid' \<noteq> rid \<longrightarrow> clock_map (stored_clocks w' rid') = clock_map (stored_clocks w rid'))"
  proof (cases "mr_local_needs_update ?m")
    case True
    with steps have ok: "update_vector_clocks (mr_update_local (vc_merge (stored_clocks ?w rid) R))
        (mr_add_local (vc_merge (stored_clocks ?w rid) R)) ?w = (Inr (), w')"
      by simp
    have "db_inv ?w" using inv by simp
    from sqlite_clocks.apply_local [OF this R ok] show ?thesis by simp
  next
    case False
    moreover have "distinct_devices R"
      using R by (simp add: sqlite_clocks.sendable_def)
    ultimately show ?thesis using steps merge_local_flag [of R "stored_clocks w rid"] by simp
  qed
  then show "stored_view w' rid = vjoin (stored_view w rid) (clock_map R)"
    and "rid' \<noteq> rid \<Longrightarrow> stored_view w' rid' = stored_view w rid'"
    by (simp_all add: stored_view_def)
qed

lemma stored_clocks_sendable:
  assumes "db_inv w" "fitting (stored_clocks w rid)"
  shows "sqlite_clocks.sendable rid (stored_clocks w rid)"
  using assms sqlite_clocks.entries_resource distinct_stored_clocks
  by (auto simp: sqlite_clocks.sendable_def fitting_def)

text \<open>
  C8. Convergence of the clock exchange (\<open>FinalUpdateMerge\<close> and \<open>VectorClockResponse\<close>): when a
  replica sends its clocks of a resource, the peer merges them into its database and the
  replica applies the answer, both databases hold the pointwise maximum of the two sets of clocks
  for that resource, and the clocks of every other resource are untouched on both sides.
\<close>

theorem clock_exchange_converges:
  assumes inv: "db_inv wa" "db_inv wb"
    and fit: "fitting (stored_clocks wa rid)" "fitting (stored_clocks wb rid)"
    and respond: "merge_vector_clocks rid (stored_clocks wa rid) wb = (Inr (add, upd), wb')"
    and answer: "service_update_vector_clocks add upd wa = (Inr (), wa')"
  shows "stored_view wa' rid = vjoin (stored_view wa rid) (stored_view wb rid) \<and>
    stored_view wb' rid = vjoin (stored_view wa rid) (stored_view wb rid) \<and>
    (\<forall>r. r \<noteq> rid \<longrightarrow> stored_view wa' r = stored_view wa r \<and> stored_view wb' r = stored_view wb r)"
proof -
  note A = stored_clocks_sendable [OF inv(1) fit(1)] and B = stored_clocks_sendable [OF inv(2) fit(2)]
  have b: "stored_view wb' rid = vjoin (stored_view wb rid) (stored_view wa rid)"
    "r \<noteq> rid \<Longrightarrow> stored_view wb' r = stored_view wb r" for r
    using merge_vector_clocks_view [OF inv(2) respond A] by (simp_all add: stored_view_def)
  have ok: "update_vector_clocks (mr_update_remote (vc_merge (stored_clocks wb rid) (stored_clocks wa rid)))
      (mr_add_remote (vc_merge (stored_clocks wb rid) (stored_clocks wa rid))) wa = (Inr (), wa')"
    using answer merge_vector_clocks_steps(1,2) [OF respond inv(2)]
    by (simp add: service_update_vector_clocks_def)
  have a: "stored_view wa' rid = vjoin (stored_view wb rid) (stored_view wa rid)"
    "r \<noteq> rid \<Longrightarrow> stored_view wa' r = stored_view wa r" for r
    using sqlite_clocks.apply_remote [OF inv(1) B ok] by (simp_all add: stored_view_def)
  from a b show ?thesis by (simp add: vjoin_commute)
qed

section \<open>The exchange of share records and keys\<close>

definition stored_shares :: "world \<Rightarrow> ident \<Rightarrow> share_record set" where
  "stored_shares w rid = share_record_load ` {r \<in> set (t_shares w). sr_resource_id r = rid}"

definition stored_keys :: "world \<Rightarrow> ident \<Rightarrow> resource_key set" where
  "stored_keys w rid = resource_key_load ` {r \<in> set (t_keys w). kr_resource_id r = rid}"

text \<open>
  Rows of two replicas with the same id are the same row: ids are drawn once, by the replica that
  creates the row, and only copied afterwards.
\<close>

definition shares_agree :: "world \<Rightarrow> world \<Rightarrow> bool" where
  "shares_agree v w \<longleftrightarrow> (\<forall>a \<in> set (t_shares v). \<forall>b \<in> set (t_shares w).
     sr_id a = sr_id b \<longrightarrow> share_record_load a = share_record_load b)"

definition keys_agree :: "world \<Rightarrow> world \<Rightarrow> bool" where
  "keys_agree v w \<longleftrightarrow> (\<forall>a \<in> set (t_keys v). \<forall>b \<in> set (t_keys w).
     kr_id a = kr_id b \<longrightarrow> resource_key_load a = resource_key_load b)"

lemma share_save_many_rows:
  assumes "share_save_many ss w = (Inr (), w')"
  shows "set (t_shares w) \<subseteq> set (t_shares w') \<and>
    set (t_shares w') \<subseteq> set (t_shares w) \<union> share_record_to_row ` set ss \<and>
    (\<forall>s \<in> set ss. shr_id s \<in> sr_id ` set (t_shares w'))"
proof (cases "ss = []")
  case True
  with assms show ?thesis by (simp add: share_save_many_def)
next
  case False
  have lens: "t_shares (put_shares t v) = t" "put_shares t' (put_shares t v) = put_shares t' v"
    "put_shares (t_shares v) v = v" for t t' v
    by (simp_all add: put_shares_def)
  from assms False have "sfor ins_share_ignore (map share_record_to_row ss)
      (w\<lparr>pool_n := Suc (pool_n w)\<rparr>) = (Inr (), w')"
    by (auto simp: share_save_many_def with_conn_def get_conn_def sbind_def transaction_def
        split: if_splits prod.splits sum.splits)
  then obtain t where "w' = put_shares t (w\<lparr>pool_n := Suc (pool_n w)\<rparr>)" "set (t_shares w) \<subseteq> set t"
      "set t \<subseteq> set (t_shares w) \<union> share_record_to_row ` set ss"
      "\<forall>r \<in> share_record_to_row ` set ss. sr_id r \<in> sr_id ` set t"
    using sfor_insert_ignore [where refs = shares_refs and get = t_shares and put = put_shares and rows = "map share_record_to_row ss"
        and w = "w\<lparr>pool_n := Suc (pool_n w)\<rparr>" and w' = w', OF shares_tbl.sql_table_axioms lens]
    by (auto simp: ins_share_ignore_def [abs_def])
  then show ?thesis by (auto simp: share_record_to_row_def put_shares_def)
qed

lemma add_resource_keys_rows:
  assumes "add_resource_keys ks w = (Inr (), w')"
  shows "set (t_keys w) \<subseteq> set (t_keys w') \<and>
    set (t_keys w') \<subseteq> set (t_keys w) \<union> resource_key_to_row ` set ks \<and>
    (\<forall>k \<in> set ks. key_id k \<in> kr_id ` set (t_keys w'))"
proof (cases "ks = []")
  case True
  with assms show ?thesis by (simp add: add_resource_keys_def)
next
  case False
  have lens: "t_keys (put_keys t v) = t" "put_keys t' (put_keys t v) = put_keys t' v"
    "put_keys (t_keys v) v = v" for t t' v
    by (simp_all add: put_keys_def)
  from assms False have "sfor ins_key_ignore (map resource_key_to_row ks)
      (w\<lparr>pool_n := Suc (pool_n w)\<rparr>) = (Inr (), w')"
    by (auto simp: add_resource_keys_def with_conn_def get_conn_def sbind_def transaction_def
        split: if_splits prod.splits sum.splits)
  then obtain t where "w' = put_keys t (w\<lparr>pool_n := Suc (pool_n w)\<rparr>)" "set (t_keys w) \<subseteq> set t"
      "set t \<subseteq> set (t_keys w) \<union> resource_key_to_row ` set ks"
      "\<forall>r \<in> resource_key_to_row ` set ks. kr_id r \<in> kr_id ` set t"
    using sfor_insert_ignore [where refs = keys_refs and get = t_keys and put = put_keys and rows = "map resource_key_to_row ks"
        and w = "w\<lparr>pool_n := Suc (pool_n w)\<rparr>" and w' = w', OF keys_tbl.sql_table_axioms lens]
    by (auto simp: ins_key_ignore_def [abs_def])
  then show ?thesis by (auto simp: resource_key_to_row_def put_keys_def)
qed

lemma share_save_many_adds:
  assumes ok: "share_save_many ss w = (Inr (), w')"
    and new: "\<forall>s \<in> set ss. shr_resource_id s = rid"
    and agree: "\<forall>s \<in> set ss. \<forall>x \<in> set (t_shares w). sr_id x = shr_id s \<longrightarrow> share_record_load x = s"
    and ids: "\<forall>s \<in> set ss. \<forall>s' \<in> set ss. shr_id s = shr_id s' \<longrightarrow> s = s'"
  shows "stored_shares w' rid = stored_shares w rid \<union> set ss"
proof -
  note rows = share_save_many_rows [OF ok]
  have res: "sr_resource_id x = shr_resource_id (share_record_load x)" "sr_id x = shr_id (share_record_load x)" for x
    by (simp_all add: share_record_load_def)
  show ?thesis
  proof (intro equalityI subsetI)
    fix s assume "s \<in> stored_shares w' rid"
    then obtain x where "x \<in> set (t_shares w')" "sr_resource_id x = rid" "s = share_record_load x"
      by (auto simp: stored_shares_def)
    with rows show "s \<in> stored_shares w rid \<union> set ss"
      by (auto simp: stored_shares_def)
  next
    fix s assume s: "s \<in> stored_shares w rid \<union> set ss"
    show "s \<in> stored_shares w' rid"
    proof (cases "s \<in> stored_shares w rid")
      case True
      with rows show ?thesis by (auto simp: stored_shares_def)
    next
      case False
      with s have mem: "s \<in> set ss" by simp
      with rows obtain x where x: "x \<in> set (t_shares w')" "sr_id x = shr_id s" by force
      have "share_record_load x = s"
      proof (cases "x \<in> set (t_shares w)")
        case True
        with agree mem x show ?thesis by simp
      next
        case False
        with rows x obtain s' where s': "s' \<in> set ss" "x = share_record_to_row s'" by blast
        with x(2) res(2) [of x] ids mem show ?thesis by simp
      qed
      with x(1) res(1) [of x] new mem show ?thesis by (force simp: stored_shares_def)
    qed
  qed
qed

lemma add_resource_keys_adds:
  assumes ok: "add_resource_keys ss w = (Inr (), w')"
    and new: "\<forall>s \<in> set ss. key_resource_id s = rid"
    and agree: "\<forall>s \<in> set ss. \<forall>x \<in> set (t_keys w). kr_id x = key_id s \<longrightarrow> resource_key_load x = s"
    and ids: "\<forall>s \<in> set ss. \<forall>s' \<in> set ss. key_id s = key_id s' \<longrightarrow> s = s'"
  shows "stored_keys w' rid = stored_keys w rid \<union> set ss"
proof -
  note rows = add_resource_keys_rows [OF ok]
  have res: "kr_resource_id x = key_resource_id (resource_key_load x)" "kr_id x = key_id (resource_key_load x)" for x
    by (simp_all add: resource_key_load_def)
  show ?thesis
  proof (intro equalityI subsetI)
    fix s assume "s \<in> stored_keys w' rid"
    then obtain x where "x \<in> set (t_keys w')" "kr_resource_id x = rid" "s = resource_key_load x"
      by (auto simp: stored_keys_def)
    with rows show "s \<in> stored_keys w rid \<union> set ss"
      by (auto simp: stored_keys_def)
  next
    fix s assume s: "s \<in> stored_keys w rid \<union> set ss"
    show "s \<in> stored_keys w' rid"
    proof (cases "s \<in> stored_keys w rid")
      case True
      with rows show ?thesis by (auto simp: stored_keys_def)
    next
      case False
      with s have mem: "s \<in> set ss" by simp
      with rows obtain x where x: "x \<in> set (t_keys w')" "kr_id x = key_id s" by force
      have "resource_key_load x = s"
      proof (cases "x \<in> set (t_keys w)")
        case True
        with agree mem x show ?thesis by simp
      next
        case False
        with rows x obtain s' where s': "s' \<in> set ss" "x = resource_key_to_row s'" by blast
        with x(2) res(2) [of x] ids mem show ?thesis by simp
      qed
      with x(1) res(1) [of x] new mem show ?thesis by (force simp: stored_keys_def)
    qed
  qed
qed

lemma stored_shares_unique:
  assumes "db_inv w" "s \<in> stored_shares w rid" "s' \<in> stored_shares w rid" "shr_id s = shr_id s'"
  shows "s = s'"
proof -
  from assms(2,3) obtain a b where ab: "a \<in> set (t_shares w)" "b \<in> set (t_shares w)"
      "s = share_record_load a" "s' = share_record_load b"
    by (auto simp: stored_shares_def)
  with assms(4) have "shares_clash a b" by (simp add: shares_clash_def share_record_load_def)
  with ab shares_tbl.clash_free_eq [OF db_inv_clash_free(7) [OF assms(1)]] show ?thesis by blast
qed

lemma stored_keys_unique:
  assumes "db_inv w" "k \<in> stored_keys w rid" "k' \<in> stored_keys w rid" "key_id k = key_id k'"
  shows "k = k'"
proof -
  from assms(2,3) obtain a b where ab: "a \<in> set (t_keys w)" "b \<in> set (t_keys w)"
      "k = resource_key_load a" "k' = resource_key_load b"
    by (auto simp: stored_keys_def)
  with assms(4) have "keys_clash a b" by (simp add: keys_clash_def resource_key_load_def)
  with ab keys_tbl.clash_free_eq [OF db_inv_clash_free(6) [OF assms(1)]] show ?thesis by blast
qed

lemma share_find_by_resource_ok:
  "share_find_by_resource rid w = (Inr ss, w') \<Longrightarrow>
     set ss = stored_shares w rid \<and> w' = w\<lparr>pool_n := Suc (pool_n w)\<rparr>"
  by (auto simp: share_find_by_resource_def with_conn_def get_conn_def sbind_def load_rows_def
      stored_shares_def split: if_splits)

lemma key_find_by_resource_id_ok:
  "key_find_by_resource_id rid w = (Inr ks, w') \<Longrightarrow>
     set ks = stored_keys w rid \<and> w' = w\<lparr>pool_n := Suc (pool_n w)\<rparr>"
  by (auto simp: key_find_by_resource_id_def with_conn_def get_conn_def sbind_def load_rows_def
      stored_keys_def split: if_splits)

lemma stored_sharing_frame [simp]:
  "stored_shares (w\<lparr>pool_n := n\<rparr>) = stored_shares w" "stored_keys (w\<lparr>pool_n := n\<rparr>) = stored_keys w"
  by (simp_all add: fun_eq_iff stored_shares_def stored_keys_def)

lemma shares_agreeD:
  "shares_agree v w \<Longrightarrow> s \<in> stored_shares v rid \<Longrightarrow> x \<in> set (t_shares w) \<Longrightarrow> sr_id x = shr_id s \<Longrightarrow>
     share_record_load x = s"
  by (force simp: shares_agree_def stored_shares_def share_record_load_def)

lemma keys_agreeD:
  "keys_agree v w \<Longrightarrow> k \<in> stored_keys v rid \<Longrightarrow> x \<in> set (t_keys w) \<Longrightarrow> kr_id x = key_id k \<Longrightarrow>
     resource_key_load x = k"
  by (force simp: keys_agree_def stored_keys_def resource_key_load_def)

lemma agree_commute: "shares_agree v w \<Longrightarrow> shares_agree w v" "keys_agree v w \<Longrightarrow> keys_agree w v"
  by (auto simp: shares_agree_def keys_agree_def)

lemma stored_shares_resource: "s \<in> stored_shares w rid \<Longrightarrow> shr_resource_id s = rid"
  by (auto simp: stored_shares_def share_record_load_def)

lemma stored_keys_resource: "k \<in> stored_keys w rid \<Longrightarrow> key_resource_id k = rid"
  by (auto simp: stored_keys_def resource_key_load_def)

text \<open>A replica that saves the records of a peer whose ids it lacks holds both sets.\<close>

lemma save_missing_shares:
  assumes inv: "db_inv v" and agree: "shares_agree v w"
    and ss: "set ss = {s \<in> stored_shares v rid. shr_id s \<notin> shr_id ` stored_shares w rid}"
    and ok: "share_save_many ss w = (Inr (), w')"
  shows "stored_shares w' rid = stored_shares w rid \<union> stored_shares v rid"
proof -
  have "stored_shares w' rid = stored_shares w rid \<union> set ss"
  proof (rule share_save_many_adds [OF ok])
    have sub: "s \<in> stored_shares v rid" if "s \<in> set ss" for s using that ss by simp
    show "\<forall>s \<in> set ss. shr_resource_id s = rid" using sub stored_shares_resource by blast
    show "\<forall>s \<in> set ss. \<forall>x \<in> set (t_shares w). sr_id x = shr_id s \<longrightarrow> share_record_load x = s"
      using sub shares_agreeD [OF agree] by blast
    show "\<forall>s \<in> set ss. \<forall>s' \<in> set ss. shr_id s = shr_id s' \<longrightarrow> s = s'"
      using sub stored_shares_unique [OF inv] by blast
  qed
  moreover have "s \<in> stored_shares w rid"
    if "s \<in> stored_shares v rid" "shr_id s \<in> shr_id ` stored_shares w rid" for s
  proof -
    from that(2) obtain x where x: "x \<in> set (t_shares w)" "sr_resource_id x = rid"
        "shr_id s = shr_id (share_record_load x)"
      by (auto simp: stored_shares_def)
    then have "share_record_load x = s"
      using shares_agreeD [OF agree that(1) x(1)] by (simp add: share_record_load_def)
    with x show ?thesis by (auto simp: stored_shares_def)
  qed
  ultimately show ?thesis using ss by blast
qed

lemma save_missing_keys:
  assumes inv: "db_inv v" and agree: "keys_agree v w"
    and ks: "set ks = {k \<in> stored_keys v rid. key_id k \<notin> key_id ` stored_keys w rid}"
    and ok: "add_resource_keys ks w = (Inr (), w')"
  shows "stored_keys w' rid = stored_keys w rid \<union> stored_keys v rid"
proof -
  have "stored_keys w' rid = stored_keys w rid \<union> set ks"
  proof (rule add_resource_keys_adds [OF ok])
    have sub: "k \<in> stored_keys v rid" if "k \<in> set ks" for k using that ks by simp
    show "\<forall>k \<in> set ks. key_resource_id k = rid" using sub stored_keys_resource by blast
    show "\<forall>k \<in> set ks. \<forall>x \<in> set (t_keys w). kr_id x = key_id k \<longrightarrow> resource_key_load x = k"
      using sub keys_agreeD [OF agree] by blast
    show "\<forall>k \<in> set ks. \<forall>k' \<in> set ks. key_id k = key_id k' \<longrightarrow> k = k'"
      using sub stored_keys_unique [OF inv] by blast
  qed
  moreover have "k \<in> stored_keys w rid"
    if "k \<in> stored_keys v rid" "key_id k \<in> key_id ` stored_keys w rid" for k
  proof -
    from that(2) obtain x where x: "x \<in> set (t_keys w)" "kr_resource_id x = rid"
        "key_id k = key_id (resource_key_load x)"
      by (auto simp: stored_keys_def)
    then have "resource_key_load x = k"
      using keys_agreeD [OF agree that(1) x(1)] by (simp add: resource_key_load_def)
    with x show ?thesis by (auto simp: stored_keys_def)
  qed
  ultimately show ?thesis using ks by blast
qed

lemma merge_share_records_steps:
  assumes "merge_share_records rid remote w = (Inr answer, w')"
  obtains loc where "set loc = stored_shares w rid"
    "share_save_many (filter (\<lambda>r. shr_id r \<notin> shr_id ` set loc) remote)
       (w\<lparr>pool_n := Suc (pool_n w)\<rparr>) = (Inr (), w')"
    "answer = filter (\<lambda>r. shr_id r \<notin> shr_id ` set remote) loc"
proof -
  obtain loc w1 where find: "share_find_by_resource rid w = (Inr loc, w1)"
    and rest: "share_save_many (filter (\<lambda>r. shr_id r \<notin> shr_id ` set loc) remote) w1 = (Inr (), w')"
    "answer = filter (\<lambda>r. shr_id r \<notin> shr_id ` set remote) loc"
    using assms unfolding merge_share_records_def Let_def sbind_eq_Inr by auto
  from share_find_by_resource_ok [OF find] rest show thesis by (intro that [of loc]) simp_all
qed

text \<open>
  C13. Convergence of the exchange of share records: when the peer merges the records of a resource
  that a replica sent, saving the ones it lacks, and the replica saves the answer, both hold
  the union of their share records of the resource.
\<close>

theorem share_exchange_converges:
  assumes inv: "db_inv wa" "db_inv wb" and agree: "shares_agree wa wb"
    and sent: "set remote = stored_shares wa rid"
    and respond: "merge_share_records rid remote wb = (Inr answer, wb')"
    and answer: "add_share_records answer wa = (Inr (), wa')"
  shows "stored_shares wb' rid = stored_shares wb rid \<union> stored_shares wa rid \<and>
    stored_shares wa' rid = stored_shares wa rid \<union> stored_shares wb rid"
proof -
  let ?wb = "wb\<lparr>pool_n := Suc (pool_n wb)\<rparr>"
  from respond obtain loc where loc: "set loc = stored_shares wb rid"
    and save: "share_save_many (filter (\<lambda>r. shr_id r \<notin> shr_id ` set loc) remote) ?wb = (Inr (), wb')"
    and ans: "answer = filter (\<lambda>r. shr_id r \<notin> shr_id ` set remote) loc"
    by (rule merge_share_records_steps)
  have agree': "shares_agree wa ?wb"
    using agree by (simp add: shares_agree_def)
  have "stored_shares wb' rid = stored_shares ?wb rid \<union> stored_shares wa rid"
    using loc sent by (intro save_missing_shares [OF inv(1) agree' _ save]) auto
  moreover have "stored_shares wa' rid = stored_shares wa rid \<union> stored_shares wb rid"
    using answer loc sent ans
    by (intro save_missing_shares [OF inv(2) agree_commute(1) [OF agree]]) (auto simp: add_share_records_def)
  ultimately show ?thesis by simp
qed

text \<open>
  Convergence of the exchange of resource keys: when each replica adds the keys that
  \<open>find_missing_resource_keys\<close> found missing on its side, both hold the union of their keys of the
  resource.
\<close>

theorem key_exchange_converges:
  assumes inv: "db_inv wa" "db_inv wb" and agree: "keys_agree wa wb"
    and sent: "set remote = stored_keys wa rid"
    and loc: "get_resource_keys_for_resource rid wb = (Inr loc, w1)"
    and missing: "find_missing_resource_keys loc remote = (local_missing, remote_missing)"
    and ours: "add_resource_keys local_missing w1 = (Inr (), wb')"
    and theirs: "add_resource_keys remote_missing wa = (Inr (), wa')"
  shows "stored_keys wb' rid = stored_keys wb rid \<union> stored_keys wa rid \<and>
    stored_keys wa' rid = stored_keys wa rid \<union> stored_keys wb rid"
proof -
  from loc have w1: "set loc = stored_keys wb rid" "w1 = wb\<lparr>pool_n := Suc (pool_n wb)\<rparr>"
    using key_find_by_resource_id_ok by (auto simp: get_resource_keys_for_resource_def)
  have agree': "keys_agree wa w1"
    using agree by (simp add: keys_agree_def w1(2))
  have sets: "set local_missing = {k \<in> stored_keys wa rid. key_id k \<notin> key_id ` stored_keys w1 rid}"
    "set remote_missing = {k \<in> stored_keys wb rid. key_id k \<notin> key_id ` stored_keys wa rid}"
    using missing by (auto simp: find_missing_resource_keys_def w1 sent [symmetric] list_ex_iff
        image_iff eq_commute)
  show ?thesis
    using save_missing_keys [OF inv(1) agree' sets(1) ours]
      save_missing_keys [OF inv(2) agree_commute(2) [OF agree] sets(2) theirs]
    by (simp add: w1(2))
qed

end
