(* ===== verification/Resource_Service.thy ===== *)
theory Resource_Service
  imports Crypto_Frame Crdt_Resource Replica_Merge
begin

text \<open>
  \<open>services/src/resource_service.rs\<close>: creating, reading, updating and sharing encrypted resources
  over the repositories and \<open>crypto_utils\<close>, the exchange of CRDT updates, and the check of a
  peer's authority. \<open>L\<close> is the crypto library, \<open>Y\<close> the documents and JSON, \<open>cu\<close> the loaded
  certificate behind the read lock. The exchange of clocks, share records and keys of the same file
  is in \<open>Replica_Merge\<close>.
\<close>

text \<open>\<open>?\<close> on a call of \<open>crypto_utils\<close> that runs on the environment.\<close>

definition crypto_run :: "(world, crypto_error, 'a) sm \<Rightarrow> 'a service" where
  "crypto_run m = smap_err Crypto m"

lemma crypto_run_eq_Inr [simp]: "crypto_run m w = (Inr x, w') \<longleftrightarrow> m w = (Inr x, w')"
  by (simp add: crypto_run_def)

text \<open>\<open>.map_err(|e| ResourceServiceError::ParseError(e))?\<close>\<close>

definition parse_call :: "string + 'a \<Rightarrow> 'a service" where
  "parse_call r = slift (rmap_err (\<lambda>e. Resource (ParseError e)) r)"

section \<open>Reading\<close>

definition failed_to_parse :: json where
  "failed_to_parse = JObject [(''error'', JString ''Failed to parse resource data'')]"

definition decrypt_single_resource ::
  "crypto_lib \<Rightarrow> ('d, 'u, 'v, 'z) yrs_scheme \<Rightarrow> crypto_utils \<Rightarrow> resource_with_key
     \<Rightarrow> decrypted_resource service" where
  "decrypt_single_resource L Y cu rk =
     sbind (crypto_call (decrypt_resource L cu (res_data (rwk_resource rk)) (rwk_encrypted_key rk)))
       (\<lambda>decrypted_data.
     (let parsed_data = (case json_read Y decrypted_data of Inr v \<Rightarrow> v | Inl _ \<Rightarrow> failed_to_parse);
          last_modified = (case Option.bind (json_get ''last_modified'' parsed_data) as_i64 of
             Some t \<Rightarrow> t | None \<Rightarrow> res_last_accessed (rwk_resource rk))
      in sret \<lparr>dcr_id = res_id (rwk_resource rk),
               dcr_resource_type = res_resource_type (rwk_resource rk), dcr_data = parsed_data,
               dcr_last_accessed = last_modified, dcr_favourite = res_favourite (rwk_resource rk),
               dcr_folder_id = res_folder_id (rwk_resource rk)\<rparr>))"

definition get_resource_by_id_direct ::
  "crypto_lib \<Rightarrow> ('d, 'u, 'v, 'z) yrs_scheme \<Rightarrow> crypto_utils \<Rightarrow> ident \<Rightarrow> ident
     \<Rightarrow> decrypted_resource service" where
  "get_resource_by_id_direct L Y cu resource_id user_id =
     sbind (repo_call (resource_find_by_id resource_id user_id)) (decrypt_single_resource L Y cu)"

definition get_resource ::
  "crypto_lib \<Rightarrow> ('d, 'u, 'v, 'z) yrs_scheme \<Rightarrow> crypto_utils \<Rightarrow> ident \<Rightarrow> ident
     \<Rightarrow> (decrypted_resource \<times> string) service" where
  "get_resource L Y cu resource_id user_id =
     sbind (repo_call (resource_find_by_id resource_id user_id)) (\<lambda>resource_with_key.
     sbind (decrypt_single_resource L Y cu resource_with_key) (\<lambda>decrypted.
     sret (decrypted, rwk_encrypted_key resource_with_key)))"

text \<open>The list form reports the time of the last access as it is stored.\<close>

definition decrypt_listed ::
  "crypto_lib \<Rightarrow> ('d, 'u, 'v, 'z) yrs_scheme \<Rightarrow> crypto_utils \<Rightarrow> resource_with_key
     \<Rightarrow> decrypted_resource service" where
  "decrypt_listed L Y cu rk =
     sbind (crypto_call (decrypt_resource L cu (res_data (rwk_resource rk)) (rwk_encrypted_key rk)))
       (\<lambda>decrypted_data.
     sret \<lparr>dcr_id = res_id (rwk_resource rk),
           dcr_resource_type = res_resource_type (rwk_resource rk),
           dcr_data = (case json_read Y decrypted_data of Inr v \<Rightarrow> v | Inl _ \<Rightarrow> failed_to_parse),
           dcr_last_accessed = res_last_accessed (rwk_resource rk),
           dcr_favourite = res_favourite (rwk_resource rk),
           dcr_folder_id = res_folder_id (rwk_resource rk)\<rparr>)"

definition decrypt_resources where
  "decrypt_resources L Y cu resources_with_keys = smap (decrypt_listed L Y cu) resources_with_keys"

definition get_resources_for_folder ::
  "crypto_lib \<Rightarrow> ('d, 'u, 'v, 'z) yrs_scheme \<Rightarrow> crypto_utils \<Rightarrow> ident \<Rightarrow> ident
     \<Rightarrow> decrypted_resource list service" where
  "get_resources_for_folder L Y cu folder_id user_id =
     sbind (repo_call (find_by_folder folder_id user_id)) (decrypt_resources L Y cu)"

definition service_get_all_resources ::
  "crypto_lib \<Rightarrow> ('d, 'u, 'v, 'z) yrs_scheme \<Rightarrow> crypto_utils \<Rightarrow> ident
     \<Rightarrow> decrypted_resource list service" where
  "service_get_all_resources L Y cu user_id =
     sbind (repo_call (get_all_resources user_id)) (decrypt_resources L Y cu)"

section \<open>Creating and updating\<close>

definition create_resource ::
  "crypto_lib \<Rightarrow> ('d, 'u, 'v, 'z) yrs_scheme \<Rightarrow> crypto_utils \<Rightarrow> string \<Rightarrow> string \<Rightarrow> ident \<Rightarrow> user
     \<Rightarrow> ident \<Rightarrow> string \<Rightarrow> decrypted_resource service" where
  "create_resource L Y cu resource_payload rtype folder_id user current_device_id domain =
     sbind (crypto_run (encrypt_data_for_user L resource_payload (usr_public_key user)))
       (\<lambda>(encrypted_data, encrypted_key).
     sbind (resource_new rtype encrypted_data folder_id ''signature'' (usr_id user)) (\<lambda>resource.
     sbind (crypto_run (sign_and_hash_message L cu (res_id resource))) (\<lambda>signature.
       (let resource = resource\<lparr>res_signature := signature\<rparr> in
     sbind (resource_key_new (res_id resource) (usr_id user) encrypted_key True) (\<lambda>resource_key.
     sbind (repo_call get_ucan_key) (\<lambda>encrypted_ucan_pvt_key.
     sbind (crypto_run (cu_generate_resource_owner_ucan L cu encrypted_ucan_pvt_key (res_id resource)
              domain)) (\<lambda>(ucan_token, ucan_cid).
     sbind (prepare_share_record (res_id resource) (usr_id user) (usr_id user) Admin ucan_token
              ucan_cid) (\<lambda>share_record.
     sbind (repo_call (get_devices_by_user_id (usr_id user))) (\<lambda>user_devices.
     sbind (create_initial_entries (res_id resource) (map dev_id user_devices) current_device_id)
       (\<lambda>vector_clocks.
     sbind (repo_call (save_resource_with_dependencies resource resource_key share_record vector_clocks))
       (\<lambda>_.
     get_resource_by_id_direct L Y cu (res_id resource) (usr_id user))))))))))))"

definition service_delete_resource :: "ident \<Rightarrow> unit service" where
  "service_delete_resource resource_id = repo_call (soft_delete_resource resource_id)"

definition service_toggle_fav :: "ident \<Rightarrow> unit service" where
  "service_toggle_fav resource_id = repo_call (toggle_fav resource_id)"

definition service_update_last_accessed :: "ident \<Rightarrow> unit service" where
  "service_update_last_accessed resource_id = repo_call (update_last_accessed resource_id)"

definition update_resource ::
  "crypto_lib \<Rightarrow> ('d, 'u, 'v, 'z) yrs_scheme \<Rightarrow> crypto_utils \<Rightarrow> ident \<Rightarrow> string \<Rightarrow> ident \<Rightarrow> ident
     \<Rightarrow> decrypted_resource service" where
  "update_resource L Y cu resource_id dat user_id current_device_id =
     sbind (repo_call (resource_find_by_id resource_id user_id)) (\<lambda>old_resource.
     sbind (crypto_run (cu_update_resource L cu dat (rwk_encrypted_key old_resource))) (\<lambda>encrypted_data.
     sbind (repo_call (repo_update_resource encrypted_data resource_id)) (\<lambda>_.
     sbind (repo_call (increment_vector_clock resource_id current_device_id)) (\<lambda>_.
     get_resource_by_id_direct L Y cu resource_id user_id))))"

section \<open>Sharing\<close>

record resource_sharing_data =
  rsh_resource_key :: resource_key
  rsh_share_record :: share_record
  rsh_vector_clocks :: "resource_vector_clock list"

text \<open>The proof resolver that is passed to \<open>crypto_utils\<close>: \<open>e.to_string()\<close> is \<open>repository_text\<close>.\<close>

definition resolve_proof :: "crypto_lib \<Rightarrow> string \<Rightarrow> (world, ucan_error, string) sm" where
  "resolve_proof L cid =
     smap_err (\<lambda>e. ProofChainInvalid (repository_text L e)) (share_get_ucan_by_cid cid)"

definition prepare_share_resource ::
  "crypto_lib \<Rightarrow> crypto_utils \<Rightarrow> ident \<Rightarrow> ident \<Rightarrow> (string \<times> string) list \<Rightarrow> user
     \<Rightarrow> resource_sharing_data option service" where
  "prepare_share_resource L cu recipient_user_id resource_id permissions current_user =
     scatch (key_find_by_resource_and_user resource_id recipient_user_id) (\<lambda>_. sret None) (\<lambda>_.
     sbind (repo_call (key_find_by_resource_and_user resource_id (usr_id current_user)))
       (\<lambda>resource_key.
     sbind (repo_call (find_by_resource_and_operation_and_user resource_id
              (share_operation_to_string Share) (usr_id current_user))) (\<lambda>delegator_share_record.
     sbind (repo_call (get_user_by_id recipient_user_id)) (\<lambda>recipient_user.
     sbind (crypto_run (encrypt_key_with_new_pub_key L cu (key_encrypted_key resource_key)
              (usr_public_key recipient_user))) (\<lambda>new_encryption_key.
     sbind (resource_key_new resource_id recipient_user_id new_encryption_key False)
       (\<lambda>new_resource_key.
     sbind (repo_call get_ucan_key) (\<lambda>encrypted_ucan_pvt_key.
     sbind (repo_call (find_owner_by_resource_id resource_id)) (\<lambda>resource_owner.
     sbind (crypto_run (issue_delegated_resource_ucan L cu encrypted_ucan_pvt_key
              (shr_ucan_token delegator_share_record) (usr_ucan_pub_key resource_owner) resource_id
              (usr_ucan_pub_key recipient_user) permissions (resolve_proof L)))
       (\<lambda>(ucan_token, ucan_cid).
     sbind (prepare_share_record resource_id (usr_id current_user) recipient_user_id Write ucan_token
              ucan_cid) (\<lambda>share_record.
     sbind (repo_call (get_devices_by_user_id recipient_user_id)) (\<lambda>recipient_devices.
     sbind (create_entries_for_sharing resource_id (map dev_id recipient_devices))
       (\<lambda>recipient_vector_clocks.
     sret (Some \<lparr>rsh_resource_key = new_resource_key, rsh_share_record = share_record,
                 rsh_vector_clocks = recipient_vector_clocks\<rparr>)))))))))))))"

definition share_resource ::
  "crypto_lib \<Rightarrow> crypto_utils \<Rightarrow> ident \<Rightarrow> ident \<Rightarrow> (string \<times> string) list \<Rightarrow> user \<Rightarrow> unit service" where
  "share_resource L cu recipient_user_id resource_id permissions current_user =
     sbind (prepare_share_resource L cu recipient_user_id resource_id permissions current_user)
       (\<lambda>sharing_data. case sharing_data of
          Some d \<Rightarrow> repo_call (share_resource_transaction (rsh_resource_key d) (rsh_share_record d)
                                (rsh_vector_clocks d))
        | None \<Rightarrow> sret ())"

text \<open>What a member of a folder may do with each resource in it.\<close>

definition resource_permissions :: "string \<Rightarrow> ident \<Rightarrow> (string \<times> string) list" where
  "resource_permissions domain resource_id =
     (let uri = domain @ '':resource:'' @ resource_id
      in [(uri, ''crud/read''), (uri, ''crud/update''), (uri, ''ucan/share'')])"

text \<open>A recipient for whom the preparation fails is skipped.\<close>

definition auto_share_resource_with_folder_users ::
  "crypto_lib \<Rightarrow> crypto_utils \<Rightarrow> ident \<Rightarrow> ident \<Rightarrow> user \<Rightarrow> string \<Rightarrow> unit service" where
  "auto_share_resource_with_folder_users L cu resource_id folder_id current_user domain =
     sbind (repo_call (get_shared_users folder_id)) (\<lambda>shared_users.
       (let recipient_users = filter (\<lambda>u. usr_id u \<noteq> usr_id current_user) shared_users in
        if recipient_users = [] then sret ()
        else sbind (smap (\<lambda>recipient_user.
                      scatch (prepare_share_resource L cu (usr_id recipient_user) resource_id
                                (resource_permissions domain resource_id) current_user)
                        sret (\<lambda>_. sret None)) recipient_users) (\<lambda>prepared.
          (let all_sharing_data = List.map_filter id prepared in
           if all_sharing_data = [] then sret ()
           else repo_call (save_bulk_sharing_data (map rsh_resource_key all_sharing_data)
                  (map rsh_share_record all_sharing_data)
                  (concat (map rsh_vector_clocks all_sharing_data)))))))"

section \<open>Exchanging updates\<close>

text \<open>\<open>sync_updates\<close> on a decrypted resource the caller holds, with the changed resource.\<close>

definition with_updates ::
  "('d, 'u, 'v, 'z) yrs_scheme \<Rightarrow> decrypted_resource \<Rightarrow> string
     \<Rightarrow> (string \<times> decrypted_resource) service" where
  "with_updates Y decrypted_resource input =
     (case sync_updates Y input decrypted_resource of
        (Inl e, _) \<Rightarrow> sthrow (Resource (ParseError e))
      | (Inr reply, decrypted_resource) \<Rightarrow> sret (reply, decrypted_resource))"

definition get_resource_state_vector ::
  "crypto_lib \<Rightarrow> ('d, 'u, 'v, 'z) yrs_scheme \<Rightarrow> crypto_utils \<Rightarrow> ident \<Rightarrow> ident \<Rightarrow> string service" where
  "get_resource_state_vector L Y cu resource_id user_id =
     sbind (get_resource L Y cu resource_id user_id) (\<lambda>(decrypted_resource, _).
     parse_call (get_state_vectors Y decrypted_resource))"

definition get_resource_ucan_key :: "ident \<Rightarrow> ident \<Rightarrow> string service" where
  "get_resource_ucan_key resource_id user_id =
     sbind (repo_call (find_by_resource_and_operation_and_user resource_id
              (share_operation_to_string Share) user_id)) (\<lambda>delegator_share_record.
     sret (shr_ucan_token delegator_share_record))"

definition generate_updates_for_peer ::
  "crypto_lib \<Rightarrow> ('d, 'u, 'v, 'z) yrs_scheme \<Rightarrow> crypto_utils \<Rightarrow> ident \<Rightarrow> ident \<Rightarrow> string
     \<Rightarrow> string service" where
  "generate_updates_for_peer L Y cu resource_id user_id peer_state_vectors =
     sbind (get_resource L Y cu resource_id user_id) (\<lambda>(decrypted_resource, _).
     sbind (with_updates Y decrypted_resource peer_state_vectors) (\<lambda>(updates, _). sret updates))"

definition apply_updates_and_get_peer_updates ::
  "crypto_lib \<Rightarrow> ('d, 'u, 'v, 'z) yrs_scheme \<Rightarrow> crypto_utils \<Rightarrow> ident \<Rightarrow> ident \<Rightarrow> string
     \<Rightarrow> string service" where
  "apply_updates_and_get_peer_updates L Y cu resource_id user_id updates =
     sbind (get_resource L Y cu resource_id user_id) (\<lambda>(decrypted_resource, encrypted_key).
     sbind (with_updates Y decrypted_resource updates) (\<lambda>(remote_updates, decrypted_resource).
     sbind (crypto_run (cu_update_resource L cu (json_print Y (dcr_data decrypted_resource))
              encrypted_key)) (\<lambda>encrypted_data.
     sbind (repo_call (repo_update_resource encrypted_data resource_id)) (\<lambda>_.
     sret remote_updates))))"

definition apply_buffer_updates_and_get_remote_updates ::
  "crypto_lib \<Rightarrow> ('d, 'u, 'v, 'z) yrs_scheme \<Rightarrow> crypto_utils \<Rightarrow> ident \<Rightarrow> ident \<Rightarrow> string \<Rightarrow> string
     \<Rightarrow> string service" where
  "apply_buffer_updates_and_get_remote_updates L Y cu resource_id user_id updates peer_state_vectors =
     sbind (get_resource L Y cu resource_id user_id) (\<lambda>(decrypted_resource, _).
     sbind (with_updates Y decrypted_resource updates) (\<lambda>(_, decrypted_resource).
     sbind (with_updates Y decrypted_resource peer_state_vectors) (\<lambda>(remote_updates, _).
     sret remote_updates)))"

definition apply_buffer_and_peer_updates_and_get_remote_updates ::
  "crypto_lib \<Rightarrow> ('d, 'u, 'v, 'z) yrs_scheme \<Rightarrow> crypto_utils \<Rightarrow> ident \<Rightarrow> ident \<Rightarrow> string \<Rightarrow> string
     \<Rightarrow> string service" where
  "apply_buffer_and_peer_updates_and_get_remote_updates L Y cu resource_id user_id remote_updates
       local_updates =
     sbind (get_resource L Y cu resource_id user_id) (\<lambda>(decrypted_resource, _).
     sbind (with_updates Y decrypted_resource local_updates) (\<lambda>(_, decrypted_resource).
     sbind (with_updates Y decrypted_resource remote_updates) (\<lambda>(updates, _).
     sret updates)))"

definition apply_updates ::
  "crypto_lib \<Rightarrow> ('d, 'u, 'v, 'z) yrs_scheme \<Rightarrow> crypto_utils \<Rightarrow> ident \<Rightarrow> string \<Rightarrow> ident
     \<Rightarrow> unit service" where
  "apply_updates L Y cu resource_id updates user_id =
     sbind (get_resource L Y cu resource_id user_id) (\<lambda>(decrypted_resource, encrypted_key).
     sbind (with_updates Y decrypted_resource updates) (\<lambda>(_, decrypted_resource).
     sbind (crypto_run (cu_update_resource L cu (json_print Y (dcr_data decrypted_resource))
              encrypted_key)) (\<lambda>encrypted_data.
     repo_call (repo_update_resource encrypted_data resource_id))))"

definition get_share_records_for_resource :: "ident \<Rightarrow> share_record list service" where
  "get_share_records_for_resource resource_id = repo_call (share_find_by_resource resource_id)"

definition service_get_vector_clocks_for_resource :: "ident \<Rightarrow> resource_vector_clock list service" where
  "service_get_vector_clocks_for_resource resource_id =
     repo_call (get_vector_clocks_for_resource resource_id)"

section \<open>Authority of a peer\<close>

definition service_validate_authority_for_update ::
  "crypto_lib \<Rightarrow> ident \<Rightarrow> string \<Rightarrow> ident \<Rightarrow> string \<Rightarrow> bool service" where
  "service_validate_authority_for_update L resource_id token peer_user_id domain =
     sbind (repo_call (get_user_by_id peer_user_id)) (\<lambda>peer_user.
     sbind (repo_call (find_owner_by_resource_id resource_id)) (\<lambda>resource_owner.
     crypto_run (validate_authority_for_update L token (usr_ucan_pub_key peer_user)
       (usr_ucan_pub_key resource_owner) resource_id domain (resolve_proof L))))"

section \<open>Integrity\<close>

lemma keeps_crypto_run [stmt_keeps]: "keeps db_inv m \<Longrightarrow> keeps db_inv (crypto_run m)"
  unfolding crypto_run_def by (rule keeps_smap_err)

lemma keeps_parse_call [stmt_keeps]: "keeps db_inv (parse_call r)"
  unfolding parse_call_def by (rule keeps_slift)

lemma keeps_resolve_proof [stmt_keeps]: "keeps db_inv (resolve_proof L cid)"
  unfolding resolve_proof_def by (intro stmt_keeps)

lemma keeps_entries [stmt_keeps]:
  "keeps db_inv (resource_new t dat f s u)" "keeps db_inv (resource_key_new r u k own)"
  "keeps db_inv (prepare_share_record r u u' p t c)" "keeps db_inv (create_initial_entries r ds d)"
  "keeps db_inv (create_entries_for_sharing r ds)" "keeps db_inv (vc_new r d v)"
  "keeps db_inv (folder_new n des df)" "keeps db_inv (prepare_folder_share_record f u u' p t c)"
  "keeps db_inv (user_new un i pk sg ow fs ut uc up)" "keeps db_inv (device_new i pk u)"
  unfolding resource_new_def resource_key_new_def prepare_share_record_def
    create_initial_entries_def create_entries_for_sharing_def vc_new_def folder_new_def
    prepare_folder_share_record_def user_new_def device_new_def
  by (auto intro!: stmt_keeps)

lemma keeps_with_updates [stmt_keeps]: "keeps db_inv (with_updates Y dr i)"
  by (auto simp: with_updates_def keeps_def split: prod.splits sum.splits)

lemma keeps_resource_reading [stmt_keeps]:
  "keeps db_inv (decrypt_single_resource L Y cu rk)" "keeps db_inv (decrypt_listed L Y cu rk)"
  unfolding decrypt_single_resource_def decrypt_listed_def Let_def by (intro stmt_keeps)+

lemma keeps_get_resources [stmt_keeps]:
  "keeps db_inv (get_resource_by_id_direct L Y cu i u)" "keeps db_inv (get_resource L Y cu i u)"
  "keeps db_inv (get_resources_for_folder L Y cu f u)" "keeps db_inv (service_get_all_resources L Y cu u)"
  unfolding get_resource_by_id_direct_def get_resource_def get_resources_for_folder_def
    service_get_all_resources_def decrypt_resources_def
  by (intro stmt_keeps)+

lemma keeps_prepare_share_resource [stmt_keeps]:
  "keeps db_inv (prepare_share_resource L cu r i ps u)"
  unfolding prepare_share_resource_def
  by (intro stmt_keeps keeps_case_prod crypto_keeps env_blind_db_inv)

lemma keeps_resource_service [stmt_keeps]:
  "keeps db_inv (create_resource L Y cu p t f u d dn)" "keeps db_inv (update_resource L Y cu i dat v d)"
  "keeps db_inv (service_delete_resource i)" "keeps db_inv (service_toggle_fav i)"
  "keeps db_inv (service_update_last_accessed i)" "keeps db_inv (share_resource L cu r i ps u)"
  "keeps db_inv (auto_share_resource_with_folder_users L cu i f u dn)"
  "keeps db_inv (get_resource_state_vector L Y cu i v)" "keeps db_inv (get_resource_ucan_key i v)"
  "keeps db_inv (generate_updates_for_peer L Y cu i v sv)"
  "keeps db_inv (apply_updates_and_get_peer_updates L Y cu i v ups)"
  "keeps db_inv (apply_buffer_updates_and_get_remote_updates L Y cu i v ups sv)"
  "keeps db_inv (apply_buffer_and_peer_updates_and_get_remote_updates L Y cu i v rs ls)"
  "keeps db_inv (apply_updates L Y cu i ups v)"
  "keeps db_inv (service_validate_authority_for_update L i t p dn)"
  unfolding create_resource_def update_resource_def service_delete_resource_def
    service_toggle_fav_def service_update_last_accessed_def share_resource_def
    auto_share_resource_with_folder_users_def get_resource_state_vector_def
    get_resource_ucan_key_def generate_updates_for_peer_def apply_updates_and_get_peer_updates_def
    apply_buffer_updates_and_get_remote_updates_def apply_updates_def
    apply_buffer_and_peer_updates_and_get_remote_updates_def
    service_validate_authority_for_update_def Let_def
  by (intro stmt_keeps keeps_case_prod keeps_case_option keeps_if crypto_keeps env_blind_db_inv)+

end
