(* ===== verification/Sync_Compare.thy ===== *)
theory Sync_Compare
  imports Vector_Clock
begin

text \<open>
  The comparison of two replicas' manifests: the payloads of \<open>core/src/models/sync.rs\<close> and the
  pure functions of \<open>services/src/sync_service.rs\<close> that find what each side misses. The order in
  which hash sets are turned into vectors is the parameter \<open>ord\<close>; the lemmas state which
  elements the results have, for every order, and that the two sides' comparisons agree.
\<close>

section \<open>Payloads\<close>

record device_manifest_request =
  dmq_known_device_ids :: "ident list"
  dmq_other_users :: "user_with_device_ids list"
  dmq_folder_ids :: "ident list"
  dmq_resources :: "resource_manifest_data list"

record user_manifest_request =
  umq_users :: "user_with_device_ids list"
  umq_resources :: "resource_manifest_data list"
  umq_folders :: "folder_manifest_data list"

record user_network_sync =
  uns_users :: "user_with_devices list"
  uns_devices :: "device list"

record folder_recipient_diff =
  frd_folder_id :: ident
  frd_recipients_only_local_knows :: "ident list"
  frd_recipients_only_remote_knows :: "ident list"

record folder_comparison =
  fcr_folders_only_local_has :: "ident list"
  fcr_folders_only_remote_has :: "ident list"
  fcr_folders_with_recipient_differences :: "folder_recipient_diff list"

record user_manifest_differences =
  umd_unknown_users :: "ident list"
  umd_unknown_devices_from_common_users :: "user_with_device_ids list"
  umd_unknown_resources :: "ident list"
  umd_unknown_folders :: "ident list"

record user_manifest_comparison =
  umc_local_missing :: user_manifest_differences
  umc_remote_missing :: user_manifest_differences
  umc_resources_requiring_sync :: "ident list"
  umc_folders_requiring_recipient_sync :: "folder_recipient_diff list"

definition user_manifest_inverse :: "user_manifest_comparison \<Rightarrow> user_manifest_comparison" where
  "user_manifest_inverse c =
     \<lparr>umc_local_missing = umc_remote_missing c, umc_remote_missing = umc_local_missing c,
      umc_resources_requiring_sync = umc_resources_requiring_sync c,
      umc_folders_requiring_recipient_sync =
        map (\<lambda>d. \<lparr>frd_folder_id = frd_folder_id d,
                  frd_recipients_only_local_knows = frd_recipients_only_remote_knows d,
                  frd_recipients_only_remote_knows = frd_recipients_only_local_knows d\<rparr>)
          (umc_folders_requiring_recipient_sync c)\<rparr>"

record user_comparison =
  ucr_users_only_local_has :: "ident list"
  ucr_users_only_remote_has :: "ident list"
  ucr_common_users :: "ident list"
  ucr_devices_from_common_users_only_local_has :: "user_with_device_ids list"
  ucr_devices_from_common_users_only_remote_has :: "user_with_device_ids list"

record resource_comparison =
  rcr_resources_only_local_has :: "ident list"
  rcr_resources_only_remote_has :: "ident list"
  rcr_common_resources :: "ident list"
  rcr_resources_requiring_sync :: "ident list"

record device_manifest_differences =
  dmd_unknown_users :: "ident list"
  dmd_unknown_devices_from_common_users :: "user_with_device_ids list"
  dmd_unknown_devices_from_current_user :: "ident list"
  dmd_unknown_resources :: "ident list"
  dmd_unknown_folders :: "ident list"

record device_manifest_comparison =
  dmc_local_missing :: device_manifest_differences
  dmc_remote_missing :: device_manifest_differences
  dmc_resources_requiring_sync :: "ident list"

definition device_manifest_inverse :: "device_manifest_comparison \<Rightarrow> device_manifest_comparison" where
  "device_manifest_inverse c =
     \<lparr>dmc_local_missing = dmc_remote_missing c, dmc_remote_missing = dmc_local_missing c,
      dmc_resources_requiring_sync = dmc_resources_requiring_sync c\<rparr>"

record device_network_sync =
  dns_unknown_users_with_devices :: "user_with_devices list"
  dns_unknown_devices_from_common_users :: "device list"
  dns_unknown_devices_from_current_user :: "device list"
  dns_unknown_folders :: "folder list"

section \<open>Comparing sets\<close>

record set_comparison =
  only_local :: "ident set"
  only_remote :: "ident set"
  common :: "ident set"

definition compare_sets :: "ident set \<Rightarrow> ident set \<Rightarrow> set_comparison" where
  "compare_sets local_set remote_set =
     \<lparr>only_local = local_set - remote_set, only_remote = remote_set - local_set,
      common = local_set \<inter> remote_set\<rparr>"

definition create_comparison_sets ::
  "device_manifest_request \<Rightarrow> ident set \<times> ident set \<times> ident set \<times> ident set" where
  "create_comparison_sets payload =
     (set (map uwi_user_id (dmq_other_users payload)), set (dmq_known_device_ids payload),
      set (map rmd_resource_id (dmq_resources payload)), set (dmq_folder_ids payload))"

section \<open>Devices of common users\<close>

definition devices_only ::
  "(ident set \<Rightarrow> ident list) \<Rightarrow> user_with_device_ids list \<Rightarrow> user_with_device_ids list
     \<Rightarrow> ident \<Rightarrow> user_with_device_ids option" where
  "devices_only ord ours theirs user_id =
     (case (hash_map_of (map (\<lambda>u. (uwi_user_id u, u)) ours) user_id,
            hash_map_of (map (\<lambda>u. (uwi_user_id u, u)) theirs) user_id) of
        (Some our_user, Some their_user) \<Rightarrow>
          (let only = set (uwi_device_ids our_user) - set (uwi_device_ids their_user) in
           if only \<noteq> {} then Some \<lparr>uwi_user_id = user_id, uwi_device_ids = ord only\<rparr> else None)
      | _ \<Rightarrow> None)"

definition compare_devices_for_common_users ::
  "(ident set \<Rightarrow> ident list) \<Rightarrow> user_with_device_ids list \<Rightarrow> user_with_device_ids list \<Rightarrow> ident list
     \<Rightarrow> user_with_device_ids list \<times> user_with_device_ids list" where
  "compare_devices_for_common_users ord local_payload remote_payload common_user_ids =
     (List.map_filter (devices_only ord local_payload remote_payload) common_user_ids,
      List.map_filter (devices_only ord remote_payload local_payload) common_user_ids)"

section \<open>Resources both sides have\<close>

definition compare_share_records :: "ident list \<Rightarrow> ident list \<Rightarrow> bool" where
  "compare_share_records local_share_records remote_share_records \<longleftrightarrow>
     set local_share_records \<noteq> set remote_share_records"

definition vector_clocks_need_update ::
  "resource_vector_clock list \<Rightarrow> resource_vector_clock list \<Rightarrow> bool" where
  "vector_clocks_need_update local_clocks remote_clocks =
     (if list_ex (\<lambda>l. \<not> list_ex (\<lambda>r. vc_device_id r = vc_device_id l) remote_clocks) local_clocks
      then True
      else if list_ex (\<lambda>r. \<not> list_ex (\<lambda>l. vc_device_id l = vc_device_id r) local_clocks) remote_clocks
      then True
      else list_ex (\<lambda>l. case List.find (\<lambda>r. vc_device_id r = vc_device_id l) remote_clocks of
                          Some r \<Rightarrow> vc_clock_value l \<noteq> vc_clock_value r
                        | None \<Rightarrow> False) local_clocks)"

definition resource_needs_sync :: "resource_manifest_data \<Rightarrow> resource_manifest_data \<Rightarrow> bool" where
  "resource_needs_sync local_resource remote_resource =
     (if compare_share_records (rmd_share_record_ids local_resource)
           (rmd_share_record_ids remote_resource)
      then True
      else vector_clocks_need_update (rmd_vector_clocks local_resource)
             (rmd_vector_clocks remote_resource))"

definition compare_resources_for_common_resources ::
  "(ident set \<Rightarrow> ident list) \<Rightarrow> resource_manifest_data list \<Rightarrow> resource_manifest_data list
     \<Rightarrow> ident set \<Rightarrow> ident list" where
  "compare_resources_for_common_resources ord local_resources remote_resources common_ids =
     filter (\<lambda>resource_id.
         case (hash_map_of (map (\<lambda>r. (rmd_resource_id r, r)) local_resources) resource_id,
               hash_map_of (map (\<lambda>r. (rmd_resource_id r, r)) remote_resources) resource_id) of
           (Some l, Some r) \<Rightarrow> resource_needs_sync l r
         | _ \<Rightarrow> False)
       (ord common_ids)"

section \<open>The manifest comparisons\<close>

text \<open>\<open>process_device_manifest_request\<close> after it has built its own manifest.\<close>

definition compare_device_manifests ::
  "(ident set \<Rightarrow> ident list) \<Rightarrow> device_manifest_request \<Rightarrow> device_manifest_request
     \<Rightarrow> device_manifest_comparison" where
  "compare_device_manifests ord loc rem =
     (let (local_user_ids, local_device_ids, local_resource_ids, local_folder_ids) =
            create_comparison_sets loc;
          (remote_user_ids, remote_device_ids, remote_resource_ids, remote_folder_ids) =
            create_comparison_sets rem;
          user_comparison = compare_sets local_user_ids remote_user_ids;
          device_comparison = compare_sets local_device_ids remote_device_ids;
          resource_comparison = compare_sets local_resource_ids remote_resource_ids;
          folder_comparison = compare_sets local_folder_ids remote_folder_ids;
          common_user_ids = ord (common user_comparison);
          (devices_only_local, devices_only_remote) =
            compare_devices_for_common_users ord (dmq_other_users loc) (dmq_other_users rem)
              common_user_ids
      in \<lparr>dmc_local_missing =
            \<lparr>dmd_unknown_users = ord (only_remote user_comparison),
             dmd_unknown_devices_from_common_users = devices_only_remote,
             dmd_unknown_devices_from_current_user = ord (only_remote device_comparison),
             dmd_unknown_resources = ord (only_remote resource_comparison),
             dmd_unknown_folders = ord (only_remote folder_comparison)\<rparr>,
          dmc_remote_missing =
            \<lparr>dmd_unknown_users = ord (only_local user_comparison),
             dmd_unknown_devices_from_common_users = devices_only_local,
             dmd_unknown_devices_from_current_user = ord (only_local device_comparison),
             dmd_unknown_resources = ord (only_local resource_comparison),
             dmd_unknown_folders = ord (only_local folder_comparison)\<rparr>,
          dmc_resources_requiring_sync =
            compare_resources_for_common_resources ord (dmq_resources loc) (dmq_resources rem)
              (common resource_comparison)\<rparr>)"

definition process_user_gaps ::
  "(ident set \<Rightarrow> ident list) \<Rightarrow> user_manifest_request \<Rightarrow> user_manifest_request \<Rightarrow> user_comparison" where
  "process_user_gaps ord loc rem =
     (let local_user_ids = set (map uwi_user_id (umq_users loc));
          remote_user_ids = set (map uwi_user_id (umq_users rem));
          common_users = ord (local_user_ids \<inter> remote_user_ids);
          (devices_only_local, devices_only_remote) =
            compare_devices_for_common_users ord (umq_users loc) (umq_users rem) common_users
      in \<lparr>ucr_users_only_local_has = ord (local_user_ids - remote_user_ids),
          ucr_users_only_remote_has = ord (remote_user_ids - local_user_ids),
          ucr_common_users = common_users,
          ucr_devices_from_common_users_only_local_has = devices_only_local,
          ucr_devices_from_common_users_only_remote_has = devices_only_remote\<rparr>)"

definition process_resource_gaps ::
  "(ident set \<Rightarrow> ident list) \<Rightarrow> user_manifest_request \<Rightarrow> user_manifest_request
     \<Rightarrow> resource_comparison" where
  "process_resource_gaps ord loc rem =
     (let local_resource_ids = set (map rmd_resource_id (umq_resources loc));
          remote_resource_ids = set (map rmd_resource_id (umq_resources rem));
          common_resources = ord (local_resource_ids \<inter> remote_resource_ids)
      in \<lparr>rcr_resources_only_local_has = ord (local_resource_ids - remote_resource_ids),
          rcr_resources_only_remote_has = ord (remote_resource_ids - local_resource_ids),
          rcr_common_resources = common_resources,
          rcr_resources_requiring_sync =
            compare_resources_for_common_resources ord (umq_resources loc) (umq_resources rem)
              (set common_resources)\<rparr>)"

text \<open>
  The two \<open>unwrap()\<close>s on the lookups of a common folder are \<open>the\<close>; \<open>folder_lookup\<close> below shows
  that both find an entry.
\<close>

definition folder_lookup :: "folder_manifest_data list \<Rightarrow> ident \<rightharpoonup> folder_manifest_data" where
  "folder_lookup fs = hash_map_of (map (\<lambda>f. (fmd_folder_id f, f)) fs)"

definition recipient_diff ::
  "(ident set \<Rightarrow> ident list) \<Rightarrow> folder_manifest_data list \<Rightarrow> folder_manifest_data list \<Rightarrow> ident
     \<Rightarrow> folder_recipient_diff option" where
  "recipient_diff ord local_folders remote_folders folder_id =
     (let local_recipients = set (fmd_recipient_user_ids (the (folder_lookup local_folders folder_id)));
          remote_recipients = set (fmd_recipient_user_ids (the (folder_lookup remote_folders folder_id)));
          recipients_only_local = ord (local_recipients - remote_recipients);
          recipients_only_remote = ord (remote_recipients - local_recipients)
      in if recipients_only_local \<noteq> [] \<or> recipients_only_remote \<noteq> []
         then Some \<lparr>frd_folder_id = folder_id,
                    frd_recipients_only_local_knows = recipients_only_local,
                    frd_recipients_only_remote_knows = recipients_only_remote\<rparr>
         else None)"

definition process_folder_gaps ::
  "(ident set \<Rightarrow> ident list) \<Rightarrow> folder_manifest_data list \<Rightarrow> folder_manifest_data list
     \<Rightarrow> folder_comparison" where
  "process_folder_gaps ord local_folders remote_folders =
     (let local_folder_ids = dom (folder_lookup local_folders);
          remote_folder_ids = dom (folder_lookup remote_folders)
      in \<lparr>fcr_folders_only_local_has = ord (local_folder_ids - remote_folder_ids),
          fcr_folders_only_remote_has = ord (remote_folder_ids - local_folder_ids),
          fcr_folders_with_recipient_differences =
            List.map_filter (recipient_diff ord local_folders remote_folders)
              (ord (local_folder_ids \<inter> remote_folder_ids))\<rparr>)"

definition compare_user_manifests ::
  "(ident set \<Rightarrow> ident list) \<Rightarrow> user_manifest_request \<Rightarrow> user_manifest_request
     \<Rightarrow> user_manifest_comparison" where
  "compare_user_manifests ord loc rem =
     (let user_gaps = process_user_gaps ord loc rem;
          resource_gaps = process_resource_gaps ord loc rem;
          folder_gaps = process_folder_gaps ord (umq_folders loc) (umq_folders rem)
      in \<lparr>umc_local_missing =
            \<lparr>umd_unknown_users = ucr_users_only_remote_has user_gaps,
             umd_unknown_devices_from_common_users =
               ucr_devices_from_common_users_only_remote_has user_gaps,
             umd_unknown_resources = rcr_resources_only_remote_has resource_gaps,
             umd_unknown_folders = fcr_folders_only_remote_has folder_gaps\<rparr>,
          umc_remote_missing =
            \<lparr>umd_unknown_users = ucr_users_only_local_has user_gaps,
             umd_unknown_devices_from_common_users =
               ucr_devices_from_common_users_only_local_has user_gaps,
             umd_unknown_resources = rcr_resources_only_local_has resource_gaps,
             umd_unknown_folders = fcr_folders_only_local_has folder_gaps\<rparr>,
          umc_resources_requiring_sync = rcr_resources_requiring_sync resource_gaps,
          umc_folders_requiring_recipient_sync =
            fcr_folders_with_recipient_differences folder_gaps\<rparr>)"

section \<open>Clocks and share records\<close>

lemma merge_remote_flag:
  assumes "distinct_devices L" "distinct_devices R"
  shows "mr_remote_needs_update (vc_merge L R) \<longleftrightarrow> vjoin (clock_map L) (clock_map R) \<noteq> clock_map R"
proof -
  have "mr_remote_needs_update (vc_merge L R) \<longleftrightarrow> mr_local_needs_update (vc_merge R L)"
  proof -
    have "List.map_filter (newer_local L) R \<noteq> [] \<longleftrightarrow> (\<exists>r \<in> set R. newer_local L r \<noteq> None)"
      by (auto simp: map_filter_def filter_empty_conv)
    also have "\<dots> \<longleftrightarrow> (\<exists>l \<in> set L. newer_remote R l)"
    proof
      assume "\<exists>r \<in> set R. newer_local L r \<noteq> None"
      then obtain r l where r: "r \<in> set R" and l: "newer_local L r = Some l" by blast
      have "clock_map R (vc_device_id l) = Some (vc_clock_value r)"
        using r newer_local_SomeD(2) [OF l] clock_map_Some_iff [OF assms(2)] by auto
      then have "newer_remote R l"
        using newer_local_SomeD(3) [OF l] by (simp add: newer_remote_iff)
      then show "\<exists>l \<in> set L. newer_remote R l"
        using newer_local_SomeD(1) [OF l] by blast
    next
      assume "\<exists>l \<in> set L. newer_remote R l"
      then obtain l x where l: "l \<in> set L" and x: "clock_map R (vc_device_id l) = Some x"
        and lt: "x < vc_clock_value l" by (auto simp: newer_remote_iff)
      then obtain r where r: "r \<in> set R" "vc_device_id r = vc_device_id l" "vc_clock_value r = x"
        using clock_map_SomeD by blast
      have "clock_map L (vc_device_id l) = Some (vc_clock_value l)"
        using l clock_map_Some_iff [OF assms(1)] by blast
      with r lt have "newer_local L r \<noteq> None"
        by (auto simp: newer_local_None_iff)
      with r show "\<exists>r \<in> set R. newer_local L r \<noteq> None" by blast
    qed
    finally show ?thesis by (auto simp: vc_merge_eq)
  qed
  then show ?thesis
    using merge_local_flag [OF assms(1), of R] by (simp add: vjoin_commute)
qed

lemma list_ex_find:
  "list_ex (\<lambda>l. case List.find (\<lambda>r. vc_device_id r = vc_device_id l) R of
       Some r \<Rightarrow> vc_clock_value l \<noteq> vc_clock_value r | None \<Rightarrow> False) L \<longleftrightarrow>
     (\<exists>l \<in> set L. \<exists>x. clock_map R (vc_device_id l) = Some x \<and> vc_clock_value l \<noteq> x)"
  by (auto simp: list_ex_iff clock_map_find split: option.splits)

lemma need_update_iff_views:
  assumes "distinct_devices L" "distinct_devices R"
  shows "vector_clocks_need_update L R \<longleftrightarrow> clock_map L \<noteq> clock_map R"
proof -
  have selfL: "clock_map L (vc_device_id l) = Some (vc_clock_value l)" if "l \<in> set L" for l
    using that clock_map_Some_iff [OF assms(1)] by blast
  have selfR: "clock_map R (vc_device_id r) = Some (vc_clock_value r)" if "r \<in> set R" for r
    using that clock_map_Some_iff [OF assms(2)] by blast
  have "vector_clocks_need_update L R \<longleftrightarrow>
      (\<exists>l \<in> set L. clock_map R (vc_device_id l) = None) \<or>
      (\<exists>r \<in> set R. clock_map L (vc_device_id r) = None) \<or>
      (\<exists>l \<in> set L. \<exists>x. clock_map R (vc_device_id l) = Some x \<and> vc_clock_value l \<noteq> x)"
    by (simp add: vector_clocks_need_update_def list_ex_find list_ex_device_iff)
      (auto simp: list_ex_iff)
  also have "\<dots> \<longleftrightarrow> (\<exists>d. clock_map L d \<noteq> clock_map R d)"
  proof
    assume "(\<exists>l \<in> set L. clock_map R (vc_device_id l) = None) \<or>
      (\<exists>r \<in> set R. clock_map L (vc_device_id r) = None) \<or>
      (\<exists>l \<in> set L. \<exists>x. clock_map R (vc_device_id l) = Some x \<and> vc_clock_value l \<noteq> x)"
    then show "\<exists>d. clock_map L d \<noteq> clock_map R d"
      using selfL selfR by (metis option.distinct(1) option.inject)
  next
    assume "\<exists>d. clock_map L d \<noteq> clock_map R d"
    then obtain d where ne: "clock_map L d \<noteq> clock_map R d" ..
    show "(\<exists>l \<in> set L. clock_map R (vc_device_id l) = None) \<or>
      (\<exists>r \<in> set R. clock_map L (vc_device_id r) = None) \<or>
      (\<exists>l \<in> set L. \<exists>x. clock_map R (vc_device_id l) = Some x \<and> vc_clock_value l \<noteq> x)"
    proof (cases "clock_map L d")
      case None
      with ne obtain y where "clock_map R d = Some y" by (cases "clock_map R d") simp_all
      then obtain r where "r \<in> set R" "vc_device_id r = d" using clock_map_SomeD by blast
      with None show ?thesis by blast
    next
      case (Some x)
      then obtain l where l: "l \<in> set L" "vc_device_id l = d" "vc_clock_value l = x"
        using clock_map_SomeD by blast
      with ne Some show ?thesis by (cases "clock_map R d") auto
    qed
  qed
  finally show ?thesis by (auto simp: fun_eq_iff)
qed

lemma need_update_iff_merge:
  assumes "distinct_devices L" "distinct_devices R"
  shows "vector_clocks_need_update L R \<longleftrightarrow>
    mr_local_needs_update (vc_merge L R) \<or> mr_remote_needs_update (vc_merge L R)"
  unfolding need_update_iff_views [OF assms] merge_local_flag [OF assms(2)]
    merge_remote_flag [OF assms]
  by (metis vjoin_commute vjoin_idem)

section \<open>Lookups\<close>

lemma hash_map_keyed:
  assumes "distinct (map k xs)"
  shows "hash_map_of (map (\<lambda>x. (k x, x)) xs) i = Some x \<longleftrightarrow> x \<in> set xs \<and> k x = i"
proof -
  have "distinct (map fst (rev (map (\<lambda>x. (k x, x)) xs)))"
    using assms by (simp add: rev_map [symmetric] comp_def)
  then have "map_of (rev (map (\<lambda>x. (k x, x)) xs)) i = Some x \<longleftrightarrow>
      (i, x) \<in> set (rev (map (\<lambda>x. (k x, x)) xs))"
    by (rule map_of_eq_Some_iff)
  then show ?thesis by (auto simp: hash_map_of_def)
qed

lemma hash_map_keyed_SomeD:
  "hash_map_of (map (\<lambda>x. (k x, x)) xs) i = Some x \<Longrightarrow> x \<in> set xs \<and> k x = i"
  by (auto simp: hash_map_of_def dest: map_of_SomeD)

lemma dom_hash_map_keyed: "dom (hash_map_of (map (\<lambda>x. (k x, x)) xs)) = k ` set xs"
  by (simp add: hash_map_of_def dom_map_of_conv_image_fst image_image)

lemma hash_map_keyed_None:
  "hash_map_of (map (\<lambda>x. (k x, x)) xs) i = None \<longleftrightarrow> i \<notin> k ` set xs"
  unfolding dom_hash_map_keyed [symmetric] by blast

lemma in_map_filter: "y \<in> set (List.map_filter f xs) \<longleftrightarrow> (\<exists>x \<in> set xs. f x = Some y)"
  by (force simp: map_filter_def)

lemma map_filter_Nil_iff: "List.map_filter f xs = [] \<longleftrightarrow> (\<forall>x \<in> set xs. f x = None)"
  by (simp add: map_filter_def filter_empty_conv)

abbreviation user_lookup :: "user_with_device_ids list \<Rightarrow> ident \<rightharpoonup> user_with_device_ids" where
  "user_lookup us \<equiv> hash_map_of (map (\<lambda>u. (uwi_user_id u, u)) us)"

abbreviation resource_lookup :: "resource_manifest_data list \<Rightarrow> ident \<rightharpoonup> resource_manifest_data" where
  "resource_lookup rs \<equiv> hash_map_of (map (\<lambda>r. (rmd_resource_id r, r)) rs)"

text \<open>The devices a list of users with devices names.\<close>

definition named_devices :: "user_with_device_ids list \<Rightarrow> (ident \<times> ident) set" where
  "named_devices us = {(uwi_user_id u, d) | u d. u \<in> set us \<and> d \<in> set (uwi_device_ids u)}"

lemma devices_only_Some_iff:
  "devices_only ord A B u = Some z \<longleftrightarrow> (\<exists>x y. user_lookup A u = Some x \<and> user_lookup B u = Some y \<and>
     set (uwi_device_ids x) - set (uwi_device_ids y) \<noteq> {} \<and>
     z = \<lparr>uwi_user_id = u, uwi_device_ids = ord (set (uwi_device_ids x) - set (uwi_device_ids y))\<rparr>)"
  by (cases "user_lookup A u"; cases "user_lookup B u") (auto simp: devices_only_def Let_def)

lemma devices_only_None_iff:
  "devices_only ord A B u = None \<longleftrightarrow> (\<forall>x y. user_lookup A u = Some x \<longrightarrow> user_lookup B u = Some y \<longrightarrow>
     set (uwi_device_ids x) \<subseteq> set (uwi_device_ids y))"
  by (cases "user_lookup A u"; cases "user_lookup B u") (auto simp: devices_only_def Let_def)

lemma devices_only_named:
  assumes ord: "iteration_order ord"
  shows "(u, d) \<in> named_devices (List.map_filter (devices_only ord A B) us) \<longleftrightarrow>
    u \<in> set us \<and> (\<exists>x y. user_lookup A u = Some x \<and> user_lookup B u = Some y \<and>
      d \<in> set (uwi_device_ids x) \<and> d \<notin> set (uwi_device_ids y))"
proof -
  have id: "uwi_user_id z = v" if "devices_only ord A B v = Some z" for v z
    using that by (auto simp: devices_only_Some_iff)
  have "(u, d) \<in> named_devices (List.map_filter (devices_only ord A B) us) \<longleftrightarrow>
      u \<in> set us \<and> (\<exists>z. devices_only ord A B u = Some z \<and> d \<in> set (uwi_device_ids z))"
    by (auto simp: named_devices_def in_map_filter dest: id)
  also have "\<dots> \<longleftrightarrow> u \<in> set us \<and> (\<exists>x y. user_lookup A u = Some x \<and> user_lookup B u = Some y \<and>
      d \<in> set (uwi_device_ids x) \<and> d \<notin> set (uwi_device_ids y))"
    using ord by (cases "user_lookup A u"; cases "user_lookup B u") (auto simp: devices_only_def Let_def)
  finally show ?thesis .
qed

lemma devices_only_Nil_iff:
  "List.map_filter (devices_only ord A B) us = [] \<longleftrightarrow>
    (\<forall>u \<in> set us. \<forall>x y. user_lookup A u = Some x \<longrightarrow> user_lookup B u = Some y \<longrightarrow>
      set (uwi_device_ids x) \<subseteq> set (uwi_device_ids y))"
  by (simp add: map_filter_Nil_iff devices_only_None_iff)

lemma ord_Nil_iff:
  "iteration_order ord \<Longrightarrow> finite S \<Longrightarrow> ord S = [] \<longleftrightarrow> S = {}"
  using iteration_order_set [of ord S] by (cases "ord S") auto

lemma requiring_sync_iff:
  assumes "iteration_order ord" "finite S"
  shows "i \<in> set (compare_resources_for_common_resources ord A B S) \<longleftrightarrow>
    i \<in> S \<and> (\<exists>a b. resource_lookup A i = Some a \<and> resource_lookup B i = Some b \<and>
      resource_needs_sync a b)"
  using assms by (auto simp: compare_resources_for_common_resources_def split: option.splits)

section \<open>What a manifest says\<close>

text \<open>
  The abstract content of a manifest: its devices and folders, the devices of each other user,
  and for each resource its share records and its clocks.
\<close>

definition users_view :: "user_with_device_ids list \<Rightarrow> ident \<rightharpoonup> ident set" where
  "users_view us u = map_option (\<lambda>x. set (uwi_device_ids x)) (user_lookup us u)"

definition resources_view :: "resource_manifest_data list \<Rightarrow> ident \<rightharpoonup> ident set \<times> clock_view" where
  "resources_view rs i = map_option
     (\<lambda>r. (set (rmd_share_record_ids r), clock_map (rmd_vector_clocks r))) (resource_lookup rs i)"

definition clean_resources :: "resource_manifest_data list \<Rightarrow> bool" where
  "clean_resources rs \<longleftrightarrow> (\<forall>r \<in> set rs. distinct_devices (rmd_vector_clocks r))"

lemma needs_sync_iff_views:
  assumes "distinct_devices (rmd_vector_clocks a)" "distinct_devices (rmd_vector_clocks b)"
  shows "resource_needs_sync a b \<longleftrightarrow>
    (set (rmd_share_record_ids a), clock_map (rmd_vector_clocks a)) \<noteq>
    (set (rmd_share_record_ids b), clock_map (rmd_vector_clocks b))"
  by (simp add: resource_needs_sync_def compare_share_records_def need_update_iff_views [OF assms])

lemma dom_users_view: "dom (users_view us) = uwi_user_id ` set us"
  using dom_hash_map_keyed [of uwi_user_id us] by (simp add: users_view_def dom_def)

lemma dom_resources_view: "dom (resources_view rs) = rmd_resource_id ` set rs"
  using dom_hash_map_keyed [of rmd_resource_id rs] by (simp add: resources_view_def dom_def)

text \<open>Two maps are equal if their domains are and no common key differs.\<close>

lemma map_eq_iff_common:
  "f = g \<longleftrightarrow> dom f = dom g \<and> (\<forall>k \<in> dom f \<inter> dom g. f k = g k)"
proof safe
  assume "dom f = dom g" "\<forall>k \<in> dom f \<inter> dom g. f k = g k"
  then show "f = g" by (intro ext) (metis IntI domIff)
qed

lemma devices_agree_iff:
  "List.map_filter (devices_only ord A B) us = [] \<and> List.map_filter (devices_only ord B A) us = [] \<longleftrightarrow>
     (\<forall>u \<in> set us \<inter> (dom (users_view A) \<inter> dom (users_view B)). users_view A u = users_view B u)"
proof -
  have each: "(\<forall>x y. user_lookup A u = Some x \<longrightarrow> user_lookup B u = Some y \<longrightarrow>
        set (uwi_device_ids x) \<subseteq> set (uwi_device_ids y)) \<and>
      (\<forall>x y. user_lookup B u = Some x \<longrightarrow> user_lookup A u = Some y \<longrightarrow>
        set (uwi_device_ids x) \<subseteq> set (uwi_device_ids y)) \<longleftrightarrow>
    (u \<in> dom (users_view A) \<inter> dom (users_view B) \<longrightarrow> users_view A u = users_view B u)" for u
    by (cases "user_lookup A u"; cases "user_lookup B u") (auto simp: users_view_def)
  show ?thesis
    unfolding devices_only_Nil_iff ball_conj_distrib [symmetric] each by blast
qed

lemma requiring_sync_Nil_iff:
  assumes ord: "iteration_order ord" "finite S" and clean: "clean_resources A" "clean_resources B"
  shows "compare_resources_for_common_resources ord A B S = [] \<longleftrightarrow>
    (\<forall>i \<in> S \<inter> (dom (resources_view A) \<inter> dom (resources_view B)). resources_view A i = resources_view B i)"
proof -
  have wf: "distinct_devices (rmd_vector_clocks a)" "distinct_devices (rmd_vector_clocks b)"
    if "resource_lookup A i = Some a" "resource_lookup B i = Some b" for i a b
    using hash_map_keyed_SomeD [OF that(1)] hash_map_keyed_SomeD [OF that(2)] clean
    by (simp_all add: clean_resources_def)
  have each: "(\<exists>a b. resource_lookup A i = Some a \<and> resource_lookup B i = Some b \<and>
        resource_needs_sync a b) \<longleftrightarrow>
      i \<in> dom (resources_view A) \<inter> dom (resources_view B) \<and> resources_view A i \<noteq> resources_view B i" for i
  proof (cases "resource_lookup A i")
    case None
    then show ?thesis by (simp add: resources_view_def dom_def)
  next
    case (Some a)
    note a = this
    show ?thesis
    proof (cases "resource_lookup B i")
      case None
      then show ?thesis by (simp add: resources_view_def dom_def)
    next
      case (Some b)
      then show ?thesis
        using a needs_sync_iff_views [OF wf [OF a Some]] by (simp add: resources_view_def dom_def)
    qed
  qed
  have "compare_resources_for_common_resources ord A B S = [] \<longleftrightarrow>
      (\<forall>i. i \<notin> set (compare_resources_for_common_resources ord A B S))"
    by (cases "compare_resources_for_common_resources ord A B S") auto
  then show ?thesis
    unfolding requiring_sync_iff [OF ord] each by blast
qed

section \<open>The device manifests\<close>

definition device_manifest_view ::
  "device_manifest_request \<Rightarrow>
     ident set \<times> ident set \<times> (ident \<rightharpoonup> ident set) \<times> (ident \<rightharpoonup> ident set \<times> clock_view)" where
  "device_manifest_view m =
     (set (dmq_known_device_ids m), set (dmq_folder_ids m), users_view (dmq_other_users m),
      resources_view (dmq_resources m))"

definition nothing_missing :: "device_manifest_differences \<Rightarrow> bool" where
  "nothing_missing d \<longleftrightarrow>
     dmd_unknown_users d = [] \<and> dmd_unknown_devices_from_common_users d = [] \<and>
     dmd_unknown_devices_from_current_user d = [] \<and> dmd_unknown_resources d = [] \<and>
     dmd_unknown_folders d = []"

lemma compare_device_manifests_fields:
  assumes "c = compare_device_manifests ord A B"
  shows "dmd_unknown_users (dmc_local_missing c) =
      ord (uwi_user_id ` set (dmq_other_users B) - uwi_user_id ` set (dmq_other_users A))"
    "dmd_unknown_users (dmc_remote_missing c) =
      ord (uwi_user_id ` set (dmq_other_users A) - uwi_user_id ` set (dmq_other_users B))"
    "dmd_unknown_devices_from_common_users (dmc_local_missing c) =
      List.map_filter (devices_only ord (dmq_other_users B) (dmq_other_users A))
        (ord (uwi_user_id ` set (dmq_other_users A) \<inter> uwi_user_id ` set (dmq_other_users B)))"
    "dmd_unknown_devices_from_common_users (dmc_remote_missing c) =
      List.map_filter (devices_only ord (dmq_other_users A) (dmq_other_users B))
        (ord (uwi_user_id ` set (dmq_other_users A) \<inter> uwi_user_id ` set (dmq_other_users B)))"
    "dmd_unknown_devices_from_current_user (dmc_local_missing c) =
      ord (set (dmq_known_device_ids B) - set (dmq_known_device_ids A))"
    "dmd_unknown_devices_from_current_user (dmc_remote_missing c) =
      ord (set (dmq_known_device_ids A) - set (dmq_known_device_ids B))"
    "dmd_unknown_resources (dmc_local_missing c) =
      ord (rmd_resource_id ` set (dmq_resources B) - rmd_resource_id ` set (dmq_resources A))"
    "dmd_unknown_resources (dmc_remote_missing c) =
      ord (rmd_resource_id ` set (dmq_resources A) - rmd_resource_id ` set (dmq_resources B))"
    "dmd_unknown_folders (dmc_local_missing c) = ord (set (dmq_folder_ids B) - set (dmq_folder_ids A))"
    "dmd_unknown_folders (dmc_remote_missing c) = ord (set (dmq_folder_ids A) - set (dmq_folder_ids B))"
    "dmc_resources_requiring_sync c =
      compare_resources_for_common_resources ord (dmq_resources A) (dmq_resources B)
        (rmd_resource_id ` set (dmq_resources A) \<inter> rmd_resource_id ` set (dmq_resources B))"
  by (simp_all add: assms compare_device_manifests_def create_comparison_sets_def compare_sets_def
      compare_devices_for_common_users_def)

lemma both_differences_Nil_iff:
  assumes "iteration_order ord" "finite S" "finite T"
  shows "ord (T - S) = [] \<and> ord (S - T) = [] \<longleftrightarrow> S = T"
  using assms by (auto simp: ord_Nil_iff)

lemma device_comparison_complete_aux:
  assumes ord: "iteration_order ord"
    and clean: "clean_resources (dmq_resources A)" "clean_resources (dmq_resources B)"
    and c: "c = compare_device_manifests ord A B"
  shows "nothing_missing (dmc_local_missing c) \<and> nothing_missing (dmc_remote_missing c) \<and>
      dmc_resources_requiring_sync c = [] \<longleftrightarrow>
    device_manifest_view A = device_manifest_view B"
proof -
  let ?ua = "uwi_user_id ` set (dmq_other_users A)" and ?ub = "uwi_user_id ` set (dmq_other_users B)"
  let ?ra = "rmd_resource_id ` set (dmq_resources A)" and ?rb = "rmd_resource_id ` set (dmq_resources B)"
  note empty = ord_Nil_iff [OF ord] and common = iteration_order_set [OF ord]
  have users: "dmd_unknown_users (dmc_local_missing c) = [] \<and> dmd_unknown_users (dmc_remote_missing c) = [] \<and>
      dmd_unknown_devices_from_common_users (dmc_local_missing c) = [] \<and>
      dmd_unknown_devices_from_common_users (dmc_remote_missing c) = [] \<longleftrightarrow>
      users_view (dmq_other_users A) = users_view (dmq_other_users B)"
    using devices_agree_iff [of ord "dmq_other_users A" "dmq_other_users B" "ord (?ua \<inter> ?ub)"]
      map_eq_iff_common [of "users_view (dmq_other_users A)" "users_view (dmq_other_users B)"]
    by (auto simp: compare_device_manifests_fields [OF c] empty common dom_users_view)
  have resources: "dmd_unknown_resources (dmc_local_missing c) = [] \<and>
      dmd_unknown_resources (dmc_remote_missing c) = [] \<and> dmc_resources_requiring_sync c = [] \<longleftrightarrow>
      resources_view (dmq_resources A) = resources_view (dmq_resources B)"
    using requiring_sync_Nil_iff [OF ord _ clean, of "?ra \<inter> ?rb"]
      map_eq_iff_common [of "resources_view (dmq_resources A)" "resources_view (dmq_resources B)"]
    by (auto simp: compare_device_manifests_fields [OF c] empty dom_resources_view)
  have rest: "dmd_unknown_devices_from_current_user (dmc_local_missing c) = [] \<and>
      dmd_unknown_devices_from_current_user (dmc_remote_missing c) = [] \<longleftrightarrow>
      set (dmq_known_device_ids A) = set (dmq_known_device_ids B)"
    "dmd_unknown_folders (dmc_local_missing c) = [] \<and> dmd_unknown_folders (dmc_remote_missing c) = [] \<longleftrightarrow>
      set (dmq_folder_ids A) = set (dmq_folder_ids B)"
    unfolding compare_device_manifests_fields [OF c]
    by (rule both_differences_Nil_iff [OF ord]; rule finite_set)+
  show ?thesis
    unfolding nothing_missing_def device_manifest_view_def prod.inject
      users [symmetric] resources [symmetric] rest [symmetric] by argo
qed

text \<open>
  The content of a comparison, without the order of its lists: what the two peers have to agree
  on before they exchange what is missing.
\<close>

definition device_differences_content ::
  "device_manifest_differences \<Rightarrow>
     ident set \<times> (ident \<times> ident) set \<times> ident set \<times> ident set \<times> ident set" where
  "device_differences_content d =
     (set (dmd_unknown_users d), named_devices (dmd_unknown_devices_from_common_users d),
      set (dmd_unknown_devices_from_current_user d), set (dmd_unknown_resources d),
      set (dmd_unknown_folders d))"

lemma named_devices_eqI:
  assumes "iteration_order ord" "iteration_order ord'" "finite S"
  shows "named_devices (List.map_filter (devices_only ord A B) (ord S)) =
    named_devices (List.map_filter (devices_only ord' A B) (ord' S))"
  using assms by (auto simp: devices_only_named)

lemma needs_sync_commute:
  assumes "clean_resources A" "clean_resources B"
    and a: "resource_lookup A i = Some a" and b: "resource_lookup B i = Some b"
  shows "resource_needs_sync b a = resource_needs_sync a b"
proof -
  have "distinct_devices (rmd_vector_clocks a)" "distinct_devices (rmd_vector_clocks b)"
    using hash_map_keyed_SomeD [OF a] hash_map_keyed_SomeD [OF b] assms(1,2)
    by (simp_all add: clean_resources_def)
  then show ?thesis by (auto simp: needs_sync_iff_views)
qed

lemma requiring_sync_commute:
  assumes "iteration_order ord" "iteration_order ord'" "finite S"
    and clean: "clean_resources A" "clean_resources B"
  shows "set (compare_resources_for_common_resources ord B A S) =
    set (compare_resources_for_common_resources ord' A B S)"
  using needs_sync_commute [OF clean] by (simp add: set_eq_iff requiring_sync_iff assms(1-3)) blast

lemma device_manifest_inverse_fields [simp]:
  "dmc_local_missing (device_manifest_inverse c) = dmc_remote_missing c"
  "dmc_remote_missing (device_manifest_inverse c) = dmc_local_missing c"
  "dmc_resources_requiring_sync (device_manifest_inverse c) = dmc_resources_requiring_sync c"
  by (simp_all add: device_manifest_inverse_def)

text \<open>
  C33. The result that the responder of a device synchronisation sends back, its comparison seen
  from the other side (\<open>inverse\<close>), is what the requester would have computed itself: both
  peers agree on what each of them misses and on the resources to synchronise, whatever order
  their hash sets iterate in.
\<close>

theorem device_comparison_inverse:
  assumes ord: "iteration_order ord" "iteration_order ord'"
    and clean: "clean_resources (dmq_resources A)" "clean_resources (dmq_resources B)"
    and mine: "mine = device_manifest_inverse (compare_device_manifests ord B A)"
    and theirs: "theirs = compare_device_manifests ord' A B"
  shows "device_differences_content (dmc_local_missing mine) =
      device_differences_content (dmc_local_missing theirs) \<and>
    device_differences_content (dmc_remote_missing mine) =
      device_differences_content (dmc_remote_missing theirs) \<and>
    set (dmc_resources_requiring_sync mine) = set (dmc_resources_requiring_sync theirs)"
  using named_devices_eqI [OF ord] requiring_sync_commute [OF ord _ clean]
  by (simp add: mine device_differences_content_def compare_device_manifests_fields [OF refl]
      compare_device_manifests_fields [OF theirs] iteration_order_set ord Int_commute)

section \<open>The user manifests\<close>

lemma dom_folder_lookup: "dom (folder_lookup fs) = fmd_folder_id ` set fs"
  by (simp add: folder_lookup_def dom_hash_map_keyed)

text \<open>The recipients a list of folders names, and the ones a list of differences names.\<close>

definition folders_view :: "folder_manifest_data list \<Rightarrow> ident \<rightharpoonup> ident set" where
  "folders_view fs f = map_option (\<lambda>x. set (fmd_recipient_user_ids x)) (folder_lookup fs f)"

lemma recipient_diff_None_iff:
  assumes ord: "iteration_order ord" and f: "f \<in> dom (folder_lookup A)" "f \<in> dom (folder_lookup B)"
  shows "recipient_diff ord A B f = None \<longleftrightarrow> folders_view A f = folders_view B f"
proof -
  from f obtain a b where "folder_lookup A f = Some a" "folder_lookup B f = Some b" by blast
  then show ?thesis
    by (simp add: recipient_diff_def Let_def folders_view_def ord_Nil_iff [OF ord]) blast
qed

lemma recipient_diff_SomeD:
  assumes ord: "iteration_order ord" and f: "f \<in> dom (folder_lookup A)" "f \<in> dom (folder_lookup B)"
    and d: "recipient_diff ord A B f = Some d"
  shows "frd_folder_id d = f"
    "set (frd_recipients_only_local_knows d) = the (folders_view A f) - the (folders_view B f)"
    "set (frd_recipients_only_remote_knows d) = the (folders_view B f) - the (folders_view A f)"
proof -
  from f obtain a b where "folder_lookup A f = Some a" "folder_lookup B f = Some b" by blast
  with d show "frd_folder_id d = f"
    "set (frd_recipients_only_local_knows d) = the (folders_view A f) - the (folders_view B f)"
    "set (frd_recipients_only_remote_knows d) = the (folders_view B f) - the (folders_view A f)"
    by (auto simp: recipient_diff_def Let_def folders_view_def iteration_order_set [OF ord]
        split: if_splits)
qed

text \<open>
  C32. The folder comparison of a user synchronisation reports exactly: the folders that only one
  side has, and for each folder both have whose recipients differ one entry with the recipients
  that only the local and only the remote side knows. Its two \<open>unwrap\<close>s never fail.
\<close>

theorem folder_gaps_exact:
  assumes ord: "iteration_order ord"
    and g: "g = process_folder_gaps ord A B"
  shows "set (fcr_folders_only_local_has g) = dom (folders_view A) - dom (folders_view B) \<and>
    set (fcr_folders_only_remote_has g) = dom (folders_view B) - dom (folders_view A) \<and>
    frd_folder_id ` set (fcr_folders_with_recipient_differences g) =
      {f \<in> dom (folders_view A) \<inter> dom (folders_view B). folders_view A f \<noteq> folders_view B f} \<and>
    (\<forall>d \<in> set (fcr_folders_with_recipient_differences g). \<exists>ra rb.
       folders_view A (frd_folder_id d) = Some ra \<and> folders_view B (frd_folder_id d) = Some rb \<and>
       set (frd_recipients_only_local_knows d) = ra - rb \<and>
       set (frd_recipients_only_remote_knows d) = rb - ra)"
proof -
  have dom: "dom (folders_view fs) = dom (folder_lookup fs)" for fs
    by (auto simp: folders_view_def dom_def)
  have fin: "finite (dom (folder_lookup fs))" for fs
    by (simp add: dom_folder_lookup)
  let ?common = "dom (folder_lookup A) \<inter> dom (folder_lookup B)"
  have diffs: "d \<in> set (fcr_folders_with_recipient_differences g) \<longleftrightarrow>
      (\<exists>f \<in> ?common. recipient_diff ord A B f = Some d)" for d
    using iteration_order_set [OF ord, of ?common] fin
    by (simp add: g process_folder_gaps_def in_map_filter Let_def)
  note some = recipient_diff_SomeD [OF ord] and none = recipient_diff_None_iff [OF ord]
  have ids: "frd_folder_id ` set (fcr_folders_with_recipient_differences g) =
      {f \<in> ?common. folders_view A f \<noteq> folders_view B f}"
  proof (rule set_eqI)
    fix f
    have "f \<in> frd_folder_id ` set (fcr_folders_with_recipient_differences g) \<longleftrightarrow>
        (\<exists>d. \<exists>f' \<in> ?common. recipient_diff ord A B f' = Some d \<and> frd_folder_id d = f)"
      unfolding image_iff diffs Bex_def by (metis (no_types) diffs)
    also have "\<dots> \<longleftrightarrow> f \<in> ?common \<and> (\<exists>d. recipient_diff ord A B f = Some d)"
      using some(1) by blast
    also have "\<dots> \<longleftrightarrow> f \<in> ?common \<and> folders_view A f \<noteq> folders_view B f"
      using none [of f A B] by (metis IntE not_None_eq)
    finally show "f \<in> frd_folder_id ` set (fcr_folders_with_recipient_differences g) \<longleftrightarrow>
        f \<in> {f \<in> ?common. folders_view A f \<noteq> folders_view B f}" by simp
  qed
  have all: "\<exists>ra rb. folders_view A (frd_folder_id d) = Some ra \<and>
      folders_view B (frd_folder_id d) = Some rb \<and>
      set (frd_recipients_only_local_knows d) = ra - rb \<and>
      set (frd_recipients_only_remote_knows d) = rb - ra"
    if "d \<in> set (fcr_folders_with_recipient_differences g)" for d
  proof -
    from that obtain f where f: "f \<in> dom (folder_lookup A)" "f \<in> dom (folder_lookup B)"
        "recipient_diff ord A B f = Some d"
      by (auto simp: diffs)
    then obtain ra rb where "folders_view A f = Some ra" "folders_view B f = Some rb"
      by (auto simp: folders_view_def)
    then show ?thesis using some [OF f] by simp
  qed
  show ?thesis
    using ids all iteration_order_set [OF ord] fin
    by (auto simp: dom g process_folder_gaps_def Let_def)
qed

end
