(* ===== verification/Sync_Service.thy ===== *)
theory Sync_Service
  imports Resource_Service Sync_Compare
begin

text \<open>
  \<open>services/src/sync_service.rs\<close> over the repositories: building the manifest of a device and of
  the data shared with a user, comparing it with a peer's, collecting what the peer misses and
  storing what it sent. A \<open>&mut\<close> payload that the caller gets back changed is part of the result.
  The order of hash sets is the parameter \<open>ord\<close>.
\<close>

section \<open>Device manifests\<close>

definition get_device_manifest ::
  "(ident set \<Rightarrow> ident list) \<Rightarrow> ident \<Rightarrow> device_manifest_request service" where
  "get_device_manifest ord current_user_id =
     sbind (repo_call (get_resource_manifest_data None)) (\<lambda>resource_manifest.
     sbind (repo_call (get_other_users_with_device_ids ord)) (\<lambda>user_and_devices.
     sbind (repo_call (get_device_ids_by_user_id current_user_id)) (\<lambda>current_user_devices.
     sbind (repo_call folder_find_all) (\<lambda>folders.
     sret \<lparr>dmq_known_device_ids = current_user_devices, dmq_other_users = user_and_devices,
           dmq_folder_ids = map fol_id folders, dmq_resources = resource_manifest\<rparr>))))"

definition process_device_manifest_request ::
  "(ident set \<Rightarrow> ident list) \<Rightarrow> device_manifest_request \<Rightarrow> ident
     \<Rightarrow> device_manifest_comparison service" where
  "process_device_manifest_request ord remote_manifest_payload current_user_id =
     sbind (get_device_manifest ord current_user_id) (\<lambda>local_manifest_payload.
     sret (compare_device_manifests ord local_manifest_payload remote_manifest_payload))"

definition create_device_network_sync_payload ::
  "device_manifest_differences \<Rightarrow> device_network_sync service" where
  "create_device_network_sync_payload manifest_diff =
     sbind (repo_call (get_users_with_devices_by_user_ids (dmd_unknown_users manifest_diff))) (\<lambda>users.
       (let common_user_device_ids =
          concat (map uwi_device_ids (dmd_unknown_devices_from_common_users manifest_diff)) in
     sbind (repo_call (get_devices_by_ids common_user_device_ids)) (\<lambda>common_devices.
     sbind (repo_call (get_devices_by_ids (dmd_unknown_devices_from_current_user manifest_diff)))
       (\<lambda>own_devices.
     sbind (repo_call (get_folders_by_ids (dmd_unknown_folders manifest_diff))) (\<lambda>unknown_folders.
     sret \<lparr>dns_unknown_users_with_devices = users,
           dns_unknown_devices_from_common_users = common_devices,
           dns_unknown_devices_from_current_user = own_devices,
           dns_unknown_folders = unknown_folders\<rparr>)))))"

definition process_device_network_sync :: "device_network_sync \<Rightarrow> device_network_sync service" where
  "process_device_network_sync payload =
     (let payload = payload\<lparr>dns_unknown_users_with_devices :=
            map (\<lambda>ud. ud\<lparr>uwd_user := (uwd_user ud)\<lparr>usr_owner := False\<rparr>\<rparr>)
              (dns_unknown_users_with_devices payload)\<rparr> in
      sbind (repo_call (add_users_with_devices_bulk (dns_unknown_users_with_devices payload))) (\<lambda>_.
      sbind (repo_call (add_folders_bulk (dns_unknown_folders payload))) (\<lambda>_.
      sbind (repo_call (device_save_many (dns_unknown_devices_from_common_users payload))) (\<lambda>_.
      sbind (repo_call (device_save_many (dns_unknown_devices_from_current_user payload))) (\<lambda>_.
      sret payload)))))"

section \<open>Resources sent and received\<close>

definition get_resource_for_remote_addition :: "ident \<Rightarrow> device \<Rightarrow> resource_sync_data service" where
  "get_resource_for_remote_addition resource_id device =
     sbind (create_entry_for_new_device resource_id (dev_id device)) (\<lambda>new_vector_clock.
     sbind (repo_call (save_vector_clock new_vector_clock)) (\<lambda>_.
     repo_call (get_resource_sync_data resource_id)))"

text \<open>
  A resource from another user goes to the folder it names if that is known here, else to the
  folder it was created in, else to the default folder; an error other than \<open>NotFound\<close> of the
  first lookup leaves the payload as it is.
\<close>

definition place_resource :: "resource_sync_data \<Rightarrow> resource_sync_data service" where
  "place_resource payload =
     scatch (folder_find_by_id (res_folder_id (rsd_resource payload)))
       (\<lambda>_. sret payload)
       (\<lambda>e. if e \<noteq> NotFound then sret payload
            else scatch (folder_find_by_id (res_created_folder_id (rsd_resource payload)))
              (\<lambda>_. sret (payload\<lparr>rsd_resource := (rsd_resource payload)
                           \<lparr>res_folder_id := res_created_folder_id (rsd_resource payload)\<rparr>\<rparr>))
              (\<lambda>_. scatch get_default_folder
                (\<lambda>default_folder. sret (payload\<lparr>rsd_resource := (rsd_resource payload)
                                    \<lparr>res_folder_id := fol_id default_folder\<rparr>\<rparr>))
                (\<lambda>_. sthrow (Sync DefaultFolderNotFound))))"

definition add_resource_sync ::
  "resource_sync_data \<Rightarrow> connection_type \<Rightarrow> resource_sync_data service" where
  "add_resource_sync payload connection =
     sbind (case connection of UserConn \<Rightarrow> place_resource payload | DeviceConn \<Rightarrow> sret payload) (\<lambda>payload.
     sbind (repo_call (save_resource_sync_data payload)) (\<lambda>_. sret payload))"

section \<open>User manifests\<close>

definition process_first_user_connection_request :: "user_with_devices \<Rightarrow> unit service" where
  "process_first_user_connection_request user_with_devices =
     repo_call (add_users_with_devices_bulk [user_with_devices])"

definition get_user_manifest ::
  "(ident set \<Rightarrow> ident list) \<Rightarrow> ident \<Rightarrow> ident \<Rightarrow> user_manifest_request service" where
  "get_user_manifest ord peer_user_id current_user_id =
     sbind (repo_call (get_user_share_records peer_user_id)) (\<lambda>share_records.
     sbind (repo_call (get_folder_manifest_for_user peer_user_id)) (\<lambda>folder_manifest.
       (let unique_resource_ids = set (map shr_resource_id share_records);
            unique_user_ids = set (map shr_recipient_user_id share_records)
              \<union> {current_user_id, peer_user_id}
              \<union> set (concat (map fmd_recipient_user_ids folder_manifest)) in
     sbind (repo_call (get_users_with_device_ids_by_user_ids ord (ord unique_user_ids))) (\<lambda>user_manifest.
     sbind (repo_call (get_resource_manifest_data (Some (ord unique_resource_ids)))) (\<lambda>resource_manifest.
     sret \<lparr>umq_users = user_manifest, umq_resources = resource_manifest,
           umq_folders = folder_manifest\<rparr>)))))"

definition process_user_manifest_request ::
  "(ident set \<Rightarrow> ident list) \<Rightarrow> user_manifest_request \<Rightarrow> ident \<Rightarrow> ident
     \<Rightarrow> user_manifest_comparison service" where
  "process_user_manifest_request ord remote_payload peer_user_id current_user_id =
     sbind (get_user_manifest ord peer_user_id current_user_id) (\<lambda>local_payload.
     sret (compare_user_manifests ord local_payload remote_payload))"

definition create_user_network_sync_payload ::
  "crypto_lib \<Rightarrow> crypto_utils \<Rightarrow> user_manifest_differences \<Rightarrow> user \<Rightarrow> string
     \<Rightarrow> user_network_sync service" where
  "create_user_network_sync_payload L cu manifest_diff peer_user domain =
     sbind (repo_call (get_users_with_devices_by_user_ids (umd_unknown_users manifest_diff))) (\<lambda>users.
     sbind (repo_call get_ucan_key) (\<lambda>encrypted_ucan_pvt_key.
     sbind (smap (\<lambda>ud. sbind (crypto_run (issue_delegated_user_connect_token L cu
                                 encrypted_ucan_pvt_key domain (usr_id (uwd_user ud))
                                 (usr_ucan_pub_key peer_user) (usr_ucan_token (uwd_user ud))))
                        (\<lambda>token. sret (ud\<lparr>uwd_user := (uwd_user ud)\<lparr>usr_ucan_token := token\<rparr>\<rparr>)))
              users) (\<lambda>users.
       (let common_user_device_ids =
          concat (map uwi_device_ids (umd_unknown_devices_from_common_users manifest_diff)) in
     sbind (repo_call (get_devices_by_ids common_user_device_ids)) (\<lambda>devices.
     sret \<lparr>uns_users = users, uns_devices = devices\<rparr>)))))"

definition process_user_network_sync_payload :: "user_network_sync \<Rightarrow> user_network_sync service" where
  "process_user_network_sync_payload payload =
     (let payload = payload\<lparr>uns_users := map (\<lambda>ud. ud\<lparr>uwd_user := (uwd_user ud)
            \<lparr>usr_owner := False, usr_first_sync := False\<rparr>\<rparr>) (uns_users payload)\<rparr> in
      sbind (repo_call (add_users_with_devices_bulk (uns_users payload))) (\<lambda>_.
      sbind (repo_call (device_save_many (uns_devices payload))) (\<lambda>_.
      sret payload)))"

lemma keeps_sync_service [stmt_keeps]:
  "keeps db_inv (get_device_manifest ord u)"
  "keeps db_inv (process_device_manifest_request ord m u)"
  "keeps db_inv (create_device_network_sync_payload dd)"
  "keeps db_inv (process_device_network_sync dns)"
  "keeps db_inv (get_resource_for_remote_addition i d)" "keeps db_inv (add_resource_sync sd ct)"
  "keeps db_inv (process_first_user_connection_request ud)"
  "keeps db_inv (get_user_manifest ord p u)" "keeps db_inv (process_user_manifest_request ord um p u)"
  "keeps db_inv (create_user_network_sync_payload L cu umd pu dmn)"
  "keeps db_inv (process_user_network_sync_payload uns)"
  unfolding get_device_manifest_def process_device_manifest_request_def
    create_device_network_sync_payload_def process_device_network_sync_def
    get_resource_for_remote_addition_def add_resource_sync_def place_resource_def
    process_first_user_connection_request_def get_user_manifest_def process_user_manifest_request_def
    create_user_network_sync_payload_def process_user_network_sync_payload_def
    create_entry_for_new_device_def vc_new_def Let_def
  by (auto intro!: stmt_keeps crypto_keeps split: connection_type.splits)

section \<open>What a manifest of the database says\<close>

lemma take_groups_eq:
  "distinct ids \<Longrightarrow> take_groups S C ids = map (\<lambda>i.
     \<lparr>rmd_resource_id = i, rmd_share_record_ids = (case S i of None \<Rightarrow> [] | Some vs \<Rightarrow> vs),
      rmd_vector_clocks = (case C i of None \<Rightarrow> [] | Some vs \<Rightarrow> vs)\<rparr>) ids"
  by (induction ids arbitrary: S C) (auto intro!: map_cong)

definition live_resource :: "world \<Rightarrow> ident \<Rightarrow> bool" where
  "live_resource w i \<longleftrightarrow> (\<exists>r \<in> set (t_resources w). rr_id r = i \<and> \<not> rr_deleted r)"

definition resources_content :: "world \<Rightarrow> ident \<rightharpoonup> ident set \<times> clock_view" where
  "resources_content w i = (if live_resource w i
     then Some (shr_id ` stored_shares w i, stored_view w i) else None)"

definition users_content :: "world \<Rightarrow> ident \<rightharpoonup> ident set" where
  "users_content w u =
     (let ds = {dr_id d | d. d \<in> set (t_devices w) \<and> dr_user_id d = u} in
      if (\<exists>x \<in> set (t_users w). ur_id x = u \<and> \<not> ur_owner x) \<and> ds \<noteq> {} then Some ds else None)"

text \<open>What two devices of a user synchronise: the content of a replica of user \<open>u\<close>.\<close>

definition replica_content ::
  "world \<Rightarrow> ident \<Rightarrow>
     ident set \<times> ident set \<times> (ident \<rightharpoonup> ident set) \<times> (ident \<rightharpoonup> ident set \<times> clock_view)" where
  "replica_content w u =
     ({dr_id d | d. d \<in> set (t_devices w) \<and> dr_user_id d = u},
      {fr_id f | f. f \<in> set (t_folders w) \<and> \<not> fr_deleted f},
      users_content w, resources_content w)"

lemma replica_content_frame [simp]: "replica_content (w\<lparr>pool_n := n\<rparr>) = replica_content w"
  by (simp add: fun_eq_iff replica_content_def users_content_def resources_content_def
      live_resource_def)

lemma manifest_clocks:
  assumes "i \<in> set ids"
  shows "(case group_pairs (map (\<lambda>c. (cr_resource_id c, clock_load c))
      (filter (\<lambda>c. cr_resource_id c \<in> set ids) (t_clocks w))) i of None \<Rightarrow> [] | Some vs \<Rightarrow> vs) =
    stored_clocks w i"
  using assms by (auto simp: group_pairs_get stored_clocks_def filter_map comp_def intro!: arg_cong [where f = "map clock_load"] filter_cong)

lemma manifest_shares:
  assumes "i \<in> set ids"
  shows "set (case group_pairs (map (\<lambda>s. (sr_resource_id s, sr_id s))
      (filter (\<lambda>s. sr_resource_id s \<in> set ids) (t_shares w))) i of None \<Rightarrow> [] | Some vs \<Rightarrow> vs) =
    shr_id ` stored_shares w i"
  using assms by (auto simp: group_pairs_get stored_shares_def share_record_load_def image_iff)

lemma get_resource_manifest_data_ok:
  assumes inv: "db_inv w" and ok: "get_resource_manifest_data None w = (Inr rs, w')"
  shows "clean_resources rs" "resources_view rs = resources_content w"
    "w' = w\<lparr>pool_n := Suc (pool_n w)\<rparr>"
proof -
  let ?ids = "map rr_id (filter (\<lambda>r. \<not> rr_deleted r) (t_resources w))"
  let ?S = "group_pairs (map (\<lambda>s. (sr_resource_id s, sr_id s))
    (filter (\<lambda>s. sr_resource_id s \<in> set ?ids) (t_shares w)))"
  let ?C = "group_pairs (map (\<lambda>c. (cr_resource_id c, clock_load c))
    (filter (\<lambda>c. cr_resource_id c \<in> set ?ids) (t_clocks w)))"
  have dist: "distinct ?ids"
    using resources_tbl.clash_free_distinct [OF db_inv_clash_free(4) [OF inv]]
    by (rule distinct_map_filter)
  have run: "rs = take_groups ?S ?C ?ids \<and> w' = w\<lparr>pool_n := Suc (pool_n w)\<rparr>"
    using ok by (auto simp: get_resource_manifest_data_def with_conn_def get_conn_def sbind_def
        load_rows_def split: if_splits)
  then show "w' = w\<lparr>pool_n := Suc (pool_n w)\<rparr>" by simp
  define row where "row i = \<lparr>rmd_resource_id = i,
    rmd_share_record_ids = (case ?S i of None \<Rightarrow> [] | Some vs \<Rightarrow> vs),
    rmd_vector_clocks = (case ?C i of None \<Rightarrow> [] | Some vs \<Rightarrow> vs)\<rparr>" for i
  have rs: "rs = map row ?ids"
    using run by (simp only: take_groups_eq [OF dist] row_def [abs_def])
  have row: "rmd_resource_id (row i) = i" for i by (simp add: row_def)
  have clocks: "rmd_vector_clocks (row i) = stored_clocks w i"
    and shares: "set (rmd_share_record_ids (row i)) = shr_id ` stored_shares w i"
    if "i \<in> set ?ids" for i
    using manifest_clocks [OF that] manifest_shares [OF that] by (simp_all only: row_def resource_manifest_data.simps)
  show "clean_resources rs"
    using clocks distinct_stored_clocks [OF inv] by (auto simp: clean_resources_def rs)
  show "resources_view rs = resources_content w"
  proof
    fix i
    have dist': "distinct (map rmd_resource_id rs)"
      using dist by (simp add: rs comp_def row)
    show "resources_view rs i = resources_content w i"
    proof (cases "i \<in> set ?ids")
      case True
      then have "resource_lookup rs i = Some (row i)"
        by (simp only: hash_map_keyed [OF dist'] row) (force simp: rs)
      moreover have "live_resource w i" using True by (auto simp: live_resource_def)
      ultimately show ?thesis
        using clocks [OF True] shares [OF True]
        by (simp add: resources_view_def resources_content_def stored_view_def)
    next
      case False
      then have "i \<notin> rmd_resource_id ` set rs" by (auto simp: rs row)
      then have "resource_lookup rs i = None" by (simp only: hash_map_keyed_None simp_thms)
      moreover have "\<not> live_resource w i" using False by (auto simp: live_resource_def)
      ultimately show ?thesis by (simp add: resources_view_def resources_content_def)
    qed
  qed
qed

lemma set_joined_device_ids:
  "set (joined_device_ids p w) = {(dr_user_id d, dr_id d) | d. d \<in> set (t_devices w) \<and>
     (\<exists>u \<in> set (t_users w). ur_id u = dr_user_id d \<and> p u)}"
  by (auto simp: joined_device_ids_def)

lemma users_with_ids_view:
  assumes ord: "iteration_order ord"
  shows "users_view (users_with_ids ord (group_pairs ps)) u = map_option set (group_pairs ps u)"
proof -
  let ?us = "users_with_ids ord (group_pairs ps)"
  have fin: "finite (dom (group_pairs ps))" by (simp add: dom_group_pairs)
  have ids: "map uwi_user_id ?us = ord (dom (group_pairs ps))"
    by (simp add: users_with_ids_def comp_def)
  then have dist: "distinct (map uwi_user_id ?us)"
    using iteration_order_distinct [OF ord fin] by simp
  show ?thesis
  proof (cases "group_pairs ps u")
    case None
    then have "u \<notin> uwi_user_id ` set ?us"
      using arg_cong [OF ids, of set] iteration_order_set [OF ord fin] by auto
    with None show ?thesis by (simp add: users_view_def hash_map_keyed_None)
  next
    case (Some ds)
    then have "u \<in> set (ord (dom (group_pairs ps)))"
      using iteration_order_set [OF ord fin] by auto
    then have "\<lparr>uwi_user_id = u, uwi_device_ids = ds\<rparr> \<in> set ?us"
      using Some by (force simp: users_with_ids_def)
    then have "user_lookup ?us u = Some \<lparr>uwi_user_id = u, uwi_device_ids = ds\<rparr>"
      by (simp add: hash_map_keyed [OF dist])
    with Some show ?thesis by (simp add: users_view_def)
  qed
qed

lemma group_pairs_set:
  "map_option set (group_pairs ps u) =
     (let vs = {v. (u, v) \<in> set ps} in if vs = {} then None else Some vs)"
proof -
  have "set (map snd (filter (\<lambda>p. fst p = u) ps)) = {v. (u, v) \<in> set ps}" by force
  then show ?thesis
    by (auto simp: group_pairs_eq Let_def filter_empty_conv)
qed

lemma get_other_users_ok:
  assumes ord: "iteration_order ord" and ok: "get_other_users_with_device_ids ord w = (Inr us, w')"
  shows "users_view us = users_content w" "w' = w\<lparr>pool_n := Suc (pool_n w)\<rparr>"
proof -
  have us: "us = users_with_ids ord (group_pairs (joined_device_ids (\<lambda>u. \<not> ur_owner u) w))"
    and w': "w' = w\<lparr>pool_n := Suc (pool_n w)\<rparr>"
    using ok by (auto simp: get_other_users_with_device_ids_def with_conn_def get_conn_def sbind_def
        joined_device_ids_def split: if_splits)
  show "w' = w\<lparr>pool_n := Suc (pool_n w)\<rparr>" by (rule w')
  show "users_view us = users_content w"
  proof
    fix u
    have "{v. (u, v) \<in> set (joined_device_ids (\<lambda>u. \<not> ur_owner u) w)} =
      (if \<exists>x \<in> set (t_users w). ur_id x = u \<and> \<not> ur_owner x
       then {dr_id d | d. d \<in> set (t_devices w) \<and> dr_user_id d = u} else {})"
      by (auto simp: set_joined_device_ids; metis)
    then show "users_view us u = users_content w u"
      by (simp add: us users_with_ids_view [OF ord] group_pairs_set users_content_def Let_def)
  qed
qed

lemma get_device_manifest_ok:
  assumes ord: "iteration_order ord" and inv: "db_inv w"
    and ok: "get_device_manifest ord u w = (Inr m, w')"
  shows "clean_resources (dmq_resources m)" "device_manifest_view m = replica_content w u"
proof -
  from ok obtain rs us ds fs w1 w2 w3 where
    rs: "get_resource_manifest_data None w = (Inr rs, w1)" and
    us: "get_other_users_with_device_ids ord w1 = (Inr us, w2)" and
    ds: "get_device_ids_by_user_id u w2 = (Inr ds, w3)" and
    fs: "folder_find_all w3 = (Inr fs, w')" and
    m: "m = \<lparr>dmq_known_device_ids = ds, dmq_other_users = us, dmq_folder_ids = map fol_id fs,
      dmq_resources = rs\<rparr>"
    by (auto simp: get_device_manifest_def sbind_eq_Inr)
  note r = get_resource_manifest_data_ok [OF inv rs] and o = get_other_users_ok [OF ord us]
  have d: "ds = map dr_id (filter (\<lambda>d. dr_user_id d = u) (t_devices w2))"
      "w3 = w2\<lparr>pool_n := Suc (pool_n w2)\<rparr>"
    using ds by (auto simp: get_device_ids_by_user_id_def with_conn_def get_conn_def sbind_def
        load_rows_def split: if_splits)
  have f: "fs = map folder_load (filter (\<lambda>f. \<not> fr_deleted f) (t_folders w3))"
    using fs by (auto simp: folder_find_all_def with_conn_def get_conn_def sbind_def
        load_rows_def split: if_splits)
  have "users_content w1 = users_content w"
    by (simp add: r(3) fun_eq_iff users_content_def)
  then show "device_manifest_view m = replica_content w u"
    by (auto simp: device_manifest_view_def replica_content_def m r o d f folder_load_def folders_columns_def)
  show "clean_resources (dmq_resources m)" by (simp add: m r(1))
qed

text \<open>
  C7. Device synchronisation finds every difference: when a device answers the manifest of another
  device, its comparison is empty (nothing missing on either side, no resource to synchronise)
  exactly when the two databases hold the same content: the user's devices, the live folders,
  the other users with their devices, and the live resources with their share records and clocks.
\<close>

theorem device_sync_finds_all_differences:
  assumes ord: "iteration_order ord" "iteration_order ord'"
    and inv: "db_inv wa" "db_inv wb"
    and request: "get_device_manifest ord u wa = (Inr m, wa')"
    and response: "process_device_manifest_request ord' m u wb = (Inr c, wb')"
  shows "nothing_missing (dmc_local_missing c) \<and> nothing_missing (dmc_remote_missing c) \<and>
      dmc_resources_requiring_sync c = [] \<longleftrightarrow> replica_content wa u = replica_content wb u"
proof -
  note A = get_device_manifest_ok [OF ord(1) inv(1) request]
  from response obtain l where l: "get_device_manifest ord' u wb = (Inr l, wb')"
    and c: "c = compare_device_manifests ord' l m"
    by (auto simp: process_device_manifest_request_def sbind_eq_Inr)
  note B = get_device_manifest_ok [OF ord(2) inv(2) l]
  have "nothing_missing (dmc_local_missing c) \<and> nothing_missing (dmc_remote_missing c) \<and>
      dmc_resources_requiring_sync c = [] \<longleftrightarrow> device_manifest_view l = device_manifest_view m"
    by (rule device_comparison_complete_aux [OF ord(2) B(1) A(1) c])
  then show ?thesis by (auto simp: A(2) B(2))
qed

end
