(* ===== verification/Samples.thy ===== *)
theory Samples
  imports Repo_Properties Sync_Service
begin

text \<open>
  Two concrete replicas of one user's data, the databases of a laptop and a phone, on which the
  theorems of the other theories are applied: each witness shows that the hypotheses of a theorem
  hold there and what it then says.
\<close>

section \<open>The databases of two devices\<close>

definition user_sample :: "ident \<Rightarrow> bool \<Rightarrow> users_row" where
  "user_sample i own =
     \<lparr>ur_id = i, ur_username = i, ur_public_key = ''pk'', ur_updated_at = 5, ur_created_at = 3,
      ur_signature = ''sig'', ur_ucan_token = ''tok'', ur_ucan_pub_key = ''upk'',
      ur_ucan_cid = i, ur_owner = own, ur_first_sync = False, ur_deleted = False,
      ur_deleted_at = None\<rparr>"

definition device_sample :: "ident \<Rightarrow> ident \<Rightarrow> devices_row" where
  "device_sample i u =
     \<lparr>dr_id = i, dr_device_key = i, dr_user_id = u, dr_updated_at = 5, dr_created_at = 3,
      dr_last_synced_at = None\<rparr>"

definition folder_sample :: "ident \<Rightarrow> bool \<Rightarrow> folders_row" where
  "folder_sample i dflt =
     \<lparr>fr_id = i, fr_name = i, fr_description = None, fr_default_folder = dflt,
      fr_parent_folder_id = None, fr_deleted = False, fr_deleted_at = None, fr_updated_at = 5,
      fr_created_at = 3\<rparr>"

definition resource_sample :: "ident \<Rightarrow> ident \<Rightarrow> resources_row" where
  "resource_sample i f =
     \<lparr>rr_id = i, rr_resource_type = ''notes'', rr_data = ''data'', rr_folder_id = f,
      rr_created_folder_id = f, rr_signature = ''sig'', rr_favourite = False,
      rr_created_by = ''ann'', rr_last_accessed = 4, rr_deleted = False, rr_deleted_at = None,
      rr_updated_at = 5, rr_created_at = 3\<rparr>"

definition clock_sample :: "ident \<Rightarrow> ident \<Rightarrow> i32 \<Rightarrow> clocks_row" where
  "clock_sample i d v =
     \<lparr>cr_id = i, cr_resource_id = ''note'', cr_device_id = d, cr_clock_value = v,
      cr_created_at = 3, cr_updated_at = 5\<rparr>"

definition key_sample :: "ident \<Rightarrow> ident \<Rightarrow> keys_row" where
  "key_sample i u =
     \<lparr>kr_id = i, kr_resource_id = ''note'', kr_user_id = u, kr_encrypted_key = ''ek'',
      kr_is_owner = False, kr_created_at = 3, kr_updated_at = 3\<rparr>"

definition share_sample :: "ident \<Rightarrow> shares_row" where
  "share_sample i =
     \<lparr>sr_id = i, sr_resource_id = ''note'', sr_shared_by_user_id = ''ann'',
      sr_recipient_user_id = ''bob'', sr_permission_level = ''read'', sr_ucan_token = ''t'',
      sr_ucan_cid = ''c'', sr_operation_type = ''share'', sr_created_at = 3, sr_updated_at = 3\<rparr>"

definition blank :: world where
  "blank = \<lparr>uuid_src = (\<lambda>n. replicate (Suc n) (CHR ''u'')), uuid_n = 0, time_src = int,
     time_n = 0, rand_src = of_nat, rand_n = 0, pool_src = (\<lambda>_. True), pool_n = 0, fk_on = True, t_users = [], t_folders = [],
     t_devices = [], t_resources = [], t_clocks = [], t_keys = [], t_shares = [], t_store = [],
     t_fshares = []\<rparr>"

definition paired :: world where
  "paired = blank\<lparr>t_users := [user_sample ''ann'' True, user_sample ''bob'' False],
     t_folders := [folder_sample ''inbox'' True],
     t_devices := [device_sample ''lap'' ''ann'', device_sample ''tel'' ''ann'',
       device_sample ''pc'' ''bob'']\<rparr>"

definition laptop :: world where
  "laptop = paired\<lparr>t_resources := [resource_sample ''note'' ''inbox''],
     t_clocks := [clock_sample ''c1'' ''lap'' 2, clock_sample ''c2'' ''tel'' 1],
     t_keys := [key_sample ''k1'' ''ann''], t_shares := [share_sample ''s1'']\<rparr>"

definition phone :: world where
  "phone = paired\<lparr>t_resources := [resource_sample ''note'' ''inbox''],
     t_clocks := [clock_sample ''c1'' ''lap'' 1, clock_sample ''c3'' ''tel'' 4],
     t_keys := [key_sample ''k2'' ''bob''], t_shares := [share_sample ''s2'']\<rparr>"

lemmas sample_rows = user_sample_def device_sample_def folder_sample_def resource_sample_def
  clock_sample_def key_sample_def share_sample_def

lemmas samples = sample_rows blank_def paired_def laptop_def phone_def

lemma db_inv_samples: "db_inv paired" "db_inv laptop" "db_inv phone"
  by (simp_all add: samples db_inv_defs clash_free_def clash_defs refs_defs has_defs)

section \<open>The theorems at work\<close>

lemma run_split: "fst p = r \<Longrightarrow> p = (r, snd p)"
  by (cases p) simp

lemmas run_simps = sbind_def smap_err_def scatch_def with_conn_def get_conn_def run_stmt_def
  transaction_def rollback_def on_table_def first_row_def load_rows_def fresh_uuid_def
  now_millis_def ins_all_def repo_call_def Let_def clash_defs refs_defs has_defs put_defs
  tbl_insert_def tbl_insert_ignore_def tbl_upsert_def tbl_update_def tbl_delete_def

lemma failed_write_changes_nothing_witness:
  "fst (run_write (Key_save (resource_key_load (key_sample ''k1'' ''ann''))) blank) =
     Inl (DatabaseError (StatementFailed ForeignKeyViolation)) \<and>
   (\<exists>i t p. snd (run_write (Key_save (resource_key_load (key_sample ''k1'' ''ann''))) blank) =
     blank\<lparr>uuid_n := i, time_n := t, pool_n := p\<rparr>)"
proof -
  let ?op = "Key_save (resource_key_load (key_sample ''k1'' ''ann''))"
  have e: "fst (run_write ?op blank) = Inl (DatabaseError (StatementFailed ForeignKeyViolation))"
    by (simp add: key_save_def ins_key_def run_simps samples resource_key_load_def
        resource_key_to_row_def)
  with failed_write_changes_nothing [OF run_split [OF e]] show ?thesis by blast
qed

lemma resource_replication_witness:
  "\<exists>v. save_resource_sync_data (projr (fst (get_resource_sync_data ''note'' laptop))) paired = (Inr (), v) \<and>
     fst (get_resource_sync_data ''note'' v) = fst (get_resource_sync_data ''note'' laptop)"
proof -
  obtain sd where sd: "fst (get_resource_sync_data ''note'' laptop) = Inr sd"
    by (simp add: get_resource_sync_data_def run_simps samples)
  have "unseen paired sd" "parties_known paired sd"
    using sd by (auto simp: get_resource_sync_data_def run_simps samples unseen_def parties_known_def
        resource_referenced_def resource_load_def resource_key_load_def share_record_load_def
        clock_load_def)
  from resource_replication [OF db_inv_samples(2,1) run_split [OF sd] this]
  show ?thesis by (simp add: sd) (simp add: paired_def blank_def)
qed

lemma find_by_folder_exact_witness:
  "\<exists>rs. fst (find_by_folder ''inbox'' ''ann'' laptop) = Inr rs \<and> length rs = 1 \<and>
     distinct (map (\<lambda>x. res_id (rwk_resource x)) rs)"
proof -
  obtain rs where rs: "fst (find_by_folder ''inbox'' ''ann'' laptop) = Inr rs" "length rs = 1"
    by (simp add: find_by_folder_def query_resources_with_keys_def joined_resource_keys_def run_simps samples)
  from find_by_folder_exact [OF db_inv_samples(2) run_split [OF rs(1)]] rs show ?thesis by blast
qed

lemma folder_soft_delete_exact_witness:
  "t_resources (snd (folder_soft_delete ''inbox'' laptop)) =
     [(resource_sample ''note'' ''inbox'')\<lparr>rr_deleted := True, rr_deleted_at := Some 0, rr_updated_at := 0\<rparr>] \<and>
   t_keys (snd (folder_soft_delete ''inbox'' laptop)) = t_keys laptop"
proof -
  have "fst (folder_soft_delete ''inbox'' laptop) = Inr ()"
    by (simp add: folder_soft_delete_def upd_resources_def upd_folders_def run_simps samples)
  from folder_soft_delete_exact [OF run_split [OF this]] show ?thesis by (simp add: samples)
qed

lemma increment_vector_clock_view_witness:
  "stored_view (snd (increment_vector_clock ''note'' ''lap'' laptop)) ''note'' ''lap'' = Some 3"
proof -
  let ?m = "increment_vector_clock ''note'' ''lap''"
  have view: "stored_view laptop ''note'' ''lap'' = Some 2"
    by (simp add: stored_view_def stored_clocks_def clock_map_def samples clock_load_def)
  obtain c where "fst (?m laptop) = Inr c"
    by (simp add: increment_vector_clock_def upd_clocks_def run_simps samples)
  from increment_vector_clock_view [OF db_inv_samples(2) run_split [OF this]]
  show ?thesis by (simp add: view clock_fits_def)
qed

lemmas sample_views = stored_view_def stored_clocks_def stored_shares_def stored_keys_def
  clock_map_def fitting_def clock_load_def share_record_load_def resource_key_load_def

lemma stored_samples:
  "stored_shares laptop ''note'' = {share_record_load (share_sample ''s1'')}"
  "stored_shares phone ''note'' = {share_record_load (share_sample ''s2'')}"
  "stored_keys laptop ''note'' = {resource_key_load (key_sample ''k1'' ''ann'')}"
  "stored_keys phone ''note'' = {resource_key_load (key_sample ''k2'' ''bob'')}"
  by (auto simp: samples stored_shares_def stored_keys_def)

lemma clock_exchange_converges_witness:
  "\<exists>a b. stored_view a ''note'' = stored_view b ''note'' \<and> stored_view a ''note'' ''lap'' = Some 2 \<and>
     stored_view a ''note'' ''tel'' = Some 4"
proof -
  obtain add upd where m: "fst (merge_vector_clocks ''note'' (stored_clocks laptop ''note'') phone) =
      Inr (add, upd)" and u: "fst (service_update_vector_clocks add upd laptop) = Inr ()"
    by (simp add: merge_vector_clocks_def get_vector_clocks_for_resource_def vc_merge_def
        merge_remote_entry_def merge_local_entry_def empty_merge_def update_vector_clocks_def update_stored_clock_def
        upd_clocks_def service_update_vector_clocks_def run_simps samples sample_views clock_to_row_def)
  have fit: "fitting (stored_clocks laptop ''note'')" "fitting (stored_clocks phone ''note'')"
    by (simp_all add: samples sample_views clock_fits_def)
  have views: "stored_view laptop ''note'' = [''lap'' \<mapsto> 2, ''tel'' \<mapsto> 1]"
    "stored_view phone ''note'' = [''lap'' \<mapsto> 1, ''tel'' \<mapsto> 4]"
    by (auto simp: samples sample_views fun_eq_iff)
  from clock_exchange_converges [OF db_inv_samples(2,3) fit run_split [OF m] run_split [OF u]]
  have "stored_view (snd (service_update_vector_clocks add upd laptop)) ''note'' =
      vjoin (stored_view laptop ''note'') (stored_view phone ''note'')"
    "stored_view (snd (merge_vector_clocks ''note'' (stored_clocks laptop ''note'') phone)) ''note'' =
      vjoin (stored_view laptop ''note'') (stored_view phone ''note'')"
    by blast+
  then show ?thesis
    by (intro exI [of _ "snd (service_update_vector_clocks add upd laptop)"]
        exI [of _ "snd (merge_vector_clocks ''note'' (stored_clocks laptop ''note'') phone)"])
      (simp add: views vjoin_def)
qed

lemma share_exchange_converges_witness:
  "\<exists>a b. stored_shares a ''note'' = stored_shares b ''note'' \<and>
     shr_id ` stored_shares a ''note'' = {''s1'', ''s2''}"
proof -
  let ?remote = "map share_record_load (t_shares laptop)"
  obtain ans where m: "fst (merge_share_records ''note'' ?remote phone) = Inr ans"
    and u: "fst (add_share_records ans laptop) = Inr ()"
    by (simp add: merge_share_records_def share_find_by_resource_def share_save_many_def
        add_share_records_def ins_share_ignore_def ins_share_def share_record_to_row_def run_simps samples
        sample_views)
  have "shares_agree laptop phone" "set ?remote = stored_shares laptop ''note''"
    by (simp_all add: shares_agree_def stored_samples) (simp_all add: samples)
  from share_exchange_converges [OF db_inv_samples(2,3) this run_split [OF m] run_split [OF u]]
  show ?thesis
    by (intro exI [of _ "snd (add_share_records ans laptop)"]
        exI [of _ "snd (merge_share_records ''note'' ?remote phone)"])
      (simp add: stored_samples insert_commute, simp add: samples share_record_load_def insert_commute)
qed

lemma key_exchange_converges_witness:
  "\<exists>a b. stored_keys a ''note'' = stored_keys b ''note'' \<and>
     key_user_id ` stored_keys a ''note'' = {''ann'', ''bob''}"
proof -
  let ?remote = "map resource_key_load (t_keys laptop)"
  let ?w = "snd (get_resource_keys_for_resource ''note'' phone)"
  obtain loc lm rm where g: "fst (get_resource_keys_for_resource ''note'' phone) = Inr loc"
    and f: "find_missing_resource_keys loc ?remote = (lm, rm)"
    and o: "fst (add_resource_keys lm ?w) = Inr ()" and t: "fst (add_resource_keys rm laptop) = Inr ()"
    by (simp add: get_resource_keys_for_resource_def key_find_by_resource_id_def
        find_missing_resource_keys_def add_resource_keys_def ins_key_ignore_def ins_key_def
        resource_key_to_row_def run_simps samples sample_views)
  have "keys_agree laptop phone" "set ?remote = stored_keys laptop ''note''"
    by (simp_all add: keys_agree_def stored_samples) (simp_all add: samples)
  from key_exchange_converges [OF db_inv_samples(2,3) this run_split [OF g] f run_split [OF o] run_split [OF t]]
  show ?thesis
    by (intro exI [of _ "snd (add_resource_keys rm laptop)"] exI [of _ "snd (add_resource_keys lm ?w)"])
      (simp add: stored_samples insert_commute, simp add: samples resource_key_load_def insert_commute)
qed

definition manifest_sample :: "ident list \<Rightarrow> u64 \<Rightarrow> device_manifest_request" where
  "manifest_sample ds v =
     \<lparr>dmq_known_device_ids = ds, dmq_other_users = [\<lparr>uwi_user_id = ''bob'', uwi_device_ids = ds\<rparr>],
      dmq_folder_ids = [''inbox''], dmq_resources = [\<lparr>rmd_resource_id = ''note'',
        rmd_share_record_ids = [], rmd_vector_clocks = [\<lparr>vc_id = ''c'', vc_resource_id = ''note'',
          vc_device_id = ''lap'', vc_clock_value = v, vc_created_at = 0, vc_updated_at = 0\<rparr>]\<rparr>]\<rparr>"

lemma device_comparison_inverse_witness:
  "set (dmc_resources_requiring_sync (device_manifest_inverse
       (compare_device_manifests sorted_list_of_set (manifest_sample [''tel''] 2) (manifest_sample [''lap''] 1)))) =
     set (dmc_resources_requiring_sync
       (compare_device_manifests sorted_list_of_set (manifest_sample [''lap''] 1) (manifest_sample [''tel''] 2))) \<and>
   dmc_resources_requiring_sync
     (compare_device_manifests sorted_list_of_set (manifest_sample [''lap''] 1) (manifest_sample [''tel''] 2)) =
     [''note'']"
proof -
  have clean: "clean_resources (dmq_resources (manifest_sample ds v))" for ds v
    by (simp add: clean_resources_def manifest_sample_def distinct_devices_def)
  have "dmc_resources_requiring_sync (compare_device_manifests sorted_list_of_set (manifest_sample [''lap''] 1)
      (manifest_sample [''tel''] 2)) = [''note'']"
    by (simp add: compare_device_manifests_def create_comparison_sets_def compare_sets_def
        manifest_sample_def compare_devices_for_common_users_def Let_def
        compare_resources_for_common_resources_def hash_map_of_def resource_needs_sync_def
        compare_share_records_def vector_clocks_need_update_def)
  with device_comparison_inverse [OF iteration_order_sorted iteration_order_sorted clean clean refl refl]
  show ?thesis by blast
qed

lemma folder_gaps_exact_witness:
  "frd_folder_id ` set (fcr_folders_with_recipient_differences (process_folder_gaps sorted_list_of_set
       [\<lparr>fmd_folder_id = ''inbox'', fmd_recipient_user_ids = [''ann'']\<rparr>]
       [\<lparr>fmd_folder_id = ''inbox'', fmd_recipient_user_ids = [''ann'', ''bob'']\<rparr>])) = {''inbox''}"
  (is "frd_folder_id ` set (fcr_folders_with_recipient_differences (process_folder_gaps _ ?A ?B)) = _")
proof -
  have "folders_view ?A = [''inbox'' \<mapsto> {''ann''}]" "folders_view ?B = [''inbox'' \<mapsto> {''ann'', ''bob''}]"
    by (auto simp: folders_view_def folder_lookup_def hash_map_of_def fun_eq_iff)
  with folder_gaps_exact [OF iteration_order_sorted refl, of ?A ?B] show ?thesis by auto
qed

lemma device_sync_finds_all_differences_witness:
  "\<exists>c w. process_device_manifest_request sorted_list_of_set
     (projr (fst (get_device_manifest sorted_list_of_set ''ann'' laptop))) ''ann'' phone = (Inr c, w) \<and>
     \<not> (nothing_missing (dmc_local_missing c) \<and> nothing_missing (dmc_remote_missing c) \<and>
        dmc_resources_requiring_sync c = [])"
proof -
  let ?ord = sorted_list_of_set
  obtain m where m: "fst (get_device_manifest ?ord ''ann'' laptop) = Inr m"
    by (simp add: get_device_manifest_def get_resource_manifest_data_def folder_find_all_def
        get_other_users_with_device_ids_def get_device_ids_by_user_id_def run_simps samples)
  obtain c where c: "fst (process_device_manifest_request ?ord m ''ann'' phone) = Inr c"
    by (simp add: process_device_manifest_request_def get_device_manifest_def
        get_resource_manifest_data_def folder_find_all_def
        get_other_users_with_device_ids_def get_device_ids_by_user_id_def run_simps samples)
  have "resources_content laptop ''note'' \<noteq> resources_content phone ''note''"
    by (simp add: resources_content_def stored_samples)
      (simp add: live_resource_def samples share_record_load_def)
  then have "replica_content laptop ''ann'' \<noteq> replica_content phone ''ann''"
    unfolding replica_content_def by auto
  with device_sync_finds_all_differences
    [OF iteration_order_sorted iteration_order_sorted db_inv_samples(2,3) run_split [OF m] run_split [OF c]]
  have "\<not> (nothing_missing (dmc_local_missing c) \<and> nothing_missing (dmc_remote_missing c) \<and>
        dmc_resources_requiring_sync c = [])"
    by simp
  with run_split [OF c] show ?thesis unfolding m sum.sel(2) by blast
qed

end
