(* ===== verification/Folder_Service.thy ===== *)
theory Folder_Service
  imports Resource_Service Sync_Compare
begin

text \<open>
  \<open>services/src/folder_service.rs\<close>: creating, deleting and sharing folders, and the payloads with
  which two users bring the members of a shared folder up to date.
\<close>

record folder_with_share_records =
  fws_folder :: folder
  fws_share_records :: "folder_share_record list"

record unknown_folders_payload =
  ufp_folder_data :: "folder_with_share_records list"

record folder_recipient_update =
  fru_folder_id :: ident
  fru_new_share_records :: "folder_share_record list"

section \<open>Own folders\<close>

definition create_folder ::
  "crypto_lib \<Rightarrow> crypto_utils \<Rightarrow> string \<Rightarrow> string option \<Rightarrow> string \<Rightarrow> user \<Rightarrow> folder service" where
  "create_folder L cu name description domain user =
     (if trims_to_empty name then sthrow (Folder EmptyFolderName)
      else sbind (folder_new name description False) (\<lambda>folder.
           sbind (repo_call get_ucan_key) (\<lambda>encrypted_ucan_key.
           sbind (crypto_run (cu_generate_folder_owner_ucan L cu encrypted_ucan_key (fol_id folder)
                    domain)) (\<lambda>(folder_root_ucan_key, ucan_cid).
           sbind (prepare_folder_share_record (fol_id folder) (usr_id user) (usr_id user) Admin
                    folder_root_ucan_key ucan_cid) (\<lambda>folder_share_record.
           sbind (repo_call (save_folder_with_share_record folder folder_share_record)) (\<lambda>_.
           sret folder))))))"

definition service_get_all_folders :: "folder list service" where
  "service_get_all_folders = repo_call folder_find_all"

text \<open>\<open>find_by_id(..).map_err(|_| FolderNotFound)?\<close>\<close>

definition existing_folder :: "ident \<Rightarrow> folder service" where
  "existing_folder folder_id =
     smap_err (\<lambda>_. Folder (FolderNotFound folder_id)) (folder_find_by_id folder_id)"

definition soft_delete_folder :: "ident \<Rightarrow> unit service" where
  "soft_delete_folder folder_id =
     sbind (existing_folder folder_id) (\<lambda>_. repo_call (folder_soft_delete folder_id))"

section \<open>Sharing\<close>

definition resolve_folder_proof :: "crypto_lib \<Rightarrow> string \<Rightarrow> (world, ucan_error, string) sm" where
  "resolve_folder_proof L cid =
     smap_err (\<lambda>e. ProofChainInvalid (repository_text L e)) (fshare_get_ucan_by_cid cid)"

text \<open>\<open>.find(..).ok_or(FolderServiceError::InsufficientPermissions)?\<close>\<close>

definition find_share :: "(folder_share_record \<Rightarrow> bool) \<Rightarrow> folder_share_record list
    \<Rightarrow> folder_share_record service" where
  "find_share p shares = (case List.find p shares of
     Some s \<Rightarrow> sret s | None \<Rightarrow> sthrow (Folder InsufficientPermissions))"

text \<open>Preparing the resources for one recipient; those shared already are left out.\<close>

definition prepare_all ::
  "crypto_lib \<Rightarrow> crypto_utils \<Rightarrow> ident \<Rightarrow> ident list \<Rightarrow> user \<Rightarrow> string
     \<Rightarrow> resource_sharing_data list service" where
  "prepare_all L cu recipient_user_id resource_ids current_user domain =
     sbind (smap (\<lambda>resource_id. prepare_share_resource L cu recipient_user_id resource_id
                    (resource_permissions domain resource_id) current_user) resource_ids)
       (\<lambda>prepared. sret (List.map_filter id prepared))"

definition share_folder ::
  "crypto_lib \<Rightarrow> crypto_utils \<Rightarrow> ident \<Rightarrow> ident \<Rightarrow> (string \<times> string) list \<Rightarrow> user \<Rightarrow> string
     \<Rightarrow> unit service" where
  "share_folder L cu folder_id recipient_user_id folder_permissions current_user domain =
     sbind (existing_folder folder_id) (\<lambda>_.
     sbind (repo_call (get_records_by_folder_id folder_id)) (\<lambda>existing_folder_shares.
       if list_ex (\<lambda>share. fsr_recipient_user_id share = recipient_user_id) existing_folder_shares
       then sret ()
       else
     sbind (find_share (\<lambda>share. fsr_recipient_user_id share = usr_id current_user)
              existing_folder_shares) (\<lambda>own_share.
     sbind (repo_call get_ucan_key) (\<lambda>encrypted_ucan_key.
     sbind (find_share (\<lambda>share. fsr_shared_by_user_id share = fsr_recipient_user_id share)
              existing_folder_shares) (\<lambda>owner_share.
     sbind (repo_call (get_user_by_id (fsr_recipient_user_id owner_share))) (\<lambda>folder_owner.
     sbind (repo_call (get_user_by_id recipient_user_id)) (\<lambda>recipient.
     sbind (crypto_run (issue_delegated_folder_ucan L cu encrypted_ucan_key (fsr_ucan_token own_share)
              (usr_ucan_pub_key folder_owner) folder_id (usr_ucan_pub_key recipient)
              folder_permissions (resolve_folder_proof L))) (\<lambda>(folder_ucan_token, folder_ucan_cid).
     sbind (prepare_folder_share_record folder_id (usr_id current_user) recipient_user_id Admin
              folder_ucan_token folder_ucan_cid) (\<lambda>folder_share_record.
     sbind (repo_call (get_resource_ids_by_folder_id folder_id)) (\<lambda>resource_ids.
     sbind (prepare_all L cu recipient_user_id resource_ids current_user domain)
       (\<lambda>all_resource_sharing_data.
     repo_call (share_folder_transaction folder_share_record
       (map rsh_resource_key all_resource_sharing_data)
       (map rsh_share_record all_resource_sharing_data)
       (concat (map rsh_vector_clocks all_resource_sharing_data))))))))))))))"

definition get_folder_shared_users :: "ident \<Rightarrow> user list service" where
  "get_folder_shared_users folder_id = repo_call (get_shared_users folder_id)"

section \<open>Bringing a peer up to date\<close>

definition create_unknown_folders_payload :: "ident list \<Rightarrow> unknown_folders_payload service" where
  "create_unknown_folders_payload folder_ids =
     (if folder_ids = [] then sret \<lparr>ufp_folder_data = []\<rparr>
      else sbind (repo_call (get_folders_by_ids folder_ids)) (\<lambda>folders.
           sbind (smap (\<lambda>folder. sbind (repo_call (get_records_by_folder_id (fol_id folder)))
                     (\<lambda>share_records. sret \<lparr>fws_folder = folder, fws_share_records = share_records\<rparr>))
                   folders) (\<lambda>folder_data.
           sret \<lparr>ufp_folder_data = folder_data\<rparr>)))"

definition process_unknown_folders_payload :: "unknown_folders_payload \<Rightarrow> unit service" where
  "process_unknown_folders_payload payload =
     (if ufp_folder_data payload = [] then sret ()
      else sfor (\<lambda>folder_pair. repo_call (save_folder_with_share_records
                    ((fws_folder folder_pair)\<lparr>fol_default_folder := False\<rparr>)
                    (fws_share_records folder_pair))) (ufp_folder_data payload))"

definition get_missing_remote_folder_share_records ::
  "folder_recipient_diff list \<Rightarrow> folder_recipient_update list service" where
  "get_missing_remote_folder_share_records missing_recipient_folder =
     smap (\<lambda>d. sbind (repo_call (get_share_records_for_folder_and_recipients (frd_folder_id d)
                                  (frd_recipients_only_local_knows d)))
              (\<lambda>share_records. sret \<lparr>fru_folder_id = frd_folder_id d,
                                      fru_new_share_records = share_records\<rparr>))
       missing_recipient_folder"

definition add_missing_recipients ::
  "crypto_lib \<Rightarrow> crypto_utils \<Rightarrow> folder_recipient_update list \<Rightarrow> ident list \<Rightarrow> ident \<Rightarrow> user \<Rightarrow> string
     \<Rightarrow> unit service" where
  "add_missing_recipients L cu payload missing_remote_resources recipient_user_id current_user domain =
     sbind (repo_call (get_folder_ids_for_resources missing_remote_resources)) (\<lambda>folder_resource_pair.
     sbind (smap (\<lambda>recipient_map.
              case folder_resource_pair (fru_folder_id recipient_map) of
                Some resource_ids \<Rightarrow>
                  prepare_all L cu recipient_user_id resource_ids current_user domain
              | None \<Rightarrow> sret []) payload) (\<lambda>prepared.
       (let missing_share_data = concat prepared in
        repo_call (save_resource_and_folder_sharing_data
          (map rsh_resource_key missing_share_data) (map rsh_share_record missing_share_data)
          (concat (map rsh_vector_clocks missing_share_data))
          (concat (map fru_new_share_records payload))))))"

section \<open>Integrity\<close>

lemma keeps_folder_parts [stmt_keeps]:
  "keeps db_inv (existing_folder i)" "keeps db_inv (resolve_folder_proof L cid)"
  "keeps db_inv (find_share p' ss)" "keeps db_inv (prepare_all L cu r is usr dn)"
  unfolding existing_folder_def
    resolve_folder_proof_def find_share_def prepare_all_def
  by (intro stmt_keeps keeps_case_option)+

lemma keeps_folder_service [stmt_keeps]:
  "keeps db_inv (create_folder L cu n d dn u)" "keeps db_inv service_get_all_folders"
  "keeps db_inv (soft_delete_folder i)" "keeps db_inv (share_folder L cu i r ps u dn)"
  "keeps db_inv (get_folder_shared_users i)" "keeps db_inv (create_unknown_folders_payload is)"
  "keeps db_inv (process_unknown_folders_payload p)"
  "keeps db_inv (get_missing_remote_folder_share_records ds)"
  "keeps db_inv (add_missing_recipients L cu us is r u dn)"
  unfolding create_folder_def service_get_all_folders_def soft_delete_folder_def share_folder_def
    get_folder_shared_users_def create_unknown_folders_payload_def
    process_unknown_folders_payload_def get_missing_remote_folder_share_records_def
    add_missing_recipients_def Let_def
  by (intro stmt_keeps keeps_case_prod keeps_case_option keeps_if crypto_keeps env_blind_db_inv)+

end
