(* ===== verification/Account_Services.thy ===== *)
theory Account_Services
  imports Resource_Service
begin

text \<open>
  \<open>services/src/user_service.rs\<close> and \<open>auth_service.rs\<close>: the users and devices a user knows, the
  tokens she issues to them, and her own account: signing up, loading the certificate, changing the
  passphrase, importing an account on another device.
\<close>

section \<open>Users\<close>

definition service_add_known_user ::
  "crypto_lib \<Rightarrow> crypto_utils \<Rightarrow> string \<Rightarrow> string \<Rightarrow> string \<Rightarrow> string \<Rightarrow> string
     \<Rightarrow> (user \<times> device) service" where
  "service_add_known_user L cu username user_public_key device_public_key one_time_token ucan_pub_key =
     sbind (crypto_call (get_key_id L user_public_key)) (\<lambda>user_id.
     sbind (crypto_run (cu_sign_message L cu user_public_key)) (\<lambda>signature.
     sbind (crypto_call (get_cid_from_ucan_token L one_time_token)) (\<lambda>ucan_cid.
     sbind (user_new username user_id user_public_key signature False False one_time_token ucan_cid
              ucan_pub_key) (\<lambda>user.
     sbind (device_new device_public_key device_public_key user_id) (\<lambda>device.
     sbind (repo_call (add_users_with_devices_bulk [\<lparr>uwd_user = user, uwd_devices = [device]\<rparr>])) (\<lambda>_.
     sret (user, device)))))))"

definition service_get_known_users :: "user list service" where
  "service_get_known_users = repo_call get_known_users"

definition get_my_user_devices :: "ident \<Rightarrow> device list service" where
  "get_my_user_devices user_id = repo_call (get_devices_by_user_id user_id)"

text \<open>A user whose devices cannot be read is skipped.\<close>

definition devices_of_shared_user :: "ident \<Rightarrow> ident \<Rightarrow> bool \<Rightarrow> ident \<Rightarrow> ident list service" where
  "devices_of_shared_user current_user_id current_device_id skip_current_user user_id =
     (if skip_current_user \<and> user_id = current_user_id then sret []
      else scatch (get_devices_by_user_id user_id)
             (\<lambda>devices. sret (filter (\<lambda>d. current_device_id \<noteq> d) (map dev_id devices)))
             (\<lambda>_. sret []))"

definition get_shared_user_devices_for_note ::
  "ident \<Rightarrow> ident \<Rightarrow> ident \<Rightarrow> bool \<Rightarrow> (ident list \<times> user list) service" where
  "get_shared_user_devices_for_note note_id current_user_id current_device_id skip_current_user =
     sbind (repo_call (find_by_resource_and_operation note_id (share_operation_to_string Share)))
       (\<lambda>share_records.
       (let shared_user_ids = map shr_recipient_user_id share_records in
     sbind (repo_call (get_users_by_ids shared_user_ids)) (\<lambda>shared_users.
     sbind (smap (devices_of_shared_user current_user_id current_device_id skip_current_user)
              shared_user_ids) (\<lambda>shared_device_ids.
     sret (concat shared_device_ids, shared_users)))))"

definition get_ucan_pub_key :: "crypto_lib \<Rightarrow> crypto_utils \<Rightarrow> string service" where
  "get_ucan_pub_key L cu =
     sbind (repo_call get_ucan_key) (\<lambda>encrypted_ucan_pvt_key.
     crypto_call (get_public_ucan_key L cu encrypted_ucan_pvt_key))"

definition issue_connect_ucan_token :: "crypto_lib \<Rightarrow> crypto_utils \<Rightarrow> string \<Rightarrow> string \<Rightarrow> string service" where
  "issue_connect_ucan_token L cu domain peer_ucan_pub_key =
     sbind (repo_call get_ucan_key) (\<lambda>encrypted_pvt_key.
     crypto_run (issue_connect_and_share_user_token L cu encrypted_pvt_key domain peer_ucan_pub_key))"

definition sign_ucan_pub_key :: "crypto_lib \<Rightarrow> crypto_utils \<Rightarrow> string service" where
  "sign_ucan_pub_key L cu =
     sbind (get_ucan_pub_key L cu) (\<lambda>ucan_pub_key.
     crypto_run (sign_clear_text_message L cu ucan_pub_key))"

section \<open>Signing up\<close>

definition create_certificate :: "crypto_lib \<Rightarrow> string \<Rightarrow> string \<Rightarrow> certificate service" where
  "create_certificate L username passphrase =
     sbind (crypto_run (generate_keys L passphrase username)) (\<lambda>primary_key.
     sret \<lparr>crt_private_key = gk_private_key primary_key, crt_public_key = gk_public_key primary_key,
           crt_salt = gk_salt primary_key\<rparr>)"

definition create_device :: "crypto_lib \<Rightarrow> string \<Rightarrow> ident \<Rightarrow> (device \<times> certificate) service" where
  "create_device L user_public_key user_id =
     sbind (crypto_run (generate_and_encrypt_ed25519_key L user_public_key))
       (\<lambda>(encrypted_key, public_key).
     sbind (device_new public_key public_key user_id) (\<lambda>device.
     sret (device, \<lparr>crt_private_key = encrypted_key, crt_public_key = public_key, crt_salt = []\<rparr>)))"

definition generate_ucan_key :: "crypto_lib \<Rightarrow> crypto_utils \<Rightarrow> certificate service" where
  "generate_ucan_key L cu =
     sbind (crypto_run (generate_and_encrypt_ucan_key L cu))
       (\<lambda>(encrypted_ucan_private_key, ucan_public_key).
     sret \<lparr>crt_private_key = encrypted_ucan_private_key, crt_public_key = ucan_public_key,
           crt_salt = []\<rparr>)"

text \<open>\<open>decrypt_and_load_certificate(..).map_err(|_| InvalidPassphrase)?\<close> on a new \<open>CryptoUtils\<close>.\<close>

definition open_certificate :: "crypto_lib \<Rightarrow> string \<Rightarrow> string \<Rightarrow> string \<Rightarrow> crypto_utils service" where
  "open_certificate L private_key salt passphrase =
     slift (rmap_err (\<lambda>_. Auth InvalidPassphrase)
       (decrypt_and_load_certificate L crypto_utils_new private_key salt passphrase))"

definition handle_signup :: "crypto_lib \<Rightarrow> string \<Rightarrow> string \<Rightarrow> string \<Rightarrow> unit service" where
  "handle_signup L username passphrase domain =
     sbind (repo_call is_signed_up) (\<lambda>is_already_signed_up.
       if is_already_signed_up then sthrow (Auth AlreadySignedUp)
       else
     sbind (create_certificate L username passphrase) (\<lambda>primary_certificate.
     sbind (open_certificate L (crt_private_key primary_certificate) (crt_salt primary_certificate)
              passphrase) (\<lambda>crypto.
     sbind (crypto_call (get_key_id L (crt_public_key primary_certificate))) (\<lambda>user_id.
     sbind (generate_ucan_key L crypto) (\<lambda>ucan_certificate.
     sbind (folder_new ''default'' None True) (\<lambda>default_folder.
     sbind (crypto_run (cu_generate_folder_owner_ucan L crypto (crt_private_key ucan_certificate)
              (fol_id default_folder) domain)) (\<lambda>(folder_ucan, ucan_cid).
     sbind (prepare_folder_share_record (fol_id default_folder) user_id user_id Admin folder_ucan
              ucan_cid) (\<lambda>folder_share_record.
     sbind (user_new username user_id (crt_public_key primary_certificate) ''signature'' True True
              ''owner_token'' ''owner_cid'' (crt_public_key ucan_certificate)) (\<lambda>user.
     sbind (create_device L (usr_public_key user) (usr_id user)) (\<lambda>(device, device_certificate).
     sbind (repo_call (commit_signup_transaction user primary_certificate device device_certificate
              None ucan_certificate)) (\<lambda>_.
     repo_call (save_folder_with_share_record default_folder folder_share_record))))))))))))"

definition service_is_signed_up :: "bool service" where
  "service_is_signed_up = repo_call is_signed_up"

text \<open>
  Another device enters the account with the exported certificate. The public UCAN key and
  \<open>owner_cid\<close> are passed in the order in which the source passes them.
\<close>

definition import_user ::
  "crypto_lib \<Rightarrow> string \<Rightarrow> string \<Rightarrow> string \<Rightarrow> ident \<Rightarrow> (user \<times> certificate) service" where
  "import_user L certificate passphrase username peer_device_id =
     sbind (crypto_run (import_certificate L certificate passphrase)) (\<lambda>result.
     sbind (crypto_call (get_key_id L (gk_public_key result))) (\<lambda>user_id.
       (let primary_certificate = \<lparr>crt_private_key = gk_private_key result,
              crt_public_key = gk_public_key result, crt_salt = gk_salt result\<rparr> in
     sbind (open_certificate L (crt_private_key primary_certificate) (crt_salt primary_certificate)
              passphrase) (\<lambda>crypto.
     sbind (generate_ucan_key L crypto) (\<lambda>ucan_certificate.
     sbind (user_new username user_id (crt_public_key primary_certificate) ''signature'' True True
              ''owner_token'' (crt_public_key ucan_certificate) ''owner_cid'') (\<lambda>user.
     sbind (device_new peer_device_id peer_device_id user_id) (\<lambda>peer_device.
     sbind (create_device L (usr_public_key user) (usr_id user)) (\<lambda>(device, device_certificate).
     sbind (repo_call (commit_signup_transaction user primary_certificate device device_certificate
              (Some peer_device) ucan_certificate)) (\<lambda>_.
     sret (user, primary_certificate))))))))))"

section \<open>Using the account\<close>

text \<open>\<open>get_certificate("primary_key", ..).map_err(|_| CertificateNotFound)?\<close>\<close>

definition primary_certificate :: "certificate service" where
  "primary_certificate =
     smap_err (\<lambda>_. Auth CertificateNotFound) (get_certificate ''primary_key'' ''primary_key_salt'')"

definition get_current_device :: "crypto_lib \<Rightarrow> device service" where
  "get_current_device L =
     sbind (smap_err (\<lambda>e. Auth (Auth_DeviceNotFound (''Failed to get device key: '' @ repository_text L e)))
              get_device_key) (\<lambda>device_id.
     smap_err (\<lambda>_. Auth (Auth_DeviceNotFound device_id)) (device_find_by_id device_id))"

text \<open>
  \<open>load_certificate\<close> replaces the \<open>CryptoUtils\<close> behind the lock; it is the only function here that
  writes it. The new one stays in place when a later step fails.
\<close>

definition load_certificate ::
  "crypto_lib \<Rightarrow> string \<Rightarrow> world \<times> crypto_utils
     \<Rightarrow> (service_error + user \<times> device) \<times> (world \<times> crypto_utils)" where
  "load_certificate L passphrase = (\<lambda>(w, crypto_utils).
     case sbind primary_certificate (\<lambda>certificate.
            open_certificate L (crt_private_key certificate) (crt_salt certificate) passphrase) w of
       (Inl e, w) \<Rightarrow> (Inl e, (w, crypto_utils))
     | (Inr crypto_utils, w) \<Rightarrow>
         (case sbind (crypto_call (get_public_key L crypto_utils)) (\<lambda>public_key.
               sbind (crypto_call (get_key_id L public_key)) (\<lambda>user_id.
               sbind (smap_err (\<lambda>_. Auth (Auth_UserNotFound user_id)) (get_user_by_id user_id)) (\<lambda>user.
               sbind (get_current_device L) (\<lambda>device. sret (user, device))))) w of
            (r, w) \<Rightarrow> (r, (w, crypto_utils))))"

definition service_export_certificate :: "crypto_lib \<Rightarrow> string \<Rightarrow> string service" where
  "service_export_certificate L passphrase =
     sbind primary_certificate (\<lambda>certificate.
     crypto_call (export_certificate L passphrase (crt_private_key certificate) (crt_salt certificate)))"

definition change_passphrase :: "crypto_lib \<Rightarrow> string \<Rightarrow> string \<Rightarrow> certificate service" where
  "change_passphrase L old_password new_password =
     sbind primary_certificate (\<lambda>certificate.
     sbind (crypto_call (change_certificate_password L (crt_private_key certificate)
              (crt_salt certificate) old_password new_password)) (\<lambda>new_private_key.
       (let new_certificate = certificate\<lparr>crt_private_key := new_private_key\<rparr> in
     sbind (repo_call (store_certificate new_certificate ''primary_key'' ''primary_key_salt'')) (\<lambda>_.
     sret new_certificate))))"

definition generate_challenge :: "('a env_scheme, 'e, string) sm" where
  "generate_challenge = sbind (fill_bytes 32) (\<lambda>bytes. sret (concat (map hex_byte bytes)))"

definition generate_one_time_ucan_token ::
  "crypto_lib \<Rightarrow> crypto_utils \<Rightarrow> string \<Rightarrow> (string \<times> string) service" where
  "generate_one_time_ucan_token L cu capability_str =
     sbind (repo_call get_ucan_key) (\<lambda>encrypted_ucan_pvt_key.
     crypto_run (generate_one_time_user_connect_token L cu encrypted_ucan_pvt_key capability_str))"

section \<open>Integrity\<close>

lemma keeps_account_parts [stmt_keeps]:
  "keeps db_inv (create_certificate L un pw)" "keeps db_inv (create_device L pk u)"
  "keeps db_inv (generate_ucan_key L cu)" "keeps db_inv (open_certificate L k sl pw)"
  "keeps db_inv primary_certificate" "keeps db_inv (get_current_device L)"
  "keeps db_inv (devices_of_shared_user u d skip u')"
  unfolding create_certificate_def create_device_def
    generate_ucan_key_def open_certificate_def primary_certificate_def get_current_device_def
    devices_of_shared_user_def
  by (intro stmt_keeps keeps_case_prod keeps_if crypto_keeps env_blind_db_inv)+

lemma keeps_account_services [stmt_keeps]:
  "keeps db_inv (service_add_known_user L cu un pk dk t up)" "keeps db_inv service_get_known_users"
  "keeps db_inv (get_my_user_devices u)" "keeps db_inv (get_shared_user_devices_for_note i u d skip)"
  "keeps db_inv (get_ucan_pub_key L cu)" "keeps db_inv (issue_connect_ucan_token L cu dn up)"
  "keeps db_inv (sign_ucan_pub_key L cu)" "keeps db_inv (service_export_certificate L pw)"
  "keeps db_inv (change_passphrase L pw pw')" "keeps db_inv (generate_one_time_ucan_token L cu dn)"
  "keeps db_inv (handle_signup L un pw dn)" "keeps db_inv (import_user L ct pw un d)"
  "keeps db_inv service_is_signed_up"
  unfolding service_add_known_user_def service_get_known_users_def get_my_user_devices_def
    get_shared_user_devices_for_note_def get_ucan_pub_key_def issue_connect_ucan_token_def
    sign_ucan_pub_key_def service_export_certificate_def change_passphrase_def
    generate_one_time_ucan_token_def handle_signup_def import_user_def service_is_signed_up_def
    Let_def
  by (intro stmt_keeps keeps_case_prod keeps_if crypto_keeps env_blind_db_inv)+

lemma load_certificate_keeps: "db_inv w \<Longrightarrow> load_certificate L pw (w, cu) = (r, (w', cu')) \<Longrightarrow> db_inv w'"
proof -
  assume inv: "db_inv w" and run: "load_certificate L pw (w, cu) = (r, (w', cu'))"
  have open_keeps: "keeps db_inv (sbind primary_certificate (\<lambda>certificate.
      open_certificate L (crt_private_key certificate) (crt_salt certificate) pw))"
    by (intro stmt_keeps)
  have find_keeps: "keeps db_inv (sbind (crypto_call (get_public_key L c)) (\<lambda>public_key.
      sbind (crypto_call (get_key_id L public_key)) (\<lambda>user_id.
      sbind (smap_err (\<lambda>_. Auth (Auth_UserNotFound user_id)) (get_user_by_id user_id)) (\<lambda>user.
      sbind (get_current_device L) (\<lambda>device. sret (user, device))))))" for c
    by (intro stmt_keeps)
  show "db_inv w'"
    using run keepsD [OF open_keeps inv] keepsD [OF find_keeps]
    by (auto simp: load_certificate_def split: prod.splits sum.splits)
qed

end
