(* ===== verification/P2P_Messages.thy ===== *)
theory P2P_Messages
  imports Folder_Service Account_Services Sync_Service
begin

text \<open>
  The messages of \<open>core/src/models/p2p.rs\<close>, the errors and events of \<open>network/src/p2p\<close>, and the
  state of a connection to a peer (\<open>peer_connection.rs\<close>) with its elementary operations: sending a
  message in chunks over a new stream, emitting an event, reading and setting the peer.
\<close>

section \<open>Messages\<close>

datatype (plugins only: code size) resource_update_msg =
    StateVectorRequest ident string string
  | UpdatesResponse ident string string
  | FinalUpdateMerge ident string "resource_vector_clock list" "share_record list" "resource_key list"
  | VectorClockResponse ident "resource_vector_clock list" "resource_vector_clock list"
      "share_record list" "resource_key list"

record first_connect_request =
  fcq_devices :: "device list"
  fcq_issued_ucan :: string
  fcq_signed_ucan_pub :: string
  fcq_one_time_ucan :: string
  fcq_peer_device :: device
  fcq_peer_user :: user
  fcq_connection_type :: connection_type

record first_connect_response =
  fcs_devices :: "device list"
  fcs_issued_ucan :: string
  fcs_signed_ucan_pub :: string
  fcs_ucan_token :: string
  fcs_peer_user :: user
  fcs_peer_device :: device

record ucan_and_user_exchange =
  uue_signed_ucan_pub :: string
  uue_ucan_token :: string
  uue_peer_user :: user
  uue_peer_device :: device
  uue_connection_type :: connection_type

datatype (plugins only: code size) handshake_message =
    HandshakeFirstConnectRequest first_connect_request
  | HandshakeFirstConnectResponse first_connect_response
  | HandshakeExchange ucan_and_user_exchange

datatype (plugins only: code size) live_edit_message =
    DocumentCheck ident
  | NotSameDocument
  | StateVectorExchange ident string
  | UpdateExchange ident string
  | UpdateExchangeResponse ident string
  | DocumentChange ident
  | DocumentUpdate ident "32 word" bytes string
  | AwarenessUpdate ident "32 word" bytes

datatype (plugins only: code size) folder_sync_message =
    UnknownFoldersPayload unknown_folders_payload
  | FolderRecipientSyncPayload "folder_recipient_update list"

datatype (plugins only: code size) user_manifest_payload =
    ManifestRequest user_manifest_request
  | ManifestResponse user_manifest_comparison
  | ManifestAck

datatype (plugins only: code size) message =
    Ping | Pong | MessageError
  | MergeUpdate resource_update_msg
  | LiveEditMsg live_edit_message
  | DeviceManifestRequest device_manifest_request
  | DeviceManifestResponse device_manifest_comparison
  | DeviceNetworkSync device_network_sync
  | DeviceManifestAck
  | DeviceNetworkSyncAck
  | ResourceAdditionRequest resource_sync_data
  | ResourceAdditionComplete
  | UserManifestPayload user_manifest_payload
  | UserNetworkSync user_network_sync
  | UserNetworkSyncAck
  | FolderSyncMsg folder_sync_message
  | RetryRequest
  | HandshakeMsg handshake_message

section \<open>Errors\<close>

datatype (plugins only: code size) connection_error =
    EstablishmentFailed string string | AlreadyExists string | Connection_NotFound string
  | Connection_Closed string | Connection_Timeout u64 string | InvalidNodeId string | Endpoint string
  | AlreadyConnecting string | StreamOpenFailed string | RemoteNodeIdError string

datatype (plugins only: code size) handshake_error =
    Handshake_InvalidCredentials ident | SignatureVerificationFailed ident
  | UcanValidationFailed string | UcanIssuanceFailed string | ChallengeValidationFailed
  | Handshake_Timeout u64 | NotComplete | InvalidConnectionType string string | MissingPeerInfo
  | Handshake_UserNotFound ident | Handshake_DeviceNotFound ident | Handshake_InvalidMessageType

datatype (plugins only: code size) sync_error =
    Sync_ResourceSyncFailed ident string | Sync_DeviceSyncFailed string | Sync_UserSyncFailed string
  | ManifestGenerationFailed string | ManifestComparisonFailed string | ManifestNotFound string
  | StateVectorMismatch ident | UpdateAuthorityFailed ident | Sync_VectorClockMergeFailed ident string
  | ShareRecordSyncFailed_P2P string | Sync_ResourceNotFound ident | InvalidSyncState

datatype (plugins only: code size) message_error =
    SerializationFailed string | DeserializationFailed string | SendFailed string
  | ReceiveFailed string | InvalidMessageType | MessageTooLarge nat nat | StreamError string
  | HandlerError string | UnexpectedEndOfStream

datatype (plugins only: code size) device_sync_error =
    ManifestRetrievalFailed | ManifestRequestSendFailed | ManifestRequestProcessingFailed
  | ManifestResponseSendFailed | ManifestAckSendFailed | ManifestComparisonNotAvailable
  | NetworkSyncPayloadCreationFailed | NetworkSyncSendFailed | NetworkSyncProcessingFailed
  | NetworkSyncAckSendFailed

datatype (plugins only: code size) resource_sync_error =
    ResourceRetrievalFailed ident | ResourceAdditionRequestFailed ident | ResourceAdditionFailed ident
  | StateVectorRetrievalFailed ident | StateVectorRequestFailed ident | InvalidUpdateAuthority ident
  | UpdateGenerationFailed ident | UpdatesResponseFailed ident | UpdateApplicationFailed ident
  | ShareRecordsRetrievalFailed ident | ShareRecordsMergeFailed ident
  | VectorClocksRetrievalFailed ident | VectorClocksMergeFailed ident | VectorClocksUpdateFailed
  | FinalUpdateMergeFailed ident | VectorClockResponseFailed ident | ResourceKeysRetrievalFailed ident
  | ResourceKeysAdditionFailed | UcanKeyRetrievalFailed ident | ResourceAdditionCompleteFailed
  | DeviceManifestNotAvailable | UserManifestNotAvailable

datatype (plugins only: code size) p2p_error =
    P2P_Connection connection_error | P2P_Handshake handshake_error | P2P_Sync sync_error
  | P2P_Message message_error | P2P_DeviceSync device_sync_error
  | P2P_ResourceSync resource_sync_error | P2P_Service service_error | P2P_Crypto crypto_error
  | P2P_Repository repository_error | NotInitialized | Configuration string | InvalidState string
  | P2P_Custom string

section \<open>Events\<close>

datatype (plugins only: code size) p2p_event =
    Connected | Disconnected | HandshakeFailed string | SyncComplete | ShareComplete
  | EditingEvent ident "32 word" bytes string
  | AwarenessEvent ident "32 word" bytes
  | ErrorEvent string string
  | UpdatesEvent ident string "32 word"
  | LiveEditConnected string
  | DocumentCheckEvent ident string
  | UpdateRequest ident string string ident
  | ProcessUpdate ident string string "32 word"
  | ProcessUpdateResponse ident string string "32 word"
  | DocumentChanged ident string
  | DocumentMismatch string
  | ResourceAdded ident string
  | FoldersAdded "folder list"

section \<open>A connection\<close>

text \<open>
  The libraries a connection uses: the crypto layer, the documents, the order of hash sets, the JSON
  text of messages (a text that ends too early is told apart from other errors) and the texts of
  errors.
\<close>

datatype (plugins only: code size) read_error = Unexpected_eof string | Malformed string

record ('d, 'u, 'v) peer_lib =
  pl_crypto :: crypto_lib
  pl_docs :: "('d, 'u, 'v) yrs"
  pl_order :: "ident set \<Rightarrow> ident list"
  msg_print :: "message \<Rightarrow> string + string"
  msg_read :: "string \<Rightarrow> read_error + message"
  service_text :: "service_error \<Rightarrow> string"
  p2p_text :: "p2p_error \<Rightarrow> string"

text \<open>
  What the code keeps behind locks shared with the other parts of the program is in this state too:
  the database, the session and the loaded certificate. \<open>pc_remote\<close> is the node id the transport
  reports, \<open>pc_link n\<close> the error of the \<open>n\<close>-th operation on the transport, if any. \<open>pc_sent\<close> and
  \<open>pc_events\<close> are the messages sent to the peer and the events emitted, oldest first, and
  \<open>pc_close_calls\<close> the calls of the \<open>on_close\<close> callback.
\<close>

record peer =
  pc_world :: world
  pc_crypto :: crypto_utils
  pc_current_user :: "user option"
  pc_current_device :: "device option"
  pc_connection_type :: "connection_type option"
  pc_device :: device
  pc_node_id :: string
  pc_user :: user
  pc_action :: "connection_action option"
  pc_is_initiator :: bool
  pc_is_live_edit :: bool
  pc_handshake_complete :: bool
  pc_on_close :: bool
  pc_device_manifest :: "device_manifest_comparison option"
  pc_user_manifest :: "user_manifest_comparison option"
  pc_challenge :: string
  pc_domain :: string
  pc_remote :: "string + bytes"
  pc_link :: "nat \<Rightarrow> string option"
  pc_link_n :: nat
  pc_sent :: "message list"
  pc_events :: "p2p_event list"
  pc_closed :: bool
  pc_close_calls :: "string list"

type_synonym 'a p2p = "(peer, p2p_error, 'a) sm"

text \<open>A step on the database, with the conversion of its errors.\<close>

definition on_world :: "('e \<Rightarrow> p2p_error) \<Rightarrow> (world, 'e, 'a) sm \<Rightarrow> 'a p2p" where
  "on_world V m s = (case m (pc_world s) of
     (Inl e, w) \<Rightarrow> (Inl (V e), s\<lparr>pc_world := w\<rparr>) | (Inr x, w) \<Rightarrow> (Inr x, s\<lparr>pc_world := w\<rparr>))"

abbreviation on_service :: "'a service \<Rightarrow> 'a p2p" where
  "on_service \<equiv> on_world P2P_Service"

abbreviation on_repo :: "'a repo \<Rightarrow> 'a p2p" where
  "on_repo \<equiv> on_world P2P_Repository"

abbreviation on_crypto :: "(world, crypto_error, 'a) sm \<Rightarrow> 'a p2p" where
  "on_crypto \<equiv> on_world P2P_Crypto"

text \<open>A service that takes the loaded certificate.\<close>

definition with_cu :: "(crypto_utils \<Rightarrow> 'a p2p) \<Rightarrow> 'a p2p" where
  "with_cu f = sbind (sget pc_crypto) f"

section \<open>Sending and emitting\<close>

definition emit :: "p2p_event \<Rightarrow> (peer, 'e, unit) sm" where
  "emit e = smodify (\<lambda>s. s\<lparr>pc_events := pc_events s @ [e]\<rparr>)"

definition link_op :: "(string \<Rightarrow> p2p_error) \<Rightarrow> unit p2p" where
  "link_op V s = (case pc_link s (pc_link_n s) of Some e \<Rightarrow> Inl (V e) | None \<Rightarrow> Inr (),
     s\<lparr>pc_link_n := Suc (pc_link_n s)\<rparr>)"

text \<open>\<open>bytes.chunks(n)\<close>, which panics for \<open>n = 0\<close>; the code has \<open>CHUNK_SIZE = 8192\<close>.\<close>

function chunks :: "nat \<Rightarrow> 'a list \<Rightarrow> 'a list list" where
  "chunks n xs = (if xs = [] \<or> n = 0 then [] else take n xs # chunks n (drop n xs))"
  by pat_completeness auto
termination by (relation "measure (\<lambda>(n, xs). length xs)") auto

declare chunks.simps [simp del]

definition CHUNK_SIZE :: nat where
  "CHUNK_SIZE = 8192"

definition send_message :: "('d, 'u, 'v) peer_lib \<Rightarrow> message \<Rightarrow> unit p2p" where
  "send_message P message =
     sbind (slift (rmap_err (\<lambda>e. P2P_Message (SerializationFailed e)) (msg_print P message)))
       (\<lambda>serialized_message.
     sbind (link_op (\<lambda>e. P2P_Message (StreamError e))) (\<lambda>_.
     sbind (sfor (\<lambda>(i, chunk). link_op (\<lambda>e. P2P_Message (SendFailed
                    (''Failed to write chunk '' @ decimal i @ '': '' @ e))))
              (enumerate 1 (chunks CHUNK_SIZE (as_bytes serialized_message)))) (\<lambda>_.
     sbind (link_op (\<lambda>e. P2P_Message (SendFailed (''Failed to finish sending: '' @ e)))) (\<lambda>_.
     smodify (\<lambda>s. s\<lparr>pc_sent := pc_sent s @ [message]\<rparr>)))))"

section \<open>The state of the connection\<close>

definition set_device_manifest_comparison_result :: "device_manifest_comparison \<Rightarrow> unit p2p" where
  "set_device_manifest_comparison_result r = smodify (\<lambda>s. s\<lparr>pc_device_manifest := Some r\<rparr>)"

definition set_user_manifest_comparison_result :: "user_manifest_comparison \<Rightarrow> unit p2p" where
  "set_user_manifest_comparison_result r = smodify (\<lambda>s. s\<lparr>pc_user_manifest := Some r\<rparr>)"

definition get_device_manifest_result :: "device_manifest_comparison p2p" where
  "get_device_manifest_result = sbind (sget pc_device_manifest) (\<lambda>r.
     case r of Some m \<Rightarrow> sret m | None \<Rightarrow> sthrow (P2P_Sync (ManifestNotFound ''device'')))"

definition get_user_manifest_result :: "user_manifest_comparison p2p" where
  "get_user_manifest_result = sbind (sget pc_user_manifest) (\<lambda>r.
     case r of Some m \<Rightarrow> sret m | None \<Rightarrow> sthrow (P2P_Sync (ManifestNotFound ''user'')))"

definition get_peer_device :: "device p2p" where
  "get_peer_device = sget pc_device"

definition get_peer_user :: "user p2p" where
  "get_peer_user = sget pc_user"

definition set_peer_user_and_device :: "user \<Rightarrow> device \<Rightarrow> unit p2p" where
  "set_peer_user_and_device u d = smodify (\<lambda>s. s\<lparr>pc_user := u, pc_device := d\<rparr>)"

definition set_connection_type :: "connection_type \<Rightarrow> unit p2p" where
  "set_connection_type t = smodify (\<lambda>s. s\<lparr>pc_connection_type := Some t\<rparr>)"

definition get_connection_type :: "connection_type p2p" where
  "get_connection_type = sget (\<lambda>s. case pc_connection_type s of Some t \<Rightarrow> t | None \<Rightarrow> UserConn)"

definition mark_handshake_complete :: "unit p2p" where
  "mark_handshake_complete = smodify (\<lambda>s. s\<lparr>pc_handshake_complete := True\<rparr>)"

definition get_local_user :: "user p2p" where
  "get_local_user = sbind (sget pc_current_user) (\<lambda>u.
     case u of Some u \<Rightarrow> sret u | None \<Rightarrow> sthrow (InvalidState ''No user is currently logged in''))"

text \<open>\<open>get_local_device().await.ok_or_else(|| MissingPeerInfo)?\<close>\<close>

definition get_local_device :: "device p2p" where
  "get_local_device = sbind (sget pc_current_device) (\<lambda>d.
     case d of Some d \<Rightarrow> sret d | None \<Rightarrow> sthrow (P2P_Handshake MissingPeerInfo))"

text \<open>
  \<open>retain(|id| id != resource_id)\<close> on the resources that are missing here; the answer says whether
  none is left.
\<close>

definition remove_device_local_missing_resource :: "ident \<Rightarrow> bool p2p" where
  "remove_device_local_missing_resource resource_id s = (case pc_device_manifest s of
     Some m \<Rightarrow>
       (let missing = dmc_local_missing m;
            left = filter (\<lambda>i. i \<noteq> resource_id) (dmd_unknown_resources missing)
        in (Inr (left = []), s\<lparr>pc_device_manifest :=
              Some (m\<lparr>dmc_local_missing := missing\<lparr>dmd_unknown_resources := left\<rparr>\<rparr>)\<rparr>))
   | None \<Rightarrow> (Inr True, s))"

definition remove_user_local_missing_resource :: "ident \<Rightarrow> bool p2p" where
  "remove_user_local_missing_resource resource_id s = (case pc_user_manifest s of
     Some m \<Rightarrow>
       (let missing = umc_local_missing m;
            left = filter (\<lambda>i. i \<noteq> resource_id) (umd_unknown_resources missing)
        in (Inr (left = []), s\<lparr>pc_user_manifest :=
              Some (m\<lparr>umc_local_missing := missing\<lparr>umd_unknown_resources := left\<rparr>\<rparr>)\<rparr>))
   | None \<Rightarrow> (Inr True, s))"

definition close_connection :: "unit p2p" where
  "close_connection = smodify (\<lambda>s. s\<lparr>pc_closed := True,
     pc_close_calls := pc_close_calls s @ (if pc_on_close s then [pc_node_id s] else [])\<rparr>)"

text \<open>The first four bytes of the device id as a big-endian number.\<close>

definition get_client_id :: "crypto_lib \<Rightarrow> device \<Rightarrow> string + 32 word" where
  "get_client_id L d =
     rbind (b64_decode L (dev_id d)) (\<lambda>decoded.
       if length decoded < 4 then Inl ''Device ID too short - need at least 4 bytes''
       else Inr (word_of_int (horner_sum uint 256 (rev (take 4 decoded)))))"

definition peer_client_id :: "('d, 'u, 'v) peer_lib \<Rightarrow> (32 word) p2p" where
  "peer_client_id P = sbind get_peer_device (\<lambda>d.
     slift (rmap_err (\<lambda>e. P2P_Custom (''failed to get client_id '' @ e)) (get_client_id (pl_crypto P) d)))"

definition peer_connection_new ::
  "world \<Rightarrow> crypto_utils \<Rightarrow> user option \<Rightarrow> device option \<Rightarrow> bool \<Rightarrow> connection_action option
     \<Rightarrow> connection_type option \<Rightarrow> string \<Rightarrow> user \<Rightarrow> device \<Rightarrow> string \<Rightarrow> bool \<Rightarrow> string
     \<Rightarrow> string + bytes \<Rightarrow> (nat \<Rightarrow> string option) \<Rightarrow> peer" where
  "peer_connection_new w cu current_user current_device is_initiator action connection_type node_id
       local_user local_device challenge live_edit domain remote link =
     \<lparr>pc_world = w, pc_crypto = cu, pc_current_user = current_user,
      pc_current_device = current_device, pc_connection_type = connection_type,
      pc_device = local_device, pc_node_id = node_id, pc_user = local_user, pc_action = action,
      pc_is_initiator = is_initiator, pc_is_live_edit = live_edit, pc_handshake_complete = False,
      pc_on_close = True, pc_device_manifest = None, pc_user_manifest = None,
      pc_challenge = challenge, pc_domain = domain, pc_remote = remote, pc_link = link,
      pc_link_n = 0, pc_sent = [], pc_events = [], pc_closed = False, pc_close_calls = []\<rparr>"

section \<open>Elementary facts\<close>

named_theorems p2p_ops \<open>the elementary operations of a connection\<close>

lemmas p2p_ops_defs [p2p_ops] = emit_def with_cu_def set_device_manifest_comparison_result_def
  set_user_manifest_comparison_result_def get_device_manifest_result_def
  get_user_manifest_result_def get_peer_device_def get_peer_user_def set_peer_user_and_device_def
  set_connection_type_def get_connection_type_def mark_handshake_complete_def get_local_user_def
  get_local_device_def peer_client_id_def

lemma on_world_eq_Inr:
  "on_world V m s = (Inr x, s') \<longleftrightarrow> (\<exists>w. m (pc_world s) = (Inr x, w) \<and> s' = s\<lparr>pc_world := w\<rparr>)"
  by (auto simp: on_world_def split: prod.splits sum.splits)

lemma concat_chunks: "0 < n \<Longrightarrow> concat (chunks n xs) = xs"
  by (induction n xs rule: chunks.induct) (subst chunks.simps, auto)

lemma chunks_nonempty: "c \<in> set (chunks n xs) \<Longrightarrow> c \<noteq> [] \<and> length c \<le> n"
  by (induction n xs rule: chunks.induct) (subst (asm) (2) chunks.simps, auto split: if_splits)

end
