(* ===== verification/Peer_Sync.thy ===== *)
theory Peer_Sync
  imports P2P_Messages
begin

text \<open>
  The exchanges of a connection: \<open>device_sync.rs\<close> between two devices of a user, \<open>user_sync.rs\<close> and
  \<open>folder_sync.rs\<close> between two users, and \<open>resource_sync.rs\<close>, which sends whole resources, merges
  the updates of common ones and passes the messages of live editing on.
\<close>

section \<open>Devices of one user\<close>

definition start_add_device_process :: "('d, 'u, 'v) peer_lib \<Rightarrow> unit p2p" where
  "start_add_device_process P =
     sbind get_peer_user (\<lambda>peer_user.
     sbind (on_service (get_device_manifest (pl_order P) (usr_id peer_user))) (\<lambda>manifest.
     send_message P (DeviceManifestRequest manifest)))"

definition handle_manifest_request ::
  "('d, 'u, 'v) peer_lib \<Rightarrow> device_manifest_request \<Rightarrow> unit p2p" where
  "handle_manifest_request P payload =
     sbind get_peer_user (\<lambda>peer_user.
     sbind (on_service (process_device_manifest_request (pl_order P) payload (usr_id peer_user))) (\<lambda>result.
     sbind (send_message P (DeviceManifestResponse result)) (\<lambda>_.
     set_device_manifest_comparison_result result)))"

definition handle_manifest_ack :: "('d, 'u, 'v) peer_lib \<Rightarrow> unit p2p" where
  "handle_manifest_ack P =
     sbind get_device_manifest_result (\<lambda>manifest.
     sbind (on_service (create_device_network_sync_payload (dmc_remote_missing manifest)))
       (\<lambda>device_network_payload.
     send_message P (DeviceNetworkSync device_network_payload)))"

definition handle_manifest_response ::
  "('d, 'u, 'v) peer_lib \<Rightarrow> device_manifest_comparison \<Rightarrow> unit p2p" where
  "handle_manifest_response P payload =
     sbind (set_device_manifest_comparison_result (device_manifest_inverse payload)) (\<lambda>_.
     sbind (send_message P DeviceManifestAck) (\<lambda>_.
     sbind get_device_manifest_result (\<lambda>manifest.
     sbind (on_service (create_device_network_sync_payload (dmc_remote_missing manifest)))
       (\<lambda>device_network_payload.
     send_message P (DeviceNetworkSync device_network_payload)))))"

definition handle_device_network_sync :: "('d, 'u, 'v) peer_lib \<Rightarrow> device_network_sync \<Rightarrow> unit p2p" where
  "handle_device_network_sync P payload =
     sbind (on_service (process_device_network_sync payload)) (\<lambda>_.
     send_message P DeviceNetworkSyncAck)"

section \<open>Two users\<close>

definition start_user_network_sync :: "('d, 'u, 'v) peer_lib \<Rightarrow> unit p2p" where
  "start_user_network_sync P =
     sbind (sget pc_is_initiator) (\<lambda>is_initiator.
       if \<not> is_initiator then sret ()
       else sbind get_peer_user (\<lambda>peer_user.
            sbind get_local_user (\<lambda>current_user.
            sbind (on_world (\<lambda>e. P2P_Sync (ManifestGenerationFailed (service_text P e)))
                     (get_user_manifest (pl_order P) (usr_id peer_user) (usr_id current_user)))
              (\<lambda>user_manifest.
            send_message P (UserManifestPayload (ManifestRequest user_manifest))))))"

text \<open>The payload for the peer, as both the responder and the initiator make it.\<close>

definition user_sync_payload ::
  "('d, 'u, 'v) peer_lib \<Rightarrow> user_manifest_comparison \<Rightarrow> user \<Rightarrow> user_network_sync p2p" where
  "user_sync_payload P manifest peer_user =
     with_cu (\<lambda>cu. sbind (sget pc_domain) (\<lambda>domain.
       on_world (\<lambda>e. P2P_Sync (Sync_UserSyncFailed (service_text P e)))
         (create_user_network_sync_payload (pl_crypto P) cu (umc_remote_missing manifest) peer_user
           domain)))"

definition process_user_manifest_payload ::
  "('d, 'u, 'v) peer_lib \<Rightarrow> user_manifest_payload \<Rightarrow> unit p2p" where
  "process_user_manifest_payload P payload =
     (case payload of
        ManifestRequest request_payload \<Rightarrow>
          sbind get_peer_user (\<lambda>peer_user.
          sbind get_local_user (\<lambda>current_user.
          sbind (on_world (\<lambda>e. P2P_Sync (ManifestComparisonFailed (service_text P e)))
                   (process_user_manifest_request (pl_order P) request_payload (usr_id peer_user)
                     (usr_id current_user))) (\<lambda>manifest_result.
          sbind (set_user_manifest_comparison_result manifest_result) (\<lambda>_.
          send_message P (UserManifestPayload (ManifestResponse manifest_result))))))
      | ManifestResponse manifest \<Rightarrow>
          sbind (set_user_manifest_comparison_result (user_manifest_inverse manifest)) (\<lambda>_.
          send_message P (UserManifestPayload ManifestAck))
      | ManifestAck \<Rightarrow>
          sbind get_user_manifest_result (\<lambda>manifest.
          sbind get_peer_user (\<lambda>peer_user.
          sbind (user_sync_payload P manifest peer_user) (\<lambda>payload.
          send_message P (UserNetworkSync payload)))))"

definition process_user_network_sync :: "('d, 'u, 'v) peer_lib \<Rightarrow> user_network_sync \<Rightarrow> unit p2p" where
  "process_user_network_sync P payload =
     sbind (sget pc_is_initiator) (\<lambda>is_initiator.
     sbind (if is_initiator
            then sbind get_user_manifest_result (\<lambda>manifest.
                 sbind get_peer_user (\<lambda>peer_user.
                 sbind (user_sync_payload P manifest peer_user) (\<lambda>local_payload.
                 send_message P (UserNetworkSync local_payload))))
            else sret ()) (\<lambda>_.
     sbind (on_world (\<lambda>e. P2P_Sync (Sync_UserSyncFailed (service_text P e)))
              (process_user_network_sync_payload payload)) (\<lambda>_.
     send_message P UserNetworkSyncAck)))"

section \<open>Resources\<close>

text \<open>What the manifest of the connection says: for its type, the resources the peer misses and those to merge.\<close>

definition remote_missing_resources :: "ident list p2p" where
  "remote_missing_resources =
     sbind get_connection_type (\<lambda>connection_type. case connection_type of
       DeviceConn \<Rightarrow> sbind get_device_manifest_result (\<lambda>m. sret (dmd_unknown_resources (dmc_remote_missing m)))
     | UserConn \<Rightarrow> sbind get_user_manifest_result (\<lambda>m. sret (umd_unknown_resources (umc_remote_missing m))))"

definition resources_to_merge :: "ident list p2p" where
  "resources_to_merge =
     sbind get_connection_type (\<lambda>connection_type. case connection_type of
       DeviceConn \<Rightarrow> sbind get_device_manifest_result (\<lambda>m. sret (dmc_resources_requiring_sync m))
     | UserConn \<Rightarrow> sbind get_user_manifest_result (\<lambda>m. sret (umc_resources_requiring_sync m)))"

definition send_resources :: "('d, 'u, 'v) peer_lib \<Rightarrow> unit p2p" where
  "send_resources P =
     sbind remote_missing_resources (\<lambda>resource_ids.
     sbind (if resource_ids = [] then send_message P ResourceAdditionComplete else sret ()) (\<lambda>_.
     sfor (\<lambda>resource_id.
       sbind get_peer_device (\<lambda>peer_device.
       sbind (on_service (get_resource_for_remote_addition resource_id peer_device)) (\<lambda>resource_payload.
       send_message P (ResourceAdditionRequest resource_payload)))) resource_ids))"

definition process_resource_addition_request ::
  "('d, 'u, 'v) peer_lib \<Rightarrow> resource_sync_data \<Rightarrow> unit p2p" where
  "process_resource_addition_request P payload =
     sbind get_connection_type (\<lambda>connection_type.
     sbind (on_service (add_resource_sync payload connection_type)) (\<lambda>payload.
     sbind get_peer_user (\<lambda>peer_user.
     sbind (emit (ResourceAdded (res_id (rsd_resource payload)) (usr_username peer_user))) (\<lambda>_.
     sbind (case connection_type of
              DeviceConn \<Rightarrow> remove_device_local_missing_resource (res_id (rsd_resource payload))
            | UserConn \<Rightarrow> remove_user_local_missing_resource (res_id (rsd_resource payload))) (\<lambda>is_empty.
     if is_empty then send_message P ResourceAdditionComplete else sret ())))))"

definition process_resource_addition_complete :: "('d, 'u, 'v) peer_lib \<Rightarrow> unit p2p" where
  "process_resource_addition_complete P =
     sbind (sget pc_is_initiator) (\<lambda>is_initiator.
       if \<not> is_initiator then sret ()
       else sbind resources_to_merge (\<lambda>resource_ids.
         sfor (\<lambda>resource_id.
           sbind get_local_user (\<lambda>user.
           sbind (with_cu (\<lambda>cu. on_service (get_resource_state_vector (pl_crypto P) (pl_docs P) cu
                    resource_id (usr_id user)))) (\<lambda>state_vectors.
           sbind (on_service (get_resource_ucan_key resource_id (usr_id user))) (\<lambda>ucan_token.
           send_message P (MergeUpdate (StateVectorRequest resource_id state_vectors ucan_token))))))
         resource_ids))"

text \<open>The check of the token that came with a request or an answer.\<close>

definition check_update_authority :: "('d, 'u, 'v) peer_lib \<Rightarrow> ident \<Rightarrow> string \<Rightarrow> unit p2p" where
  "check_update_authority P resource_id ucan_token =
     sbind get_peer_user (\<lambda>peer_user.
     sbind (sget pc_domain) (\<lambda>domain.
     sbind (on_service (service_validate_authority_for_update (pl_crypto P) resource_id ucan_token
              (usr_id peer_user) domain)) (\<lambda>is_token_valid.
     if \<not> is_token_valid then sthrow (P2P_ResourceSync (InvalidUpdateAuthority resource_id))
     else sret ())))"

text \<open>The four messages by which two replicas merge a resource, \<open>user\<close> being the local user.\<close>

definition answer_state_vectors ::
  "('d, 'u, 'v) peer_lib \<Rightarrow> user \<Rightarrow> ident \<Rightarrow> string \<Rightarrow> string \<Rightarrow> unit p2p" where
  "answer_state_vectors P user resource_id state_vectors ucan_token =
     sbind (check_update_authority P resource_id ucan_token) (\<lambda>_.
     sbind (with_cu (\<lambda>cu. on_service (generate_updates_for_peer (pl_crypto P) (pl_docs P) cu
              resource_id (usr_id user) state_vectors))) (\<lambda>updates.
     sbind (on_service (get_resource_ucan_key resource_id (usr_id user))) (\<lambda>ucan_token.
     send_message P (MergeUpdate (UpdatesResponse resource_id updates ucan_token)))))"

definition answer_updates ::
  "('d, 'u, 'v) peer_lib \<Rightarrow> user \<Rightarrow> ident \<Rightarrow> string \<Rightarrow> string \<Rightarrow> unit p2p" where
  "answer_updates P user resource_id updates ucan_token =
     sbind (check_update_authority P resource_id ucan_token) (\<lambda>_.
     sbind (with_cu (\<lambda>cu. on_service (apply_updates_and_get_peer_updates (pl_crypto P) (pl_docs P) cu
              resource_id (usr_id user) updates))) (\<lambda>remote_updates.
     sbind (on_service (get_share_records_for_resource resource_id)) (\<lambda>share_records.
     sbind (on_service (service_get_vector_clocks_for_resource resource_id)) (\<lambda>vector_clocks.
     sbind (on_service (get_resource_keys_for_resource resource_id)) (\<lambda>resource_keys.
     sbind (send_message P (MergeUpdate (FinalUpdateMerge resource_id remote_updates vector_clocks
              share_records resource_keys))) (\<lambda>_.
     sbind (peer_client_id P) (\<lambda>client_id.
     emit (UpdatesEvent resource_id updates client_id))))))))"

definition merge_final_update ::
  "('d, 'u, 'v) peer_lib \<Rightarrow> user \<Rightarrow> ident \<Rightarrow> string \<Rightarrow> resource_vector_clock list \<Rightarrow> share_record list
     \<Rightarrow> resource_key list \<Rightarrow> unit p2p" where
  "merge_final_update P user resource_id updates vector_clocks share_records resource_keys =
     sbind (with_cu (\<lambda>cu. on_service (apply_updates (pl_crypto P) (pl_docs P) cu resource_id updates
              (usr_id user)))) (\<lambda>_.
     sbind (peer_client_id P) (\<lambda>client_id.
     sbind (emit (UpdatesEvent resource_id updates client_id)) (\<lambda>_.
     sbind (on_service (get_resource_keys_for_resource resource_id)) (\<lambda>local_resource_keys.
       (let (local_missing, remote_missing) = find_missing_resource_keys local_resource_keys resource_keys in
     sbind (on_repo (add_resource_keys local_missing)) (\<lambda>_.
     sbind (on_service (merge_vector_clocks resource_id vector_clocks)) (\<lambda>(add_clock, update_clock).
     sbind (on_service (merge_share_records resource_id share_records)) (\<lambda>remote_share_records.
     send_message P (MergeUpdate (VectorClockResponse resource_id update_clock add_clock
       remote_share_records remote_missing))))))))))"

definition store_merged_records ::
  "resource_vector_clock list \<Rightarrow> resource_vector_clock list \<Rightarrow> share_record list \<Rightarrow> resource_key list
     \<Rightarrow> unit p2p" where
  "store_merged_records update_clock add_clock share_records resource_keys =
     sbind (on_service (service_update_vector_clocks add_clock update_clock)) (\<lambda>_.
     sbind (on_service (add_share_records share_records)) (\<lambda>_.
     on_repo (add_resource_keys resource_keys)))"

definition process_resource_update_message ::
  "('d, 'u, 'v) peer_lib \<Rightarrow> resource_update_msg \<Rightarrow> unit p2p" where
  "process_resource_update_message P payload =
     sbind get_local_user (\<lambda>user. case payload of
       StateVectorRequest resource_id state_vectors ucan_token \<Rightarrow>
         answer_state_vectors P user resource_id state_vectors ucan_token
     | UpdatesResponse resource_id updates ucan_token \<Rightarrow>
         answer_updates P user resource_id updates ucan_token
     | FinalUpdateMerge resource_id updates vector_clocks share_records resource_keys \<Rightarrow>
         merge_final_update P user resource_id updates vector_clocks share_records resource_keys
     | VectorClockResponse resource_id update_clock add_clock share_records resource_keys \<Rightarrow>
         store_merged_records update_clock add_clock share_records resource_keys)"

lemmas update_handlers = answer_state_vectors_def answer_updates_def merge_final_update_def
  store_merged_records_def

section \<open>Folders\<close>

definition send_folders :: "('d, 'u, 'v) peer_lib \<Rightarrow> unknown_folders_payload \<Rightarrow> unit p2p" where
  "send_folders P payload = send_message P (FolderSyncMsg (UnknownFoldersPayload payload))"

definition start_folder_sync :: "('d, 'u, 'v) peer_lib \<Rightarrow> unit p2p" where
  "start_folder_sync P =
     sbind get_user_manifest_result (\<lambda>manifest.
       if umd_unknown_folders (umc_remote_missing manifest) = []
       then send_folders P \<lparr>ufp_folder_data = []\<rparr>
       else sbind (on_service (create_unknown_folders_payload
                     (umd_unknown_folders (umc_remote_missing manifest)))) (send_folders P))"

definition send_missing_recipients :: "('d, 'u, 'v) peer_lib \<Rightarrow> user_manifest_comparison \<Rightarrow> unit p2p" where
  "send_missing_recipients P manifest =
     sbind (on_service (get_missing_remote_folder_share_records
              (umc_folders_requiring_recipient_sync manifest))) (\<lambda>missing_remote_fsr.
     send_message P (FolderSyncMsg (FolderRecipientSyncPayload missing_remote_fsr)))"

definition receive_unknown_folders ::
  "('d, 'u, 'v) peer_lib \<Rightarrow> unknown_folders_payload \<Rightarrow> unit p2p" where
  "receive_unknown_folders P payload =
     sbind (on_service (process_unknown_folders_payload payload)) (\<lambda>_.
     sbind (emit (FoldersAdded (map fws_folder (ufp_folder_data payload)))) (\<lambda>_.
     sbind (sget pc_is_initiator) (\<lambda>is_initiator.
       if \<not> is_initiator
       then sbind get_user_manifest_result (\<lambda>manifest.
            sbind (on_service (create_unknown_folders_payload
                     (umd_unknown_folders (umc_remote_missing manifest)))) (send_folders P))
       else sbind get_user_manifest_result (send_missing_recipients P))))"

definition process_folder_recipient_sync ::
  "('d, 'u, 'v) peer_lib \<Rightarrow> folder_recipient_update list \<Rightarrow> unit p2p" where
  "process_folder_recipient_sync P payload =
     sbind get_user_manifest_result (\<lambda>manifest.
     sbind get_local_user (\<lambda>current_user.
     sbind get_peer_user (\<lambda>peer_user.
     sbind (sget pc_domain) (\<lambda>domain.
     sbind (with_cu (\<lambda>cu. on_service (add_missing_recipients (pl_crypto P) cu payload
              (umd_unknown_resources (umc_remote_missing manifest)) (usr_id peer_user) current_user
              domain))) (\<lambda>_.
     sbind (sget pc_is_initiator) (\<lambda>is_initiator.
     sbind (if \<not> is_initiator then send_missing_recipients P manifest else sret ()) (\<lambda>_.
     send_resources P)))))))"

definition process_folder_sync_message :: "('d, 'u, 'v) peer_lib \<Rightarrow> folder_sync_message \<Rightarrow> unit p2p" where
  "process_folder_sync_message P message =
     (case message of
        UnknownFoldersPayload payload \<Rightarrow> receive_unknown_folders P payload
      | FolderRecipientSyncPayload payload \<Rightarrow> process_folder_recipient_sync P payload)"

section \<open>Live editing\<close>

definition handle_live_edit_flow :: "('d, 'u, 'v) peer_lib \<Rightarrow> live_edit_message \<Rightarrow> unit p2p" where
  "handle_live_edit_flow P message =
     sbind get_local_user (\<lambda>user. sbind (sget pc_node_id) (\<lambda>connection_id. case message of
       DocumentCheck resource_id \<Rightarrow> emit (DocumentCheckEvent resource_id connection_id)
     | StateVectorExchange resource_id state_vectors \<Rightarrow>
         emit (UpdateRequest resource_id connection_id state_vectors (usr_id user))
     | UpdateExchange resource_id updates \<Rightarrow>
         sbind (peer_client_id P) (\<lambda>client_id.
         emit (ProcessUpdate resource_id connection_id updates client_id))
     | UpdateExchangeResponse resource_id updates \<Rightarrow>
         sbind (peer_client_id P) (\<lambda>client_id.
         emit (ProcessUpdateResponse resource_id connection_id updates client_id))
     | NotSameDocument \<Rightarrow> emit (DocumentMismatch connection_id)
     | DocumentChange resource_id \<Rightarrow> emit (DocumentChanged resource_id connection_id)
     | DocumentUpdate resource_id client_id updates doc_type \<Rightarrow>
         emit (EditingEvent resource_id client_id updates doc_type)
     | AwarenessUpdate resource_id client_id awareness_data \<Rightarrow>
         emit (AwarenessEvent resource_id client_id awareness_data)))"

end
