(* ===== verification/Peer_Connection.thy ===== *)
theory Peer_Connection
  imports Peer_Sync
begin

text \<open>
  \<open>handshake.rs\<close> and the message loop of \<open>peer_connection.rs\<close>: the three handshake messages, the
  dispatch of a message to its handler, and the reading of messages from the streams a peer opens.
\<close>

section \<open>The handshake\<close>

text \<open>\<open>remote_node_id()\<close> and its base64 form, the device id of the peer.\<close>

definition remote_device_id :: "('d, 'u, 'v) peer_lib \<Rightarrow> string p2p" where
  "remote_device_id P = sbind (sget pc_remote) (\<lambda>remote.
     case remote of Inl e \<Rightarrow> sthrow (P2P_Custom e) | Inr peer_id \<Rightarrow> sret (b64_encode (pl_crypto P) peer_id))"

definition own_signed_ucan_pub :: "('d, 'u, 'v) peer_lib \<Rightarrow> string p2p" where
  "own_signed_ucan_pub P = with_cu (\<lambda>cu. on_service (sign_ucan_pub_key (pl_crypto P) cu))"

definition issue_token_for :: "('d, 'u, 'v) peer_lib \<Rightarrow> string \<Rightarrow> string p2p" where
  "issue_token_for P peer_ucan_pub = with_cu (\<lambda>cu. sbind (sget pc_domain) (\<lambda>domain.
     on_service (issue_connect_ucan_token (pl_crypto P) cu domain peer_ucan_pub)))"

definition initiate_handshake ::
  "('d, 'u, 'v) peer_lib \<Rightarrow> connection_type \<Rightarrow> connection_action \<Rightarrow> user \<Rightarrow> device \<Rightarrow> unit p2p" where
  "initiate_handshake P connection_type action current_user current_device =
     sbind (remote_device_id P) (\<lambda>device_id_b64.
     sbind (on_repo (get_user_by_device_id device_id_b64)) (\<lambda>peer_user.
     sbind (own_signed_ucan_pub P) (\<lambda>signed_ucan_pub.
       if \<not> usr_first_sync peer_user
       then sbind (on_service (get_my_user_devices (usr_id current_user))) (\<lambda>user_devices.
            sbind (issue_token_for P (usr_ucan_pub_key peer_user)) (\<lambda>new_ucan_token.
            send_message P (HandshakeMsg (HandshakeFirstConnectRequest
              \<lparr>fcq_devices = user_devices, fcq_issued_ucan = new_ucan_token,
               fcq_signed_ucan_pub = signed_ucan_pub, fcq_one_time_ucan = usr_ucan_token peer_user,
               fcq_peer_device = current_device, fcq_peer_user = current_user,
               fcq_connection_type = connection_type\<rparr>))))
       else sbind (send_message P (HandshakeMsg (HandshakeExchange
              \<lparr>uue_signed_ucan_pub = signed_ucan_pub, uue_ucan_token = usr_ucan_token peer_user,
               uue_peer_user = current_user, uue_peer_device = current_device,
               uue_connection_type = connection_type\<rparr>))) (\<lambda>_.
            set_connection_type UserConn))))"

text \<open>
  The checks the three handlers share: the peer's signature of her UCAN key, and the connect token
  presented with this key.
\<close>

definition verify_peer_key :: "('d, 'u, 'v) peer_lib \<Rightarrow> user \<Rightarrow> string \<Rightarrow> string p2p" where
  "verify_peer_key P peer_user signed_ucan_pub =
     on_crypto (verify_clear_text_message (pl_crypto P) (usr_public_key peer_user) signed_ucan_pub)"

definition check_connect_token ::
  "('d, 'u, 'v) peer_lib \<Rightarrow> string \<Rightarrow> string \<Rightarrow> user \<Rightarrow> ident \<Rightarrow> unit p2p" where
  "check_connect_token P token peer_ucan_pub current_user peer_id =
     sbind (sget pc_domain) (\<lambda>domain.
     sbind (on_crypto (validate_connect_token (pl_crypto P) token peer_ucan_pub
              (usr_ucan_pub_key current_user) (usr_id current_user) domain)) (\<lambda>token_validation.
     if \<not> token_validation then sthrow (P2P_Handshake (Handshake_InvalidCredentials peer_id))
     else sret ()))"

definition process_exchange_message :: "('d, 'u, 'v) peer_lib \<Rightarrow> ucan_and_user_exchange \<Rightarrow> unit p2p" where
  "process_exchange_message P payload =
     sbind (verify_peer_key P (uue_peer_user payload) (uue_signed_ucan_pub payload)) (\<lambda>peer_ucan_pub.
     sbind get_local_user (\<lambda>current_user.
     sbind get_local_device (\<lambda>current_device.
     sbind (check_connect_token P (uue_ucan_token payload) peer_ucan_pub current_user
              (usr_id (uue_peer_user payload))) (\<lambda>_.
     sbind (set_peer_user_and_device (uue_peer_user payload) (uue_peer_device payload)) (\<lambda>_.
     sbind (sget pc_is_initiator) (\<lambda>is_initiator.
       if is_initiator
       then sbind mark_handshake_complete (\<lambda>_. start_user_network_sync P)
       else sbind (own_signed_ucan_pub P) (\<lambda>signed_ucan_pub.
            sbind (remote_device_id P) (\<lambda>device_id_b64.
            sbind (on_repo (get_user_by_device_id device_id_b64)) (\<lambda>peer_user.
            sbind mark_handshake_complete (\<lambda>_.
            sbind (send_message P (HandshakeMsg (HandshakeExchange
              \<lparr>uue_signed_ucan_pub = signed_ucan_pub, uue_ucan_token = usr_ucan_token peer_user,
               uue_peer_user = current_user, uue_peer_device = current_device,
               uue_connection_type = uue_connection_type payload\<rparr>))) (\<lambda>_.
            set_connection_type UserConn)))))))))))"

text \<open>The user that is stored for a peer after a first handshake.\<close>

definition connected_user :: "user \<Rightarrow> string \<Rightarrow> string \<Rightarrow> user" where
  "connected_user peer_user issued_ucan peer_ucan_pub =
     peer_user\<lparr>usr_first_sync := True, usr_owner := False, usr_ucan_token := issued_ucan,
       usr_ucan_pub_key := peer_ucan_pub\<rparr>"

definition peer_process_first_connection_request ::
  "('d, 'u, 'v) peer_lib \<Rightarrow> first_connect_request \<Rightarrow> unit p2p" where
  "peer_process_first_connection_request P payload =
     sbind get_local_user (\<lambda>current_user.
     sbind get_local_device (\<lambda>current_device.
     sbind (verify_peer_key P (fcq_peer_user payload) (fcq_signed_ucan_pub payload)) (\<lambda>peer_ucan_pub.
     sbind (check_connect_token P (fcq_one_time_ucan payload) peer_ucan_pub current_user
              (usr_id (fcq_peer_user payload))) (\<lambda>_.
     sbind (own_signed_ucan_pub P) (\<lambda>signed_ucan_pub.
     sbind (issue_token_for P peer_ucan_pub) (\<lambda>peer_issued_ucan_token.
     sbind (set_connection_type UserConn) (\<lambda>_.
     sbind (set_peer_user_and_device (fcq_peer_user payload) (fcq_peer_device payload)) (\<lambda>_.
     sbind (on_repo (add_users_with_devices_bulk
              [\<lparr>uwd_user = connected_user (fcq_peer_user payload) (fcq_issued_ucan payload) peer_ucan_pub,
                uwd_devices = fcq_devices payload\<rparr>])) (\<lambda>_.
     sbind (on_service (get_my_user_devices (usr_id current_user))) (\<lambda>my_devices.
     sbind mark_handshake_complete (\<lambda>_.
     send_message P (HandshakeMsg (HandshakeFirstConnectResponse
       \<lparr>fcs_devices = my_devices, fcs_issued_ucan = peer_issued_ucan_token,
        fcs_signed_ucan_pub = signed_ucan_pub, fcs_ucan_token = fcq_issued_ucan payload,
        fcs_peer_user = current_user, fcs_peer_device = current_device\<rparr>)))))))))))))"

definition process_first_user_connection_handshake_response ::
  "('d, 'u, 'v) peer_lib \<Rightarrow> first_connect_response \<Rightarrow> unit p2p" where
  "process_first_user_connection_handshake_response P payload =
     sbind (verify_peer_key P (fcs_peer_user payload) (fcs_signed_ucan_pub payload)) (\<lambda>peer_ucan_pub.
     sbind get_local_user (\<lambda>current_user.
     sbind (check_connect_token P (fcs_ucan_token payload) peer_ucan_pub current_user
              (usr_id (fcs_peer_user payload))) (\<lambda>_.
     sbind (set_peer_user_and_device (fcs_peer_user payload) (fcs_peer_device payload)) (\<lambda>_.
     sbind mark_handshake_complete (\<lambda>_.
     sbind (on_repo (add_users_with_devices_bulk
              [\<lparr>uwd_user = connected_user (fcs_peer_user payload) (fcs_issued_ucan payload) peer_ucan_pub,
                uwd_devices = fcs_devices payload\<rparr>])) (\<lambda>_.
     start_user_network_sync P))))))"

definition handle_handshake_message :: "('d, 'u, 'v) peer_lib \<Rightarrow> handshake_message \<Rightarrow> unit p2p" where
  "handle_handshake_message P payload =
     (case payload of
        HandshakeFirstConnectRequest payload \<Rightarrow> peer_process_first_connection_request P payload
      | HandshakeFirstConnectResponse payload \<Rightarrow> process_first_user_connection_handshake_response P payload
      | HandshakeExchange payload \<Rightarrow> process_exchange_message P payload)"

definition execute_connection_action :: "('d, 'u, 'v) peer_lib \<Rightarrow> unit p2p" where
  "execute_connection_action P =
     sbind (sget pc_action) (\<lambda>action. sbind (sget pc_is_initiator) (\<lambda>is_initiator. case action of
       None \<Rightarrow> sret ()
     | Some action \<Rightarrow>
         if \<not> is_initiator then sret ()
         else (case action of
                 DeviceSync \<Rightarrow> start_add_device_process P
               | AddDevice \<Rightarrow> start_add_device_process P
               | LiveEdit \<Rightarrow> sbind (sget pc_node_id) (\<lambda>connection_id. emit (LiveEditConnected connection_id))
               | UserSync \<Rightarrow> start_user_network_sync P)))"

section \<open>Dispatch\<close>

definition process_message :: "('d, 'u, 'v) peer_lib \<Rightarrow> message \<Rightarrow> unit p2p" where
  "process_message P message =
     (case message of
        Ping \<Rightarrow> sret ()
      | Pong \<Rightarrow> sret ()
      | MessageError \<Rightarrow> emit (ErrorEvent ''Received error message from peer'' ''peer'')
      | MergeUpdate payload \<Rightarrow> process_resource_update_message P payload
      | LiveEditMsg payload \<Rightarrow> handle_live_edit_flow P payload
      | DeviceManifestRequest payload \<Rightarrow> handle_manifest_request P payload
      | DeviceManifestResponse payload \<Rightarrow> handle_manifest_response P payload
      | DeviceNetworkSync payload \<Rightarrow> handle_device_network_sync P payload
      | DeviceManifestAck \<Rightarrow> handle_manifest_ack P
      | DeviceNetworkSyncAck \<Rightarrow> send_resources P
      | ResourceAdditionRequest payload \<Rightarrow> process_resource_addition_request P payload
      | ResourceAdditionComplete \<Rightarrow> process_resource_addition_complete P
      | UserManifestPayload payload \<Rightarrow> process_user_manifest_payload P payload
      | UserNetworkSync payload \<Rightarrow> process_user_network_sync P payload
      | UserNetworkSyncAck \<Rightarrow> start_folder_sync P
      | RetryRequest \<Rightarrow> start_user_network_sync P
      | HandshakeMsg payload \<Rightarrow> handle_handshake_message P payload
      | FolderSyncMsg payload \<Rightarrow> process_folder_sync_message P payload)"

section \<open>The message loop\<close>

text \<open>
  What the transport yields: the streams the peer opens, in order, and for each what the reads return.
  A list that ends stands for a read that has not returned yet.
\<close>

datatype (plugins only: code size) stream_read = Bytes_read bytes | Stream_finished | Read_failed string

datatype (plugins only: code size) accepted = Accepted "stream_read list" | Accept_failed string

datatype (plugins only: code size) loop_end = Next_stream | Loop_returned | Waiting

definition error_event :: "string \<Rightarrow> (peer, 'e, unit) sm" where
  "error_event text' = emit (ErrorEvent text' ''message_handler'')"

text \<open>\<open>process_message\<close> on what was read; an error is only reported.\<close>

definition deliver :: "('d, 'u, 'v) peer_lib \<Rightarrow> message \<Rightarrow> (peer, p2p_error, loop_end) sm" where
  "deliver P message =
     scatch (process_message P message) (\<lambda>_. sret Next_stream)
       (\<lambda>e. sbind (error_event (''Error processing message: '' @ p2p_text P e)) (\<lambda>_. sret Next_stream))"

primrec read_stream ::
  "('d, 'u, 'v) peer_lib \<Rightarrow> bytes \<Rightarrow> stream_read list \<Rightarrow> (peer, p2p_error, loop_end) sm" where
  "read_stream P buffer [] = sret Waiting"
| "read_stream P buffer (r # rs) =
     (case r of
        Bytes_read bs \<Rightarrow>
          if bs = [] then read_stream P buffer rs
          else (case from_utf8 (buffer @ bs) of
                  Inl _ \<Rightarrow> read_stream P (buffer @ bs) rs
                | Inr message_str \<Rightarrow>
                    (case msg_read P message_str of
                       Inr message \<Rightarrow> deliver P message
                     | Inl (Unexpected_eof _) \<Rightarrow> read_stream P (buffer @ bs) rs
                     | Inl (Malformed _) \<Rightarrow> sret Next_stream))
      | Stream_finished \<Rightarrow> sbind (emit Disconnected) (\<lambda>_. sret Loop_returned)
      | Read_failed e \<Rightarrow>
          sbind (error_event (''Error reading from connection: '' @ e)) (\<lambda>_. sret Loop_returned))"

primrec handle_messages ::
  "('d, 'u, 'v) peer_lib \<Rightarrow> accepted list \<Rightarrow> (peer, p2p_error, loop_end) sm" where
  "handle_messages P [] = sret Waiting"
| "handle_messages P (a # as) =
     (case a of
        Accept_failed e \<Rightarrow>
          sbind (error_event (''Failed to accept bi-directional stream: '' @ e)) (\<lambda>_. sret Loop_returned)
      | Accepted reads \<Rightarrow>
          sbind (read_stream P [] reads) (\<lambda>r.
            case r of Next_stream \<Rightarrow> handle_messages P as | _ \<Rightarrow> sret r))"

end
