(* ===== verification/Authority.thy ===== *)
theory Authority
  imports Folder_Service
begin

text \<open>
  Who may update a resource and who may connect: what a successful check of a peer's token shows
  about the tokens stored in the database, that the checks return, and what they do not look at.
  The share records of resources and those of folders are the two proof stores.
\<close>

section \<open>The repositories as proof stores\<close>

definition stored_proof :: "world \<Rightarrow> string \<Rightarrow> string \<Rightarrow> bool" where
  "stored_proof w cid token \<longleftrightarrow> (\<exists>r \<in> set (t_shares w). sr_ucan_cid r = cid \<and> sr_ucan_token r = token)"

definition stored_folder_proof :: "world \<Rightarrow> string \<Rightarrow> string \<Rightarrow> bool" where
  "stored_folder_proof w cid token \<longleftrightarrow>
     (\<exists>r \<in> set (t_fshares w). fs_ucan_cid r = cid \<and> fs_ucan_token r = token)"

lemma first_row_eq_Inr:
  "first_row tbl p w = (Inr r, w') \<longleftrightarrow> List.find p (tbl w) = Some r \<and> w' = w"
  by (auto simp: first_row_def split: option.splits)

lemma get_conn_eq_Inr:
  "get_conn w = (Inr x, w') \<longleftrightarrow> pool_src w (pool_n w) \<and> w' = w\<lparr>pool_n := Suc (pool_n w)\<rparr>"
  by (auto simp: get_conn_def)

lemmas run_query = with_conn_def sbind_eq_Inr first_row_eq_Inr get_conn_eq_Inr

lemma keeps_first_row_any: "keeps P (first_row tbl p)"
  by (auto simp: keeps_def first_row_def split: option.splits)

lemma keeps_get_conn_any: "(\<And>w. P w \<Longrightarrow> P (w\<lparr>pool_n := Suc (pool_n w)\<rparr>)) \<Longrightarrow> keeps P get_conn"
  by (auto simp: keeps_def get_conn_def)

interpretation resource_proofs: proof_store "resolve_proof L" "\<lambda>w. t_shares w = S"
  "\<lambda>cid token. \<exists>r \<in> set S. sr_ucan_cid r = cid \<and> sr_ucan_token r = token" for L S
proof
  show "keeps (\<lambda>w. t_shares w = S) (resolve_proof L cid)" for cid
    unfolding resolve_proof_def share_get_ucan_by_cid_def with_conn_def
    by (intro keeps_smap_err keeps_sbind keeps_get_conn_any keeps_first_row_any keeps_sret) simp
  show "\<exists>r \<in> set S. sr_ucan_cid r = cid \<and> sr_ucan_token r = token"
    if "t_shares w = S" "resolve_proof L cid w = (Inr token, w')" for w cid token w'
    using that by (auto simp: resolve_proof_def share_get_ucan_by_cid_def run_query dest!: find_SomeD)
qed simp

interpretation folder_proofs: proof_store "resolve_folder_proof L" "\<lambda>w. t_fshares w = S"
  "\<lambda>cid token. \<exists>r \<in> set S. fs_ucan_cid r = cid \<and> fs_ucan_token r = token" for L S
proof
  show "keeps (\<lambda>w. t_fshares w = S) (resolve_folder_proof L cid)" for cid
    unfolding resolve_folder_proof_def fshare_get_ucan_by_cid_def with_conn_def
    by (intro keeps_smap_err keeps_sbind keeps_get_conn_any keeps_first_row_any keeps_sret) simp
  show "\<exists>r \<in> set S. fs_ucan_cid r = cid \<and> fs_ucan_token r = token"
    if "t_fshares w = S" "resolve_folder_proof L cid w = (Inr token, w')" for w cid token w'
    using that by (auto simp: resolve_folder_proof_def fshare_get_ucan_by_cid_def run_query dest!: find_SomeD)
qed simp

section \<open>Errors that do not occur\<close>

definition avoids :: "('s \<Rightarrow> bool) \<Rightarrow> 'e \<Rightarrow> ('s, 'e, 'a) sm \<Rightarrow> bool" where
  "avoids P e m \<longleftrightarrow> (\<forall>s. P s \<longrightarrow> fst (m s) \<noteq> Inl e)"

lemma avoids_sret: "avoids P e (sret x)"
  by (simp add: avoids_def)

lemma avoids_sbind:
  assumes "avoids P e m" "keeps P m" "\<And>x s s'. m s = (Inr x, s') \<Longrightarrow> avoids P e (f x)"
  shows "avoids P e (sbind m f)"
  using assms unfolding avoids_def keeps_def sbind_def
  by (simp split: prod.splits sum.splits) (metis fst_conv snd_conv)

lemma avoids_smap_err: "(\<And>e'. g e' = g e \<Longrightarrow> e' = e) \<Longrightarrow> avoids P e m \<Longrightarrow> avoids P (g e) (smap_err g m)"
  by (auto simp: avoids_def smap_err_def split: prod.splits sum.splits)

lemma avoids_other: "(\<And>e'. g e' \<noteq> e) \<Longrightarrow> avoids P e (smap_err g m)"
  by (auto simp: avoids_def smap_err_def split: prod.splits sum.splits)

lemma avoids_if: "avoids P e m \<Longrightarrow> avoids P e n \<Longrightarrow> avoids P e (if c then m else n)"
  by simp

lemma avoids_validate_structure: "avoids P ProofChainDiverges (validate_structure L token)"
  by (auto simp: avoids_def validate_structure_def sbind_def now_secs_def split: sum.splits)

lemma avoids_slift_audience: "avoids P ProofChainDiverges (slift (validate_audience L u k))"
  by (auto simp: avoids_def validate_audience_def verify_did_key_match_def split: sum.splits if_splits)

section \<open>Updating a resource\<close>

lemma get_user_by_id_ok:
  assumes "get_user_by_id i w = (Inr u, w')"
  obtains r where "r \<in> set (t_users w)" "ur_id r = i" "u = user_load r"
    "w' = w\<lparr>pool_n := Suc (pool_n w)\<rparr>"
  using assms by (auto simp: get_user_by_id_def run_query dest!: find_SomeD)

lemma find_owner_ok:
  assumes "find_owner_by_resource_id i w = (Inr u, w')"
  obtains r o' where "r \<in> set (t_resources w)" "rr_id r = i" "o' \<in> set (t_users w)"
    "ur_id o' = rr_created_by r" "u = user_select o'" "w' = w\<lparr>pool_n := Suc (pool_n w)\<rparr>"
  using assms by (auto simp: find_owner_by_resource_id_def run_query dest!: find_SomeD)

lemma validate_audience_Inr:
  "validate_audience L u k = Inr x \<longleftrightarrow> verify_did_key_match L (u_audience u) k = Inr x"
  by (auto simp: validate_audience_def split: sum.splits)

lemma user_ucan_pub_key [simp]:
  "usr_ucan_pub_key (user_load r) = ur_ucan_pub_key r" "usr_ucan_pub_key (user_select r) = ur_ucan_pub_key r"
  by (simp_all add: user_load_def user_select_def user_queryable.simps users_columns_def)

text \<open>
  C2. Authority to update is delegated authority: when the check of a peer's token for a resource
  succeeds, the token is well formed, in its time and addressed to the key of that peer, and its
  issuer is the key of the user who created the resource or holds a chain of stored tokens that
  goes back to this key, each addressed to the issuer of the next and granting \<open>crud/update\<close> on
  exactly this resource.
\<close>

theorem update_authority_sound:
  assumes ok: "service_validate_authority_for_update L i token p dn w = (Inr b, w')"
  shows "b \<and> (\<exists>peer r owner u now. peer \<in> set (t_users w) \<and> ur_id peer = p \<and>
    r \<in> set (t_resources w) \<and> rr_id r = i \<and> owner \<in> set (t_users w) \<and> ur_id owner = rr_created_by r \<and>
    ucan_try_from L token = Inr u \<and> ucan_check L u now = Inr () \<and>
    verify_did_key_match L (u_audience u) (ur_ucan_pub_key peer) = Inr () \<and>
    delegated L (stored_proof w) (ur_ucan_pub_key owner) (dn @ '':resource:'' @ i) ''crud/update'' u)"
proof -
  from ok obtain pu ow w1 w2 where p1: "get_user_by_id p w = (Inr pu, w1)"
    and o1: "find_owner_by_resource_id i w1 = (Inr ow, w2)"
    and v: "validate_authority_for_update L token (usr_ucan_pub_key pu) (usr_ucan_pub_key ow) i dn
      (resolve_proof L) w2 = (Inr b, w')"
    by (auto simp: service_validate_authority_for_update_def sbind_eq_Inr)
  obtain peer where peer: "peer \<in> set (t_users w)" "ur_id peer = p" "pu = user_load peer"
    "w1 = w\<lparr>pool_n := Suc (pool_n w)\<rparr>"
    using get_user_by_id_ok [OF p1] by metis
  obtain r owner where owner: "r \<in> set (t_resources w1)" "rr_id r = i" "owner \<in> set (t_users w1)"
    "ur_id owner = rr_created_by r" "ow = user_select owner" "w2 = w1\<lparr>pool_n := Suc (pool_n w1)\<rparr>"
    using find_owner_ok [OF o1] by metis
  from v obtain u w3 where struct: "validate_structure L token w2 = (Inr u, w3)"
    and aud: "validate_audience L u (ur_ucan_pub_key peer) = Inr ()"
    and perm: "validate_ucan_permission L (chain_fuel L) u (ur_ucan_pub_key owner) (resolve_proof L)
      (dn @ '':resource:'' @ i) ''crud/update'' w3 = (Inr (), w')" and b: "b"
    by (auto simp: validate_authority_for_update_def sbind_eq_Inr peer(3) owner(5))
  note parsed = validate_structure_ok [OF struct]
  have "t_shares w3 = t_shares w" by (simp add: parsed(3) owner(6) peer(4))
  from resource_proofs.permission_sound [OF this perm]
  have "delegated L (stored_proof w) (ur_ucan_pub_key owner) (dn @ '':resource:'' @ i) ''crud/update'' u"
    by (simp add: stored_proof_def [abs_def])
  with parsed aud b peer owner show ?thesis by (auto simp: validate_audience_Inr)
qed

text \<open>
  C21. The check returns: when every stored proof is older than the tokens that name it (a CID is a
  hash of the token), \<open>rank\<close> bounds the depth of the chain and enough fuel is never used up.
\<close>

theorem update_authority_terminates:
  assumes older: "\<And>u proofs cid token parent. u_proofs u = Some proofs \<Longrightarrow> cid \<in> set proofs \<Longrightarrow>
      stored_proof w cid token \<Longrightarrow> ucan_try_from L token = Inr parent \<Longrightarrow> rank parent < (rank u :: nat)"
    and fuel: "\<And>u. ucan_try_from L token = Inr u \<Longrightarrow> rank u < chain_fuel L"
  shows "fst (service_validate_authority_for_update L i token p dn w)
    \<noteq> Inl (Crypto (UcanError ProofChainDiverges))"
proof -
  let ?P = "\<lambda>s. t_shares s = t_shares w"
  have perm: "avoids ?P ProofChainDiverges
      (validate_ucan_permission L (chain_fuel L) u root (resolve_proof L) res ab)"
    if "ucan_try_from L token = Inr u" for u root res ab
    unfolding avoids_def
  proof (intro allI impI)
    fix s :: world assume s: "t_shares s = t_shares w"
    show "fst (validate_ucan_permission L (chain_fuel L) u root (resolve_proof L) res ab s)
        \<noteq> Inl ProofChainDiverges"
      by (rule resource_proofs.permission_terminates [where rank = rank and S = "t_shares w", OF _ s fuel [OF that]])
        (use older in \<open>auto simp: stored_proof_def\<close>)
  qed
  have keeps: "env_blind ?P" by (simp add: env_blind_def)
  have lookups: "keeps ?P (get_user_by_id j)" "keeps ?P (find_owner_by_resource_id j)" for j
    unfolding get_user_by_id_def find_owner_by_resource_id_def with_conn_def
    by (intro keeps_sbind keeps_get_conn_any keeps_first_row_any keeps_sret keeps_case_prod; simp)+
  have "avoids ?P (Crypto (UcanError ProofChainDiverges)) (service_validate_authority_for_update L i token p dn)"
    unfolding service_validate_authority_for_update_def validate_authority_for_update_def
      repo_call_def crypto_run_def Let_def
    by (intro avoids_sbind avoids_smap_err avoids_other perm keeps_smap_err lookups crypto_keeps keeps
        avoids_validate_structure avoids_slift_audience avoids_sret resource_proofs.resolver_keeps;
        auto dest: validate_structure_ok)
  then show ?thesis by (simp add: avoids_def)
qed

text \<open>
  The check looks at no capability of the presented token: a token that the owner of the resource
  issued to the peer for any purpose, with any capabilities or none, is accepted as authority to
  update every resource of that owner. Only the capabilities of the proofs behind a token that
  somebody else issued are looked at.
\<close>

theorem owner_token_needs_no_capability:
  assumes parties: "get_user_by_id p w = (Inr peer, w1)" "find_owner_by_resource_id i w1 = (Inr owner, w2)"
    and token: "ucan_try_from L token = Inr u" "\<And>now. ucan_check L u now = Inr ()"
    and keys: "verify_did_key_match L (u_audience u) (usr_ucan_pub_key peer) = Inr ()"
      "verify_did_key_match L (u_issuer u) (usr_ucan_pub_key owner) = Inr ()"
    and fuel: "0 < chain_fuel L"
  shows "fst (service_validate_authority_for_update L i token p dn w) = Inr True"
proof -
  obtain n where n: "chain_fuel L = Suc n" using fuel gr0_conv_Suc by blast
  have "validate_structure L token w2 = (Inr u, w2\<lparr>time_n := Suc (time_n w2)\<rparr>)"
    using token by (simp add: validate_structure_def sbind_def now_secs_def)
  moreover have "validate_audience L u (usr_ucan_pub_key peer) = Inr ()"
    using keys(1) by (simp add: validate_audience_Inr)
  ultimately show ?thesis
    using parties keys(2)
    by (simp add: service_validate_authority_for_update_def validate_authority_for_update_def
        repo_call_def crypto_run_def smap_err_def sbind_def n)
qed

section \<open>Connecting\<close>

text \<open>
  \<open>may_connect L token presenter verifier target dn now u\<close>: the token parses to \<open>u\<close>, its signature is
  valid and \<open>now\<close> is in its time, and it is a one-time token of the verifier herself, or it is addressed to the presenter and heads a chain of embedded
  tokens that goes back to the verifier's key and grants connecting to her at every step.
\<close>

definition may_connect ::
  "crypto_lib \<Rightarrow> string \<Rightarrow> string \<Rightarrow> string \<Rightarrow> ident \<Rightarrow> string \<Rightarrow> int \<Rightarrow> ucan \<Rightarrow> bool" where
  "may_connect L token presenter verifier target dn now u \<longleftrightarrow> ucan_try_from L token = Inr u \<and>
    ucan_check L u now = Inr () \<and>
    (is_one_time_connect_token u dn \<and> verify_did_key_match L (u_issuer u) verifier = Inr () \<and>
       list_ex (capability_grants (dn @ '':user-connect:'' @ target) ''use'') (u_capabilities u) \<or>
     verify_did_key_match L (u_audience u) presenter = Inr () \<and>
       connect_chain L verifier (dn @ '':user-connect:'' @ target) token u)"

lemma validate_structure_time:
  "validate_structure L token s = (Inr u, s') \<Longrightarrow> ucan_check L u (time_src s (time_n s) div 1000) = Inr ()"
  by (auto simp: validate_structure_def sbind_def now_secs_def split: sum.splits)

lemma validate_connect_token_ok:
  assumes ok: "validate_connect_token L token presenter verifier target dn s = (Inr b, s')"
  shows "b" "\<exists>u. may_connect L token presenter verifier target dn (time_src s (time_n s) div 1000) u"
proof -
  from ok obtain u s1 where struct: "validate_structure L token s = (Inr u, s1)"
    by (auto simp: validate_connect_token_def sbind_eq_Inr)
  note parsed = validate_structure_ok(1) [OF struct] validate_structure_time [OF struct]
  have "b \<and> may_connect L token presenter verifier target dn (time_src s (time_n s) div 1000) u"
  proof (cases "is_one_time_connect_token u dn")
    case True
    then show ?thesis
      using ok struct parsed by (auto simp: validate_connect_token_def sbind_eq_Inr may_connect_def)
  next
    case False
    then have "verify_did_key_match L (u_audience u) presenter = Inr ()" "b"
      "validate_embedded_proof_chain L token target verifier dn None s1 = (Inr (), s')"
      using ok struct by (auto simp: validate_connect_token_def sbind_eq_Inr validate_audience_Inr)
    with embedded_chain_sound parsed show ?thesis
      unfolding validate_embedded_proof_chain_def may_connect_def by fastforce
  qed
  then show "b" "\<exists>u. may_connect L token presenter verifier target dn (time_src s (time_n s) div 1000) u" by blast+
qed

text \<open>
  C11. A peer may connect only with a token for this user: a token that passes the check has a valid
  signature and is in its time at the moment of the check, and it is either a one-time token that the
  user issued herself with the capability to connect to her, or it is addressed to the key the peer presents and starts a chain of tokens, each embedded in the next and
  addressed to its issuer, that goes back to the user's own key and grants connecting to her at
  every step.
\<close>

theorem connect_token_sound:
  assumes ok: "validate_connect_token L token presenter verifier target dn s = (Inr b, s')"
  shows "b \<and> (\<exists>u. ucan_try_from L token = Inr u \<and> ucan_check L u (time_src s (time_n s) div 1000) = Inr () \<and>
    (is_one_time_connect_token u dn \<and> verify_did_key_match L (u_issuer u) verifier = Inr () \<and>
       list_ex (capability_grants (dn @ '':user-connect:'' @ target) ''use'') (u_capabilities u) \<or>
     verify_did_key_match L (u_audience u) presenter = Inr () \<and>
       connect_chain L verifier (dn @ '':user-connect:'' @ target) token u))"
  using validate_connect_token_ok [OF ok] unfolding may_connect_def by blast

text \<open>
  The check of a connect token returns: a proof embedded in a token is part of its text, so it
  is shorter, and the recursion over the embedded proofs ends.
\<close>

theorem connect_token_terminates:
  fixes s :: "'a env_scheme"
  assumes embedded: "\<And>token u inner. ucan_try_from L token = Inr u \<Longrightarrow> embedded_proof u = Some inner \<Longrightarrow>
    length inner < length token"
  shows "fst (validate_connect_token L token presenter verifier target dn s)
    \<noteq> Inl (UcanError ProofChainDiverges)"
proof -
  let ?P = "\<lambda>_ :: 'a env_scheme. True"
  have blind: "env_blind ?P" by (simp add: env_blind_def)
  have chain: "avoids ?P ProofChainDiverges (validate_embedded_proof_chain L token target verifier dn None)"
    unfolding validate_embedded_proof_chain_def avoids_def
    by (intro allI impI embedded_chain_terminates lessI) (rule embedded)
  have pure: "avoids ?P ProofChainDiverges (slift (verify_did_key_match L d k))"
    "avoids ?P ProofChainDiverges (slift (check_capability u res ab))" for d k u res ab
    by (auto simp: avoids_def verify_did_key_match_def check_capability_def split: sum.splits if_splits)
  have "avoids ?P (UcanError ProofChainDiverges)
      (validate_connect_token L token presenter verifier target dn)"
    unfolding validate_connect_token_def Let_def
    by (intro avoids_smap_err avoids_sbind avoids_if avoids_validate_structure avoids_slift_audience
        avoids_sret pure chain crypto_keeps blind; simp add: keeps_def)
  then show ?thesis by (simp add: avoids_def)
qed

end
