(* ===== verification/Peer_Safety.thy ===== *)
theory Peer_Safety
  imports Peer_Connection Authority
begin

text \<open>
  What no message of a peer can do, and what the handshake guarantees: the integrity of the database
  and the session of the user survive every input, the handshake is completed only by a peer that
  proved its key and its right to connect, and no handler looks at whether it was.
\<close>

section \<open>What the handlers keep\<close>

text \<open>
  A property of the connection that is kept by the elementary operations: the integrity of the
  database may be lost only where it was missing before.
\<close>

definition step_blind :: "(peer \<Rightarrow> bool) \<Rightarrow> bool" where
  "step_blind Q \<longleftrightarrow> (\<forall>s. Q s \<longrightarrow>
     (\<forall>w. (db_inv (pc_world s) \<longrightarrow> db_inv w) \<longrightarrow> Q (s\<lparr>pc_world := w\<rparr>)) \<and>
     (\<forall>n. Q (s\<lparr>pc_link_n := n\<rparr>)) \<and> (\<forall>ms. Q (s\<lparr>pc_sent := ms\<rparr>)) \<and> (\<forall>es. Q (s\<lparr>pc_events := es\<rparr>)) \<and>
     (\<forall>m. Q (s\<lparr>pc_device_manifest := m\<rparr>)) \<and> (\<forall>m. Q (s\<lparr>pc_user_manifest := m\<rparr>)))"

definition handshake_blind :: "(peer \<Rightarrow> bool) \<Rightarrow> bool" where
  "handshake_blind Q \<longleftrightarrow> step_blind Q \<and> (\<forall>s. Q s \<longrightarrow>
     (\<forall>u d. Q (s\<lparr>pc_user := u, pc_device := d\<rparr>)) \<and> (\<forall>t. Q (s\<lparr>pc_connection_type := t\<rparr>)) \<and>
     (\<forall>b. Q (s\<lparr>pc_handshake_complete := b\<rparr>)))"

named_theorems peer_keeps \<open>properties kept by the operations of a connection\<close>

declare keeps_control [peer_keeps] keeps_sfor [peer_keeps] keeps_sget [peer_keeps]

lemma keeps_on_world [peer_keeps]:
  assumes "step_blind Q" "keeps db_inv m"
  shows "keeps Q (on_world V m)"
proof (rule keepsI)
  fix s assume Q: "Q s"
  obtain r w where m: "m (pc_world s) = (r, w)" by fastforce
  have "db_inv (pc_world s) \<longrightarrow> db_inv w" using keepsD [OF assms(2) _ m] by blast
  then have "Q (s\<lparr>pc_world := w\<rparr>)" using assms(1) Q by (simp add: step_blind_def)
  then show "Q (snd (on_world V m s))" using m by (simp add: on_world_def split: sum.splits)
qed

lemma keeps_operations [peer_keeps]:
  assumes "step_blind Q"
  shows "keeps Q (emit e)" "keeps Q (link_op V)" "keeps Q (set_device_manifest_comparison_result dm)"
    "keeps Q (set_user_manifest_comparison_result um)"
    "keeps Q (remove_device_local_missing_resource i)" "keeps Q (remove_user_local_missing_resource i)"
  using assms unfolding keeps_def
  by (simp_all add: step_blind_def p2p_ops link_op_def remove_device_local_missing_resource_def
      remove_user_local_missing_resource_def Let_def split: option.splits)

lemma keeps_sent [peer_keeps]:
  "step_blind Q \<Longrightarrow> keeps Q (smodify (\<lambda>s. s\<lparr>pc_sent := pc_sent s @ [m]\<rparr>))"
  by (rule keeps_smodify) (simp add: step_blind_def)

lemma keeps_reading [peer_keeps]:
  "keeps Q get_device_manifest_result" "keeps Q get_user_manifest_result" "keeps Q get_peer_device"
  "keeps Q get_peer_user" "keeps Q get_connection_type" "keeps Q get_local_user"
  "keeps Q get_local_device" "keeps Q (peer_client_id P)" "keeps Q (remote_device_id P)"
  unfolding p2p_ops remote_device_id_def by (intro peer_keeps)+

lemma keeps_with_cu [peer_keeps]: "(\<And>cu. keeps Q (f cu)) \<Longrightarrow> keeps Q (with_cu f)"
  unfolding with_cu_def by (intro peer_keeps)

lemma keeps_send_message [peer_keeps]: "step_blind Q \<Longrightarrow> keeps Q (send_message P m)"
  unfolding send_message_def by (intro peer_keeps)

lemma keeps_case_connection_type [peer_keeps]:
  "keeps Q a \<Longrightarrow> keeps Q b \<Longrightarrow> keeps Q (case t of DeviceConn \<Rightarrow> a | UserConn \<Rightarrow> b)"
  by (cases t) simp_all

lemma keeps_device_sync [peer_keeps]:
  assumes "step_blind Q"
  shows "keeps Q (start_add_device_process P)" "keeps Q (handle_manifest_request P dq)"
    "keeps Q (handle_manifest_ack P)" "keeps Q (handle_manifest_response P dr)"
    "keeps Q (handle_device_network_sync P dn)"
  unfolding start_add_device_process_def handle_manifest_request_def handle_manifest_ack_def
    handle_manifest_response_def handle_device_network_sync_def
  by (intro peer_keeps assms stmt_keeps)+

lemma keeps_user_sync [peer_keeps]:
  assumes "step_blind Q"
  shows "keeps Q (start_user_network_sync P)" "keeps Q (user_sync_payload P um u)"
    "keeps Q (process_user_manifest_payload P mp)" "keeps Q (process_user_network_sync P un)"
proof -
  show *: "keeps Q (start_user_network_sync P)" "keeps Q (user_sync_payload P um u)" for um u
    unfolding start_user_network_sync_def user_sync_payload_def
    by (intro peer_keeps assms stmt_keeps)+
  show "keeps Q (process_user_manifest_payload P mp)"
    unfolding process_user_manifest_payload_def
    by (cases mp) (simp_all only: user_manifest_payload.case, (intro peer_keeps assms stmt_keeps *)+)
  show "keeps Q (process_user_network_sync P un)"
    unfolding process_user_network_sync_def by (intro peer_keeps assms stmt_keeps *)
qed

lemma keeps_resources [peer_keeps]:
  assumes "step_blind Q"
  shows "keeps Q (send_resources P)" "keeps Q (process_resource_addition_request P rd)"
    "keeps Q (process_resource_addition_complete P)" "keeps Q (check_update_authority P i tk)"
  unfolding send_resources_def remote_missing_resources_def process_resource_addition_request_def
    process_resource_addition_complete_def resources_to_merge_def check_update_authority_def
  by (intro peer_keeps assms stmt_keeps)+

lemma keeps_listing [stmt_keeps]:
  "keeps db_inv (get_share_records_for_resource i)" "keeps db_inv (service_get_vector_clocks_for_resource i)"
  unfolding get_share_records_for_resource_def service_get_vector_clocks_for_resource_def
  by (intro stmt_keeps)+

lemma keeps_process_resource_update_message [peer_keeps]:
  assumes "step_blind Q"
  shows "keeps Q (process_resource_update_message P rm)"
  unfolding process_resource_update_message_def update_handlers Let_def
  by (cases rm) (simp_all only: resource_update_msg.case, (intro peer_keeps assms stmt_keeps)+)

lemma keeps_folder_sync [peer_keeps]:
  assumes "step_blind Q"
  shows "keeps Q (start_folder_sync P)" "keeps Q (process_folder_sync_message P fm)"
proof -
  show "keeps Q (start_folder_sync P)"
    unfolding start_folder_sync_def send_folders_def by (intro peer_keeps assms stmt_keeps)
  show "keeps Q (process_folder_sync_message P fm)"
    unfolding process_folder_sync_message_def receive_unknown_folders_def
      process_folder_recipient_sync_def send_missing_recipients_def send_folders_def
    by (cases fm) (simp_all only: folder_sync_message.case, (intro peer_keeps assms stmt_keeps)+)
qed

lemma keeps_handle_live_edit_flow [peer_keeps]:
  assumes "step_blind Q"
  shows "keeps Q (handle_live_edit_flow P lm)"
  unfolding handle_live_edit_flow_def
  by (cases lm) (simp_all only: live_edit_message.case, (intro peer_keeps assms)+)

lemma keeps_handshake_parts [peer_keeps]:
  assumes "step_blind Q"
  shows "keeps Q (own_signed_ucan_pub P)" "keeps Q (issue_token_for P k)" "keeps Q (verify_peer_key P u k)"
    "keeps Q (check_connect_token P tk k u i)"
  unfolding own_signed_ucan_pub_def issue_token_for_def verify_peer_key_def check_connect_token_def
  by (intro peer_keeps assms stmt_keeps crypto_keeps env_blind_db_inv)+

text \<open>Every handler but those of the handshake.\<close>

lemma keeps_process_message_other:
  assumes "step_blind Q" "\<And>h. m \<noteq> HandshakeMsg h"
  shows "keeps Q (process_message P m)"
  using assms unfolding process_message_def
  by (cases m) (simp_all only: message.case, (intro peer_keeps | simp | blast)+)

lemma keeps_marking:
  assumes "handshake_blind Q"
  shows "keeps Q (set_peer_user_and_device u d)" "keeps Q (set_connection_type t)"
    "keeps Q mark_handshake_complete" "step_blind Q"
  using assms by (auto simp: handshake_blind_def p2p_ops intro!: keeps_smodify)

lemma keeps_handshake [peer_keeps]:
  assumes "handshake_blind Q"
  shows "keeps Q (initiate_handshake P ct ac u d)" "keeps Q (handle_handshake_message P hm)"
proof -
  note blind = keeps_marking [OF assms]
  show "keeps Q (initiate_handshake P ct ac u d)"
    unfolding initiate_handshake_def by (intro peer_keeps blind stmt_keeps)
  show "keeps Q (handle_handshake_message P hm)"
    unfolding handle_handshake_message_def process_exchange_message_def
      peer_process_first_connection_request_def process_first_user_connection_handshake_response_def
    by (cases hm) (simp_all only: handshake_message.case, (intro peer_keeps blind stmt_keeps)+)
qed

lemma keeps_process_message [peer_keeps]:
  assumes "handshake_blind Q"
  shows "keeps Q (process_message P m)"
proof (cases "\<exists>h. m = HandshakeMsg h")
  case True
  then show ?thesis using keeps_handshake(2) [OF assms] by (auto simp: process_message_def)
next
  case False
  then show ?thesis using keeps_process_message_other [OF keeps_marking(4) [OF assms]] by blast
qed

lemma keeps_read_stream [peer_keeps]:
  assumes "handshake_blind Q"
  shows "keeps Q (read_stream P buffer rs)"
proof (induction rs arbitrary: buffer)
  case (Cons r rs)
  have error: "keeps Q (error_event t)" for t
    unfolding error_event_def by (intro peer_keeps keeps_marking [OF assms])
  show ?case
  proof (cases r)
    case (Bytes_read bs)
    have "keeps Q (deliver P m)" for m
      unfolding deliver_def by (intro peer_keeps error assms)
    then show ?thesis
      using Cons.IH Bytes_read
      by (auto intro!: peer_keeps error assms split: read_error.splits)
  qed (auto intro!: peer_keeps error keeps_marking [OF assms])
qed (simp only: read_stream.simps keeps_sret)

lemma keeps_handle_messages:
  assumes "handshake_blind Q"
  shows "keeps Q (handle_messages P as)"
proof (induction as)
  case (Cons a as)
  have error: "keeps Q (error_event t)" for t
    unfolding error_event_def by (intro peer_keeps keeps_marking [OF assms])
  show ?case
    using Cons.IH by (cases a) (auto intro!: peer_keeps error assms split: loop_end.splits)
qed (simp only: handle_messages.simps keeps_sret)


section \<open>Nothing breaks the database or the session\<close>

definition session_of where
  "session_of s = (pc_current_user s, pc_current_device s, pc_crypto s, pc_domain s,
     pc_is_initiator s, pc_action s, pc_node_id s, pc_remote s)"

text \<open>
  C3. Whatever streams a peer opens and whatever bytes it sends on them, the integrity of the database
  is kept, and so are the signed-in user, her device, her loaded certificate and the role of this
  side of the connection.
\<close>

theorem peer_input_safe:
  assumes "handle_messages P as s = (r, s')" "db_inv (pc_world s)"
  shows "db_inv (pc_world s') \<and> session_of s' = session_of s"
proof -
  have "handshake_blind (\<lambda>t. db_inv (pc_world t) \<and> session_of t = session_of s)"
    by (simp add: handshake_blind_def step_blind_def session_of_def)
  from keepsD [OF keeps_handle_messages [OF this] _ assms(1)] assms(2) show ?thesis by simp
qed

section \<open>A completed handshake\<close>

definition credentials :: "handshake_message \<Rightarrow> user \<times> string \<times> string" where
  "credentials h = (case h of
     HandshakeFirstConnectRequest q \<Rightarrow> (fcq_peer_user q, fcq_signed_ucan_pub q, fcq_one_time_ucan q)
   | HandshakeFirstConnectResponse q \<Rightarrow> (fcs_peer_user q, fcs_signed_ucan_pub q, fcs_ucan_token q)
   | HandshakeExchange q \<Rightarrow> (uue_peer_user q, uue_signed_ucan_pub q, uue_ucan_token q))"

lemma completing_sbind:
  assumes "sbind m f s = (r, s')" "keeps (\<lambda>t. \<not> C t) m" "\<not> C s" "C s'"
  obtains x t where "m s = (Inr x, t)" "\<not> C t" "f x t = (r, s')"
proof -
  obtain q t where m: "m s = (q, t)" by fastforce
  have "\<not> C t" using keepsD [OF assms(2,3) m] .
  with m assms(1,4) that show thesis by (cases q) (auto simp: sbind_def)
qed

lemma not_complete_blind: "step_blind (\<lambda>t. \<not> pc_handshake_complete t)"
  by (simp add: step_blind_def)

lemma verify_peer_key_ok:
  assumes "verify_peer_key P u k s = (Inr key, s')"
  shows "\<exists>now. pgp_verify_cleartext (pl_crypto P) (usr_public_key u) k now = Inr (True, Some key)"
  using assms by (auto simp: verify_peer_key_def on_world_eq_Inr verify_clear_text_message_def
      sbind_eq_Inr now_secs_def split: if_splits option.splits)

lemma check_connect_token_ok:
  assumes "check_connect_token P tk key me i s = (Inr x, s')"
  shows "\<exists>now u. may_connect (pl_crypto P) tk key (usr_ucan_pub_key me) (usr_id me) (pc_domain s) now u"
  using assms validate_connect_token_ok(2)
  by (fastforce simp: check_connect_token_def on_world_eq_Inr sbind_eq_Inr split: if_splits)

text \<open>What the checks of a handshake establish about the peer and the token it presented.\<close>

definition admitted :: "('d, 'u, 'v) peer_lib \<Rightarrow> peer \<Rightarrow> user \<times> string \<times> string \<Rightarrow> bool" where
  "admitted P s = (\<lambda>(peer_user, signed_key, token). \<exists>me key now now' u. pc_current_user s = Some me \<and>
     pgp_verify_cleartext (pl_crypto P) (usr_public_key peer_user) signed_key now = Inr (True, Some key) \<and>
     may_connect (pl_crypto P) token key (usr_ucan_pub_key me) (usr_id me) (pc_domain s) now' u)"

text \<open>
  The handlers are followed from a state in which the handshake is not complete (\<open>open_in\<close>); at every
  end the flag is unset or the peer was admitted.
\<close>

definition open_in where
  "open_in S t \<longleftrightarrow> \<not> pc_handshake_complete t \<and> session_of t = S"

definition outcome :: "('d, 'u, 'v) peer_lib \<Rightarrow> peer \<Rightarrow> user \<times> string \<times> string \<Rightarrow> peer \<Rightarrow> bool" where
  "outcome P s c t \<longleftrightarrow> (pc_handshake_complete t \<longrightarrow> admitted P s c \<and> pc_user t = fst c)"

lemma open_in_blind: "step_blind (open_in S)" "keeps (open_in S) (set_connection_type ct)"
  by (auto intro!: keeps_smodify simp: step_blind_def open_in_def session_of_def p2p_ops)

lemma outcome_sbind:
  assumes "open_in S s" "keeps (open_in S) m"
    "\<And>x t. m s = (Inr x, t) \<Longrightarrow> open_in S t \<Longrightarrow> outcome P s0 c (snd (f x t))"
  shows "outcome P s0 c (snd (sbind m f s))"
proof -
  obtain q t where m: "m s = (q, t)" by fastforce
  have "open_in S t" using keepsD [OF assms(2,1) m] .
  with m assms(3) show ?thesis by (cases q) (auto simp: sbind_def outcome_def open_in_def)
qed

lemma outcome_local_user:
  assumes "open_in (session_of s0) s"
    "\<And>me. pc_current_user s0 = Some me \<Longrightarrow> outcome P s0 c (snd (f me s))"
  shows "outcome P s0 c (snd (sbind get_local_user f s))"
  using assms by (auto simp: get_local_user_def sbind_def outcome_def open_in_def session_of_def
      split: option.splits)

lemma outcome_set_peer:
  assumes "admitted P s0 (u, k, tk)" "\<And>x. keeps (\<lambda>t. pc_user t = u) (f x)"
  shows "outcome P s0 (u, k, tk) (snd (sbind (set_peer_user_and_device u d) f s))"
  using assms by (auto simp: sbind_def set_peer_user_and_device_def outcome_def keeps_def)

lemma admittedI:
  assumes "verify_peer_key P u k t1 = (Inr key, t2)" "pc_current_user s0 = Some me"
    "check_connect_token P tk key me i t3 = (Inr x, t4)" "open_in (session_of s0) t3"
  shows "admitted P s0 (u, k, tk)"
proof -
  have "pc_domain t3 = pc_domain s0" using assms(4) by (simp add: open_in_def session_of_def)
  with verify_peer_key_ok [OF assms(1)] check_connect_token_ok [OF assms(3)] assms(2)
  show ?thesis by (simp add: admitted_def) blast
qed

lemma user_set_blind:
  "step_blind (\<lambda>t. pc_user t = u)" "keeps (\<lambda>t. pc_user t = u) (set_connection_type ct)"
  "keeps (\<lambda>t. pc_user t = u) mark_handshake_complete"
  by (auto intro!: keeps_smodify simp: step_blind_def p2p_ops)

lemmas kept_open = peer_keeps stmt_keeps open_in_blind user_set_blind

lemma exchange_outcome:
  assumes "open_in (session_of s) s"
  shows "outcome P s (uue_peer_user q, uue_signed_ucan_pub q, uue_ucan_token q)
    (snd (process_exchange_message P q s))"
  unfolding process_exchange_message_def
  by (rule outcome_sbind [OF assms]; (intro kept_open)?; rule outcome_local_user, assumption;
    rule outcome_sbind, assumption; (intro kept_open)?; rule outcome_sbind, assumption; (intro kept_open)?;
    rule outcome_set_peer, rule admittedI; (assumption | intro kept_open)?)

lemma response_outcome:
  assumes "open_in (session_of s) s"
  shows "outcome P s (fcs_peer_user q, fcs_signed_ucan_pub q, fcs_ucan_token q)
    (snd (process_first_user_connection_handshake_response P q s))"
  unfolding process_first_user_connection_handshake_response_def
  by (rule outcome_sbind [OF assms]; (intro kept_open)?; rule outcome_local_user, assumption;
    rule outcome_sbind, assumption; (intro kept_open)?;
    rule outcome_set_peer, rule admittedI; (assumption | intro kept_open)?)

lemma request_outcome:
  assumes "open_in (session_of s) s"
  shows "outcome P s (fcq_peer_user q, fcq_signed_ucan_pub q, fcq_one_time_ucan q)
    (snd (peer_process_first_connection_request P q s))"
  unfolding peer_process_first_connection_request_def
  by (rule outcome_local_user [OF assms]; rule outcome_sbind [OF assms]; (intro kept_open)?;
    rule outcome_sbind, assumption; (intro kept_open)?; rule outcome_sbind, assumption; (intro kept_open)?;
    rule outcome_sbind, assumption; (intro kept_open)?; rule outcome_sbind, assumption; (intro kept_open)?;
    rule outcome_sbind, assumption; (intro kept_open)?;
    rule outcome_set_peer, rule admittedI; (assumption | intro kept_open)?)


section \<open>Messages arrive as they were sent\<close>

text \<open>
  JSON text of a message: it is read back, and a text that stops early is recognised as such, so
  that the reader goes on reading.
\<close>

definition framing_ok :: "('d, 'u, 'v) peer_lib \<Rightarrow> bool" where
  "framing_ok P \<longleftrightarrow> (\<forall>m t. msg_print P m = Inr t \<longrightarrow> t \<noteq> [] \<and> is_text t \<and> msg_read P t = Inr m \<and>
     (\<forall>p q. t = p @ q \<longrightarrow> p \<noteq> [] \<longrightarrow> q \<noteq> [] \<longrightarrow> (\<exists>e. msg_read P p = Inl (Unexpected_eof e))))"

lemma as_bytes_append [simp]: "as_bytes (s @ t) = as_bytes s @ as_bytes t"
  by (simp add: as_bytes_def)

lemma bytes_text_inverse [simp]: "as_bytes (bytes_text bs) = bs" "bytes_text (as_bytes s) = s"
proof -
  have "unat b < 256" for b :: byte using unsigned_less [of b, where ?'a = nat] by simp
  then show "as_bytes (bytes_text bs) = bs"
    by (induction bs) (simp_all add: as_bytes_def bytes_text_def of_char_of)
  show "bytes_text (as_bytes s) = s"
    by (induction s) (simp_all add: as_bytes_def bytes_text_def)
qed

lemma bytes_text_append: "bytes_text (a @ b) = bytes_text a @ bytes_text b"
  by (simp add: bytes_text_def)

lemma from_utf8_Inr: "from_utf8 bs = Inr s \<Longrightarrow> s = bytes_text bs"
  by (simp add: from_utf8_def split: if_splits)

lemma read_stream_message:
  assumes ok: "framing_ok P" and text': "msg_print P m = Inr t"
  shows "buffer @ concat bss = as_bytes t \<Longrightarrow> bss \<noteq> [] \<Longrightarrow> [] \<notin> set bss \<Longrightarrow>
    read_stream P buffer (map Bytes_read bss @ rs) = deliver P m"
proof (induction bss arbitrary: buffer)
  case (Cons bs bss)
  from ok text' have t: "is_text t" "msg_read P t = Inr m"
    and early: "\<And>p q. t = p @ q \<Longrightarrow> p \<noteq> [] \<Longrightarrow> q \<noteq> [] \<Longrightarrow> \<exists>e. msg_read P p = Inl (Unexpected_eof e)"
    unfolding framing_ok_def by blast+
  have bs: "bs \<noteq> []" using Cons.prems by auto
  show ?case
  proof (cases bss)
    case Nil
    then have "buffer @ bs = as_bytes t" using Cons.prems by simp
    with bs t show ?thesis by (simp add: from_utf8_as_bytes)
  next
    case (Cons c bss')
    have IH: "read_stream P (buffer @ bs) (map Bytes_read bss @ rs) = deliver P m"
      using Cons.prems Cons by (intro Cons.IH) auto
    show ?thesis
    proof (cases "from_utf8 (buffer @ bs)")
      case (Inl e)
      then show ?thesis using IH bs by simp
    next
      case (Inr p)
      have "t = bytes_text (buffer @ bs) @ bytes_text (concat bss)"
        using arg_cong [OF Cons.prems(1), of bytes_text] by (simp add: bytes_text_append)
      moreover have "concat bss \<noteq> []" using Cons.prems Cons by auto
      ultimately obtain e where "msg_read P p = Inl (Unexpected_eof e)"
        using early [of p "bytes_text (concat bss)"] from_utf8_Inr [OF Inr] bs
        by (auto simp: bytes_text_def)
      then show ?thesis using IH Inr bs by simp
    qed
  qed
qed simp

text \<open>
  C5. A message arrives as it was sent: however the transport splits the chunks that \<open>send_message\<close>
  writes, the reader hands exactly this message to the dispatch, and nothing before it is complete.
\<close>

theorem message_reassembled:
  assumes "framing_ok P" "msg_print P m = Inr t"
    and "concat bss = concat (chunks CHUNK_SIZE (as_bytes t))" "[] \<notin> set bss"
  shows "read_stream P [] (map Bytes_read bss @ rs) s = deliver P m s"
proof -
  have "concat bss = as_bytes t" using assms(3) by (simp add: concat_chunks CHUNK_SIZE_def)
  moreover have "t \<noteq> []" using assms(1,2) unfolding framing_ok_def by blast
  ultimately have "bss \<noteq> []" by (auto simp: as_bytes_def)
  with \<open>concat bss = as_bytes t\<close> show ?thesis
    using read_stream_message [OF assms(1,2), of "[]" bss rs] assms(4) by simp
qed

end
