(* ===== verification/Peer_Handshake_Gap.thy ===== *)
theory Peer_Handshake_Gap
  imports Peer_Safety
begin

text \<open>
  No handler asks whether the handshake is complete: \<open>pc_handshake_complete\<close> is written and never
  read, so what a connection answers does not depend on it, and a peer that skips the handshake is
  served as the local user.
\<close>

definition set_flag :: "bool \<Rightarrow> peer \<Rightarrow> peer" where
  "set_flag b s = s\<lparr>pc_handshake_complete := b\<rparr>"

definition ignores_flag :: "(peer, 'e, 'a) sm \<Rightarrow> bool" where
  "ignores_flag m \<longleftrightarrow> (\<forall>s b. \<exists>b'. m (set_flag b s) = (fst (m s), set_flag b' (snd (m s))))"

named_theorems ignores \<open>operations that do not look at the flag\<close>

lemma ignores_pure [ignores]: "ignores_flag (sret x)" "ignores_flag (sthrow e)" "ignores_flag (slift r)"
  by (auto simp: ignores_flag_def)

lemma same_flagI: "(\<And>s b. m (set_flag b s) = (fst (m s), set_flag b (snd (m s)))) \<Longrightarrow> ignores_flag m"
  unfolding ignores_flag_def by blast

lemma ignores_sget: "(\<And>s b. f (set_flag b s) = f s) \<Longrightarrow> ignores_flag (sget f)"
  by (auto simp: ignores_flag_def)

lemma ignores_smodify: "(\<And>s b. \<exists>b'. f (set_flag b s) = set_flag b' (f s)) \<Longrightarrow> ignores_flag (smodify f)"
  by (simp add: ignores_flag_def)

lemma ignoresE:
  assumes "ignores_flag m" "m s = (r, t)"
  obtains b' where "m (set_flag b s) = (r, set_flag b' t)"
proof -
  from assms(1) obtain b' where "m (set_flag b s) = (fst (m s), set_flag b' (snd (m s)))"
    unfolding ignores_flag_def by metis
  then show thesis using assms(2) that by simp
qed

lemma ignores_sbind [ignores]:
  assumes "ignores_flag m" "\<And>x. ignores_flag (f x)"
  shows "ignores_flag (sbind m f)"
  unfolding ignores_flag_def
proof (intro allI)
  fix s b
  obtain r t where m: "m s = (r, t)" by fastforce
  obtain b' where m': "m (set_flag b s) = (r, set_flag b' t)" by (rule ignoresE [OF assms(1) m])
  show "\<exists>b'. sbind m f (set_flag b s) = (fst (sbind m f s), set_flag b' (snd (sbind m f s)))"
  proof (cases r)
    case (Inr x)
    obtain r' t' where f: "f x t = (r', t')" by fastforce
    obtain c where "f x (set_flag b' t) = (r', set_flag c t')" by (rule ignoresE [OF assms(2) f])
    then show ?thesis using m m' f Inr by (auto simp: sbind_def)
  qed (use m m' in \<open>auto simp: sbind_def\<close>)
qed

lemma ignores_control [ignores]:
  "ignores_flag m \<Longrightarrow> ignores_flag n \<Longrightarrow> ignores_flag (if c then m else n)"
  "ignores_flag m \<Longrightarrow> ignores_flag n \<Longrightarrow> ignores_flag (case t of DeviceConn \<Rightarrow> m | UserConn \<Rightarrow> n)"
  by (auto split: connection_type.splits)

lemma ignores_cases [ignores]:
  "ignores_flag a \<Longrightarrow> (\<And>x. ignores_flag (g x)) \<Longrightarrow> ignores_flag (case q of None \<Rightarrow> a | Some x \<Rightarrow> g x)"
  "(\<And>x. ignores_flag (h x)) \<Longrightarrow> (\<And>x. ignores_flag (k x)) \<Longrightarrow>
     ignores_flag (case e of Inl x \<Rightarrow> h x | Inr x \<Rightarrow> k x)"
  "(\<And>x y. ignores_flag (p x y)) \<Longrightarrow> ignores_flag (case z of (x, y) \<Rightarrow> p x y)"
  by (auto split: option.splits sum.splits prod.splits)

lemma ignores_sfor [ignores]: "(\<And>x. ignores_flag (f x)) \<Longrightarrow> ignores_flag (sfor f xs)"
  by (induction xs) (simp_all add: ignores)

lemma ignores_on_world [ignores]: "ignores_flag (on_world V m)"
  by (rule same_flagI) (simp add: on_world_def set_flag_def split: prod.splits sum.splits)

lemma ignores_fields [ignores]:
  "ignores_flag (sget pc_user)" "ignores_flag (sget pc_device)" "ignores_flag (sget pc_crypto)"
  "ignores_flag (sget pc_domain)" "ignores_flag (sget pc_is_initiator)" "ignores_flag (sget pc_node_id)"
  "ignores_flag (sget pc_remote)" "ignores_flag (sget pc_current_user)"
  "ignores_flag (sget pc_current_device)" "ignores_flag (sget pc_device_manifest)"
  "ignores_flag (sget pc_user_manifest)" "ignores_flag get_connection_type"
  unfolding get_connection_type_def by (rule ignores_sget; simp add: set_flag_def)+

lemma ignores_operations [ignores]:
  "ignores_flag (emit e)" "ignores_flag (link_op V)"
  "ignores_flag (set_device_manifest_comparison_result dm)"
  "ignores_flag (set_user_manifest_comparison_result um)"
  "ignores_flag (remove_device_local_missing_resource i)"
  "ignores_flag (remove_user_local_missing_resource i)"
  "ignores_flag (set_peer_user_and_device u d)" "ignores_flag (set_connection_type ct)"
  "ignores_flag (smodify (\<lambda>s. s\<lparr>pc_sent := pc_sent s @ [m]\<rparr>))"
  by (rule same_flagI; simp add: set_flag_def p2p_ops link_op_def Let_def
      remove_device_local_missing_resource_def remove_user_local_missing_resource_def
      split: option.splits)+

lemma ignores_marking [ignores]: "ignores_flag mark_handshake_complete"
  unfolding ignores_flag_def by (intro allI exI [of _ True]) (simp add: set_flag_def p2p_ops)

lemma ignores_reads [ignores]:
  "ignores_flag get_device_manifest_result" "ignores_flag get_user_manifest_result"
  "ignores_flag get_peer_device" "ignores_flag get_peer_user" "ignores_flag get_local_user"
  "ignores_flag get_local_device" "ignores_flag (peer_client_id P)" "ignores_flag (remote_device_id P)"
  "(\<And>cu. ignores_flag (f cu)) \<Longrightarrow> ignores_flag (with_cu f)"
  unfolding get_device_manifest_result_def get_user_manifest_result_def get_peer_device_def
    get_peer_user_def get_local_user_def get_local_device_def peer_client_id_def remote_device_id_def
    with_cu_def
  by (intro ignores | assumption)+

lemma ignores_send_message [ignores]: "ignores_flag (send_message P m)"
  unfolding send_message_def by (intro ignores)

lemma ignores_syncs [ignores]:
  "ignores_flag (handle_manifest_request P dq)" "ignores_flag (handle_manifest_ack P)"
  "ignores_flag (handle_manifest_response P dr)" "ignores_flag (handle_device_network_sync P dn)"
  "ignores_flag (start_user_network_sync P)" "ignores_flag (user_sync_payload P uc u)"
  unfolding handle_manifest_request_def handle_manifest_ack_def handle_manifest_response_def
    handle_device_network_sync_def start_user_network_sync_def user_sync_payload_def
  by (intro ignores)+

lemma ignores_user_sync [ignores]:
  "ignores_flag (process_user_manifest_payload P mp)" "ignores_flag (process_user_network_sync P un)"
proof -
  show "ignores_flag (process_user_manifest_payload P mp)"
    unfolding process_user_manifest_payload_def
    by (cases mp) (simp_all only: user_manifest_payload.case, (intro ignores)+)
  show "ignores_flag (process_user_network_sync P un)"
    unfolding process_user_network_sync_def by (intro ignores)
qed

lemma ignores_resources [ignores]:
  "ignores_flag (send_resources P)" "ignores_flag (process_resource_addition_request P rd)"
  "ignores_flag (process_resource_addition_complete P)" "ignores_flag (check_update_authority P i tk)"
  unfolding send_resources_def remote_missing_resources_def process_resource_addition_request_def
    process_resource_addition_complete_def resources_to_merge_def check_update_authority_def
  by (intro ignores)+

lemma ignores_updates [ignores]: "ignores_flag (process_resource_update_message P rm)"
  unfolding process_resource_update_message_def update_handlers Let_def
  by (cases rm) (simp_all only: resource_update_msg.case, (intro ignores)+)

lemma ignores_folders [ignores]:
  "ignores_flag (start_folder_sync P)" "ignores_flag (process_folder_sync_message P fm)"
proof -
  show "ignores_flag (start_folder_sync P)"
    unfolding start_folder_sync_def send_folders_def by (intro ignores)
  show "ignores_flag (process_folder_sync_message P fm)"
    unfolding process_folder_sync_message_def receive_unknown_folders_def
      process_folder_recipient_sync_def send_missing_recipients_def send_folders_def
    by (cases fm) (simp_all only: folder_sync_message.case, (intro ignores)+)
qed

lemma ignores_live_edit [ignores]: "ignores_flag (handle_live_edit_flow P lm)"
  unfolding handle_live_edit_flow_def
  by (cases lm) (simp_all only: live_edit_message.case, (intro ignores)+)

lemma ignores_handshake [ignores]: "ignores_flag (handle_handshake_message P h)"
  unfolding handle_handshake_message_def process_exchange_message_def
    peer_process_first_connection_request_def process_first_user_connection_handshake_response_def
    verify_peer_key_def check_connect_token_def own_signed_ucan_pub_def issue_token_for_def
  by (cases h) (simp_all only: handshake_message.case, (intro ignores)+)

lemma ignores_process_message: "ignores_flag (process_message P m)"
  unfolding process_message_def
  by (cases m) (simp_all only: message.case, (intro ignores)+)

text \<open>
  C20. The handshake is not enforced: a connection answers every message the same way whether its
  handshake is complete or not: same result, same database, same messages and events.
\<close>

theorem handshake_not_enforced:
  "fst (process_message P m (s\<lparr>pc_handshake_complete := b\<rparr>)) = fst (process_message P m s) \<and>
   (\<exists>b'. snd (process_message P m (s\<lparr>pc_handshake_complete := b\<rparr>)) =
      (snd (process_message P m s))\<lparr>pc_handshake_complete := b'\<rparr>)"
  by (rule ignoresE [OF ignores_process_message surjective_pairing, of P m b s, unfolded set_flag_def])
    auto

text \<open>
  A connection that has only just been accepted answers a device manifest request: whoever opened
  it, without any message of the handshake, gets the comparison with the content of the local user.
\<close>

theorem manifest_before_handshake:
  fixes w :: world
  assumes fresh: "s = peer_connection_new w cu (Some u) (Some d) False None None node_id u d challenge live
      domain remote (\<lambda>_. None)"
    and answer: "process_device_manifest_request (pl_order P) m (usr_id u) w = (Inr c, w')"
    and prints: "msg_print P (DeviceManifestResponse c) = Inr text'"
  shows "\<exists>s'. process_message P (DeviceManifestRequest m) s = (Inr (), s') \<and>
    pc_sent s' = [DeviceManifestResponse c] \<and> \<not> pc_handshake_complete s'"
proof -
  have link: "\<exists>n. sfor (\<lambda>(i, chunk). link_op (V i)) cs t = (Inr (), t\<lparr>pc_link_n := n\<rparr>)"
    if "pc_link t = (\<lambda>_. None)" for V cs and t :: peer
    using that
  proof (induction cs arbitrary: t)
    case (Cons c cs)
    obtain i x where c: "c = (i, x)" by fastforce
    let ?t = "t\<lparr>pc_link_n := Suc (pc_link_n t)\<rparr>"
    obtain n where "sfor (\<lambda>(i, chunk). link_op (V i)) cs ?t = (Inr (), ?t\<lparr>pc_link_n := n\<rparr>)"
      using Cons.IH [of ?t] Cons.prems by auto
    moreover have "link_op (V i) t = (Inr (), ?t)" using Cons.prems by (simp add: link_op_def)
    ultimately show ?case by (auto simp: c sbind_def)
  next
    case Nil
    then show ?case by (intro exI [of _ "pc_link_n t"]) simp
  qed
  define t where "t = s\<lparr>pc_world := w', pc_link_n := Suc 0\<rparr>"
  have "pc_link t = (\<lambda>_. None)" by (simp add: t_def fresh peer_connection_new_def)
  from link [OF this, of "\<lambda>i e. P2P_Message (SendFailed (''Failed to write chunk '' @ decimal i @ '': '' @ e))"]
  obtain n where chunks: "sfor (\<lambda>(i, chunk). link_op (\<lambda>e. P2P_Message (SendFailed
        (''Failed to write chunk '' @ decimal i @ '': '' @ e))))
      (enumerate 1 (chunks CHUNK_SIZE (as_bytes text'))) t = (Inr (), t\<lparr>pc_link_n := n\<rparr>)" by blast
  have "process_message P (DeviceManifestRequest m) s = (Inr (), s\<lparr>pc_world := w',
      pc_link_n := Suc n, pc_sent := [DeviceManifestResponse c], pc_device_manifest := Some c\<rparr>)"
    using answer prints chunks
    by (simp add: process_message_def handle_manifest_request_def send_message_def sbind_def
        p2p_ops on_world_def link_op_def t_def fresh peer_connection_new_def)
  then show ?thesis by (simp add: fresh peer_connection_new_def)
qed

end
