(* ===== verification/Crypto_Properties.thy ===== *)
theory Crypto_Properties
  imports Crypto_Utils
begin

text \<open>
  What the encryption layer promises: data encrypted for a user is read back, also by a user the
  key was passed on to and after an update, and a certificate survives a change of passphrase. The laws
  of the libraries are the hypotheses \<open>codec_ok\<close>, \<open>aes_ok\<close> and \<open>key_pair\<close>.
\<close>

definition codec_ok :: "crypto_lib \<Rightarrow> bool" where
  "codec_ok L \<longleftrightarrow> (\<forall>bs. b64_decode L (b64_encode L bs) = Inr bs \<and> is_text (b64_encode L bs))"

definition aes_ok :: "crypto_lib \<Rightarrow> bool" where
  "aes_ok L \<longleftrightarrow> (\<forall>k n m c. aes_seal L k n m = Inr c \<longrightarrow> aes_open L k n c = Inr m)"

definition key_pair :: "crypto_lib \<Rightarrow> string \<Rightarrow> cert \<Rightarrow> bool" where
  "key_pair L pub c \<longleftrightarrow> (\<forall>r d t seed e. pgp_recipient L pub = Inr r \<and> pgp_decryption_key L c = Inr d \<and>
     pgp_encrypt L r t seed = Inr e \<longrightarrow> pgp_decrypt L d (as_bytes e) = Inr (as_bytes t))"

lemma fill_bytes_length: "fill_bytes n s = (Inr bs, s') \<Longrightarrow> length bs = n"
  by (auto simp: fill_bytes_def)

lemma encrypt_with_aes_decrypts:
  assumes ok: "codec_ok L" "aes_ok L" and key: "length key = 32" and utf: "is_text t"
    and enc: "encrypt_with_aes L key t s = (Inr e, s')"
  shows "decrypt_with_aes L key e = Inr t"
proof -
  from enc obtain nonce c where "length nonce = 12" "aes_seal L key nonce (as_bytes t) = Inr c"
    "e = b64_encode L (nonce @ c)"
    by (auto simp: encrypt_with_aes_def sbind_eq_Inr dest!: fill_bytes_length)
  then show ?thesis
    using ok key utf by (simp add: decrypt_with_aes_def codec_ok_def aes_ok_def)
qed

lemma decrypt_for_cert_encrypted:
  assumes ok: "codec_ok L" and pair: "key_pair L pub c" and cert: "cu_cert cu = Some c"
    and dk: "pgp_decryption_key L c = Inr dk" and r: "pgp_recipient L pub = Inr r"
    and enc: "pgp_encrypt L r (b64_encode L bs) seed = Inr e"
  shows "decrypt_for_cert L cu e = Inr bs"
proof -
  have "pgp_decrypt L dk (as_bytes e) = Inr (as_bytes (b64_encode L bs))"
    using pair dk r enc by (auto simp: key_pair_def)
  then show ?thesis
    using ok dk by (simp add: decrypt_for_cert_def with_cert_def get_cert_def cert codec_ok_def)
qed

lemma encrypt_data_for_user_ok:
  fixes s :: "'a env_scheme"
  assumes "encrypt_data_for_user L dat pub s = (Inr (e, k), s')"
  obtains key r seed and t t' :: "'a env_scheme" where "length key = 32" "encrypt_with_aes L key dat t = (Inr e, t')"
    "pgp_recipient L pub = Inr r" "pgp_encrypt L r (b64_encode L key) seed = Inr k"
  using assms
  by (auto simp: encrypt_data_for_user_def generate_aes_key_def sbind_eq_Inr dest!: fill_bytes_length)

lemma encrypt_key_ok:
  assumes "encrypt_key_with_new_pub_key L cu k pub s = (Inr k', s')"
  obtains key r seed where "decrypt_for_cert L cu k = Inr key" "pgp_recipient L pub = Inr r"
    "pgp_encrypt L r (b64_encode L key) seed = Inr k'"
  using assms
  by (auto simp: encrypt_key_with_new_pub_key_def decrypt_aes_key_def sbind_eq_Inr)

lemma loaded_decryption_key:
  assumes "decrypt_for_cert L cu k = Inr key" "cu_cert cu = Some c"
  shows "\<exists>dk. pgp_decryption_key L c = Inr dk"
  using assms by (auto simp: decrypt_for_cert_def with_cert_def get_cert_def rbind_eq_Inr)

text \<open>
  C12. Sharing a key shares the data: what a user encrypted for herself, she decrypts, and after she
  re-encrypted the key for another user, that user decrypts the same text from the same
  ciphertext.
\<close>

theorem shared_key_decrypts:
  fixes s :: "'a env_scheme" and t :: "'b env_scheme"
  assumes ok: "codec_ok L" "aes_ok L" and pairs: "key_pair L pub c" "key_pair L pub' c'"
    and loaded: "cu_cert cu = Some c" "cu_cert cu' = Some c'" "pgp_decryption_key L c' = Inr dk"
    and utf: "is_text dat"
    and created: "encrypt_data_for_user L dat pub s = (Inr (e, k), s')"
    and shared: "encrypt_key_with_new_pub_key L cu k pub' t = (Inr k', t')"
  shows "decrypt_resource L cu e k = Inr dat \<and> decrypt_resource L cu' e k' = Inr dat"
proof -
  obtain key r seed and u u' :: "'a env_scheme" where
    key: "length key = 32" "encrypt_with_aes L key dat u = (Inr e, u')"
    "pgp_recipient L pub = Inr r" "pgp_encrypt L r (b64_encode L key) seed = Inr k"
    using encrypt_data_for_user_ok [OF created] by metis
  obtain key' r' seed' where key': "decrypt_for_cert L cu k = Inr key'" "pgp_recipient L pub' = Inr r'"
    "pgp_encrypt L r' (b64_encode L key') seed' = Inr k'"
    using encrypt_key_ok [OF shared] by metis
  obtain dk0 where dk0: "pgp_decryption_key L c = Inr dk0"
    using loaded_decryption_key [OF key'(1) loaded(1)] by blast
  have own: "decrypt_for_cert L cu k = Inr key"
    by (rule decrypt_for_cert_encrypted [OF ok(1) pairs(1) loaded(1) dk0 key(3,4)])
  with key'(1) have "key' = key" by simp
  then have other: "decrypt_for_cert L cu' k' = Inr key"
    using decrypt_for_cert_encrypted [OF ok(1) pairs(2) loaded(2,3) key'(2,3)] by simp
  show ?thesis
    using own other encrypt_with_aes_decrypts [OF ok key(1) utf key(2)]
    by (simp add: decrypt_resource_def)
qed

text \<open>
  An update keeps the key: the new data encrypted by \<open>update_resource\<close> is decrypted with the
  key of the resource by everyone whose copy of the key yields the same bytes.
\<close>

theorem update_resource_decrypts:
  assumes ok: "codec_ok L" "aes_ok L" and utf: "is_text dat"
    and update: "cu_update_resource L cu dat k s = (Inr e, s')"
    and same: "decrypt_aes_key L cu' k' = decrypt_aes_key L cu k"
  shows "decrypt_resource L cu e k = Inr dat \<and> decrypt_resource L cu' e k' = Inr dat"
proof -
  from update obtain key t where "decrypt_aes_key L cu k = Inr key" "length key = 32"
    "encrypt_with_aes L key dat t = (Inr e, s')"
    by (auto simp: cu_update_resource_def sbind_eq_Inr split: if_splits)
  with encrypt_with_aes_decrypts [OF ok _ utf, of key t e s'] same show ?thesis
    by (simp add: decrypt_resource_def decrypt_aes_key_def)
qed

text \<open>
  C26. Changing the passphrase keeps the certificate: the new private key opens with the new
  passphrase and the stored salt, to the certificate that the old one opened to.
\<close>

theorem change_password_keeps_certificate:
  assumes ok: "codec_ok L" "aes_ok L"
    and parse: "\<And>c d. cert_serialize L c = Inr d \<Longrightarrow> cert_parse L d = Inr c"
    and old: "decrypt_certificate L k salt p = Inr c"
    and change: "change_certificate_password L k salt p p' = Inr k'"
  shows "decrypt_certificate L k' salt p' = Inr c"
proof -
  from old change obtain d sb key e where d: "cert_serialize L c = Inr d"
    and sb: "get_salt_arr L salt = Inr sb" and key: "derive_key L p' sb = Inr key" "length key = 32"
    and e: "aes_seal L key (take 12 sb) d = Inr e" "k' = b64_encode L e"
    by (auto simp: change_certificate_password_def encrypt_certificate_def new_cipher_def rbind_eq_Inr
        split: if_splits)
  then show ?thesis
    using ok parse [OF d]
    by (simp add: decrypt_certificate_def decrypt_certificate_data_def codec_ok_def aes_ok_def
        new_cipher_def)
qed

end
