(* ===== verification/Crdt_Convergence.thy ===== *)
theory Crdt_Convergence
  imports Crdt_Resource
begin

text \<open>
  The exchange of state vectors and updates between two replicas of a resource makes their documents
  equal. A document is observed as the set of operations it has integrated (\<open>ops\<close>); the laws of
  \<open>yrs\<close> are \<open>yrs_laws\<close>: a full state carries every operation of its document, and a difference
  against a state vector brings a document that has at least the operations of that vector up to
  the sender. JSON that was printed is read back (\<open>json_laws\<close>).
\<close>

definition yrs_laws :: "('d, 'u, 'v, 'z) yrs_scheme \<Rightarrow> ('d \<Rightarrow> 'o set) \<Rightarrow> bool" where
  "yrs_laws Y ops \<longleftrightarrow>
     ops (y_new Y) = {} \<and>
     (\<forall>d. y_encode_state Y d \<noteq> [] \<and> (\<exists>u. y_decode_update Y (y_encode_state Y d) = Inr u \<and>
        (\<forall>d0. \<exists>d1. y_apply Y d0 u = Inr d1 \<and> ops d1 = ops d0 \<union> ops d))) \<and>
     (\<forall>d. y_state_vector Y d \<noteq> [] \<and> (\<exists>v. y_decode_sv Y (y_state_vector Y d) = Inr v \<and>
        (\<forall>d2. y_diff Y d2 v \<noteq> [] \<and> (\<exists>u. y_decode_update Y (y_diff Y d2 v) = Inr u \<and>
           (\<forall>d0. ops d \<subseteq> ops d0 \<longrightarrow> (\<exists>d1. y_apply Y d0 u = Inr d1 \<and> ops d1 = ops d0 \<union> ops d2))))))"

definition json_laws :: "'z json_lib_scheme \<Rightarrow> bool" where
  "json_laws J \<longleftrightarrow>
     (\<forall>v. json_canonical v \<longrightarrow> json_read J (json_print J v) = Inr v) \<and>
     (\<forall>m. json_canonical (JObject m) \<longrightarrow> json_read_map J (json_print J (JObject m)) = Inr m)"

definition load_doc :: "('d, 'u, 'v, 'z) yrs_scheme \<Rightarrow> bytes \<Rightarrow> string + 'd" where
  "load_doc Y state = apply_update_v2 Y (y_new Y) state"

text \<open>What a replica holds under a state key.\<close>

definition doc_ops ::
  "('d, 'u, 'v, 'z) yrs_scheme \<Rightarrow> ('d \<Rightarrow> 'o set) \<Rightarrow> decrypted_resource \<Rightarrow> string \<Rightarrow> 'o set option" where
  "doc_ops Y ops dr key = (case get_document_state key dr of
     None \<Rightarrow> None
   | Some state \<Rightarrow> (case load_doc Y state of Inr d \<Rightarrow> Some (ops d) | Inl _ \<Rightarrow> None))"

definition states_load :: "('d, 'u, 'v, 'z) yrs_scheme \<Rightarrow> decrypted_resource \<Rightarrow> bool" where
  "states_load Y dr \<longleftrightarrow> (\<forall>key state. get_document_state key dr = Some state \<longrightarrow> (\<exists>d. load_doc Y state = Inr d))"

section \<open>Single steps\<close>

lemma encode_loads:
  assumes "yrs_laws Y ops"
  shows "\<exists>d'. load_doc Y (y_encode_state Y d) = Inr d' \<and> ops d' = ops d"
proof -
  from assms obtain u where "y_encode_state Y d \<noteq> []" "y_decode_update Y (y_encode_state Y d) = Inr u"
    "\<exists>d1. y_apply Y (y_new Y) u = Inr d1 \<and> ops d1 = ops (y_new Y) \<union> ops d" "ops (y_new Y) = {}"
    unfolding yrs_laws_def by metis
  then show ?thesis by (auto simp: load_doc_def apply_update_v2_def)
qed

text \<open>A document asked for what a peer with the vector of \<open>d\<close> misses, and what the answer does.\<close>

lemma diff_answers:
  assumes "yrs_laws Y ops"
  obtains v where "y_decode_sv Y (y_state_vector Y d) = Inr v" "y_state_vector Y d \<noteq> []"
    "\<And>d2. y_diff Y d2 v \<noteq> []"
    "\<And>d2 d0. ops d \<subseteq> ops d0 \<Longrightarrow>
       \<exists>d1. apply_update_v2 Y d0 (y_diff Y d2 v) = Inr d1 \<and> ops d1 = ops d0 \<union> ops d2"
proof -
  from assms obtain v where v: "y_state_vector Y d \<noteq> []" "y_decode_sv Y (y_state_vector Y d) = Inr v"
    "\<forall>d2. y_diff Y d2 v \<noteq> [] \<and> (\<exists>u. y_decode_update Y (y_diff Y d2 v) = Inr u \<and>
       (\<forall>d0. ops d \<subseteq> ops d0 \<longrightarrow> (\<exists>d1. y_apply Y d0 u = Inr d1 \<and> ops d1 = ops d0 \<union> ops d2)))"
    unfolding yrs_laws_def by metis
  have "\<exists>d1. apply_update_v2 Y d0 (y_diff Y d2 v) = Inr d1 \<and> ops d1 = ops d0 \<union> ops d2"
    if "ops d \<subseteq> ops d0" for d2 d0
  proof -
    from v(3) that obtain u d1 where "y_diff Y d2 v \<noteq> []" "y_decode_update Y (y_diff Y d2 v) = Inr u"
      "y_apply Y d0 u = Inr d1" "ops d1 = ops d0 \<union> ops d2" by metis
    then show ?thesis by (simp add: apply_update_v2_def)
  qed
  with v show thesis by (intro that) auto
qed

lemma sync_doc_request:
  assumes laws: "yrs_laws Y ops" and load: "load_doc Y state = Inr d"
    and v: "y_decode_sv Y (y_state_vector Y d') = Inr v"
  shows "sync_doc Y state [] (y_state_vector Y d') = Inr (Some (y_diff Y d v, y_state_vector Y d), None)"
proof -
  have "y_state_vector Y d' \<noteq> []" using diff_answers [OF laws] by metis
  then show ?thesis
    using load v by (simp add: sync_doc_def load_doc_def get_diff_update_v2_def)
qed

lemma sync_doc_update:
  assumes laws: "yrs_laws Y ops" and load: "load_doc Y state = Inr d"
    and v: "y_decode_sv Y (y_state_vector Y d) = Inr v"
    and v': "y_decode_sv Y (y_state_vector Y d') = Inr v'"
  obtains d1 where "ops d1 = ops d \<union> ops d2"
    "sync_doc Y state (y_diff Y d2 v) (y_state_vector Y d') =
       Inr (Some (y_diff Y d1 v', y_state_vector Y d1), Some (y_encode_state Y d1))"
proof -
  obtain w where w: "y_decode_sv Y (y_state_vector Y d) = Inr w" "\<And>d2. y_diff Y d2 w \<noteq> []"
    "\<And>d2 d0. ops d \<subseteq> ops d0 \<Longrightarrow>
       \<exists>d1. apply_update_v2 Y d0 (y_diff Y d2 w) = Inr d1 \<and> ops d1 = ops d0 \<union> ops d2"
    using diff_answers [OF laws, of d] by metis
  have "w = v" using w(1) v by simp
  then obtain d1 where d1: "apply_update_v2 Y d (y_diff Y d2 v) = Inr d1" "ops d1 = ops d \<union> ops d2"
    using w(3) [of d d2] by auto
  have "y_state_vector Y d' \<noteq> []" using diff_answers [OF laws] by metis
  then have "sync_doc Y state (y_diff Y d2 v) (y_state_vector Y d') =
      Inr (Some (y_diff Y d1 v', y_state_vector Y d1), Some (y_encode_state Y d1))"
    using load v' d1(1) w(2) [of d2] \<open>w = v\<close> by (simp add: sync_doc_def load_doc_def get_diff_update_v2_def)
  with d1(2) show thesis using that by blast
qed

section \<open>All documents of a resource\<close>

lemma document_state_object: "get_document_state key dr = Some st \<Longrightarrow> \<exists>m. dcr_data dr = JObject m"
  by (cases "dcr_data dr") (auto simp: get_document_state_def)

lemma get_set_document_state:
  assumes "get_document_state key dr = Some st"
  shows "get_document_state k (set_document_state key s dr) =
    (if k = key then Some s else get_document_state k dr)"
  using document_state_object [OF assms]
  by (auto simp: get_document_state_def set_document_state_def json_bytes_def)

lemma set_document_state_type [simp]:
  "dcr_resource_type (set_document_state key s dr) = dcr_resource_type dr"
  by (simp add: set_document_state_def split: json.splits)

definition entry_of :: "(bytes \<times> bytes) option \<Rightarrow> json option" where
  "entry_of reply = map_option (\<lambda>(u, v). doc_entry u v) reply"

definition sync_entry ::
  "('d, 'u, 'v, 'z) yrs_scheme \<Rightarrow> bytes \<Rightarrow> json \<Rightarrow> string + (bytes \<times> bytes) option \<times> bytes option" where
  "sync_entry Y state v = sync_doc Y state (bytes_field ''updates'' v) (bytes_field ''state_vector'' v)"

text \<open>What an exchange does at one key: nothing, or the outcome of \<open>sync_doc\<close>.\<close>

definition synced ::
  "('d, 'u, 'v, 'z) yrs_scheme \<Rightarrow> json_map \<Rightarrow> decrypted_resource \<Rightarrow> decrypted_resource \<Rightarrow> json_map
     \<Rightarrow> string \<Rightarrow> bool" where
  "synced Y input dr dr' res key \<longleftrightarrow>
     (case (get_document_state key dr, map_of input key) of
        (Some st, Some v) \<Rightarrow> \<exists>reply new. sync_entry Y st v = Inr (reply, new) \<and>
          get_document_state key dr' = Some (case new of Some s \<Rightarrow> s | None \<Rightarrow> st) \<and>
          map_of res key = entry_of reply
      | _ \<Rightarrow> get_document_state key dr' = get_document_state key dr \<and> map_of res key = None)"

lemma synced_cong:
  "get_document_state k dr = get_document_state k e \<Longrightarrow> get_document_state k dr' = get_document_state k e' \<Longrightarrow>
    map_of r k = map_of r' k \<Longrightarrow> synced Y i dr dr' r k = synced Y i e e' r' k"
  by (simp add: synced_def cong: option.case_cong)

lemma sync_key_ok:
  assumes "sync_key Y input res key dr = (Inr res', dr')" "json_canonical (JObject res)"
    "map_of res key = None"
  shows "synced Y input dr dr' res' key" "k \<noteq> key \<Longrightarrow> get_document_state k dr' = get_document_state k dr"
    "k \<noteq> key \<Longrightarrow> map_of res' k = map_of res k" "dcr_resource_type dr' = dcr_resource_type dr"
    "json_canonical (JObject res')"
proof -
  have "synced Y input dr dr' res' key \<and> (k \<noteq> key \<longrightarrow> get_document_state k dr' = get_document_state k dr \<and>
    map_of res' k = map_of res k) \<and> dcr_resource_type dr' = dcr_resource_type dr \<and> json_canonical (JObject res')"
  proof (cases "get_document_state key dr")
    case None
    with assms show ?thesis by (auto simp: sync_key_def sbind_def synced_def)
  next
    case st: (Some st)
    show ?thesis
    proof (cases "map_of input key")
      case None
      with assms st show ?thesis by (auto simp: sync_key_def sbind_def synced_def)
    next
      case (Some v)
      with assms(1) st obtain reply new where sd: "sync_entry Y st v = Inr (reply, new)"
        and dr': "dr' = (case new of Some s \<Rightarrow> set_document_state key s dr | None \<Rightarrow> dr)"
        and res': "res' = (case reply of Some (u, v) \<Rightarrow> obj_insert key (doc_entry u v) res | None \<Rightarrow> res)"
        by (auto simp: sync_key_def sync_entry_def sbind_def split: sum.splits prod.splits option.splits)
      have canon: "json_canonical (JObject res')"
        using assms(2) by (simp add: res' obj_insert_canonical del: json_canonical.simps split: option.split)
      show ?thesis
        using st Some sd assms(3) canon get_set_document_state [OF st]
        by (auto simp: synced_def dr' res' entry_of_def split: option.split)
    qed
  qed
  then show "synced Y input dr dr' res' key" "k \<noteq> key \<Longrightarrow> get_document_state k dr' = get_document_state k dr"
    "k \<noteq> key \<Longrightarrow> map_of res' k = map_of res k" "dcr_resource_type dr' = dcr_resource_type dr"
    "json_canonical (JObject res')" by blast+
qed

lemma empty_canonical: "json_canonical (JObject [])"
  by simp

lemma sync_keys_ok:
  "sync_keys Y input res keys dr = (Inr res', dr') \<Longrightarrow> distinct keys \<Longrightarrow> json_canonical (JObject res) \<Longrightarrow>
    \<forall>k \<in> set keys. map_of res k = None \<Longrightarrow>
    (\<forall>k \<in> set keys. synced Y input dr dr' res' k) \<and>
    (\<forall>k. k \<notin> set keys \<longrightarrow> get_document_state k dr' = get_document_state k dr \<and> map_of res' k = map_of res k) \<and>
    json_canonical (JObject res')"
proof (induction keys arbitrary: res dr)
  case (Cons key keys)
  from Cons.prems(1) obtain res1 dr1 where step: "sync_key Y input res key dr = (Inr res1, dr1)"
    and rest: "sync_keys Y input res1 keys dr1 = (Inr res', dr')"
    by (auto simp: sbind_eq_Inr)
  have none: "map_of res key = None" using Cons.prems(4) by simp
  note one = sync_key_ok [OF step Cons.prems(3) none]
  have fresh: "\<forall>k \<in> set keys. map_of res1 k = None"
    using one(3) Cons.prems(2,4) by (metis distinct.simps(2) list.set_intros(2))
  have d: "distinct keys" "key \<notin> set keys" using Cons.prems(2) by auto
  have IH: "\<forall>k \<in> set keys. synced Y input dr1 dr' res' k"
    "\<And>k. k \<notin> set keys \<Longrightarrow> get_document_state k dr' = get_document_state k dr1 \<and> map_of res' k = map_of res1 k"
    "json_canonical (JObject res')"
    using Cons.IH [OF rest d(1) one(5) fresh] by blast+
  have "synced Y input dr dr' res' k" if "k \<in> set (key # keys)" for k
  proof (cases "k = key")
    case True
    then show ?thesis using one(1) IH(2) [OF d(2)] synced_cong by metis
  next
    case False
    then have "k \<in> set keys" using that by simp
    then show ?thesis using IH(1) one(2) [OF False] synced_cong by metis
  qed
  moreover have "get_document_state k dr' = get_document_state k dr \<and> map_of res' k = map_of res k"
    if "k \<notin> set (key # keys)" for k
    using that IH(2) one(2,3) by auto
  ultimately show ?case using IH(3) by blast
qed (simp del: json_canonical.simps)

lemma distinct_document_state_keys [simp]: "distinct (document_state_keys t)"
  by (cases t) simp_all

lemma sync_updates_ok:
  assumes laws: "json_laws Y" and ok: "sync_updates Y msg dr = (Inr out, dr')"
    and msg: "msg = json_print Y (JObject input)" "json_canonical (JObject input)"
  obtains res where "out = json_print Y (JObject res)" "json_canonical (JObject res)"
    "\<And>k. k \<in> set (document_state_keys (dcr_resource_type dr)) \<Longrightarrow> synced Y input dr dr' res k"
    "\<And>k. k \<notin> set (document_state_keys (dcr_resource_type dr)) \<Longrightarrow>
       get_document_state k dr' = get_document_state k dr \<and> map_of res k = None"
proof -
  have "json_read_map Y msg = Inr input" using laws msg by (simp add: json_laws_def)
  with ok obtain res where res: "sync_keys Y input [] (document_state_keys (dcr_resource_type dr)) dr = (Inr res, dr')"
    and out: "out = json_print Y (JObject res)"
    by (auto simp: sync_updates_def sbind_eq_Inr)
  then show thesis
    using sync_keys_ok [OF res] that by (metis distinct_document_state_keys json_canonical.simps(2)
        list.distinct(1) list.set_cases list.simps(8) map_of.simps(1) set_empty2 sorted_wrt.simps(1))
qed

lemma state_vector_entries_ok:
  "state_vector_entries Y dr res keys = Inr res' \<Longrightarrow> distinct keys \<Longrightarrow> json_canonical (JObject res) \<Longrightarrow>
    json_canonical (JObject res') \<and> (\<forall>k. map_of res' k = (if k \<in> set keys then
      (case get_document_state k dr of
         Some st \<Rightarrow> (case load_doc Y st of Inr d \<Rightarrow> Some (doc_entry [] (y_state_vector Y d)) | Inl _ \<Rightarrow> None)
       | None \<Rightarrow> map_of res k) else map_of res k))"
proof (induction keys arbitrary: res)
  case (Cons key keys)
  show ?case
  proof (cases "get_document_state key dr")
    case None
    with Cons show ?thesis by (auto simp del: json_canonical.simps)
  next
    case (Some st)
    with Cons.prems(1) obtain d where d: "load_doc Y st = Inr d"
      and rest: "state_vector_entries Y dr (obj_insert key (doc_entry [] (y_state_vector Y d)) res) keys = Inr res'"
      by (auto simp: rbind_eq_Inr load_doc_def)
    have "json_canonical (JObject (obj_insert key (doc_entry [] (y_state_vector Y d)) res))"
      using Cons.prems(3) by (simp add: obj_insert_canonical del: json_canonical.simps)
    from Cons.IH [OF rest _ this] Cons.prems(2) show ?thesis
      using Some d by (auto simp del: json_canonical.simps split: option.split)
  qed
qed (simp del: json_canonical.simps)

lemma sync_keys_succeeds:
  "distinct keys \<Longrightarrow> json_canonical (JObject res) \<Longrightarrow> \<forall>k \<in> set keys. map_of res k = None \<Longrightarrow>
    \<forall>k \<in> set keys. \<forall>st v. get_document_state k dr = Some st \<longrightarrow> map_of input k = Some v \<longrightarrow>
      (\<exists>x. sync_entry Y st v = Inr x) \<Longrightarrow>
    \<exists>res' dr'. sync_keys Y input res keys dr = (Inr res', dr')"
proof (induction keys arbitrary: res dr)
  case (Cons key keys)
  have "\<exists>res1 dr1. sync_key Y input res key dr = (Inr res1, dr1)"
  proof (cases "get_document_state key dr")
    case (Some st)
    then show ?thesis
      using Cons.prems(4)
      by (cases "map_of input key") (auto simp: sync_key_def sbind_def sync_entry_def split: option.split)
  qed (simp add: sync_key_def sbind_def)
  then obtain res1 dr1 where step: "sync_key Y input res key dr = (Inr res1, dr1)" by blast
  have none: "map_of res key = None" using Cons.prems(3) by simp
  note one = sync_key_ok [OF step Cons.prems(2) none]
  have "\<exists>res' dr'. sync_keys Y input res1 keys dr1 = (Inr res', dr')"
  proof (rule Cons.IH [OF _ one(5)])
    show "\<forall>k \<in> set keys. map_of res1 k = None"
      using one(3) Cons.prems(1,3) by (metis distinct.simps(2) list.set_intros(2))
    show "\<forall>k \<in> set keys. \<forall>st v. get_document_state k dr1 = Some st \<longrightarrow> map_of input k = Some v \<longrightarrow>
        (\<exists>x. sync_entry Y st v = Inr x)"
      using one(2) Cons.prems(1,4) by (metis distinct.simps(2) list.set_intros(2))
  qed (use Cons.prems(1) in simp)
  with step show ?case by (auto simp: sbind_def)
qed simp

lemma sync_updates_runs:
  assumes laws: "json_laws Y" and input: "json_canonical (JObject input)"
    and entries: "\<And>k st v. get_document_state k dr = Some st \<Longrightarrow> map_of input k = Some v \<Longrightarrow>
      \<exists>x. sync_entry Y st v = Inr x"
  obtains res dr' where "sync_updates Y (json_print Y (JObject input)) dr = (Inr (json_print Y (JObject res)), dr')"
    "json_canonical (JObject res)"
    "\<And>k. k \<in> set (document_state_keys (dcr_resource_type dr)) \<Longrightarrow> synced Y input dr dr' res k"
    "\<And>k. k \<notin> set (document_state_keys (dcr_resource_type dr)) \<Longrightarrow>
       get_document_state k dr' = get_document_state k dr \<and> map_of res k = None"
proof -
  have "json_read_map Y (json_print Y (JObject input)) = Inr input"
    using laws input by (simp add: json_laws_def)
  moreover obtain res dr' where
    "sync_keys Y input [] (document_state_keys (dcr_resource_type dr)) dr = (Inr res, dr')"
    using sync_keys_succeeds [of "document_state_keys (dcr_resource_type dr)" "[]" dr input Y] entries
    by auto
  ultimately have "sync_updates Y (json_print Y (JObject input)) dr = (Inr (json_print Y (JObject res)), dr')"
    by (simp add: sync_updates_def sbind_def)
  with sync_updates_ok [OF laws this refl input] show thesis
    using that by (metis)
qed

lemma state_vector_entries_succeeds:
  "states_load Y dr \<Longrightarrow> \<exists>res'. state_vector_entries Y dr res keys = Inr res'"
proof (induction keys arbitrary: res)
  case (Cons key keys)
  show ?case
  proof (cases "get_document_state key dr")
    case (Some st)
    with Cons.prems obtain d where "apply_update_v2 Y (y_new Y) st = Inr d"
      by (auto simp: states_load_def load_doc_def)
    with Some Cons show ?thesis by simp
  qed (use Cons in simp)
qed simp

section \<open>The three messages\<close>

text \<open>\<open>both k\<close>: the documents that the two replicas hold under a key of the type.\<close>

definition both ::
  "('d, 'u, 'v, 'z) yrs_scheme \<Rightarrow> decrypted_resource \<Rightarrow> decrypted_resource \<Rightarrow> string \<Rightarrow> 'd \<Rightarrow> 'd \<Rightarrow> bool" where
  "both Y a b k da db \<longleftrightarrow> k \<in> set (document_state_keys (dcr_resource_type a)) \<and>
     (\<exists>sa sb. get_document_state k a = Some sa \<and> load_doc Y sa = Inr da \<and>
       get_document_state k b = Some sb \<and> load_doc Y sb = Inr db)"

lemma bothI:
  assumes "states_load Y a" "states_load Y b" "k \<in> set (document_state_keys (dcr_resource_type a))"
    "get_document_state k a = Some sa" "get_document_state k b = Some sb"
  obtains da db where "both Y a b k da db" "load_doc Y sa = Inr da" "load_doc Y sb = Inr db"
  using assms unfolding both_def states_load_def by blast

lemma answer_request:
  fixes Y :: "('d, 'u, 'v, 'z) yrs_scheme"
  assumes laws: "yrs_laws Y ops" "json_laws Y" and same: "dcr_resource_type a = dcr_resource_type b"
    and stored: "states_load Y a" "states_load Y b"
  obtains m1 res b1 where "get_state_vectors Y a = Inr m1"
    "sync_updates Y m1 b = (Inr (json_print Y (JObject res)), b1)" "json_canonical (JObject res)"
    "\<And>k. get_document_state k b1 = get_document_state k b"
    "\<And>k v. map_of res k = Some v \<Longrightarrow> \<exists>da db va. both Y a b k da db \<and>
       y_decode_sv Y (y_state_vector Y da) = Inr va \<and> v = doc_entry (y_diff Y db va) (y_state_vector Y db)"
    "\<And>k da db. both Y a b k da db \<Longrightarrow> map_of res k \<noteq> None"
proof -
  let ?keys = "document_state_keys (dcr_resource_type a)"
  obtain inp where inp: "state_vector_entries Y a [] ?keys = Inr inp"
    using state_vector_entries_succeeds [OF stored(1)] by blast
  have m1: "get_state_vectors Y a = Inr (json_print Y (JObject inp))"
    by (simp add: get_state_vectors_def inp)
  have canon: "json_canonical (JObject inp)"
    and entry: "map_of inp k = (if k \<in> set ?keys then
      (case get_document_state k a of
         Some st \<Rightarrow> (case load_doc Y st of Inr d \<Rightarrow> Some (doc_entry [] (y_state_vector Y d)) | Inl _ \<Rightarrow> None)
       | None \<Rightarrow> None) else None)" for k
    using state_vector_entries_ok [OF inp distinct_document_state_keys empty_canonical]
    by (simp_all del: json_canonical.simps cong: option.case_cong)
  have request: "\<exists>da db va. both Y a b k da db \<and> load_doc Y sb = Inr db \<and>
      y_decode_sv Y (y_state_vector Y da) = Inr va \<and>
      sync_entry Y sb v = Inr (Some (y_diff Y db va, y_state_vector Y db), None)"
    if sb: "get_document_state k b = Some sb" and v: "map_of inp k = Some v" for k sb v
  proof -
    obtain sa where k: "k \<in> set ?keys" and sa: "get_document_state k a = Some sa"
      using v entry [of k] by (auto split: if_splits option.splits)
    obtain da db where d: "both Y a b k da db" "load_doc Y sa = Inr da" "load_doc Y sb = Inr db"
      using bothI [OF stored k sa sb] by metis
    have v': "v = doc_entry [] (y_state_vector Y da)" using v entry [of k] k sa d(2) by simp
    obtain va where va: "y_decode_sv Y (y_state_vector Y da) = Inr va"
      using diff_answers [OF laws(1)] by metis
    show ?thesis
      using d va sync_doc_request [OF laws(1) d(3) va] by (auto simp: sync_entry_def v')
  qed
  obtain res b1 where run: "sync_updates Y (json_print Y (JObject inp)) b = (Inr (json_print Y (JObject res)), b1)"
    and res: "json_canonical (JObject res)"
    and sync: "\<And>k. k \<in> set ?keys \<Longrightarrow> synced Y inp b b1 res k"
    and rest: "\<And>k. k \<notin> set ?keys \<Longrightarrow> get_document_state k b1 = get_document_state k b \<and> map_of res k = None"
    using sync_updates_runs [OF laws(2) canon, of b] request unfolding same by (metis (no_types, lifting))
  have kept: "get_document_state k b1 = get_document_state k b" for k
    using sync [of k] rest [of k] request [of k]
    by (cases "k \<in> set ?keys"; cases "get_document_state k b"; cases "map_of inp k") (fastforce simp: synced_def)+
  have out: "\<exists>da db va. both Y a b k da db \<and> y_decode_sv Y (y_state_vector Y da) = Inr va \<and>
      v = doc_entry (y_diff Y db va) (y_state_vector Y db)" if v: "map_of res k = Some v" for k v
  proof -
    have k: "k \<in> set ?keys" using rest v by fastforce
    then obtain sb w reply new where "get_document_state k b = Some sb" "map_of inp k = Some w"
      "sync_entry Y sb w = Inr (reply, new)" "map_of res k = entry_of reply"
      using sync [OF k] v by (auto simp: synced_def split: option.splits)
    with request [of k sb w] v show ?thesis by (auto simp: entry_of_def)
  qed
  have asked: "map_of res k \<noteq> None" if "both Y a b k da db" for k da db
  proof -
    obtain sa sb where k: "k \<in> set ?keys" and sa: "get_document_state k a = Some sa" "load_doc Y sa = Inr da"
      and sb: "get_document_state k b = Some sb" using \<open>both Y a b k da db\<close> by (auto simp: both_def)
    have w: "map_of inp k = Some (doc_entry [] (y_state_vector Y da))" using entry [of k] k sa by simp
    show ?thesis using sync [OF k] request [OF sb w] sb w by (auto simp: synced_def entry_of_def)
  qed
  show thesis by (rule that [OF m1 run res kept out asked])
qed

text \<open>A message all of whose entries are differences against the documents of the receiver.\<close>

definition answers :: "('d, 'u, 'v, 'z) yrs_scheme \<Rightarrow> decrypted_resource \<Rightarrow> json_map \<Rightarrow> string \<Rightarrow> 'd \<Rightarrow> 'd \<Rightarrow> 'd \<Rightarrow> bool" where
  "answers Y dr res k d d2 d' \<longleftrightarrow> k \<in> set (document_state_keys (dcr_resource_type dr)) \<and>
     (\<exists>st vd. get_document_state k dr = Some st \<and> load_doc Y st = Inr d \<and>
        y_decode_sv Y (y_state_vector Y d) = Inr vd \<and>
        map_of res k = Some (doc_entry (y_diff Y d2 vd) (y_state_vector Y d')))"

lemma apply_answer:
  fixes Y :: "('d, 'u, 'v, 'z) yrs_scheme"
  assumes laws: "yrs_laws Y ops" "json_laws Y" and canon: "json_canonical (JObject res)"
    and entries: "\<And>k v. map_of res k = Some v \<Longrightarrow> \<exists>d d2 d'. answers Y dr res k d d2 d'"
  obtains res' dr' where
    "sync_updates Y (json_print Y (JObject res)) dr = (Inr (json_print Y (JObject res')), dr')"
    "json_canonical (JObject res')"
    "\<And>k. map_of res k = None \<Longrightarrow> get_document_state k dr' = get_document_state k dr \<and> map_of res' k = None"
    "\<And>k d d2 d'. answers Y dr res k d d2 d' \<Longrightarrow> \<exists>d1 v'. ops d1 = ops d \<union> ops d2 \<and>
       y_decode_sv Y (y_state_vector Y d') = Inr v' \<and> get_document_state k dr' = Some (y_encode_state Y d1) \<and>
       map_of res' k = Some (doc_entry (y_diff Y d1 v') (y_state_vector Y d1))"
proof -
  let ?keys = "document_state_keys (dcr_resource_type dr)"
  have step: "\<exists>d1 v'. ops d1 = ops d \<union> ops d2 \<and> y_decode_sv Y (y_state_vector Y d') = Inr v' \<and>
      sync_entry Y st v = Inr (Some (y_diff Y d1 v', y_state_vector Y d1), Some (y_encode_state Y d1))"
    if ans: "answers Y dr res k d d2 d'" "get_document_state k dr = Some st" "map_of res k = Some v" for k d d2 d' st v
  proof -
    obtain vd where load: "load_doc Y st = Inr d" and vd: "y_decode_sv Y (y_state_vector Y d) = Inr vd"
      and v: "v = doc_entry (y_diff Y d2 vd) (y_state_vector Y d')"
      using ans by (auto simp: answers_def)
    obtain v' where v': "y_decode_sv Y (y_state_vector Y d') = Inr v'" using diff_answers [OF laws(1)] by metis
    obtain d1 where "ops d1 = ops d \<union> ops d2" "sync_doc Y st (y_diff Y d2 vd) (y_state_vector Y d') =
        Inr (Some (y_diff Y d1 v', y_state_vector Y d1), Some (y_encode_state Y d1))"
      by (rule sync_doc_update [OF laws(1) load vd v'])
    with v' show ?thesis by (intro exI [of _ d1] exI [of _ v']) (simp add: sync_entry_def v)
  qed
  obtain res' dr' where run: "sync_updates Y (json_print Y (JObject res)) dr = (Inr (json_print Y (JObject res')), dr')"
    and res': "json_canonical (JObject res')"
    and sync: "\<And>k. k \<in> set ?keys \<Longrightarrow> synced Y res dr dr' res' k"
    and rest: "\<And>k. k \<notin> set ?keys \<Longrightarrow> get_document_state k dr' = get_document_state k dr \<and> map_of res' k = None"
    using sync_updates_runs [OF laws(2) canon, of dr] step entries by (metis (no_types, lifting))
  have other: "get_document_state k dr' = get_document_state k dr \<and> map_of res' k = None"
    if "map_of res k = None" for k
    using sync [of k] rest [of k] that by (cases "k \<in> set ?keys") (auto simp: synced_def split: option.splits)
  have changed: "\<exists>d1 v'. ops d1 = ops d \<union> ops d2 \<and> y_decode_sv Y (y_state_vector Y d') = Inr v' \<and>
      get_document_state k dr' = Some (y_encode_state Y d1) \<and>
      map_of res' k = Some (doc_entry (y_diff Y d1 v') (y_state_vector Y d1))"
    if ans: "answers Y dr res k d d2 d'" for k d d2 d'
  proof -
    obtain st v where st: "get_document_state k dr = Some st" and v: "map_of res k = Some v" and k: "k \<in> set ?keys"
      using ans by (auto simp: answers_def)
    obtain d1 v' where d1: "ops d1 = ops d \<union> ops d2" "y_decode_sv Y (y_state_vector Y d') = Inr v'"
      "sync_entry Y st v = Inr (Some (y_diff Y d1 v', y_state_vector Y d1), Some (y_encode_state Y d1))"
      using step [OF ans st v] by blast
    then have "get_document_state k dr' = Some (y_encode_state Y d1)"
      "map_of res' k = Some (doc_entry (y_diff Y d1 v') (y_state_vector Y d1))"
      using sync [OF k] st v by (auto simp: synced_def entry_of_def)
    with d1 show ?thesis by blast
  qed
  show thesis by (rule that [OF run res' other changed])
qed

section \<open>The exchange\<close>

text \<open>What a replica should hold after the exchange: the union, where both have the document.\<close>

definition joined :: "'o set option \<Rightarrow> 'o set option \<Rightarrow> 'o set option" where
  "joined own other = (case (own, other) of (Some A, Some B) \<Rightarrow> Some (A \<union> B) | _ \<Rightarrow> own)"

text \<open>
  C4. The exchange of updates converges: replica \<open>a\<close> sends its state vectors, \<open>b\<close> answers with what
  \<open>a\<close> misses and its own vectors (and changes none of its documents), \<open>a\<close> applies this and answers
  with what \<open>b\<close> misses, \<open>b\<close> applies that. Every step succeeds, and afterwards each document that
  both hold has on both sides exactly the operations that either side had; documents that only one
  side holds are as before.
\<close>

theorem crdt_exchange_converges:
  assumes laws: "yrs_laws Y ops" "json_laws Y" and same: "dcr_resource_type a = dcr_resource_type b"
    and stored: "states_load Y a" "states_load Y b"
  shows "\<exists>m1 m2 m3 m4 b1 a' b'. get_state_vectors Y a = Inr m1 \<and> sync_updates Y m1 b = (Inr m2, b1) \<and>
    sync_updates Y m2 a = (Inr m3, a') \<and> sync_updates Y m3 b = (Inr m4, b') \<and>
    (\<forall>k. get_document_state k b1 = get_document_state k b) \<and>
    (\<forall>k \<in> set (document_state_keys (dcr_resource_type a)).
       doc_ops Y ops a' k = joined (doc_ops Y ops a k) (doc_ops Y ops b k) \<and>
       doc_ops Y ops b' k = joined (doc_ops Y ops b k) (doc_ops Y ops a k))"
proof -
  obtain m1 r1 b1 where m1: "get_state_vectors Y a = Inr m1"
    "sync_updates Y m1 b = (Inr (json_print Y (JObject r1)), b1)" "json_canonical (JObject r1)"
    and b1: "\<And>k. get_document_state k b1 = get_document_state k b"
    and r1: "\<And>k v. map_of r1 k = Some v \<Longrightarrow> \<exists>da db va. both Y a b k da db \<and>
       y_decode_sv Y (y_state_vector Y da) = Inr va \<and> v = doc_entry (y_diff Y db va) (y_state_vector Y db)"
    and asked: "\<And>k da db. both Y a b k da db \<Longrightarrow> map_of r1 k \<noteq> None"
    by (rule answer_request [OF laws same stored]) (rule that; assumption)
  have ans1: "answers Y a r1 k da db db" if d: "both Y a b k da db" for k da db
  proof -
    obtain v where "map_of r1 k = Some v" using asked [OF d] by blast
    with r1 [OF this] d show ?thesis by (auto simp: answers_def both_def)
  qed
  have entries1: "\<exists>d d2 d'. answers Y a r1 k d d2 d'" if "map_of r1 k = Some v" for k v
    using r1 [OF that] ans1 by blast
  obtain r2 a' where m2: "sync_updates Y (json_print Y (JObject r1)) a = (Inr (json_print Y (JObject r2)), a')"
    "json_canonical (JObject r2)"
    and a_other: "\<And>k. map_of r1 k = None \<Longrightarrow> get_document_state k a' = get_document_state k a \<and> map_of r2 k = None"
    and a_new: "\<And>k d d2 d'. answers Y a r1 k d d2 d' \<Longrightarrow> \<exists>d1 v'. ops d1 = ops d \<union> ops d2 \<and>
       y_decode_sv Y (y_state_vector Y d') = Inr v' \<and> get_document_state k a' = Some (y_encode_state Y d1) \<and>
       map_of r2 k = Some (doc_entry (y_diff Y d1 v') (y_state_vector Y d1))"
    by (rule apply_answer [OF laws m1(3)], rule entries1, assumption) (rule that; assumption)
  have ans2: "\<exists>d1. ops d1 = ops da \<union> ops db \<and> get_document_state k a' = Some (y_encode_state Y d1) \<and>
      answers Y b r2 k db d1 d1" if d: "both Y a b k da db" for k da db
    using a_new [OF ans1 [OF d]] d by (auto simp: answers_def both_def same)
  have entries2: "\<exists>d d2 d'. answers Y b r2 k d d2 d'" if "map_of r2 k = Some v" for k v
    using that a_other [of k] r1 [of k] ans2 [of k] by (cases "map_of r1 k") (auto, blast)
  obtain r3 b' where m3: "sync_updates Y (json_print Y (JObject r2)) b = (Inr (json_print Y (JObject r3)), b')"
    and b_other: "\<And>k. map_of r2 k = None \<Longrightarrow> get_document_state k b' = get_document_state k b \<and> map_of r3 k = None"
    and b_new: "\<And>k d d2 d'. answers Y b r2 k d d2 d' \<Longrightarrow> \<exists>d1 v'. ops d1 = ops d \<union> ops d2 \<and>
       y_decode_sv Y (y_state_vector Y d') = Inr v' \<and> get_document_state k b' = Some (y_encode_state Y d1) \<and>
       map_of r3 k = Some (doc_entry (y_diff Y d1 v') (y_state_vector Y d1))"
    by (rule apply_answer [OF laws m2(2)], rule entries2, assumption) (rule that; assumption)
  have "doc_ops Y ops a' k = joined (doc_ops Y ops a k) (doc_ops Y ops b k) \<and>
      doc_ops Y ops b' k = joined (doc_ops Y ops b k) (doc_ops Y ops a k)"
    if k: "k \<in> set (document_state_keys (dcr_resource_type a))" for k
  proof (cases "\<exists>da db. both Y a b k da db")
    case True
    then obtain da db where d: "both Y a b k da db" by blast
    obtain d1 where d1: "ops d1 = ops da \<union> ops db" "get_document_state k a' = Some (y_encode_state Y d1)"
      and ans: "answers Y b r2 k db d1 d1" using ans2 [OF d] by blast
    obtain e1 where e1: "ops e1 = ops db \<union> ops d1" "get_document_state k b' = Some (y_encode_state Y e1)"
      using b_new [OF ans] by blast
    show ?thesis
      using d encode_loads [OF laws(1), of d1] encode_loads [OF laws(1), of e1] d1 e1
      by (auto simp: doc_ops_def joined_def both_def)
  next
    case False
    then have "map_of r1 k = None" using r1 by (metis option.exhaust)
    then have same_docs: "get_document_state k a' = get_document_state k a" "get_document_state k b' = get_document_state k b"
      using a_other b_other by auto
    moreover have "get_document_state k a = None \<or> get_document_state k b = None"
      using False bothI [OF stored k] by (metis option.exhaust)
    ultimately show ?thesis by (auto simp: doc_ops_def joined_def split: option.split sum.split)
  qed
  with m1 m2 m3 b1 show ?thesis by blast
qed

end
