(* ===== verification/Sample_Crypto.thy ===== *)
theory Sample_Crypto
  imports Samples Authority Crypto_Properties Crdt_Convergence "HOL-Library.Countable"
begin

text \<open>
  A concrete library for the parameters of the crypto and document layers, simple enough to compute
  with, and the theorems of these layers applied to it: base64 and base58 are two letters for a
  byte, the ciphers keep the text, a certificate is the name of its user, tokens are looked up in a
  table, and a document is the list of its operations.
\<close>

section \<open>A library\<close>

definition nibbles :: "bytes \<Rightarrow> string" where
  "nibbles bs = concat (map (\<lambda>b. [char_of (97 + unat b div 16), char_of (97 + unat b mod 16)]) bs)"

fun unnibbles :: "string \<Rightarrow> string + bytes" where
  "unnibbles [] = Inr []"
| "unnibbles (c # d # cs) =
     rbind (unnibbles cs) (\<lambda>bs. Inr (word_of_nat (16 * (of_char c - 97) + (of_char d - 97)) # bs))"
| "unnibbles [c] = Inl ''Invalid length''"

lemma unnibbles_nibbles [simp]: "unnibbles (nibbles bs) = Inr bs"
proof (induction bs)
  case (Cons b bs)
  have "unat b < 256" using unsigned_less [of b, where ?'a = nat] by simp
  then have "of_char (char_of (97 + unat b div 16) :: char) = 97 + unat b div 16"
    "of_char (char_of (97 + unat b mod 16) :: char) = 97 + unat b mod 16"
    by (simp_all add: of_char_of)
  then show ?case using Cons.IH by (simp add: nibbles_def rbind_def)
qed (simp add: nibbles_def)

lemma nibbles_text [simp]: "is_text (nibbles bs)"
proof -
  have "utf8_ok (map of_char (nibbles bs))"
  proof (induction bs)
    case (Cons b bs)
    have "unat b < 256" using unsigned_less [of b, where ?'a = nat] by simp
    then have "of_char (char_of (97 + unat b div 16) :: char) < (128 :: nat)"
      "of_char (char_of (97 + unat b mod 16) :: char) < (128 :: nat)"
      by (simp_all add: of_char_of)
    then show ?case using Cons.IH by (simp add: nibbles_def del: of_char_of)
  qed (simp add: nibbles_def)
  then show ?thesis by (simp add: is_text_def)
qed

definition sample_lib :: "(string \<times> ucan) list \<Rightarrow> crypto_lib" where
  "sample_lib tokens =
     \<lparr>b64_encode = nibbles, b64_decode = unnibbles, b58_encode = nibbles, b58_decode = unnibbles,
      argon2 = (\<lambda>_ _. Inr (replicate 32 0)), aes_seal = (\<lambda>_ _ m. Inr m), aes_open = (\<lambda>_ _ c. Inr c),
      ed_verifying_key = (\<lambda>k. k), cert_parse = Inr, cert_from_str = (\<lambda>s. Inr (as_bytes s)),
      cert_serialize = Inr, cert_armor = Inr, pgp_generate = (\<lambda>u _. Inr (as_bytes u)),
      pgp_public_key = (\<lambda>c. Inr (bytes_text c)), pgp_key_id = Inr,
      pgp_recipient = (\<lambda>p. Inr (as_bytes p)), pgp_encrypt = (\<lambda>_ t _. Inr t),
      pgp_decryption_key = Inr, pgp_decrypt = (\<lambda>_ m. Inr m), pgp_signing_keypair = Inr,
      pgp_sign = (\<lambda>k _ _. Inr k), pgp_hash = (\<lambda>m. Inr (as_bytes m)),
      pgp_eddsa_secret = (\<lambda>_. Inr (replicate 32 1)), pgp_sign_cleartext = (\<lambda>_ m _ _. Inr m),
      pgp_verify_cleartext = (\<lambda>_ m _. Inr (True, Some m)),
      ucan_try_from = (\<lambda>t. case map_of tokens t of Some u \<Rightarrow> Inr u | None \<Rightarrow> Inl ''unknown token''),
      ucan_check = (\<lambda>_ _. Inr ()), ucan_to_cid = (\<lambda>u. Inr (u_audience u)),
      ucan_build = (\<lambda>c _. Inr \<lparr>u_issuer = ''did:key:z'' @ nibbles ([0xed, 1] @ uc_issued_by c),
        u_audience = uc_for_audience c, u_capabilities = uc_claims c,
        u_proofs = (if uc_witnessed_by c = [] then None else Some (map u_audience (uc_witnessed_by c))),
        u_facts = Some (uc_facts c)\<rparr>),
      ucan_sign = (\<lambda>_ u. Inr u), ucan_encode = (\<lambda>u. Inr (u_issuer u @ u_audience u)),
      aes_text = (\<lambda>_. ''aes''), pgp_text = (\<lambda>_. ''pgp''), crypto_text = (\<lambda>_. ''crypto''),
      repository_text = (\<lambda>_. ''repository''), chain_fuel = Suc (Suc (Suc 0))\<rparr>"

lemma sample_fields [simp]:
  "b64_encode (sample_lib ts) = nibbles" "b64_decode (sample_lib ts) = unnibbles"
  "b58_encode (sample_lib ts) = nibbles" "b58_decode (sample_lib ts) = unnibbles"
  "argon2 (sample_lib ts) k nonce = Inr (replicate 32 0)"
  "aes_seal (sample_lib ts) k nonce m = Inr m" "aes_open (sample_lib ts) k nonce m = Inr m"
  "ed_verifying_key (sample_lib ts) k = k" "cert_parse (sample_lib ts) = Inr"
  "cert_serialize (sample_lib ts) = Inr" "pgp_generate (sample_lib ts) p n = Inr (as_bytes p)"
  "pgp_public_key (sample_lib ts) c = Inr (bytes_text c)" "pgp_key_id (sample_lib ts) = Inr"
  "pgp_recipient (sample_lib ts) p = Inr (as_bytes p)" "pgp_encrypt (sample_lib ts) k t n = Inr t"
  "pgp_decryption_key (sample_lib ts) = Inr" "pgp_decrypt (sample_lib ts) k m = Inr m"
  "pgp_signing_keypair (sample_lib ts) = Inr" "pgp_sign (sample_lib ts) k t now = Inr k"
  "ucan_try_from (sample_lib ts) t = (case map_of ts t of Some u \<Rightarrow> Inr u | None \<Rightarrow> Inl ''unknown token'')"
  "ucan_check (sample_lib ts) u now = Inr ()" "ucan_to_cid (sample_lib ts) u = Inr (u_audience u)"
  "ucan_sign (sample_lib ts) k u = Inr u" "ucan_encode (sample_lib ts) u = Inr (u_issuer u @ u_audience u)"
  "chain_fuel (sample_lib ts) = Suc (Suc (Suc 0))"
  by (simp_all add: sample_lib_def)

lemma as_bytes_text [simp]: "bytes_text (as_bytes s) = s"
  by (induction s) (simp_all add: bytes_text_def as_bytes_def)

lemma sample_laws [simp]:
  "codec_ok (sample_lib ts)" "aes_ok (sample_lib ts)" "key_pair (sample_lib ts) p c"
  by (simp_all add: codec_ok_def aes_ok_def key_pair_def)

definition loaded :: "string \<Rightarrow> crypto_utils" where
  "loaded name = \<lparr>cu_cert = Some (as_bytes name)\<rparr>"

lemmas crypto_simps = encrypt_data_for_user_def generate_aes_key_def encrypt_with_aes_def
  encrypt_key_with_new_pub_key_def decrypt_aes_key_def decrypt_for_cert_def with_cert_def get_cert_def
  draw_seed_def fill_bytes_def now_secs_def

section \<open>Encrypted data\<close>

lemma shared_key_decrypts_witness:
  "\<exists>e k k'. fst (encrypt_data_for_user (sample_lib []) ''memo'' ''ann'' blank) = Inr (e, k) \<and>
     fst (encrypt_key_with_new_pub_key (sample_lib []) (loaded ''ann'') k ''bob'' blank) = Inr k' \<and>
     decrypt_resource (sample_lib []) (loaded ''bob'') e k' = Inr ''memo''"
proof -
  obtain e k where c: "fst (encrypt_data_for_user (sample_lib []) ''memo'' ''ann'' blank) = Inr (e, k)"
    and k: "k = nibbles (map of_nat [0..<32])"
    by (simp add: crypto_simps sbind_def smap_err_def blank_def del: upt.simps)
  have dk: "decrypt_for_cert (sample_lib []) (loaded ''ann'') k = Inr (map of_nat [0..<32])"
    by (simp add: k crypto_simps loaded_def rbind_def del: upt.simps)
  obtain k' where s: "fst (encrypt_key_with_new_pub_key (sample_lib []) (loaded ''ann'') k ''bob'' blank) = Inr k'"
    using dk by (simp add: encrypt_key_with_new_pub_key_def decrypt_aes_key_def sbind_def draw_seed_def)
  have "is_text ''memo''" by (simp add: is_text_def)
  from shared_key_decrypts [where c = "as_bytes ''ann''" and c' = "as_bytes ''bob''" and
      cu' = "loaded ''bob''" and dk = "as_bytes ''bob''", OF sample_laws(1,2,3,3) _ _ _ this
      run_split [OF c] run_split [OF s]]
  have "decrypt_resource (sample_lib []) (loaded ''bob'') e k' = Inr ''memo''"
    by (simp add: loaded_def)
  with c s show ?thesis by blast
qed

lemma update_resource_decrypts_witness:
  "\<exists>e. fst (cu_update_resource (sample_lib []) (loaded ''ann'') ''news'' (nibbles (replicate 32 7)) blank) =
       Inr e \<and>
     decrypt_resource (sample_lib []) (loaded ''bob'') e (nibbles (replicate 32 7)) = Inr ''news''"
proof -
  let ?k = "nibbles (replicate 32 7)"
  have dk: "decrypt_for_cert (sample_lib []) (loaded n) ?k = Inr (replicate 32 7)" for n
    by (simp add: crypto_simps loaded_def rbind_def)
  then obtain e where u: "fst (cu_update_resource (sample_lib []) (loaded ''ann'') ''news'' ?k blank) = Inr e"
    by (simp add: cu_update_resource_def decrypt_aes_key_def sbind_def encrypt_with_aes_def smap_err_def
        fill_bytes_def)
  have "is_text ''news''" by (simp add: is_text_def)
  from update_resource_decrypts [OF sample_laws(1,2) this run_split [OF u], of "loaded ''bob''" ?k] u
  show ?thesis by (simp add: decrypt_aes_key_def dk)
qed

lemma change_password_keeps_certificate_witness:
  "\<exists>k'. change_certificate_password (sample_lib []) (nibbles [1, 2, 3]) (nibbles (replicate 16 9)) ''old'' ''new'' =
       Inr k' \<and>
     decrypt_certificate (sample_lib []) k' (nibbles (replicate 16 9)) ''new'' = Inr [1, 2, 3]"
proof -
  let ?salt = "nibbles (replicate 16 9)"
  note unfold = change_certificate_password_def decrypt_certificate_def decrypt_certificate_data_def
    get_salt_arr_def derive_key_def new_cipher_def encrypt_certificate_def
  have d: "decrypt_certificate (sample_lib []) (nibbles [1, 2, 3]) ?salt ''old'' = Inr [1, 2, 3]"
    by (simp add: unfold)
  obtain k' where c: "change_certificate_password (sample_lib []) (nibbles [1, 2, 3]) ?salt ''old'' ''new'' = Inr k'"
    by (simp add: unfold)
  have "cert_serialize (sample_lib []) c = Inr b \<Longrightarrow> cert_parse (sample_lib []) b = Inr c" for c b
    by simp
  from change_password_keeps_certificate [OF sample_laws(1,2) this d c] c show ?thesis by blast
qed

section \<open>Tokens\<close>

text \<open>
  Ann owns the note. She issued \<open>root\<close> to Bob, who may update it and passed it on to Cyd with
  \<open>leaf\<close>; \<open>plain\<close> is a token from Ann to Cyd without any capability. \<open>meet\<close> and \<open>meet again\<close> let
  Bob, and Cyd through him, connect to Ann.
\<close>

definition did :: "byte \<Rightarrow> string" where
  "did k = ''did:key:z'' @ nibbles [0xed, 1, k]"

definition token :: "byte \<Rightarrow> byte \<Rightarrow> capability list \<Rightarrow> string list option \<Rightarrow> json_map option \<Rightarrow> ucan" where
  "token from_key to_key caps proofs facts = \<lparr>u_issuer = did from_key, u_audience = did to_key,
     u_capabilities = caps, u_proofs = proofs, u_facts = facts\<rparr>"

abbreviation update_note :: "capability list" where
  "update_note \<equiv> [cap ''osv:resource:note'' ''crud/update'']"

abbreviation meet_ann :: "capability list" where
  "meet_ann \<equiv> [cap ''osv:user-connect:ann'' ''use'']"

definition TL :: crypto_lib where
  "TL = sample_lib
     [(''root'', token 1 2 update_note None None), (''leaf'', token 2 3 update_note (Some [''cid'']) None),
      (''plain'', token 1 3 [] None None), (''meet'', token 1 2 meet_ann None None),
      (''meet again'', token 2 3 meet_ann (Some [did 2]) (Some [(''proof'', JString ''meet'')]))]"

lemma TL_tokens:
  "ucan_try_from TL ''root'' = Inr (token 1 2 update_note None None)"
  "ucan_try_from TL ''leaf'' = Inr (token 2 3 update_note (Some [''cid'']) None)"
  "ucan_try_from TL ''plain'' = Inr (token 1 3 [] None None)"
  "ucan_try_from TL ''meet'' = Inr (token 1 2 meet_ann None None)"
  "ucan_try_from TL ''meet again'' = Inr (token 2 3 meet_ann (Some [did 2]) (Some [(''proof'', JString ''meet'')]))"
  by (simp_all add: TL_def)

lemma TL_known: "ucan_try_from TL t = Inr u \<Longrightarrow> t \<in> {''root'', ''leaf'', ''plain'', ''meet'', ''meet again''}"
  by (auto simp: TL_def split: if_splits)

lemma TL_fields [simp]: "ucan_check TL u now = Inr ()" "chain_fuel TL = Suc (Suc (Suc 0))"
  "ucan_to_cid TL u = Inr (u_audience u)"
  by (simp_all add: TL_def)

lemma token_fields [simp]: "u_issuer (token j k c p f) = did j" "u_audience (token j k c p f) = did k"
  "u_capabilities (token j k c p f) = c" "u_proofs (token j k c p f) = p" "u_facts (token j k c p f) = f"
  by (simp_all add: token_def)

lemma did_match [simp]:
  "verify_did_key_match TL (did k) (nibbles [j]) = (if k = j then Inr () else Inl PublicKeyMismatch)"
  by (simp add: verify_did_key_match_def did_def starts_with_def TL_def)

lemma did_inject [simp]: "did j = did k \<longleftrightarrow> j = k"
proof
  assume "did j = did k"
  then have "unnibbles (nibbles [0xed, 1, j]) = unnibbles (nibbles [0xed, 1, k])" by (simp add: did_def)
  then show "j = k" by simp
qed simp

definition vault :: world where
  "vault = laptop\<lparr>t_users := [(user_sample ''ann'' True)\<lparr>ur_ucan_pub_key := nibbles [1]\<rparr>,
       (user_sample ''bob'' False)\<lparr>ur_ucan_pub_key := nibbles [2]\<rparr>,
       (user_sample ''cyd'' False)\<lparr>ur_ucan_pub_key := nibbles [3]\<rparr>],
     t_shares := [(share_sample ''s1'')\<lparr>sr_ucan_token := ''root'', sr_ucan_cid := ''cid''\<rparr>]\<rparr>"

lemma vault_parties:
  "get_user_by_id ''cyd'' vault =
     (Inr (user_load ((user_sample ''cyd'' False)\<lparr>ur_ucan_pub_key := nibbles [3]\<rparr>)), vault\<lparr>pool_n := Suc 0\<rparr>)"
  "find_owner_by_resource_id ''note'' (vault\<lparr>pool_n := Suc 0\<rparr>) =
     (Inr (user_select ((user_sample ''ann'' True)\<lparr>ur_ucan_pub_key := nibbles [1]\<rparr>)), vault\<lparr>pool_n := Suc (Suc 0)\<rparr>)"
  by (simp_all add: get_user_by_id_def find_owner_by_resource_id_def run_simps vault_def samples)

lemma stored_in_vault: "stored_proof vault c t \<longleftrightarrow> c = ''cid'' \<and> t = ''root''"
  by (auto simp: stored_proof_def vault_def samples)

lemma resolve_in_vault:
  "resolve_proof L ''cid'' (vault\<lparr>pool_n := p, time_n := n\<rparr>) =
     (Inr ''root'', vault\<lparr>pool_n := Suc p, time_n := n\<rparr>)"
  by (simp add: resolve_proof_def share_get_ucan_by_cid_def run_simps vault_def samples)

lemma vault_time: "time_n vault = 0"
  by (simp add: vault_def samples)

lemma check_leaf:
  "fst (service_validate_authority_for_update TL ''note'' ''leaf'' ''cyd'' ''osv'' vault) = Inr True"
  by (simp add: service_validate_authority_for_update_def repo_call_def crypto_run_def smap_err_def
      sbind_def vault_parties validate_authority_for_update_def validate_structure_def TL_tokens
      now_secs_def validate_audience_def scatch_def resolve_in_vault check_capability_def
      capability_grants_def cap_def ends_with_char_def Let_def vault_time)

lemma update_authority_sound_witness:
  "\<exists>u. ucan_try_from TL ''leaf'' = Inr u \<and>
     delegated TL (stored_proof vault) (nibbles [1]) ''osv:resource:note'' ''crud/update'' u"
proof -
  from update_authority_sound [OF run_split [OF check_leaf]] show ?thesis
    by (auto simp: vault_def samples)
qed

lemma update_authority_terminates_witness:
  "fst (service_validate_authority_for_update TL ''note'' ''leaf'' ''cyd'' ''osv'' vault)
    \<noteq> Inl (Crypto (UcanError ProofChainDiverges))"
proof (rule update_authority_terminates [where rank = "\<lambda>u. if u_proofs u = None then 0 else 1"])
  show "(if u_proofs parent = None then 0 else 1) < (if u_proofs u = None then 0 else 1 :: nat)"
    if "u_proofs u = Some proofs" "stored_proof vault c t" "ucan_try_from TL t = Inr parent" for u proofs c t parent
    using that by (auto simp: stored_in_vault TL_tokens)
qed auto

lemma owner_token_needs_no_capability_witness:
  "ucan_try_from TL ''plain'' = Inr (token 1 3 [] None None) \<and>
   fst (service_validate_authority_for_update TL ''note'' ''plain'' ''cyd'' ''osv'' vault) = Inr True"
proof -
  have "fst (service_validate_authority_for_update TL ''note'' ''plain'' ''cyd'' ''osv'' vault) = Inr True"
    by (rule owner_token_needs_no_capability [OF vault_parties TL_tokens(3)]) (simp_all add: user_sample_def)
  then show ?thesis by (simp add: TL_tokens)
qed

lemma connect_token_sound_witness:
  "\<exists>u. ucan_try_from TL ''meet again'' = Inr u \<and>
     connect_chain TL (nibbles [1]) ''osv:user-connect:ann'' ''meet again'' u"
proof -
  have one: "\<not> is_one_time_connect_token (token j k c p f) d" for j k c p f d
    by (simp add: is_one_time_connect_token_def did_def)
  have "fst (validate_connect_token TL ''meet again'' (nibbles [3]) (nibbles [1]) ''ann'' ''osv'' vault) = Inr True"
    by (simp add: validate_connect_token_def validate_structure_def sbind_def smap_err_def now_secs_def
        TL_tokens one validate_audience_def validate_embedded_proof_chain_def embedded_proof_def
        check_capability_def capability_grants_def cap_def ends_with_char_def get_ucan_cid_def)
  from connect_token_sound [OF run_split [OF this]] show ?thesis
    by (auto simp: TL_tokens one)
qed

lemma connect_token_terminates_witness:
  "fst (validate_connect_token TL ''meet again'' (nibbles [3]) (nibbles [1]) ''ann'' ''osv'' vault)
    \<noteq> Inl (UcanError ProofChainDiverges)"
proof (rule connect_token_terminates)
  show "length inner < length t" if u: "ucan_try_from TL t = Inr u" and e: "embedded_proof u = Some inner"
    for t u inner
    using TL_known [OF u] u e by (auto simp: TL_tokens embedded_proof_def)
qed

section \<open>Documents\<close>

text \<open>JSON is printed as a numeral in unary, which is read back because JSON values are countable.\<close>

instance json :: countable
  by countable_datatype

definition sample_yrs :: "(bytes, bytes, bytes) yrs" where
  "sample_yrs =
     \<lparr>json_read = (\<lambda>s. Inr (from_nat (length s))),
      json_read_map = (\<lambda>s. case from_nat (length s) of JObject m \<Rightarrow> Inr m | _ \<Rightarrow> Inl ''no object''),
      json_print = (\<lambda>v. replicate (to_nat v) (CHR ''1'')),
      y_new = [], y_decode_update = (\<lambda>bs. Inr (tl bs)), y_apply = (\<lambda>d u. Inr (d @ u)),
      y_state_vector = (\<lambda>d. 0 # d), y_decode_sv = (\<lambda>bs. Inr (tl bs)),
      y_diff = (\<lambda>d v. 0 # filter (\<lambda>x. x \<notin> set v) d), y_encode_state = (\<lambda>d. 0 # d)\<rparr>"

lemma sample_yrs_laws: "yrs_laws sample_yrs set" "json_laws sample_yrs"
  by (auto simp: yrs_laws_def json_laws_def sample_yrs_def)

definition note_sample :: "bytes \<Rightarrow> decrypted_resource" where
  "note_sample bs =
     \<lparr>dcr_id = ''note'', dcr_resource_type = Notes, dcr_data = JObject [(''main_doc'', json_bytes (0 # bs))],
      dcr_last_accessed = 0, dcr_favourite = False, dcr_folder_id = ''inbox''\<rparr>"

lemma note_sample_ops:
  "doc_ops sample_yrs set (note_sample bs) ''main_doc'' = Some (set bs)"
  "states_load sample_yrs (note_sample bs)" "dcr_resource_type (note_sample bs) = Notes"
  by (simp_all add: doc_ops_def states_load_def note_sample_def get_document_state_def load_doc_def
      apply_update_v2_def sample_yrs_def json_bytes_def array_bytes_json [of "0 # bs", simplified])

lemma crdt_exchange_converges_witness:
  "\<exists>m1 m2 m3 m4 b1 a b. get_state_vectors sample_yrs (note_sample [1]) = Inr m1 \<and>
     sync_updates sample_yrs m1 (note_sample [2]) = (Inr m2, b1) \<and>
     sync_updates sample_yrs m2 (note_sample [1]) = (Inr m3, a) \<and>
     sync_updates sample_yrs m3 (note_sample [2]) = (Inr m4, b) \<and>
     doc_ops sample_yrs set a ''main_doc'' = Some {1, 2} \<and> doc_ops sample_yrs set b ''main_doc'' = Some {1, 2}"
proof -
  have "dcr_resource_type (note_sample [1]) = dcr_resource_type (note_sample [2])"
    by (simp add: note_sample_ops)
  from crdt_exchange_converges [OF sample_yrs_laws this note_sample_ops(2,2)]
  obtain m1 m2 m3 m4 b1 a b where run: "get_state_vectors sample_yrs (note_sample [1]) = Inr m1"
    "sync_updates sample_yrs m1 (note_sample [2]) = (Inr m2, b1)"
    "sync_updates sample_yrs m2 (note_sample [1]) = (Inr m3, a)"
    "sync_updates sample_yrs m3 (note_sample [2]) = (Inr m4, b)"
    and ops: "\<forall>k \<in> set (document_state_keys (dcr_resource_type (note_sample [1]))).
       doc_ops sample_yrs set a k =
         joined (doc_ops sample_yrs set (note_sample [1]) k) (doc_ops sample_yrs set (note_sample [2]) k) \<and>
       doc_ops sample_yrs set b k =
         joined (doc_ops sample_yrs set (note_sample [2]) k) (doc_ops sample_yrs set (note_sample [1]) k)"
    by blast
  have "doc_ops sample_yrs set a ''main_doc'' = Some {1, 2} \<and> doc_ops sample_yrs set b ''main_doc'' = Some {1, 2}"
    using ops by (simp add: note_sample_ops joined_def insert_commute)
  with run show ?thesis by blast
qed

end
