(* ===== verification/Sample_Peer.thy ===== *)
theory Sample_Peer
  imports Peer_Handshake_Gap Sample_Crypto
begin

text \<open>
  The theorems about connections at work: the phone of Ann is connected to a peer over a transport
  that does not fail, and one text stands for one message of the protocol.
\<close>

definition sample_text :: string where
  "sample_text = ''{}''"

definition sample_peer :: "message \<Rightarrow> (bytes, bytes, bytes) peer_lib" where
  "sample_peer M =
     \<lparr>pl_crypto = TL, pl_docs = sample_yrs, pl_order = sorted_list_of_set,
      msg_print = (\<lambda>m. if m = M then Inr sample_text else Inl ''not printed''),
      msg_read = (\<lambda>t. if t = sample_text then Inr M
        else if t = ''{'' then Inl (Unexpected_eof ''EOF while parsing'') else Inl (Malformed ''expected value'')),
      service_text = (\<lambda>_. ''service''), p2p_text = (\<lambda>_. ''p2p'')\<rparr>"

lemma sample_peer_fields [simp]:
  "pl_crypto (sample_peer M) = TL" "pl_docs (sample_peer M) = sample_yrs"
  "pl_order (sample_peer M) = sorted_list_of_set" "msg_print (sample_peer M) M = Inr sample_text"
  "msg_read (sample_peer M) ''{}'' = Inr M"
  "msg_read (sample_peer M) ''{'' = Inl (Unexpected_eof ''EOF while parsing'')"
  by (simp_all add: sample_peer_def sample_text_def)

lemma sample_framing: "framing_ok (sample_peer M)"
proof -
  have "p = ''{''" if "''{}'' = p @ q" "p \<noteq> []" "q \<noteq> []" for p q :: string
    using that by (auto simp: append_eq_Cons_conv Cons_eq_append_conv)
  then show ?thesis
    by (auto simp: framing_ok_def sample_peer_def sample_text_def is_text_def split: if_splits)
qed

text \<open>Ann's phone, with the key of Ann and the token she presents to Bob.\<close>

definition phone_user :: user where
  "phone_user = (user_load (user_sample ''ann'' True))\<lparr>usr_ucan_pub_key := nibbles [1]\<rparr>"

lemma phone_user_fields: "usr_id phone_user = ''ann''" "usr_ucan_pub_key phone_user = nibbles [1]"
  by (simp_all add: phone_user_def user_load_def user_queryable.simps users_columns_def user_sample_def)

definition phone_device :: device where
  "phone_device = device_load (device_sample ''tel'' ''ann'')"

definition connection :: "bool \<Rightarrow> peer" where
  "connection is_initiator = peer_connection_new phone (loaded ''ann'') (Some phone_user) (Some phone_device)
     is_initiator None None ''node'' phone_user phone_device ''challenge'' False ''osv'' (Inr [1, 2, 3, 4])
     (\<lambda>_. None)"

lemma connection_start:
  "pc_world (connection i) = phone" "pc_current_user (connection i) = Some phone_user"
  "pc_current_device (connection i) = Some phone_device" "pc_is_initiator (connection i) = i"
  "pc_domain (connection i) = ''osv''" "\<not> pc_handshake_complete (connection i)"
  by (simp_all add: connection_def peer_connection_new_def)

lemma peer_input_safe_witness:
  "db_inv (pc_world (snd (handle_messages (sample_peer RetryRequest)
       [Accepted [Bytes_read (as_bytes ''{''), Bytes_read (as_bytes ''}'')], Accepted [Stream_finished]]
       (connection True))))"
  using peer_input_safe [OF surjective_pairing, of "connection True" "sample_peer RetryRequest"
      "[Accepted [Bytes_read (as_bytes ''{''), Bytes_read (as_bytes ''}'')], Accepted [Stream_finished]]"]
    db_inv_samples(3) connection_start(1) [of True] by (simp only: simp_thms)

lemma message_reassembled_witness:
  "read_stream (sample_peer RetryRequest) []
     (map Bytes_read [as_bytes ''{'', as_bytes ''}''] @ [Stream_finished]) (connection True) =
   deliver (sample_peer RetryRequest) RetryRequest (connection True)"
proof (rule message_reassembled [OF sample_framing sample_peer_fields(4)])
  show "concat [as_bytes ''{'', as_bytes ''}''] =
      concat (chunks CHUNK_SIZE (as_bytes sample_text))"
    by (simp add: concat_chunks CHUNK_SIZE_def sample_text_def flip: as_bytes_append)
  show "[] \<notin> set [as_bytes ''{'', as_bytes ''}'']" by (simp add: as_bytes_def)
qed

text \<open>Bob presents the key he signed and the token Ann gave him.\<close>

definition bob :: user where
  "bob = (user_load (user_sample ''bob'' False))\<lparr>usr_ucan_pub_key := nibbles [2]\<rparr>"

definition hello :: handshake_message where
  "hello = HandshakeExchange \<lparr>uue_signed_ucan_pub = nibbles [2], uue_ucan_token = ''meet'',
     uue_peer_user = bob, uue_peer_device = device_load (device_sample ''pc'' ''bob''),
     uue_connection_type = UserConn\<rparr>"

lemma meet_validates: "fst (validate_connect_token TL ''meet'' (nibbles [2]) (nibbles [1]) ''ann'' ''osv'' w) = Inr True"
proof -
  have one: "\<not> is_one_time_connect_token (token j k c p f) d" for j k c p f d
    by (simp add: is_one_time_connect_token_def did_def)
  show ?thesis
    by (simp add: validate_connect_token_def validate_structure_def sbind_def smap_err_def now_secs_def
        TL_tokens one validate_audience_def validate_embedded_proof_chain_def embedded_proof_def
        check_capability_def capability_grants_def cap_def ends_with_char_def get_ucan_cid_def)
qed

lemma hello_completes:
  "pc_handshake_complete (snd (process_message (sample_peer Ping) (HandshakeMsg hello) (connection True)))"
proof -
  have key: "verify_peer_key (sample_peer Ping) bob (nibbles [2]) (connection True) =
      (Inr (nibbles [2]), (connection True)\<lparr>pc_world := phone\<lparr>time_n := Suc 0\<rparr>\<rparr>)"
    by (simp add: verify_peer_key_def on_world_def verify_clear_text_message_def sbind_def
        now_secs_def connection_start TL_def sample_lib_def) (simp add: samples)
  obtain w where token: "validate_connect_token TL ''meet'' (nibbles [2]) (nibbles [1]) ''ann'' ''osv''
      (phone\<lparr>time_n := Suc 0\<rparr>) = (Inr True, w)"
    using meet_validates [of "phone\<lparr>time_n := Suc 0\<rparr>"] run_split by metis
  define t where "t = (connection True)\<lparr>pc_world := w, pc_user := bob, 
      pc_device := device_load (device_sample ''pc'' ''bob''), pc_handshake_complete := True\<rparr>"
  have "pc_handshake_complete (snd (start_user_network_sync (sample_peer Ping) t))"
    by (rule keepsD [OF keeps_user_sync(1) _ surjective_pairing]) (simp_all add: step_blind_def t_def)
  then show ?thesis
    using key token
    by (simp add: hello_def process_message_def handle_handshake_message_def process_exchange_message_def
        sbind_def check_connect_token_def on_world_def connection_start p2p_ops t_def phone_user_fields)
qed


lemma manifest_before_handshake_witness:
  "\<exists>m c. pc_sent (snd (process_message (sample_peer (DeviceManifestResponse c)) (DeviceManifestRequest m)
       (connection False))) = [DeviceManifestResponse c]"
proof -
  let ?ord = sorted_list_of_set
  let ?m = "manifest_sample [''lap''] 2"
  obtain c where c: "fst (process_device_manifest_request ?ord ?m ''ann'' phone) = Inr c"
    by (simp add: process_device_manifest_request_def get_device_manifest_def
        get_resource_manifest_data_def folder_find_all_def get_other_users_with_device_ids_def
        get_device_ids_by_user_id_def run_simps samples)
  have fresh: "connection False = peer_connection_new phone (loaded ''ann'') (Some phone_user)
      (Some phone_device) False None None ''node'' phone_user phone_device ''challenge'' False ''osv''
      (Inr [1, 2, 3, 4]) (\<lambda>_. None)"
    by (simp add: connection_def)
  have answer: "process_device_manifest_request (pl_order (sample_peer (DeviceManifestResponse c))) ?m
      (usr_id phone_user) phone = (Inr c, snd (process_device_manifest_request ?ord ?m ''ann'' phone))"
    using run_split [OF c] by (simp add: phone_user_fields)
  from manifest_before_handshake [OF fresh answer sample_peer_fields(4)] show ?thesis
    by (metis snd_conv)
qed

end
