(* ===== verification/Connection_Manager.thy ===== *)
theory Connection_Manager
  imports Peer_Connection
begin

text \<open>
  \<open>connection_manager.rs\<close> and the state of \<open>p2p_service.rs\<close>: which connections are established or
  being made. Connections are shared (\<open>Arc<PeerConnection>\<close>): the service keeps them in a store, and
  the manager maps the id of a connection to its place there.
\<close>

section \<open>The manager\<close>

record connection_manager =
  cm_connections :: "string \<rightharpoonup> nat"
  cm_connecting :: "string set"
  cm_pending :: "string set"

type_synonym 'a managing = "(connection_manager, string, 'a) sm"

definition connection_manager_new :: connection_manager where
  "connection_manager_new = \<lparr>cm_connections = Map.empty, cm_connecting = {}, cm_pending = {}\<rparr>"

definition get_peer_connection :: "string \<Rightarrow> nat managing" where
  "get_peer_connection connection_id = sbind (sget cm_connections) (\<lambda>connections.
     case connections connection_id of
       Some connection \<Rightarrow> sret connection
     | None \<Rightarrow> sthrow (''Connection not found: '' @ connection_id))"

definition is_connection_active :: "string \<Rightarrow> connection_manager \<Rightarrow> bool" where
  "is_connection_active connection_id cm \<longleftrightarrow>
     cm_connections cm connection_id \<noteq> None \<or> connection_id \<in> cm_connecting cm"

definition mark_as_connecting :: "string \<Rightarrow> unit managing" where
  "mark_as_connecting connection_id cm =
     (if cm_connections cm connection_id \<noteq> None
      then (Inl (''Connection already established: '' @ connection_id), cm)
      else if connection_id \<in> cm_connecting cm
      then (Inl (''Connection already in connecting state: '' @ connection_id), cm)
      else (Inr (), cm\<lparr>cm_connecting := insert connection_id (cm_connecting cm)\<rparr>))"

definition remove_from_connecting :: "string \<Rightarrow> unit managing" where
  "remove_from_connecting connection_id =
     smodify (\<lambda>cm. cm\<lparr>cm_connecting := cm_connecting cm - {connection_id}\<rparr>)"

text \<open>\<open>id\<close> is \<open>connection.get_id()\<close>.\<close>

definition insert_connection :: "string \<Rightarrow> nat \<Rightarrow> unit managing" where
  "insert_connection connection_id connection =
     sbind (remove_from_connecting connection_id) (\<lambda>_.
     smodify (\<lambda>cm. cm\<lparr>cm_connections := (cm_connections cm)(connection_id \<mapsto> connection)\<rparr>))"

definition remove_connection :: "string \<Rightarrow> unit managing" where
  "remove_connection connection_id cm =
     (if cm_connections cm connection_id \<noteq> None
      then (Inr (), cm\<lparr>cm_connections := (cm_connections cm)(connection_id := None)\<rparr>)
      else (Inl (''Connection not found: '' @ connection_id), cm))"

definition manager_connections_by_ids :: "string list \<Rightarrow> connection_manager \<Rightarrow> nat list" where
  "manager_connections_by_ids connection_ids cm =
     List.map_filter (cm_connections cm) connection_ids"

definition add_pending_live_edit_request :: "string \<Rightarrow> unit managing" where
  "add_pending_live_edit_request connection_id =
     smodify (\<lambda>cm. cm\<lparr>cm_pending := insert connection_id (cm_pending cm)\<rparr>)"

definition get_and_clear_pending_live_edit_requests :: "string \<Rightarrow> bool managing" where
  "get_and_clear_pending_live_edit_requests connection_id cm =
     (Inr (connection_id \<in> cm_pending cm), cm\<lparr>cm_pending := cm_pending cm - {connection_id}\<rparr>)"

lemmas manager_defs = get_peer_connection_def mark_as_connecting_def remove_from_connecting_def
  insert_connection_def remove_connection_def add_pending_live_edit_request_def
  get_and_clear_pending_live_edit_requests_def

section \<open>The service\<close>

text \<open>
  The libraries of the service: those of a connection, and the transport, where a node id is the key
  of a node (\<open>NodeId\<close>, 32 bytes), printed and parsed as text.
\<close>

record ('d, 'u, 'v) net_lib =
  nl_peer :: "('d, 'u, 'v) peer_lib"
  node_text :: "bytes \<Rightarrow> string"
  node_parse :: "string \<Rightarrow> string + bytes"
  node_try_from :: "bytes \<Rightarrow> string + bytes"

text \<open>
  What the transport yields for an established connection: the node id it reports for the other end,
  and the errors of the operations on it.
\<close>

record transport =
  tr_remote :: "string + bytes"
  tr_link :: "nat \<Rightarrow> string option"

text \<open>A task spawned to connect, one after the other, to some devices.\<close>

type_synonym connect_call = "string \<times> connection_type \<times> connection_action option"

text \<open>
  \<open>nt_manager\<close> is \<open>None\<close> until the endpoint is bound (\<open>P2PService::state\<close>). \<open>nt_bind\<close> is the error of
  binding the endpoint, if any, and \<open>nt_dial n\<close> what the \<open>n\<close>-th call of \<open>Endpoint::connect\<close> answers.
  \<open>nt_spawned\<close> are the tasks that were spawned and have not begun yet.
\<close>

record net =
  nt_world :: world
  nt_crypto :: crypto_utils
  nt_current_user :: "user option"
  nt_current_device :: "device option"
  nt_domain :: string
  nt_manager :: "connection_manager option"
  nt_peers :: "peer list"
  nt_events :: "p2p_event list"
  nt_spawned :: "connect_call list list"
  nt_bind :: "string option"
  nt_dial :: "nat \<Rightarrow> bytes \<Rightarrow> string + transport"
  nt_dialed :: "bytes list"

type_synonym 'a net_op = "(net, p2p_error, 'a) sm"

text \<open>A step on the database, on the manager, and on a connection of the store.\<close>

definition net_world :: "('e \<Rightarrow> 'f) \<Rightarrow> (world, 'e, 'a) sm \<Rightarrow> (net, 'f, 'a) sm" where
  "net_world V m s = (case m (nt_world s) of
     (Inl e, w) \<Rightarrow> (Inl (V e), s\<lparr>nt_world := w\<rparr>) | (Inr x, w) \<Rightarrow> (Inr x, s\<lparr>nt_world := w\<rparr>))"

definition on_manager :: "(string \<Rightarrow> p2p_error) \<Rightarrow> 'a managing \<Rightarrow> 'a net_op" where
  "on_manager V m s = (case nt_manager s of
     None \<Rightarrow> (Inl NotInitialized, s)
   | Some cm \<Rightarrow> (case m cm of
       (Inl e, cm') \<Rightarrow> (Inl (V e), s\<lparr>nt_manager := Some cm'\<rparr>)
     | (Inr x, cm') \<Rightarrow> (Inr x, s\<lparr>nt_manager := Some cm'\<rparr>)))"

text \<open>What a connection shares with the service is current while one of its methods runs.\<close>

definition peer_view :: "net \<Rightarrow> peer \<Rightarrow> peer" where
  "peer_view s p = p\<lparr>pc_world := nt_world s, pc_crypto := nt_crypto s,
     pc_current_user := nt_current_user s, pc_current_device := nt_current_device s,
     pc_events := nt_events s\<rparr>"

definition on_peer :: "nat \<Rightarrow> (peer, 'e, 'a) sm \<Rightarrow> (net, 'e, 'a) sm" where
  "on_peer r m s = (case m (peer_view s (nt_peers s ! r)) of (q, p) \<Rightarrow>
     (q, s\<lparr>nt_peers := (nt_peers s)[r := p], nt_world := pc_world p, nt_events := pc_events p\<rparr>))"

definition net_emit :: "p2p_event \<Rightarrow> (net, 'e, unit) sm" where
  "net_emit e = smodify (\<lambda>s. s\<lparr>nt_events := nt_events s @ [e]\<rparr>)"

definition spawn :: "connect_call list \<Rightarrow> (net, 'e, unit) sm" where
  "spawn t = smodify (\<lambda>s. s\<lparr>nt_spawned := nt_spawned s @ [t]\<rparr>)"

end
