(* ===== verification/P2P_Service.thy ===== *)
theory P2P_Service
  imports Connection_Manager
begin

text \<open>
  \<open>p2p_service.rs\<close>: the session, starting the service, making and accepting connections, and the
  requests to connect with the devices of users. \<open>connect_with_ticket\<close> is given in the two parts
  before and after the call of the transport, between which other tasks run.
\<close>

abbreviation net_crypto_lib :: "('d, 'u, 'v) net_lib \<Rightarrow> crypto_lib" where
  "net_crypto_lib N \<equiv> pl_crypto (nl_peer N)"

section \<open>The session\<close>

definition set_current_user :: "user \<Rightarrow> unit net_op" where
  "set_current_user user = smodify (\<lambda>s. s\<lparr>nt_current_user := Some user\<rparr>)"

definition set_current_device :: "device \<Rightarrow> unit net_op" where
  "set_current_device device = smodify (\<lambda>s. s\<lparr>nt_current_device := Some device\<rparr>)"

definition clear_current_session :: "unit net_op" where
  "clear_current_session = smodify (\<lambda>s. s\<lparr>nt_current_user := None, nt_current_device := None\<rparr>)"

definition net_current_user :: "user net_op" where
  "net_current_user = sbind (sget nt_current_user) (\<lambda>u.
     case u of Some u \<Rightarrow> sret u | None \<Rightarrow> sthrow (InvalidState ''No current user set''))"

definition net_current_device :: "device net_op" where
  "net_current_device = sbind (sget nt_current_device) (\<lambda>d.
     case d of Some d \<Rightarrow> sret d | None \<Rightarrow> sthrow (InvalidState ''No current device set''))"

section \<open>Starting\<close>

definition ensure_initialized :: "('d, 'u, 'v) net_lib \<Rightarrow> unit net_op" where
  "ensure_initialized N =
     sbind (sget nt_manager) (\<lambda>state.
       if state \<noteq> None then sret ()
       else
     sbind (net_world P2P_Repository get_node_key) (\<lambda>key.
     sbind (net_world P2P_Repository get_device_key) (\<lambda>node_public_key.
     sbind (slift (rmap_err P2P_Crypto (derive_node_id_from_public_key (net_crypto_lib N) node_public_key)))
       (\<lambda>node_id.
     sbind (slift (rmap_err (\<lambda>e. Configuration (''Invalid node ID: '' @ e)) (node_try_from N node_id)))
       (\<lambda>node_id.
     sbind (sget nt_crypto) (\<lambda>crypto.
     sbind (slift (rmap_err P2P_Crypto (get_node_keypair (net_crypto_lib N) crypto key)))
       (\<lambda>secret_key_bytes.
     sbind (sget nt_bind) (\<lambda>bind. case bind of
       Some e \<Rightarrow> sthrow (Configuration (''Failed to bind endpoint: '' @ e))
     | None \<Rightarrow> smodify (\<lambda>s. s\<lparr>nt_manager := Some connection_manager_new\<rparr>)))))))))"

section \<open>Making a connection\<close>

text \<open>The connection of the transport is \<open>conn\<close>; the new connection is put in the store.\<close>

definition new_peer ::
  "('d, 'u, 'v) net_lib \<Rightarrow> transport \<Rightarrow> bool \<Rightarrow> connection_type option \<Rightarrow> connection_action option
     \<Rightarrow> string \<Rightarrow> user \<Rightarrow> device \<Rightarrow> string \<Rightarrow> bool \<Rightarrow> net \<Rightarrow> peer" where
  "new_peer N conn is_initiator connection_type action node_id local_user local_device challenge
       live_edit s =
     peer_connection_new (nt_world s) (nt_crypto s) (nt_current_user s) (nt_current_device s) is_initiator
       action connection_type node_id local_user local_device challenge live_edit (nt_domain s)
       (tr_remote conn) (tr_link conn)"

definition store_peer :: "(net \<Rightarrow> peer) \<Rightarrow> nat net_op" where
  "store_peer f s = (Inr (length (nt_peers s)), s\<lparr>nt_peers := nt_peers s @ [f s]\<rparr>)"

definition perform_handshake_and_create_peer ::
  "('d, 'u, 'v) net_lib \<Rightarrow> transport \<Rightarrow> bool \<Rightarrow> connection_type option \<Rightarrow> connection_action option
     \<Rightarrow> nat net_op" where
  "perform_handshake_and_create_peer N conn is_initiator connection_type action =
     sbind net_current_device (\<lambda>local_device.
     sbind net_current_user (\<lambda>local_user.
     sbind (slift (rmap_err (\<lambda>e. P2P_Connection (RemoteNodeIdError e)) (tr_remote conn))) (\<lambda>peer_node_id.
     sbind (on_manager P2P_Custom (get_and_clear_pending_live_edit_requests (node_text N peer_node_id)))
       (\<lambda>is_live_edit.
     sbind (net_world id generate_challenge) (\<lambda>challenge.
     sbind (store_peer (new_peer N conn is_initiator connection_type action (node_text N peer_node_id)
              local_user local_device challenge is_live_edit)) (\<lambda>peer_connection.
     sbind (on_manager (\<lambda>e. P2P_Connection (AlreadyExists e))
              (insert_connection (node_text N peer_node_id) peer_connection)) (\<lambda>_.
     sbind (if is_initiator
            then (case (connection_type, action) of
                    (None, _) \<Rightarrow> sthrow (Configuration ''Connection type must be specified for initiator'')
                  | (_, None) \<Rightarrow> sthrow (Configuration ''Connection action must be specified for initiator'')
                  | (Some conn_type, Some action) \<Rightarrow>
                      on_peer peer_connection
                        (initiate_handshake (nl_peer N) conn_type action local_user local_device))
            else sret ()) (\<lambda>_.
     sret peer_connection))))))))"

text \<open>The id a device is dialled by: the text of a node id, or the public key of the device.\<close>

definition dialled_node :: "('d, 'u, 'v) net_lib \<Rightarrow> string \<Rightarrow> p2p_error + bytes" where
  "dialled_node N device_or_node_id =
     (case node_parse N device_or_node_id of
        Inr node_id \<Rightarrow> Inr node_id
      | Inl _ \<Rightarrow>
          rbind (rmap_err P2P_Crypto (derive_node_id_from_public_key (net_crypto_lib N) device_or_node_id))
            (\<lambda>node_id_bytes. rmap_err (\<lambda>e. P2P_Connection (InvalidNodeId e)) (node_try_from N node_id_bytes)))"

text \<open>What is done with a connection that exists when another is asked for.\<close>

definition reuse_connection ::
  "('d, 'u, 'v) net_lib \<Rightarrow> string \<Rightarrow> nat \<Rightarrow> connection_action option \<Rightarrow> unit net_op" where
  "reuse_connection N connection_id existing action = (case action of
       None \<Rightarrow> sret ()
     | Some LiveEdit \<Rightarrow> net_emit (LiveEditConnected connection_id)
     | Some _ \<Rightarrow> on_peer existing (sbind (sget pc_is_initiator) (\<lambda>is_initiator.
         if is_initiator then start_user_network_sync (nl_peer N)
         else send_message (nl_peer N) RetryRequest)))"

datatype (plugins only: code size) connect_progress = Answered "nat option" | Dialling bytes

definition connect_begin ::
  "('d, 'u, 'v) net_lib \<Rightarrow> string \<Rightarrow> connection_action option \<Rightarrow> connect_progress net_op" where
  "connect_begin N device_or_node_id action =
     sbind (slift (dialled_node N device_or_node_id)) (\<lambda>node_id.
     sbind (ensure_initialized N) (\<lambda>_.
       (let connection_id = node_text N node_id in
     sbind (on_manager P2P_Custom (sget (is_connection_active connection_id))) (\<lambda>active.
       if active
       then scatch (on_manager P2P_Custom (get_peer_connection connection_id))
              (\<lambda>existing. sbind (reuse_connection N connection_id existing action)
                 (\<lambda>_. sret (Answered (Some existing))))
              (\<lambda>_. sbind (on_manager P2P_Custom (add_pending_live_edit_request connection_id))
                 (\<lambda>_. sret (Answered None)))
       else sbind (on_manager (\<lambda>e. P2P_Connection (AlreadyConnecting e)) (mark_as_connecting connection_id))
              (\<lambda>_. sret (Dialling node_id))))))"

text \<open>\<open>endpoint.connect(..)\<close>.\<close>

definition dial :: "bytes \<Rightarrow> (net, string, transport) sm" where
  "dial node_id s = (nt_dial s (length (nt_dialed s)) node_id, s\<lparr>nt_dialed := nt_dialed s @ [node_id]\<rparr>)"

definition clear_mark :: "string \<Rightarrow> unit net_op" where
  "clear_mark connection_id = sbind (sget nt_manager) (\<lambda>state.
     if state = None then sret () else on_manager P2P_Custom (remove_from_connecting connection_id))"

definition connect_end ::
  "('d, 'u, 'v) net_lib \<Rightarrow> bytes \<Rightarrow> connection_type \<Rightarrow> connection_action option \<Rightarrow> nat option net_op" where
  "connect_end N node_id conn_type action =
     scatch (dial node_id)
       (\<lambda>conn. scatch (perform_handshake_and_create_peer N conn True (Some conn_type) action)
          (\<lambda>peer_connection. sret (Some peer_connection))
          (\<lambda>e. sbind (clear_mark (node_text N node_id)) (\<lambda>_. sthrow e)))
       (\<lambda>e. sbind (clear_mark (node_text N node_id)) (\<lambda>_.
          sthrow (P2P_Connection (EstablishmentFailed (node_text N node_id) e))))"

definition connect_with_ticket ::
  "('d, 'u, 'v) net_lib \<Rightarrow> string \<Rightarrow> connection_type \<Rightarrow> connection_action option \<Rightarrow> nat option net_op" where
  "connect_with_ticket N device_or_node_id conn_type action =
     sbind (connect_begin N device_or_node_id action) (\<lambda>progress. case progress of
       Answered connection \<Rightarrow> sret connection
     | Dialling node_id \<Rightarrow> connect_end N node_id conn_type action)"

section \<open>Asking for connections\<close>

definition spawn_connects :: "connection_type \<Rightarrow> connection_action \<Rightarrow> device list \<Rightarrow> unit net_op" where
  "spawn_connects conn_type action = sfor (\<lambda>device. spawn [(dev_id device, conn_type, Some action)])"

definition request_connections :: "unit net_op" where
  "request_connections =
     sbind net_current_device (\<lambda>current_device.
     sbind (net_world P2P_Repository (get_all_devices_except [dev_id current_device])) (\<lambda>all_devices.
     sbind (net_world P2P_Repository get_known_users) (\<lambda>all_users.
       (let (user_devices, other_devices) =
              List.partition (\<lambda>d. dev_user_id d = dev_user_id current_device) all_devices;
            first_users = filter usr_first_sync all_users;
            first_user_ids = set (map usr_id first_users);
            (first_user_connection_devices, other_devices) =
              List.partition (\<lambda>d. dev_user_id d \<in> first_user_ids) other_devices in
     sbind (spawn_connects DeviceConn DeviceSync user_devices) (\<lambda>_.
     sbind (spawn_connects UserConn UserSync first_user_connection_devices) (\<lambda>_.
     spawn_connects UserConn UserSync other_devices))))))"

definition connect_with_users :: "ident list \<Rightarrow> unit net_op" where
  "connect_with_users user_ids =
     sbind net_current_user (\<lambda>current_user.
     sbind (net_world P2P_Repository
              (get_devices_by_user_ids (filter (\<lambda>user_id. user_id \<noteq> usr_id current_user) user_ids)))
       (spawn_connects UserConn UserSync))"

definition sync_folders :: "ident \<Rightarrow> unit net_op" where
  "sync_folders folder_id =
     sbind (net_world P2P_Repository (get_records_by_folder_id folder_id)) (\<lambda>share_records.
     connect_with_users (map fsr_recipient_user_id share_records))"

definition sync_resource :: "ident \<Rightarrow> unit net_op" where
  "sync_resource resource_id =
     sbind (net_world P2P_Repository (find_by_resource_and_operation resource_id
              (share_operation_to_string Share))) (\<lambda>resource_share_records.
     connect_with_users (map shr_recipient_user_id resource_share_records))"

section \<open>Listening\<close>

text \<open>\<open>start_listening\<close> fails when the endpoint is not bound; the task it spawns handles what is accepted.\<close>

definition start_listening :: "unit net_op" where
  "start_listening = sbind (sget nt_manager) (\<lambda>state. if state = None then sthrow NotInitialized else sret ())"

datatype (plugins only: code size) incoming_connection =
    Accept_error string | Establish_error string | Timed_out string | Established transport

definition accept_incoming :: "('d, 'u, 'v) net_lib \<Rightarrow> incoming_connection \<Rightarrow> (net, 'e, unit) sm" where
  "accept_incoming N c = (case c of
       Established conn \<Rightarrow>
         scatch (perform_handshake_and_create_peer N conn False None None) (\<lambda>_. sret ()) (\<lambda>_. sret ())
     | _ \<Rightarrow> sret ())"

definition start_p2p_service :: "('d, 'u, 'v) net_lib \<Rightarrow> device \<Rightarrow> user \<Rightarrow> unit net_op" where
  "start_p2p_service N device user =
     sbind (set_current_user user) (\<lambda>_.
     sbind (set_current_device device) (\<lambda>_.
     sbind (ensure_initialized N) (\<lambda>_.
     sbind start_listening (\<lambda>_.
     request_connections))))"

section \<open>Using connections\<close>

definition get_connection_by_id :: "string \<Rightarrow> nat net_op" where
  "get_connection_by_id connection_id =
     on_manager (\<lambda>_. P2P_Connection (Connection_NotFound connection_id)) (get_peer_connection connection_id)"

definition get_connections_by_ids :: "string list \<Rightarrow> (net, 'e, nat list) sm" where
  "get_connections_by_ids connection_ids = sbind (sget nt_manager) (\<lambda>state. case state of
     None \<Rightarrow> sret [] | Some cm \<Rightarrow> sret (manager_connections_by_ids connection_ids cm))"

text \<open>\<open>connection.close_reason().is_none()\<close>.\<close>

definition is_open :: "nat \<Rightarrow> net \<Rightarrow> bool" where
  "is_open r s \<longleftrightarrow> \<not> pc_closed (nt_peers s ! r)"

definition drop_connection :: "string \<Rightarrow> (net, 'e, unit) sm" where
  "drop_connection connection_id =
     scatch (on_manager P2P_Custom (remove_connection connection_id)) sret (\<lambda>_. sret ())"

text \<open>The callback of \<open>close_connection\<close>, run in a task of its own.\<close>

definition cleanup_callback :: "string \<Rightarrow> (net, 'e, unit) sm" where
  "cleanup_callback = drop_connection"

definition reconnect_and_send ::
  "('d, 'u, 'v) net_lib \<Rightarrow> string \<Rightarrow> message \<Rightarrow> connection_action \<Rightarrow> unit net_op" where
  "reconnect_and_send N connection_id message action =
     sbind (connect_with_ticket N connection_id UserConn (Some action)) (\<lambda>connection. case connection of
       Some new_conn \<Rightarrow> on_peer new_conn (send_message (nl_peer N) message)
     | None \<Rightarrow> sthrow (InvalidState ''Connection in progress''))"

definition send_or_reconnect ::
  "('d, 'u, 'v) net_lib \<Rightarrow> string \<Rightarrow> message \<Rightarrow> connection_action \<Rightarrow> unit net_op" where
  "send_or_reconnect N connection_id message action =
     scatch (get_connection_by_id connection_id)
       (\<lambda>connection. sbind (sget (is_open connection)) (\<lambda>healthy.
          if healthy then on_peer connection (send_message (nl_peer N) message)
          else sbind (drop_connection connection_id)
                 (\<lambda>_. reconnect_and_send N connection_id message action)))
       (\<lambda>_. reconnect_and_send N connection_id message action)"

end
