(* ===== verification/P2P_Incoming.thy ===== *)
theory P2P_Incoming
  imports P2P_Service
begin

text \<open>
  \<open>incoming.rs\<close> and \<open>incoming_handler.rs\<close>: the requests of the user interface to the service, above
  all those of live editing, and their handlers. The channel is the list of its events, oldest first;
  sending fails when the receiver is gone.
\<close>

section \<open>Events\<close>

datatype (plugins only: code size) incoming_event =
    LiveEditDocumentCheck string ident
  | LiveEditDocumentCheckResponse string ident bool string
  | LiveEditUpdateExchange string ident string
  | LiveEditUpdateExchangeResponse string ident string
  | In_DocumentChanged string ident
  | SyncUpdateBroadcast "string list" ident "32 word" bytes string
  | AwarenessUpdateBroadcast "string list" ident "32 word" bytes
  | BroadCastStateVectorRequest "string list" ident
  | StartLiveConnection "string list"

record p2p_sender =
  ps_open :: bool
  ps_events :: "incoming_event list"

type_synonym sending = "(p2p_sender, string, unit) sm"

definition p2p_send :: "incoming_event \<Rightarrow> sending" where
  "p2p_send event s = (if ps_open s then (Inr (), s\<lparr>ps_events := ps_events s @ [event]\<rparr>)
     else (Inl ''Failed to send event: channel closed'', s))"

definition send_live_edit_requests :: "string list \<Rightarrow> sending" where
  "send_live_edit_requests device_ids = p2p_send (StartLiveConnection device_ids)"

definition send_live_edit_document_check :: "string \<Rightarrow> ident \<Rightarrow> sending" where
  "send_live_edit_document_check connection_id resource_id =
     p2p_send (LiveEditDocumentCheck connection_id resource_id)"

definition send_live_edit_document_check_response :: "string \<Rightarrow> ident \<Rightarrow> bool \<Rightarrow> string \<Rightarrow> sending" where
  "send_live_edit_document_check_response connection_id resource_id is_match state_vectors =
     p2p_send (LiveEditDocumentCheckResponse connection_id resource_id is_match state_vectors)"

definition send_live_edit_update_exchange :: "string \<Rightarrow> ident \<Rightarrow> string \<Rightarrow> sending" where
  "send_live_edit_update_exchange connection_id resource_id peer_updates =
     p2p_send (LiveEditUpdateExchange connection_id resource_id peer_updates)"

definition send_document_changed :: "string \<Rightarrow> ident \<Rightarrow> sending" where
  "send_document_changed connection_id resource_id = p2p_send (In_DocumentChanged connection_id resource_id)"

definition send_live_edit_update_exchange_response :: "string \<Rightarrow> ident \<Rightarrow> string \<Rightarrow> sending" where
  "send_live_edit_update_exchange_response connection_id resource_id peer_updates =
     p2p_send (LiveEditUpdateExchangeResponse connection_id resource_id peer_updates)"

definition send_state_vector_request :: "string list \<Rightarrow> ident \<Rightarrow> sending" where
  "send_state_vector_request connection_ids resource_id =
     p2p_send (BroadCastStateVectorRequest connection_ids resource_id)"

definition send_sync_update_to_connections ::
  "ident \<Rightarrow> 32 word \<Rightarrow> bytes \<Rightarrow> string list \<Rightarrow> string \<Rightarrow> sending" where
  "send_sync_update_to_connections resource_id client_id updates connection_ids doc_type =
     p2p_send (SyncUpdateBroadcast connection_ids resource_id client_id updates doc_type)"

definition send_awareness_update_to_connections ::
  "ident \<Rightarrow> 32 word \<Rightarrow> bytes \<Rightarrow> string list \<Rightarrow> sending" where
  "send_awareness_update_to_connections resource_id client_id awareness_data connection_ids =
     p2p_send (AwarenessUpdateBroadcast connection_ids resource_id client_id awareness_data)"

section \<open>Handlers\<close>

text \<open>
  A handler whose result is thrown away by the loop still has it here. \<open>Err(e)\<close> carries the text of
  the error.
\<close>

definition handle_start_live_edit :: "string list \<Rightarrow> (net, string, unit) sm" where
  "handle_start_live_edit device_ids =
     sfor (\<lambda>device_id. spawn [(device_id, UserConn, Some LiveEdit)]) device_ids"

definition handle_live_edit_document_check ::
  "('d, 'u, 'v) net_lib \<Rightarrow> string \<Rightarrow> ident \<Rightarrow> (net, 'e, unit) sm" where
  "handle_live_edit_document_check N connection_id resource_id =
     scatch (send_or_reconnect N connection_id (LiveEditMsg (DocumentCheck resource_id)) LiveEdit)
       sret (\<lambda>_. sret ())"

text \<open>\<open>get_connection_by_id(..)\<close> and \<open>send_message(..)\<close> with the texts the handlers make of their errors.\<close>

definition send_to ::
  "('d, 'u, 'v) net_lib \<Rightarrow> string \<Rightarrow> string \<Rightarrow> string \<Rightarrow> message \<Rightarrow> (net, string, unit) sm" where
  "send_to N missing failed connection_id message =
     sbind (smap_err (\<lambda>e. missing @ p2p_text (nl_peer N) e) (get_connection_by_id connection_id))
       (\<lambda>connection. smap_err (\<lambda>e. failed @ p2p_text (nl_peer N) e)
          (on_peer connection (send_message (nl_peer N) message)))"

definition handle_live_edit_document_check_response ::
  "('d, 'u, 'v) net_lib \<Rightarrow> string \<Rightarrow> ident \<Rightarrow> bool \<Rightarrow> string \<Rightarrow> (net, string, unit) sm" where
  "handle_live_edit_document_check_response N connection_id resource_id is_match state_vectors =
     (if is_match
      then send_to N ''Failed to get connection for state vector exchange: ''
             ''Failed to send state vector exchange message: '' connection_id
             (LiveEditMsg (StateVectorExchange resource_id state_vectors))
      else send_to N ''Failed to get connection for state vector exchange: ''
             ''Failed to send not same document message: '' connection_id (LiveEditMsg NotSameDocument))"

definition handle_live_edit_update_exchange ::
  "('d, 'u, 'v) net_lib \<Rightarrow> string \<Rightarrow> ident \<Rightarrow> string \<Rightarrow> (net, string, unit) sm" where
  "handle_live_edit_update_exchange N connection_id resource_id peer_updates =
     send_to N ''Failed to state vector exchange: '' ''Failed to state vector exchange: '' connection_id
       (LiveEditMsg (UpdateExchange resource_id peer_updates))"

definition handle_live_edit_update_exchange_response ::
  "('d, 'u, 'v) net_lib \<Rightarrow> string \<Rightarrow> ident \<Rightarrow> string \<Rightarrow> (net, string, unit) sm" where
  "handle_live_edit_update_exchange_response N connection_id resource_id peer_updates =
     send_to N ''failed to send updated exchange response '' ''failed to send updated exchange response ''
       connection_id (LiveEditMsg (UpdateExchangeResponse resource_id peer_updates))"

definition handle_document_changed ::
  "('d, 'u, 'v) net_lib \<Rightarrow> string \<Rightarrow> ident \<Rightarrow> (net, 'e, unit) sm" where
  "handle_document_changed N connection_id resource_id =
     scatch (send_to N [] [] connection_id (LiveEditMsg (DocumentChange resource_id)))
       sret (\<lambda>_. sret ())"

text \<open>Whether the message was sent; a closed connection is not tried.\<close>

definition try_send :: "('d, 'u, 'v) net_lib \<Rightarrow> message \<Rightarrow> string \<Rightarrow> (net, 'e, bool) sm" where
  "try_send N message connection_id =
     scatch (on_manager P2P_Custom (get_peer_connection connection_id))
       (\<lambda>conn. sbind (sget (is_open conn)) (\<lambda>healthy.
          if healthy
          then scatch (on_peer conn (send_message (nl_peer N) message)) (\<lambda>_. sret True) (\<lambda>_. sret False)
          else sret False))
       (\<lambda>_. sret False)"

text \<open>The service must be initialized: otherwise the function panics, \<open>Inl\<close> being the text of the panic.\<close>

definition broadcast_live_edit_message ::
  "('d, 'u, 'v) net_lib \<Rightarrow> string list \<Rightarrow> message \<Rightarrow> (net, string, unit) sm" where
  "broadcast_live_edit_message N connection_ids message =
     sbind (sget nt_manager) (\<lambda>state.
       if state = None then sthrow ''P2P service not initialized when broadcasting''
       else sbind (smap (try_send N message) connection_ids) (\<lambda>sent.
         (let failed_connections = map fst (filter (\<lambda>(i, ok). \<not> ok) (zip connection_ids sent)) in
          if failed_connections = [] then sret ()
          else spawn (map (\<lambda>i. (i, UserConn, Some LiveEdit)) failed_connections))))"

definition send_collecting ::
  "('d, 'u, 'v) net_lib \<Rightarrow> message \<Rightarrow> nat \<Rightarrow> (net, 'e, string list) sm" where
  "send_collecting N message connection =
     sbind (sget (\<lambda>s. pc_node_id (nt_peers s ! connection))) (\<lambda>connection_id.
     scatch (on_peer connection (send_message (nl_peer N) message)) (\<lambda>_. sret [])
       (\<lambda>e. sret [''Failed to send to connection '' @ connection_id @ '': '' @ p2p_text (nl_peer N) e]))"

definition broadcast_state_vector_request ::
  "('d, 'u, 'v) net_lib \<Rightarrow> string list \<Rightarrow> ident \<Rightarrow> (net, string, unit) sm" where
  "broadcast_state_vector_request N connection_ids resource_id =
     (if connection_ids = [] then sret ()
      else
     sbind (get_connections_by_ids connection_ids) (\<lambda>connections.
     sbind (smap_err (\<lambda>e. ''Failed to fetch current user: '' @ p2p_text (nl_peer N) e) net_current_user)
       (\<lambda>current_user.
     sbind (sget nt_crypto) (\<lambda>crypto.
     sbind (net_world (\<lambda>e. ''Failed to get state vectors: '' @ service_text (nl_peer N) e)
              (get_resource_state_vector (net_crypto_lib N) (pl_docs (nl_peer N)) crypto resource_id
                (usr_id current_user))) (\<lambda>state_vectors.
     sbind (net_world (\<lambda>e. ''Failed to fetch UCAN token: '' @ repository_text (net_crypto_lib N) e)
              (get_ucan_token_by_resource resource_id (usr_id current_user))) (\<lambda>ucan_token.
     sbind (smap (send_collecting N (MergeUpdate (StateVectorRequest resource_id state_vectors ucan_token)))
              connections) (\<lambda>errors.
       if concat errors \<noteq> []
       then sthrow (''Failed to send to '' @ decimal (length (concat errors)) @ '' connections: '' @
              join_text ''; '' (concat errors))
       else sret ())))))))"

definition handle_sync_update_broadcast ::
  "('d, 'u, 'v) net_lib \<Rightarrow> string list \<Rightarrow> ident \<Rightarrow> 32 word \<Rightarrow> bytes \<Rightarrow> string \<Rightarrow> (net, string, unit) sm" where
  "handle_sync_update_broadcast N connection_ids resource_id client_id updates doc_type =
     broadcast_live_edit_message N connection_ids
       (LiveEditMsg (DocumentUpdate resource_id client_id updates doc_type))"

definition handle_awareness_update_broadcast ::
  "('d, 'u, 'v) net_lib \<Rightarrow> string list \<Rightarrow> ident \<Rightarrow> 32 word \<Rightarrow> bytes \<Rightarrow> (net, string, unit) sm" where
  "handle_awareness_update_broadcast N connection_ids resource_id client_id awareness_data =
     broadcast_live_edit_message N connection_ids
       (LiveEditMsg (AwarenessUpdate resource_id client_id awareness_data))"

section \<open>The loop\<close>

text \<open>\<open>let _ = ..\<close>: the error is dropped.\<close>

definition ignoring :: "('s, 'e, unit) sm \<Rightarrow> ('s, 'f, unit) sm" where
  "ignoring m = scatch m sret (\<lambda>_. sret ())"

text \<open>One turn of the loop; \<open>Inl\<close> is a panic, which ends the task.\<close>

definition process_incoming_event ::
  "('d, 'u, 'v) net_lib \<Rightarrow> incoming_event \<Rightarrow> (net, string, unit) sm" where
  "process_incoming_event N event = (case event of
       SyncUpdateBroadcast connection_ids resource_id client_id updates doc_type \<Rightarrow>
         handle_sync_update_broadcast N connection_ids resource_id client_id updates doc_type
     | AwarenessUpdateBroadcast connection_ids resource_id client_id awareness_data \<Rightarrow>
         handle_awareness_update_broadcast N connection_ids resource_id client_id awareness_data
     | LiveEditDocumentCheck connection_id resource_id \<Rightarrow>
         handle_live_edit_document_check N connection_id resource_id
     | LiveEditDocumentCheckResponse connection_id resource_id is_match state_vectors \<Rightarrow>
         ignoring (handle_live_edit_document_check_response N connection_id resource_id is_match state_vectors)
     | LiveEditUpdateExchange connection_id resource_id peer_updates \<Rightarrow>
         ignoring (handle_live_edit_update_exchange N connection_id resource_id peer_updates)
     | LiveEditUpdateExchangeResponse connection_id resource_id peer_updates \<Rightarrow>
         ignoring (handle_live_edit_update_exchange_response N connection_id resource_id peer_updates)
     | In_DocumentChanged connection_id resource_id \<Rightarrow>
         handle_document_changed N connection_id resource_id
     | StartLiveConnection device_ids \<Rightarrow> ignoring (handle_start_live_edit device_ids)
     | BroadCastStateVectorRequest connection_ids resource_id \<Rightarrow>
         ignoring (broadcast_state_vector_request N connection_ids resource_id))"

definition start_processing_incoming_events ::
  "('d, 'u, 'v) net_lib \<Rightarrow> incoming_event list \<Rightarrow> (net, string, unit) sm" where
  "start_processing_incoming_events N = sfor (process_incoming_event N)"

end
