(* ===== verification/Net_Safety.thy ===== *)
theory Net_Safety
  imports P2P_Incoming Peer_Safety
begin

text \<open>
  The service of a node as a state machine: attempts to connect that are under way, connections that
  are accepted, messages of the peers and requests of the user interface happen in any order. Shown
  are the invariants of its state, and that no device stays blocked by an attempt that has ended.
\<close>

section \<open>The invariant\<close>

definition marked :: "net \<Rightarrow> string set" where
  "marked s = (case nt_manager s of None \<Rightarrow> {} | Some cm \<Rightarrow> cm_connecting cm)"

definition established :: "net \<Rightarrow> string \<Rightarrow> nat option" where
  "established s i = (case nt_manager s of None \<Rightarrow> None | Some cm \<Rightarrow> cm_connections cm i)"

text \<open>A connection the manager knows is in the store under its own id.\<close>

definition refs_ok :: "net \<Rightarrow> bool" where
  "refs_ok s \<longleftrightarrow> (\<forall>i r. established s i = Some r \<longrightarrow>
     r < length (nt_peers s) \<and> pc_node_id (nt_peers s ! r) = i)"

text \<open>The marks are among \<open>F\<close>; what the transport answers is the fixed \<open>D\<close>.\<close>

definition net_inv :: "(nat \<Rightarrow> bytes \<Rightarrow> string + transport) \<Rightarrow> string set \<Rightarrow> net \<Rightarrow> bool" where
  "net_inv D F s \<longleftrightarrow> nt_dial s = D \<and> marked s \<subseteq> F \<and> refs_ok s \<and> db_inv (nt_world s)"

named_theorems net_keeps \<open>operations that keep the invariant of the service\<close>

declare keeps_control [net_keeps] keeps_sfor [net_keeps] keeps_smap [net_keeps] keeps_sget [net_keeps]

lemmas net_inv_defs = net_inv_def marked_def established_def refs_ok_def

lemma keeps_modify [net_keeps]:
  "keeps (net_inv D F) (net_emit e)" "keeps (net_inv D F) (spawn t)"
  "keeps (net_inv D F) (set_current_user u)" "keeps (net_inv D F) (set_current_device d)"
  "keeps (net_inv D F) clear_current_session"
  unfolding net_emit_def spawn_def set_current_user_def set_current_device_def clear_current_session_def
  by (rule keeps_smodify; simp add: net_inv_defs)+

lemma keeps_dial [net_keeps]: "keeps (net_inv D F) (dial n)"
  by (simp add: keeps_def dial_def net_inv_defs)

lemma keeps_net_world [net_keeps]:
  assumes "keeps db_inv m"
  shows "keeps (net_inv D F) (net_world V m)"
proof (rule keepsI)
  fix s assume Q: "net_inv D F s"
  obtain r w where m: "m (nt_world s) = (r, w)" by fastforce
  have "db_inv w" using keepsD [OF assms _ m] Q by (simp add: net_inv_def)
  then show "net_inv D F (snd (net_world V m s))"
    using m Q by (simp add: net_world_def net_inv_defs split: sum.splits)
qed

lemma keeps_session_reads [net_keeps]:
  "keeps P net_current_user" "keeps P net_current_device" "keeps P (get_connections_by_ids is)"
  unfolding net_current_user_def net_current_device_def get_connections_by_ids_def
  by (intro keeps_control keeps_sget)+

lemma peer_view_fields [simp]:
  "pc_world (peer_view s p) = nt_world s" "pc_node_id (peer_view s p) = pc_node_id p"
  by (simp_all add: peer_view_def)

lemma keeps_on_peer [net_keeps]:
  assumes "\<And>i. keeps (\<lambda>p. db_inv (pc_world p) \<and> pc_node_id p = i) m"
  shows "keeps (net_inv D F) (on_peer r m)"
proof (rule keepsI)
  fix s assume Q: "net_inv D F s"
  obtain q p where m: "m (peer_view s (nt_peers s ! r)) = (q, p)" by fastforce
  have p: "db_inv (pc_world p) \<and> pc_node_id p = pc_node_id (nt_peers s ! r)"
    using keepsD [OF assms _ m] Q by (simp add: net_inv_def)
  then have id_after: "pc_node_id ((nt_peers s)[r := p] ! k) = pc_node_id (nt_peers s ! k)" for k
    by (cases "k = r"; cases "r < length (nt_peers s)") (simp_all add: list_update_beyond)
  show "net_inv D F (snd (on_peer r m s))"
    using m Q p by (cases "nt_manager s") (auto simp: on_peer_def net_inv_defs id_after)
qed

lemma peer_ok_blind: "handshake_blind (\<lambda>p. db_inv (pc_world p) \<and> pc_node_id p = i)"
  by (simp add: handshake_blind_def step_blind_def)

lemmas peer_ok = peer_ok_blind keeps_marking(4) [OF peer_ok_blind]

lemma keeps_peer_methods [net_keeps]:
  "keeps (\<lambda>p. db_inv (pc_world p) \<and> pc_node_id p = i) (send_message P m)"
  "keeps (\<lambda>p. db_inv (pc_world p) \<and> pc_node_id p = i) (start_user_network_sync P)"
  "keeps (\<lambda>p. db_inv (pc_world p) \<and> pc_node_id p = i) (initiate_handshake P ct ac u d)"
  "keeps (\<lambda>p. db_inv (pc_world p) \<and> pc_node_id p = i) (handle_messages P as)"
  by (intro peer_keeps peer_ok keeps_handle_messages)+

lemma keeps_on_manager [net_keeps]:
  assumes "\<And>cm. cm_connecting (snd (m cm)) \<subseteq> cm_connecting cm"
    and "\<And>cm i r. cm_connections (snd (m cm)) i = Some r \<Longrightarrow> cm_connections cm i = Some r"
  shows "keeps (net_inv D F) (on_manager V m)"
proof (rule keepsI)
  fix s assume Q: "net_inv D F s"
  show "net_inv D F (snd (on_manager V m s))"
  proof (cases "nt_manager s")
    case (Some cm)
    obtain q cm' where m: "m cm = (q, cm')" by fastforce
    show ?thesis
      using Q Some m assms [of cm]
      by (cases q) (simp_all add: on_manager_def net_inv_defs subset_iff, blast+)
  qed (use Q in \<open>simp add: on_manager_def\<close>)
qed

lemma keeps_manager_operations [net_keeps]:
  "keeps (net_inv D F) (on_manager V (get_peer_connection i))"
  "keeps (net_inv D F) (on_manager V (sget f))"
  "keeps (net_inv D F) (on_manager V (remove_from_connecting i))"
  "keeps (net_inv D F) (on_manager V (remove_connection i))"
  "keeps (net_inv D F) (on_manager V (add_pending_live_edit_request i))"
  "keeps (net_inv D F) (on_manager V (get_and_clear_pending_live_edit_requests i))"
  by (rule keeps_on_manager; auto simp: manager_defs sbind_def split: option.splits if_splits)+

text \<open>
  Programs that, when they succeed, leave the marks within \<open>G\<close>. A connection is stored before the
  manager learns of it, and its mark is removed then.
\<close>

definition unmarks where
  "unmarks D F G m \<longleftrightarrow> (\<forall>s x t. net_inv D F s \<longrightarrow> m s = (Inr x, t) \<longrightarrow> net_inv D G t)"

lemma unmarks_sbind:
  assumes "keeps (net_inv D F) m" "\<And>x. unmarks D F G (f x)"
  shows "unmarks D F G (sbind m f)"
  unfolding unmarks_def
proof (intro allI impI)
  fix s y t assume s: "net_inv D F s" and run: "sbind m f s = (Inr y, t)"
  then obtain x u where m: "m s = (Inr x, u)" "f x u = (Inr y, t)" by (auto simp: sbind_eq_Inr)
  with keepsD [OF assms(1) s] assms(2) show "net_inv D G t" by (auto simp: unmarks_def)
qed

lemma store_insert:
  assumes "\<And>s. pc_node_id (f s) = i" and s: "net_inv D F s"
    and run: "sbind (store_peer f) (\<lambda>r. sbind (on_manager V (insert_connection i r)) (\<lambda>_. g r)) s = (q, t)"
  shows "(\<exists>e. q = Inl e) \<and> net_inv D F t \<or> (\<exists>r u. net_inv D (F - {i}) u \<and> g r u = (q, t))"
proof (cases "nt_manager s")
  case None
  then show ?thesis
    using s run by (auto simp: sbind_def store_peer_def on_manager_def net_inv_defs)
next
  case (Some cm)
  let ?r = "length (nt_peers s)"
  let ?t = "s\<lparr>nt_peers := nt_peers s @ [f s], nt_manager := Some (cm\<lparr>cm_connecting := cm_connecting cm - {i},
    cm_connections := (cm_connections cm)(i \<mapsto> ?r)\<rparr>)\<rparr>"
  have "net_inv D (F - {i}) ?t"
    using s Some assms(1) [of s] by (simp add: net_inv_defs nth_append less_Suc_eq) blast
  moreover have "g ?r ?t = (q, t)"
    using run Some by (simp add: sbind_def store_peer_def on_manager_def insert_connection_def
        remove_from_connecting_def)
  ultimately show ?thesis by blast
qed

lemma net_inv_mono: "net_inv D F s \<Longrightarrow> F \<subseteq> G \<Longrightarrow> net_inv D G s"
  by (auto simp: net_inv_def)

lemma keeps_store_insert:
  assumes f: "\<And>s. pc_node_id (f s) = i" and g: "\<And>F r. keeps (net_inv D F) (g r)"
  shows "keeps (net_inv D F) (sbind (store_peer f) (\<lambda>r. sbind (on_manager V (insert_connection i r)) (\<lambda>_. g r)))"
    (is "keeps _ ?m")
proof (rule keepsI)
  fix s assume "net_inv D F s"
  from store_insert [of f, OF f this surjective_pairing]
  consider "net_inv D F (snd (?m s))"
    | r u where "net_inv D (F - {i}) u" "g r u = (fst (?m s), snd (?m s))" by blast
  then show "net_inv D F (snd (?m s))"
    by cases (blast intro: net_inv_mono [OF keepsD [OF g]])+
qed

lemma unmarks_store_insert:
  assumes f: "\<And>s. pc_node_id (f s) = i" and g: "\<And>F r. keeps (net_inv D F) (g r)"
  shows "unmarks D F (F - {i}) (sbind (store_peer f) (\<lambda>r. sbind (on_manager V (insert_connection i r)) (\<lambda>_. g r)))"
  unfolding unmarks_def
proof (intro allI impI)
  fix s x t
  assume s: "net_inv D F s"
    and run: "sbind (store_peer f) (\<lambda>r. sbind (on_manager V (insert_connection i r)) (\<lambda>_. g r)) s = (Inr x, t)"
  from store_insert [of f, OF f s run] obtain r u where "net_inv D (F - {i}) u" "g r u = (Inr x, t)" by blast
  then show "net_inv D (F - {i}) t" by (rule keepsD [OF g])
qed

lemma keeps_generate_challenge: "keeps db_inv generate_challenge"
  unfolding generate_challenge_def by (intro stmt_keeps crypto_keeps env_blind_db_inv)

lemma new_peer_id [simp]: "pc_node_id (new_peer N c i ct ac n u d ch l s) = n"
  by (simp add: new_peer_def peer_connection_new_def)

lemma keeps_perform [net_keeps]:
  "keeps (net_inv D F) (perform_handshake_and_create_peer N conn i ct ac)"
  unfolding perform_handshake_and_create_peer_def
  by (intro net_keeps keeps_store_insert new_peer_id keeps_generate_challenge)

lemma keeps_reuse [net_keeps]: "keeps (net_inv D F) (reuse_connection N i r ac)"
proof -
  have "keeps (\<lambda>p. db_inv (pc_world p) \<and> pc_node_id p = n) (sbind (sget pc_is_initiator)
      (\<lambda>is_initiator. if is_initiator then start_user_network_sync (nl_peer N)
         else send_message (nl_peer N) RetryRequest))" for n
    by (intro peer_keeps peer_ok)
  then show ?thesis
    unfolding reuse_connection_def
    by (auto intro!: net_keeps split: option.splits connection_action.splits)
qed

lemma keeps_starting [net_keeps]:
  "keeps (net_inv D F) (clear_mark i)" "keeps (net_inv D F) start_listening"
  "keeps (net_inv D F) (drop_connection i)" "keeps (net_inv D F) (cleanup_callback i)"
  "keeps (net_inv D F) (accept_incoming N c)" "keeps (net_inv D F) (get_connection_by_id i)"
  "keeps (net_inv D F) (spawn_connects t a ds)"
  unfolding clear_mark_def start_listening_def cleanup_callback_def drop_connection_def accept_incoming_def
    get_connection_by_id_def spawn_connects_def
  by (intro net_keeps | cases c; simp; intro net_keeps)+

lemma keeps_ensure_initialized [net_keeps]: "keeps (net_inv D F) (ensure_initialized N)"
proof -
  have "keeps (net_inv D F) (smodify (\<lambda>s. s\<lparr>nt_manager := Some connection_manager_new\<rparr>))"
    by (rule keeps_smodify) (simp add: net_inv_defs connection_manager_new_def)
  then show ?thesis
    unfolding ensure_initialized_def by (intro net_keeps stmt_keeps)
qed

section \<open>Connecting\<close>

text \<open>The marks grow by the node that is dialled, and by no other.\<close>

definition begun :: "('d, 'u, 'v) net_lib \<Rightarrow> 'e + connect_progress \<Rightarrow> string set" where
  "begun N q = (case q of Inr (Dialling n) \<Rightarrow> {node_text N n} | _ \<Rightarrow> {})"

definition started where
  "started N D F p \<longleftrightarrow> net_inv D (F \<union> begun N (fst p)) (snd p)"

lemma started_sbind:
  assumes "net_inv D F s" "keeps (net_inv D F) m" "\<And>x t. net_inv D F t \<Longrightarrow> started N D F (f x t)"
  shows "started N D F (sbind m f s)"
proof -
  obtain q t where m: "m s = (q, t)" by fastforce
  have "net_inv D F t" using keepsD [OF assms(2,1) m] .
  with m assms(3) show ?thesis by (cases q) (auto simp: sbind_def started_def begun_def)
qed

lemma started_answer:
  assumes "net_inv D F s" "keeps (net_inv D F) m" "\<And>t n. snd (m s) = t \<Longrightarrow> fst (m s) \<noteq> Inr (Dialling n)"
  shows "started N D F (m s)"
  using assms keepsD [OF assms(2,1) surjective_pairing]
  by (cases "fst (m s)") (auto simp: started_def begun_def split: connect_progress.splits)

lemma connect_begin_inv:
  assumes "net_inv D F s"
  shows "started N D F (connect_begin N d ac s)"
proof -
  have answer: "started N D F (scatch (on_manager P2P_Custom (get_peer_connection i))
      (\<lambda>existing. sbind (reuse_connection N i existing ac) (\<lambda>_. sret (Answered (Some existing))))
      (\<lambda>_. sbind (on_manager P2P_Custom (add_pending_live_edit_request i)) (\<lambda>_. sret (Answered None))) t)"
    if "net_inv D F t" for i t
    using that
  proof (rule started_answer)
    show "keeps (net_inv D F) (scatch (on_manager P2P_Custom (get_peer_connection i))
      (\<lambda>existing. sbind (reuse_connection N i existing ac) (\<lambda>_. sret (Answered (Some existing))))
      (\<lambda>_. sbind (on_manager P2P_Custom (add_pending_live_edit_request i)) (\<lambda>_. sret (Answered None))))"
      by (intro net_keeps)
  qed (auto simp: scatch_def sbind_def split: sum.splits prod.splits)
  have mark: "started N D F (sbind (on_manager V (mark_as_connecting (node_text N n)))
      (\<lambda>_. sret (Dialling n)) t)" if "net_inv D F t" for V n t
    using that by (auto simp: started_def begun_def sbind_def on_manager_def mark_as_connecting_def
        net_inv_defs split: option.splits)
  show ?thesis
    unfolding connect_begin_def Let_def
    by (rule started_sbind [OF assms]; (intro net_keeps)?; rule started_sbind, assumption; (intro net_keeps)?;
        rule started_sbind, assumption; (intro net_keeps)?; use answer mark in auto)
qed

text \<open>The end of an attempt removes the mark of the node that was dialled, if the node reports itself.\<close>

definition honest :: "(nat \<Rightarrow> bytes \<Rightarrow> string + transport) \<Rightarrow> bool" where
  "honest D \<longleftrightarrow> (\<forall>n node t. D n node = Inr t \<longrightarrow> tr_remote t = Inr node)"

lemma perform_unmarks:
  assumes "tr_remote conn = Inr node"
  shows "unmarks D F (F - {node_text N node}) (perform_handshake_and_create_peer N conn i ct ac)"
proof -
  have known: "sbind (slift (Inr node)) f = f node" for f :: "bytes \<Rightarrow> nat net_op"
    by (rule ext) (simp add: sbind_def)
  show ?thesis
    unfolding perform_handshake_and_create_peer_def assms rmap_err_simps known
    by (rule unmarks_sbind, rule net_keeps, rule unmarks_sbind, rule net_keeps,
        rule unmarks_sbind, rule net_keeps, rule unmarks_sbind, intro net_keeps keeps_generate_challenge,
        rule unmarks_store_insert, rule new_peer_id, intro net_keeps)
qed

lemma clear_mark_inv:
  assumes "net_inv D F s"
  shows "net_inv D (F - {i}) (snd (clear_mark i s))"
  using assms
  by (auto simp: clear_mark_def sbind_def on_manager_def remove_from_connecting_def net_inv_defs
      split: option.splits)

lemma connect_end_inv:
  assumes "honest D" "net_inv D F s"
  shows "net_inv D (F - {node_text N node}) (snd (connect_end N node ct ac s))"
proof -
  obtain q t where dial: "dial node s = (q, t)" by fastforce
  have t: "net_inv D F t" using keepsD [OF keeps_dial assms(2) dial] .
  have fail: "net_inv D (F - {node_text N node})
      (snd (sbind (clear_mark (node_text N node)) (\<lambda>_. sthrow e) u))" if "net_inv D F u" for e u
    using clear_mark_inv [OF that, of "node_text N node"] by (auto simp: sbind_def split: sum.splits prod.splits)
  show ?thesis
  proof (cases q)
    case (Inl e)
    then show ?thesis using dial fail [OF t] by (simp add: connect_end_def scatch_def)
  next
    case (Inr conn)
    then have remote: "tr_remote conn = Inr node"
      using dial assms by (auto simp: dial_def honest_def net_inv_def)
    obtain p u where perform:
      "perform_handshake_and_create_peer N conn True (Some ct) ac t = (p, u)" by fastforce
    have u: "net_inv D F u" using keepsD [OF keeps_perform t perform] .
    show ?thesis
      using dial Inr perform fail [OF u] perform_unmarks [OF remote, of D F N] t
      by (cases p) (auto simp: connect_end_def scatch_def unmarks_def)
  qed
qed

lemma keeps_connect_with_ticket:
  assumes "honest D"
  shows "keeps (net_inv D F) (connect_with_ticket N d ct ac)"
proof (rule keepsI)
  fix s assume s: "net_inv D F s"
  obtain q t where run: "connect_begin N d ac s = (q, t)" by fastforce
  then have t: "net_inv D (F \<union> begun N q) t"
    using connect_begin_inv [OF s, of N d ac] by (simp add: started_def)
  show "net_inv D F (snd (connect_with_ticket N d ct ac s))"
  proof (cases "\<exists>n. q = Inr (Dialling n)")
    case True
    then obtain n where n: "q = Inr (Dialling n)" ..
    with t have "net_inv D (F \<union> {node_text N n}) t" by (simp add: begun_def)
    from connect_end_inv [OF assms this, of N n ct ac]
    have "net_inv D F (snd (connect_end N n ct ac t))" by (rule net_inv_mono) auto
    with run n show ?thesis by (simp add: connect_with_ticket_def sbind_def)
  next
    case False
    then have "net_inv D F t" using t by (auto simp: begun_def split: sum.splits connect_progress.splits)
    with run False show ?thesis
      by (auto simp: connect_with_ticket_def sbind_def split: sum.splits connect_progress.splits)
  qed
qed

section \<open>The other operations\<close>

lemma keeps_requests [net_keeps]:
  "keeps (net_inv D F) request_connections" "keeps (net_inv D F) (connect_with_users us)"
  "keeps (net_inv D F) (sync_folders i)" "keeps (net_inv D F) (sync_resource i)"
  "keeps (net_inv D F) (start_p2p_service N d u)"
proof -
  show r: "keeps (net_inv D F) request_connections"
    unfolding request_connections_def Let_def by (intro net_keeps stmt_keeps)
  have c: "keeps (net_inv D F) (connect_with_users us)" for us
    unfolding connect_with_users_def by (intro net_keeps stmt_keeps)
  then show "keeps (net_inv D F) (connect_with_users us)" .
  show "keeps (net_inv D F) (sync_folders i)" "keeps (net_inv D F) (sync_resource i)"
    unfolding sync_folders_def sync_resource_def by (intro net_keeps stmt_keeps c)+
  show "keeps (net_inv D F) (start_p2p_service N d u)"
    unfolding start_p2p_service_def by (intro net_keeps r)
qed

lemma keeps_sends [net_keeps]:
  "keeps (net_inv D F) (send_to N a b i m)" "keeps (net_inv D F) (try_send N m i)"
  "keeps (net_inv D F) (send_collecting N m r)"
  unfolding send_to_def try_send_def send_collecting_def by (intro net_keeps)+

lemma keeps_broadcasts [net_keeps]:
  "keeps (net_inv D F) (broadcast_live_edit_message N is m)"
  "keeps (net_inv D F) (broadcast_state_vector_request N is i)"
  "keeps (net_inv D F) (handle_start_live_edit ds)"
  unfolding broadcast_live_edit_message_def broadcast_state_vector_request_def handle_start_live_edit_def
    Let_def
  by (intro net_keeps stmt_keeps)+

lemma keeps_send_or_reconnect:
  assumes "honest D"
  shows "keeps (net_inv D F) (send_or_reconnect N i m ac)"
  unfolding send_or_reconnect_def reconnect_and_send_def
  by (intro net_keeps keeps_connect_with_ticket assms)

lemma keeps_incoming_events:
  assumes "honest D"
  shows "keeps (net_inv D F) (start_processing_incoming_events N es)"
proof -
  have "keeps (net_inv D F) (process_incoming_event N e)" for e
    unfolding process_incoming_event_def ignoring_def handle_live_edit_document_check_def
      handle_live_edit_document_check_response_def handle_live_edit_update_exchange_def
      handle_live_edit_update_exchange_response_def handle_document_changed_def
      handle_sync_update_broadcast_def handle_awareness_update_broadcast_def
    by (cases e) (simp_all only: incoming_event.case,
      (intro net_keeps keeps_send_or_reconnect [OF assms])+)
  then show ?thesis
    unfolding start_processing_incoming_events_def by (intro net_keeps)
qed

end
