(* ===== verification/Net_Properties.thy ===== *)
theory Net_Properties
  imports Net_Safety "HOL-Library.Multiset"
begin

text \<open>
  The states the service of a node can reach, and what holds in all of them; what happens to a
  connection whose handshake failed or that was closed; and which devices are asked for a connection.
\<close>

section \<open>Reachable states\<close>

text \<open>
  What happens besides the attempts to connect. Closing by the other end shows only in the
  connection itself; the callback of a connection is the only thing that removes it by itself.
\<close>

datatype (plugins only: code size) net_action =
    Session_start device user
  | Session_clear
  | Accept incoming_connection
  | Requests "incoming_event list"
  | Messages nat "accepted list"
  | Remote_close nat
  | Callback string
  | Folder_sync ident
  | Resource_sync ident

definition net_run :: "('d, 'u, 'v) net_lib \<Rightarrow> net_action \<Rightarrow> net \<Rightarrow> net" where
  "net_run N a s = (case a of
       Session_start d u \<Rightarrow> snd (start_p2p_service N d u s)
     | Session_clear \<Rightarrow> snd (clear_current_session s)
     | Accept c \<Rightarrow> snd ((accept_incoming N c :: (net, string, unit) sm) s)
     | Requests es \<Rightarrow> snd (start_processing_incoming_events N es s)
     | Messages r as \<Rightarrow> snd (on_peer r (handle_messages (nl_peer N) as) s)
     | Remote_close r \<Rightarrow> snd ((on_peer r (smodify (\<lambda>p. p\<lparr>pc_closed := True\<rparr>)) :: (net, string, unit) sm) s)
     | Callback i \<Rightarrow> snd ((cleanup_callback i :: (net, string, unit) sm) s)
     | Folder_sync i \<Rightarrow> snd (sync_folders i s)
     | Resource_sync i \<Rightarrow> snd (sync_resource i s))"

text \<open>
  \<open>net_reach N s fs\<close>: the state \<open>s\<close> is reachable with the attempts \<open>fs\<close> waiting for the transport. Any
  attempt may begin at any time, and end in any order. The node starts with a database that is in
  order and a transport on which a node that answers is the node that was dialled.
\<close>

inductive net_reach ::
  "('d, 'u, 'v) net_lib \<Rightarrow> net \<Rightarrow> (bytes \<times> connection_type \<times> connection_action option) list \<Rightarrow> bool"
  for N where
  net_init: "net_reach N s []"
    if "nt_manager s = None" "db_inv (nt_world s)" "honest (nt_dial s)"
| net_act: "net_reach N (net_run N a s) fs"
    if "net_reach N s fs"
| net_begin: "net_reach N t (case q of Inr (Dialling n) \<Rightarrow> (n, ct, ac) # fs | _ \<Rightarrow> fs)"
    if "net_reach N s fs" "connect_begin N d ac s = (q, t)"
| net_finish: "net_reach N (snd (connect_end N n ct ac s)) (fs @ gs)"
    if "net_reach N s (fs @ (n, ct, ac) # gs)"

lemma keeps_snd: "keeps P m \<Longrightarrow> P s \<Longrightarrow> P (snd (m s))"
  by (simp add: keeps_def)

lemma keeps_net_run:
  assumes "honest D" "net_inv D F s"
  shows "net_inv D F (net_run N a s)"
proof -
  have "keeps (\<lambda>p. db_inv (pc_world p) \<and> pc_node_id p = i) (smodify (\<lambda>p. p\<lparr>pc_closed := True\<rparr>))" for i
    by (rule keeps_smodify) simp
  then have closing: "keeps (net_inv D F) (on_peer r (smodify (\<lambda>p. p\<lparr>pc_closed := True\<rparr>)))" for r
    by (rule keeps_on_peer)
  show ?thesis
    unfolding net_run_def
    by (cases a) (simp_all only: net_action.case,
      (rule keeps_snd [where P = "net_inv D F"], (intro net_keeps closing keeps_incoming_events [OF assms(1)]), rule assms(2))+)
qed

lemma net_reach_inv:
  "net_reach N s fs \<Longrightarrow> \<exists>D. honest D \<and> net_inv D (node_text N ` fst ` set fs) s"
proof (induction rule: net_reach.induct)
  case (net_init s)
  then show ?case by (auto simp: net_inv_defs)
next
  case (net_act s fs a)
  then show ?case using keeps_net_run by blast
next
  case (net_begin s fs d ac q t ct)
  then obtain D where D: "honest D" "net_inv D (node_text N ` fst ` set fs) s" by blast
  have "net_inv D (node_text N ` fst ` set fs \<union> begun N q) t"
    using connect_begin_inv [OF D(2), of N d ac] net_begin.hyps(2) by (simp add: started_def)
  then show ?case
    using D(1) by (auto simp: begun_def split: sum.splits connect_progress.splits intro!: exI [of _ D]
        elim!: net_inv_mono)
next
  case (net_finish s fs n ct ac gs)
  then obtain D where D: "honest D" "net_inv D (node_text N ` fst ` set (fs @ (n, ct, ac) # gs)) s" by blast
  from connect_end_inv [OF D, of N n ct ac] show ?case
    using D(1) by (intro exI [of _ D]) (auto elim!: net_inv_mono)
qed

text \<open>
  C16. In every state the service reaches, a connection the manager knows under an id is in the store
  and has this id, the marks of connecting are those of attempts that are under way, and the
  database is in order.
\<close>

theorem net_state_well_formed:
  assumes "net_reach N s fs"
  shows "(\<forall>i r. established s i = Some r \<longrightarrow> r < length (nt_peers s) \<and> pc_node_id (nt_peers s ! r) = i) \<and>
    marked s \<subseteq> node_text N ` fst ` set fs \<and> db_inv (nt_world s)"
  using net_reach_inv [OF assms] by (auto simp: net_inv_def refs_ok_def)

text \<open>What is set up by \<open>ensure_initialized\<close> is a manager without connections, unless there is one.\<close>

lemma ensure_initialized_manager:
  assumes "ensure_initialized N s = (Inr (), s1)"
  shows "\<exists>cm. nt_manager s1 = Some cm \<and> (\<forall>i. established s i = cm_connections cm i) \<and> marked s = cm_connecting cm"
proof -
  have "nt_manager s1 \<noteq> None \<and> (nt_manager s = None \<longrightarrow> nt_manager s1 = Some connection_manager_new) \<and>
      (nt_manager s \<noteq> None \<longrightarrow> nt_manager s1 = nt_manager s)"
    using assms by (auto simp: ensure_initialized_def sbind_eq_Inr net_world_def split: if_splits option.splits
        prod.splits sum.splits)
  then show ?thesis
    by (auto simp: established_def marked_def connection_manager_new_def split: option.splits)
qed

text \<open>The beginning of an attempt to reach a node that is not being connected to.\<close>

lemma connect_begin_run:
  assumes "dialled_node N d = Inr n" "ensure_initialized N s = (Inr (), s1)" "nt_manager s1 = Some cm"
    and "node_text N n \<notin> cm_connecting cm"
  shows "connect_begin N d ac s = (case cm_connections cm (node_text N n) of
      Some r \<Rightarrow> sbind (reuse_connection N (node_text N n) r ac) (\<lambda>_. sret (Answered (Some r))) s1
    | None \<Rightarrow> (Inr (Dialling n),
        s1\<lparr>nt_manager := Some (cm\<lparr>cm_connecting := insert (node_text N n) (cm_connecting cm)\<rparr>)\<rparr>))"
proof -
  have same: "s1\<lparr>nt_manager := Some cm\<rparr> = s1" using assms(3) by (cases s1) simp
  show ?thesis
    using assms
    by (simp add: connect_begin_def sbind_def on_manager_def is_connection_active_def mark_as_connecting_def
        scatch_def get_peer_connection_def Let_def same split: option.splits)
qed

text \<open>
  C17. No device stays blocked: when no attempt is under way and the service is or can be initialized,
  an attempt to reach a node that is not connected dials it, and marks it and nothing else as being
  connected to; an attempt to reach a connected node reuses its connection. That another attempt is in
  progress is never the answer.
\<close>

theorem attempts_never_block:
  assumes "net_reach N s []" and "dialled_node N d = Inr n" and "ensure_initialized N s = (Inr (), s1)"
  shows "case established s (node_text N n) of
      None \<Rightarrow> \<exists>t. connect_begin N d ac s = (Inr (Dialling n), t) \<and> marked t = {node_text N n} \<and>
        established t = established s \<and> nt_dialed t = nt_dialed s1
    | Some r \<Rightarrow> connect_begin N d ac s =
        sbind (reuse_connection N (node_text N n) r ac) (\<lambda>_. sret (Answered (Some r))) s1"
proof -
  obtain cm where cm: "nt_manager s1 = Some cm" "\<And>i. established s i = cm_connections cm i" "marked s = cm_connecting cm"
    using ensure_initialized_manager [OF assms(3)] by blast
  moreover have "marked s = {}" using net_reach_inv [OF assms(1)] by (auto simp: net_inv_def)
  ultimately show ?thesis
    using connect_begin_run [OF assms(2,3) cm(1), of ac]
    by (auto simp: fun_eq_iff marked_def [of "_\<lparr>nt_manager := _\<rparr>"] established_def [of "_\<lparr>nt_manager := _\<rparr>"]
        split: option.split)
qed

section \<open>Connections that cannot be used\<close>

lemma connect_begin_established:
  assumes "dialled_node N d = Inr n" "nt_manager s = Some cm" "cm_connections cm (node_text N n) = Some r"
  shows "connect_begin N d (Some LiveEdit) s =
    (Inr (Answered (Some r)), s\<lparr>nt_events := nt_events s @ [LiveEditConnected (node_text N n)]\<rparr>)"
  using assms by (simp add: connect_begin_def sbind_def on_manager_def is_connection_active_def scatch_def
      get_peer_connection_def reuse_connection_def net_emit_def ensure_initialized_def Let_def)

definition stays_established :: "string \<Rightarrow> nat \<Rightarrow> net \<Rightarrow> bool" where
  "stays_established i r s \<longleftrightarrow> (\<exists>cm. nt_manager s = Some cm \<and> cm_connections cm i = Some r)"

lemma keeps_established:
  "keeps (stays_established i r) (on_peer k m)" "keeps (stays_established i r) (clear_mark j)"
  by (auto simp: keeps_def on_peer_def clear_mark_def sbind_def on_manager_def remove_from_connecting_def
      stays_established_def split: prod.splits)

text \<open>
  C34. A connection whose handshake could not be sent stays: when an attempt fails after the transport
  answered, although the session is set, its connection is in the manager, and the next attempt is
  told that it is connected for live editing, without dialling.
\<close>

theorem failed_handshake_stays:
  assumes run: "connect_end N node ct (Some ac) s = (Inl e, t)"
    and session: "nt_current_user s \<noteq> None" "nt_current_device s \<noteq> None" "nt_manager s \<noteq> None"
    and transport: "nt_dial s (length (nt_dialed s)) node = Inr conn" "tr_remote conn = Inr node"
    and again: "dialled_node N d = Inr node"
  shows "\<exists>r. established t (node_text N node) = Some r \<and>
    connect_begin N d (Some LiveEdit) t =
      (Inr (Answered (Some r)), t\<lparr>nt_events := nt_events t @ [LiveEditConnected (node_text N node)]\<rparr>)"
proof -
  let ?i = "node_text N node"
  obtain u dv cm where s: "nt_current_user s = Some u" "nt_current_device s = Some dv" "nt_manager s = Some cm"
    using session by auto
  obtain ch w where ch: "generate_challenge (nt_world s) = (Inr ch :: p2p_error + string, w)"
    by (auto simp: generate_challenge_def sbind_def fill_bytes_def)
  let ?r = "length (nt_peers s)"
  define v where "v = s\<lparr>nt_dialed := nt_dialed s @ [node], nt_world := w,
    nt_peers := nt_peers s @ [new_peer N conn True (Some ct) (Some ac) ?i u dv ch (?i \<in> cm_pending cm)
      (s\<lparr>nt_dialed := nt_dialed s @ [node],
         nt_manager := Some (cm\<lparr>cm_pending := cm_pending cm - {?i}\<rparr>), nt_world := w\<rparr>)],
    nt_manager := Some (cm\<lparr>cm_pending := cm_pending cm - {?i}, cm_connecting := cm_connecting cm - {?i},
      cm_connections := (cm_connections cm)(?i \<mapsto> ?r)\<rparr>)\<rparr>"
  define hs where "hs = on_peer ?r (initiate_handshake (nl_peer N) ct ac u dv)"
  have "perform_handshake_and_create_peer N conn True (Some ct) (Some ac)
      (s\<lparr>nt_dialed := nt_dialed s @ [node]\<rparr>) = sbind hs (\<lambda>_. sret ?r) v"
    using s ch transport(2)
    by (simp add: perform_handshake_and_create_peer_def sbind_def net_current_device_def net_current_user_def
        on_manager_def get_and_clear_pending_live_edit_requests_def net_world_def store_peer_def
        insert_connection_def remove_from_connecting_def v_def hs_def)
  then obtain e' x where hs: "hs v = (Inl e', x)" and t: "t = snd (clear_mark ?i x)"
    using run transport(1)
    by (auto simp: connect_end_def scatch_def dial_def sbind_def split: prod.splits sum.splits)
  have "stays_established ?i ?r v" by (simp add: stays_established_def v_def)
  then have "stays_established ?i ?r x" using keepsD [OF keeps_established(1) _ hs [unfolded hs_def]] by blast
  then have "stays_established ?i ?r t" using t keeps_established(2) by (simp add: keeps_def)
  then obtain cm' where "nt_manager t = Some cm'" "cm_connections cm' ?i = Some ?r"
    by (auto simp: stays_established_def)
  then show ?thesis using connect_begin_established [OF again] by (auto simp: established_def)
qed

text \<open>
  C35. A closed connection is not made again: the broadcast of an edit to a connection that is closed
  spawns an attempt to connect, which is answered with the closed connection and does not dial.
\<close>

theorem closed_connection_not_redialled:
  assumes "established s i = Some r" "pc_closed (nt_peers s ! r)"
    and "dialled_node N i = Inr node" "node_text N node = i"
  shows "\<exists>t u. broadcast_live_edit_message N [i] m s = (Inr (), t) \<and>
    nt_spawned t = nt_spawned s @ [[(i, UserConn, Some LiveEdit)]] \<and>
    connect_with_ticket N i UserConn (Some LiveEdit) t = (Inr (Some r), u) \<and>
    nt_dialed u = nt_dialed s \<and> established u i = Some r \<and> pc_closed (nt_peers u ! r)"
proof -
  obtain cm where cm: "nt_manager s = Some cm" "cm_connections cm i = Some r"
    using assms(1) by (auto simp: established_def split: option.splits)
  let ?t = "s\<lparr>nt_spawned := nt_spawned s @ [[(i, UserConn, Some LiveEdit)]]\<rparr>"
  have t: "broadcast_live_edit_message N [i] m s = (Inr (), ?t)"
    using cm assms(2)
    by (simp add: broadcast_live_edit_message_def sbind_def try_send_def scatch_def on_manager_def
        get_peer_connection_def is_open_def spawn_def)
  have "connect_begin N i (Some LiveEdit) ?t =
      (Inr (Answered (Some r)), ?t\<lparr>nt_events := nt_events ?t @ [LiveEditConnected i]\<rparr>)"
    using connect_begin_established [of N i node ?t cm r] assms(3,4) cm by simp
  then have "connect_with_ticket N i UserConn (Some LiveEdit) ?t =
      (Inr (Some r), ?t\<lparr>nt_events := nt_events ?t @ [LiveEditConnected i]\<rparr>)"
    by (simp add: connect_with_ticket_def sbind_def)
  with t assms(1,2) show ?thesis by (auto simp: established_def)
qed

section \<open>Whom the service connects to\<close>

lemma sfor_spawn: "sfor (\<lambda>x. spawn (f x)) xs s = (Inr (), s\<lparr>nt_spawned := nt_spawned s @ map f xs\<rparr>)"
proof (induction xs arbitrary: s)
  case (Cons x xs)
  then show ?case by (simp add: sbind_def spawn_def)
qed simp

lemma mset_partition: "mset (filter P xs) + mset (filter (\<lambda>x. \<not> P x) xs) = mset xs"
  by (induction xs) auto


text \<open>A broadcast before the service is started panics, and the events after it are never handled.\<close>

lemma broadcast_before_start:
  assumes "nt_manager s = None"
  shows "start_processing_incoming_events N (SyncUpdateBroadcast is i c us t # es) s =
    (Inl ''P2P service not initialized when broadcasting'', s)"
  using assms by (simp add: start_processing_incoming_events_def sbind_def process_incoming_event_def
      handle_sync_update_broadcast_def broadcast_live_edit_message_def)

end
