(* ===== verification/Sample_Net.thy ===== *)
theory Sample_Net
  imports Net_Properties Sample_Peer
begin

text \<open>
  The theorems about the service at work on Ann's phone. The id of a node is printed with two letters
  for a byte; a node that is dialled answers as itself.
\<close>

definition sample_net_lib :: "(bytes, bytes, bytes) net_lib" where
  "sample_net_lib = \<lparr>nl_peer = sample_peer Ping, node_text = nibbles, node_parse = (\<lambda>_. Inl ''no node id''),
     node_try_from = Inr\<rparr>"

lemma sample_net_fields [simp]:
  "nl_peer sample_net_lib = sample_peer Ping" "node_text sample_net_lib = nibbles"
  "node_parse sample_net_lib t = Inl ''no node id''" "node_try_from sample_net_lib = Inr"
  by (simp_all add: sample_net_lib_def)

definition node_key :: bytes where
  "node_key = replicate 32 7"

definition transport_sample :: "bytes \<Rightarrow> transport" where
  "transport_sample n = \<lparr>tr_remote = Inr n, tr_link = (\<lambda>_. None)\<rparr>"

definition node :: "connection_manager option \<Rightarrow> net" where
  "node m = \<lparr>nt_world = phone\<lparr>t_store := [\<lparr>st_key = ''device_id'', st_value = nibbles node_key, st_updated_at = 0\<rparr>,
       \<lparr>st_key = ''device_key'', st_value = nibbles node_key, st_updated_at = 0\<rparr>]\<rparr>,
     nt_crypto = loaded ''ann'', nt_current_user = Some phone_user, nt_current_device = Some phone_device,
     nt_domain = ''osv'', nt_manager = m, nt_peers = [], nt_events = [], nt_spawned = [], nt_bind = None,
     nt_dial = (\<lambda>_ n. Inr (transport_sample n)), nt_dialed = []\<rparr>"

lemma node_fields [simp]:
  "nt_manager (node m) = m" "nt_peers (node m) = []" "nt_spawned (node m) = []" "nt_dialed (node m) = []"
  "nt_current_user (node m) = Some phone_user" "nt_current_device (node m) = Some phone_device"
  "nt_dial (node m) k n = Inr (transport_sample n)" "nt_crypto (node m) = loaded ''ann''"
  "nt_bind (node m) = None"
  by (simp_all add: node_def)

lemma TL_codec [simp]: "b64_decode TL (nibbles bs) = Inr bs" "b64_encode TL bs = nibbles bs"
  by (simp_all add: TL_def)

lemma dialled_sample: "dialled_node sample_net_lib (nibbles node_key) = Inr node_key"
  by (simp add: dialled_node_def derive_node_id_from_public_key_def node_key_def)

lemma node_starts: "net_reach sample_net_lib (node None) []"
  by (rule net_init) (simp_all add: honest_def transport_sample_def,
    simp add: node_def samples db_inv_defs clash_free_def clash_defs refs_defs has_defs)

lemma net_state_well_formed_witness:
  "db_inv (nt_world (net_run sample_net_lib (Accept (Established (transport_sample node_key))) (node None)))"
  using net_state_well_formed [OF net_act [OF node_starts]] by blast

lemma node_initializes:
  "\<exists>w. ensure_initialized sample_net_lib (node None) =
     (Inr (), (node None)\<lparr>nt_world := w, nt_manager := Some connection_manager_new\<rparr>)"
  by (simp add: ensure_initialized_def sbind_def net_world_def get_node_key_def get_device_key_def
      get_item_def with_conn_def get_conn_def first_row_def derive_node_id_from_public_key_def
      get_node_keypair_def decrypt_for_cert_def with_cert_def get_cert_def loaded_def rbind_def TL_def
      node_key_def node_def) (simp add: samples)

lemma attempts_never_block_witness:
  "\<exists>t. connect_begin sample_net_lib (nibbles node_key) None (node None) = (Inr (Dialling node_key), t) \<and>
     marked t = {node_text sample_net_lib node_key}"
proof -
  obtain w where i: "ensure_initialized sample_net_lib (node None) =
      (Inr (), (node None)\<lparr>nt_world := w, nt_manager := Some connection_manager_new\<rparr>)"
    using node_initializes by blast
  have none: "established (node None) i = None" for i by (simp add: established_def)
  from attempts_never_block [OF node_starts dialled_sample i, of None] show ?thesis by (auto simp: none)
qed

text \<open>The node that was dialled is no device Ann knows, so the handshake fails.\<close>

lemma unknown_peer:
  "\<exists>t. connect_end sample_net_lib node_key UserConn (Some UserSync) (node (Some connection_manager_new)) =
     (Inl (P2P_Repository NotFound), t)"
proof -
  have nib: "nibbles node_key \<noteq> ''lap''" "nibbles node_key \<noteq> ''tel''" "nibbles node_key \<noteq> ''pc''"
  proof -
    have "length (nibbles node_key) = 64"
      by (simp add: node_key_def nibbles_def length_concat sum_list_replicate)
    then show "nibbles node_key \<noteq> ''lap''" "nibbles node_key \<noteq> ''tel''" "nibbles node_key \<noteq> ''pc''" by auto
  qed
  show ?thesis
    by (simp add: connect_end_def scatch_def dial_def transport_sample_def perform_handshake_and_create_peer_def
        sbind_def net_current_device_def net_current_user_def on_manager_def
        get_and_clear_pending_live_edit_requests_def connection_manager_new_def net_world_def
        generate_challenge_def fill_bytes_def store_peer_def insert_connection_def remove_from_connecting_def
        on_peer_def new_peer_def peer_connection_new_def initiate_handshake_def remote_device_id_def
        on_world_def get_user_by_device_id_def with_conn_def get_conn_def first_row_def peer_view_def
        clear_mark_def del: upt.simps) (simp add: node_def samples sbind_def on_manager_def remove_from_connecting_def nib nib [symmetric])
qed

lemma failed_handshake_stays_witness:
  "\<exists>t r. fst (connect_end sample_net_lib node_key UserConn (Some UserSync) (node (Some connection_manager_new))) =
      Inl (P2P_Repository NotFound) \<and>
    fst (connect_begin sample_net_lib (nibbles node_key) (Some LiveEdit) t) = Inr (Answered (Some r))"
proof -
  obtain t where run: "connect_end sample_net_lib node_key UserConn (Some UserSync)
      (node (Some connection_manager_new)) = (Inl (P2P_Repository NotFound), t)"
    using unknown_peer by blast
  have "tr_remote (transport_sample node_key) = Inr node_key" by (simp add: transport_sample_def)
  from failed_handshake_stays [OF run _ _ _ _ this dialled_sample] run show ?thesis
    by (auto intro!: exI [of _ t])
qed

definition closed_peer :: peer where
  "closed_peer = (connection True)\<lparr>pc_closed := True\<rparr>"

definition stale :: net where
  "stale = (node (Some (connection_manager_new\<lparr>cm_connections := [nibbles node_key \<mapsto> 0]\<rparr>)))
     \<lparr>nt_peers := [closed_peer]\<rparr>"

lemma closed_connection_not_redialled_witness:
  "\<exists>t u. connect_with_ticket sample_net_lib (nibbles node_key) UserConn (Some LiveEdit) t = (Inr (Some 0), u) \<and>
     nt_dialed u = []"
proof -
  have "established stale (nibbles node_key) = Some 0" "pc_closed (nt_peers stale ! 0)"
    by (simp_all add: established_def stale_def closed_peer_def)
  from closed_connection_not_redialled [OF this dialled_sample, of Ping] show ?thesis
    by (auto simp: stale_def)
qed


end
