(* ===== verification/Note_State.thy ===== *)
theory Note_State
  imports Crdt_Resource
begin

text \<open>
  \<open>livnote/src-tauri/src/current_note_state.rs\<close>: the note that is open in the editor, the live copies
  of its three documents, and the connections that edit it together. \<open>yrs::Doc\<close> is a handle: its
  clone is another handle of the same document. So the buffers hold references into a store of
  documents, \<open>clone\<close> copies a reference, and an update applied through any handle is seen through
  all of them. A call that fails leaves its document as it was.
\<close>

datatype doc_slot = Main_doc | Image_doc | Comment_doc

record 'd buffers =
  nb_note_id :: "ident option"
  nb_docs :: "'d list"
  nb_main :: nat
  nb_image :: nat
  nb_comment :: nat
  nb_shared_users :: "string list"
  nb_active :: "string set"
  nb_inactive :: "string set"

type_synonym ('d, 'a) noting = "('d buffers, string, 'a) sm"

text \<open>The handle in a field, and what is stored under a handle.\<close>

fun slot_ref :: "doc_slot \<Rightarrow> 'd buffers \<Rightarrow> nat" where
  "slot_ref Main_doc s = nb_main s"
| "slot_ref Image_doc s = nb_image s"
| "slot_ref Comment_doc s = nb_comment s"

fun set_slot :: "doc_slot \<Rightarrow> nat \<Rightarrow> 'd buffers \<Rightarrow> 'd buffers" where
  "set_slot Main_doc r s = s\<lparr>nb_main := r\<rparr>"
| "set_slot Image_doc r s = s\<lparr>nb_image := r\<rparr>"
| "set_slot Comment_doc r s = s\<lparr>nb_comment := r\<rparr>"

definition doc_at :: "nat \<Rightarrow> 'd buffers \<Rightarrow> 'd" where
  "doc_at r s = nb_docs s ! r"

definition put_doc :: "nat \<Rightarrow> 'd \<Rightarrow> 'd buffers \<Rightarrow> 'd buffers" where
  "put_doc r d s = s\<lparr>nb_docs := (nb_docs s)[r := d]\<rparr>"

definition slot_doc :: "doc_slot \<Rightarrow> 'd buffers \<Rightarrow> 'd" where
  "slot_doc sl s = doc_at (slot_ref sl s) s"

text \<open>\<open>doc.apply_update_v2(..)\<close> through a handle.\<close>

definition apply_at :: "('d, 'u, 'v) yrs \<Rightarrow> nat \<Rightarrow> bytes \<Rightarrow> ('d, unit) noting" where
  "apply_at Y r update = sbind (sget (doc_at r)) (\<lambda>d.
     sbind (slift (apply_update_v2 Y d update)) (\<lambda>d'. smodify (put_doc r d')))"

section \<open>Opening and closing notes\<close>

definition buffers_default :: "('d, 'u, 'v) yrs \<Rightarrow> 'd buffers" where
  "buffers_default Y = \<lparr>nb_note_id = None, nb_docs = [y_new Y, y_new Y, y_new Y], nb_main = 0,
     nb_image = 1, nb_comment = 2, nb_shared_users = [], nb_active = {}, nb_inactive = {}\<rparr>"

text \<open>A new document with a stored state, if there is one; a state that cannot be loaded is logged.\<close>

definition doc_of_state :: "('d, 'u, 'v) yrs \<Rightarrow> bytes option \<Rightarrow> 'd" where
  "doc_of_state Y state = (case state of
     None \<Rightarrow> y_new Y
   | Some st \<Rightarrow> if st = [] then y_new Y
       else (case apply_update_v2 Y (y_new Y) st of Inl _ \<Rightarrow> y_new Y | Inr d \<Rightarrow> d))"

definition set_current_note ::
  "('d, 'u, 'v) yrs \<Rightarrow> ident option \<Rightarrow> bytes option \<Rightarrow> bytes option \<Rightarrow> bytes option \<Rightarrow> 'd buffers \<Rightarrow> 'd buffers" where
  "set_current_note Y note_id main_doc_state image_state comment_state s =
     (let n = length (nb_docs s) in
      s\<lparr>nb_docs := nb_docs s @ [doc_of_state Y main_doc_state, doc_of_state Y image_state,
          doc_of_state Y comment_state],
        nb_note_id := note_id, nb_main := n, nb_image := n + 1, nb_comment := n + 2\<rparr>)"

text \<open>The store keeps what other tasks may still hold handles of.\<close>

definition reset_to_default :: "('d, 'u, 'v) yrs \<Rightarrow> 'd buffers \<Rightarrow> 'd buffers" where
  "reset_to_default Y s = (let n = length (nb_docs s) in
     (buffers_default Y)\<lparr>nb_docs := nb_docs s @ [y_new Y, y_new Y, y_new Y],
       nb_main := n, nb_image := n + 1, nb_comment := n + 2\<rparr>)"

definition get_current_note :: "'d buffers \<Rightarrow> ident option" where
  "get_current_note s = nb_note_id s"

section \<open>Live updates\<close>

definition doc_selection :: "string \<Rightarrow> doc_slot" where
  "doc_selection doc_type =
     (if doc_type = ''images'' \<or> doc_type = ''image_state'' then Image_doc
      else if doc_type = ''comments'' \<or> doc_type = ''comment_state'' then Comment_doc
      else Main_doc)"

text \<open>
  \<open>apply_update\<close> takes the lock twice: to copy the handle and to put it back. Another task may run in
  between, so the phases are three functions; the whole is their composition.
\<close>

definition apply_update_fetch :: "string \<Rightarrow> 'd buffers \<Rightarrow> nat" where
  "apply_update_fetch doc_type s = slot_ref (doc_selection doc_type) s"

definition apply_update_swap :: "string \<Rightarrow> nat \<Rightarrow> 'd buffers \<Rightarrow> 'd buffers" where
  "apply_update_swap doc_type r s = set_slot (doc_selection doc_type) r s"

definition note_apply_update :: "('d, 'u, 'v) yrs \<Rightarrow> bytes \<Rightarrow> string \<Rightarrow> ('d, unit) noting" where
  "note_apply_update Y new_updates doc_type =
     (if new_updates = [] then sret ()
      else sbind (sget (apply_update_fetch doc_type)) (\<lambda>temp_doc.
        scatch (apply_at Y temp_doc new_updates)
          (\<lambda>_. smodify (apply_update_swap doc_type temp_doc)) (\<lambda>_. sret ())))"

section \<open>The exchange with a peer\<close>

definition parse_byte_array :: "json option \<Rightarrow> bytes" where
  "parse_byte_array v = (case Option.bind v as_array of Some xs \<Rightarrow> array_bytes xs | None \<Rightarrow> [])"

definition create_doc_result :: "bytes \<Rightarrow> bytes \<Rightarrow> json_map" where
  "create_doc_result updates state_vector =
     obj_insert ''state_vector'' (json_bytes state_vector) (obj_insert ''updates'' (json_bytes updates) [])"

definition get_doc_state_vector ::
  "('d, 'u, 'v) yrs \<Rightarrow> nat \<Rightarrow> string \<Rightarrow> json_map \<Rightarrow> ('d, json_map) noting" where
  "get_doc_state_vector Y doc doc_name result =
     sbind (sget (\<lambda>s. y_state_vector Y (doc_at doc s))) (\<lambda>state_vector.
       if state_vector \<noteq> [] then sret (obj_insert doc_name (JObject (create_doc_result [] state_vector)) result)
       else sret result)"

definition note_state_vectors :: "('d, 'u, 'v) yrs \<Rightarrow> ('d, string) noting" where
  "note_state_vectors Y =
     sbind (sget (\<lambda>s. (nb_main s, nb_image s, nb_comment s))) (\<lambda>(main_doc, image_doc, comment_doc).
     sbind (get_doc_state_vector Y main_doc ''main_doc'' []) (\<lambda>result.
     sbind (get_doc_state_vector Y image_doc ''image_state'' result) (\<lambda>result.
     sbind (get_doc_state_vector Y comment_doc ''comment_state'' result) (\<lambda>result.
     sret (json_print Y (JObject result))))))"

text \<open>The difference a peer with this state vector misses, next to the own state vector.\<close>

definition answer_peer ::
  "('d, 'u, 'v) yrs \<Rightarrow> nat \<Rightarrow> bytes \<Rightarrow> string \<Rightarrow> json_map \<Rightarrow> ('d, json_map) noting" where
  "answer_peer Y doc peer_state_vector doc_name result =
     sbind (sget (doc_at doc)) (\<lambda>d.
     sbind (slift (rmap_err (\<lambda>e. ''Failed to generate '' @ doc_name @ '' diff: '' @ e)
              (get_diff_update_v2 Y d peer_state_vector))) (\<lambda>updates_for_peer.
     sret (obj_insert doc_name (JObject (create_doc_result updates_for_peer (y_state_vector Y d))) result)))"

definition process_doc_state_vectors ::
  "('d, 'u, 'v) yrs \<Rightarrow> nat \<Rightarrow> json option \<Rightarrow> string \<Rightarrow> json_map \<Rightarrow> ('d, json_map) noting" where
  "process_doc_state_vectors Y doc doc_data doc_name result = (case doc_data of
     None \<Rightarrow> sret result
   | Some data \<Rightarrow>
       (let peer_state_vector = parse_byte_array (json_get ''state_vector'' data) in
        if peer_state_vector \<noteq> [] then answer_peer Y doc peer_state_vector doc_name result
        else sret result))"

definition note_generate_updates :: "('d, 'u, 'v) yrs \<Rightarrow> string \<Rightarrow> ('d, string) noting" where
  "note_generate_updates Y peer_state_vectors_json =
     sbind (slift (rmap_err (\<lambda>e. ''Failed to parse peer state vectors: '' @ e)
              (json_read_map Y peer_state_vectors_json))) (\<lambda>peer_data.
     sbind (sget (\<lambda>s. (nb_main s, nb_image s))) (\<lambda>(main_doc, image_doc).
     sbind (process_doc_state_vectors Y main_doc (map_of peer_data ''main_doc'') ''main_doc'' []) (\<lambda>result.
     sbind (process_doc_state_vectors Y image_doc (map_of peer_data ''image_state'') ''image_state'' result)
       (\<lambda>result. sret (json_print Y (JObject result))))))"

definition process_doc_updates_and_diff ::
  "('d, 'u, 'v) yrs \<Rightarrow> nat \<Rightarrow> json option \<Rightarrow> string \<Rightarrow> json_map \<Rightarrow> ('d, nat option \<times> json_map) noting" where
  "process_doc_updates_and_diff Y doc doc_data doc_name result = (case doc_data of
     None \<Rightarrow> sret (None, result)
   | Some data \<Rightarrow>
       (let peer_updates = parse_byte_array (json_get ''updates'' data);
            peer_state_vector = parse_byte_array (json_get ''state_vector'' data) in
        sbind (if peer_updates \<noteq> []
               then smap_err (\<lambda>e. ''Failed to apply '' @ doc_name @ '' updates: '' @ e) (apply_at Y doc peer_updates)
               else sret ()) (\<lambda>_.
        if peer_state_vector \<noteq> []
        then sbind (answer_peer Y doc peer_state_vector doc_name result) (\<lambda>result. sret (Some doc, result))
        else sret (None, result))))"

text \<open>One document of \<open>apply_updates_and_generate_diff\<close>: its handle, the work, the handle put back.\<close>

definition updates_and_diff ::
  "('d, 'u, 'v) yrs \<Rightarrow> doc_slot \<Rightarrow> string \<Rightarrow> json_map \<Rightarrow> json_map \<Rightarrow> ('d, json_map) noting" where
  "updates_and_diff Y sl doc_name peer_data result =
     sbind (sget (slot_ref sl)) (\<lambda>doc.
     sbind (process_doc_updates_and_diff Y doc (map_of peer_data doc_name) doc_name result) (\<lambda>(updated_doc, result).
     sbind (case updated_doc of Some d \<Rightarrow> smodify (set_slot sl d) | None \<Rightarrow> sret ()) (\<lambda>_. sret result)))"

definition apply_updates_and_generate_diff :: "('d, 'u, 'v) yrs \<Rightarrow> string \<Rightarrow> ('d, string) noting" where
  "apply_updates_and_generate_diff Y peer_updates_json =
     sbind (slift (rmap_err (\<lambda>e. ''Failed to parse peer updates: '' @ e)
              (json_read_map Y peer_updates_json))) (\<lambda>peer_data.
     sbind (updates_and_diff Y Main_doc ''main_doc'' peer_data []) (\<lambda>result.
     sbind (updates_and_diff Y Image_doc ''image_state'' peer_data result) (\<lambda>result.
     sret (json_print Y (JObject result)))))"

text \<open>One document of \<open>apply_peer_updates\<close>.\<close>

definition peer_updates_of ::
  "('d, 'u, 'v) yrs \<Rightarrow> doc_slot \<Rightarrow> string \<Rightarrow> json_map \<Rightarrow> ('d, unit) noting" where
  "peer_updates_of Y sl doc_name peer_data = (case map_of peer_data doc_name of
     None \<Rightarrow> sret ()
   | Some data \<Rightarrow>
       (let peer_updates = parse_byte_array (json_get ''updates'' data) in
        if peer_updates \<noteq> []
        then sbind (sget (slot_ref sl)) (\<lambda>doc.
             sbind (smap_err (\<lambda>e. ''Failed to apply '' @ doc_name @ '' updates: '' @ e)
                      (apply_at Y doc peer_updates)) (\<lambda>_.
             smodify (set_slot sl doc)))
        else sret ()))"

definition apply_peer_updates :: "('d, 'u, 'v) yrs \<Rightarrow> string \<Rightarrow> ('d, unit) noting" where
  "apply_peer_updates Y peer_updates_json =
     sbind (slift (rmap_err (\<lambda>e. ''Failed to parse peer updates: '' @ e)
              (json_read_map Y peer_updates_json))) (\<lambda>peer_data.
     sbind (peer_updates_of Y Main_doc ''main_doc'' peer_data) (\<lambda>_.
     peer_updates_of Y Image_doc ''image_state'' peer_data))"

section \<open>Connections\<close>

definition set_shared_users :: "string list \<Rightarrow> 'd buffers \<Rightarrow> 'd buffers" where
  "set_shared_users users s = s\<lparr>nb_shared_users := users\<rparr>"

definition note_shared_users :: "'d buffers \<Rightarrow> string list" where
  "note_shared_users s = nb_shared_users s"

definition clear_shared_users :: "'d buffers \<Rightarrow> 'd buffers" where
  "clear_shared_users s = s\<lparr>nb_shared_users := []\<rparr>"

definition add_active_connection :: "string \<Rightarrow> 'd buffers \<Rightarrow> 'd buffers" where
  "add_active_connection connection_id s = s\<lparr>nb_active := insert connection_id (nb_active s)\<rparr>"

definition get_active_connections :: "(string set \<Rightarrow> string list) \<Rightarrow> 'd buffers \<Rightarrow> string list" where
  "get_active_connections ord s = ord (nb_active s)"

definition get_inactive_connections :: "(string set \<Rightarrow> string list) \<Rightarrow> 'd buffers \<Rightarrow> string list" where
  "get_inactive_connections ord s = ord (nb_inactive s)"

definition note_connection_active :: "string \<Rightarrow> 'd buffers \<Rightarrow> bool" where
  "note_connection_active connection_id s \<longleftrightarrow> connection_id \<in> nb_active s"

definition remove_active_connection :: "string \<Rightarrow> 'd buffers \<Rightarrow> 'd buffers" where
  "remove_active_connection connection_id s = s\<lparr>nb_active := nb_active s - {connection_id}\<rparr>"

definition add_inactive_connection :: "string \<Rightarrow> 'd buffers \<Rightarrow> 'd buffers" where
  "add_inactive_connection connection_id s = s\<lparr>nb_inactive := insert connection_id (nb_inactive s)\<rparr>"

definition clear_active_connections :: "'d buffers \<Rightarrow> 'd buffers" where
  "clear_active_connections s = s\<lparr>nb_active := {}\<rparr>"

definition clear_inactive_connections :: "'d buffers \<Rightarrow> 'd buffers" where
  "clear_inactive_connections s = s\<lparr>nb_inactive := {}\<rparr>"

section \<open>Handles\<close>

text \<open>The handles are in the store and no document is in two fields.\<close>

definition handles_ok :: "'d buffers \<Rightarrow> bool" where
  "handles_ok s \<longleftrightarrow> (\<forall>sl. slot_ref sl s < length (nb_docs s)) \<and>
     (\<forall>sl sl'. slot_ref sl s = slot_ref sl' s \<longrightarrow> sl = sl')"

lemma all_slots: "(\<forall>sl. P sl) \<longleftrightarrow> P Main_doc \<and> P Image_doc \<and> P Comment_doc"
  by (metis doc_slot.exhaust)

lemma handles_okI:
  "nb_main s < length (nb_docs s) \<Longrightarrow> nb_image s < length (nb_docs s) \<Longrightarrow> nb_comment s < length (nb_docs s) \<Longrightarrow>
    nb_main s \<noteq> nb_image s \<Longrightarrow> nb_main s \<noteq> nb_comment s \<Longrightarrow> nb_image s \<noteq> nb_comment s \<Longrightarrow> handles_ok s"
  by (simp add: handles_ok_def all_slots)

lemma handles_okD: "handles_ok s \<Longrightarrow> slot_ref sl s < length (nb_docs s)"
  by (simp add: handles_ok_def)

lemma handles_ok_inj: "handles_ok s \<Longrightarrow> slot_ref sl s = slot_ref sl' s \<longleftrightarrow> sl = sl'"
  by (auto simp: handles_ok_def)

lemma slot_ref_put_doc [simp]: "slot_ref sl (put_doc r d s) = slot_ref sl s"
  by (cases sl) (simp_all add: put_doc_def)

lemma set_slot_same [simp]: "set_slot sl (slot_ref sl s) s = s"
  by (cases sl) simp_all

lemma set_slot_put_doc [simp]: "set_slot sl (slot_ref sl s) (put_doc r d s) = put_doc r d s"
  by (metis set_slot_same slot_ref_put_doc)

lemma doc_at_put_doc: "r < length (nb_docs s) \<Longrightarrow> doc_at q (put_doc r d s) = (if q = r then d else doc_at q s)"
  by (simp add: doc_at_def put_doc_def)

lemma slot_doc_put_doc:
  "handles_ok s \<Longrightarrow> slot_doc sl (put_doc (slot_ref sl' s) d s) = (if sl = sl' then d else slot_doc sl s)"
  by (simp add: slot_doc_def doc_at_put_doc handles_okD handles_ok_inj)

lemmas slot_doc_puts = slot_doc_put_doc slot_doc_put_doc [where sl' = Main_doc, simplified]
  slot_doc_put_doc [where sl' = Image_doc, simplified] slot_doc_put_doc [where sl' = Comment_doc, simplified]

lemma handles_ok_put_doc [simp]: "handles_ok (put_doc r d s) \<longleftrightarrow> handles_ok s"
  by (simp add: handles_ok_def) (simp add: put_doc_def)

lemma handles_ok_default [simp]: "handles_ok (buffers_default Y)"
  by (rule handles_okI) (simp_all add: buffers_default_def)

lemma handles_ok_reset [simp]: "handles_ok (reset_to_default Y s)"
  by (rule handles_okI) (simp_all add: reset_to_default_def Let_def)

lemma handles_ok_set_current [simp]: "handles_ok (set_current_note Y n m i c s)"
  by (rule handles_okI) (simp_all add: set_current_note_def Let_def)

lemma parse_byte_array_field: "parse_byte_array (json_get f v) = bytes_field f v"
  by (simp add: parse_byte_array_def bytes_field_def)

lemma create_doc_result_entry: "JObject (create_doc_result u v) = doc_entry u v"
  by (simp add: create_doc_result_def doc_entry_def)

end
