(* ===== verification/Preview.thy ===== *)
theory Preview
  imports Crdt_Resource
begin

text \<open>
  \<open>livnote/src-tauri/src/preview_generator.rs\<close>: the HTML preview of a note, made from the XML text of
  its document in one pass over the events of an XML reader. The reader and the writer of \<open>quick_xml\<close>
  and the read access to a document of \<open>yrs\<close> are the parameter \<open>V\<close>: \<open>vl_events\<close> gives the events of a
  text up to its end or up to an error, \<open>vl_print\<close> the bytes of the events written, \<open>vl_fragment\<close> and
  \<open>vl_map\<close> what a document holds under a name.
\<close>

section \<open>Documents and XML\<close>

datatype y_any = Any_Null | Any_String string | Any_Map "(string \<times> y_any) list" | Any_Other

text \<open>A value of a shared map: a plain value, an XML fragment with its text, another shared type.\<close>

datatype y_out = Out_Any y_any | Out_Fragment string | Out_Shared y_any

fun out_json :: "y_out \<Rightarrow> y_any" where
  "out_json (Out_Any a) = a"
| "out_json (Out_Fragment s) = Any_String s"
| "out_json (Out_Shared a) = a"

text \<open>An attribute that the reader could not read is \<open>None\<close>.\<close>

type_synonym xml_attr = "(string \<times> bytes) option"

datatype xml_event =
    X_Start string "xml_attr list"
  | X_End string
  | X_Empty string "xml_attr list"
  | X_Text bytes
  | X_Other

datatype html_event =
    H_Start string
  | H_End string
  | H_Empty string "(string \<times> string) list"
  | H_Text string

record 'd view_lib =
  vl_events :: "string \<Rightarrow> (string + xml_event) list"
  vl_print :: "html_event list \<Rightarrow> bytes"
  vl_fragment :: "'d \<Rightarrow> string \<Rightarrow> string option"
  vl_map :: "'d \<Rightarrow> string \<Rightarrow> (string \<times> y_out) list option"

section \<open>From ProseMirror to HTML\<close>

definition is_block_element :: "string \<Rightarrow> bool" where
  "is_block_element name \<longleftrightarrow> name \<in> {''paragraph'', ''heading'', ''blockquote'', ''code_block'',
     ''bullet_list'', ''ordered_list'', ''table'', ''image'', ''hard_break''}"

fun get_attribute :: "xml_attr list \<Rightarrow> string \<Rightarrow> string option" where
  "get_attribute [] name = None"
| "get_attribute (None # attrs) name = get_attribute attrs name"
| "get_attribute (Some (k, v) # attrs) name =
     (if k = name then (case from_utf8 v of Inl _ \<Rightarrow> None | Inr s \<Rightarrow> Some s) else get_attribute attrs name)"

text \<open>The attributes an image keeps.\<close>

fun image_attributes :: "xml_attr list \<Rightarrow> string + (string \<times> string) list" where
  "image_attributes [] = Inr []"
| "image_attributes (None # attrs) = image_attributes attrs"
| "image_attributes (Some (k, v) # attrs) =
     (if k \<in> {''src'', ''alt'', ''title'', ''width'', ''height''}
      then rbind (from_utf8 v) (\<lambda>s. rbind (image_attributes attrs) (\<lambda>rest. Inr ((k, s) # rest)))
      else image_attributes attrs)"

text \<open>Elements that become one HTML element of a fixed name.\<close>

definition plain_tag :: "string \<Rightarrow> string option" where
  "plain_tag name = map_of [(''paragraph'', ''p''), (''blockquote'', ''blockquote''),
     (''bullet_list'', ''ul''), (''ordered_list'', ''ol''), (''list_item'', ''li''),
     (''table'', ''table''), (''table_row'', ''tr''), (''table_header'', ''th''), (''table_cell'', ''td''),
     (''strong'', ''strong''), (''bold'', ''strong''), (''em'', ''em''), (''italic'', ''em'')] name"

text \<open>
  The state of the loop. \<open>pv_stack\<close> has the tags of the open elements, the innermost first, \<open>pv_out\<close>
  the events written so far.
\<close>

record preview_state =
  pv_blocks :: nat
  pv_depth :: int
  pv_skip :: "int option"
  pv_in_code :: bool
  pv_stack :: "string list"
  pv_out :: "html_event list"

type_synonym previewing = "(preview_state, string, unit) sm"

definition pv_write :: "html_event list \<Rightarrow> previewing" where
  "pv_write es = smodify (\<lambda>s. s\<lparr>pv_out := pv_out s @ es\<rparr>)"

definition pv_push :: "string \<Rightarrow> previewing" where
  "pv_push tag = smodify (\<lambda>s. s\<lparr>pv_stack := tag # pv_stack s\<rparr>)"

text \<open>The conversion of an opening tag; an element that needs no closing tag is not pushed.\<close>

definition open_element :: "string \<Rightarrow> xml_attr list \<Rightarrow> previewing" where
  "open_element name attrs =
     (case plain_tag name of
        Some tag \<Rightarrow> sbind (pv_write [H_Start tag]) (\<lambda>_. pv_push tag)
      | None \<Rightarrow>
     if name = ''heading'' then
       (let tag = ''h'' @ (case get_attribute attrs ''level'' of Some l \<Rightarrow> l | None \<Rightarrow> ''1'') in
        sbind (pv_write [H_Start tag]) (\<lambda>_. pv_push tag))
     else if name = ''code_block'' then
       sbind (smodify (\<lambda>s. s\<lparr>pv_in_code := True\<rparr>)) (\<lambda>_.
       sbind (pv_write [H_Start ''pre'', H_Start ''code'']) (\<lambda>_. pv_push ''code_block''))
     else if name = ''code'' then
       sbind (sget pv_in_code) (\<lambda>in_code_block.
       sbind (if \<not> in_code_block then pv_write [H_Start ''code''] else sret ()) (\<lambda>_. pv_push ''code''))
     else if name = ''image'' then
       sbind (slift (image_attributes attrs)) (\<lambda>img. pv_write [H_Empty ''img'' img])
     else if name = ''hard_break'' then pv_write [H_Empty ''br'' []]
     else sret ())"

text \<open>The elements whose closing tag pops the stack are those that push.\<close>

definition pops :: "string \<Rightarrow> bool" where
  "pops name \<longleftrightarrow> plain_tag name \<noteq> None \<or> name \<in> {''heading'', ''code_block'', ''code''}"

definition pv_pop :: "string \<Rightarrow> (preview_state, string, string option) sm" where
  "pv_pop name s = (case pv_stack s of
       [] \<Rightarrow> (Inr None, s)
     | tag # rest \<Rightarrow> if pops name then (Inr (Some tag), s\<lparr>pv_stack := rest\<rparr>) else (Inr None, s))"

definition close_element :: "string \<Rightarrow> string option \<Rightarrow> previewing" where
  "close_element name closing_tag =
     (case plain_tag name of
        Some tag \<Rightarrow> pv_write [H_End tag]
      | None \<Rightarrow>
     if name = ''heading'' then (case closing_tag of Some tag \<Rightarrow> pv_write [H_End tag] | None \<Rightarrow> sret ())
     else if name = ''code_block'' then
       sbind (pv_write [H_End ''code'', H_End ''pre'']) (\<lambda>_. smodify (\<lambda>s. s\<lparr>pv_in_code := False\<rparr>))
     else if name = ''code'' then
       sbind (sget pv_in_code) (\<lambda>in_code_block.
         if \<not> in_code_block then pv_write [H_End ''code''] else sret ())
     else sret ())"

definition add_depth :: "int \<Rightarrow> previewing" where
  "add_depth n = smodify (\<lambda>s. s\<lparr>pv_depth := pv_depth s + n\<rparr>)"

definition start_event :: "nat \<Rightarrow> string \<Rightarrow> xml_attr list \<Rightarrow> previewing" where
  "start_event max_nodes name attrs =
     sbind (sget (\<lambda>s. s)) (\<lambda>s.
       if pv_skip s \<noteq> None then add_depth 1
       else if pv_depth s = 0 \<and> is_block_element name \<and> max_nodes \<le> pv_blocks s
       then smodify (\<lambda>s. s\<lparr>pv_skip := Some (pv_depth s)\<rparr>)
       else
         sbind (if pv_depth s = 0 \<and> is_block_element name
                then smodify (\<lambda>s. s\<lparr>pv_blocks := pv_blocks s + 1\<rparr>) else sret ()) (\<lambda>_.
         sbind (open_element name attrs) (\<lambda>_. add_depth 1)))"

definition end_event :: "string \<Rightarrow> previewing" where
  "end_event name =
     sbind (add_depth (- 1)) (\<lambda>_.
     sbind (sget (\<lambda>s. s)) (\<lambda>s.
       case pv_skip s of
         Some skip_d \<Rightarrow>
           if pv_depth s = skip_d then smodify (\<lambda>s. s\<lparr>pv_skip := None\<rparr>) else sret ()
       | None \<Rightarrow> sbind (pv_pop name) (\<lambda>closing_tag. close_element name closing_tag)))"

definition text_event :: "bytes \<Rightarrow> previewing" where
  "text_event e = sbind (sget pv_skip) (\<lambda>skip_depth.
     if skip_depth = None then sbind (slift (from_utf8 e)) (\<lambda>text_str. pv_write [H_Text text_str])
     else sret ())"

definition empty_event :: "string \<Rightarrow> xml_attr list \<Rightarrow> previewing" where
  "empty_event name attrs = sbind (sget pv_skip) (\<lambda>skip_depth.
     if skip_depth \<noteq> None then sret ()
     else if name = ''hard_break'' then pv_write [H_Empty ''br'' []]
     else if name = ''image'' then
       sbind (slift (image_attributes attrs)) (\<lambda>img. pv_write [H_Empty ''img'' img])
     else sret ())"

definition preview_event :: "nat \<Rightarrow> string + xml_event \<Rightarrow> previewing" where
  "preview_event max_nodes r = (case r of
       Inl e \<Rightarrow> sthrow e
     | Inr (X_Start name attrs) \<Rightarrow> start_event max_nodes name attrs
     | Inr (X_End name) \<Rightarrow> end_event name
     | Inr (X_Text e) \<Rightarrow> text_event e
     | Inr (X_Empty name attrs) \<Rightarrow> empty_event name attrs
     | Inr X_Other \<Rightarrow> sret ())"

definition preview_start :: preview_state where
  "preview_start = \<lparr>pv_blocks = 0, pv_depth = 0, pv_skip = None, pv_in_code = False, pv_stack = [], pv_out = []\<rparr>"

text \<open>The events that the converter writes for those it reads.\<close>

definition preview_events :: "nat \<Rightarrow> (string + xml_event) list \<Rightarrow> string + html_event list" where
  "preview_events max_nodes events = (case sfor (preview_event max_nodes) events preview_start of
       (Inl e, s) \<Rightarrow> Inl e
     | (Inr _, s) \<Rightarrow> Inr (pv_out s))"

definition convert_prosemirror_to_html :: "'d view_lib \<Rightarrow> string \<Rightarrow> nat \<Rightarrow> string + string" where
  "convert_prosemirror_to_html V xml_content max_nodes =
     rbind (preview_events max_nodes (vl_events V xml_content)) (\<lambda>out. from_utf8 (vl_print V out))"

section \<open>Titles and images\<close>

definition untitled :: string where
  "untitled = ''Untitled Note''"

definition document_title :: "'d view_lib \<Rightarrow> 'd \<Rightarrow> string" where
  "document_title V doc =
     (case Option.bind (vl_map V doc ''metadata'') (\<lambda>m. map_of m ''title'') of
        Some (Out_Any (Any_String s)) \<Rightarrow> s
      | _ \<Rightarrow> untitled)"

definition extract_content_from_yjs_state ::
  "('d, 'u, 'v) yrs \<Rightarrow> 'd view_lib \<Rightarrow> bytes \<Rightarrow> string + string \<times> string" where
  "extract_content_from_yjs_state Y V yjs_state =
     (if yjs_state = [] then Inr ([], untitled)
      else rbind (rmap_err (\<lambda>e. ''Failed to apply YJS state: '' @ e) (apply_update_v2 Y (y_new Y) yjs_state))
        (\<lambda>doc. Inr (case vl_fragment V doc ''prosemirror'' of
            Some content_string \<Rightarrow> (content_string, document_title V doc)
          | None \<Rightarrow> ([], untitled))))"

fun image_data :: "y_any \<Rightarrow> string option" where
  "image_data (Any_Map asset_map) =
     (case map_of asset_map ''data'' of Some (Any_String d) \<Rightarrow> Some d | _ \<Rightarrow> None)"
| "image_data _ = None"

text \<open>The pairs put into the hash map, in the order in which they are put.\<close>

definition extract_image_map ::
  "('d, 'u, 'v) yrs \<Rightarrow> 'd view_lib \<Rightarrow> bytes \<Rightarrow> string + (string \<times> string) list" where
  "extract_image_map Y V image_state =
     (if image_state = [] then Inr []
      else rbind (rmap_err (\<lambda>e. ''Failed to apply image state: '' @ e) (apply_update_v2 Y (y_new Y) image_state))
        (\<lambda>image_doc. Inr (case vl_map V image_doc ''images'' of
            None \<Rightarrow> []
          | Some images_ymap \<Rightarrow> List.map_filter
              (\<lambda>(key, v). map_option (\<lambda>data. (key, data)) (image_data (out_json v))) images_ymap)))"

text \<open>
  The regular expression \<open>yjs-image:([^"'\s]+)\<close>: a text stops an image id when it begins with a
  quote or with a white space character.
\<close>

fun stops_image_id :: "nat list \<Rightarrow> bool" where
  "stops_image_id [] = False"
| "stops_image_id (a # xs) \<longleftrightarrow> a = 34 \<or> a = 39 \<or> 9 \<le> a \<and> a \<le> 13 \<or> a = 32 \<or>
     (case xs of b # ys \<Rightarrow> white2 a b \<or> (case ys of c # _ \<Rightarrow> white3 a b c | [] \<Rightarrow> False) | [] \<Rightarrow> False)"

fun span_image_id :: "string \<Rightarrow> string \<times> string" where
  "span_image_id [] = ([], [])"
| "span_image_id (c # cs) =
     (if stops_image_id (map of_char (c # cs)) then ([], c # cs)
      else (let (i, rest) = span_image_id cs in (c # i, rest)))"

lemma span_image_id_length: "length (snd (span_image_id s)) \<le> length s"
  by (induction s rule: span_image_id.induct) (auto split: prod.splits)

function replace_images :: "(string \<rightharpoonup> string) \<Rightarrow> string \<Rightarrow> string" where
  "replace_images m [] = []"
| "replace_images m (c # cs) =
     (if starts_with (c # cs) ''yjs-image:'' \<and> fst (span_image_id (drop 10 (c # cs))) \<noteq> []
      then (case m (fst (span_image_id (drop 10 (c # cs)))) of
              Some base64_data \<Rightarrow> base64_data
            | None \<Rightarrow> ''yjs-image:'' @ fst (span_image_id (drop 10 (c # cs)))) @
           replace_images m (snd (span_image_id (drop 10 (c # cs))))
      else c # replace_images m cs)"
  by pat_completeness auto

termination
proof (relation "measure (length \<circ> snd)", goal_cases)
  case (2 m c cs)
  have "length (drop 10 (c # cs)) \<le> length cs" by simp
  then show ?case
    using span_image_id_length [of "drop 10 (c # cs)"] unfolding in_measure comp_def snd_conv list.size
    by linarith
qed simp_all

definition process_html_images ::
  "('d, 'u, 'v) yrs \<Rightarrow> 'd view_lib \<Rightarrow> string \<Rightarrow> bytes \<Rightarrow> string + string" where
  "process_html_images Y V html image_state =
     (if html = [] \<or> image_state = [] then Inr html
      else rbind (extract_image_map Y V image_state) (\<lambda>image_map.
        if image_map = [] then Inr html else Inr (replace_images (hash_map_of image_map) html)))"

section \<open>The preview\<close>

definition generator_preview_html ::
  "('d, 'u, 'v) yrs \<Rightarrow> 'd view_lib \<Rightarrow> bytes \<Rightarrow> bytes \<Rightarrow> nat \<Rightarrow> string + string \<times> string" where
  "generator_preview_html Y V main_doc_state image_state max_nodes =
     rbind (extract_content_from_yjs_state Y V main_doc_state) (\<lambda>(content_xml, title).
       if content_xml = [] then Inr ([], title)
       else rbind (convert_prosemirror_to_html V content_xml max_nodes) (\<lambda>html.
         rbind (if image_state \<noteq> [] \<and> str_find ''yjs-image:'' html \<noteq> None
                then process_html_images Y V html image_state else Inr html) (\<lambda>processed_html.
         Inr (processed_html, title))))"

text \<open>Here, unlike elsewhere, an element of the array that is no number is a zero byte.\<close>

definition array_bytes_or_zero :: "json list \<Rightarrow> bytes" where
  "array_bytes_or_zero xs = map (\<lambda>v. word_of_int (case as_u64 v of Some n \<Rightarrow> n | None \<Rightarrow> 0)) xs"

definition state_bytes :: "string \<Rightarrow> json \<Rightarrow> bytes" where
  "state_bytes key data = (case Option.bind (json_get key data) as_array of
     Some arr \<Rightarrow> array_bytes_or_zero arr | None \<Rightarrow> [])"

definition generate_preview_html ::
  "('d, 'u, 'v) yrs \<Rightarrow> 'd view_lib \<Rightarrow> json \<Rightarrow> nat \<Rightarrow> string + string \<times> string" where
  "generate_preview_html Y V data max_nodes =
     generator_preview_html Y V (state_bytes ''main_doc'' data) (state_bytes ''image_state'' data) max_nodes"

end
