(* ===== verification/Live_Edit.thy ===== *)
theory Live_Edit
  imports Note_State Preview P2P_Incoming Account_Services
begin

text \<open>
  \<open>livnote/src-tauri/src/listners\<close> and \<open>user_state.rs\<close>: the manager that stands between the editor of
  the user interface and the network. Events of the network (\<open>p2p_reciever.rs\<close>, \<open>p2p_handlers\<close>) and of
  the interface (\<open>tauri_events.rs\<close>) change the open note, are answered through the sender of
  \<open>P2P_Incoming\<close>, and are reported to the interface. An event that cannot be emitted is only logged, so
  \<open>ed_out\<close> is the list of those handed to the interface. A handler runs to its end; what it spawns is
  queued in \<open>ed_tasks\<close> and runs later, in steps between which other events are handled.
\<close>

section \<open>The state\<close>

record resource_preview =
  rp_id :: ident
  rp_preview :: string
  rp_title :: string
  rp_folder_id :: ident
  rp_favourite :: bool
  rp_last_modified :: millis
  rp_last_accessed :: millis

datatype (plugins only: code size) emission =
    Emit_json string json
  | Emit_preview string resource_preview
  | Emit_users string "user list"

text \<open>
  The tasks of \<open>apply_sync_update_to_buffer\<close>: not yet begun, holding the handle it fetched, and with
  the update applied through it.
\<close>

datatype apply_task =
    Apply_begin bytes string
  | Apply_fetched nat bytes string
  | Apply_done nat string

record 'd editor =
  ed_buffers :: "'d buffers"
  ed_sender :: p2p_sender
  ed_user :: "user option"
  ed_device :: "device option"
  ed_world :: world
  ed_crypto :: crypto_utils
  ed_out :: "emission list"
  ed_index :: "(ident \<times> json \<times> ident) list"
  ed_tasks :: "apply_task list"

type_synonym ('d, 'a) editing = "('d editor, string, 'a) sm"

text \<open>
  The libraries: the crypto layer, documents and JSON, their views, the order of hash sets and the
  texts of errors.
\<close>

record ('d, 'u, 'v) edit_lib =
  el_crypto :: crypto_lib
  el_docs :: "('d, 'u, 'v) yrs"
  el_view :: "'d view_lib"
  el_order :: "string set \<Rightarrow> string list"
  el_text :: "service_error \<Rightarrow> string"

definition on_note :: "('d, 'a) noting \<Rightarrow> ('d, 'a) editing" where
  "on_note m s = (case m (ed_buffers s) of (r, b) \<Rightarrow> (r, s\<lparr>ed_buffers := b\<rparr>))"

definition change_note :: "('d buffers \<Rightarrow> 'd buffers) \<Rightarrow> ('d, unit) editing" where
  "change_note f = smodify (\<lambda>s. s\<lparr>ed_buffers := f (ed_buffers s)\<rparr>)"

definition on_sender :: "sending \<Rightarrow> ('d, unit) editing" where
  "on_sender m s = (case m (ed_sender s) of (r, p) \<Rightarrow> (r, s\<lparr>ed_sender := p\<rparr>))"

definition on_data :: "('d, 'u, 'v) edit_lib \<Rightarrow> 'a service \<Rightarrow> ('d, 'a) editing" where
  "on_data E m s = (case m (ed_world s) of (r, w) \<Rightarrow> (rmap_err (el_text E) r, s\<lparr>ed_world := w\<rparr>))"

text \<open>A failure that is only logged.\<close>

definition logged :: "('d, unit) editing \<Rightarrow> ('d, unit) editing" where
  "logged m = scatch m sret (\<lambda>_. sret ())"

text \<open>\<open>json!({..})\<close> and \<open>emit_json\<close>.\<close>

definition json_object :: "(string \<times> json) list \<Rightarrow> json" where
  "json_object kvs = JObject (fold (\<lambda>(k, v). obj_insert k v) kvs [])"

definition emit_json :: "string \<Rightarrow> json \<Rightarrow> ('d, unit) editing" where
  "emit_json event_name payload = smodify (\<lambda>s. s\<lparr>ed_out := ed_out s @ [Emit_json event_name payload]\<rparr>)"

section \<open>The user\<close>

definition get_user :: "('d, user) editing" where
  "get_user = sbind (sget ed_user) (\<lambda>user. case user of
     Some u \<Rightarrow> sret u | None \<Rightarrow> sthrow ''No user found in state. Please log in.'')"

definition get_device :: "('d, device) editing" where
  "get_device = sbind (sget ed_device) (\<lambda>device. case device of
     Some d \<Rightarrow> sret d | None \<Rightarrow> sthrow ''No device found in state. Please register a device first.'')"

definition is_current_note :: "ident \<Rightarrow> 'd editor \<Rightarrow> bool" where
  "is_current_note resource_id s \<longleftrightarrow> (case get_current_note (ed_buffers s) of
     Some current_id \<Rightarrow> current_id = resource_id | None \<Rightarrow> False)"

section \<open>Previews\<close>

text \<open>A preview that cannot be made is empty; a task that updates the search index is spawned.\<close>

definition preview_of ::
  "('d, 'u, 'v) edit_lib \<Rightarrow> decrypted_resource \<Rightarrow> resource_preview" where
  "preview_of E dr =
     (let (preview, title) = (case generate_preview_html (el_docs E) (el_view E) (dcr_data dr) 3 of
            Inr p \<Rightarrow> p | Inl _ \<Rightarrow> ([], []))
      in \<lparr>rp_id = dcr_id dr, rp_preview = preview, rp_title = title, rp_folder_id = dcr_folder_id dr,
          rp_favourite = dcr_favourite dr, rp_last_modified = dcr_last_accessed dr,
          rp_last_accessed = dcr_last_accessed dr\<rparr>)"

definition emit_resource_preview ::
  "('d, 'u, 'v) edit_lib \<Rightarrow> ident \<Rightarrow> string \<Rightarrow> ('d, unit) editing" where
  "emit_resource_preview E resource_id event_name =
     sbind (smap_err (\<lambda>e. ''Failed to get current user: '' @ e) get_user) (\<lambda>current_user.
     sbind (sget ed_crypto) (\<lambda>crypto.
     sbind (smap_err (\<lambda>e. ''Failed to get resource: '' @ e)
              (on_data E (get_resource_by_id_direct (el_crypto E) (el_docs E) crypto resource_id (usr_id current_user))))
       (\<lambda>dr.
     smodify (\<lambda>s. s\<lparr>ed_out := ed_out s @ [Emit_preview event_name (preview_of E dr)],
                    ed_index := ed_index s @ [(dcr_id dr, dcr_data dr, dcr_folder_id dr)]\<rparr>))))"

section \<open>Negotiating live editing\<close>

definition handle_live_edit_connected :: "string \<Rightarrow> ('d, unit) editing" where
  "handle_live_edit_connected connection_id =
     sbind (sget (\<lambda>s. get_current_note (ed_buffers s))) (\<lambda>current. case current of
       None \<Rightarrow> sret ()
     | Some resource_id \<Rightarrow>
         scatch (on_sender (send_live_edit_document_check connection_id resource_id))
           (\<lambda>_. emit_json ''live-edit-initialized'' (json_object
              [(''connection_id'', JString connection_id), (''resource_id'', JString resource_id)]))
           (\<lambda>_. sret ()))"

definition handle_document_missmatch :: "string \<Rightarrow> ('d, unit) editing" where
  "handle_document_missmatch connection_id = change_note (add_inactive_connection connection_id)"

definition handle_document_check :: "('d, 'u, 'v) edit_lib \<Rightarrow> ident \<Rightarrow> string \<Rightarrow> ('d, unit) editing" where
  "handle_document_check E resource_id connection_id =
     sbind (sget (is_current_note resource_id)) (\<lambda>is_match.
     logged (sbind (if is_match then on_note (note_state_vectors (el_docs E)) else sret [])
       (\<lambda>state_vectors.
       sbind (on_sender (send_live_edit_document_check_response connection_id resource_id is_match state_vectors))
         (\<lambda>_. emit_json ''document-check'' (json_object
            [(''connection_id'', JString connection_id), (''resource_id'', JString resource_id),
             (''is_match'', JBool is_match)])))))"

definition handle_document_update_request ::
  "('d, 'u, 'v) edit_lib \<Rightarrow> ident \<Rightarrow> string \<Rightarrow> string \<Rightarrow> ('d, unit) editing" where
  "handle_document_update_request E resource_id connection_id state_vectors =
     sbind (sget (is_current_note resource_id)) (\<lambda>is_current.
       if \<not> is_current then sret ()
       else logged (sbind (on_note (note_generate_updates (el_docs E) state_vectors)) (\<lambda>peer_updates.
         on_sender (send_live_edit_update_exchange connection_id resource_id peer_updates))))"

text \<open>
  \<open>handle_update_event\<close> reports updates for the note that is open, whatever resource they are of, and
  only without an open note those of the resource itself.
\<close>

definition handle_update_event ::
  "('d, 'u, 'v) edit_lib \<Rightarrow> ident \<Rightarrow> string \<Rightarrow> 32 word \<Rightarrow> ('d, unit) editing" where
  "handle_update_event E resource_id updates client_id =
     sbind (sget (\<lambda>s. get_current_note (ed_buffers s))) (\<lambda>current. case current of
       Some current_resource_id \<Rightarrow>
         emit_json ''document-updates'' (json_object
           [(''resource_id'', JString current_resource_id), (''updates'', JString updates),
            (''client_id'', JInt (uint client_id))])
     | None \<Rightarrow> logged (emit_resource_preview E resource_id ''resource-update''))"

definition handle_document_process_update ::
  "('d, 'u, 'v) edit_lib \<Rightarrow> ident \<Rightarrow> string \<Rightarrow> string \<Rightarrow> 32 word \<Rightarrow> ('d, unit) editing" where
  "handle_document_process_update E resource_id connection_id remote_updates client_id =
     sbind (sget (is_current_note resource_id)) (\<lambda>is_current.
       if \<not> is_current then sret ()
       else scatch (on_note (apply_updates_and_generate_diff (el_docs E) remote_updates))
         (\<lambda>peer_updates.
            sbind (change_note (add_active_connection connection_id)) (\<lambda>_.
            sbind (handle_update_event E resource_id remote_updates client_id) (\<lambda>_.
            logged (on_sender (send_live_edit_update_exchange_response connection_id resource_id peer_updates)))))
         (\<lambda>_. sret ()))"

definition handle_document_process_update_response ::
  "('d, 'u, 'v) edit_lib \<Rightarrow> ident \<Rightarrow> string \<Rightarrow> string \<Rightarrow> 32 word \<Rightarrow> ('d, unit) editing" where
  "handle_document_process_update_response E resource_id connection_id updates client_id =
     sbind (sget (is_current_note resource_id)) (\<lambda>is_current.
       if \<not> is_current then sret ()
       else sbind (logged (on_note (apply_peer_updates (el_docs E) updates))) (\<lambda>_.
         sbind (change_note (add_active_connection connection_id)) (\<lambda>_.
         sbind (if updates \<noteq> [] then handle_update_event E resource_id updates client_id else sret ()) (\<lambda>_.
         emit_json ''live-edit-active'' (json_object
           [(''connection_id'', JString connection_id), (''resource_id'', JString resource_id)])))))"

text \<open>A mismatch of the resource is logged and otherwise ignored.\<close>

definition handle_document_changed_event :: "ident \<Rightarrow> string \<Rightarrow> ('d, unit) editing" where
  "handle_document_changed_event resource_id connection_id =
     sbind (change_note (remove_active_connection connection_id)) (\<lambda>_.
     sbind (change_note (add_inactive_connection connection_id)) (\<lambda>_.
     emit_json ''peer-document-changed'' (json_object
       [(''connection_id'', JString connection_id), (''resource_id'', JString resource_id)])))"

text \<open>
  One tick of \<open>start_reconciliation_timer\<close>: the peers that edit the open note are told of a match
  with the own state vectors, which makes them begin an exchange.
\<close>

definition perform_reconciliation ::
  "('d, 'u, 'v) edit_lib \<Rightarrow> ident \<Rightarrow> string list \<Rightarrow> ('d, unit) editing" where
  "perform_reconciliation E resource_id active_connections =
     logged (sbind (on_note (note_state_vectors (el_docs E))) (\<lambda>local_state_vectors.
       sfor (\<lambda>connection_id. logged (on_sender
         (send_live_edit_document_check_response connection_id resource_id True local_state_vectors)))
         active_connections))"

definition reconciliation_tick :: "('d, 'u, 'v) edit_lib \<Rightarrow> ('d, unit) editing" where
  "reconciliation_tick E =
     sbind (sget (\<lambda>s. get_current_note (ed_buffers s))) (\<lambda>current. case current of
       None \<Rightarrow> sret ()
     | Some resource_id \<Rightarrow>
         sbind (sget (\<lambda>s. get_active_connections (el_order E) (ed_buffers s))) (\<lambda>active_connections.
           if active_connections \<noteq> [] then perform_reconciliation E resource_id active_connections
           else sret ()))"

section \<open>Updates and resources\<close>

definition handle_editing_event ::
  "('d, 'u, 'v) edit_lib \<Rightarrow> ident \<Rightarrow> 32 word \<Rightarrow> bytes \<Rightarrow> string \<Rightarrow> ('d, unit) editing" where
  "handle_editing_event E resource_id client_id updates doc_type =
     sbind (sget (is_current_note resource_id)) (\<lambda>is_current.
       if \<not> is_current then sret ()
       else sbind (on_note (note_apply_update (el_docs E) updates doc_type)) (\<lambda>_.
         emit_json ''live-updates'' (json_object
           [(''resource_id'', JString resource_id), (''updates'', json_bytes updates),
            (''client_id'', JString (decimal (unat client_id))), (''doc_type'', JString doc_type)])))"

definition handle_awareness_event :: "ident \<Rightarrow> 32 word \<Rightarrow> bytes \<Rightarrow> ('d, unit) editing" where
  "handle_awareness_event resource_id client_id awareness_data =
     sbind (sget (is_current_note resource_id)) (\<lambda>is_current.
       if \<not> is_current then sret ()
       else emit_json ''awareness-updates'' (json_object
         [(''resource_id'', JString resource_id), (''updates'', json_bytes awareness_data),
          (''client_id'', JString (decimal (unat client_id)))]))"

definition handle_resource_added ::
  "('d, 'u, 'v) edit_lib \<Rightarrow> ident \<Rightarrow> string \<Rightarrow> ('d, unit) editing" where
  "handle_resource_added E resource_id username =
     sbind (logged (emit_resource_preview E resource_id ''resource-added'')) (\<lambda>_.
     emit_json ''resource-added-notification'' (json_object
       [(''username'', JString username), (''resource_id'', JString resource_id)]))"

definition folder_json :: "folder \<Rightarrow> json" where
  "folder_json f = json_object
     [(''id'', JString (fol_id f)), (''name'', JString (fol_name f)),
      (''description'', JString (case fol_description f of Some d \<Rightarrow> d | None \<Rightarrow> [])),
      (''default'', JBool (fol_default_folder f))]"

definition handle_folders_added :: "folder list \<Rightarrow> ('d, unit) editing" where
  "handle_folders_added folders =
     emit_json ''folders-added-notification'' (json_object [(''folders'', JArray (map folder_json folders))])"

text \<open>The events of \<open>system.rs\<close>.\<close>

definition handle_connected_event :: "('d, unit) editing" where
  "handle_connected_event = emit_json ''peer-connected'' (JBool True)"

definition handle_disconnected_event :: "('d, unit) editing" where
  "handle_disconnected_event = emit_json ''peer-disconnected'' (JBool True)"

definition handle_handshake_failed_event :: "string \<Rightarrow> ('d, unit) editing" where
  "handle_handshake_failed_event e = emit_json ''handshake-failed'' (JString e)"

definition handle_sync_complete_event :: "('d, unit) editing" where
  "handle_sync_complete_event = emit_json ''sync-complete'' (JBool True)"

definition handle_share_complete_event :: "('d, unit) editing" where
  "handle_share_complete_event = emit_json ''share-complete'' (JBool True)"

definition handle_error_event :: "string \<Rightarrow> ('d, unit) editing" where
  "handle_error_event message = emit_json ''p2p-error'' (JString message)"

section \<open>The loop over the events of the network\<close>

definition handle_p2p_event :: "('d, 'u, 'v) edit_lib \<Rightarrow> p2p_event \<Rightarrow> ('d, unit) editing" where
  "handle_p2p_event E event = (case event of
       Connected \<Rightarrow> handle_connected_event
     | Disconnected \<Rightarrow> handle_disconnected_event
     | HandshakeFailed e \<Rightarrow> handle_handshake_failed_event e
     | SyncComplete \<Rightarrow> handle_sync_complete_event
     | ShareComplete \<Rightarrow> handle_share_complete_event
     | ErrorEvent message source \<Rightarrow> handle_error_event message
     | LiveEditConnected connection_id \<Rightarrow> handle_live_edit_connected connection_id
     | DocumentCheckEvent resource_id connection_id \<Rightarrow> handle_document_check E resource_id connection_id
     | DocumentMismatch connection_id \<Rightarrow> handle_document_missmatch connection_id
     | UpdateRequest resource_id connection_id state_vectors _ \<Rightarrow>
         handle_document_update_request E resource_id connection_id state_vectors
     | ProcessUpdate resource_id connection_id updates client_id \<Rightarrow>
         handle_document_process_update E resource_id connection_id updates client_id
     | ProcessUpdateResponse resource_id connection_id updates client_id \<Rightarrow>
         handle_document_process_update_response E resource_id connection_id updates client_id
     | DocumentChanged resource_id connection_id \<Rightarrow> handle_document_changed_event resource_id connection_id
     | EditingEvent resource_id client_id updates doc_type \<Rightarrow>
         handle_editing_event E resource_id client_id updates doc_type
     | AwarenessEvent resource_id client_id awareness_data \<Rightarrow>
         handle_awareness_event resource_id client_id awareness_data
     | UpdatesEvent resource_id updates client_id \<Rightarrow> handle_update_event E resource_id updates client_id
     | ResourceAdded resource_id username \<Rightarrow> handle_resource_added E resource_id username
     | FoldersAdded folders \<Rightarrow> handle_folders_added folders)"

definition listen_for_p2p_events :: "('d, 'u, 'v) edit_lib \<Rightarrow> p2p_event list \<Rightarrow> ('d, unit) editing" where
  "listen_for_p2p_events E = sfor (handle_p2p_event E)"

end
