(* ===== verification/Interface_Events.thy ===== *)
theory Interface_Events
  imports Live_Edit
begin

text \<open>
  \<open>livnote/src-tauri/src/listners/tauri_events.rs\<close>: the events of the user interface. An edit made in
  the interface is broadcast to the connections that edit the note and queued to be applied to the
  live copy; opening another note tells the peers and loads its documents. The steps of the queued
  tasks and the events of the network and the interface interleave in any order.
\<close>

section \<open>Edits\<close>

datatype update_type = SyncUpdate | AwarenessUpdateType

record update_payload =
  up_update_bytes :: bytes
  up_resource_id :: ident
  up_client_id :: "32 word"
  up_doc_type :: string

definition parse_update_payload :: "('d, 'u, 'v) edit_lib \<Rightarrow> string \<Rightarrow> update_payload option" where
  "parse_update_payload E payload_str =
     (case json_read (el_docs E) payload_str of
        Inl _ \<Rightarrow> None
      | Inr payload \<Rightarrow>
     Option.bind (Option.bind (json_get ''update'' payload) as_array) (\<lambda>update_array.
     Option.bind (Option.bind (json_get ''resource_id'' payload) as_str) (\<lambda>resource_id.
     Option.bind (Option.bind (json_get ''clientID'' payload) as_u64) (\<lambda>client_id.
     (let doc_type = (case Option.bind (json_get ''doc_type'' payload) as_str of
            Some t \<Rightarrow> t | None \<Rightarrow> ''default'');
          update_bytes = array_bytes update_array
      in if update_bytes = [] then None
         else Some \<lparr>up_update_bytes = update_bytes, up_resource_id = resource_id,
                    up_client_id = word_of_int client_id, up_doc_type = doc_type\<rparr>)))))"

definition broadcast_update ::
  "('d, 'u, 'v) edit_lib \<Rightarrow> update_type \<Rightarrow> update_payload \<Rightarrow> ('d, unit) editing" where
  "broadcast_update E update_type payload =
     sbind (sget (\<lambda>s. get_active_connections (el_order E) (ed_buffers s))) (\<lambda>active_connections.
       if active_connections = [] then sret ()
       else logged (on_sender (case update_type of
           SyncUpdate \<Rightarrow> send_sync_update_to_connections (up_resource_id payload) (up_client_id payload)
             (up_update_bytes payload) active_connections (up_doc_type payload)
         | AwarenessUpdateType \<Rightarrow> send_awareness_update_to_connections (up_resource_id payload)
             (up_client_id payload) (up_update_bytes payload) active_connections)))"

text \<open>\<open>apply_sync_update_to_buffer\<close> only spawns the task.\<close>

definition apply_sync_update_to_buffer :: "bytes \<Rightarrow> string \<Rightarrow> ('d, unit) editing" where
  "apply_sync_update_to_buffer update_bytes doc_type =
     smodify (\<lambda>s. s\<lparr>ed_tasks := ed_tasks s @ [Apply_begin update_bytes doc_type]\<rparr>)"

definition update_listener ::
  "('d, 'u, 'v) edit_lib \<Rightarrow> update_type \<Rightarrow> string \<Rightarrow> ('d, unit) editing" where
  "update_listener E update_type payload_str =
     (case parse_update_payload E payload_str of
        None \<Rightarrow> sret ()
      | Some payload \<Rightarrow>
          sbind (sget (is_current_note (up_resource_id payload))) (\<lambda>is_current.
            if \<not> is_current then sret ()
            else
              sbind (if update_type = SyncUpdate
                     then apply_sync_update_to_buffer (up_update_bytes payload) (up_doc_type payload)
                     else sret ()) (\<lambda>_.
              broadcast_update E update_type payload)))"

text \<open>
  The next step of a queued task: the three phases of \<open>apply_update\<close>. An update that cannot be
  applied ends the task.
\<close>

definition task_step ::
  "('d, 'u, 'v) yrs \<Rightarrow> apply_task \<Rightarrow> 'd buffers \<Rightarrow> apply_task option \<times> 'd buffers" where
  "task_step Y task b = (case task of
       Apply_begin updates doc_type \<Rightarrow>
         if updates = [] then (None, b)
         else (Some (Apply_fetched (apply_update_fetch doc_type b) updates doc_type), b)
     | Apply_fetched r updates doc_type \<Rightarrow>
         (case apply_at Y r updates b of
            (Inl _, b') \<Rightarrow> (None, b')
          | (Inr _, b') \<Rightarrow> (Some (Apply_done r doc_type), b'))
     | Apply_done r doc_type \<Rightarrow> (None, apply_update_swap doc_type r b))"

definition run_task :: "('d, 'u, 'v) edit_lib \<Rightarrow> nat \<Rightarrow> ('d, unit) editing" where
  "run_task E i = smodify (\<lambda>s. if i < length (ed_tasks s)
     then (case task_step (el_docs E) (ed_tasks s ! i) (ed_buffers s) of
         (None, b) \<Rightarrow> s\<lparr>ed_buffers := b, ed_tasks := take i (ed_tasks s) @ drop (Suc i) (ed_tasks s)\<rparr>
       | (Some t, b) \<Rightarrow> s\<lparr>ed_buffers := b, ed_tasks := (ed_tasks s)[i := t]\<rparr>)
     else s)"

section \<open>Opening another note\<close>

fun trim_start_quotes :: "string \<Rightarrow> string" where
  "trim_start_quotes [] = []"
| "trim_start_quotes (c # cs) = (if c = CHR 0x22 then trim_start_quotes cs else c # cs)"

definition trim_quotes :: "string \<Rightarrow> string" where
  "trim_quotes s = rev (trim_start_quotes (rev (trim_start_quotes s)))"

definition parse_note_id :: "string \<Rightarrow> ident option" where
  "parse_note_id payload =
     (if payload = ''null'' \<or> trim_quotes payload = [] then None else Some (trim_quotes payload))"

definition notify_inactive_connections :: "('d, 'u, 'v) edit_lib \<Rightarrow> ident \<Rightarrow> ('d, unit) editing" where
  "notify_inactive_connections E note_id =
     sbind (sget (\<lambda>s. get_inactive_connections (el_order E) (ed_buffers s))) (\<lambda>inactive_connections.
       if inactive_connections = [] then sret ()
       else logged (on_sender (send_state_vector_request inactive_connections note_id)))"

definition notify_active_connections_document_changed ::
  "('d, 'u, 'v) edit_lib \<Rightarrow> ident \<Rightarrow> ('d, unit) editing" where
  "notify_active_connections_document_changed E previous_note_id =
     sbind (sget (\<lambda>s. get_active_connections (el_order E) (ed_buffers s))) (\<lambda>active_connections.
       if active_connections = [] then sret ()
       else sfor (\<lambda>connection_id. logged (on_sender (send_document_changed connection_id previous_note_id)))
              active_connections)"

definition handle_leaving_note ::
  "('d, 'u, 'v) edit_lib \<Rightarrow> ident \<Rightarrow> ident option \<Rightarrow> ('d, unit) editing" where
  "handle_leaving_note E previous_note_id new_note_id =
     sbind (notify_inactive_connections E previous_note_id) (\<lambda>_.
       if new_note_id = Some previous_note_id then sret ()
       else
         sbind (notify_active_connections_document_changed E previous_note_id) (\<lambda>_.
         sbind (change_note clear_active_connections) (\<lambda>_.
         change_note clear_inactive_connections)))"

definition setup_shared_users_for_note :: "('d, 'u, 'v) edit_lib \<Rightarrow> ident \<Rightarrow> ('d, unit) editing" where
  "setup_shared_users_for_note E note_id =
     logged (sbind get_user (\<lambda>current_user. sbind get_device (\<lambda>current_device.
     sbind (on_data E (get_shared_user_devices_for_note note_id (usr_id current_user) (dev_id current_device) True))
       (\<lambda>(shared_devices, shared_users).
       sbind (logged (on_sender (send_live_edit_requests shared_devices))) (\<lambda>_.
       sbind (smodify (\<lambda>s. s\<lparr>ed_out := ed_out s @ [Emit_users ''shared-users-update'' shared_users]\<rparr>)) (\<lambda>_.
       change_note (set_shared_users shared_devices)))))))"

text \<open>The states of the documents of a note, or none where the note cannot be loaded.\<close>

definition open_note :: "('d, 'u, 'v) edit_lib \<Rightarrow> ident \<Rightarrow> user \<Rightarrow> ('d, unit) editing" where
  "open_note E note_id current_user =
     sbind (sget ed_crypto) (\<lambda>crypto.
     scatch (on_data E (get_resource_by_id_direct (el_crypto E) (el_docs E) crypto note_id (usr_id current_user)))
       (\<lambda>dr. change_note (set_current_note (el_docs E) (Some note_id) (get_document_state ''main_doc'' dr)
          (get_document_state ''image_state'' dr) (get_document_state ''comment_state'' dr)))
       (\<lambda>_. change_note (set_current_note (el_docs E) (Some note_id) None None None)))"

definition note_change_listener :: "('d, 'u, 'v) edit_lib \<Rightarrow> string \<Rightarrow> ('d, unit) editing" where
  "note_change_listener E payload =
     (let new_note_id = parse_note_id payload in
      sbind (sget (\<lambda>s. get_current_note (ed_buffers s))) (\<lambda>previous_note_id.
      sbind (case previous_note_id of
               Some prev_id \<Rightarrow> handle_leaving_note E prev_id new_note_id
             | None \<Rightarrow> sret ()) (\<lambda>_.
      case new_note_id of
        None \<Rightarrow> change_note (set_current_note (el_docs E) None None None None)
      | Some note_id \<Rightarrow>
          sbind (change_note clear_shared_users) (\<lambda>_.
          scatch get_user
            (\<lambda>current_user.
               sbind (open_note E note_id current_user) (\<lambda>_.
               setup_shared_users_for_note E note_id))
            (\<lambda>_. sret ())))))"

section \<open>The manager\<close>

text \<open>The events of the two sides, and the moments a task goes on or the timer ticks.\<close>

datatype (plugins only: code size) editor_event =
    From_network p2p_event
  | Update_of update_type string
  | Note_change string
  | Task_runs nat
  | Timer_ticks

definition handle_event :: "('d, 'u, 'v) edit_lib \<Rightarrow> editor_event \<Rightarrow> ('d, unit) editing" where
  "handle_event E event = (case event of
       From_network e \<Rightarrow> handle_p2p_event E e
     | Update_of update_type payload \<Rightarrow> update_listener E update_type payload
     | Note_change payload \<Rightarrow> note_change_listener E payload
     | Task_runs i \<Rightarrow> run_task E i
     | Timer_ticks \<Rightarrow> reconciliation_tick E)"

definition editor_new :: "('d, 'u, 'v) yrs \<Rightarrow> p2p_sender \<Rightarrow> world \<Rightarrow> crypto_utils \<Rightarrow> 'd editor" where
  "editor_new Y sender w crypto = \<lparr>ed_buffers = buffers_default Y, ed_sender = sender, ed_user = None,
     ed_device = None, ed_world = w, ed_crypto = crypto, ed_out = [], ed_index = [], ed_tasks = []\<rparr>"

end
