(* ===== verification/Note_Convergence.thy ===== *)
theory Note_Convergence
  imports Note_State Crdt_Convergence
begin

text \<open>
  The exchange by which two open copies of a note become equal: one side's state vectors, the
  updates the other side answers with, the differences sent back, and their application. The laws
  of documents and of JSON text are those of \<open>Crdt_Convergence\<close>.
\<close>

section \<open>One document\<close>

text \<open>What each step does with one document, when the message has the entry of the protocol.\<close>

lemma vector_nonempty: "yrs_laws Y ops \<Longrightarrow> y_state_vector Y d \<noteq> []"
  using diff_answers by metis

lemma vector_decodes:
  assumes "yrs_laws Y ops"
  shows "y_decode_sv Y (y_state_vector Y d) = Inr (projr (y_decode_sv Y (y_state_vector Y d)))"
proof -
  obtain v where "y_decode_sv Y (y_state_vector Y d) = Inr v" using diff_answers [OF assms] by metis
  then show ?thesis by simp
qed

lemma get_doc_state_vector_ok:
  "yrs_laws Y ops \<Longrightarrow> get_doc_state_vector Y r n res s =
     (Inr (obj_insert n (doc_entry [] (y_state_vector Y (doc_at r s))) res), s)"
  by (simp add: get_doc_state_vector_def sbind_def vector_nonempty create_doc_result_entry)

lemma answer_peer_ok:
  assumes laws: "yrs_laws Y ops" and v: "y_decode_sv Y (y_state_vector Y d) = Inr v"
  shows "answer_peer Y r (y_state_vector Y d) n res s =
    (Inr (obj_insert n (doc_entry (y_diff Y (doc_at r s) v) (y_state_vector Y (doc_at r s))) res), s)"
  using v by (simp add: answer_peer_def sbind_def get_diff_update_v2_def vector_nonempty [OF laws]
      create_doc_result_entry)

lemma process_doc_state_vectors_ok:
  assumes laws: "yrs_laws Y ops" and v: "y_decode_sv Y (y_state_vector Y d) = Inr v"
  shows "process_doc_state_vectors Y r (Some (doc_entry u (y_state_vector Y d))) n res s =
    (Inr (obj_insert n (doc_entry (y_diff Y (doc_at r s) v) (y_state_vector Y (doc_at r s))) res), s)"
  by (simp add: process_doc_state_vectors_def parse_byte_array_field vector_nonempty [OF laws]
      answer_peer_ok [OF laws v] Let_def)

lemma apply_diff:
  assumes laws: "yrs_laws Y ops" and v: "y_decode_sv Y (y_state_vector Y d0) = Inr v"
    and sub: "ops d0 \<subseteq> ops (slot_doc sl s)"
  obtains d1 where "ops d1 = ops (slot_doc sl s) \<union> ops d2" "y_diff Y d2 v \<noteq> []"
    "apply_at Y (slot_ref sl s) (y_diff Y d2 v) s = (Inr (), put_doc (slot_ref sl s) d1 s)"
proof -
  obtain w where w: "y_decode_sv Y (y_state_vector Y d0) = Inr w" "\<And>d2. y_diff Y d2 w \<noteq> []"
    "\<And>d2 d3. ops d0 \<subseteq> ops d3 \<Longrightarrow>
       \<exists>d1. apply_update_v2 Y d3 (y_diff Y d2 w) = Inr d1 \<and> ops d1 = ops d3 \<union> ops d2"
    using diff_answers [OF laws, of d0] by metis
  have "w = v" using w(1) v by simp
  with w(3) [OF sub, of d2] obtain d1 where "apply_update_v2 Y (slot_doc sl s) (y_diff Y d2 v) = Inr d1"
    "ops d1 = ops (slot_doc sl s) \<union> ops d2" by blast
  with w(2) \<open>w = v\<close> show thesis by (intro that [of d1]) (simp_all add: apply_at_def sbind_def slot_doc_def)
qed

lemma updates_and_diff_ok:
  assumes laws: "yrs_laws Y ops" and v: "y_decode_sv Y (y_state_vector Y (slot_doc sl s)) = Inr v"
    and v': "y_decode_sv Y (y_state_vector Y d') = Inr v'" and ok: "handles_ok s"
    and entry: "map_of msg n = Some (doc_entry (y_diff Y d2 v) (y_state_vector Y d'))"
  obtains d1 where "ops d1 = ops (slot_doc sl s) \<union> ops d2"
    "\<And>res. updates_and_diff Y sl n msg res s =
       (Inr (obj_insert n (doc_entry (y_diff Y d1 v') (y_state_vector Y d1)) res), put_doc (slot_ref sl s) d1 s)"
proof -
  obtain d1 where d1: "ops d1 = ops (slot_doc sl s) \<union> ops d2" "y_diff Y d2 v \<noteq> []"
    "apply_at Y (slot_ref sl s) (y_diff Y d2 v) s = (Inr (), put_doc (slot_ref sl s) d1 s)"
    using apply_diff [OF laws v order_refl] by metis
  have "doc_at (slot_ref sl s) (put_doc (slot_ref sl s) d1 s) = d1"
    using ok by (simp add: doc_at_put_doc handles_okD)
  with d1 show thesis
    by (intro that [of d1]) (simp_all add: updates_and_diff_def process_doc_updates_and_diff_def entry
        parse_byte_array_field sbind_def smap_err_def Let_def vector_nonempty [OF laws] answer_peer_ok [OF laws v'])
qed

lemma peer_updates_of_ok:
  assumes laws: "yrs_laws Y ops" and v: "y_decode_sv Y (y_state_vector Y d0) = Inr v"
    and sub: "ops d0 \<subseteq> ops (slot_doc sl s)"
    and entry: "map_of msg n = Some (doc_entry (y_diff Y d2 v) sv)"
  obtains d1 where "ops d1 = ops (slot_doc sl s) \<union> ops d2"
    "peer_updates_of Y sl n msg s = (Inr (), put_doc (slot_ref sl s) d1 s)"
proof -
  obtain d1 where "ops d1 = ops (slot_doc sl s) \<union> ops d2" "y_diff Y d2 v \<noteq> []"
    "apply_at Y (slot_ref sl s) (y_diff Y d2 v) s = (Inr (), put_doc (slot_ref sl s) d1 s)"
    using apply_diff [OF laws v sub] by metis
  then show thesis
    by (intro that [of d1]) (simp_all add: peer_updates_of_def entry parse_byte_array_field sbind_def
        smap_err_def Let_def)
qed

section \<open>The messages\<close>

text \<open>A message with the entries of two documents, and what the receiver reads.\<close>

definition two_docs :: "json \<Rightarrow> json \<Rightarrow> json_map" where
  "two_docs m i = obj_insert ''image_state'' i (obj_insert ''main_doc'' m [])"

lemma two_docs_entries [simp]:
  "map_of (two_docs m i) ''main_doc'' = Some m" "map_of (two_docs m i) ''image_state'' = Some i"
  by (simp_all add: two_docs_def)

lemma json_read_printed:
  "json_laws Y \<Longrightarrow> json_canonical (JObject m) \<Longrightarrow> json_read_map Y (json_print Y (JObject m)) = Inr m"
  by (simp only: json_laws_def)

lemma two_docs_canonical:
  "json_canonical m \<Longrightarrow> json_canonical i \<Longrightarrow> json_canonical (JObject (two_docs m i))"
  unfolding two_docs_def by (intro obj_insert_canonical empty_canonical)

lemmas two_docs_read = json_read_printed [OF _ two_docs_canonical]

lemma note_state_vectors_ok:
  assumes "yrs_laws Y ops" "json_laws Y"
  obtains res where "note_state_vectors Y s = (Inr (json_print Y (JObject res)), s)"
    "json_read_map Y (json_print Y (JObject res)) = Inr res"
    "map_of res ''main_doc'' = Some (doc_entry [] (y_state_vector Y (slot_doc Main_doc s)))"
    "map_of res ''image_state'' = Some (doc_entry [] (y_state_vector Y (slot_doc Image_doc s)))"
proof -
  let ?e = "\<lambda>sl. doc_entry [] (y_state_vector Y (slot_doc sl s))"
  let ?res = "obj_insert ''comment_state'' (?e Comment_doc) (two_docs (?e Main_doc) (?e Image_doc))"
  have "note_state_vectors Y s = (Inr (json_print Y (JObject ?res)), s)"
    by (simp add: note_state_vectors_def sbind_def get_doc_state_vector_ok [OF assms(1)] slot_doc_def two_docs_def
        del: obj_insert.simps)
  moreover have "json_read_map Y (json_print Y (JObject ?res)) = Inr ?res"
    by (intro json_read_printed [OF assms(2)] obj_insert_canonical two_docs_canonical doc_entry_canonical)
  ultimately show thesis by (intro that [of ?res]) simp_all
qed

section \<open>The exchange\<close>

text \<open>
  C18. Live editing brings two open copies of a note together: \<open>a\<close> sends its state vectors, \<open>b\<close>
  answers with what \<open>a\<close> misses, \<open>a\<close> applies this and answers with what \<open>b\<close> misses, \<open>b\<close> applies
  that. Every step succeeds, and afterwards the text and the images have on both sides exactly the
  operations that either side had. The comments are left out of the exchange: both sides keep theirs.
\<close>

theorem live_exchange_converges:
  assumes laws: "yrs_laws Y ops" "json_laws Y" and ok: "handles_ok a" "handles_ok b"
  shows "\<exists>m1 m2 m3 a' b'. note_state_vectors Y a = (Inr m1, a) \<and> note_generate_updates Y m1 b = (Inr m2, b) \<and>
    apply_updates_and_generate_diff Y m2 a = (Inr m3, a') \<and> apply_peer_updates Y m3 b = (Inr (), b') \<and>
    (\<forall>sl \<in> {Main_doc, Image_doc}. ops (slot_doc sl a') = ops (slot_doc sl a) \<union> ops (slot_doc sl b) \<and>
       ops (slot_doc sl b') = ops (slot_doc sl a) \<union> ops (slot_doc sl b)) \<and>
    slot_doc Comment_doc a' = slot_doc Comment_doc a \<and> slot_doc Comment_doc b' = slot_doc Comment_doc b"
proof -
  let ?sv = "\<lambda>d. y_state_vector Y d"
  let ?vec = "\<lambda>d. projr (y_decode_sv Y (?sv d))"
  note vec = vector_decodes [OF laws(1)]
  obtain r1 where m1: "note_state_vectors Y a = (Inr (json_print Y (JObject r1)), a)"
    "json_read_map Y (json_print Y (JObject r1)) = Inr r1"
    "map_of r1 ''main_doc'' = Some (doc_entry [] (?sv (slot_doc Main_doc a)))"
    "map_of r1 ''image_state'' = Some (doc_entry [] (?sv (slot_doc Image_doc a)))"
    using note_state_vectors_ok [OF laws] by metis
  let ?e2 = "\<lambda>sl. doc_entry (y_diff Y (slot_doc sl b) (?vec (slot_doc sl a))) (?sv (slot_doc sl b))"
  let ?r2 = "two_docs (?e2 Main_doc) (?e2 Image_doc)"
  have m2: "note_generate_updates Y (json_print Y (JObject r1)) b = (Inr (json_print Y (JObject ?r2)), b)"
    by (simp add: note_generate_updates_def sbind_def m1 process_doc_state_vectors_ok [OF laws(1) vec]
        slot_doc_def two_docs_def del: obj_insert.simps)
  obtain d1 where d1: "ops d1 = ops (slot_doc Main_doc a) \<union> ops (slot_doc Main_doc b)"
    "\<And>res. updates_and_diff Y Main_doc ''main_doc'' ?r2 res a =
       (Inr (obj_insert ''main_doc'' (doc_entry (y_diff Y d1 (?vec (slot_doc Main_doc b))) (?sv d1)) res),
        put_doc (slot_ref Main_doc a) d1 a)"
    by (rule updates_and_diff_ok [OF laws(1) vec vec ok(1) two_docs_entries(1)]) (rule that; assumption)
  define a1 where "a1 = put_doc (slot_ref Main_doc a) d1 a"
  have a1: "handles_ok a1" "slot_doc Image_doc a1 = slot_doc Image_doc a"
    using ok(1) by (simp_all add: a1_def slot_doc_puts)
  have i2: "map_of ?r2 ''image_state'' = Some (doc_entry
      (y_diff Y (slot_doc Image_doc b) (?vec (slot_doc Image_doc a1))) (?sv (slot_doc Image_doc b)))"
    by (simp add: a1(2))
  obtain d2 where d2: "ops d2 = ops (slot_doc Image_doc a) \<union> ops (slot_doc Image_doc b)"
    "\<And>res. updates_and_diff Y Image_doc ''image_state'' ?r2 res a1 =
       (Inr (obj_insert ''image_state'' (doc_entry (y_diff Y d2 (?vec (slot_doc Image_doc b))) (?sv d2)) res),
        put_doc (slot_ref Image_doc a1) d2 a1)"
    by (rule updates_and_diff_ok [OF laws(1) vec vec a1(1) i2, unfolded a1(2)]) (rule that; assumption)
  define a' where "a' = put_doc (slot_ref Image_doc a1) d2 a1"
  let ?r3 = "two_docs (doc_entry (y_diff Y d1 (?vec (slot_doc Main_doc b))) (?sv d1))
    (doc_entry (y_diff Y d2 (?vec (slot_doc Image_doc b))) (?sv d2))"
  have m3: "apply_updates_and_generate_diff Y (json_print Y (JObject ?r2)) a = (Inr (json_print Y (JObject ?r3)), a')"
    using d1(2) d2(2) laws(2)
    by (simp add: apply_updates_and_generate_diff_def sbind_def two_docs_read a1_def a'_def del: obj_insert.simps)
       (simp add: two_docs_def del: obj_insert.simps)
  have a': "ops (slot_doc Main_doc a') = ops (slot_doc Main_doc a) \<union> ops (slot_doc Main_doc b)"
    "ops (slot_doc Image_doc a') = ops (slot_doc Image_doc a) \<union> ops (slot_doc Image_doc b)"
    "slot_doc Comment_doc a' = slot_doc Comment_doc a"
    using ok(1) a1(1) d1(1) d2(1) by (simp_all add: a'_def slot_doc_puts) (simp_all add: a1_def slot_doc_puts)
  obtain e1 where e1: "ops e1 = ops (slot_doc Main_doc b) \<union> ops d1"
    "peer_updates_of Y Main_doc ''main_doc'' ?r3 b = (Inr (), put_doc (slot_ref Main_doc b) e1 b)"
    using peer_updates_of_ok [OF laws(1) vec order_refl two_docs_entries(1)] by metis
  define b1 where "b1 = put_doc (slot_ref Main_doc b) e1 b"
  have b1: "handles_ok b1" "slot_doc Image_doc b1 = slot_doc Image_doc b"
    using ok(2) by (simp_all add: b1_def slot_doc_puts)
  have sub: "ops (slot_doc Image_doc b) \<subseteq> ops (slot_doc Image_doc b1)" by (simp add: b1)
  obtain e2 where e2: "ops e2 = ops (slot_doc Image_doc b1) \<union> ops d2"
    "peer_updates_of Y Image_doc ''image_state'' ?r3 b1 = (Inr (), put_doc (slot_ref Image_doc b1) e2 b1)"
    using peer_updates_of_ok [OF laws(1) vec sub two_docs_entries(2)] by metis
  define b' where "b' = put_doc (slot_ref Image_doc b1) e2 b1"
  have m4: "apply_peer_updates Y (json_print Y (JObject ?r3)) b = (Inr (), b')"
    using e1(2) e2(2) laws(2) by (simp add: apply_peer_updates_def sbind_def two_docs_read b1_def b'_def)
  have b': "ops (slot_doc Main_doc b') = ops (slot_doc Main_doc a) \<union> ops (slot_doc Main_doc b)"
    "ops (slot_doc Image_doc b') = ops (slot_doc Image_doc a) \<union> ops (slot_doc Image_doc b)"
    "slot_doc Comment_doc b' = slot_doc Comment_doc b"
    using ok(2) b1 e1(1) e2(1) d1(1) d2(1)
    by (auto simp add: b'_def slot_doc_puts) (auto simp: b1_def slot_doc_puts)
  show ?thesis using m1(1) m2 m3 m4 a' b' by blast
qed

end
