(* ===== verification/Editor_Properties.thy ===== *)
theory Editor_Properties
  imports Interface_Events Note_Convergence
begin

text \<open>
  What holds of the open note in every order in which the events of the network, of the interface and
  of the queued tasks are handled: its three documents stay apart. And what does not: an update that
  is still being applied when another note is opened ends up in that note.
\<close>

section \<open>The parts of the state an operation leaves alone\<close>

lemma keeps_on_note: "(\<And>s b. P s \<Longrightarrow> b = snd (m (ed_buffers s)) \<Longrightarrow> P (s\<lparr>ed_buffers := b\<rparr>)) \<Longrightarrow> keeps P (on_note m)"
  unfolding keeps_def on_note_def by (simp split: prod.splits) (metis snd_conv)

lemma keeps_change_note: "(\<And>s. P s \<Longrightarrow> P (s\<lparr>ed_buffers := f (ed_buffers s)\<rparr>)) \<Longrightarrow> keeps P (change_note f)"
  by (simp add: change_note_def keeps_def)

lemma keeps_on_sender: "(\<And>s p. P s \<Longrightarrow> P (s\<lparr>ed_sender := p\<rparr>)) \<Longrightarrow> keeps P (on_sender m)"
  by (simp add: keeps_def on_sender_def split: prod.splits)

lemma keeps_on_data: "(\<And>s w. P s \<Longrightarrow> P (s\<lparr>ed_world := w\<rparr>)) \<Longrightarrow> keeps P (on_data E m)"
  by (simp add: keeps_def on_data_def split: prod.splits)

lemma keeps_emit_json: "(\<And>s out. P s \<Longrightarrow> P (s\<lparr>ed_out := out\<rparr>)) \<Longrightarrow> keeps P (emit_json n p)"
  by (simp add: keeps_def emit_json_def)

lemma keeps_logged: "keeps P m \<Longrightarrow> keeps P (logged m)"
  unfolding logged_def by (intro keeps_control)

text \<open>A property of the open note and of the tasks, which only operations on these can change.\<close>

definition about_note :: "('d buffers \<Rightarrow> apply_task list \<Rightarrow> bool) \<Rightarrow> 'd editor \<Rightarrow> bool" where
  "about_note P s \<longleftrightarrow> P (ed_buffers s) (ed_tasks s)"

named_theorems note_keeps \<open>operations that leave the open note and the tasks as they are\<close>

lemma note_keeps_basic [note_keeps]:
  "keeps (about_note P) (on_sender m1)" "keeps (about_note P) (on_data E m2)"
  "keeps (about_note P) (emit_json n p)"
  by (rule keeps_on_sender keeps_on_data keeps_emit_json; simp add: about_note_def)+

lemma note_keeps_user [note_keeps]:
  "keeps (about_note P) get_user" "keeps (about_note P) get_device"
  unfolding get_user_def get_device_def by (auto intro!: keeps_control keeps_sget)

lemma note_keeps_preview [note_keeps]: "keeps (about_note P) (emit_resource_preview E i n)"
  unfolding emit_resource_preview_def
  by (intro keeps_control keeps_sget keeps_smodify note_keeps) (simp add: about_note_def)

lemma note_keeps_update_event [note_keeps]: "keeps (about_note P) (handle_update_event E i u c)"
  unfolding handle_update_event_def by (intro keeps_control keeps_sget keeps_logged note_keeps)

lemma note_keeps_events [note_keeps]:
  "keeps (about_note P) (handle_live_edit_connected i)" "keeps (about_note P) (handle_awareness_event r c b)"
  "keeps (about_note P) (handle_resource_added E r n)" "keeps (about_note P) (handle_folders_added fs)"
  "keeps (about_note P) handle_connected_event" "keeps (about_note P) handle_disconnected_event"
  "keeps (about_note P) (handle_handshake_failed_event e)" "keeps (about_note P) handle_sync_complete_event"
  "keeps (about_note P) handle_share_complete_event" "keeps (about_note P) (handle_error_event e)"
  unfolding handle_live_edit_connected_def handle_awareness_event_def handle_resource_added_def
    handle_folders_added_def handle_connected_event_def handle_disconnected_event_def
    handle_handshake_failed_event_def handle_sync_complete_event_def handle_share_complete_event_def
    handle_error_event_def
  by (intro keeps_control keeps_sget keeps_logged note_keeps)+

lemma note_keeps_interface [note_keeps]:
  "keeps (about_note P) (broadcast_update E t p)" "keeps (about_note P) (notify_inactive_connections E i)"
  "keeps (about_note P) (notify_active_connections_document_changed E i)"
  unfolding broadcast_update_def notify_inactive_connections_def notify_active_connections_document_changed_def
  by (intro keeps_control keeps_sget keeps_sfor keeps_logged note_keeps)+

lemma keeps_sbind_result:
  "keeps P m \<Longrightarrow> (\<And>x s s'. m s = (Inr x, s') \<Longrightarrow> keeps P (f x)) \<Longrightarrow> keeps P (sbind m f)"
  unfolding keeps_def sbind_def by (simp split: prod.splits sum.splits) (metis snd_conv)

section \<open>The documents stay apart\<close>

text \<open>
  A note is opened with three new documents in a row, so the place of a document in the store tells
  what it is of.
\<close>

fun slot_index :: "doc_slot \<Rightarrow> nat" where
  "slot_index Main_doc = 0"
| "slot_index Image_doc = 1"
| "slot_index Comment_doc = 2"

definition handle_of :: "doc_slot \<Rightarrow> nat \<Rightarrow> 'd buffers \<Rightarrow> bool" where
  "handle_of sl r b \<longleftrightarrow> r < length (nb_docs b) \<and> r mod 3 = slot_index sl"

definition note_inv :: "'d buffers \<Rightarrow> bool" where
  "note_inv b \<longleftrightarrow> length (nb_docs b) mod 3 = 0 \<and> (\<forall>sl. handle_of sl (slot_ref sl b) b)"

fun task_ok :: "'d buffers \<Rightarrow> apply_task \<Rightarrow> bool" where
  "task_ok b (Apply_begin u ty) \<longleftrightarrow> True"
| "task_ok b (Apply_fetched r u ty) \<longleftrightarrow> handle_of (doc_selection ty) r b"
| "task_ok b (Apply_done r ty) \<longleftrightarrow> handle_of (doc_selection ty) r b"

definition tasks_inv :: "'d buffers \<Rightarrow> apply_task list \<Rightarrow> bool" where
  "tasks_inv b ts \<longleftrightarrow> note_inv b \<and> list_all (task_ok b) ts"

abbreviation editor_inv :: "'d editor \<Rightarrow> bool" where
  "editor_inv \<equiv> about_note tasks_inv"

lemma slot_index_inj [simp]: "slot_index sl = slot_index sl' \<longleftrightarrow> sl = sl'"
  by (cases sl; cases sl') simp_all

lemma note_inv_handles_ok: "note_inv b \<Longrightarrow> handles_ok b"
  unfolding note_inv_def handles_ok_def handle_of_def by (metis slot_index_inj)

text \<open>The store only grows: with \<open>n\<close> documents in it, it has at least \<open>n\<close> later.\<close>

definition grown :: "nat \<Rightarrow> 'd buffers \<Rightarrow> bool" where
  "grown n b \<longleftrightarrow> note_inv b \<and> n \<le> length (nb_docs b)"

lemma note_inv_set_current:
  assumes "grown n b" shows "grown n (set_current_note Y m i c e b)"
proof -
  have "length (nb_docs b) mod 3 = 0" using assms by (simp add: grown_def note_inv_def)
  then have "Suc (length (nb_docs b)) mod 3 = 1" "Suc (Suc (length (nb_docs b))) mod 3 = 2"
    "Suc (Suc (Suc (length (nb_docs b)))) mod 3 = 0"
    by presburger+
  with \<open>length (nb_docs b) mod 3 = 0\<close> show ?thesis
    using assms by (simp add: grown_def note_inv_def set_current_note_def Let_def all_slots handle_of_def)
qed

lemma grown_put_doc [simp]: "grown n (put_doc r d b) = grown n b"
  by (simp add: grown_def note_inv_def handle_of_def) (simp add: put_doc_def)

lemma handle_of_put_doc [simp]: "handle_of sl q (put_doc r d b) = handle_of sl q b"
  by (simp add: handle_of_def put_doc_def)

lemma grown_set_slot: "grown n b \<Longrightarrow> handle_of sl r b \<Longrightarrow> grown n (set_slot sl r b)"
  by (cases sl) (auto simp: grown_def note_inv_def all_slots handle_of_def)

lemma handle_of_set_slot [simp]: "handle_of sl' q (set_slot sl r b) = handle_of sl' q b"
  by (cases sl) (simp_all add: handle_of_def)

lemma slot_handle: "grown n b \<Longrightarrow> handle_of sl (slot_ref sl b) b"
  by (simp add: grown_def note_inv_def)

lemma grown_connections:
  "grown n b \<Longrightarrow> grown n (add_active_connection i b)" "grown n b \<Longrightarrow> grown n (add_inactive_connection i b)"
  "grown n b \<Longrightarrow> grown n (remove_active_connection i b)" "grown n b \<Longrightarrow> grown n (clear_active_connections b)"
  "grown n b \<Longrightarrow> grown n (clear_inactive_connections b)" "grown n b \<Longrightarrow> grown n (clear_shared_users b)"
  "grown n b \<Longrightarrow> grown n (set_shared_users us b)"
  by (simp_all add: grown_def note_inv_def all_slots handle_of_def add_active_connection_def
      add_inactive_connection_def remove_active_connection_def clear_active_connections_def
      clear_inactive_connections_def clear_shared_users_def set_shared_users_def)

text \<open>Programs that read a handle and put it back after some work.\<close>

definition holding :: "nat \<Rightarrow> doc_slot \<Rightarrow> nat \<Rightarrow> 'd buffers \<Rightarrow> bool" where
  "holding n sl r b \<longleftrightarrow> grown n b \<and> handle_of sl r b"

lemma keeps_fetch:
  assumes "\<And>r. keeps (holding n sl r) (f r)"
  shows "keeps (grown n) (sbind (sget (slot_ref sl)) f)"
  using assms slot_handle unfolding keeps_def sbind_def holding_def by fastforce

lemma keeps_put_back: "keeps (holding n sl r) (smodify (set_slot sl r))"
  by (rule keeps_smodify) (simp add: holding_def grown_set_slot)

lemma keeps_apply_at: "keeps (grown n) (apply_at Y r u)" "keeps (holding n sl q) (apply_at Y r u)"
  unfolding apply_at_def by (intro keeps_control keeps_sget keeps_smodify; simp add: holding_def)+

lemma keeps_answer_peer: "keeps P (answer_peer Y r v n res)"
  unfolding answer_peer_def by (intro keeps_control keeps_sget)

lemma keeps_note_apply_update: "keeps (grown n) (note_apply_update Y u ty)"
proof -
  have "keeps (grown n) (sbind (sget (slot_ref (doc_selection ty))) (\<lambda>temp_doc.
      scatch (apply_at Y temp_doc u) (\<lambda>_. smodify (set_slot (doc_selection ty) temp_doc)) (\<lambda>_. sret ())))"
    by (rule keeps_fetch) (intro keeps_scatch keeps_apply_at keeps_put_back keeps_sret)
  then show ?thesis
    by (auto simp: note_apply_update_def apply_update_fetch_def [abs_def] apply_update_swap_def [abs_def] keeps_sret)
qed

lemma keeps_process_updates:
  "keeps (holding n sl q) (process_doc_updates_and_diff Y r v m res)"
  unfolding process_doc_updates_and_diff_def Let_def
  by (intro keeps_control keeps_apply_at keeps_answer_peer)

lemma process_updates_handle:
  "process_doc_updates_and_diff Y r v m res s = (Inr (Some q, res'), s') \<Longrightarrow> q = r"
  by (auto simp: process_doc_updates_and_diff_def Let_def sbind_eq_Inr split: option.splits if_splits)

lemma keeps_updates_and_diff: "keeps (grown n) (updates_and_diff Y sl m d res)"
  unfolding updates_and_diff_def
proof (rule keeps_fetch, rule keeps_sbind_result)
  show "keeps (holding n sl r) (process_doc_updates_and_diff Y r (map_of d m) m res)" for r
    by (rule keeps_process_updates)
  fix r x s s'
  assume "process_doc_updates_and_diff Y r (map_of d m) m res s = (Inr x, s')"
  then have "fst x = None \<or> fst x = Some r"
    by (metis process_updates_handle option.exhaust prod.collapse)
  then show "keeps (holding n sl r) (case x of (updated_doc, result) \<Rightarrow>
      sbind (case updated_doc of None \<Rightarrow> sret () | Some q \<Rightarrow> smodify (set_slot sl q)) (\<lambda>_. sret result))"
    unfolding split_beta by (cases "fst x") (simp_all add: keeps_sbind keeps_sret keeps_put_back)
qed

lemma keeps_peer_updates_of: "keeps (grown n) (peer_updates_of Y sl m d)"
  unfolding peer_updates_of_def Let_def
  by (intro keeps_control keeps_fetch keeps_apply_at keeps_put_back)

text \<open>What the manager runs on the open note.\<close>

named_theorems note_grows \<open>operations on the open note that keep its documents apart\<close>

lemma note_grows_updates [note_grows]:
  "keeps (grown n) (note_apply_update Y u ty)"
  "keeps (grown n) (apply_updates_and_generate_diff Y t)" "keeps (grown n) (apply_peer_updates Y t)"
  unfolding apply_updates_and_generate_diff_def apply_peer_updates_def
  by (intro keeps_control keeps_note_apply_update keeps_updates_and_diff keeps_peer_updates_of)+

lemma note_grows_reads [note_grows]:
  "keeps P (note_state_vectors Y)" "keeps P (note_generate_updates Y t)"
  unfolding note_state_vectors_def get_doc_state_vector_def note_generate_updates_def
    process_doc_state_vectors_def Let_def
  by (intro keeps_control keeps_sget keeps_answer_peer)+

section \<open>Every event keeps the documents apart\<close>

text \<open>The tasks stay valid while the store grows.\<close>

lemma task_ok_grown: "task_ok b t \<Longrightarrow> length (nb_docs b) \<le> length (nb_docs b') \<Longrightarrow> task_ok b' t"
  by (cases t) (auto simp: handle_of_def)

lemma tasks_inv_grown: "tasks_inv b ts \<Longrightarrow> grown (length (nb_docs b)) b' \<Longrightarrow> tasks_inv b' ts"
  by (auto simp: tasks_inv_def list_all_iff grown_def task_ok_grown)

lemma grown_tasks_inv: "tasks_inv b ts \<Longrightarrow> grown (length (nb_docs b)) b"
  by (simp add: tasks_inv_def grown_def)

lemma editor_on_note: "(\<And>n. keeps (grown n) m) \<Longrightarrow> keeps editor_inv (on_note m)"
  by (rule keeps_on_note)
     (auto simp: about_note_def keeps_def dest: grown_tasks_inv intro: tasks_inv_grown)

lemma editor_change_note: "(\<And>n b. grown n b \<Longrightarrow> grown n (f b)) \<Longrightarrow> keeps editor_inv (change_note f)"
  by (rule keeps_change_note)
     (auto simp: about_note_def dest: grown_tasks_inv intro: tasks_inv_grown)

lemmas editor_steps = keeps_control keeps_sget keeps_sfor keeps_logged note_keeps
  editor_on_note editor_change_note note_grows

lemma editor_live_edit:
  "keeps editor_inv (handle_document_missmatch i)" "keeps editor_inv (handle_document_check E r i)"
  "keeps editor_inv (handle_document_update_request E r i t)"
  "keeps editor_inv (handle_document_process_update E r i t c)"
  "keeps editor_inv (handle_document_process_update_response E r i t c)"
  "keeps editor_inv (handle_document_changed_event r i)" "keeps editor_inv (handle_editing_event E r c u ty)"
  unfolding handle_document_missmatch_def handle_document_check_def
    handle_document_update_request_def handle_document_process_update_def
    handle_document_process_update_response_def handle_document_changed_event_def handle_editing_event_def
  by (intro editor_steps grown_connections; assumption)+

lemma editor_p2p_event: "keeps editor_inv (handle_p2p_event E e)"
  unfolding handle_p2p_event_def by (cases e) (simp_all add: note_keeps editor_live_edit)

lemma editor_update_listener: "keeps editor_inv (update_listener E t p)"
proof -
  have "keeps editor_inv (apply_sync_update_to_buffer u ty)" for u ty
    unfolding apply_sync_update_to_buffer_def
    by (rule keeps_smodify) (simp add: about_note_def tasks_inv_def)
  then show ?thesis unfolding update_listener_def by (intro editor_steps) auto
qed

lemma editor_note_change: "keeps editor_inv (note_change_listener E p)"
  unfolding note_change_listener_def open_note_def setup_shared_users_for_note_def handle_leaving_note_def Let_def
  by (intro editor_steps keeps_smodify; simp add: grown_connections note_inv_set_current about_note_def)

lemma task_step_ok:
  assumes "note_inv b" "task_ok b t" "task_step Y t b = (r, b')"
  shows "grown (length (nb_docs b)) b'" "r = Some t' \<Longrightarrow> task_ok b' t'"
proof -
  have g: "grown (length (nb_docs b)) b" using assms(1) by (simp add: grown_def)
  have "grown (length (nb_docs b)) b' \<and> (r = Some t' \<longrightarrow> task_ok b' t')"
  proof (cases t)
    case (Apply_begin u ty)
    with assms(3) g slot_handle [OF g] show ?thesis
      by (auto simp: task_step_def apply_update_fetch_def split: if_splits)
  next
    case (Apply_fetched h u ty)
    have "grown (length (nb_docs b)) (snd (apply_at Y h u b))" using keeps_apply_at(1) g unfolding keeps_def by blast
    with Apply_fetched assms(2,3) show ?thesis
      by (auto simp: task_step_def handle_of_def grown_def split: prod.splits sum.splits)
  next
    case (Apply_done h ty)
    with assms(2,3) g show ?thesis
      by (auto simp: task_step_def apply_update_swap_def grown_set_slot)
  qed
  then show "grown (length (nb_docs b)) b'" "r = Some t' \<Longrightarrow> task_ok b' t'" by blast+
qed

lemma list_all_without: "list_all P xs \<Longrightarrow> list_all P (take i xs @ drop (Suc i) xs)"
  by (auto simp: list_all_iff dest: in_set_dropD in_set_takeD)

lemma list_all_update: "list_all P xs \<Longrightarrow> P x \<Longrightarrow> list_all P (xs[i := x])"
  unfolding list_all_iff using set_update_subset_insert [of xs i x] by blast

lemma editor_run_task: "keeps editor_inv (run_task E i)"
proof (unfold run_task_def, rule keeps_smodify, goal_cases)
  case (1 s)
  show ?case
  proof (cases "i < length (ed_tasks s)")
    case True
    have inv: "tasks_inv (ed_buffers s) (ed_tasks s)" using 1 by (simp add: about_note_def)
    then have ok: "note_inv (ed_buffers s)" "task_ok (ed_buffers s) (ed_tasks s ! i)"
      using True by (simp_all add: tasks_inv_def list_all_length)
    obtain t b where step: "task_step (el_docs E) (ed_tasks s ! i) (ed_buffers s) = (t, b)"
      by (cases "task_step (el_docs E) (ed_tasks s ! i) (ed_buffers s)")
    have "tasks_inv b (ed_tasks s)" using tasks_inv_grown [OF inv] task_step_ok(1) [OF ok step] .
    then show ?thesis
      using True step task_step_ok(2) [OF ok step]
      by (auto simp: about_note_def tasks_inv_def list_all_without list_all_update simp del: list_all_append
          split: option.splits)
  qed (use 1 in simp)
qed

lemma editor_reconciliation: "keeps editor_inv (reconciliation_tick E)"
  unfolding reconciliation_tick_def perform_reconciliation_def by (intro editor_steps)

lemma editor_event: "keeps editor_inv (handle_event E e)"
  unfolding handle_event_def
  by (cases e) (simp_all add: editor_p2p_event editor_update_listener editor_note_change editor_run_task
      editor_reconciliation)

lemma editor_new_inv: "editor_inv (editor_new Y p w c)"
  by (simp add: about_note_def tasks_inv_def note_inv_def editor_new_def buffers_default_def all_slots handle_of_def)

text \<open>Every state the manager gets into, in any order of events and task steps.\<close>

inductive editor_reach :: "('d, 'u, 'v) edit_lib \<Rightarrow> 'd editor \<Rightarrow> bool" for E where
  reach_new: "editor_reach E (editor_new (el_docs E) p w c)"
| reach_event: "editor_reach E s \<Longrightarrow> editor_reach E (snd (handle_event E e s))"
| reach_login: "editor_reach E s \<Longrightarrow> editor_reach E (s\<lparr>ed_user := u, ed_device := d, ed_world := w, ed_crypto := c\<rparr>)"

text \<open>
  However edits, messages of peers, changes of the open note and the steps of queued updates
  interleave, the text, the images and the comments of the open note are three different documents
  of the store, and a queued update holds a document of the kind it is for.
\<close>

theorem open_documents_separate:
  assumes "editor_reach E s"
  shows "handles_ok (ed_buffers s) \<and> list_all (task_ok (ed_buffers s)) (ed_tasks s)"
proof -
  have "editor_inv s"
    using assms
  proof induction
    case (reach_event s e)
    then show ?case using editor_event unfolding keeps_def by blast
  qed (simp_all add: editor_new_inv, simp add: about_note_def)
  then show ?thesis by (simp add: about_note_def tasks_inv_def note_inv_handles_ok)
qed

section \<open>Leaving a note\<close>

text \<open>What is sent for a list of events, while the receiver is there.\<close>

lemma p2p_send_open: "ps_open p \<Longrightarrow> p2p_send e p = (Inr (), p\<lparr>ps_events := ps_events p @ [e]\<rparr>)"
  by (simp add: p2p_send_def)

definition note_departure :: "('d, 'u, 'v) edit_lib \<Rightarrow> ident \<Rightarrow> 'd editor \<Rightarrow> incoming_event list" where
  "note_departure E note_id s =
     (if nb_inactive (ed_buffers s) = {} then []
      else [BroadCastStateVectorRequest (el_order E (nb_inactive (ed_buffers s))) note_id]) @
     map (\<lambda>i. In_DocumentChanged i note_id) (el_order E (nb_active (ed_buffers s)))"

definition sending_events :: "'d editor \<Rightarrow> incoming_event list \<Rightarrow> 'd editor" where
  "sending_events s es = s\<lparr>ed_sender := (ed_sender s)\<lparr>ps_events := ps_events (ed_sender s) @ es\<rparr>\<rparr>"

lemma on_sender_open:
  "ps_open (ed_sender s) \<Longrightarrow> logged (on_sender (p2p_send e)) s = (Inr (), sending_events s [e])"
  by (simp add: logged_def scatch_def on_sender_def p2p_send_open sending_events_def)

lemma sending_events_simps [simp]:
  "ed_buffers (sending_events s es) = ed_buffers s" "ps_open (ed_sender (sending_events s es)) = ps_open (ed_sender s)"
  "sending_events (sending_events s es) fs = sending_events s (es @ fs)" "sending_events s [] = s"
  by (simp_all add: sending_events_def)

lemma changed_messages:
  "ps_open (ed_sender s) \<Longrightarrow>
    sfor (\<lambda>i. logged (on_sender (send_document_changed i note_id))) is s =
      (Inr (), sending_events s (map (\<lambda>i. In_DocumentChanged i note_id) is))"
  by (induction "is" arbitrary: s) (simp_all add: sbind_def send_document_changed_def on_sender_open)

lemma handle_leaving_note_run:
  assumes "ps_open (ed_sender s)" "iteration_order (el_order E)" "finite (nb_active (ed_buffers s))"
    "finite (nb_inactive (ed_buffers s))" "new_note_id \<noteq> Some note_id"
  shows "handle_leaving_note E note_id new_note_id s = (Inr (),
    (sending_events s (note_departure E note_id s))
      \<lparr>ed_buffers := (ed_buffers s)\<lparr>nb_active := {}, nb_inactive := {}\<rparr>\<rparr>)"
proof -
  have empty: "el_order E S = [] \<longleftrightarrow> S = {}" if "finite S" for S
    using iteration_order_set [OF assms(2) that] by (metis set_empty)
  have inactive: "notify_inactive_connections E note_id s = (Inr (), sending_events s
      (if nb_inactive (ed_buffers s) = {} then []
       else [BroadCastStateVectorRequest (el_order E (nb_inactive (ed_buffers s))) note_id]))"
    using assms(1) empty [OF assms(4)]
    by (simp add: notify_inactive_connections_def get_inactive_connections_def sbind_def
        send_state_vector_request_def on_sender_open)
  have active: "notify_active_connections_document_changed E note_id t = (Inr (), sending_events t
      (map (\<lambda>i. In_DocumentChanged i note_id) (el_order E (nb_active (ed_buffers s)))))"
    if "t = sending_events s es" for t es
    using assms(1) empty [OF assms(3)] empty [of "{}"] that
    by (simp add: notify_active_connections_document_changed_def get_active_connections_def sbind_def changed_messages)
  show ?thesis
    using assms(5) by (simp add: handle_leaving_note_def sbind_def inactive active [OF refl] note_departure_def
        change_note_def clear_active_connections_def clear_inactive_connections_def) 
qed

text \<open>
  C29. Closing the note that is open, while the service receives requests: the peers that are not
  editing it are asked for what this device misses, each peer that is editing it is told once that
  the note changed, no connection is left registered, the documents are new and empty, and nothing
  else is sent.
\<close>

theorem closing_note_tells_peers:
  assumes "nb_note_id (ed_buffers s) = Some note_id" "parse_note_id payload = None"
    and "ps_open (ed_sender s)" "iteration_order (el_order E)"
    and "finite (nb_active (ed_buffers s))" "finite (nb_inactive (ed_buffers s))"
  shows "\<exists>t. note_change_listener E payload s = (Inr (), t) \<and>
    ps_events (ed_sender t) = ps_events (ed_sender s) @ note_departure E note_id s \<and>
    nb_note_id (ed_buffers t) = None \<and> nb_active (ed_buffers t) = {} \<and> nb_inactive (ed_buffers t) = {} \<and>
    (\<forall>sl. slot_doc sl (ed_buffers t) = y_new (el_docs E)) \<and> ed_out t = ed_out s"
proof -
  have "handle_leaving_note E note_id None s = (Inr (), (sending_events s (note_departure E note_id s))
      \<lparr>ed_buffers := (ed_buffers s)\<lparr>nb_active := {}, nb_inactive := {}\<rparr>\<rparr>)"
    using assms by (intro handle_leaving_note_run) simp_all
  with assms(1,2) show ?thesis
    by (simp add: note_change_listener_def Let_def sbind_def get_current_note_def change_note_def
        set_current_note_def doc_of_state_def all_slots slot_doc_def doc_at_def nth_append sending_events_def)
qed

section \<open>Updates in flight\<close>

text \<open>
  The updates of a resource that was merged in the background are reported to the interface under
  the id of the note that is open, whichever resource they are of: the interface, which compares this
  id, cannot tell them from updates of the open note.
\<close>

theorem merged_updates_hit_open_note:
  assumes "nb_note_id (ed_buffers s) = Some open_id"
  shows "\<exists>t payload. handle_p2p_event E (UpdatesEvent resource_id updates client_id) s = (Inr (), t) \<and>
    ed_out t = ed_out s @ [Emit_json ''document-updates'' payload] \<and>
    json_get ''resource_id'' payload = Some (JString open_id) \<and>
    json_get ''updates'' payload = Some (JString updates)"
  using assms by (simp add: handle_p2p_event_def handle_update_event_def sbind_def get_current_note_def
      emit_json_def json_object_def)

text \<open>The listeners return whatever fails in them.\<close>

definition returns :: "('s, 'e, unit) sm \<Rightarrow> bool" where
  "returns m \<longleftrightarrow> (\<forall>s. fst (m s) = Inr ())"

lemma returns_sret: "returns (sret ())"
  by (simp add: returns_def)

lemma returns_smodify: "returns (smodify f)"
  by (simp add: returns_def)

lemma returns_change_note: "returns (change_note f)"
  by (simp add: returns_def change_note_def)

lemma returns_logged: "returns (logged m)"
  by (simp add: returns_def logged_def scatch_def split: prod.splits sum.splits)

lemma returns_sget: "(\<And>x. returns (f x)) \<Longrightarrow> returns (sbind (sget g) f)"
  by (simp add: returns_def sbind_def)

lemma returns_sbind: "returns m \<Longrightarrow> returns n \<Longrightarrow> returns (sbind m (\<lambda>_. n))"
  unfolding returns_def sbind_def by (auto split: prod.splits sum.splits) (metis fst_conv old.sum.exhaust Inl_Inr_False)+

lemma returns_scatch: "(\<And>x. returns (ok x)) \<Longrightarrow> (\<And>e. returns (err e)) \<Longrightarrow> returns (scatch m ok err)"
  by (simp add: returns_def scatch_def split: prod.splits sum.splits)

lemma returns_if: "returns m \<Longrightarrow> returns n \<Longrightarrow> returns (if c then m else n)"
  by simp

lemma returns_sfor: "(\<And>x. returns (f x)) \<Longrightarrow> returns (sfor f xs)"
  by (induction xs) (simp_all add: returns_sret returns_sbind)

lemmas returning = returns_sret returns_smodify returns_change_note returns_logged returns_sget returns_sbind
  returns_scatch returns_if returns_sfor

lemma listeners_return:
  "returns (broadcast_update E t pl)" "returns (handle_leaving_note E a b)" "returns (open_note E i u)"
  "returns (setup_shared_users_for_note E i)"
  unfolding broadcast_update_def handle_leaving_note_def notify_inactive_connections_def
    notify_active_connections_document_changed_def open_note_def setup_shared_users_for_note_def
  by (intro returning)+

lemma returns_run: "returns m \<Longrightarrow> keeps P m \<Longrightarrow> P s \<Longrightarrow> \<exists>t. m s = (Inr (), t) \<and> P t"
  unfolding returns_def keeps_def by (metis prod.collapse)

text \<open>Opening a note changes no document that is already in the store, and none of the tasks.\<close>

definition store_has :: "'d list \<Rightarrow> apply_task list \<Rightarrow> 'd buffers \<Rightarrow> apply_task list \<Rightarrow> bool" where
  "store_has ds ts b ts' \<longleftrightarrow> ts' = ts \<and> (\<exists>new. nb_docs b = ds @ new)"

definition opened :: "ident \<Rightarrow> 'd list \<Rightarrow> apply_task list \<Rightarrow> 'd buffers \<Rightarrow> apply_task list \<Rightarrow> bool" where
  "opened note_id ds ts b ts' \<longleftrightarrow> nb_note_id b = Some note_id \<and> store_has ds ts b ts'"

lemma opened_set_current [simp]:
  "store_has ds ts b ts' \<Longrightarrow> opened i ds ts (set_current_note Y (Some i) m im c b) ts'"
  by (auto simp: opened_def store_has_def set_current_note_def Let_def)

lemma store_has_connections [simp]:
  "store_has ds ts (clear_active_connections b) = store_has ds ts b"
  "store_has ds ts (clear_inactive_connections b) = store_has ds ts b"
  "store_has ds ts (clear_shared_users b) = store_has ds ts b"
  "opened i ds ts (set_shared_users us b) = opened i ds ts b"
  by (simp_all add: opened_def [abs_def] store_has_def [abs_def] clear_active_connections_def
      clear_inactive_connections_def clear_shared_users_def set_shared_users_def)

lemma keeps_leaving:
  "keeps (about_note (store_has ds ts)) (handle_leaving_note E a b)" "keeps (\<lambda>s. ed_user s = u) (handle_leaving_note E a b)"
  unfolding handle_leaving_note_def notify_inactive_connections_def notify_active_connections_document_changed_def
  by (intro keeps_control keeps_sget keeps_sfor keeps_logged keeps_on_sender keeps_change_note; simp add: about_note_def)+

lemma keeps_setup: "keeps (about_note (opened i ds ts)) (setup_shared_users_for_note E j)"
  unfolding setup_shared_users_for_note_def
  by (intro keeps_control keeps_sget keeps_logged keeps_change_note keeps_smodify note_keeps; simp add: about_note_def)

lemma open_note_run:
  assumes "about_note (store_has ds ts) s"
  shows "\<exists>t. open_note E i u s = (Inr (), t) \<and> about_note (opened i ds ts) t"
  using assms
  by (auto simp: open_note_def sbind_def scatch_def on_data_def change_note_def about_note_def
      split: prod.splits sum.splits)

lemma note_change_run:
  assumes "parse_note_id q = Some note_id" "ed_user s = Some user" "about_note (store_has ds ts) s"
  shows "\<exists>t. note_change_listener E q s = (Inr (), t) \<and> about_note (opened note_id ds ts) t"
proof -
  let ?leave = "case get_current_note (ed_buffers s) of
    Some prev_id \<Rightarrow> handle_leaving_note E prev_id (Some note_id) | None \<Rightarrow> sret ()"
  have "returns ?leave" "keeps (about_note (store_has ds ts)) ?leave" "keeps (\<lambda>s. ed_user s = Some user) ?leave"
    by (auto split: option.splits intro: listeners_return keeps_leaving returns_sret)
  then obtain s1 where s1: "?leave s = (Inr (), s1)" "about_note (store_has ds ts) s1" "ed_user s1 = Some user"
    using assms(2,3) unfolding returns_def keeps_def by (metis prod.collapse)
  define s2 where "s2 = s1\<lparr>ed_buffers := clear_shared_users (ed_buffers s1)\<rparr>"
  have s2: "about_note (store_has ds ts) s2" "ed_user s2 = Some user"
    using s1(2,3) by (simp_all add: s2_def about_note_def)
  obtain s3 where s3: "open_note E note_id user s2 = (Inr (), s3)" "about_note (opened note_id ds ts) s3"
    using open_note_run [OF s2(1)] by blast
  obtain t where t: "setup_shared_users_for_note E note_id s3 = (Inr (), t)" "about_note (opened note_id ds ts) t"
    using returns_run [OF listeners_return(4) keeps_setup s3(2)] by blast
  have "note_change_listener E q s = (Inr (), t)"
    using s1(1,3) s2(2) s3(1) t(1)
    by (simp add: note_change_listener_def assms(1) sbind_def scatch_def change_note_def get_user_def
        s2_def [symmetric])
  with t(2) show ?thesis by blast
qed

text \<open>
  C38. An update that is being applied when another note is opened ends up in that note: the edit of
  the open note is queued and has fetched the handle of its document; another note is opened; the
  edit is applied and the handle put back. The field of the new note then holds the document of the
  old one, with the edit.
\<close>

theorem late_update_restores_old_document:
  assumes "handles_ok (ed_buffers s)" "ed_tasks s = []" "ed_user s = Some user"
    and "parse_update_payload E p = Some edit" "nb_note_id (ed_buffers s) = Some (up_resource_id edit)"
    and "parse_note_id q = Some new_id"
    and "apply_update_v2 (el_docs E) (slot_doc (doc_selection (up_doc_type edit)) (ed_buffers s))
           (up_update_bytes edit) = Inr d" "up_update_bytes edit \<noteq> []"
  shows "\<exists>t. sfor (handle_event E)
      [Update_of SyncUpdate p, Task_runs 0, Note_change q, Task_runs 0, Task_runs 0] s = (Inr (), t) \<and>
    nb_note_id (ed_buffers t) = Some new_id \<and>
    slot_doc (doc_selection (up_doc_type edit)) (ed_buffers t) = d"
proof -
  let ?b = "ed_buffers s" and ?sl = "doc_selection (up_doc_type edit)" and ?u = "up_update_bytes edit"
  let ?r = "slot_ref ?sl ?b"
  let ?T1 = "[Apply_begin ?u (up_doc_type edit)]" and ?T2 = "[Apply_fetched ?r ?u (up_doc_type edit)]"
  have "is_current_note (up_resource_id edit) s" using assms(5) by (simp add: is_current_note_def get_current_note_def)
  moreover obtain s1 where s1: "broadcast_update E SyncUpdate edit (s\<lparr>ed_tasks := ?T1\<rparr>) = (Inr (), s1)"
    "about_note (\<lambda>b ts. b = ?b \<and> ts = ?T1) s1 \<and> ed_user s1 = Some user"
  proof -
    have "keeps (\<lambda>s'. about_note (\<lambda>b ts. b = ?b \<and> ts = ?T1) s' \<and> ed_user s' = Some user) (broadcast_update E SyncUpdate edit)"
      unfolding broadcast_update_def
      by (intro keeps_control keeps_sget keeps_logged keeps_on_sender) (simp add: about_note_def)
    from returns_run [OF listeners_return(1) this, of "s\<lparr>ed_tasks := ?T1\<rparr>"] that assms(3) show thesis
      by (auto simp: about_note_def)
  qed
  ultimately have e1: "handle_event E (Update_of SyncUpdate p) s = (Inr (), s1)"
    using assms(2,4) by (simp add: handle_event_def update_listener_def sbind_def apply_sync_update_to_buffer_def)
  define s2 where "s2 = s1\<lparr>ed_tasks := ?T2\<rparr>"
  have e2: "handle_event E (Task_runs 0) s1 = (Inr (), s2)"
    using s1(2) assms(8) by (simp add: handle_event_def run_task_def task_step_def about_note_def s2_def
        apply_update_fetch_def)
  have "about_note (store_has (nb_docs ?b) ?T2) s2" "ed_user s2 = Some user"
    using s1(2) by (simp_all add: about_note_def store_has_def s2_def)
  then obtain s3 where e3: "handle_event E (Note_change q) s2 = (Inr (), s3)"
    and s3: "about_note (opened new_id (nb_docs ?b) ?T2) s3"
    using note_change_run [OF assms(6)] by (fastforce simp: handle_event_def)
  obtain new where docs: "nb_docs (ed_buffers s3) = nb_docs ?b @ new" "ed_tasks s3 = ?T2"
    "nb_note_id (ed_buffers s3) = Some new_id"
    using s3 by (auto simp: about_note_def opened_def store_has_def)
  have r: "?r < length (nb_docs ?b)" using handles_okD [OF assms(1)] .
  then have at: "doc_at ?r (ed_buffers s3) = slot_doc ?sl ?b"
    by (simp add: docs doc_at_def slot_doc_def nth_append)
  define s4 where "s4 = s3\<lparr>ed_buffers := put_doc ?r d (ed_buffers s3), ed_tasks := [Apply_done ?r (up_doc_type edit)]\<rparr>"
  have e4: "handle_event E (Task_runs 0) s3 = (Inr (), s4)"
    using assms(7) by (simp add: handle_event_def run_task_def task_step_def docs apply_at_def sbind_def at s4_def)
  define t where "t = s4\<lparr>ed_buffers := set_slot ?sl ?r (ed_buffers s4), ed_tasks := []\<rparr>"
  have e5: "handle_event E (Task_runs 0) s4 = (Inr (), t)"
    by (simp add: handle_event_def run_task_def task_step_def s4_def t_def apply_update_swap_def)
  have "slot_ref ?sl (set_slot ?sl ?r b) = ?r" "nb_docs (set_slot ?sl ?r b) = nb_docs b"
    "nb_note_id (set_slot ?sl ?r b) = nb_note_id b" for b :: "'a buffers"
    by (cases ?sl; simp)+
  then have "slot_doc ?sl (ed_buffers t) = d" "nb_note_id (ed_buffers t) = Some new_id"
    using r docs by (simp_all add: t_def s4_def slot_doc_def doc_at_def put_doc_def)
  with e1 e2 e3 e4 e5 show ?thesis by (simp add: sbind_def)
qed

end
