(* ===== verification/Preview_Render.thy ===== *)
theory Preview_Render
  imports Preview
begin

text \<open>
  What the one-pass converter of \<open>Preview\<close> writes for the events of an XML tree, against a rendering
  defined by recursion on the tree: the two agree while the limit of blocks is not reached, and
  beyond the limit the converter loses track of its depth.
\<close>

section \<open>Trees\<close>

datatype xml_tree =
    Elem string "xml_attr list" "xml_tree list"
  | Void string "xml_attr list"
  | Txt string

fun tree_events :: "xml_tree \<Rightarrow> xml_event list" where
  "tree_events (Elem n attrs ts) = X_Start n attrs # concat (map tree_events ts) @ [X_End n]"
| "tree_events (Void n attrs) = [X_Empty n attrs]"
| "tree_events (Txt s) = [X_Text (as_bytes s)]"

definition heading_tag :: "xml_attr list \<Rightarrow> string" where
  "heading_tag attrs = ''h'' @ (case get_attribute attrs ''level'' of Some l \<Rightarrow> l | None \<Rightarrow> ''1'')"

definition image_html :: "string \<Rightarrow> xml_attr list \<Rightarrow> html_event list" where
  "image_html n attrs =
     (if n = ''image'' then [H_Empty ''img'' (projr (image_attributes attrs))]
      else if n = ''hard_break'' then [H_Empty ''br'' []] else [])"

text \<open>The HTML before and after the content of an element; \<open>code\<close> means that it is in a code block.\<close>

definition opening_html :: "bool \<Rightarrow> string \<Rightarrow> xml_attr list \<Rightarrow> html_event list" where
  "opening_html code n attrs = (case plain_tag n of
       Some tag \<Rightarrow> [H_Start tag]
     | None \<Rightarrow> if n = ''heading'' then [H_Start (heading_tag attrs)]
         else if n = ''code_block'' then [H_Start ''pre'', H_Start ''code'']
         else if n = ''code'' then (if code then [] else [H_Start ''code''])
         else image_html n attrs)"

definition closing_html :: "bool \<Rightarrow> string \<Rightarrow> string option \<Rightarrow> html_event list" where
  "closing_html code n popped = (case plain_tag n of
       Some tag \<Rightarrow> [H_End tag]
     | None \<Rightarrow> if n = ''heading'' then (case popped of Some tag \<Rightarrow> [H_End tag] | None \<Rightarrow> [])
         else if n = ''code_block'' then [H_End ''code'', H_End ''pre'']
         else if n = ''code'' then (if code then [] else [H_End ''code''])
         else [])"

fun render :: "bool \<Rightarrow> xml_tree \<Rightarrow> html_event list" where
  "render code (Elem n attrs ts) =
     opening_html code n attrs @ concat (map (render (code \<or> n = ''code_block'')) ts) @
     closing_html code n (Some (heading_tag attrs))"
| "render code (Void n attrs) = image_html n attrs"
| "render code (Txt s) = [H_Text s]"

text \<open>Texts are well formed, the attributes of images can be read, code blocks are not nested.\<close>

definition image_ok :: "string \<Rightarrow> xml_attr list \<Rightarrow> bool" where
  "image_ok n attrs \<longleftrightarrow> (n = ''image'' \<longrightarrow> (case image_attributes attrs of Inr _ \<Rightarrow> True | Inl _ \<Rightarrow> False))"

fun tree_ok :: "bool \<Rightarrow> xml_tree \<Rightarrow> bool" where
  "tree_ok code (Elem n attrs ts) \<longleftrightarrow> \<not> (code \<and> n = ''code_block'') \<and> image_ok n attrs \<and>
     list_all (tree_ok (code \<or> n = ''code_block'')) ts"
| "tree_ok code (Void n attrs) \<longleftrightarrow> image_ok n attrs"
| "tree_ok code (Txt s) \<longleftrightarrow> is_text s"

fun block_root :: "xml_tree \<Rightarrow> bool" where
  "block_root (Elem n attrs ts) = is_block_element n"
| "block_root _ = False"

section \<open>Runs of the converter\<close>

abbreviation reading :: "nat \<Rightarrow> xml_event list \<Rightarrow> previewing" where
  "reading mx es \<equiv> sfor (preview_event mx) (map Inr es)"

lemma reading_append:
  "reading mx es s = (Inr (), t) \<Longrightarrow> reading mx (es @ fs) s = reading mx fs t"
  by (induction es arbitrary: s) (auto simp: sbind_def split: prod.splits sum.splits)

lemma reading_then:
  "reading mx es s = (Inr (), t) \<Longrightarrow> sfor (preview_event mx) (map Inr es @ map Inr fs) s = reading mx fs t"
  using reading_append [of mx es s t fs] by simp

lemma reading_Cons: "preview_event mx (Inr e) s = (Inr (), t) \<Longrightarrow> reading mx (e # es) s = reading mx es t"
  by (simp add: sbind_def)

lemma plain_tag_special [simp]:
  "plain_tag ''heading'' = None" "plain_tag ''code_block'' = None" "plain_tag ''code'' = None"
  "plain_tag ''image'' = None" "plain_tag ''hard_break'' = None"
  by (simp_all add: plain_tag_def)

lemma slift_image:
  "image_ok n attrs \<Longrightarrow> n = ''image'' \<Longrightarrow> image_attributes attrs = Inr (projr (image_attributes attrs))"
  by (auto simp: image_ok_def split: sum.splits)

text \<open>The tag an element pushes on the stack.\<close>

definition pushed :: "string \<Rightarrow> xml_attr list \<Rightarrow> string list" where
  "pushed n attrs = (case plain_tag n of
       Some tag \<Rightarrow> [tag]
     | None \<Rightarrow> if n = ''heading'' then [heading_tag attrs]
         else if n \<in> {''code_block'', ''code''} then [n] else [])"

lemma pops_pushed: "pops n \<longleftrightarrow> pushed n attrs \<noteq> []"
  by (auto simp: pops_def pushed_def split: option.splits)

lemma open_element_run:
  assumes "image_ok n attrs"
  shows "open_element n attrs s = (Inr (), s\<lparr>pv_out := pv_out s @ opening_html (pv_in_code s) n attrs,
    pv_stack := pushed n attrs @ pv_stack s, pv_in_code := pv_in_code s \<or> n = ''code_block''\<rparr>)"
proof (cases "plain_tag n")
  case None
  show ?thesis
  proof (cases "n = ''image''")
    case True
    then obtain img where "image_attributes attrs = Inr img" using slift_image [OF assms] by blast
    with True show ?thesis
      by (simp add: open_element_def opening_html_def pushed_def image_html_def pv_write_def sbind_def)
  next
    case False
    with None show ?thesis
      by (auto simp: open_element_def opening_html_def pushed_def image_html_def heading_tag_def pv_write_def
          pv_push_def sbind_def Let_def)
  qed
next
  case (Some tag)
  then have "n \<noteq> ''code_block''" by auto
  with Some show ?thesis
    by (simp add: open_element_def opening_html_def pushed_def pv_write_def pv_push_def sbind_def)
qed

lemma close_element_run:
  assumes "\<not> (pv_in_code s \<and> n = ''code_block'')"
  shows "close_element n popped (s\<lparr>pv_in_code := pv_in_code s \<or> n = ''code_block'', pv_out := out\<rparr>) =
    (Inr (), s\<lparr>pv_out := out @ closing_html (pv_in_code s) n popped\<rparr>)"
proof (cases "plain_tag n")
  case None
  with assms show ?thesis
    by (auto simp: close_element_def closing_html_def pv_write_def sbind_def split: option.splits)
next
  case (Some tag)
  then have "n \<noteq> ''code_block''" by auto
  with Some show ?thesis by (simp add: close_element_def closing_html_def pv_write_def)
qed

section \<open>Elements\<close>

definition counts :: "xml_tree \<Rightarrow> preview_state \<Rightarrow> nat" where
  "counts t s = (if pv_depth s = 0 \<and> block_root t then 1 else 0)"

text \<open>The state after a tree was read: one more block if it is one, and its HTML written.\<close>

abbreviation wrote :: "html_event list \<Rightarrow> nat \<Rightarrow> preview_state \<Rightarrow> preview_state" where
  "wrote out n s \<equiv> s\<lparr>pv_blocks := pv_blocks s + n, pv_out := pv_out s @ out\<rparr>"

lemma start_run:
  assumes "image_ok n attrs" "pv_skip s = None"
    and "pv_depth s = 0 \<and> is_block_element n \<longrightarrow> pv_blocks s < mx"
  shows "start_event mx n attrs s = (Inr (),
    s\<lparr>pv_blocks := pv_blocks s + counts (Elem n attrs ts) s, pv_depth := pv_depth s + 1,
      pv_in_code := pv_in_code s \<or> n = ''code_block'', pv_stack := pushed n attrs @ pv_stack s,
      pv_out := pv_out s @ opening_html (pv_in_code s) n attrs\<rparr>)"
  using assms by (auto simp: start_event_def sbind_def open_element_run add_depth_def counts_def)

lemma closing_popped:
  "closing_html code n (case pushed n attrs of [] \<Rightarrow> None | tag # _ \<Rightarrow> Some tag) =
     closing_html code n (Some (heading_tag attrs))"
  by (simp add: closing_html_def pushed_def split: option.splits)

lemma end_run:
  assumes "pv_skip s = None" "\<not> (pv_in_code s \<and> n = ''code_block'')"
  shows "end_event n (s\<lparr>pv_depth := pv_depth s + 1, pv_in_code := pv_in_code s \<or> n = ''code_block'',
      pv_stack := pushed n attrs @ pv_stack s, pv_out := out\<rparr>) =
    (Inr (), s\<lparr>pv_out := out @ closing_html (pv_in_code s) n (Some (heading_tag attrs))\<rparr>)"
proof -
  let ?s = "s\<lparr>pv_in_code := pv_in_code s \<or> n = ''code_block'', pv_out := out\<rparr>"
  let ?popped = "case pushed n attrs of [] \<Rightarrow> None | tag # _ \<Rightarrow> Some tag"
  have "length (pushed n attrs) \<le> 1" by (simp add: pushed_def split: option.splits)
  then have "pv_pop n (s\<lparr>pv_in_code := pv_in_code s \<or> n = ''code_block'',
      pv_stack := pushed n attrs @ pv_stack s, pv_out := out\<rparr>) = (Inr ?popped, ?s)"
    using pops_pushed [of n attrs] by (auto simp: pv_pop_def split: list.splits)
  then show ?thesis
    using assms close_element_run [OF assms(2), of ?popped out] closing_popped [of "pv_in_code s" n attrs]
    by (simp add: end_event_def sbind_def add_depth_def)
qed

lemma forest_run:
  assumes "\<And>t s. t \<in> set ts \<Longrightarrow> pv_skip s = None \<Longrightarrow> 0 < pv_depth s \<Longrightarrow> pv_in_code s = code \<Longrightarrow>
      reading mx (tree_events t) s = (Inr (), s\<lparr>pv_out := pv_out s @ h t\<rparr>)"
    and "pv_skip s = None" "0 < pv_depth s" "pv_in_code s = code"
  shows "reading mx (concat (map tree_events ts)) s = (Inr (), s\<lparr>pv_out := pv_out s @ concat (map h ts)\<rparr>)"
  using assms
proof (induction ts arbitrary: s)
  case (Cons t ts)
  have "reading mx (tree_events t) s = (Inr (), s\<lparr>pv_out := pv_out s @ h t\<rparr>)" using Cons.prems by simp
  moreover have "reading mx (concat (map tree_events ts)) (s\<lparr>pv_out := pv_out s @ h t\<rparr>) =
      (Inr (), s\<lparr>pv_out := (pv_out s @ h t) @ concat (map h ts)\<rparr>)"
    using Cons.IH [of "s\<lparr>pv_out := pv_out s @ h t\<rparr>"] Cons.prems by simp
  ultimately show ?case by (simp add: reading_append del: map_append)
qed simp

lemma tree_run:
  assumes "tree_ok (pv_in_code s) t" "pv_skip s = None" "0 \<le> pv_depth s"
    and "pv_depth s = 0 \<and> block_root t \<longrightarrow> pv_blocks s < mx"
  shows "reading mx (tree_events t) s = (Inr (), wrote (render (pv_in_code s) t) (counts t s) s)"
  using assms
proof (induction t arbitrary: s)
  case (Elem n attrs ts)
  let ?code = "pv_in_code s \<or> n = ''code_block''"
  let ?s1 = "s\<lparr>pv_blocks := pv_blocks s + counts (Elem n attrs ts) s\<rparr>"
  define U where "U out = ?s1\<lparr>pv_depth := pv_depth ?s1 + 1, pv_in_code := pv_in_code ?s1 \<or> n = ''code_block'',
    pv_stack := pushed n attrs @ pv_stack ?s1, pv_out := out\<rparr>" for out
  have U: "pv_skip (U out) = None" "0 < pv_depth (U out)" "pv_in_code (U out) = ?code" "pv_out (U out) = out"
    "(U out)\<lparr>pv_out := out'\<rparr> = U out'" for out out'
    using Elem.prems(2,3) by (simp_all add: U_def)
  let ?o = "opening_html (pv_in_code s) n attrs" and ?h = "concat (map (render ?code) ts)"
  have ok: "list_all (tree_ok ?code) ts" "\<not> (pv_in_code s \<and> n = ''code_block'')"
    using Elem.prems(1) by auto
  have start: "preview_event mx (Inr (X_Start n attrs)) s = (Inr (), U (pv_out s @ ?o))"
    using start_run [of n attrs s mx ts] Elem.prems by (simp add: preview_event_def U_def)
  have child: "reading mx (tree_events t) u = (Inr (), u\<lparr>pv_out := pv_out u @ render ?code t\<rparr>)"
    if t: "t \<in> set ts" and u: "pv_skip u = None" "0 < pv_depth u" "pv_in_code u = ?code" for t u
  proof -
    have "tree_ok (pv_in_code u) t" using ok(1) t unfolding u(3) by (simp add: list_all_iff)
    from Elem.IH [OF t this u(1)] u(2) show ?thesis unfolding u(3) [symmetric] by (simp add: counts_def)
  qed
  have "reading mx (concat (map tree_events ts)) (U x) = (Inr (), (U x)\<lparr>pv_out := pv_out (U x) @ ?h\<rparr>)" for x
    by (rule forest_run [where code = ?code]) (rule child U; assumption?)+
  then have content: "reading mx (concat (map tree_events ts)) (U (pv_out s @ ?o)) = (Inr (), U ((pv_out s @ ?o) @ ?h))"
    by (simp only: U(4,5))
  have close: "preview_event mx (Inr (X_End n)) (U ((pv_out s @ ?o) @ ?h)) =
      (Inr (), ?s1\<lparr>pv_out := ((pv_out s @ ?o) @ ?h) @ closing_html (pv_in_code s) n (Some (heading_tag attrs))\<rparr>)"
    using end_run [where s = ?s1 and n = n and attrs = attrs] Elem.prems(2) ok(2) by (simp add: preview_event_def U_def)
  have "reading mx (tree_events (Elem n attrs ts)) s = reading mx [X_End n] (U ((pv_out s @ ?o) @ ?h))"
    using reading_Cons [OF start] reading_append [OF content] by (simp only: tree_events.simps)
  with close show ?case by (simp add: sbind_def)
next
  case (Void n attrs)
  then show ?case
    using slift_image [of n attrs]
    by (auto simp: preview_event_def empty_event_def image_html_def pv_write_def sbind_def counts_def image_ok_def
        split: sum.splits)
next
  case (Txt x)
  then show ?case by (simp add: preview_event_def text_event_def pv_write_def sbind_def counts_def)
qed

section \<open>Notes\<close>

lemma preview_events_run:
  "reading mx es preview_start = (Inr (), s) \<Longrightarrow> preview_events mx (map Inr es) = Inr (pv_out s)"
  by (simp add: preview_events_def)

lemma roots_run:
  assumes "list_all (tree_ok False) ts" "pv_skip s = None" "pv_depth s = 0" "\<not> pv_in_code s"
    and "pv_blocks s + length (filter block_root ts) \<le> mx"
  shows "reading mx (concat (map tree_events ts)) s =
    (Inr (), wrote (concat (map (render False) ts)) (length (filter block_root ts)) s)"
  using assms
proof (induction ts arbitrary: s)
  case (Cons t ts)
  let ?s = "wrote (render False t) (counts t s) s"
  have "reading mx (tree_events t) s = (Inr (), ?s)"
    using tree_run [of s t mx] Cons.prems by (auto simp: counts_def split: if_splits)
  then have "reading mx (concat (map tree_events (t # ts))) s = reading mx (concat (map tree_events ts)) ?s"
    by (simp only: list.map concat.simps reading_append)
  also have "\<dots> = (Inr (), wrote (concat (map (render False) ts)) (length (filter block_root ts)) ?s)"
    using Cons.prems by (intro Cons.IH) (auto simp: counts_def)
  finally show ?case
    using Cons.prems(3) by (simp add: counts_def)
qed simp

text \<open>What is skipped, and a block without elements in it.\<close>

lemma skip_run:
  assumes "pv_skip s = Some 0" "0 < pv_depth s"
  shows "reading mx (tree_events t) s = (Inr (), s)"
  using assms
proof (induction t arbitrary: s)
  case (Elem n attrs ts)
  let ?s = "s\<lparr>pv_depth := pv_depth s + 1\<rparr>"
  have start: "preview_event mx (Inr (X_Start n attrs)) s = (Inr (), ?s)"
    using Elem.prems by (simp add: preview_event_def start_event_def add_depth_def sbind_def)
  have "reading mx (concat (map tree_events us)) ?s = (Inr (), ?s)" if "set us \<subseteq> set ts" for us
    using that
  proof (induction us)
    case (Cons u us)
    then have "reading mx (tree_events u) ?s = (Inr (), ?s)" using Elem.IH [of u ?s] Elem.prems by simp
    with Cons show ?case by (simp add: reading_then)
  qed simp
  from reading_append [OF this [OF order_refl]]
  have "reading mx (tree_events (Elem n attrs ts)) s = reading mx [X_End n] ?s"
    using reading_Cons [OF start] by (simp only: tree_events.simps)
  also have "\<dots> = (Inr (), s)"
    using Elem.prems by (simp add: preview_event_def end_event_def add_depth_def sbind_def)
  finally show ?case .
qed (simp_all add: preview_event_def empty_event_def text_event_def sbind_def)

lemma skip_forest_run:
  "pv_skip s = Some 0 \<Longrightarrow> 0 < pv_depth s \<Longrightarrow> reading mx (concat (map tree_events ts)) s = (Inr (), s)"
  by (induction ts) (simp_all add: reading_then [OF skip_run])

fun flat_block :: "xml_tree \<Rightarrow> bool" where
  "flat_block (Elem n attrs ts) \<longleftrightarrow> is_block_element n \<and>
     list_all (\<lambda>t. case t of Elem _ _ _ \<Rightarrow> False | _ \<Rightarrow> True) ts"
| "flat_block _ = False"

lemma flat_content_run:
  "list_all (\<lambda>t. case t of Elem _ _ _ \<Rightarrow> False | _ \<Rightarrow> True) ts \<Longrightarrow> pv_skip s \<noteq> None \<Longrightarrow>
    reading mx (concat (map tree_events ts)) s = (Inr (), s)"
  by (induction ts)
     (auto simp: preview_event_def empty_event_def text_event_def sbind_def split: xml_tree.splits)

lemma flat_run:
  assumes "flat_block t" "pv_skip s = None \<and> pv_depth s = 0 \<and> mx \<le> pv_blocks s \<or> pv_skip s = Some 0 \<and> pv_depth s = - 1"
  shows "reading mx (tree_events t) s = (Inr (), s\<lparr>pv_skip := Some 0, pv_depth := - 1\<rparr>)"
proof -
  obtain n attrs ts where t: "t = Elem n attrs ts" using assms(1) by (cases t) auto
  let ?s = "s\<lparr>pv_skip := Some 0, pv_depth := 0\<rparr>"
  have start: "preview_event mx (Inr (X_Start n attrs)) s = (Inr (), ?s)"
    using assms by (auto simp: t preview_event_def start_event_def add_depth_def sbind_def)
  have "reading mx (concat (map tree_events ts)) ?s = (Inr (), ?s)"
    using flat_content_run assms(1) by (simp add: t)
  from reading_append [OF this] have "reading mx (tree_events t) s = reading mx [X_End n] ?s"
    using reading_Cons [OF start] by (simp only: t tree_events.simps)
  then show ?thesis by (simp add: preview_event_def end_event_def add_depth_def sbind_def)
qed

lemma flats_run:
  assumes "list_all flat_block ts" "pv_skip s = Some 0 \<and> pv_depth s = - 1"
  shows "reading mx (concat (map tree_events ts)) s = (Inr (), s)"
  using assms(1)
proof (induction ts)
  case (Cons t ts)
  have "s\<lparr>pv_skip := Some 0, pv_depth := - 1\<rparr> = s" using assms(2) by (simp add: preview_state.equality)
  then have "reading mx (tree_events t) s = (Inr (), s)" using flat_run [of t s mx] Cons.prems assms(2) by simp
  with Cons show ?case by (simp add: reading_then)
qed simp

text \<open>
  C23. The preview of a note is the rendering of its tree: when the note has no more blocks than the
  limit, the events the converter writes are those of the rendering by recursion, element by element;
  and blocks beyond the limit that have no elements in them are left out.
\<close>

theorem preview_renders:
  assumes "list_all (tree_ok False) ts" "length (filter block_root ts) \<le> max_nodes"
    and "list_all flat_block us" "us \<noteq> [] \<longrightarrow> length (filter block_root ts) = max_nodes"
  shows "preview_events max_nodes (map Inr (concat (map tree_events (ts @ us)))) =
    Inr (concat (map (render False) ts))"
proof -
  let ?s = "wrote (concat (map (render False) ts)) (length (filter block_root ts)) preview_start"
  have run: "reading max_nodes (concat (map tree_events ts)) preview_start = (Inr (), ?s)"
    using assms(1,2) by (intro roots_run) (simp_all add: preview_start_def)
  have "\<exists>s. reading max_nodes (concat (map tree_events us)) ?s = (Inr (), s) \<and> pv_out s = pv_out ?s"
  proof (cases us)
    case (Cons u us')
    let ?u = "?s\<lparr>pv_skip := Some 0, pv_depth := - 1\<rparr>"
    have "reading max_nodes (tree_events u) ?s = (Inr (), ?u)"
      using assms(3,4) Cons by (intro flat_run) (simp_all add: preview_start_def)
    moreover have "reading max_nodes (concat (map tree_events us')) ?u = (Inr (), ?u)"
      using assms(3) Cons by (intro flats_run) simp_all
    ultimately show ?thesis by (simp add: Cons reading_then)
  qed simp
  then obtain s where "reading max_nodes (concat (map tree_events us)) ?s = (Inr (), s)" "pv_out s = pv_out ?s"
    by blast
  with reading_append [OF run, of "concat (map tree_events us)"]
  have "reading max_nodes (concat (map tree_events (ts @ us))) preview_start = (Inr (), s)"
    by (simp only: map_append concat_append)
  from preview_events_run [OF this] \<open>pv_out s = pv_out ?s\<close> show ?thesis by (simp add: preview_start_def)
qed

text \<open>
  C39. The limit of a preview leaks: when the first block beyond the limit begins with an element, as
  a list does with its first item, the converter takes the end of that element for the end of the
  block. What follows it in the block is written, and so is the closing tag of the block, whose
  opening tag was left out.
\<close>

theorem preview_limit_leaks:
  assumes "list_all (tree_ok False) ts" "length (filter block_root ts) = max_nodes"
    and "is_block_element b" "list_all (tree_ok False) vs" "\<not> list_ex block_root vs"
  shows "preview_events max_nodes
      (map Inr (concat (map tree_events (ts @ [Elem b as (Elem n bs us # vs)])))) =
    Inr (concat (map (render False) (ts @ vs)) @ closing_html False b None)"
proof -
  let ?s = "wrote (concat (map (render False) ts)) (length (filter block_root ts)) preview_start"
  let ?u = "?s\<lparr>pv_skip := Some 0, pv_depth := 0\<rparr>"
  let ?v = "wrote (concat (map (render False) vs)) 0 ?s"
  have run: "reading max_nodes (concat (map tree_events ts)) preview_start = (Inr (), ?s)"
    using assms(1,2) by (intro roots_run) (simp_all add: preview_start_def)
  have start: "preview_event max_nodes (Inr (X_Start b as)) ?s = (Inr (), ?u)"
    using assms(2,3) by (simp add: preview_event_def start_event_def sbind_def preview_start_def)
  have inner: "reading max_nodes (tree_events (Elem n bs us)) ?u = (Inr (), ?s)"
  proof -
    have "preview_event max_nodes (Inr (X_Start n bs)) ?u = (Inr (), ?u\<lparr>pv_depth := 1\<rparr>)"
      by (simp add: preview_event_def start_event_def add_depth_def sbind_def)
    moreover have "reading max_nodes (concat (map tree_events us)) (?u\<lparr>pv_depth := 1\<rparr>) = (Inr (), ?u\<lparr>pv_depth := 1\<rparr>)"
      by (intro skip_forest_run) simp_all
    moreover have "preview_event max_nodes (Inr (X_End n)) (?u\<lparr>pv_depth := 1\<rparr>) = (Inr (), ?s)"
      by (simp add: preview_event_def end_event_def add_depth_def sbind_def preview_start_def)
    ultimately show ?thesis by (simp add: reading_Cons reading_append sbind_def del: map_append)
  qed
  have rest: "reading max_nodes (concat (map tree_events vs)) ?s = (Inr (), ?v)"
  proof -
    have none: "filter block_root vs = []" using assms(5) by (induction vs) auto
    have "reading max_nodes (concat (map tree_events vs)) ?s =
        (Inr (), wrote (concat (map (render False) vs)) (length (filter block_root vs)) ?s)"
      using assms(2,4) none by (intro roots_run) (simp_all add: preview_start_def)
    then show ?thesis by (simp only: none list.size)
  qed
  have close: "preview_event max_nodes (Inr (X_End b)) ?v =
      (Inr (), ?v\<lparr>pv_depth := - 1, pv_out := pv_out ?v @ closing_html False b None\<rparr>)"
    by (cases "plain_tag b")
       (simp_all add: preview_event_def end_event_def add_depth_def sbind_def preview_start_def pv_pop_def
        close_element_def closing_html_def pv_write_def)
  have "reading max_nodes (concat (map tree_events (ts @ [Elem b as (Elem n bs us # vs)]))) preview_start =
      reading max_nodes (tree_events (Elem b as (Elem n bs us # vs))) ?s"
    by (simp only: map_append concat_append reading_then [OF run] list.map concat.simps append_Nil2)
  also have "\<dots> = reading max_nodes (concat (map tree_events (Elem n bs us # vs)) @ [X_End b]) ?u"
    by (simp only: tree_events.simps(1) [of b] reading_Cons [OF start])
  also have "\<dots> = reading max_nodes (concat (map tree_events vs) @ [X_End b]) ?s"
    by (simp only: list.map concat.simps append_assoc reading_append [OF inner])
  also have "\<dots> = reading max_nodes [X_End b] ?v"
    by (simp only: reading_append [OF rest])
  also have "\<dots> = (Inr (), ?v\<lparr>pv_depth := - 1, pv_out := pv_out ?v @ closing_html False b None\<rparr>)"
    by (simp only: list.map sfor.simps sbind_def close prod.case sum.case sret_apply)
  finally have "preview_events max_nodes (map Inr (concat (map tree_events (ts @ [Elem b as (Elem n bs us # vs)])))) =
      Inr (pv_out (?v\<lparr>pv_depth := - 1, pv_out := pv_out ?v @ closing_html False b None\<rparr>))"
    by (rule preview_events_run)
  then show ?thesis by (simp add: preview_start_def)
qed

end
