(* ===== verification/Sample_Editor.thy ===== *)
theory Sample_Editor
  imports Sample_Crypto Editor_Properties Preview_Render
begin

text \<open>
  An open note with a peer that edits it and one that does not, and small trees of a note: the
  theorems on live editing and on previews applied to them.
\<close>

section \<open>Live editing\<close>

definition sample_view :: "bytes view_lib" where
  "sample_view = \<lparr>vl_events = (\<lambda>_. []), vl_print = (\<lambda>_. []), vl_fragment = (\<lambda>_ _. None), vl_map = (\<lambda>_ _. None)\<rparr>"

definition sample_edit :: "(bytes, bytes, bytes) edit_lib" where
  "sample_edit = \<lparr>el_crypto = sample_lib [], el_docs = sample_yrs, el_view = sample_view,
     el_order = sorted_list_of_set, el_text = (\<lambda>_. ''error'')\<rparr>"

definition note_buffers :: "bytes \<Rightarrow> bytes \<Rightarrow> bytes buffers" where
  "note_buffers main comments = set_current_note sample_yrs (Some ''note'') (Some (0 # main)) None
     (Some (0 # comments)) (buffers_default sample_yrs)"

lemma note_buffers_docs:
  "slot_doc Main_doc (note_buffers m c) = m" "slot_doc Image_doc (note_buffers m c) = []"
  "slot_doc Comment_doc (note_buffers m c) = c" "nb_note_id (note_buffers m c) = Some ''note''"
  "handles_ok (note_buffers m c)"
  by (simp_all add: note_buffers_def slot_doc_def doc_at_def set_current_note_def buffers_default_def
      doc_of_state_def apply_update_v2_def sample_yrs_def handles_okI)

lemma live_exchange_converges_witness:
  "\<exists>m1 m2 m3 a b. note_state_vectors sample_yrs (note_buffers [1] [5]) = (Inr m1, note_buffers [1] [5]) \<and>
     note_generate_updates sample_yrs m1 (note_buffers [2] [6]) = (Inr m2, note_buffers [2] [6]) \<and>
     apply_updates_and_generate_diff sample_yrs m2 (note_buffers [1] [5]) = (Inr m3, a) \<and>
     apply_peer_updates sample_yrs m3 (note_buffers [2] [6]) = (Inr (), b) \<and>
     set (slot_doc Main_doc a) = {1, 2} \<and> set (slot_doc Main_doc b) = {1, 2} \<and>
     slot_doc Comment_doc a = [5] \<and> slot_doc Comment_doc b = [6]"
proof -
  have "{1} \<union> {2} = {1, 2 :: byte}" by blast
  then show ?thesis
    using live_exchange_converges [OF sample_yrs_laws note_buffers_docs(5,5), of "[1]" "[5]" "[2]" "[6]"]
    by (simp add: note_buffers_docs) blast
qed

definition ann_editing :: "bytes editor" where
  "ann_editing = \<lparr>ed_buffers = (note_buffers [1] [])\<lparr>nb_active := {''tel''}, nb_inactive := {''pc''}\<rparr>,
     ed_sender = \<lparr>ps_open = True, ps_events = []\<rparr>, ed_user = Some (user_load (user_sample ''ann'' True)),
     ed_device = None, ed_world = blank, ed_crypto = loaded ''ann'', ed_out = [], ed_index = [], ed_tasks = []\<rparr>"

lemma open_documents_separate_witness:
  "handles_ok (ed_buffers (snd (handle_event sample_edit (Note_change ''note'')
     (editor_new sample_yrs \<lparr>ps_open = True, ps_events = []\<rparr> blank crypto_utils_new))))"
proof -
  have "el_docs sample_edit = sample_yrs" by (simp add: sample_edit_def)
  then have "editor_reach sample_edit (snd (handle_event sample_edit (Note_change ''note'')
      (editor_new sample_yrs \<lparr>ps_open = True, ps_events = []\<rparr> blank crypto_utils_new)))"
    using reach_event [OF reach_new] by metis
  from open_documents_separate [OF this] show ?thesis by blast
qed

lemma closing_note_tells_peers_witness:
  "\<exists>t. note_change_listener sample_edit ''null'' ann_editing = (Inr (), t) \<and>
     ps_events (ed_sender t) =
       [BroadCastStateVectorRequest [''pc''] ''note'', In_DocumentChanged ''tel'' ''note''] \<and>
     nb_note_id (ed_buffers t) = None"
proof -
  have "nb_note_id (ed_buffers ann_editing) = Some ''note''" "parse_note_id ''null'' = None"
    "ps_open (ed_sender ann_editing)" "iteration_order (el_order sample_edit)"
    "finite (nb_active (ed_buffers ann_editing))" "finite (nb_inactive (ed_buffers ann_editing))"
    by (simp_all add: ann_editing_def sample_edit_def iteration_order_sorted parse_note_id_def note_buffers_docs)
  from closing_note_tells_peers [OF this] show ?thesis
    by (simp add: note_departure_def ann_editing_def sample_edit_def)
      blast
qed

lemma merged_updates_hit_open_note_witness:
  "\<exists>t payload. handle_p2p_event sample_edit (UpdatesEvent ''other'' ''updates'' 7) ann_editing = (Inr (), t) \<and>
     ed_out t = [Emit_json ''document-updates'' payload] \<and>
     json_get ''resource_id'' payload = Some (JString ''note'')"
proof -
  have "nb_note_id (ed_buffers ann_editing) = Some ''note''" by (simp add: ann_editing_def note_buffers_docs)
  from merged_updates_hit_open_note [OF this, of sample_edit "''other''" "''updates''" 7] show ?thesis
    by (auto simp: ann_editing_def)
qed

definition edit_payload :: string where
  "edit_payload = json_print sample_yrs (json_object
     [(''update'', json_bytes [0, 2]), (''resource_id'', JString ''note''), (''clientID'', JInt 7),
      (''doc_type'', JString ''main'')])"

lemma late_update_restores_old_document_witness:
  "\<exists>t. sfor (handle_event sample_edit)
       [Update_of SyncUpdate edit_payload, Task_runs 0, Note_change ''diary'', Task_runs 0, Task_runs 0]
       ann_editing = (Inr (), t) \<and>
     nb_note_id (ed_buffers t) = Some ''diary'' \<and> slot_doc Main_doc (ed_buffers t) = [1, 2]"
proof -
  let ?edit = "\<lparr>up_update_bytes = [0, 2], up_resource_id = ''note'', up_client_id = 7, up_doc_type = ''main''\<rparr>"
  have parsed: "parse_update_payload sample_edit edit_payload = Some ?edit"
    by (simp add: parse_update_payload_def sample_edit_def edit_payload_def sample_yrs_def json_object_def
        json_bytes_def array_bytes_json [of "[0, 2]", simplified])
  have s: "handles_ok (ed_buffers ann_editing)" "ed_tasks ann_editing = []"
    "ed_user ann_editing = Some (user_load (user_sample ''ann'' True))"
    "nb_note_id (ed_buffers ann_editing) = Some (up_resource_id ?edit)"
    using note_buffers_docs(5) [of "[1]" "[]"]
    by (simp_all add: ann_editing_def handles_ok_def all_slots note_buffers_docs)
  have "parse_note_id ''diary'' = Some ''diary''" by (simp add: parse_note_id_def trim_quotes_def)
  moreover have "apply_update_v2 (el_docs sample_edit) (slot_doc (doc_selection (up_doc_type ?edit)) (ed_buffers ann_editing))
      (up_update_bytes ?edit) = Inr [1, 2]"
  proof -
    have "slot_doc Main_doc (ed_buffers ann_editing) = [1]"
      using note_buffers_docs(1) [of "[1]" "[]"] by (simp add: ann_editing_def slot_doc_def doc_at_def)
    then show ?thesis by (simp add: doc_selection_def sample_edit_def apply_update_v2_def sample_yrs_def)
  qed
  ultimately show ?thesis
    using late_update_restores_old_document [OF s(1,2,3) parsed s(4)] by (simp add: doc_selection_def)
qed

section \<open>Previews\<close>

definition par :: "string \<Rightarrow> xml_tree" where
  "par s = Elem ''paragraph'' [] [Txt s]"

definition item :: "string \<Rightarrow> xml_tree" where
  "item s = Elem ''list_item'' [] [par s]"

lemma preview_renders_witness:
  "preview_events 2 (map Inr (concat (map tree_events ([par ''a'', Elem ''bullet_list'' [] [item ''b'']] @ [par ''c''])))) =
    Inr [H_Start ''p'', H_Text ''a'', H_End ''p'', H_Start ''ul'', H_Start ''li'', H_Start ''p'', H_Text ''b'',
      H_End ''p'', H_End ''li'', H_End ''ul'']"
proof -
  have "list_all (tree_ok False) [par ''a'', Elem ''bullet_list'' [] [item ''b'']]"
    by (simp add: par_def item_def image_ok_def is_text_def)
  note same = preview_renders [OF this, of 2 "[par ''c'']"]
  have "concat (map (render False) [par ''a'', Elem ''bullet_list'' [] [item ''b'']]) =
      [H_Start ''p'', H_Text ''a'', H_End ''p'', H_Start ''ul'', H_Start ''li'', H_Start ''p'', H_Text ''b'',
       H_End ''p'', H_End ''li'', H_End ''ul'']"
    by (simp add: par_def item_def opening_html_def closing_html_def plain_tag_def)
  with same show ?thesis by (simp only: par_def block_root.simps) (simp add: is_block_element_def)
qed

lemma preview_limit_leaks_witness:
  "preview_events 1 (map Inr (concat (map tree_events
      ([par ''a''] @ [Elem ''bullet_list'' [] (Elem ''list_item'' [] [par ''b''] # [item ''c''])])))) =
    Inr [H_Start ''p'', H_Text ''a'', H_End ''p'',
      H_Start ''li'', H_Start ''p'', H_Text ''c'', H_End ''p'', H_End ''li'', H_End ''ul'']"
proof -
  have "list_all (tree_ok False) [par ''a'']" "list_all (tree_ok False) [item ''c'']"
    "\<not> list_ex block_root [item ''c'']" "is_block_element ''bullet_list''"
    by (simp_all add: par_def item_def image_ok_def is_text_def is_block_element_def)
  note leak = preview_limit_leaks [OF this(1) _ this(4,2,3), of 1 "[]" "''list_item''" "[]" "[par ''b'']"]
  have "concat (map (render False) ([par ''a''] @ [item ''c''])) @ closing_html False ''bullet_list'' None =
      [H_Start ''p'', H_Text ''a'', H_End ''p'',
       H_Start ''li'', H_Start ''p'', H_Text ''c'', H_End ''p'', H_End ''li'', H_End ''ul'']"
    by (simp add: par_def item_def opening_html_def closing_html_def plain_tag_def)
  with leak show ?thesis by (simp only: par_def block_root.simps) (simp add: is_block_element_def)
qed

end
