(* ===== verification/Search_Extract.thy ===== *)
theory Search_Extract
  imports Preview_Render
begin

text \<open>
  \<open>search_indexer/src/search_types.rs\<close> and \<open>extractor.rs\<close>: the text of a note that is indexed, taken
  from the XML text of its document in one pass, and its comments. The texts of the reader are parts
  of a \<open>str\<close>, so \<open>from_utf8_lossy\<close> only changes their type.
\<close>

datatype index_error =
    NotInitialized
  | CreationError string
  | IndexEncryptionError string
  | IndexDecryptionError string
  | ParsingError string
  | SearchError string
  | IoError string
  | SerializationError string
  | TantivyError string

section \<open>Text from XML\<close>

record extract_state =
  xt_content :: "string list"
  xt_title :: string
  xt_is_first :: bool
  xt_current :: string
  xt_in_text :: bool

definition extract_start :: extract_state where
  "extract_start = \<lparr>xt_content = [], xt_title = [], xt_is_first = True, xt_current = [], xt_in_text = False\<rparr>"

text \<open>The elements whose text is a part of the content.\<close>

definition is_paragraph :: "string \<Rightarrow> bool" where
  "is_paragraph name \<longleftrightarrow> name = ''paragraph'' \<or> name = ''heading''"

definition end_paragraph :: "extract_state \<Rightarrow> extract_state" where
  "end_paragraph s =
     (let s = (if xt_current s = [] then s
               else (if xt_is_first s \<and> xt_title s = []
                     then s\<lparr>xt_title := xt_current s, xt_is_first := False,
                            xt_content := xt_content s @ [xt_current s]\<rparr>
                     else s\<lparr>xt_content := xt_content s @ [xt_current s]\<rparr>))
      in s\<lparr>xt_in_text := False, xt_current := []\<rparr>)"

definition extract_event :: "string + xml_event \<Rightarrow> (extract_state, index_error, unit) sm" where
  "extract_event r = (case r of
       Inl e \<Rightarrow> sthrow (ParsingError (''Error parsing XML: '' @ e))
     | Inr (X_Start name _) \<Rightarrow>
         if is_paragraph name then smodify (\<lambda>s. s\<lparr>xt_in_text := True, xt_current := []\<rparr>)
         else if name = ''text'' then smodify (\<lambda>s. s\<lparr>xt_in_text := True\<rparr>)
         else sret ()
     | Inr (X_Text e) \<Rightarrow>
         smodify (\<lambda>s. if xt_in_text s then s\<lparr>xt_current := xt_current s @ bytes_text e\<rparr> else s)
     | Inr (X_End name) \<Rightarrow>
         if is_paragraph name then smodify end_paragraph
         else if name = ''text'' then smodify (\<lambda>s. s\<lparr>xt_in_text := False\<rparr>)
         else sret ()
     | Inr _ \<Rightarrow> sret ())"

definition extract_events :: "(string + xml_event) list \<Rightarrow> index_error + string \<times> string" where
  "extract_events events = (case sfor extract_event events extract_start of
       (Inl e, s) \<Rightarrow> Inl e
     | (Inr _, s) \<Rightarrow> Inr (join_text '' '' (xt_content s), if xt_title s = [] then untitled else xt_title s))"

definition extract_text_from_prosemirror_xml :: "'d view_lib \<Rightarrow> string \<Rightarrow> index_error + string \<times> string" where
  "extract_text_from_prosemirror_xml V xml = extract_events (vl_events V xml)"

section \<open>Notes and comments\<close>

text \<open>A new document with an update; unlike elsewhere empty bytes are an update too.\<close>

definition doc_of_update :: "('d, 'u, 'v) yrs \<Rightarrow> string \<Rightarrow> bytes \<Rightarrow> index_error + 'd" where
  "doc_of_update Y msg update =
     rbind (rmap_err ParsingError (y_decode_update Y update)) (\<lambda>u.
     rmap_err (\<lambda>e. ParsingError (msg @ e)) (y_apply Y (y_new Y) u))"

fun comment_texts :: "'d view_lib \<Rightarrow> (string \<times> y_out) list \<Rightarrow> index_error + string list" where
  "comment_texts V [] = Inr []"
| "comment_texts V ((i, Out_Fragment xml_string) # rest) =
     rbind (extract_text_from_prosemirror_xml V xml_string) (\<lambda>(comment_text, _).
     rbind (comment_texts V rest) (\<lambda>comments.
     Inr (if comment_text \<noteq> [] then comment_text # comments else comments)))"
| "comment_texts V ((i, _) # rest) = comment_texts V rest"

definition extract_comments_from_comment_state ::
  "('d, 'u, 'v) yrs \<Rightarrow> 'd view_lib \<Rightarrow> json \<Rightarrow> index_error + string list" where
  "extract_comments_from_comment_state Y V note_content =
     (case Option.bind (json_get ''comment_state'' note_content) as_array of
        None \<Rightarrow> Inr []
      | Some comment_state_array \<Rightarrow>
          if comment_state_array = [] then Inr []
          else rbind (doc_of_update Y ''Failed to apply comment update: '' (array_bytes comment_state_array))
            (\<lambda>comment_doc. comment_texts V
               (case vl_map V comment_doc ''replyContents'' of Some m \<Rightarrow> m | None \<Rightarrow> [])))"

definition extract_content_from_note ::
  "('d, 'u, 'v) yrs \<Rightarrow> 'd view_lib \<Rightarrow> string \<Rightarrow> json \<Rightarrow> index_error + string \<times> string \<times> string list" where
  "extract_content_from_note Y V yjs_field_name note_content =
     (case Option.bind (json_get yjs_field_name note_content) as_array of
        None \<Rightarrow> Inl (ParsingError (yjs_field_name @ '' field not found or not an array''))
      | Some main_doc_array \<Rightarrow>
     (let json_title = (case Option.bind (json_get ''title'' note_content) as_str of
            Some t \<Rightarrow> t | None \<Rightarrow> untitled) in
     rbind (doc_of_update Y ''Failed to apply update: '' (array_bytes main_doc_array)) (\<lambda>ydoc.
     rbind (extract_text_from_prosemirror_xml V
              (case vl_fragment V ydoc ''prosemirror'' of Some t \<Rightarrow> t | None \<Rightarrow> [])) (\<lambda>(content, extracted_title).
     rbind (extract_comments_from_comment_state Y V note_content) (\<lambda>comments.
     Inr (content, if json_title \<noteq> untitled then json_title else extracted_title, comments))))))"

section \<open>The extraction against the tree\<close>

text \<open>The text under a tree, and the texts of its paragraphs in order.\<close>

fun plain_text :: "xml_tree \<Rightarrow> string" where
  "plain_text (Elem n attrs ts) = concat (map plain_text ts)"
| "plain_text (Void n attrs) = []"
| "plain_text (Txt s) = s"

fun paragraph_texts :: "xml_tree \<Rightarrow> string list" where
  "paragraph_texts (Elem n attrs ts) =
     (if is_paragraph n then [concat (map plain_text ts)] else concat (map paragraph_texts ts))"
| "paragraph_texts _ = []"

text \<open>Paragraphs are not nested, and no element is called \<open>text\<close>.\<close>

fun inline_ok :: "xml_tree \<Rightarrow> bool" where
  "inline_ok (Elem n attrs ts) \<longleftrightarrow> \<not> is_paragraph n \<and> n \<noteq> ''text'' \<and> list_all inline_ok ts"
| "inline_ok _ = True"

fun paragraphs_ok :: "xml_tree \<Rightarrow> bool" where
  "paragraphs_ok (Elem n attrs ts) \<longleftrightarrow> n \<noteq> ''text'' \<and>
     (if is_paragraph n then list_all inline_ok ts else list_all paragraphs_ok ts)"
| "paragraphs_ok _ = True"

abbreviation extracting :: "xml_event list \<Rightarrow> (extract_state, index_error, unit) sm" where
  "extracting es \<equiv> sfor extract_event (map Inr es)"

lemma extracting_then:
  "extracting es s = (Inr (), t) \<Longrightarrow> sfor extract_event (map Inr es @ fs) s = sfor extract_event fs t"
  by (induction es arbitrary: s) (auto simp: sbind_def split: prod.splits sum.splits)

lemma extract_event_simps [simp]:
  "extract_event (Inr (X_Start n attrs)) s = (Inr (),
     if is_paragraph n then s\<lparr>xt_in_text := True, xt_current := []\<rparr>
     else if n = ''text'' then s\<lparr>xt_in_text := True\<rparr> else s)"
  "extract_event (Inr (X_End n)) s = (Inr (),
     if is_paragraph n then end_paragraph s else if n = ''text'' then s\<lparr>xt_in_text := False\<rparr> else s)"
  "extract_event (Inr (X_Text e)) s = (Inr (),
     if xt_in_text s then s\<lparr>xt_current := xt_current s @ bytes_text e\<rparr> else s)"
  "extract_event (Inr (X_Empty n attrs)) s = (Inr (), s)"
  by (simp_all add: extract_event_def)

lemma inline_forest_run:
  assumes "\<And>t s. t \<in> set ts \<Longrightarrow> xt_in_text s \<Longrightarrow>
      extracting (tree_events t) s = (Inr (), s\<lparr>xt_current := xt_current s @ plain_text t\<rparr>)"
    and "xt_in_text s"
  shows "extracting (concat (map tree_events ts)) s =
    (Inr (), s\<lparr>xt_current := xt_current s @ concat (map plain_text ts)\<rparr>)"
  using assms
  by (induction ts arbitrary: s) (simp_all add: extracting_then)

lemma inline_run:
  "inline_ok t \<Longrightarrow> xt_in_text s \<Longrightarrow>
    extracting (tree_events t) s = (Inr (), s\<lparr>xt_current := xt_current s @ plain_text t\<rparr>)"
proof (induction t arbitrary: s)
  case (Elem n attrs ts)
  then have "extracting (concat (map tree_events ts)) s =
      (Inr (), s\<lparr>xt_current := xt_current s @ concat (map plain_text ts)\<rparr>)"
    by (intro inline_forest_run) (auto simp: list_all_iff)
  then show ?case using Elem.prems by (simp add: sbind_def extracting_then)
qed (simp_all add: sbind_def)

text \<open>The state after the paragraphs \<open>ps\<close>.\<close>

definition after_paragraphs :: "string list \<Rightarrow> extract_state" where
  "after_paragraphs ps = (let texts = filter (\<lambda>p. p \<noteq> []) ps in
     \<lparr>xt_content = texts, xt_title = (case texts of [] \<Rightarrow> [] | t # _ \<Rightarrow> t), xt_is_first = (texts = []),
      xt_current = [], xt_in_text = False\<rparr>)"

lemma end_paragraph_after:
  "end_paragraph ((after_paragraphs ps)\<lparr>xt_in_text := True, xt_current := p\<rparr>) = after_paragraphs (ps @ [p])"
  by (auto simp: end_paragraph_def after_paragraphs_def Let_def split: list.splits)

lemma paragraphs_run:
  "paragraphs_ok t \<Longrightarrow> extracting (tree_events t) (after_paragraphs ps) =
    (Inr (), after_paragraphs (ps @ paragraph_texts t))"
proof (induction t arbitrary: ps)
  case (Elem n attrs ts)
  show ?case
  proof (cases "is_paragraph n")
    case True
    let ?s = "(after_paragraphs ps)\<lparr>xt_in_text := True, xt_current := []\<rparr>"
    have "list_all inline_ok ts" using Elem.prems True by simp
    then have "extracting (concat (map tree_events ts)) ?s =
        (Inr (), ?s\<lparr>xt_current := xt_current ?s @ concat (map plain_text ts)\<rparr>)"
      by (intro inline_forest_run inline_run) (auto simp: list_all_iff)
    with True show ?thesis by (simp add: sbind_def extracting_then end_paragraph_after)
  next
    case False
    have "extracting (concat (map tree_events us)) (after_paragraphs ps) =
        (Inr (), after_paragraphs (ps @ concat (map paragraph_texts us)))"
      if "set us \<subseteq> set ts" for us ps
      using that
    proof (induction us arbitrary: ps)
      case (Cons u us)
      have "paragraphs_ok u" using Cons.prems Elem.prems False by (auto simp: list_all_iff)
      then have "extracting (tree_events u) (after_paragraphs ps) = (Inr (), after_paragraphs (ps @ paragraph_texts u))"
        using Elem.IH [of u ps] Cons.prems by simp
      then show ?case using Cons.IH [of "ps @ paragraph_texts u"] Cons.prems by (simp add: extracting_then)
    qed simp
    from this [OF order_refl] False show ?thesis
      using Elem.prems by (simp add: sbind_def extracting_then)
  qed
qed (simp_all add: sbind_def after_paragraphs_def Let_def)

text \<open>
  Read in one pass over the XML, the text of a document is that of its paragraphs and headings: the
  texts of those that are not empty, in order, each with all the text below it. The first of them is
  the title when the note has none of its own.
\<close>

definition tree_texts :: "xml_tree list \<Rightarrow> string list" where
  "tree_texts ts = filter (\<lambda>p. p \<noteq> []) (concat (map paragraph_texts ts))"

lemma extracted_text_of_tree:
  assumes "list_all paragraphs_ok ts"
  shows "extract_events (map Inr (concat (map tree_events ts))) =
    Inr (join_text '' '' (tree_texts ts), case tree_texts ts of [] \<Rightarrow> untitled | t # _ \<Rightarrow> t)"
proof -
  have "extracting (concat (map tree_events us)) (after_paragraphs ps) =
      (Inr (), after_paragraphs (ps @ concat (map paragraph_texts us)))"
    if "list_all paragraphs_ok us" for us ps
    using that
    by (induction us arbitrary: ps) (simp_all add: extracting_then paragraphs_run)
  from this [OF assms, of "[]"]
  have run: "extracting (concat (map tree_events ts)) extract_start =
      (Inr (), after_paragraphs (concat (map paragraph_texts ts)))"
    by (simp add: extract_start_def after_paragraphs_def Let_def)
  define texts where "texts = filter (\<lambda>p. p \<noteq> []) (concat (map paragraph_texts ts))"
  have "t \<noteq> []" if "t \<in> set texts" for t using that by (simp add: texts_def)
  then have "xt_title (after_paragraphs (concat (map paragraph_texts ts))) = [] \<longleftrightarrow> texts = []"
    by (simp add: after_paragraphs_def Let_def texts_def [symmetric] split: list.splits)
  with run show ?thesis
    by (simp add: extract_events_def after_paragraphs_def Let_def tree_texts_def texts_def [symmetric] split: list.splits)
qed

end
