(* ===== verification/Search_Index.thy ===== *)
theory Search_Index
  imports Search_Extract Resource_Service Repo_Users_Devices
begin

text \<open>
  \<open>search_indexer/src\<close>: the index over the decrypted notes, kept in memory, saved encrypted and
  restored from there. The index itself is the \<open>tantivy\<close> crate, a parameter: \<open>tv_create\<close> makes an
  index with its writer and reader, \<open>tv_delete\<close>, \<open>tv_add\<close> and \<open>tv_commit\<close> go through the writer, \<open>tv_reload\<close>
  lets the reader see what was committed, \<open>tv_search\<close> and \<open>tv_all\<close> read. A score is the 32 bits of its
  \<open>f32\<close>. The table of lower case letters, the JSON of a snapshot and the texts of errors are parameters
  too.
\<close>

section \<open>Documents\<close>

record tantivy_document =
  td_resource_id :: "string option"
  td_title :: "string option"
  td_content :: "string option"
  td_folder_id :: "string option"
  td_comments :: "string option"

record serialized_document =
  sdoc_resource_id :: string
  sdoc_title :: string
  sdoc_content :: string
  sdoc_folder_id :: string
  sdoc_comments :: "string list"

record index_snapshot =
  snap_documents :: "serialized_document list"
  snap_version :: "32 word"
  snap_encrypted_key :: string

datatype search_result_type = Document_result | Comment_result

record search_result =
  srs_resource_id :: string
  srs_title :: string
  srs_snippet :: string
  srs_score :: "32 word"
  srs_result_type :: search_result_type

record 'ix tantivy =
  tv_create :: "string + 'ix"
  tv_delete :: "string \<Rightarrow> 'ix \<Rightarrow> 'ix"
  tv_add :: "tantivy_document \<Rightarrow> 'ix \<Rightarrow> string + 'ix"
  tv_commit :: "'ix \<Rightarrow> string + 'ix"
  tv_reload :: "'ix \<Rightarrow> string + 'ix"
  tv_search :: "'ix \<Rightarrow> string \<Rightarrow> nat \<Rightarrow> string + (32 word \<times> (string + tantivy_document)) list"
  tv_all :: "'ix \<Rightarrow> nat \<Rightarrow> string + (string + tantivy_document) list"

record ('d, 'u, 'v, 'ix) search_lib =
  sl_crypto :: crypto_lib
  sl_docs :: "('d, 'u, 'v) yrs"
  sl_view :: "'d view_lib"
  sl_index :: "'ix tantivy"
  sl_lower :: "string \<Rightarrow> string"
  snap_print :: "index_snapshot \<Rightarrow> string + bytes"
  snap_read :: "string \<Rightarrow> string + index_snapshot"
  sl_field :: string

section \<open>Text\<close>

text \<open>The characters of a text are its bytes that do not continue a character.\<close>

definition starts_char :: "char \<Rightarrow> bool" where
  "starts_char c \<longleftrightarrow> \<not> cont_byte (of_char c)"

definition char_count :: "string \<Rightarrow> nat" where
  "char_count s = length (filter starts_char s)"

fun take_chars :: "nat \<Rightarrow> string \<Rightarrow> string" where
  "take_chars n [] = []"
| "take_chars n (c # cs) =
     (if \<not> starts_char c then c # take_chars n cs
      else case n of 0 \<Rightarrow> [] | Suc m \<Rightarrow> c # take_chars m cs)"

definition truncate_string :: "string \<Rightarrow> nat \<Rightarrow> string" where
  "truncate_string s max_chars =
     (if char_count s \<le> max_chars then s else take_chars max_chars s @ ''...'')"

text \<open>The bytes of the white space character that a text begins with.\<close>

fun white_length :: "nat list \<Rightarrow> nat" where
  "white_length [] = 0"
| "white_length (a # xs) =
     (if 9 \<le> a \<and> a \<le> 13 \<or> a = 32 then 1
      else case xs of
        b # ys \<Rightarrow> if white2 a b then 2
          else (case ys of c # zs \<Rightarrow> if white3 a b c then 3 else 0 | [] \<Rightarrow> 0)
      | [] \<Rightarrow> 0)"

function split_words :: "string \<Rightarrow> string \<Rightarrow> string list" where
  "split_words word [] = (if word = [] then [] else [word])"
| "split_words word (c # cs) =
     (if white_length (map of_char (c # cs)) = 0 then split_words (word @ [c]) cs
      else (if word = [] then [] else [word]) @
           split_words [] (drop (white_length (map of_char (c # cs)) - 1) cs))"
  by pat_completeness auto

termination by (relation "measure (length \<circ> snd)") auto

text \<open>\<open>s.split('\n')\<close>.\<close>

definition newline :: char where
  "newline = CHR 0x0A"

fun split_lines :: "string \<Rightarrow> string list" where
  "split_lines [] = [[]]"
| "split_lines (c # cs) =
     (if c = newline then [] # split_lines cs
      else case split_lines cs of l # ls \<Rightarrow> (c # l) # ls | [] \<Rightarrow> [[c]])"

section \<open>Operations on an index\<close>

text \<open>A call of the library that fails leaves the index as it is.\<close>

definition index_call :: "('ix \<Rightarrow> string + 'ix) \<Rightarrow> ('ix, index_error, unit) sm" where
  "index_call f ix = (case f ix of Inl e \<Rightarrow> (Inl (TantivyError e), ix) | Inr ix' \<Rightarrow> (Inr (), ix'))"

definition index_document ::
  "'ix tantivy \<Rightarrow> string \<Rightarrow> string \<Rightarrow> string \<Rightarrow> string \<Rightarrow> string list \<Rightarrow> ('ix, index_error, unit) sm" where
  "index_document T resource_id title content folder_id comments =
     sbind (smodify (tv_delete T resource_id)) (\<lambda>_.
     index_call (tv_add T
       \<lparr>td_resource_id = Some resource_id, td_title = Some title, td_content = Some content,
        td_folder_id = Some folder_id, td_comments = Some (join_text [newline] comments)\<rparr>))"

definition delete_document :: "'ix tantivy \<Rightarrow> string \<Rightarrow> ('ix, index_error, unit) sm" where
  "delete_document T resource_id = smodify (tv_delete T resource_id)"

definition text_or :: "string \<Rightarrow> string option \<Rightarrow> string" where
  "text_or dflt v = (case v of Some s \<Rightarrow> s | None \<Rightarrow> dflt)"

text \<open>A result is shown as a comment when a word of the query is in the comments.\<close>

definition search_result_of ::
  "(string \<Rightarrow> string) \<Rightarrow> string \<Rightarrow> 32 word \<Rightarrow> tantivy_document \<Rightarrow> search_result" where
  "search_result_of lower query_str score doc =
     (let content = text_or [] (td_content doc);
          comments = text_or [] (td_comments doc);
          result_type = (if comments \<noteq> [] \<and>
              list_ex (\<lambda>word. str_find word (lower comments) \<noteq> None) (split_words [] (lower query_str))
            then Comment_result else Document_result)
      in \<lparr>srs_resource_id = text_or [] (td_resource_id doc), srs_title = text_or ''Untitled'' (td_title doc),
          srs_snippet = (if result_type = Comment_result \<and> comments \<noteq> []
            then truncate_string comments 200 else truncate_string content 200),
          srs_score = score, srs_result_type = result_type\<rparr>)"

fun search_results ::
  "(string \<Rightarrow> string) \<Rightarrow> string \<Rightarrow> (32 word \<times> (string + tantivy_document)) list
     \<Rightarrow> index_error + search_result list" where
  "search_results lower query_str [] = Inr []"
| "search_results lower query_str ((score, doc) # rest) =
     rbind (rmap_err TantivyError doc) (\<lambda>retrieved_doc.
     rbind (search_results lower query_str rest) (\<lambda>results.
     Inr (search_result_of lower query_str score retrieved_doc # results)))"

definition index_search ::
  "'ix tantivy \<Rightarrow> (string \<Rightarrow> string) \<Rightarrow> 'ix \<Rightarrow> string \<Rightarrow> nat \<Rightarrow> index_error + search_result list" where
  "index_search T lower ix query_str limit =
     rbind (rmap_err SearchError (tv_search T ix query_str limit)) (search_results lower query_str)"

definition serialize_document :: "tantivy_document \<Rightarrow> serialized_document" where
  "serialize_document doc =
     (let comments_text = text_or [] (td_comments doc) in
      \<lparr>sdoc_resource_id = text_or [] (td_resource_id doc), sdoc_title = text_or [] (td_title doc),
       sdoc_content = text_or [] (td_content doc), sdoc_folder_id = text_or [] (td_folder_id doc),
       sdoc_comments = (if comments_text \<noteq> [] then split_lines comments_text else [])\<rparr>)"

fun serialize_documents :: "(string + tantivy_document) list \<Rightarrow> index_error + serialized_document list" where
  "serialize_documents [] = Inr []"
| "serialize_documents (doc # rest) =
     rbind (rmap_err TantivyError doc) (\<lambda>d.
     rbind (serialize_documents rest) (\<lambda>ds. Inr (serialize_document d # ds)))"

definition extract_all_documents :: "'ix tantivy \<Rightarrow> 'ix \<Rightarrow> index_error + serialized_document list" where
  "extract_all_documents T ix =
     rbind (rmap_err (\<lambda>e. SearchError (''Failed to search documents: '' @ e)) (tv_all T ix 10000))
       serialize_documents"

section \<open>The manager\<close>

text \<open>
  \<open>ix_file\<close> is the encrypted file, if it is there, and \<open>ix_disk n\<close> the error of the \<open>n\<close>-th access to the
  disk, if it fails.
\<close>

record 'ix indexing =
  ix_index :: "'ix option"
  ix_user_pub_key :: "string option"
  ix_file :: "string option"
  ix_disk :: "nat \<Rightarrow> string option"
  ix_disk_n :: nat
  ix_world :: world

type_synonym ('ix, 'a) indexes = "('ix indexing, index_error, 'a) sm"

definition disk_access :: "('ix, unit) indexes" where
  "disk_access s = ((case ix_disk s (ix_disk_n s) of Some e \<Rightarrow> Inl (IoError e) | None \<Rightarrow> Inr ()),
     s\<lparr>ix_disk_n := Suc (ix_disk_n s)\<rparr>)"

definition in_world :: "('e \<Rightarrow> index_error) \<Rightarrow> (world, 'e, 'a) sm \<Rightarrow> ('ix, 'a) indexes" where
  "in_world V m s = (case m (ix_world s) of (r, w) \<Rightarrow> (rmap_err V r, s\<lparr>ix_world := w\<rparr>))"

text \<open>The index, which every operation but \<open>initialize\<close> needs, and an operation on it.\<close>

definition get_index :: "('ix, 'ix) indexes" where
  "get_index = sbind (sget ix_index) (\<lambda>index. case index of
     Some ix \<Rightarrow> sret ix | None \<Rightarrow> sthrow NotInitialized)"

definition set_index :: "'ix \<Rightarrow> ('ix, unit) indexes" where
  "set_index ix = smodify (\<lambda>s. s\<lparr>ix_index := Some ix\<rparr>)"

definition on_index :: "('ix, index_error, unit) sm \<Rightarrow> ('ix, unit) indexes" where
  "on_index m = sbind get_index (\<lambda>ix. case m ix of (r, ix') \<Rightarrow> sbind (set_index ix') (\<lambda>_. slift r))"

definition commit_and_reload :: "'ix tantivy \<Rightarrow> ('ix, unit) indexes" where
  "commit_and_reload T =
     sbind (on_index (index_call (tv_commit T))) (\<lambda>_. on_index (index_call (tv_reload T)))"

definition create_new_index :: "'ix tantivy \<Rightarrow> ('ix, unit) indexes" where
  "create_new_index T = sbind (slift (rmap_err TantivyError (tv_create T))) set_index"

definition restore_from_snapshot :: "'ix tantivy \<Rightarrow> index_snapshot \<Rightarrow> ('ix, unit) indexes" where
  "restore_from_snapshot T snapshot =
     sbind (create_new_index T) (\<lambda>_.
     sbind (sfor (\<lambda>doc. on_index (index_document T (sdoc_resource_id doc) (sdoc_title doc) (sdoc_content doc)
              (sdoc_folder_id doc) (sdoc_comments doc))) (snap_documents snapshot)) (\<lambda>_.
     commit_and_reload T))"

text \<open>\<open>storage.rs\<close>.\<close>

definition save_encrypted ::
  "('d, 'u, 'v, 'ix) search_lib \<Rightarrow> index_snapshot \<Rightarrow> string \<Rightarrow> ('ix, unit) indexes" where
  "save_encrypted S snapshot user_pub_key =
     sbind (slift (rmap_err SerializationError (snap_print S snapshot))) (\<lambda>serialized.
     sbind (slift (rmap_err IndexEncryptionError (from_utf8 serialized))) (\<lambda>serialized_str.
     sbind (in_world (\<lambda>e. IndexEncryptionError (crypto_text (sl_crypto S) e))
              (encrypt_data_for_user (sl_crypto S) serialized_str user_pub_key)) (\<lambda>(encrypted_data, encrypted_key).
     sbind (in_world (\<lambda>e. IoError (repository_text (sl_crypto S) e)) (add_index_key encrypted_key)) (\<lambda>_.
     sbind disk_access (\<lambda>_.
     smodify (\<lambda>s. s\<lparr>ix_file := Some encrypted_data\<rparr>))))))"

definition load_encrypted ::
  "('d, 'u, 'v, 'ix) search_lib \<Rightarrow> crypto_utils \<Rightarrow> ('ix, index_snapshot option) indexes" where
  "load_encrypted S cu =
     sbind (sget ix_file) (\<lambda>file. case file of
       None \<Rightarrow> sret None
     | Some encrypted_data \<Rightarrow>
         sbind disk_access (\<lambda>_.
         sbind (in_world (\<lambda>e. IndexDecryptionError (''Failed to get index key: '' @ repository_text (sl_crypto S) e))
                  get_index_key) (\<lambda>encrypted_key.
         sbind (slift (rmap_err (\<lambda>e. IndexDecryptionError (crypto_text (sl_crypto S) e))
                  (decrypt_resource (sl_crypto S) cu encrypted_data encrypted_key))) (\<lambda>decrypted_data.
         sbind (slift (rmap_err SerializationError (snap_read S decrypted_data))) (\<lambda>snapshot.
         sret (Some snapshot))))))"

definition delete_file :: "('ix, unit) indexes" where
  "delete_file = sbind (sget ix_file) (\<lambda>file.
     if file = None then sret ()
     else sbind disk_access (\<lambda>_. smodify (\<lambda>s. s\<lparr>ix_file := None\<rparr>)))"

text \<open>\<open>manager.rs\<close>.\<close>

definition manager_new :: "string option \<Rightarrow> (nat \<Rightarrow> string option) \<Rightarrow> world \<Rightarrow> 'ix indexing" where
  "manager_new file disk w = \<lparr>ix_index = None, ix_user_pub_key = None, ix_file = file, ix_disk = disk,
     ix_disk_n = 0, ix_world = w\<rparr>"

definition initialize :: "('d, 'u, 'v, 'ix) search_lib \<Rightarrow> crypto_utils \<Rightarrow> string \<Rightarrow> ('ix, unit) indexes" where
  "initialize S cu user_pub_key =
     sbind (smodify (\<lambda>s. s\<lparr>ix_user_pub_key := Some user_pub_key\<rparr>)) (\<lambda>_.
     sbind (load_encrypted S cu) (\<lambda>loaded. case loaded of
       Some snapshot \<Rightarrow> restore_from_snapshot (sl_index S) snapshot
     | None \<Rightarrow> create_new_index (sl_index S)))"

definition extract_for_save :: "('d, 'u, 'v, 'ix) search_lib \<Rightarrow> ('ix, serialized_document list \<times> string) indexes" where
  "extract_for_save S =
     sbind get_index (\<lambda>ix.
     sbind (slift (extract_all_documents (sl_index S) ix)) (\<lambda>documents.
     sbind (sget ix_user_pub_key) (\<lambda>key. case key of
       Some user_pub_key \<Rightarrow> sret (documents, user_pub_key)
     | None \<Rightarrow> sthrow NotInitialized)))"

definition save_extracted_data ::
  "('d, 'u, 'v, 'ix) search_lib \<Rightarrow> serialized_document list \<Rightarrow> string \<Rightarrow> ('ix, unit) indexes" where
  "save_extracted_data S documents user_pub_key =
     save_encrypted S \<lparr>snap_documents = documents, snap_version = 1, snap_encrypted_key = []\<rparr> user_pub_key"

definition save_index :: "('d, 'u, 'v, 'ix) search_lib \<Rightarrow> ('ix, unit) indexes" where
  "save_index S = sbind (extract_for_save S) (\<lambda>(documents, user_pub_key).
     save_extracted_data S documents user_pub_key)"

definition is_initialized :: "'ix indexing \<Rightarrow> bool" where
  "is_initialized s \<longleftrightarrow> ix_index s \<noteq> None"

text \<open>One tick of \<open>start_scheduled_save\<close>; the result tells whether the task goes on.\<close>

definition scheduled_save :: "('d, 'u, 'v, 'ix) search_lib \<Rightarrow> ('ix, bool) indexes" where
  "scheduled_save S = sbind (sget is_initialized) (\<lambda>ready.
     if \<not> ready then sret False else scatch (save_index S) (\<lambda>_. sret True) (\<lambda>_. sret True))"

definition index_resource :: "('d, 'u, 'v, 'ix) search_lib \<Rightarrow> ident \<Rightarrow> json \<Rightarrow> ident \<Rightarrow> ('ix, unit) indexes" where
  "index_resource S resource_id note_content folder_id =
     sbind (slift (extract_content_from_note (sl_docs S) (sl_view S) (sl_field S) note_content))
       (\<lambda>(content, title, comments).
     sbind (on_index (index_document (sl_index S) resource_id title content folder_id comments)) (\<lambda>_.
     commit_and_reload (sl_index S)))"

definition search_update_resource ::
  "('d, 'u, 'v, 'ix) search_lib \<Rightarrow> ident \<Rightarrow> json \<Rightarrow> ident \<Rightarrow> ('ix, unit) indexes" where
  "search_update_resource S resource_id note_content folder_id = index_resource S resource_id note_content folder_id"

definition search_delete_resource :: "('d, 'u, 'v, 'ix) search_lib \<Rightarrow> ident \<Rightarrow> ('ix, unit) indexes" where
  "search_delete_resource S resource_id =
     sbind (on_index (delete_document (sl_index S) resource_id)) (\<lambda>_.
     commit_and_reload (sl_index S))"

definition manager_search ::
  "('d, 'u, 'v, 'ix) search_lib \<Rightarrow> string \<Rightarrow> nat \<Rightarrow> ('ix, search_result list) indexes" where
  "manager_search S query_str limit =
     sbind get_index (\<lambda>ix. slift (index_search (sl_index S) (sl_lower S) ix query_str limit))"

definition clear_index :: "('ix, unit) indexes" where
  "clear_index = smodify (\<lambda>s. s\<lparr>ix_index := None\<rparr>)"

definition delete_encrypted :: "('ix, unit) indexes" where
  "delete_encrypted = delete_file"

end
