(* ===== verification/Search_Properties.thy ===== *)
theory Search_Properties
  imports Search_Index Crypto_Properties "HOL-Library.Multiset"
begin

text \<open>
  What the search index promises: short results, and an index that is saved and restored with the
  same documents. The laws of the index library are \<open>tv_laws\<close>, those of the encryption the ones of
  \<open>Crypto_Properties\<close>.
\<close>

section \<open>Snippets\<close>

lemma char_count_simps [simp]:
  "char_count [] = 0" "char_count (c # cs) = (if starts_char c then Suc (char_count cs) else char_count cs)"
  "char_count (s @ t) = char_count s + char_count t"
  by (simp_all add: char_count_def)

lemma take_chars_count: "char_count (take_chars n s) \<le> n"
  by (induction n s rule: take_chars.induct) (auto split: nat.splits)

lemma take_chars_prefix: "\<exists>t. s = take_chars n s @ t"
  by (induction n s rule: take_chars.induct) (auto split: nat.splits)

lemma take_chars_full: "n \<le> char_count s \<Longrightarrow> char_count (take_chars n s) = n"
  by (induction n s rule: take_chars.induct) (auto split: nat.splits)

text \<open>
  A result shows a document: its id and score are those of the document, and its snippet is the
  beginning, of at most 200 characters and an ellipsis, of the comments when the result is a comment
  and of the content otherwise.
\<close>

definition result_shows :: "32 word \<times> (string + tantivy_document) \<Rightarrow> search_result \<Rightarrow> bool" where
  "result_shows hit r \<longleftrightarrow> (\<exists>doc shown rest. hit = (srs_score r, Inr doc) \<and>
     srs_resource_id r = text_or [] (td_resource_id doc) \<and>
     text_or [] (if srs_result_type r = Comment_result then td_comments doc else td_content doc) = shown @ rest \<and>
     srs_snippet r = shown @ (if rest = [] then [] else ''...'') \<and>
     char_count shown \<le> 200 \<and> (rest \<noteq> [] \<longrightarrow> char_count shown = 200))"

lemma truncate_shows:
  "\<exists>shown rest. s = shown @ rest \<and> truncate_string s n = shown @ (if rest = [] then [] else ''...'') \<and>
     char_count shown \<le> n \<and> (rest \<noteq> [] \<longrightarrow> char_count shown = n)"
proof (cases "char_count s \<le> n")
  case True
  then show ?thesis by (intro exI [of _ s] exI [of _ "[]"]) (simp add: truncate_string_def)
next
  case False
  obtain rest where rest: "s = take_chars n s @ rest" using take_chars_prefix by blast
  have "char_count (take_chars n s) = n" using False take_chars_full by simp
  moreover have "rest \<noteq> []" using False rest calculation by (metis append_Nil2 order_refl)
  ultimately show ?thesis
    using False rest by (intro exI [of _ "take_chars n s"] exI [of _ rest]) (simp add: truncate_string_def)
qed

lemma shown_result:
  assumes "c \<longrightarrow> text_or [] (td_comments doc) \<noteq> []"
    and "r = \<lparr>srs_resource_id = text_or [] (td_resource_id doc), srs_title = title,
      srs_snippet = (if (if c then Comment_result else Document_result) = Comment_result \<and> text_or [] (td_comments doc) \<noteq> []
        then truncate_string (text_or [] (td_comments doc)) 200 else truncate_string (text_or [] (td_content doc)) 200),
      srs_score = score, srs_result_type = (if c then Comment_result else Document_result)\<rparr>"
  shows "result_shows (score, Inr doc) r"
proof -
  let ?t = "text_or [] (if c then td_comments doc else td_content doc)"
  have r: "srs_score r = score" "srs_resource_id r = text_or [] (td_resource_id doc)"
    "(srs_result_type r = Comment_result) = c" "srs_snippet r = truncate_string ?t 200"
    using assms by (cases c; simp)+
  obtain shown rest where
    "?t = shown @ rest" "truncate_string ?t 200 = shown @ (if rest = [] then [] else ''...'')"
    "char_count shown \<le> 200" "rest \<noteq> [] \<longrightarrow> char_count shown = 200" using truncate_shows [of ?t 200] by blast
  with r show ?thesis
    unfolding result_shows_def by (intro exI [of _ doc] exI [of _ shown] exI [of _ rest] conjI) simp_all
qed

lemma search_result_shows: "result_shows (score, Inr doc) (search_result_of lower q score doc)"
  unfolding search_result_of_def Let_def by (rule shown_result [OF _ refl]) blast

lemma search_results_ok: "search_results lower q docs = Inr rs \<Longrightarrow> list_all2 result_shows docs rs"
  by (induction docs arbitrary: rs)
     (auto simp: rbind_eq_Inr rmap_err_eq_Inr search_result_shows)

text \<open>
  A search answers with one result for each document that the index found, in its order, with
  the id and the score of the document and a snippet of at most 200 characters, and an ellipsis where
  the text is longer, taken from its comments or its content as the type of the result says; the index
  is not changed.
\<close>

theorem search_results_bounded:
  assumes "manager_search S query_str limit s = (Inr results, t)"
  shows "\<exists>ix docs. ix_index s = Some ix \<and> tv_search (sl_index S) ix query_str limit = Inr docs \<and>
    list_all2 result_shows docs results \<and> t = s"
  using assms search_results_ok
  by (fastforce simp: manager_search_def get_index_def index_search_def sbind_eq_Inr rbind_eq_Inr rmap_err_eq_Inr split: option.splits)

section \<open>Building an index\<close>

text \<open>
  What the library documents. \<open>written\<close> are the documents that the writer holds, \<open>seen\<close> those that a
  search of the reader finds: what was written before the last commit and reload. A new index is
  empty, a deletion by id removes the documents with that id that were added before it, and a search
  for everything with a limit that is not less than their number finds each document, in some order. A call
  may fail, and so may reading a document that was found.
\<close>

definition tv_laws ::
  "'ix tantivy \<Rightarrow> ('ix \<Rightarrow> tantivy_document multiset) \<Rightarrow> ('ix \<Rightarrow> tantivy_document multiset) \<Rightarrow> bool" where
  "tv_laws T written seen \<longleftrightarrow>
     (\<forall>ix. tv_create T = Inr ix \<longrightarrow> written ix = {#}) \<and>
     (\<forall>ix r. written (tv_delete T r ix) = filter_mset (\<lambda>d. td_resource_id d \<noteq> Some r) (written ix)) \<and>
     (\<forall>ix d ix'. tv_add T d ix = Inr ix' \<longrightarrow> written ix' = add_mset d (written ix)) \<and>
     (\<forall>ix ix' ix''. tv_commit T ix = Inr ix' \<longrightarrow> tv_reload T ix' = Inr ix'' \<longrightarrow> seen ix'' = written ix) \<and>
     (\<forall>ix n hits. tv_all T ix n = Inr hits \<longrightarrow> size (seen ix) \<le> n \<longrightarrow>
        (\<exists>docs. mset docs = seen ix \<and> list_all2 (\<lambda>hit d. \<forall>x. hit = Inr x \<longrightarrow> x = d) hits docs))"

text \<open>No call that builds an index fails.\<close>

definition tv_infallible :: "'ix tantivy \<Rightarrow> bool" where
  "tv_infallible T \<longleftrightarrow> (\<exists>ix. tv_create T = Inr ix) \<and> (\<forall>d ix. \<exists>ix'. tv_add T d ix = Inr ix') \<and>
     (\<forall>ix. \<exists>ix'. tv_commit T ix = Inr ix') \<and> (\<forall>ix. \<exists>ix'. tv_reload T ix = Inr ix')"

definition stored_document :: "serialized_document \<Rightarrow> tantivy_document" where
  "stored_document d =
     \<lparr>td_resource_id = Some (sdoc_resource_id d), td_title = Some (sdoc_title d),
      td_content = Some (sdoc_content d), td_folder_id = Some (sdoc_folder_id d),
      td_comments = Some (join_text [newline] (sdoc_comments d))\<rparr>"

text \<open>Comments are lines of text, and not empty.\<close>

definition comments_ok :: "serialized_document \<Rightarrow> bool" where
  "comments_ok d \<longleftrightarrow> list_all (\<lambda>c. c \<noteq> [] \<and> newline \<notin> set c) (sdoc_comments d)"

lemma split_lines_line: "newline \<notin> set c \<Longrightarrow> split_lines c = [c]"
  by (induction c) auto

lemma split_lines_Cons: "newline \<notin> set c \<Longrightarrow> split_lines (c @ newline # t) = c # split_lines t"
  by (induction c) auto

lemma split_lines_join:
  "cs \<noteq> [] \<Longrightarrow> list_all (\<lambda>c. newline \<notin> set c) cs \<Longrightarrow> split_lines (join_text [newline] cs) = cs"
  by (induction "[newline]" cs rule: join_text.induct) (simp_all add: split_lines_line split_lines_Cons)

lemma serialize_stored: "comments_ok d \<Longrightarrow> serialize_document (stored_document d) = d"
proof -
  assume ok: "comments_ok d"
  have "list_all (\<lambda>c. newline \<notin> set c) (sdoc_comments d)"
    using ok by (auto simp: comments_ok_def list_all_iff)
  moreover have "sdoc_comments d \<noteq> [] \<longrightarrow> join_text [newline] (sdoc_comments d) \<noteq> []"
    using ok by (cases "sdoc_comments d" rule: remdups_adj.cases) (auto simp: comments_ok_def)
  ultimately show ?thesis
    by (cases "sdoc_comments d = []")
       (simp_all add: serialize_document_def stored_document_def text_or_def split_lines_join)
qed

lemma serialize_documents_ok:
  "serialize_documents hits = Inr es \<Longrightarrow> list_all2 (\<lambda>hit d. \<forall>x. hit = Inr x \<longrightarrow> x = d) hits docs \<Longrightarrow>
    es = map serialize_document docs"
  by (induction hits arbitrary: es docs) (auto simp: list_all2_Cons1 rbind_eq_Inr rmap_err_eq_Inr)

lemma extract_stored:
  assumes "tv_laws T written seen" "seen ix = image_mset stored_document (mset ds)" "length ds \<le> 10000"
    "list_all comments_ok ds" "extract_all_documents T ix = Inr es"
  shows "mset es = mset ds"
proof -
  obtain hits where hits: "tv_all T ix 10000 = Inr hits" "serialize_documents hits = Inr es"
    using assms(5) by (auto simp: extract_all_documents_def rbind_eq_Inr rmap_err_eq_Inr)
  have "size (seen ix) \<le> 10000" using assms(2,3) by simp
  with assms(1) hits(1) obtain docs where docs: "mset docs = seen ix"
    "list_all2 (\<lambda>hit d. \<forall>x. hit = Inr x \<longrightarrow> x = d) hits docs" unfolding tv_laws_def by blast
  have "mset es = image_mset serialize_document (seen ix)"
    using serialize_documents_ok [OF hits(2) docs(2)] docs(1) by (simp add: mset_map)
  also have "\<dots> = image_mset (\<lambda>d. serialize_document (stored_document d)) (mset ds)"
    by (simp add: assms(2) multiset.map_comp comp_def)
  also have "\<dots> = image_mset (\<lambda>d. d) (mset ds)"
    using assms(4) by (intro image_mset_cong serialize_stored) (simp add: list_all_iff)
  finally show ?thesis by simp
qed

text \<open>
  How building an index can end: with an index that has the property \<open>P\<close>, or with an error of the
  library.
\<close>

definition index_yields ::
  "'ix tantivy \<Rightarrow> ('ix \<Rightarrow> bool) \<Rightarrow> (index_error + unit) \<times> 'ix indexing \<Rightarrow> bool" where
  "index_yields T P outcome \<longleftrightarrow> (case outcome of
     (Inr _, u) \<Rightarrow> \<exists>ix. ix_index u = Some ix \<and> P ix
   | (Inl e, _) \<Rightarrow> (\<exists>msg. e = TantivyError msg) \<and> \<not> tv_infallible T)"

lemma index_yields_sbind:
  assumes "index_yields T P (m s)" "\<And>u ix. ix_index u = Some ix \<Longrightarrow> P ix \<Longrightarrow> index_yields T Q (f () u)"
  shows "index_yields T Q (sbind m f s)"
proof (cases "m s")
  case (Pair r u)
  then show ?thesis
    using assms by (cases r) (fastforce simp: index_yields_def sbind_def)+
qed

lemma index_yields_on_index:
  assumes "ix_index s = Some ix" "\<And>ix'. m ix = (Inr (), ix') \<Longrightarrow> P ix'"
    "\<And>e ix'. m ix = (Inl e, ix') \<Longrightarrow> (\<exists>msg. e = TantivyError msg) \<and> \<not> tv_infallible T"
  shows "index_yields T P (on_index m s)"
  using assms
  by (auto simp: index_yields_def on_index_def get_index_def set_index_def sbind_def split: prod.splits sum.splits)

lemma index_call_yields:
  assumes "ix_index s = Some ix" "\<And>ix'. f ix = Inr ix' \<Longrightarrow> P ix'" "tv_infallible T \<Longrightarrow> \<exists>ix'. f ix = Inr ix'"
  shows "index_yields T P (on_index (index_call f) s)"
  using assms by (intro index_yields_on_index) (auto simp: index_call_def split: sum.splits)

lemma index_document_yields:
  assumes "tv_laws T written seen" "ix_index s = Some ix"
  shows "index_yields T
    (\<lambda>ix'. written ix' = add_mset (stored_document d)
      (filter_mset (\<lambda>e. td_resource_id e \<noteq> Some (sdoc_resource_id d)) (written ix)))
    (on_index (index_document T (sdoc_resource_id d) (sdoc_title d) (sdoc_content d) (sdoc_folder_id d)
      (sdoc_comments d)) s)"
proof -
  let ?ix = "tv_delete T (sdoc_resource_id d) ix"
  have doc: "index_document T (sdoc_resource_id d) (sdoc_title d) (sdoc_content d) (sdoc_folder_id d)
      (sdoc_comments d) ix = index_call (tv_add T (stored_document d)) ?ix"
    by (simp add: index_document_def sbind_def stored_document_def)
  have "written ix' = add_mset (stored_document d)
      (filter_mset (\<lambda>e. td_resource_id e \<noteq> Some (sdoc_resource_id d)) (written ix))"
    if "tv_add T (stored_document d) ?ix = Inr ix'" for ix'
    using assms(1) that by (simp add: tv_laws_def)
  moreover have "\<exists>ix'. tv_add T (stored_document d) ?ix = Inr ix'" if "tv_infallible T"
    using that by (simp add: tv_infallible_def)
  ultimately show ?thesis
    using assms(2) doc by (intro index_yields_on_index) (auto simp: index_call_def split: sum.splits)
qed

lemma index_documents_yields:
  assumes "tv_laws T written seen" "distinct (map sdoc_resource_id (es @ ds))" "ix_index s = Some ix"
    "written ix = image_mset stored_document (mset es)"
  shows "index_yields T (\<lambda>ix'. written ix' = image_mset stored_document (mset (es @ ds)))
    (sfor (\<lambda>doc. on_index (index_document T (sdoc_resource_id doc) (sdoc_title doc) (sdoc_content doc)
      (sdoc_folder_id doc) (sdoc_comments doc))) ds s)"
  using assms(2-)
proof (induction ds arbitrary: es s ix)
  case Nil
  then show ?case by (simp add: index_yields_def)
next
  case (Cons d ds)
  have "td_resource_id e \<noteq> Some (sdoc_resource_id d)" if e: "e \<in># written ix" for e
  proof -
    obtain x where "x \<in> set es" "e = stored_document x" using e unfolding Cons.prems(3) by auto
    moreover have "sdoc_resource_id d \<notin> sdoc_resource_id ` set es" using Cons.prems(1) by simp
    ultimately show ?thesis by (metis image_eqI option.inject stored_document_def tantivy_document.select_convs(1))
  qed
  then have "filter_mset (\<lambda>e. td_resource_id e \<noteq> Some (sdoc_resource_id d)) (written ix) = written ix"
    by (simp add: filter_mset_eq_conv)
  with index_document_yields [OF assms(1) Cons.prems(2), of d]
  have "index_yields T (\<lambda>ix'. written ix' = image_mset stored_document (mset (es @ [d])))
      (on_index (index_document T (sdoc_resource_id d) (sdoc_title d) (sdoc_content d) (sdoc_folder_id d)
        (sdoc_comments d)) s)"
    by (simp add: Cons.prems(3))
  then show ?case
    unfolding sfor.simps
  proof (rule index_yields_sbind, goal_cases)
    case (1 u ix')
    then show ?case using Cons.IH [of "es @ [d]"] Cons.prems(1) by simp
  qed
qed

lemma commit_and_reload_yields:
  fixes T :: "'ix tantivy"
  assumes "tv_laws T written seen" "ix_index s = Some ix"
  shows "index_yields T (\<lambda>ix'. seen ix' = written ix) (commit_and_reload T s)"
  unfolding commit_and_reload_def
proof (rule index_yields_sbind)
  show "index_yields T (\<lambda>ix'. tv_commit T ix = Inr ix') (on_index (index_call (tv_commit T)) s)"
    using assms(2) by (intro index_call_yields) (auto simp: tv_infallible_def)
next
  fix u :: "'ix indexing" and ix' assume u: "ix_index u = Some ix'" "tv_commit T ix = Inr ix'"
  then have "seen ix'' = written ix" if "tv_reload T ix' = Inr ix''" for ix''
    using assms(1) that unfolding tv_laws_def by metis
  with u(1) show "index_yields T (\<lambda>ix'. seen ix' = written ix) (on_index (index_call (tv_reload T)) u)"
    by (intro index_call_yields) (auto simp: tv_infallible_def)
qed

lemma restore_yields:
  fixes T :: "'ix tantivy"
  assumes "tv_laws T written seen" "distinct (map sdoc_resource_id (snap_documents snapshot))"
  shows "index_yields T (\<lambda>ix. seen ix = image_mset stored_document (mset (snap_documents snapshot)))
    (restore_from_snapshot T snapshot s)"
  unfolding restore_from_snapshot_def
proof (intro index_yields_sbind)
  show "index_yields T (\<lambda>ix. written ix = {#}) (create_new_index T s)"
    using assms(1)
    by (cases "tv_create T")
       (simp_all add: index_yields_def create_new_index_def set_index_def sbind_def tv_laws_def tv_infallible_def)
next
  fix u :: "'ix indexing" and ix assume "ix_index u = Some ix" "written ix = {#}"
  then show "index_yields T (\<lambda>ix. written ix = image_mset stored_document (mset (snap_documents snapshot)))
      (sfor (\<lambda>doc. on_index (index_document T (sdoc_resource_id doc) (sdoc_title doc) (sdoc_content doc)
        (sdoc_folder_id doc) (sdoc_comments doc))) (snap_documents snapshot) u)"
    using index_documents_yields [OF assms(1), of "[]" "snap_documents snapshot" u ix] assms(2) by simp
next
  fix u :: "'ix indexing" and ix
  assume "ix_index u = Some ix" "written ix = image_mset stored_document (mset (snap_documents snapshot))"
  then show "index_yields T (\<lambda>ix. seen ix = image_mset stored_document (mset (snap_documents snapshot)))
      (commit_and_reload T u)"
    using commit_and_reload_yields [OF assms(1), of u ix] by simp
qed

section \<open>What is indexed\<close>

text \<open>The comments among the shared values of a map, when \<open>trees\<close> are the documents of their fragments.\<close>

definition reply_texts :: "(string \<Rightarrow> xml_tree list) \<Rightarrow> (string \<times> y_out) list \<Rightarrow> string list" where
  "reply_texts trees rs = filter (\<lambda>c. c \<noteq> []) (List.map_filter (\<lambda>(_, v). case v of
     Out_Fragment x \<Rightarrow> Some (join_text '' '' (tree_texts (trees x))) | _ \<Rightarrow> None) rs)"

lemma comment_texts_run:
  assumes "\<forall>i x. (i, Out_Fragment x) \<in> set rs \<longrightarrow> list_all paragraphs_ok (trees x) \<and>
    vl_events V x = map Inr (concat (map tree_events (trees x)))"
  shows "comment_texts V rs = Inr (reply_texts trees rs)"
  using assms
proof (induction rs)
  case (Cons r rs)
  obtain i v where r: "r = (i, v)" by fastforce
  have IH: "comment_texts V rs = Inr (reply_texts trees rs)" using Cons by simp
  show ?case
  proof (cases v)
    case (Out_Fragment x)
    then have "extract_text_from_prosemirror_xml V x = Inr (join_text '' '' (tree_texts (trees x)),
        case tree_texts (trees x) of [] \<Rightarrow> untitled | t # _ \<Rightarrow> t)"
      using Cons.prems r by (simp add: extract_text_from_prosemirror_xml_def extracted_text_of_tree)
    then show ?thesis using IH by (simp add: r Out_Fragment reply_texts_def map_filter_simps)
  qed (use IH in \<open>simp_all add: r reply_texts_def map_filter_simps\<close>)
qed (simp add: reply_texts_def map_filter_simps)

text \<open>The first text of a document, and the default title when it has none.\<close>

definition first_text :: "xml_tree list \<Rightarrow> string" where
  "first_text ts = (case tree_texts ts of [] \<Rightarrow> ''Untitled Note'' | t # _ \<Rightarrow> t)"

text \<open>
  C24. What is indexed for a note: afterwards a search sees, next to what was written under other ids, one
  document under its id, with the folder of the note; with the texts of the paragraphs and headings of its
  document that are not empty, in order and separated by spaces; with the title its data has, unless that is
  missing or the default title, and then the first of those texts; and with a line for each reply in its
  comments that is not empty. It can only fail with an error of the index library, and not when its calls
  succeed. The hypotheses say that the data has the documents and that \<open>ts\<close> and \<open>trees x\<close> are the trees of
  the XML texts of the document and of the replies.
\<close>

theorem indexed_text_of_tree:
  fixes S :: "('d, 'u, 'v, 'ix) search_lib"
  assumes ready: "ix_index s = Some ix" and index: "tv_laws (sl_index S) written seen"
    and main: "json_get (sl_field S) note = Some (JArray arr)"
      "doc_of_update (sl_docs S) ''Failed to apply update: '' (array_bytes arr) = Inr d"
    and xml: "vl_events (sl_view S) (case vl_fragment (sl_view S) d ''prosemirror'' of Some x \<Rightarrow> x | None \<Rightarrow> []) =
        map Inr (concat (map tree_events ts))" "list_all paragraphs_ok ts"
    and replies: "case json_get ''comment_state'' note of
        Some (JArray (c # cs)) \<Rightarrow> (\<exists>cd. doc_of_update (sl_docs S) ''Failed to apply comment update: ''
          (array_bytes (c # cs)) = Inr cd \<and>
          rs = (case vl_map (sl_view S) cd ''replyContents'' of Some m \<Rightarrow> m | None \<Rightarrow> []))
      | _ \<Rightarrow> rs = []"
    and trees: "\<forall>i x. (i, Out_Fragment x) \<in> set rs \<longrightarrow> list_all paragraphs_ok (trees x) \<and>
      vl_events (sl_view S) x = map Inr (concat (map tree_events (trees x)))"
  shows "case search_update_resource S i note folder s of
      (Inr _, u) \<Rightarrow> \<exists>ix'. ix_index u = Some ix' \<and>
        seen ix' = filter_mset (\<lambda>e. td_resource_id e \<noteq> Some i) (written ix) +
          {# \<lparr>td_resource_id = Some i,
              td_title = Some (case json_get ''title'' note of
                Some (JString t) \<Rightarrow> if t = ''Untitled Note'' then first_text ts else t | _ \<Rightarrow> first_text ts),
              td_content = Some (join_text '' '' (tree_texts ts)), td_folder_id = Some folder,
              td_comments = Some (join_text [newline] (reply_texts trees rs))\<rparr> #}
    | (Inl e, _) \<Rightarrow> (\<exists>msg. e = TantivyError msg) \<and> \<not> tv_infallible (sl_index S)"
proof -
  let ?Y = "sl_docs S" and ?V = "sl_view S" and ?T = "sl_index S"
  define title where "title = (case json_get ''title'' note of
      Some (JString t) \<Rightarrow> if t = ''Untitled Note'' then first_text ts else t | _ \<Rightarrow> first_text ts)"
  have "extract_text_from_prosemirror_xml ?V (case vl_fragment ?V d ''prosemirror'' of Some x \<Rightarrow> x | None \<Rightarrow> []) =
      Inr (join_text '' '' (tree_texts ts), first_text ts)"
    using xml by (simp add: extract_text_from_prosemirror_xml_def extracted_text_of_tree first_text_def untitled_def split: list.split)
  moreover have "extract_comments_from_comment_state ?Y ?V note = Inr (reply_texts trees rs)"
    using replies comment_texts_run [OF trees]
    by (auto simp: extract_comments_from_comment_state_def reply_texts_def map_filter_simps
        split: option.splits json.splits list.splits)
  ultimately have "extract_content_from_note ?Y ?V (sl_field S) note =
      Inr (join_text '' '' (tree_texts ts), title, reply_texts trees rs)"
    using main by (simp add: extract_content_from_note_def title_def untitled_def split: option.split json.split)
  then have run: "search_update_resource S i note folder s =
      sbind (on_index (index_document ?T i title (join_text '' '' (tree_texts ts)) folder (reply_texts trees rs)))
        (\<lambda>_. commit_and_reload ?T) s"
    by (simp add: search_update_resource_def index_resource_def sbind_def)
  let ?d = "\<lparr>sdoc_resource_id = i, sdoc_title = title, sdoc_content = join_text '' '' (tree_texts ts),
    sdoc_folder_id = folder, sdoc_comments = reply_texts trees rs\<rparr>"
  have "index_yields ?T (\<lambda>ix'. seen ix' = filter_mset (\<lambda>e. td_resource_id e \<noteq> Some i) (written ix) +
      {# stored_document ?d #}) (search_update_resource S i note folder s)"
    unfolding run
  proof (rule index_yields_sbind)
    show "index_yields ?T (\<lambda>ix'. written ix' = add_mset (stored_document ?d)
        (filter_mset (\<lambda>e. td_resource_id e \<noteq> Some i) (written ix)))
      (on_index (index_document ?T i title (join_text '' '' (tree_texts ts)) folder (reply_texts trees rs)) s)"
      using index_document_yields [OF index ready, of ?d] by simp
  next
    fix u :: "'ix indexing" and ix' assume "ix_index u = Some ix'" "written ix' = add_mset (stored_document ?d)
      (filter_mset (\<lambda>e. td_resource_id e \<noteq> Some i) (written ix))"
    then show "index_yields ?T (\<lambda>ix'. seen ix' = filter_mset (\<lambda>e. td_resource_id e \<noteq> Some i) (written ix) +
        {# stored_document ?d #}) (commit_and_reload ?T u)"
      using commit_and_reload_yields [OF index, of u ix'] by simp
  qed
  then show ?thesis
    by (auto simp: index_yields_def stored_document_def title_def split: prod.splits sum.splits)
qed

section \<open>A saved index\<close>

text \<open>The key under which the index was encrypted is found again, and opens it.\<close>

lemma find_update:
  assumes "\<And>r. st_key (upd r) = st_key r" "list_ex (\<lambda>r. st_key r = k) t"
  shows "\<exists>r. List.find (\<lambda>r. st_key r = k) (map (\<lambda>r. if st_key r = k then upd r else r) t) = Some (upd r)"
  using assms by (induction t) auto

lemma upsert_value:
  assumes "tbl_upsert (\<lambda>a b. st_key b = st_key a) (\<lambda>r. r\<lparr>st_value := v, st_updated_at := now\<rparr>) clash refs
      \<lparr>st_key = k, st_value = v, st_updated_at = now\<rparr> t = Inr t'"
  shows "\<exists>r. List.find (\<lambda>r. st_key r = k) t' = Some r \<and> st_value r = v"
proof (cases "list_ex (\<lambda>r. st_key r = k) t")
  case True
  then obtain r where "List.find (\<lambda>r. st_key r = k)
      (map (\<lambda>r. if st_key r = k then r\<lparr>st_value := v, st_updated_at := now\<rparr> else r) t) =
    Some (r\<lparr>st_value := v, st_updated_at := now\<rparr>)"
    using find_update [of "\<lambda>r. r\<lparr>st_value := v, st_updated_at := now\<rparr>" k t] by auto
  with assms True show ?thesis by (auto simp: tbl_upsert_def)
next
  case False
  then have "List.find (\<lambda>r. st_key r = k) t = None" by (simp add: find_None_iff_ex)
  with assms False show ?thesis by (auto simp: tbl_upsert_def tbl_insert_def find_append split: if_splits)
qed

lemma index_key_found:
  assumes "add_index_key k w = (Inr (), w')" "pool_src w' (pool_n w')"
  shows "get_index_key w' = (Inr k, w'\<lparr>pool_n := Suc (pool_n w')\<rparr>)"
proof -
  from assms(1) obtain now w0 where "tbl_upsert (\<lambda>a b. st_key b = st_key a)
      (\<lambda>r. r\<lparr>st_value := k, st_updated_at := now\<rparr>) store_clash (no_refs w0)
      \<lparr>st_key = ''index_key'', st_value = k, st_updated_at = now\<rparr> (t_store w0) = Inr (t_store w')"
    by (auto simp: add_index_key_def with_conn_def run_stmt_def put_item_def ups_store_def on_table_eq_Inr sbind_eq_Inr
        put_store_def)
  then have "\<exists>r. List.find (\<lambda>r. st_key r = ''index_key'') (t_store w') = Some r \<and> st_value r = k"
    by (rule upsert_value)
  then show ?thesis
    using assms(2) by (auto simp: get_index_key_def with_conn_def get_conn_def get_item_def first_row_def sbind_def)
qed

lemma own_data_decrypts:
  fixes s :: "'a env_scheme"
  assumes ok: "codec_ok L" "aes_ok L" and pair: "key_pair L pub c" and loaded: "cu_cert cu = Some c"
    and dk: "pgp_decryption_key L c = Inr dk" and utf: "is_text dat"
    and enc: "encrypt_data_for_user L dat pub s = (Inr (e, k), s')"
  shows "decrypt_resource L cu e k = Inr dat"
proof -
  obtain key r seed and t t' :: "'a env_scheme" where key: "length key = 32" "encrypt_with_aes L key dat t = (Inr e, t')"
    "pgp_recipient L pub = Inr r" "pgp_encrypt L r (b64_encode L key) seed = Inr k"
    using encrypt_data_for_user_ok [OF enc] by metis
  have "decrypt_for_cert L cu k = Inr key"
    by (rule decrypt_for_cert_encrypted [OF ok(1) pair loaded dk key(3,4)])
  with encrypt_with_aes_decrypts [OF ok key(1) utf key(2)] show ?thesis by (simp add: decrypt_resource_def)
qed

lemma in_world_eq_Inr:
  "in_world V m s = (Inr x, s') \<longleftrightarrow> (\<exists>w. m (ix_world s) = (Inr x, w) \<and> s' = s\<lparr>ix_world := w\<rparr>)"
  by (auto simp: in_world_def split: prod.splits)

lemma disk_access_eq_Inr:
  "disk_access s = (Inr x, s') \<longleftrightarrow> ix_disk s (ix_disk_n s) = None \<and> s' = s\<lparr>ix_disk_n := Suc (ix_disk_n s)\<rparr>"
  by (auto simp: disk_access_def split: option.splits)

text \<open>A save that succeeded: what is on the disk and in the database.\<close>

lemma save_index_ok:
  assumes "save_index S s = (Inr (), t)" "ix_index s = Some ix" "ix_user_pub_key s = Some pub"
  obtains es bytes serial e k w w' where
    "extract_all_documents (sl_index S) ix = Inr es"
    "snap_print S \<lparr>snap_documents = es, snap_version = 1, snap_encrypted_key = []\<rparr> = Inr bytes"
    "from_utf8 bytes = Inr serial" "encrypt_data_for_user (sl_crypto S) serial pub (ix_world s) = (Inr (e, k), w)"
    "add_index_key k w = (Inr (), w')" "ix_file t = Some e" "ix_world t = w'"
  using assms
  by (auto simp: save_index_def extract_for_save_def get_index_def save_extracted_data_def save_encrypted_def
      sbind_eq_Inr in_world_eq_Inr disk_access_eq_Inr)

text \<open>
  C25. The search index survives a restart: when an index of at most 10000 notes, whose comments have one
  line each, was saved, a new manager that finds the file and the key, and whose user has the certificate
  the index was encrypted for, restores an index with the same documents, in whatever order the index
  library returned them; it can only fail with an error of that library, and not when its calls succeed.
\<close>

theorem search_index_restored:
  assumes saved: "save_index S s = (Inr (), t)" "ix_index s = Some ix" "ix_user_pub_key s = Some pub"
    and docs: "seen ix = image_mset stored_document (mset ds)" "length ds \<le> 10000" "list_all comments_ok ds"
      "distinct (map sdoc_resource_id ds)"
    and index: "tv_laws (sl_index S) written seen"
    and json: "\<And>snapshot bytes. snap_print S snapshot = Inr bytes \<Longrightarrow>
      utf8_ok (map unat bytes) \<and> snap_read S (bytes_text bytes) = Inr snapshot"
    and crypto: "codec_ok (sl_crypto S)" "aes_ok (sl_crypto S)" "key_pair (sl_crypto S) pub c" "cu_cert cu = Some c"
      "pgp_decryption_key (sl_crypto S) c = Inr dk"
    and reached: "disk 0 = None" "pool_src (ix_world t) (pool_n (ix_world t))"
  shows "case initialize S cu pub (manager_new (ix_file t) disk (ix_world t)) of
      (Inr _, u) \<Rightarrow> \<exists>ix'. ix_index u = Some ix' \<and> seen ix' = seen ix
    | (Inl e, _) \<Rightarrow> (\<exists>msg. e = TantivyError msg) \<and> \<not> tv_infallible (sl_index S)"
proof -
  obtain es bytes serial e k w w' where w: "extract_all_documents (sl_index S) ix = Inr es"
    "snap_print S \<lparr>snap_documents = es, snap_version = 1, snap_encrypted_key = []\<rparr> = Inr bytes"
    "from_utf8 bytes = Inr serial"
    "encrypt_data_for_user (sl_crypto S) serial pub (ix_world s) = (Inr (e, k), w)"
    "add_index_key k w = (Inr (), w')" "ix_file t = Some e" "ix_world t = w'"
    by (rule save_index_ok [OF saved])
  let ?snapshot = "\<lparr>snap_documents = es, snap_version = 1, snap_encrypted_key = []\<rparr>"
  have es: "mset es = mset ds" by (rule extract_stored [OF index docs(1-3) w(1)])
  then have distinct: "distinct (map sdoc_resource_id es)"
    using docs(4) by (metis mset_map mset_eq_imp_distinct_iff)
  have byte: "unat b mod 256 = unat b" for b :: byte
  proof -
    have "unat b < 2 ^ LENGTH(8)" by (rule unsigned_less)
    then show ?thesis by simp
  qed
  have serial: "serial = bytes_text bytes" "snap_read S serial = Inr ?snapshot" "is_text serial"
    using w(3) json [OF w(2)] by (auto simp: from_utf8_def is_text_def bytes_text_def comp_def byte split: if_splits)
  have key: "get_index_key w' = (Inr k, w'\<lparr>pool_n := Suc (pool_n w')\<rparr>)"
    using index_key_found [OF w(5)] reached(2) w(7) by simp
  have dec: "decrypt_resource (sl_crypto S) cu e k = Inr serial"
    by (rule own_data_decrypts [OF crypto serial(3) w(4)])
  let ?u = "\<lparr>ix_index = None, ix_user_pub_key = Some pub, ix_file = Some e, ix_disk = disk, ix_disk_n = 1,
    ix_world = w'\<lparr>pool_n := Suc (pool_n w')\<rparr>\<rparr>"
  have run: "initialize S cu pub (manager_new (ix_file t) disk (ix_world t)) =
      restore_from_snapshot (sl_index S) ?snapshot ?u"
    using w(6,7) reached(1) key dec serial(2)
    by (simp add: initialize_def load_encrypted_def manager_new_def disk_access_def in_world_def sbind_def)
  have "index_yields (sl_index S) (\<lambda>ix'. seen ix' = image_mset stored_document (mset es))
      (restore_from_snapshot (sl_index S) ?snapshot ?u)"
    using restore_yields [OF index, of ?snapshot ?u] distinct by simp
  then show ?thesis unfolding run index_yields_def es docs(1) .
qed

end
