(* ===== verification/Sample_Search.thy ===== *)
theory Sample_Search
  imports Sample_Crypto Search_Properties
begin

text \<open>
  A small index, which keeps its documents as lists, and the theorems on the search index applied to
  it: one note with one comment is saved and restored.
\<close>

type_synonym sample_ix = "tantivy_document list \<times> tantivy_document list"

definition sample_index :: "sample_ix tantivy" where
  "sample_index =
     \<lparr>tv_create = Inr ([], []),
      tv_delete = (\<lambda>r (w, s). (filter (\<lambda>d. td_resource_id d \<noteq> Some r) w, s)),
      tv_add = (\<lambda>d (w, s). Inr (w @ [d], s)), tv_commit = Inr, tv_reload = (\<lambda>(w, s). Inr (w, w)),
      tv_search = (\<lambda>(w, s) q n. Inr (map (\<lambda>d. (0, Inr d)) (take n s))),
      tv_all = (\<lambda>(w, s) n. Inr (map Inr (take n s)))\<rparr>"

lemma sample_index_laws: "tv_laws sample_index (\<lambda>ix. mset (fst ix)) (\<lambda>ix. mset (snd ix))"
proof -
  have "list_all2 (\<lambda>hit d. \<forall>x. hit = Inr x \<longrightarrow> x = d) (map Inr ds) ds" for ds :: "tantivy_document list"
    by (simp add: list_all2_conv_all_nth)
  then show ?thesis by (auto simp: tv_laws_def sample_index_def)
qed

lemma sample_index_infallible: "tv_infallible sample_index"
  by (simp add: tv_infallible_def sample_index_def split_beta)

text \<open>A snapshot is printed as a numeral in unary, like JSON.\<close>

definition doc_fields :: "serialized_document \<Rightarrow> string \<times> string \<times> string \<times> string \<times> string list" where
  "doc_fields d = (sdoc_resource_id d, sdoc_title d, sdoc_content d, sdoc_folder_id d, sdoc_comments d)"

definition fields_doc :: "string \<times> string \<times> string \<times> string \<times> string list \<Rightarrow> serialized_document" where
  "fields_doc = (\<lambda>(i, t, c, f, cs). \<lparr>sdoc_resource_id = i, sdoc_title = t, sdoc_content = c,
     sdoc_folder_id = f, sdoc_comments = cs\<rparr>)"

definition snap_number :: "index_snapshot \<Rightarrow> nat" where
  "snap_number s = to_nat (map doc_fields (snap_documents s), unat (snap_version s), snap_encrypted_key s)"

definition number_snap :: "nat \<Rightarrow> index_snapshot" where
  "number_snap n = (case from_nat n of (ds, v, k) \<Rightarrow>
     \<lparr>snap_documents = map fields_doc ds, snap_version = word_of_nat v, snap_encrypted_key = k\<rparr>)"

lemma number_snap_number: "number_snap (snap_number s) = s"
proof -
  have "fields_doc (doc_fields d) = d" for d by (cases d) (simp add: fields_doc_def doc_fields_def)
  then show ?thesis by (cases s) (simp add: number_snap_def snap_number_def comp_def)
qed

text \<open>The XML of a shopping list and of a reply.\<close>

definition shopping :: "xml_tree list" where
  "shopping = [Elem ''heading'' [] [Txt ''Tea''], Elem ''paragraph'' [] [],
     Elem ''paragraph'' [] [Txt ''buy '', Elem ''strong'' [] [Txt ''green'']]]"

definition sample_trees :: "string \<Rightarrow> xml_tree list" where
  "sample_trees x = (if x = ''reply'' then [Elem ''paragraph'' [] [Txt ''or black'']] else shopping)"

definition sample_search :: "(bytes, bytes, bytes, sample_ix) search_lib" where
  "sample_search =
     \<lparr>sl_crypto = sample_lib [], sl_docs = sample_yrs,
      sl_view = \<lparr>vl_events = (\<lambda>x. map Inr (concat (map tree_events (sample_trees x)))), vl_print = (\<lambda>_. []),
        vl_fragment = (\<lambda>_ n. if n = ''prosemirror'' then Some ''shopping'' else None),
        vl_map = (\<lambda>_ n. if n = ''replyContents'' then Some [(''r1'', Out_Fragment ''reply''), (''r2'', Out_Shared Any_Null)]
          else None)\<rparr>,
      sl_index = sample_index, sl_lower = (\<lambda>s. s), snap_print = (\<lambda>s. Inr (replicate (snap_number s) 49)),
      snap_read = (\<lambda>t. Inr (number_snap (length t))), sl_field = ''main_doc''\<rparr>"

lemma sample_search_fields [simp]:
  "sl_crypto sample_search = sample_lib []" "sl_index sample_search = sample_index"
  by (simp_all add: sample_search_def)

lemma ones_text: "utf8_ok (map unat (replicate n (49 :: byte)))"
  by (induction n) simp_all

lemma from_ones: "from_utf8 (replicate n 49) = Inr (bytes_text (replicate n 49))"
  using ones_text [of n] by (simp only: from_utf8_def if_True)

definition memo :: serialized_document where
  "memo = \<lparr>sdoc_resource_id = ''note'', sdoc_title = ''Memo'', sdoc_content = ''Memo buy tea'',
     sdoc_folder_id = ''inbox'', sdoc_comments = [''green'', ''or black'']\<rparr>"

definition indexed_memo :: "sample_ix indexing" where
  "indexed_memo = (manager_new None (\<lambda>_. None) blank)
     \<lparr>ix_index := Some ([stored_document memo], [stored_document memo]), ix_user_pub_key := Some ''ann''\<rparr>"

lemma memo_extracted: "extract_all_documents sample_index ([stored_document memo], [stored_document memo]) = Inr [memo]"
  by (simp add: extract_all_documents_def sample_index_def serialize_stored comments_ok_def memo_def newline_def)

lemma search_index_restored_witness:
  "\<exists>t u ix. save_index sample_search indexed_memo = (Inr (), t) \<and>
     initialize sample_search (loaded ''ann'') ''ann'' (manager_new (ix_file t) (\<lambda>_. None) (ix_world t)) = (Inr (), u) \<and>
     ix_index u = Some ix \<and> mset (snd ix) = {#stored_document memo#}"
proof -
  let ?snap = "\<lparr>snap_documents = [memo], snap_version = 1, snap_encrypted_key = []\<rparr>"
  let ?text = "bytes_text (replicate (snap_number ?snap) 49)"
  obtain e k w where enc: "encrypt_data_for_user (sample_lib []) ?text ''ann'' blank = (Inr (e, k), w)"
    "pool_src w = (\<lambda>_. True)" "t_store w = []"
    by (simp add: crypto_simps sbind_def smap_err_def blank_def del: upt.simps)
  obtain w' where key: "add_index_key k w = (Inr (), w')" "pool_src w' = (\<lambda>_. True)"
    using enc(2,3) by (simp add: add_index_key_def with_conn_def get_conn_def now_millis_def run_stmt_def put_item_def
        ups_store_def on_table_def put_store_def tbl_upsert_def tbl_insert_def no_refs_def sbind_def smap_err_def)
  obtain t where t: "save_index sample_search indexed_memo = (Inr (), t)" "ix_world t = w'"
    using enc(1) key(1) memo_extracted
    by (simp add: save_index_def extract_for_save_def save_extracted_data_def save_encrypted_def get_index_def sbind_def
        in_world_def disk_access_def indexed_memo_def manager_new_def from_ones sample_search_def)
  have pool: "pool_src (ix_world t) (pool_n (ix_world t))" by (simp add: t key)
  have json: "utf8_ok (map unat bs) \<and> snap_read sample_search (bytes_text bs) = Inr s"
    if "snap_print sample_search s = Inr bs" for s bs
    using that ones_text by (auto simp: sample_search_def bytes_text_def number_snap_number)
  have "case initialize sample_search (loaded ''ann'') ''ann'' (manager_new (ix_file t) (\<lambda>_. None) (ix_world t)) of
      (Inr _, u) \<Rightarrow> \<exists>ix. ix_index u = Some ix \<and> mset (snd ix) = mset (snd ([stored_document memo], [stored_document memo]))
    | (Inl e, _) \<Rightarrow> (\<exists>msg. e = TantivyError msg) \<and> \<not> tv_infallible (sl_index sample_search)"
    by (rule search_index_restored [where S = sample_search and written = "\<lambda>ix. mset (fst ix)"
        and seen = "\<lambda>ix. mset (snd ix)" and c = "as_bytes ''ann''" and dk = "as_bytes ''ann''" and ds = "[memo]",
        OF t(1) _ _ _ _ _ _ _ json])
       (simp_all add: pool indexed_memo_def sample_index_laws loaded_def comments_ok_def memo_def newline_def)
  then obtain u ix where
    "initialize sample_search (loaded ''ann'') ''ann'' (manager_new (ix_file t) (\<lambda>_. None) (ix_world t)) = (Inr (), u)"
    "ix_index u = Some ix" "mset (snd ix) = {#stored_document memo#}"
    using sample_index_infallible by (auto split: prod.splits sum.splits)
  with t(1) show ?thesis by blast
qed

lemma search_results_bounded_witness:
  "\<exists>results t. manager_search sample_search ''tea'' 5 indexed_memo = (Inr results, t) \<and> length results = 1 \<and>
     list_all (\<lambda>r. \<exists>hit. result_shows hit r) results \<and> t = indexed_memo"
proof -
  obtain results t where run: "manager_search sample_search ''tea'' 5 indexed_memo = (Inr results, t)" "length results = 1"
    by (simp add: manager_search_def get_index_def index_search_def sbind_def sample_search_def sample_index_def
        indexed_memo_def)
  from search_results_bounded [OF run(1)] obtain docs where docs: "list_all2 result_shows docs results" "t = indexed_memo"
    by blast
  have "list_all (\<lambda>r. \<exists>hit. result_shows hit r) results"
    using docs(1) by (induction rule: list_all2_induct) auto
  with run docs(2) show ?thesis by blast
qed

text \<open>A note with the default title, a document and a reply.\<close>

definition shopping_note :: json where
  "shopping_note = JObject [(''title'', JString ''Untitled Note''), (''main_doc'', JArray [JNull]),
     (''comment_state'', JArray [JNull])]"

lemma indexed_text_of_tree_witness:
  "\<exists>u ix. search_update_resource sample_search ''note'' shopping_note ''inbox'' indexed_memo = (Inr (), u) \<and>
     ix_index u = Some ix \<and>
     mset (snd ix) = {# \<lparr>td_resource_id = Some ''note'', td_title = Some ''Tea'', td_content = Some ''Tea buy green'',
       td_folder_id = Some ''inbox'', td_comments = Some ''or black''\<rparr> #}"
proof -
  have ok: "list_all paragraphs_ok (sample_trees x)" for x
    by (simp add: sample_trees_def shopping_def is_paragraph_def)
  have texts: "tree_texts shopping = [''Tea'', ''buy green'']"
    by (simp add: tree_texts_def shopping_def is_paragraph_def)
  have replies: "reply_texts sample_trees [(''r1'', Out_Fragment ''reply''), (''r2'', Out_Shared Any_Null)] = [''or black'']"
    by (simp add: reply_texts_def map_filter_simps sample_trees_def tree_texts_def is_paragraph_def)
  let ?ix = "([stored_document memo], [stored_document memo])"
  have "case search_update_resource sample_search ''note'' shopping_note ''inbox'' indexed_memo of
      (Inr _, u) \<Rightarrow> \<exists>ix'. ix_index u = Some ix' \<and>
        mset (snd ix') = filter_mset (\<lambda>e. td_resource_id e \<noteq> Some ''note'') (mset (fst ?ix)) +
          {# \<lparr>td_resource_id = Some ''note'',
              td_title = Some (case json_get ''title'' shopping_note of
                Some (JString t) \<Rightarrow> if t = ''Untitled Note'' then first_text shopping else t | _ \<Rightarrow> first_text shopping),
              td_content = Some (join_text '' '' (tree_texts shopping)), td_folder_id = Some ''inbox'',
              td_comments = Some (join_text [newline] (reply_texts sample_trees
                [(''r1'', Out_Fragment ''reply''), (''r2'', Out_Shared Any_Null)]))\<rparr> #}
    | (Inl e, _) \<Rightarrow> (\<exists>msg. e = TantivyError msg) \<and> \<not> tv_infallible (sl_index sample_search)"
    by (rule indexed_text_of_tree [where S = sample_search and written = "\<lambda>ix. mset (fst ix)"
        and seen = "\<lambda>ix. mset (snd ix)" and ts = shopping and trees = sample_trees and arr = "[JNull]"])
       (simp_all add: sample_index_laws indexed_memo_def shopping_note_def sample_search_def doc_of_update_def
        sample_yrs_def ok [of "''reply''"] ok [of "''shopping''", unfolded sample_trees_def, simplified] sample_trees_def)
  then show ?thesis
    using sample_index_infallible
    by (auto simp: texts replies first_text_def shopping_note_def stored_document_def memo_def
        split: prod.splits sum.splits)
qed

end
