(* ===== verification/App_State.thy ===== *)
theory App_State
  imports Interface_Events Net_Properties Search_Index Folder_Service
begin

text \<open>
  The application of \<open>livnote/src-tauri\<close>: the state its commands share (\<open>lib.rs\<close>) and what they answer
  (\<open>types.rs\<close>). The manager of the editor, the service of the network and the search index are the
  components of the other theories; the database and the loaded certificate are one for all of them
  and kept in the editor. What a command spawns is queued in \<open>ap_tasks\<close>.
\<close>

section \<open>Answers\<close>

record folder_response =
  frp_id :: ident
  frp_name :: string
  frp_description :: string
  frp_default :: bool

record resource_response =
  rrp_id :: ident
  rrp_data :: json
  rrp_favourite :: bool
  rrp_last_accessed :: millis
  rrp_folder_id :: ident

datatype (plugins only: code size) crypto_response =
    IsSignedUp bool
  | Response_Error string
  | SavePassphrase string string string ident
  | CheckPvtKeyLoaded bool
  | Response_PublicKey string
  | Response_User ident string string
  | Signature string
  | SignatureResponse string
  | DecryptedText string
  | ImportedCertificate string string string
  | UserDetails ident ident string string string
  | UserId ident
  | ChangedPassphrase string
  | Response_ExportedCertificate string
  | Folders "folder_response list"
  | Resources "resource_response list"
  | SearchedResourceIds "ident list"
  | FolderCreated folder
  | Success
  | Response_UpdateResources
  | ResourceCreated string
  | SelectedResourceResponse resource_response
  | CreatedKnownUser user device
  | GetKnownUsers "user list"
  | UserDetailsForShare string
  | OneTimeUcanToken string string
  | Response_Users "user list"

text \<open>What another user hands over to be added.\<close>

record user_details =
  ud_user_public_key :: string
  ud_device_public_key :: string
  ud_username :: string
  ud_ucan_token :: string
  ud_ucan_pub_key :: string

section \<open>The state\<close>

text \<open>
  The tasks a command spawns. \<open>Emit_notes\<close> has the notes that are being decrypted and those that
  wait for their turn.
\<close>

datatype (plugins only: code size) app_task =
    Start_network device user
  | Open_index string
  | Scheduled_save
  | Share_with_folder ident ident user
  | Update_index ident json ident
  | Emit_notes "ident list" "ident list" ident

text \<open>
  \<open>ap_emit_errors n\<close> is the error of the \<open>n\<close>-th event a command emits, if it fails. \<open>ap_received\<close> counts the
  events of the network the editor has received, \<open>ap_handled\<close> the requests of the editor the network has
  taken from the channel.
\<close>

record ('d, 'ix) app =
  ap_editor :: "'d editor"
  ap_net :: net
  ap_index :: "'ix indexing"
  ap_tasks :: "app_task list"
  ap_emit_errors :: "nat \<Rightarrow> string option"
  ap_emitted :: nat
  ap_received :: nat
  ap_handled :: nat

type_synonym ('d, 'ix, 'a) commanding = "(('d, 'ix) app, string, 'a) sm"

record ('d, 'u, 'v, 'ix) app_lib =
  al_edit :: "('d, 'u, 'v) edit_lib"
  al_net :: "('d, 'u, 'v) net_lib"
  al_search :: "('d, 'u, 'v, 'ix) search_lib"
  al_p2p_text :: "p2p_error \<Rightarrow> string"
  al_index_text :: "index_error \<Rightarrow> string"
  al_user_details :: "string \<Rightarrow> string + user_details"

abbreviation al_crypto :: "('d, 'u, 'v, 'ix) app_lib \<Rightarrow> crypto_lib" where
  "al_crypto A \<equiv> el_crypto (al_edit A)"

abbreviation al_docs :: "('d, 'u, 'v, 'ix) app_lib \<Rightarrow> ('d, 'u, 'v) yrs" where
  "al_docs A \<equiv> el_docs (al_edit A)"

abbreviation app_world :: "('d, 'ix) app \<Rightarrow> world" where
  "app_world s \<equiv> ed_world (ap_editor s)"

section \<open>Working on a component\<close>

definition in_editor :: "('d, 'a) editing \<Rightarrow> ('d, 'ix, 'a) commanding" where
  "in_editor m s = (case m (ap_editor s) of (r, e) \<Rightarrow> (r, s\<lparr>ap_editor := e\<rparr>))"

text \<open>The service of the network and the index see the database and the certificate as they are.\<close>

definition net_view :: "('d, 'ix) app \<Rightarrow> net" where
  "net_view s = (ap_net s)\<lparr>nt_world := app_world s, nt_crypto := ed_crypto (ap_editor s)\<rparr>"

definition put_net :: "net \<Rightarrow> ('d, 'ix) app \<Rightarrow> ('d, 'ix) app" where
  "put_net n s = s\<lparr>ap_net := n, ap_editor := (ap_editor s)\<lparr>ed_world := nt_world n\<rparr>\<rparr>"

definition in_net :: "('e \<Rightarrow> string) \<Rightarrow> (net, 'e, 'a) sm \<Rightarrow> ('d, 'ix, 'a) commanding" where
  "in_net V m s = (case m (net_view s) of (r, n) \<Rightarrow> (rmap_err V r, put_net n s))"

definition in_index :: "('d, 'u, 'v, 'ix) app_lib \<Rightarrow> ('ix, 'a) indexes \<Rightarrow> ('d, 'ix, 'a) commanding" where
  "in_index A m s = (case m ((ap_index s)\<lparr>ix_world := app_world s\<rparr>) of
     (r, x) \<Rightarrow> (rmap_err (al_index_text A) r,
       s\<lparr>ap_index := x, ap_editor := (ap_editor s)\<lparr>ed_world := ix_world x\<rparr>\<rparr>))"

definition in_services ::
  "('d, 'u, 'v, 'ix) app_lib \<Rightarrow> (crypto_utils \<Rightarrow> 'a service) \<Rightarrow> ('d, 'ix, 'a) commanding" where
  "in_services A m = in_editor (sbind (sget ed_crypto) (\<lambda>cu. on_data (al_edit A) (m cu)))"

definition in_repository ::
  "('d, 'u, 'v, 'ix) app_lib \<Rightarrow> 'a repo \<Rightarrow> ('d, 'ix, 'a) commanding" where
  "in_repository A m = in_editor (\<lambda>e. case m (ed_world e) of
     (r, w) \<Rightarrow> (rmap_err (repository_text (al_crypto A)) r, e\<lparr>ed_world := w\<rparr>))"

definition spawn_task :: "app_task \<Rightarrow> ('d, 'ix, unit) commanding" where
  "spawn_task t = smodify (\<lambda>s. s\<lparr>ap_tasks := ap_tasks s @ [t]\<rparr>)"

text \<open>\<open>app_handle.emit(..)\<close>.\<close>

definition app_emit :: "emission \<Rightarrow> ('d, 'ix, unit) commanding" where
  "app_emit e s = (case ap_emit_errors s (ap_emitted s) of
     Some err \<Rightarrow> (Inl err, s\<lparr>ap_emitted := Suc (ap_emitted s)\<rparr>)
   | None \<Rightarrow> (Inr (), s\<lparr>ap_emitted := Suc (ap_emitted s),
       ap_editor := (ap_editor s)\<lparr>ed_out := ed_out (ap_editor s) @ [e]\<rparr>\<rparr>))"

definition or_logged :: "('d, 'ix, unit) commanding \<Rightarrow> ('d, 'ix, unit) commanding" where
  "or_logged m = scatch m sret (\<lambda>_. sret ())"

definition response_of :: "decrypted_resource \<Rightarrow> resource_response" where
  "response_of dr = \<lparr>rrp_id = dcr_id dr, rrp_data = dcr_data dr, rrp_favourite = dcr_favourite dr,
     rrp_last_accessed = dcr_last_accessed dr, rrp_folder_id = dcr_folder_id dr\<rparr>"

text \<open>The state \<open>lib.rs\<close> sets up.\<close>

definition app_new ::
  "('d, 'u, 'v, 'ix) app_lib \<Rightarrow> world \<Rightarrow> net \<Rightarrow> string option \<Rightarrow> (nat \<Rightarrow> string option)
     \<Rightarrow> (nat \<Rightarrow> string option) \<Rightarrow> ('d, 'ix) app" where
  "app_new A w n file disk emit_errors =
     \<lparr>ap_editor = editor_new (al_docs A) \<lparr>ps_open = True, ps_events = []\<rparr> w crypto_utils_new,
      ap_net = n\<lparr>nt_crypto := crypto_utils_new, nt_current_user := None, nt_current_device := None,
        nt_domain := ''livnote'', nt_manager := None, nt_peers := [], nt_events := [], nt_spawned := [],
        nt_dialed := []\<rparr>,
      ap_index = manager_new file disk w, ap_tasks = [], ap_emit_errors = emit_errors, ap_emitted = 0,
      ap_received = 0, ap_handled = 0\<rparr>"

end
