(* ===== verification/App_Handlers.thy ===== *)
theory App_Handlers
  imports App_State
begin

text \<open>
  The commands of the user interface: \<open>handlers/auth_handler.rs\<close>, \<open>folder_handler.rs\<close>, \<open>user_handler.rs\<close>
  and \<open>resource_handler.rs\<close>, and the tasks they spawn. The handlers of \<open>libremot\<close> for the account, the
  users and the folders are the same, but for the type of the folders they list.
\<close>

section \<open>The account\<close>

definition check_signup_status :: "('d, 'u, 'v, 'ix) app_lib \<Rightarrow> ('d, 'ix, crypto_response) commanding" where
  "check_signup_status A = sbind (in_services A (\<lambda>_. service_is_signed_up)) (\<lambda>is_signed_up.
     sret (IsSignedUp is_signed_up))"

definition get_user_details :: "('d, 'ix, crypto_response) commanding" where
  "get_user_details = sbind (in_editor get_user) (\<lambda>user. sbind (in_editor get_device) (\<lambda>device.
     sret (UserDetails (usr_id user) (dev_id device) (usr_username user) (usr_public_key user)
       (dev_device_key device))))"

definition handle_sign_up ::
  "('d, 'u, 'v, 'ix) app_lib \<Rightarrow> string \<Rightarrow> string \<Rightarrow> ('d, 'ix, crypto_response) commanding" where
  "handle_sign_up A username passphrase =
     sbind (in_services A (\<lambda>_. handle_signup (al_crypto A) username passphrase ''livnote'')) (\<lambda>_. sret Success)"

definition check_private_key_loaded :: "('d, 'ix, crypto_response) commanding" where
  "check_private_key_loaded = sbind (sget (\<lambda>s. is_cert_loaded (ed_crypto (ap_editor s))))
     (\<lambda>loaded. sret (CheckPvtKeyLoaded loaded))"

text \<open>\<open>load_certificate\<close> writes the certificate behind the lock.\<close>

definition loading :: "('d, 'u, 'v, 'ix) app_lib \<Rightarrow> string \<Rightarrow> ('d, 'ix, user \<times> device) commanding" where
  "loading A passphrase = in_editor (\<lambda>e.
     case load_certificate (al_crypto A) passphrase (ed_world e, ed_crypto e) of
       (r, (w, cu)) \<Rightarrow> (rmap_err (el_text (al_edit A)) r, e\<lparr>ed_world := w, ed_crypto := cu\<rparr>))"

definition login ::
  "('d, 'u, 'v, 'ix) app_lib \<Rightarrow> string \<Rightarrow> ('d, 'ix, crypto_response) commanding" where
  "login A passphrase =
     sbind (loading A passphrase) (\<lambda>(user, current_device).
     sbind (in_editor (smodify (\<lambda>e. e\<lparr>ed_user := Some user, ed_device := Some current_device\<rparr>))) (\<lambda>_.
     sbind (spawn_task (Start_network current_device user)) (\<lambda>_.
     sbind (spawn_task (Open_index (usr_public_key user))) (\<lambda>_.
     sret (Response_User (usr_id user) (usr_username user) (usr_public_key user))))))"

definition handle_add_device ::
  "('d, 'u, 'v, 'ix) app_lib \<Rightarrow> string \<Rightarrow> string \<Rightarrow> ident \<Rightarrow> string \<Rightarrow> ('d, 'ix, crypto_response) commanding" where
  "handle_add_device A certificate username device_id passphrase =
     sbind (in_services A (\<lambda>_. import_user (al_crypto A) certificate passphrase username device_id))
       (\<lambda>_. sret Success)"

definition handle_export_certificate ::
  "('d, 'u, 'v, 'ix) app_lib \<Rightarrow> string \<Rightarrow> ('d, 'ix, crypto_response) commanding" where
  "handle_export_certificate A passphrase =
     sbind (in_services A (\<lambda>_. service_export_certificate (al_crypto A) passphrase))
       (\<lambda>exported_cert. sret (Response_ExportedCertificate exported_cert))"

definition handle_change_passphrase ::
  "('d, 'u, 'v, 'ix) app_lib \<Rightarrow> string \<Rightarrow> string \<Rightarrow> ('d, 'ix, crypto_response) commanding" where
  "handle_change_passphrase A old_password new_password =
     sbind (in_services A (\<lambda>_. change_passphrase (al_crypto A) old_password new_password)) (\<lambda>_. sret Success)"

definition handle_logout :: "('d, 'ix, crypto_response) commanding" where
  "handle_logout = sbind (in_editor (smodify (\<lambda>e. e\<lparr>ed_crypto := clear_cert (ed_crypto e)\<rparr>)))
     (\<lambda>_. sret Success)"

definition get_one_time_ucan_token ::
  "('d, 'u, 'v, 'ix) app_lib \<Rightarrow> ('d, 'ix, crypto_response) commanding" where
  "get_one_time_ucan_token A =
     sbind (in_services A (\<lambda>cu. generate_one_time_ucan_token (al_crypto A) cu ''livnote''))
       (\<lambda>(ucan_token, ucan_pub_key). sret (OneTimeUcanToken ucan_token ucan_pub_key))"

section \<open>Users\<close>

definition handle_add_user ::
  "('d, 'u, 'v, 'ix) app_lib \<Rightarrow> string \<Rightarrow> ('d, 'ix, crypto_response) commanding" where
  "handle_add_user A input =
     sbind (slift (rmap_err (\<lambda>e. ''Failed to decode input: '' @ e) (b64_decode (al_crypto A) input)))
       (\<lambda>json_bytes.
     sbind (slift (rmap_err (\<lambda>e. ''Invalid UTF-8 in decoded input: '' @ e) (from_utf8 json_bytes)))
       (\<lambda>json_str.
     sbind (slift (rmap_err (\<lambda>e. ''Failed to deserialize user details: '' @ e) (al_user_details A json_str)))
       (\<lambda>details.
     sbind (in_services A (\<lambda>cu. service_add_known_user (al_crypto A) cu (ud_username details)
              (ud_user_public_key details) (ud_device_public_key details) (ud_ucan_token details)
              (ud_ucan_pub_key details))) (\<lambda>(_, device).
     sbind (in_net (al_p2p_text A) (spawn [(dev_id device, UserConn, Some UserSync)])) (\<lambda>_.
     sret Success)))))"

definition handle_get_known_users :: "('d, 'u, 'v, 'ix) app_lib \<Rightarrow> ('d, 'ix, crypto_response) commanding" where
  "handle_get_known_users A = sbind (in_services A (\<lambda>_. service_get_known_users))
     (\<lambda>known_users. sret (GetKnownUsers known_users))"

section \<open>Folders\<close>

definition handle_add_folder ::
  "('d, 'u, 'v, 'ix) app_lib \<Rightarrow> string \<Rightarrow> string \<Rightarrow> ('d, 'ix, crypto_response) commanding" where
  "handle_add_folder A name description =
     sbind (in_editor get_user) (\<lambda>user.
     sbind (in_services A (\<lambda>cu. create_folder (al_crypto A) cu name (Some description) ''livnote'' user))
       (\<lambda>folder. sret (FolderCreated folder)))"

definition folder_response_of :: "folder \<Rightarrow> folder_response" where
  "folder_response_of folder = \<lparr>frp_id = fol_id folder, frp_name = fol_name folder,
     frp_description = (case fol_description folder of Some d \<Rightarrow> d | None \<Rightarrow> []),
     frp_default = fol_default_folder folder\<rparr>"

definition handle_get_folders :: "('d, 'u, 'v, 'ix) app_lib \<Rightarrow> ('d, 'ix, crypto_response) commanding" where
  "handle_get_folders A = sbind (in_services A (\<lambda>_. service_get_all_folders))
     (\<lambda>folders. sret (Folders (map folder_response_of folders)))"

definition handle_soft_delete_folder ::
  "('d, 'u, 'v, 'ix) app_lib \<Rightarrow> ident \<Rightarrow> ('d, 'ix, crypto_response) commanding" where
  "handle_soft_delete_folder A folder_id =
     sbind (in_services A (\<lambda>_. soft_delete_folder folder_id)) (\<lambda>_. sret Success)"

definition handle_get_shared_folder_users ::
  "('d, 'u, 'v, 'ix) app_lib \<Rightarrow> ident \<Rightarrow> ('d, 'ix, crypto_response) commanding" where
  "handle_get_shared_folder_users A folder_id =
     sbind (in_services A (\<lambda>_. get_folder_shared_users folder_id)) (\<lambda>users. sret (Response_Users users))"

definition handle_share_folder ::
  "('d, 'u, 'v, 'ix) app_lib \<Rightarrow> ident \<Rightarrow> ident \<Rightarrow> (string \<times> string) list
     \<Rightarrow> ('d, 'ix, crypto_response) commanding" where
  "handle_share_folder A folder_id user_id permissions =
     sbind (in_editor get_user) (\<lambda>user.
     sbind (in_services A (\<lambda>cu. share_folder (al_crypto A) cu folder_id user_id permissions user ''livnote''))
       (\<lambda>_.
     sbind (in_net (al_p2p_text A) (sync_folders folder_id)) (\<lambda>_. sret Success)))"

section \<open>Notes\<close>

definition handle_add_resource ::
  "('d, 'u, 'v, 'ix) app_lib \<Rightarrow> string \<Rightarrow> ident \<Rightarrow> string \<Rightarrow> ('d, 'ix, crypto_response) commanding" where
  "handle_add_resource A resource_payload folder_id rtype =
     sbind (in_editor get_user) (\<lambda>user.
     sbind (in_editor get_device) (\<lambda>device.
     sbind (in_services A (\<lambda>cu. create_resource (al_crypto A) (al_docs A) cu resource_payload rtype folder_id
              user (dev_id device) ''livnote'')) (\<lambda>resource_added.
     sbind (app_emit (Emit_preview ''resource-added'' (preview_of (al_edit A) resource_added))) (\<lambda>_.
     sbind (spawn_task (Share_with_folder (dcr_id resource_added) folder_id user)) (\<lambda>_.
     sret (SelectedResourceResponse (response_of resource_added)))))))"

definition handle_get_resources_for_folder ::
  "('d, 'u, 'v, 'ix) app_lib \<Rightarrow> ident \<Rightarrow> ('d, 'ix, crypto_response) commanding" where
  "handle_get_resources_for_folder A folder_id =
     sbind (in_editor get_user) (\<lambda>user.
     sbind (in_services A (\<lambda>cu. get_resources_for_folder (al_crypto A) (al_docs A) cu folder_id (usr_id user)))
       (\<lambda>resources. sret (Resources (map response_of resources))))"

definition command_soft_delete_resource ::
  "('d, 'u, 'v, 'ix) app_lib \<Rightarrow> ident \<Rightarrow> ('d, 'ix, unit) commanding" where
  "command_soft_delete_resource A resource_id = in_services A (\<lambda>_. service_delete_resource resource_id)"

definition handle_toggle_fav ::
  "('d, 'u, 'v, 'ix) app_lib \<Rightarrow> ident \<Rightarrow> ('d, 'ix, crypto_response) commanding" where
  "handle_toggle_fav A resource_id =
     sbind (in_services A (\<lambda>_. service_toggle_fav resource_id)) (\<lambda>_. sret Success)"

definition handle_update_last_accessed ::
  "('d, 'u, 'v, 'ix) app_lib \<Rightarrow> ident \<Rightarrow> ('d, 'ix, crypto_response) commanding" where
  "handle_update_last_accessed A resource_id =
     sbind (in_services A (\<lambda>_. service_update_last_accessed resource_id)) (\<lambda>_. sret Success)"

definition handle_get_all_resources :: "('d, 'u, 'v, 'ix) app_lib \<Rightarrow> ('d, 'ix, crypto_response) commanding" where
  "handle_get_all_resources A =
     sbind (in_editor get_user) (\<lambda>user.
     sbind (in_services A (\<lambda>cu. service_get_all_resources (al_crypto A) (al_docs A) cu (usr_id user)))
       (\<lambda>resources. sret (Resources (map response_of resources))))"

definition handle_update_resource ::
  "('d, 'u, 'v, 'ix) app_lib \<Rightarrow> ident \<Rightarrow> string \<Rightarrow> ('d, 'ix, crypto_response) commanding" where
  "handle_update_resource A resource_id dat =
     sbind (in_editor get_device) (\<lambda>current_device.
     sbind (in_editor get_user) (\<lambda>user.
     sbind (in_services A (\<lambda>cu. update_resource (al_crypto A) (al_docs A) cu resource_id dat (usr_id user)
              (dev_id current_device))) (\<lambda>dr.
     sbind (app_emit (Emit_preview ''resource-update'' (preview_of (al_edit A) dr))) (\<lambda>_.
     sbind (spawn_task (Update_index (dcr_id dr) (dcr_data dr) (dcr_folder_id dr))) (\<lambda>_.
     sret Response_UpdateResources)))))"

definition handle_search_resources ::
  "('d, 'u, 'v, 'ix) app_lib \<Rightarrow> string \<Rightarrow> nat option \<Rightarrow> ('d, 'ix, crypto_response) commanding" where
  "handle_search_resources A query limit =
     sbind (in_index A (manager_search (al_search A) query (case limit of Some n \<Rightarrow> n | None \<Rightarrow> 50)))
       (\<lambda>search_results. sret (SearchedResourceIds (map srs_resource_id search_results)))"

definition handle_get_resource ::
  "('d, 'u, 'v, 'ix) app_lib \<Rightarrow> ident \<Rightarrow> ('d, 'ix, crypto_response) commanding" where
  "handle_get_resource A resource_id =
     sbind (in_editor get_user) (\<lambda>user.
     sbind (in_services A (\<lambda>cu. get_resource_by_id_direct (al_crypto A) (al_docs A) cu resource_id (usr_id user)))
       (\<lambda>resource. sret (SelectedResourceResponse (response_of resource))))"

definition handle_share_resource ::
  "('d, 'u, 'v, 'ix) app_lib \<Rightarrow> ident \<Rightarrow> ident \<Rightarrow> (string \<times> string) list
     \<Rightarrow> ('d, 'ix, crypto_response) commanding" where
  "handle_share_resource A user_id resource_id permissions =
     sbind (in_editor get_user) (\<lambda>user.
     sbind (in_services A (\<lambda>cu. share_resource (al_crypto A) cu user_id resource_id permissions user)) (\<lambda>_.
     sbind (in_net (al_p2p_text A) (sync_resource resource_id)) (\<lambda>_. sret Success)))"

section \<open>Sending all notes to the interface\<close>

definition MAX_CONCURRENT_TASKS :: nat where
  "MAX_CONCURRENT_TASKS = 10"

text \<open>One note, in its own task: what cannot be decrypted is left out.\<close>

definition emit_note ::
  "('d, 'u, 'v, 'ix) app_lib \<Rightarrow> ident \<Rightarrow> ident \<Rightarrow> ('d, 'ix, unit) commanding" where
  "emit_note A user_id resource_id =
     scatch (in_services A (\<lambda>cu. get_resource_by_id_direct (al_crypto A) (al_docs A) cu resource_id user_id))
       (\<lambda>dr. or_logged (app_emit (Emit_preview ''resource-added'' (preview_of (al_edit A) dr))))
       (\<lambda>_. sret ())"

definition emit_selected ::
  "('d, 'u, 'v, 'ix) app_lib \<Rightarrow> ident \<Rightarrow> ident \<Rightarrow> ('d, 'ix, resource_response option) commanding" where
  "emit_selected A user_id selected_resource =
     scatch (in_services A (\<lambda>cu. get_resource_by_id_direct (al_crypto A) (al_docs A) cu selected_resource user_id))
       (\<lambda>dr. sbind (or_logged (app_emit (Emit_preview ''resource-added'' (preview_of (al_edit A) dr))))
          (\<lambda>_. sret (Some (response_of dr))))
       (\<lambda>_. sret None)"

definition emit_all_resources ::
  "('d, 'u, 'v, 'ix) app_lib \<Rightarrow> ident option \<Rightarrow> ('d, 'ix, crypto_response) commanding" where
  "emit_all_resources A selected_resource_id =
     sbind (in_editor get_user) (\<lambda>user.
     sbind (in_repository A get_all_resource_ids) (\<lambda>all_ids.
     sbind (case selected_resource_id of
              Some selected \<Rightarrow> emit_selected A (usr_id user) selected
            | None \<Rightarrow> sret None) (\<lambda>selected_resource_response.
       (let all_resource_ids = (case selected_resource_id of
              Some selected \<Rightarrow> remove1 selected all_ids | None \<Rightarrow> all_ids) in
     sbind (spawn_task (Emit_notes (take MAX_CONCURRENT_TASKS all_resource_ids)
              (drop MAX_CONCURRENT_TASKS all_resource_ids) (usr_id user))) (\<lambda>_.
     sret (case selected_resource_response of
         Some resource \<Rightarrow> SelectedResourceResponse resource | None \<Rightarrow> Success))))))"

section \<open>The tasks\<close>

text \<open>
  The next step of a task and what is left of it. Of the notes that are being decrypted the one at
  place \<open>j\<close> is done first; its place is taken by the next that waits. When none is left the
  interface is told.
\<close>

definition emission_step ::
  "('d, 'u, 'v, 'ix) app_lib \<Rightarrow> nat \<Rightarrow> ident list \<Rightarrow> ident list \<Rightarrow> ident
     \<Rightarrow> ('d, 'ix, app_task option) commanding" where
  "emission_step A j running waiting user_id =
     (if running = [] then
        sbind (or_logged (app_emit (Emit_json ''resources-loading-complete'' JNull))) (\<lambda>_. sret None)
      else (let k = j mod length running in
        sbind (emit_note A user_id (running ! k)) (\<lambda>_.
        sret (Some (Emit_notes (take k running @ drop (Suc k) running @ take 1 waiting) (drop 1 waiting) user_id)))))"

definition task_of ::
  "('d, 'u, 'v, 'ix) app_lib \<Rightarrow> nat \<Rightarrow> app_task \<Rightarrow> ('d, 'ix, app_task option) commanding" where
  "task_of A j task = (case task of
       Start_network device user \<Rightarrow>
         sbind (or_logged (in_net (al_p2p_text A) (start_p2p_service (al_net A) device user))) (\<lambda>_. sret None)
     | Open_index user_pub_key \<Rightarrow>
         sbind (sget (\<lambda>s. ed_crypto (ap_editor s))) (\<lambda>cu.
         scatch (in_index A (initialize (al_search A) cu user_pub_key))
           (\<lambda>_. sret (Some Scheduled_save)) (\<lambda>_. sret None))
     | Scheduled_save \<Rightarrow>
         sbind (in_index A (scheduled_save (al_search A))) (\<lambda>goes_on.
         sret (if goes_on then Some Scheduled_save else None))
     | Share_with_folder resource_id folder_id user \<Rightarrow>
         sbind (or_logged (sbind (in_services A (\<lambda>cu.
             auto_share_resource_with_folder_users (al_crypto A) cu resource_id folder_id user ''livnote''))
           (\<lambda>_. in_net (al_p2p_text A) (sync_resource resource_id)))) (\<lambda>_. sret None)
     | Update_index resource_id dat folder_id \<Rightarrow>
         sbind (or_logged (in_index A (search_update_resource (al_search A) resource_id dat folder_id)))
           (\<lambda>_. sret None)
     | Emit_notes running waiting user_id \<Rightarrow> emission_step A j running waiting user_id)"

definition run_app_task :: "('d, 'u, 'v, 'ix) app_lib \<Rightarrow> nat \<Rightarrow> nat \<Rightarrow> ('d, 'ix, unit) commanding" where
  "run_app_task A i j = sbind (sget ap_tasks) (\<lambda>tasks.
     if i < length tasks
     then sbind (task_of A j (tasks ! i)) (\<lambda>rest.
       smodify (\<lambda>s. s\<lparr>ap_tasks := (case rest of
           Some t \<Rightarrow> (ap_tasks s)[i := t]
         | None \<Rightarrow> take i (ap_tasks s) @ drop (Suc i) (ap_tasks s))\<rparr>))
     else sret ())"

text \<open>The task \<open>emit_resource_preview\<close> spawns: the first of those that wait.\<close>

definition run_preview_task :: "('d, 'u, 'v, 'ix) app_lib \<Rightarrow> ('d, 'ix, unit) commanding" where
  "run_preview_task A = sbind (sget (\<lambda>s. ed_index (ap_editor s))) (\<lambda>waiting. case waiting of
       [] \<Rightarrow> sret ()
     | (resource_id, dat, folder_id) # rest \<Rightarrow>
         sbind (in_editor (smodify (\<lambda>e. e\<lparr>ed_index := rest\<rparr>))) (\<lambda>_.
         or_logged (in_index A (search_update_resource (al_search A) resource_id dat folder_id))))"

section \<open>Commands\<close>

datatype (plugins only: code size) app_command =
    Check_signup_status
  | Get_user_details
  | Sign_up string string
  | Check_private_key_loaded
  | Login string
  | Add_device string string ident string
  | Export_certificate string
  | Change_passphrase string string
  | Logout
  | One_time_ucan_token
  | Add_user string
  | Get_known_users
  | Add_folder string string
  | Get_folders
  | Soft_delete_folder ident
  | Get_shared_folder_users ident
  | Share_folder ident ident "(string \<times> string) list"
  | Add_resource string ident string
  | Get_resources_for_folder ident
  | Soft_delete_resource ident
  | Toggle_fav ident
  | Update_last_accessed ident
  | Get_all_resources
  | Update_resource ident string
  | Search_resources string "nat option"
  | Get_resource ident
  | Share_resource ident ident "(string \<times> string) list"
  | Emit_all_resources "ident option"

text \<open>The table of \<open>invoke_handler\<close>. \<open>soft_delete_resource\<close> answers nothing.\<close>

definition invoke ::
  "('d, 'u, 'v, 'ix) app_lib \<Rightarrow> app_command \<Rightarrow> ('d, 'ix, crypto_response option) commanding" where
  "invoke A command = (let answer = (\<lambda>m. sbind m (\<lambda>r. sret (Some r))) in case command of
       Check_signup_status \<Rightarrow> answer (check_signup_status A)
     | Get_user_details \<Rightarrow> answer get_user_details
     | Sign_up username passphrase \<Rightarrow> answer (handle_sign_up A username passphrase)
     | Check_private_key_loaded \<Rightarrow> answer check_private_key_loaded
     | Login passphrase \<Rightarrow> answer (login A passphrase)
     | Add_device certificate username device_id passphrase \<Rightarrow>
         answer (handle_add_device A certificate username device_id passphrase)
     | Export_certificate passphrase \<Rightarrow> answer (handle_export_certificate A passphrase)
     | Change_passphrase old_password new_password \<Rightarrow>
         answer (handle_change_passphrase A old_password new_password)
     | Logout \<Rightarrow> answer handle_logout
     | One_time_ucan_token \<Rightarrow> answer (get_one_time_ucan_token A)
     | Add_user input \<Rightarrow> answer (handle_add_user A input)
     | Get_known_users \<Rightarrow> answer (handle_get_known_users A)
     | Add_folder name description \<Rightarrow> answer (handle_add_folder A name description)
     | Get_folders \<Rightarrow> answer (handle_get_folders A)
     | Soft_delete_folder folder_id \<Rightarrow> answer (handle_soft_delete_folder A folder_id)
     | Get_shared_folder_users folder_id \<Rightarrow> answer (handle_get_shared_folder_users A folder_id)
     | Share_folder folder_id user_id permissions \<Rightarrow> answer (handle_share_folder A folder_id user_id permissions)
     | Add_resource payload folder_id rtype \<Rightarrow> answer (handle_add_resource A payload folder_id rtype)
     | Get_resources_for_folder folder_id \<Rightarrow> answer (handle_get_resources_for_folder A folder_id)
     | Soft_delete_resource resource_id \<Rightarrow> sbind (command_soft_delete_resource A resource_id) (\<lambda>_. sret None)
     | Toggle_fav resource_id \<Rightarrow> answer (handle_toggle_fav A resource_id)
     | Update_last_accessed resource_id \<Rightarrow> answer (handle_update_last_accessed A resource_id)
     | Get_all_resources \<Rightarrow> answer (handle_get_all_resources A)
     | Update_resource resource_id dat \<Rightarrow> answer (handle_update_resource A resource_id dat)
     | Search_resources query limit \<Rightarrow> answer (handle_search_resources A query limit)
     | Get_resource resource_id \<Rightarrow> answer (handle_get_resource A resource_id)
     | Share_resource user_id resource_id permissions \<Rightarrow>
         answer (handle_share_resource A user_id resource_id permissions)
     | Emit_all_resources selected \<Rightarrow> answer (emit_all_resources A selected))"

section \<open>The two channels\<close>

text \<open>
  \<open>listen_for_p2p_events\<close> takes the next event of the network, and the loop of
  \<open>start_processing_incoming_events\<close> the next request of the editor.
\<close>

definition receive_event :: "('d, 'u, 'v, 'ix) app_lib \<Rightarrow> ('d, 'ix, unit) commanding" where
  "receive_event A = sbind (sget (\<lambda>s. (ap_received s, nt_events (ap_net s)))) (\<lambda>(n, events).
     if n < length events
     then sbind (smodify (\<lambda>s. s\<lparr>ap_received := Suc n\<rparr>)) (\<lambda>_.
       in_editor (handle_p2p_event (al_edit A) (events ! n)))
     else sret ())"

definition take_request :: "('d, 'u, 'v, 'ix) app_lib \<Rightarrow> ('d, 'ix, unit) commanding" where
  "take_request A = sbind (sget (\<lambda>s. (ap_handled s, ps_events (ed_sender (ap_editor s))))) (\<lambda>(n, requests).
     if n < length requests
     then sbind (smodify (\<lambda>s. s\<lparr>ap_handled := Suc n\<rparr>)) (\<lambda>_.
       in_net id (process_incoming_event (al_net A) (requests ! n)))
     else sret ())"

end
