(* ===== verification/App_Safety.thy ===== *)
theory App_Safety
  imports App_Handlers Editor_Properties Net_Properties
begin

text \<open>
  The application as one state machine: commands, spawned tasks, events of the interface, the two
  channels between the editor and the network, messages of peers and attempts to connect happen in
  any order on the one database. The invariants of the components hold together in every state.
\<close>

section \<open>The database under the editor and the index\<close>

abbreviation editor_db :: "'d editor \<Rightarrow> bool" where
  "editor_db e \<equiv> db_inv (ed_world e)"

named_theorems db_keeps \<open>operations of the editor that keep the integrity of the database\<close>

lemma db_keeps_parts [db_keeps]:
  "keeps editor_db (on_note m1)" "keeps editor_db (change_note f)" "keeps editor_db (on_sender m2)"
  "keeps editor_db (emit_json n p)" "keeps editor_db get_user" "keeps editor_db get_device"
proof -
  show "keeps editor_db get_user" "keeps editor_db get_device"
    unfolding get_user_def get_device_def by (intro keeps_control keeps_sget)+
qed (rule keeps_on_note keeps_change_note keeps_on_sender keeps_emit_json; simp)+

lemma db_keeps_on_data [db_keeps]: "keeps db_inv m \<Longrightarrow> keeps editor_db (on_data E m)"
  unfolding keeps_def on_data_def by (simp split: prod.splits) (metis snd_conv)

lemmas db_steps = keeps_control keeps_sget keeps_sfor keeps_logged db_keeps stmt_keeps

lemma db_keeps_preview [db_keeps]: "keeps editor_db (emit_resource_preview E i n)"
  unfolding emit_resource_preview_def by (intro db_steps db_keeps keeps_smodify) simp

lemma db_keeps_update_event [db_keeps]: "keeps editor_db (handle_update_event E i u c)"
  unfolding handle_update_event_def by (intro db_steps db_keeps)

lemma db_keeps_p2p_event: "keeps editor_db (handle_p2p_event E e)"
  unfolding handle_p2p_event_def
  by (cases e) (simp_all only: p2p_event.case handle_live_edit_connected_def handle_awareness_event_def
      handle_resource_added_def handle_folders_added_def handle_connected_event_def
      handle_disconnected_event_def handle_handshake_failed_event_def handle_sync_complete_event_def
      handle_share_complete_event_def handle_error_event_def handle_document_missmatch_def
      handle_document_check_def handle_document_update_request_def handle_document_process_update_def
      handle_document_process_update_response_def handle_document_changed_event_def
      handle_editing_event_def, (intro db_steps db_keeps)+)

lemma db_keeps_event: "keeps editor_db (handle_event E e)"
proof (cases e)
  case (From_network q)
  then show ?thesis by (simp add: handle_event_def db_keeps_p2p_event)
next
  case (Update_of t p)
  have "keeps editor_db (apply_sync_update_to_buffer u ty)" for u ty
    unfolding apply_sync_update_to_buffer_def by (rule keeps_smodify) simp
  with Update_of show ?thesis
    unfolding handle_event_def update_listener_def broadcast_update_def by (simp only: editor_event.case) (intro db_steps db_keeps)
next
  case (Note_change p)
  show ?thesis
    unfolding Note_change handle_event_def editor_event.case note_change_listener_def open_note_def
      setup_shared_users_for_note_def handle_leaving_note_def notify_inactive_connections_def
      notify_active_connections_document_changed_def Let_def
    by (intro db_steps db_keeps keeps_smodify; simp)
next
  case (Task_runs i)
  then show ?thesis
    unfolding handle_event_def run_task_def
    by (simp only: editor_event.case) (rule keeps_smodify, simp split: prod.splits option.splits)
next
  case Timer_ticks
  then show ?thesis
    unfolding handle_event_def reconciliation_tick_def perform_reconciliation_def
    by (simp only: editor_event.case) (intro db_steps db_keeps)
qed

abbreviation index_db :: "'ix indexing \<Rightarrow> bool" where
  "index_db x \<equiv> db_inv (ix_world x)"

named_theorems index_keeps \<open>operations of the search index that keep the integrity of the database\<close>

lemma index_keeps_parts [index_keeps]:
  "keeps index_db disk_access" "keeps index_db get_index" "keeps index_db (set_index ix)"
  by (auto simp: keeps_def disk_access_def get_index_def set_index_def sbind_def split: option.splits)

lemma index_keeps_world [index_keeps]: "keeps db_inv m \<Longrightarrow> keeps index_db (in_world V m)"
  unfolding keeps_def in_world_def by (simp split: prod.splits) (metis snd_conv)

lemma index_keeps_on_index [index_keeps]: "keeps index_db (on_index m)"
  unfolding on_index_def by (intro keeps_control index_keeps)

lemma index_keeps_operations [index_keeps]:
  "keeps index_db (commit_and_reload T)" "keeps index_db (create_new_index T)"
  unfolding commit_and_reload_def create_new_index_def by (intro keeps_control index_keeps)+

lemma index_keeps_storage [index_keeps]:
  "keeps index_db (save_encrypted S sn k)" "keeps index_db (load_encrypted S cu)"
  unfolding save_encrypted_def load_encrypted_def
  by (intro keeps_control keeps_sget index_keeps keeps_smodify stmt_keeps crypto_keeps env_blind_db_inv; simp)+

lemma index_keeps_manager [index_keeps]:
  "keeps index_db (initialize S cu k)" "keeps index_db (scheduled_save S)"
  "keeps index_db (search_update_resource S i j fd)" "keeps index_db (manager_search S q n)"
  unfolding initialize_def restore_from_snapshot_def scheduled_save_def save_index_def extract_for_save_def
    save_extracted_data_def search_update_resource_def index_resource_def manager_search_def
  by (intro keeps_control keeps_sget keeps_sfor index_keeps keeps_smodify; simp)+

section \<open>The invariant of the application\<close>

definition app_inv ::
  "(nat \<Rightarrow> bytes \<Rightarrow> string + transport) \<Rightarrow> string set \<Rightarrow> ('d, 'ix) app \<Rightarrow> bool" where
  "app_inv D F s \<longleftrightarrow> editor_inv (ap_editor s) \<and> net_inv D F (net_view s)"

named_theorems app_keeps \<open>operations that keep the invariant of the application\<close>

lemma net_inv_view: "net_inv D F (net_view s) \<longleftrightarrow>
    nt_dial (ap_net s) = D \<and> marked (ap_net s) \<subseteq> F \<and> refs_ok (ap_net s) \<and> editor_db (ap_editor s)"
  by (simp add: net_view_def net_inv_defs)

lemma keeps_in_editor:
  assumes "keeps editor_inv m" "keeps editor_db m"
  shows "keeps (app_inv D F) (in_editor m)"
proof (rule keepsI, goal_cases)
  case s: (1 s)
  obtain r e where m: "m (ap_editor s) = (r, e)" by fastforce
  have "editor_inv e" "editor_db e"
    using keepsD [OF assms(1) _ m] keepsD [OF assms(2) _ m] s by (simp_all add: app_inv_def net_inv_view)
  then show ?case
    using s m by (simp add: in_editor_def app_inv_def net_inv_view)
qed

lemma keeps_in_net [app_keeps]:
  assumes "keeps (net_inv D F) m"
  shows "keeps (app_inv D F) (in_net V m)"
proof (rule keepsI, goal_cases)
  case s: (1 s)
  obtain r n where m: "m (net_view s) = (r, n)" by fastforce
  have "net_inv D F n" using keepsD [OF assms _ m] s by (simp add: app_inv_def)
  then show ?case
    using s m by (simp add: in_net_def put_net_def app_inv_def net_inv_view about_note_def) (simp add: net_inv_def)
qed

lemma keeps_in_index [app_keeps]:
  assumes "keeps index_db m"
  shows "keeps (app_inv D F) (in_index A m)"
proof (rule keepsI, goal_cases)
  case s: (1 s)
  obtain r x where m: "m ((ap_index s)\<lparr>ix_world := app_world s\<rparr>) = (r, x)" by fastforce
  have "index_db x" using keepsD [OF assms _ m] s by (simp add: app_inv_def net_inv_view)
  then show ?case
    using s m by (simp add: in_index_def app_inv_def net_inv_view about_note_def)
qed

lemma keeps_in_services [app_keeps]:
  assumes "\<And>cu. keeps db_inv (m cu)"
  shows "keeps (app_inv D F) (in_services A m)"
  unfolding in_services_def
  by (rule keeps_in_editor) (intro keeps_control keeps_sget note_keeps db_keeps assms)+

lemma keeps_in_repository [app_keeps]:
  assumes "keeps db_inv m"
  shows "keeps (app_inv D F) (in_repository A m)"
  unfolding in_repository_def
proof (rule keeps_in_editor)
  show "keeps editor_inv (\<lambda>e. case m (ed_world e) of (r, w) \<Rightarrow>
      (rmap_err (repository_text (al_crypto A)) r, e\<lparr>ed_world := w\<rparr>))"
    by (rule keepsI) (simp add: about_note_def split: prod.splits)
  show "keeps editor_db (\<lambda>e. case m (ed_world e) of (r, w) \<Rightarrow>
      (rmap_err (repository_text (al_crypto A)) r, e\<lparr>ed_world := w\<rparr>))"
    using assms unfolding keeps_def by (simp split: prod.splits) (metis snd_conv)
qed

lemma app_keeps_basic [app_keeps]:
  "keeps (app_inv D F) (in_editor get_user)" "keeps (app_inv D F) (in_editor get_device)"
  "keeps (app_inv D F) (spawn_task t)" "keeps (app_inv D F) (app_emit e)"
  "keeps (app_inv D F) (in_editor (smodify (\<lambda>e. e\<lparr>ed_user := u, ed_device := d\<rparr>)))"
  "keeps (app_inv D F) (in_editor (smodify (\<lambda>e. e\<lparr>ed_crypto := f e\<rparr>)))"
  "keeps (app_inv D F) (in_editor (smodify (\<lambda>e. e\<lparr>ed_index := g e\<rparr>)))"
proof -
  show "keeps (app_inv D F) (in_editor get_user)" "keeps (app_inv D F) (in_editor get_device)"
    by (rule keeps_in_editor; intro note_keeps db_keeps)+
  show "keeps (app_inv D F) (spawn_task t)" "keeps (app_inv D F) (app_emit e)"
    by (auto simp: keeps_def spawn_task_def app_emit_def app_inv_def net_inv_view about_note_def split: option.splits)
qed (rule keeps_in_editor; rule keeps_smodify; simp add: about_note_def)+

lemma app_keeps_logged [app_keeps]: "keeps P m \<Longrightarrow> keeps P (or_logged m)"
  unfolding or_logged_def by (intro keeps_control)

lemma app_keeps_loading [app_keeps]: "keeps (app_inv D F) (loading A pw)"
  unfolding loading_def
proof (rule keeps_in_editor)
  let ?m = "\<lambda>e. case load_certificate (al_crypto A) pw (ed_world e, ed_crypto e) of
       (r, (w, cu)) \<Rightarrow> (rmap_err (el_text (al_edit A)) r, e\<lparr>ed_world := w, ed_crypto := cu\<rparr>)"
  show "keeps editor_inv ?m"
    by (rule keepsI) (simp add: about_note_def split: prod.splits)
  show "keeps editor_db ?m"
  proof (rule keepsI, goal_cases)
    case e: (1 e)
    obtain r w cu where run: "load_certificate (al_crypto A) pw (ed_world e, ed_crypto e) = (r, (w, cu))"
      by (metis prod_cases3)
    then show ?case using load_certificate_keeps [OF e run] by simp
  qed
qed

text \<open>Every command and every spawned task.\<close>

lemma keeps_get_all_resource_ids [stmt_keeps]: "keeps db_inv get_all_resource_ids"
  unfolding get_all_resource_ids_def by (intro stmt_keeps)

lemma app_keeps_emit_notes [app_keeps]:
  "keeps (app_inv D F) (emit_note A u i)" "keeps (app_inv D F) (emit_selected A u i)"
  "keeps (app_inv D F) (emission_step A j rs ws u)"
  unfolding emit_note_def emit_selected_def emission_step_def Let_def
  by (intro keeps_control app_keeps stmt_keeps)+

lemma app_keeps_account [app_keeps]:
  "keeps (app_inv D F) (check_signup_status A)" "keeps (app_inv D F) get_user_details"
  "keeps (app_inv D F) (handle_sign_up A un pw)" "keeps (app_inv D F) check_private_key_loaded"
  "keeps (app_inv D F) (login A pw)" "keeps (app_inv D F) (handle_add_device A ct un di pw)"
  "keeps (app_inv D F) (handle_export_certificate A pw)" "keeps (app_inv D F) (handle_change_passphrase A pw qw)"
  "keeps (app_inv D F) handle_logout" "keeps (app_inv D F) (get_one_time_ucan_token A)"
  "keeps (app_inv D F) (handle_add_user A un)" "keeps (app_inv D F) (handle_get_known_users A)"
  unfolding check_signup_status_def get_user_details_def handle_sign_up_def check_private_key_loaded_def
    login_def handle_add_device_def handle_export_certificate_def handle_change_passphrase_def
    handle_logout_def get_one_time_ucan_token_def handle_add_user_def handle_get_known_users_def
  by (intro keeps_control keeps_sget app_keeps stmt_keeps net_keeps)+

lemma app_keeps_folders [app_keeps]:
  "keeps (app_inv D F) (handle_add_folder A n ds)" "keeps (app_inv D F) (handle_get_folders A)"
  "keeps (app_inv D F) (handle_soft_delete_folder A i)" "keeps (app_inv D F) (handle_get_shared_folder_users A i)"
  "keeps (app_inv D F) (handle_share_folder A i u ps)"
  unfolding handle_add_folder_def handle_get_folders_def handle_soft_delete_folder_def
    handle_get_shared_folder_users_def handle_share_folder_def
  by (intro keeps_control app_keeps stmt_keeps net_keeps)+

lemma app_keeps_notes [app_keeps]:
  "keeps (app_inv D F) (handle_add_resource A p i ty)" "keeps (app_inv D F) (handle_get_resources_for_folder A i)"
  "keeps (app_inv D F) (command_soft_delete_resource A i)" "keeps (app_inv D F) (handle_toggle_fav A i)"
  "keeps (app_inv D F) (handle_update_last_accessed A i)" "keeps (app_inv D F) (handle_get_all_resources A)"
  "keeps (app_inv D F) (handle_update_resource A i p)" "keeps (app_inv D F) (handle_search_resources A q n)"
  "keeps (app_inv D F) (handle_get_resource A i)" "keeps (app_inv D F) (handle_share_resource A u i ps)"
  "keeps (app_inv D F) (emit_all_resources A sel)"
  unfolding handle_add_resource_def handle_get_resources_for_folder_def command_soft_delete_resource_def
    handle_toggle_fav_def handle_update_last_accessed_def handle_get_all_resources_def handle_update_resource_def
    handle_search_resources_def handle_get_resource_def handle_share_resource_def emit_all_resources_def Let_def
  by (intro keeps_control app_keeps stmt_keeps net_keeps index_keeps)+

lemma app_keeps_invoke: "keeps (app_inv D F) (invoke A c)"
  unfolding invoke_def Let_def by (cases c) (simp_all only: app_command.case, (intro keeps_control app_keeps)+)

lemma app_keeps_tasks: "keeps (app_inv D F) (run_app_task A i j)" "keeps (app_inv D F) (run_preview_task A)"
proof -
  have "keeps (app_inv D F) (task_of A j t)" for t
    unfolding task_of_def
    by (cases t) (simp_all only: app_task.case, (intro keeps_control keeps_sget app_keeps stmt_keeps net_keeps index_keeps)+)
  then show "keeps (app_inv D F) (run_app_task A i j)"
    unfolding run_app_task_def
    by (intro keeps_control keeps_sget keeps_smodify; simp add: app_inv_def net_inv_view)
  show "keeps (app_inv D F) (run_preview_task A)"
    unfolding run_preview_task_def
    by (rule keeps_sbind [OF keeps_sget])
       (simp split: list.splits prod.splits, intro allI impI conjI keeps_control app_keeps index_keeps)
qed

lemma app_keeps_channels:
  "keeps (app_inv D F) (receive_event A)" "honest D \<Longrightarrow> keeps (app_inv D F) (take_request A)"
proof -
  show "keeps (app_inv D F) (receive_event A)"
    unfolding receive_event_def
    by (intro keeps_control keeps_sget keeps_smodify keeps_in_editor editor_p2p_event db_keeps_p2p_event;
        simp add: app_inv_def net_inv_view)
  have "keeps (net_inv D F) (process_incoming_event N e)" if "honest D" for N e
    unfolding keeps_def
  proof (intro allI impI)
    fix s assume "net_inv D F s"
    then have "net_inv D F (snd (start_processing_incoming_events N [e] s))"
      using keeps_incoming_events [OF that, of F N "[e]"] by (simp add: keeps_def)
    then show "net_inv D F (snd (process_incoming_event N e s))"
      by (cases "process_incoming_event N e s"; cases "fst (process_incoming_event N e s)")
         (simp_all add: start_processing_incoming_events_def sbind_def)
  qed
  then show "honest D \<Longrightarrow> keeps (app_inv D F) (take_request A)"
    unfolding take_request_def
    by (intro keeps_control keeps_sget keeps_smodify keeps_in_net; simp add: app_inv_def net_inv_view)
qed

section \<open>Reachable states\<close>

text \<open>
  \<open>app_reach A s fs\<close>: the application gets from its start into \<open>s\<close>, with the attempts \<open>fs\<close> waiting for the
  transport.
\<close>

inductive app_reach ::
  "('d, 'u, 'v, 'ix) app_lib \<Rightarrow> ('d, 'ix) app \<Rightarrow> (bytes \<times> connection_type \<times> connection_action option) list \<Rightarrow> bool"
  for A where
  app_start: "app_reach A (app_new A w n stored disk errors) []"
    if "db_inv w" "honest (nt_dial n)"
| app_command: "app_reach A (snd (invoke A c s)) fs" if "app_reach A s fs"
| app_task: "app_reach A (snd (run_app_task A i j s)) fs" if "app_reach A s fs"
| app_preview: "app_reach A (snd (run_preview_task A s)) fs" if "app_reach A s fs"
| app_interface: "app_reach A (snd (in_editor (handle_event (al_edit A) e) s)) fs" if "app_reach A s fs"
| app_receive: "app_reach A (snd (receive_event A s)) fs" if "app_reach A s fs"
| app_request: "app_reach A (snd (take_request A s)) fs" if "app_reach A s fs"
| app_network: "app_reach A (put_net (net_run (al_net A) a (net_view s)) s) fs" if "app_reach A s fs"
| app_begin: "app_reach A (put_net t s) (case q of Inr (Dialling n) \<Rightarrow> (n, ct, ac) # fs | _ \<Rightarrow> fs)"
    if "app_reach A s fs" "connect_begin (al_net A) d ac (net_view s) = (q, t)"
| app_finish: "app_reach A (put_net (snd (connect_end (al_net A) n ct ac (net_view s))) s) (fs @ gs)"
    if "app_reach A s (fs @ (n, ct, ac) # gs)"

lemma app_inv_put_net: "editor_inv (ap_editor s) \<Longrightarrow> net_inv D F n \<Longrightarrow> app_inv D F (put_net n s)"
  by (simp add: app_inv_def put_net_def net_inv_view about_note_def) (simp add: net_inv_def)

lemma app_invD: "app_inv D F s \<Longrightarrow> editor_inv (ap_editor s)" "app_inv D F s \<Longrightarrow> net_inv D F (net_view s)"
  by (simp_all add: app_inv_def)

lemma app_reach_inv:
  "app_reach A s fs \<Longrightarrow> \<exists>D. honest D \<and> app_inv D (node_text (al_net A) ` fst ` set fs) s"
proof (induction rule: app_reach.induct)
  case (app_start w n stored disk errors)
  then show ?case
    by (intro exI [of _ "nt_dial n"])
       (simp add: app_inv_def net_inv_view app_new_def editor_new_inv marked_def refs_ok_def established_def,
        simp add: editor_new_def)
next
  case (app_command s fs c)
  then show ?case using app_keeps_invoke unfolding keeps_def by blast
next
  case (app_task s fs i j)
  then show ?case using app_keeps_tasks(1) unfolding keeps_def by blast
next
  case (app_preview s fs)
  then show ?case using app_keeps_tasks(2) unfolding keeps_def by blast
next
  case (app_interface s fs e)
  then show ?case using keeps_in_editor [OF editor_event db_keeps_event] unfolding keeps_def by blast
next
  case (app_receive s fs)
  then show ?case using app_keeps_channels(1) unfolding keeps_def by blast
next
  case (app_request s fs)
  then show ?case using app_keeps_channels(2) unfolding keeps_def by blast
next
  case (app_network s fs a)
  then show ?case by (blast intro: app_inv_put_net keeps_net_run dest: app_invD)
next
  case (app_begin s fs d ac q t ct)
  then obtain D where D: "honest D" "app_inv D (node_text (al_net A) ` fst ` set fs) s" by blast
  have "net_inv D (node_text (al_net A) ` fst ` set fs \<union> begun (al_net A) q) t"
    using connect_begin_inv [OF app_invD(2) [OF D(2)], of "al_net A" d ac] app_begin.hyps(2)
    by (simp add: started_def)
  then have "net_inv D (node_text (al_net A) ` fst ` set
      (case q of Inr (Dialling n) \<Rightarrow> (n, ct, ac) # fs | _ \<Rightarrow> fs)) t"
    by (rule net_inv_mono) (auto simp: begun_def split: sum.splits connect_progress.splits)
  with D show ?case by (blast intro: app_inv_put_net dest: app_invD)
next
  case (app_finish s fs n ct ac gs)
  then obtain D where D: "honest D"
    "app_inv D (node_text (al_net A) ` fst ` set (fs @ (n, ct, ac) # gs)) s" by blast
  from connect_end_inv [OF D(1) app_invD(2) [OF D(2)], of "al_net A" n ct ac]
  have "net_inv D (node_text (al_net A) ` fst ` set (fs @ gs)) (snd (connect_end (al_net A) n ct ac (net_view s)))"
    by (rule net_inv_mono) auto
  with D show ?case by (blast intro: app_inv_put_net dest: app_invD)
qed

text \<open>
  C6. Whatever commands the user gives, in whatever order their tasks run, whatever peers send and however
  attempts to connect end: the database is in order, the three documents of the open note are
  different ones, every connection the manager knows is in the store under its id, and the marks of
  connecting are those of attempts under way.
\<close>

theorem application_sound:
  assumes "app_reach A s fs"
  shows "db_inv (app_world s) \<and> handles_ok (ed_buffers (ap_editor s)) \<and>
    (\<forall>i r. established (ap_net s) i = Some r \<longrightarrow>
       r < length (nt_peers (ap_net s)) \<and> pc_node_id (nt_peers (ap_net s) ! r) = i) \<and>
    marked (ap_net s) \<subseteq> node_text (al_net A) ` fst ` set fs"
proof -
  from app_reach_inv [OF assms] obtain D where "app_inv D (node_text (al_net A) ` fst ` set fs) s" by blast
  then show ?thesis
    by (simp add: app_inv_def net_inv_view refs_ok_def about_note_def tasks_inv_def note_inv_handles_ok)
qed

end
