(* ===== verification/App_Properties.thy ===== *)
theory App_Properties
  imports App_Handlers "HOL-Library.Multiset"
begin

text \<open>
  What the application promises its interface: every note is sent, however its tasks are scheduled,
  and what a logout closes and what it leaves open.
\<close>

section \<open>All notes are sent\<close>

text \<open>The task with the notes, run to its end; the list says which of the notes being decrypted is done next.\<close>

fun emission_loop ::
  "('d, 'u, 'v, 'ix) app_lib \<Rightarrow> nat list \<Rightarrow> ident list \<Rightarrow> ident list \<Rightarrow> ident \<Rightarrow> ('d, 'ix, unit) commanding" where
  "emission_loop A [] running waiting user_id = sret ()"
| "emission_loop A (j # js) running waiting user_id =
     sbind (emission_step A j running waiting user_id) (\<lambda>rest. case rest of
       Some (Emit_notes running' waiting' user_id') \<Rightarrow> emission_loop A js running' waiting' user_id'
     | _ \<Rightarrow> sret ())"

definition emission_complete :: "('d, 'ix, unit) commanding" where
  "emission_complete = or_logged (app_emit (Emit_json ''resources-loading-complete'' JNull))"

lemma sbind_assoc: "sbind (sbind m f) g = sbind m (\<lambda>x. sbind (f x) g)"
  by (rule ext) (simp add: sbind_def split: prod.splits sum.splits)

lemma sret_sbind: "sbind (sret x) f = f x"
  by (rule ext) (simp add: sbind_def)

lemma or_logged_sret: "sbind (or_logged m) sret = or_logged m"
  by (rule ext) (simp add: or_logged_def sbind_def scatch_def split: prod.splits sum.splits)

lemma mset_place: "k < length xs \<Longrightarrow> mset (take k xs) + mset (drop (Suc k) xs) + {#xs ! k#} = mset xs"
  by (metis add_mset_add_single id_take_nth_drop mset.simps(2) mset_append union_mset_add_mset_right)

lemma emission_loop_order:
  assumes "running = [] \<longrightarrow> waiting = []" "length running + length waiting < length js"
  shows "\<exists>order. mset order = mset (running @ waiting) \<and>
    emission_loop A js running waiting u = sbind (sfor (emit_note A u) order) (\<lambda>_. emission_complete)"
  using assms
proof (induction js arbitrary: running waiting)
  case (Cons j js)
  show ?case
  proof (cases "running = []")
    case True
    then show ?thesis using Cons.prems
      by (intro exI [of _ "[]"]) (simp add: emission_step_def emission_complete_def sbind_assoc sret_sbind or_logged_sret
          del: sret_apply)
  next
    case False
    define k where "k = j mod length running"
    let ?running = "take k running @ drop (Suc k) running @ take 1 waiting"
    have k: "k < length running" using False by (simp add: k_def)
    have a: "?running = [] \<longrightarrow> drop 1 waiting = []" by (cases waiting) auto
    have b: "length ?running + length (drop 1 waiting) < length js" using Cons.prems(2) k by simp
    obtain order where order: "mset order = mset (?running @ drop 1 waiting)"
      "emission_loop A js ?running (drop 1 waiting) u = sbind (sfor (emit_note A u) order) (\<lambda>_. emission_complete)"
      using Cons.IH [OF a b] by blast
    have "mset (running ! k # order) = mset (running @ waiting)"
      using order(1) mset_place [OF k] by (cases waiting) (simp_all add: ac_simps)
    moreover have "emission_loop A (j # js) running waiting u =
      sbind (sfor (emit_note A u) (running ! k # order)) (\<lambda>_. emission_complete)"
      using False order(2) by (simp add: emission_step_def Let_def k_def [symmetric] sbind_assoc sret_sbind
        del: sret_apply)
    ultimately show ?thesis by blast
  qed
qed simp

text \<open>
  C22. However the tasks that decrypt the notes are scheduled, at most ten at a time, the task behind
  \<open>emit_all_resources\<close> does what sending the notes one after the other does, in some order in which
  each note comes exactly once, and then tells the interface that all are sent.
\<close>

theorem all_notes_sent:
  assumes "length ids < length js"
  shows "\<exists>order. mset order = mset ids \<and>
    emission_loop A js (take MAX_CONCURRENT_TASKS ids) (drop MAX_CONCURRENT_TASKS ids) u =
      sbind (sfor (emit_note A u) order)
        (\<lambda>_. or_logged (app_emit (Emit_json ''resources-loading-complete'' JNull)))"
  using emission_loop_order [of "take MAX_CONCURRENT_TASKS ids" "drop MAX_CONCURRENT_TASKS ids" js A u] assms
  by (auto simp: MAX_CONCURRENT_TASKS_def emission_complete_def)

section \<open>After a logout\<close>

lemma get_resource_needs_certificate:
  assumes "\<not> is_cert_loaded cu"
  shows "\<exists>e. fst (get_resource_by_id_direct L Y cu i u w) = Inl e"
proof -
  have "\<exists>e. fst (decrypt_single_resource L Y cu rk w') = Inl e" for rk w'
    using assms
    by (cases "cu_cert cu")
       (auto simp: decrypt_single_resource_def crypto_call_def decrypt_resource_def decrypt_for_cert_def
          with_cert_def get_cert_def is_cert_loaded_def sbind_def rbind_def smap_err_def)
  then show ?thesis
    by (auto simp: get_resource_by_id_direct_def sbind_def split: prod.splits sum.splits)
qed

lemma in_services_eq:
  "in_services A m s = (case m (ed_crypto (ap_editor s)) (app_world s) of
     (r, w) \<Rightarrow> (rmap_err (el_text (al_edit A)) r, s\<lparr>ap_editor := (ap_editor s)\<lparr>ed_world := w\<rparr>\<rparr>))"
  by (simp add: in_services_def in_editor_def sbind_def sget_def on_data_def split: prod.splits)

lemma get_user_eq:
  "in_editor get_user s = (case ed_user (ap_editor s) of
     Some u \<Rightarrow> (Inr u, s) | None \<Rightarrow> (Inl ''No user found in state. Please log in.'', s))"
  by (simp add: in_editor_def get_user_def sbind_def sget_def split: option.splits)

lemma get_resource_closed:
  assumes "\<not> is_cert_loaded (ed_crypto (ap_editor s))"
  shows "\<exists>e. fst (handle_get_resource A i s) = Inl e"
proof (cases "ed_user (ap_editor s)")
  case (Some u)
  then show ?thesis
    using get_resource_needs_certificate [OF assms, of "al_crypto A" "al_docs A" i "usr_id u" "app_world s"]
    by (auto simp: handle_get_resource_def sbind_def get_user_eq in_services_eq split: prod.splits)
qed (simp add: handle_get_resource_def sbind_def get_user_eq)

lemma search_answer:
  "fst (invoke A (Search_resources q n) s) =
    (case fst (manager_search (al_search A) q (case n of Some m \<Rightarrow> m | None \<Rightarrow> 50)
         ((ap_index s)\<lparr>ix_world := app_world s\<rparr>)) of
       Inl e \<Rightarrow> Inl (al_index_text A e)
     | Inr rs \<Rightarrow> Inr (Some (SearchedResourceIds (map srs_resource_id rs))))"
  by (simp add: invoke_def handle_search_resources_def in_index_def sbind_def split: prod.split sum.split)

lemma user_answer:
  "fst (invoke A Get_user_details s) = (case (ed_user (ap_editor s), ed_device (ap_editor s)) of
       (None, _) \<Rightarrow> Inl ''No user found in state. Please log in.''
     | (Some _, None) \<Rightarrow> Inl ''No device found in state. Please register a device first.''
     | (Some u, Some d) \<Rightarrow> Inr (Some (UserDetails (usr_id u) (dev_id d) (usr_username u) (usr_public_key u)
         (dev_device_key d))))"
  by (simp add: invoke_def get_user_details_def in_editor_def get_user_def get_device_def sbind_def
      split: option.split)

text \<open>
  A logout forgets the certificate and nothing else: afterwards no note can be opened, but the
  application still answers who the user is and still searches the notes, and the open note, the
  connections and the tasks stay as they were.
\<close>

theorem logout_keeps_session:
  "\<exists>t. invoke A Logout s = (Inr (Some Success), t) \<and>
    invoke A Check_private_key_loaded t = (Inr (Some (CheckPvtKeyLoaded False)), t) \<and>
    (\<forall>i. \<exists>e. fst (invoke A (Get_resource i) t) = Inl e) \<and>
    fst (invoke A Get_user_details t) = fst (invoke A Get_user_details s) \<and>
    (\<forall>q n. fst (invoke A (Search_resources q n) t) = fst (invoke A (Search_resources q n) s)) \<and>
    ed_buffers (ap_editor t) = ed_buffers (ap_editor s) \<and> ap_net t = ap_net s \<and> ap_tasks t = ap_tasks s"
proof -
  let ?t = "s\<lparr>ap_editor := (ap_editor s)\<lparr>ed_crypto := clear_cert (ed_crypto (ap_editor s))\<rparr>\<rparr>"
  have closed: "\<not> is_cert_loaded (ed_crypto (ap_editor ?t))" by (simp add: is_cert_loaded_def clear_cert_def)
  have "\<exists>e. fst (invoke A (Get_resource i) ?t) = Inl e" for i
    using get_resource_closed [OF closed, of A i] by (auto simp: invoke_def sbind_def split: prod.splits)
  moreover have "invoke A Logout s = (Inr (Some Success), ?t)"
    by (simp add: invoke_def handle_logout_def in_editor_def sbind_def)
  moreover have "invoke A Check_private_key_loaded ?t = (Inr (Some (CheckPvtKeyLoaded False)), ?t)"
    using closed by (simp add: invoke_def check_private_key_loaded_def sbind_def)
  ultimately show ?thesis
    by (intro exI [of _ ?t]) (simp add: search_answer user_answer)
qed

end
