(* ===== verification/Service_Frame.thy ===== *)
theory Service_Frame
  imports Authority Account_Services
begin

text \<open>
  Which steps of the services leave the database alone: reading a repository, drawing an identifier,
  reading the clock and every operation of the crypto layer. What a service wrote is then what its
  repository writes wrote.
\<close>

definition tables where
  "tables w = (t_users w, t_folders w, t_devices w, t_resources w, t_clocks w, t_keys w, t_shares w,
     t_store w, t_fshares w)"

definition leaves_tables :: "(world, 'e, 'a) sm \<Rightarrow> bool" where
  "leaves_tables m \<longleftrightarrow> (\<forall>w. tables (snd (m w)) = tables w)"

named_theorems leaves \<open>operations that leave the tables alone\<close>

lemma leavesI:
  assumes "\<And>w0 :: world. keeps (\<lambda>w. tables w = tables w0) m"
  shows "leaves_tables m"
  unfolding leaves_tables_def
proof
  fix w
  show "tables (snd (m w)) = tables w" using assms [of w] unfolding keeps_def by blast
qed

lemma leaves_tablesD: "leaves_tables m \<Longrightarrow> m w = (r, w') \<Longrightarrow> tables w' = tables w"
  by (metis leaves_tables_def snd_conv)

lemma leaves_keeps: "leaves_tables m \<Longrightarrow> keeps (\<lambda>w. tables w = T) m"
  by (simp add: leaves_tables_def keeps_def)

lemma env_blind_tables [simp]: "env_blind (\<lambda>w. tables w = T)"
  by (simp add: env_blind_def tables_def)

lemma leaves_monad [leaves]:
  "leaves_tables (sret x)" "leaves_tables (sthrow e)" "leaves_tables (slift r)" "leaves_tables (sget f)"
  "leaves_tables (first_row tbl p)" "leaves_tables (load_rows tbl p)" "leaves_tables get_conn"
  "leaves_tables fresh_uuid" "leaves_tables now_millis" "leaves_tables (crypto_call c)"
  "leaves_tables (parse_call q)"
  by (auto simp: leaves_tables_def first_row_def load_rows_def get_conn_def fresh_uuid_def
      now_millis_def parse_call_def tables_def split: option.splits)

lemma leaves_sbind [leaves]:
  "leaves_tables m \<Longrightarrow> (\<And>x. leaves_tables (f x)) \<Longrightarrow> leaves_tables (sbind m f)"
  by (rule leavesI, rule keeps_sbind; rule leaves_keeps)

lemma leaves_smap_err [leaves]: "leaves_tables m \<Longrightarrow> leaves_tables (smap_err g m)"
  by (rule leavesI, rule keeps_smap_err, rule leaves_keeps)

lemma leaves_scatch [leaves]:
  "leaves_tables m \<Longrightarrow> (\<And>x. leaves_tables (ok x)) \<Longrightarrow> (\<And>e. leaves_tables (err e)) \<Longrightarrow>
     leaves_tables (scatch m ok err)"
  by (rule leavesI, rule keeps_scatch; rule leaves_keeps)

lemma leaves_combine [leaves]:
  "leaves_tables m \<Longrightarrow> leaves_tables (with_conn m)" "leaves_tables m \<Longrightarrow> leaves_tables (repo_call m)"
  "leaves_tables c \<Longrightarrow> leaves_tables (crypto_run c)"
  "leaves_tables m \<Longrightarrow> leaves_tables n \<Longrightarrow> leaves_tables (if b then m else n)"
  unfolding with_conn_def repo_call_def crypto_run_def by (simp_all add: leaves)

lemma leaves_smap [leaves]: "(\<And>x. leaves_tables (f x)) \<Longrightarrow> leaves_tables (smap f xs)"
  by (rule leavesI, rule keeps_smap, rule leaves_keeps)

lemma leaves_case_prod [leaves]: "(\<And>x y. leaves_tables (f x y)) \<Longrightarrow> leaves_tables (case p of (x, y) \<Rightarrow> f x y)"
  by (cases p) simp

lemma leaves_case_option [leaves]:
  "leaves_tables a \<Longrightarrow> (\<And>x. leaves_tables (f x)) \<Longrightarrow> leaves_tables (case q of None \<Rightarrow> a | Some x \<Rightarrow> f x)"
  by (cases q) simp_all

section \<open>Repositories\<close>

lemma leaves_reads [leaves]:
  "leaves_tables (get_user_by_id u)" "leaves_tables (get_users_by_ids us)"
  "leaves_tables get_known_users" "leaves_tables (get_devices_by_user_id u)"
  "leaves_tables (device_find_by_id d)" "leaves_tables (get_certificate k s)"
  "leaves_tables is_signed_up" "leaves_tables get_device_key" "leaves_tables get_ucan_key"
  unfolding get_user_by_id_def get_users_by_ids_def get_known_users_def get_devices_by_user_id_def
    device_find_by_id_def get_certificate_def is_signed_up_def get_device_key_def get_ucan_key_def
    get_item_def
  by (intro leaves)+

lemma leaves_share_reads [leaves]:
  "leaves_tables (key_find_by_resource_and_user r u)" "leaves_tables (key_find_by_resource_id r)"
  "leaves_tables (find_by_resource_and_operation_and_user r op u)"
  "leaves_tables (find_by_resource_and_operation r op)" "leaves_tables (share_find_by_resource r)"
  "leaves_tables (share_get_ucan_by_cid c)" "leaves_tables (fshare_get_ucan_by_cid c)"
  "leaves_tables (get_records_by_folder_id f)" "leaves_tables (get_shared_users f)"
  unfolding key_find_by_resource_and_user_def key_find_by_resource_id_def
    find_by_resource_and_operation_and_user_def find_by_resource_and_operation_def
    share_find_by_resource_def share_get_ucan_by_cid_def fshare_get_ucan_by_cid_def
    get_records_by_folder_id_def get_shared_users_def
  by (intro leaves)+

lemma leaves_resource_reads [leaves]:
  "leaves_tables (resource_find_by_id i u)" "leaves_tables (find_owner_by_resource_id i)"
  "leaves_tables (query_resources_with_keys u fo fav del)"
  "leaves_tables (get_resource_ids_by_folder_id f)" "leaves_tables (get_folder_ids_for_resources is)"
  "leaves_tables (folder_find_by_id f)" "leaves_tables folder_find_all"
  "leaves_tables (get_vector_clocks_for_resource i)"
  unfolding resource_find_by_id_def find_owner_by_resource_id_def query_resources_with_keys_def
    get_resource_ids_by_folder_id_def get_folder_ids_for_resources_def folder_find_by_id_def
    folder_find_all_def get_vector_clocks_for_resource_def
  by (intro leaves)+

lemma leaves_new_values [leaves]:
  "leaves_tables (resource_new t dat f s u)" "leaves_tables (resource_key_new r u k own)"
  "leaves_tables (prepare_share_record r u u' p t c)" "leaves_tables (create_initial_entries r ds d)"
  "leaves_tables (create_entries_for_sharing r ds)" "leaves_tables (folder_new n des df)"
  "leaves_tables (prepare_folder_share_record f u u' p t c)"
  "leaves_tables (user_new un i pk sg ow fs ut uc up)" "leaves_tables (device_new i pk u)"
  unfolding resource_new_def resource_key_new_def prepare_share_record_def
    create_initial_entries_def create_entries_for_sharing_def vc_new_def folder_new_def
    prepare_folder_share_record_def user_new_def device_new_def
  by (intro leaves)+

section \<open>The crypto layer\<close>

lemma leaves_crypto [leaves]:
  "leaves_tables (encrypt_data_for_user L t pk)" "leaves_tables (sign_and_hash_message L cu m)"
  "leaves_tables (cu_sign_message L cu m)" "leaves_tables (cu_update_resource L cu dat k)"
  "leaves_tables (encrypt_key_with_new_pub_key L cu k pk)"
  "leaves_tables (cu_generate_resource_owner_ucan L cu k i d)"
  "leaves_tables (cu_generate_folder_owner_ucan L cu k i d)"
  "leaves_tables (generate_keys L pw un)" "leaves_tables (import_certificate L c pw)"
  "leaves_tables (generate_and_encrypt_ed25519_key L pk)"
  "leaves_tables (generate_and_encrypt_ucan_key L cu)"
  by (rule leavesI; intro crypto_keeps env_blind_tables)+

lemma leaves_proof_resolution [leaves]:
  "leaves_tables (resolve_proof L cid)" "leaves_tables (resolve_folder_proof L cid)"
  unfolding resolve_proof_def resolve_folder_proof_def by (intro leaves)+

lemma leaves_issuing [leaves]:
  "leaves_tables (issue_delegated_resource_ucan L cu k t v i a ps (resolve_proof L))"
  "leaves_tables (issue_delegated_folder_ucan L cu k t v i a ps (resolve_folder_proof L))"
  by (rule leavesI; intro crypto_keeps env_blind_tables; rule leaves_keeps; rule leaves_proof_resolution)+

section \<open>Services that only read\<close>

lemma leaves_reading_services [leaves]:
  "leaves_tables (decrypt_single_resource L Y cu rk)" "leaves_tables (get_resource_by_id_direct L Y cu i u)"
  "leaves_tables (get_resource L Y cu i u)" "leaves_tables (open_certificate L k s pw)"
  "leaves_tables primary_certificate" "leaves_tables (create_certificate L un pw)"
  "leaves_tables (create_device L pk u)" "leaves_tables (generate_ucan_key L cu)"
  "leaves_tables (existing_folder f)" "leaves_tables (find_share p ss)"
  unfolding decrypt_single_resource_def get_resource_by_id_direct_def get_resource_def
    open_certificate_def primary_certificate_def create_certificate_def create_device_def
    generate_ucan_key_def existing_folder_def find_share_def Let_def
  by (intro leaves)+

lemma leaves_prepare_share_resource [leaves]:
  "leaves_tables (prepare_share_resource L cu r i ps u)"
  unfolding prepare_share_resource_def by (intro leaves)

lemma leaves_prepare_all [leaves]: "leaves_tables (prepare_all L cu r is u dn)"
  unfolding prepare_all_def by (intro leaves)

end
