(* ===== verification/Note_Roundtrip.thy ===== *)
theory Note_Roundtrip
  imports Service_Frame Crypto_Properties "HOL-Library.Multiset"
begin

text \<open>
  A note through all the layers: what the user writes is encrypted, stored, read again and decrypted
  to the same data, when the note is created and when it is changed. A change advances the clock of
  the device it was made on and touches nothing else.
\<close>

section \<open>The stored note\<close>

definition stored_note :: "world \<Rightarrow> ident \<Rightarrow> ident \<Rightarrow> (resources_row \<times> keys_row) option" where
  "stored_note w user_id i = List.find (\<lambda>(r, k). rr_id r = i) (joined_resource_keys user_id w)"

definition shown_note :: "('d, 'u, 'v, 'z) yrs_scheme \<Rightarrow> string \<Rightarrow> json" where
  "shown_note Y text_of = (case json_read Y text_of of Inr v \<Rightarrow> v | Inl _ \<Rightarrow> failed_to_parse)"

lemma resource_find_by_id_stored:
  assumes "resource_find_by_id i u w = (Inr rk, w')"
  obtains r k where "stored_note w u i = Some (r, k)" "rk = with_key (r, k)" "rr_id r = i" "tables w' = tables w"
proof -
  have "tables w' = tables w" using leaves_tablesD [OF leaves_resource_reads(1)] assms .
  moreover obtain p where p: "stored_note w u i = Some p" "rk = with_key p"
    using assms
    by (auto simp: resource_find_by_id_def with_conn_def get_conn_def first_row_def sbind_eq_Inr stored_note_def
        joined_resource_keys_def split: option.splits if_splits)
  moreover have "rr_id (fst p) = i"
    using find_SomeD p(1) by (fastforce simp: stored_note_def)
  ultimately show ?thesis using that [of "fst p" "snd p"] by simp
qed

lemma stored_note_tables: "tables w' = tables w \<Longrightarrow> stored_note w' u i = stored_note w u i"
  by (simp add: stored_note_def joined_resource_keys_def tables_def)

lemma joined_map:
  assumes "\<And>r. rr_id (f r) = rr_id r"
  shows "joined_resource_keys u (w\<lparr>t_resources := map f (t_resources w)\<rparr>) =
    map (\<lambda>(r, k). (f r, k)) (joined_resource_keys u w)"
proof -
  have "concat (map (\<lambda>r. concat (map (\<lambda>k. if kr_resource_id k = rr_id r \<and> kr_user_id k = u then [(r, k)] else []) ks))
      (map f rs)) =
    map (\<lambda>(r, k). (f r, k)) (concat (map (\<lambda>r. concat (map (\<lambda>k.
      if kr_resource_id k = rr_id r \<and> kr_user_id k = u then [(r, k)] else []) ks)) rs))" for rs ks
  proof (induction rs)
    case (Cons r rs)
    have "concat (map (\<lambda>k. if kr_resource_id k = rr_id r \<and> kr_user_id k = u then [(f r, k)] else []) ks) =
      map (\<lambda>(r, k). (f r, k)) (concat (map (\<lambda>k. if kr_resource_id k = rr_id r \<and> kr_user_id k = u then [(r, k)] else []) ks))"
      by (induction ks) simp_all
    with Cons show ?case by (simp add: assms)
  qed simp
  then show ?thesis by (simp add: joined_resource_keys_def)
qed

section \<open>Changing a note\<close>

definition with_data :: "string \<Rightarrow> ident \<Rightarrow> millis \<Rightarrow> resources_row \<Rightarrow> resources_row" where
  "with_data e i now r = (if rr_id r = i then r\<lparr>rr_data := e, rr_updated_at := now\<rparr> else r)"

lemma with_data_id [simp]: "rr_id (with_data e i now r) = rr_id r"
  by (simp add: with_data_def)

lemma repo_update_resource_tables:
  assumes "repo_update_resource e i w = (Inr x, w')"
  obtains now where "tables w' = tables (w\<lparr>t_resources := map (with_data e i now) (t_resources w)\<rparr>)"
proof -
  let ?now = "time_src w (time_n w)"
  have "tables w' = tables (w\<lparr>t_resources := map (with_data e i ?now) (t_resources w)\<rparr>)"
    using assms
    by (auto simp: repo_update_resource_def with_conn_def get_conn_def now_millis_def run_stmt_def
        upd_resources_def on_table_def tbl_update_def sbind_eq_Inr put_defs tables_def with_data_def [abs_def]
        smap_err_def split: if_splits)
  then show ?thesis by (rule that)
qed

lemma increment_tables:
  assumes "increment_vector_clock i d w = (Inr c, w')"
  obtains cs where "tables w' = tables (w\<lparr>t_clocks := cs\<rparr>)"
  using assms
  by (auto simp: increment_vector_clock_def now_millis_def fresh_uuid_def with_conn_def get_conn_def
      sbind_eq_Inr transaction_def vc_initialize_def vc_new_def Let_def upd_clocks_def ins_clock_def
      on_table_def put_defs tables_def split: if_splits prod.splits sum.splits option.splits)

lemma decrypt_single_resource_ok:
  assumes "decrypt_single_resource L Y cu rk w = (Inr dr, w')"
    and "decrypt_resource L cu (res_data (rwk_resource rk)) (rwk_encrypted_key rk) = Inr dat"
  shows "dcr_data dr = shown_note Y dat \<and> dcr_id dr = res_id (rwk_resource rk) \<and>
    dcr_resource_type dr = res_resource_type (rwk_resource rk) \<and> dcr_folder_id dr = res_folder_id (rwk_resource rk) \<and>
    w' = w"
  using assms
  by (auto simp: decrypt_single_resource_def crypto_call_def sbind_eq_Inr Let_def shown_note_def smap_err_def)

lemma stored_view_tables: "t_clocks w = t_clocks w' \<Longrightarrow> stored_view w = stored_view w'"
  by (intro ext) (simp add: stored_view_find)

lemma stored_note_with_data:
  assumes "stored_note w u i = Some (r, k)" "tables w' = tables (w\<lparr>t_resources := map (with_data e i now) (t_resources w)\<rparr>)"
  shows "stored_note w' u i = Some (with_data e i now r, k)"
proof -
  have "stored_note w' u i = stored_note (w\<lparr>t_resources := map (with_data e i now) (t_resources w)\<rparr>) u i"
    by (rule stored_note_tables) (rule assms(2))
  also have "\<dots> = map_option (\<lambda>(r, k). (with_data e i now r, k)) (stored_note w u i)"
    unfolding stored_note_def
    by (subst joined_map, simp) (rule find_map_update, auto)
  finally show ?thesis by (simp add: assms(1))
qed

lemma with_data_others:
  "filter (\<lambda>r. rr_id r \<noteq> i) (map (with_data e i now) rs) = filter (\<lambda>r. rr_id r \<noteq> i) rs"
  by (induction rs) (simp_all add: with_data_def)

lemma update_resource_steps:
  assumes run: "update_resource L Y cu i dat u d w = (Inr dr, w')"
  obtains r k w1 w2 w3 w4 e now c new w5 where
    "stored_note w u i = Some (r, k)" "rr_id r = i" "resource_find_by_id i u w = (Inr (with_key (r, k)), w1)"
    "cu_update_resource L cu dat (kr_encrypted_key k) w1 = (Inr e, w2)" "tables w2 = tables w"
    "repo_update_resource e i w2 = (Inr (), w3)"
    "tables w3 = tables (w2\<lparr>t_resources := map (with_data e i now) (t_resources w2)\<rparr>)"
    "increment_vector_clock i d w3 = (Inr c, w4)" "tables w' = tables w4"
    "new = with_key (with_data e i now r, k)" "decrypt_single_resource L Y cu new w5 = (Inr dr, w')"
proof -
  obtain old w1 e w2 w3 c w4 where
    find: "resource_find_by_id i u w = (Inr old, w1)" and
    enc: "cu_update_resource L cu dat (rwk_encrypted_key old) w1 = (Inr e, w2)" and
    upd: "repo_update_resource e i w2 = (Inr (), w3)" and
    inc: "increment_vector_clock i d w3 = (Inr c, w4)" and
    get: "get_resource_by_id_direct L Y cu i u w4 = (Inr dr, w')"
    using run by (auto simp: update_resource_def sbind_eq_Inr)
  obtain r k where rk: "stored_note w u i = Some (r, k)" "old = with_key (r, k)" "rr_id r = i" "tables w1 = tables w"
    using resource_find_by_id_stored [OF find] by metis
  have t2: "tables w2 = tables w" using leaves_tablesD [OF leaves_crypto(4) enc] rk(4) by simp
  obtain now where now: "tables w3 = tables (w2\<lparr>t_resources := map (with_data e i now) (t_resources w2)\<rparr>)"
    using repo_update_resource_tables [OF upd] by metis
  obtain cs where t4: "tables w4 = tables (w3\<lparr>t_clocks := cs\<rparr>)" using increment_tables [OF inc] by metis
  have t': "tables w' = tables w4" using leaves_tablesD [OF leaves_reading_services(2) get] .
  have s3: "stored_note w3 u i = Some (with_data e i now r, k)"
    by (rule stored_note_with_data [OF _ now]) (simp add: stored_note_tables [OF t2] rk(1))
  have s4: "stored_note w4 u i = Some (with_data e i now r, k)"
    using s3 t4 by (simp add: stored_note_def joined_resource_keys_def tables_def)
  obtain new w5 where read: "resource_find_by_id i u w4 = (Inr new, w5)"
    "decrypt_single_resource L Y cu new w5 = (Inr dr, w')"
    using get by (auto simp: get_resource_by_id_direct_def sbind_eq_Inr)
  have new: "new = with_key (with_data e i now r, k)"
    using resource_find_by_id_stored [OF read(1)] s4 by (metis option.inject)
  have key: "rwk_encrypted_key old = kr_encrypted_key k" by (simp add: rk(2) with_key_def)
  show thesis
    using that [OF rk(1,3) find [unfolded rk(2)] enc [unfolded key] t2 upd now inc t' new read(2)] .
qed

lemma update_resource_data:
  assumes laws: "codec_ok L" "aes_ok L" and utf: "is_text dat"
    and run: "update_resource L Y cu i dat u d w = (Inr dr, w')"
  shows "dcr_id dr = i \<and> dcr_data dr = shown_note Y dat"
proof -
  obtain r k e now new w5 and w1 w2 :: world where r: "rr_id r = i" and
    enc: "cu_update_resource L cu dat (kr_encrypted_key k) w1 = (Inr e, w2)" and
    new: "new = with_key (with_data e i now r, k)" and
    read: "decrypt_single_resource L Y cu new w5 = (Inr dr, w')"
    by (rule update_resource_steps [OF run]) (rule that; assumption)
  have "decrypt_resource L cu e (kr_encrypted_key k) = Inr dat"
    using update_resource_decrypts [OF laws utf enc refl] by simp
  then have "decrypt_resource L cu (res_data (rwk_resource new)) (rwk_encrypted_key new) = Inr dat"
    by (simp add: new with_key_def resource_load_def with_data_def r)
  from decrypt_single_resource_ok [OF read this]
  show ?thesis by (simp add: new with_key_def resource_load_def r)
qed

text \<open>
  C9. A change of a note is stored: what the operation answers, read back from the database and
  decrypted, is the new data of this note; the clock of the device advances by one, or starts at
  one; no other note, no other clock and no other table is touched.
\<close>

theorem updated_note_reads_back:
  assumes laws: "codec_ok L" "aes_ok L" and utf: "is_text dat" and inv: "db_inv w"
    and run: "update_resource L Y cu i dat u d w = (Inr dr, w')"
    and fits: "\<forall>v. stored_view w i d = Some v \<longrightarrow> clock_fits (v + 1)"
  shows "dcr_id dr = i \<and> dcr_data dr = shown_note Y dat \<and>
    filter (\<lambda>r. rr_id r \<noteq> i) (t_resources w') = filter (\<lambda>r. rr_id r \<noteq> i) (t_resources w) \<and>
    stored_view w' = (stored_view w)(i := (stored_view w i)(d \<mapsto>
      (case stored_view w i d of None \<Rightarrow> 1 | Some v \<Rightarrow> v + 1))) \<and>
    (t_users w', t_folders w', t_devices w', t_keys w', t_shares w', t_store w', t_fshares w') =
    (t_users w, t_folders w, t_devices w, t_keys w, t_shares w, t_store w, t_fshares w)"
proof -
  obtain r k w1 w2 w3 w4 e now c where
    find: "resource_find_by_id i u w = (Inr (with_key (r, k)), w1)" and
    enc: "cu_update_resource L cu dat (kr_encrypted_key k) w1 = (Inr e, w2)" and t2: "tables w2 = tables w" and
    upd: "repo_update_resource e i w2 = (Inr (), w3)" and
    now: "tables w3 = tables (w2\<lparr>t_resources := map (with_data e i now) (t_resources w2)\<rparr>)" and
    inc: "increment_vector_clock i d w3 = (Inr c, w4)" and t': "tables w' = tables w4"
    by (rule update_resource_steps [OF run]) (rule that; assumption)
  have "db_inv w3"
  proof -
    have steps: "keeps db_inv (resource_find_by_id i u)" "keeps db_inv (repo_update_resource e i)"
      "keeps db_inv (cu_update_resource L cu dat (kr_encrypted_key k))"
      by (intro stmt_keeps crypto_keeps env_blind_db_inv)+
    from keepsD [OF steps(1) inv find] have "db_inv w1" .
    from keepsD [OF steps(3) this enc] have "db_inv w2" .
    from keepsD [OF steps(2) this upd] show ?thesis .
  qed
  moreover have "stored_view w3 = stored_view w" "stored_view w' = stored_view w4"
    using now t2 t' by (auto intro!: stored_view_tables simp: tables_def)
  moreover obtain cs where "tables w4 = tables (w3\<lparr>t_clocks := cs\<rparr>)" using increment_tables [OF inc] by metis
  ultimately show ?thesis
    using update_resource_data [OF laws utf run] increment_vector_clock_view [OF _ inc] fits now t2 t'
    by (auto simp: tables_def with_data_others fun_eq_iff)
qed

section \<open>Creating a note\<close>

lemma ins_row:
  assumes "on_table tbl put (\<lambda>w. tbl_insert clash (refs w) row) w = (Inr x, w')"
  shows "w' = put (tbl w @ [row]) w" "\<not> list_ex (clash row) (tbl w)"
  using assms by (auto simp: on_table_eq_Inr tbl_insert_def split: if_splits)

lemma save_resource_rows:
  assumes "save_resource_with_dependencies res key share clocks w = (Inr x, w')"
  shows "tables w' = tables (w\<lparr>t_resources := t_resources w @ [resource_to_row res],
      t_keys := t_keys w @ [resource_key_to_row key], t_shares := t_shares w @ [share_record_to_row share],
      t_clocks := t_clocks w @ map clock_to_row clocks\<rparr>) \<and>
    \<not> list_ex (resources_clash (resource_to_row res)) (t_resources w) \<and>
    \<not> list_ex (keys_clash (resource_key_to_row key)) (t_keys w)"
proof -
  let ?w0 = "w\<lparr>pool_n := Suc (pool_n w)\<rparr>"
  obtain w1 w2 w3 where
    r: "ins_resource (resource_to_row res) ?w0 = (Inr (), w1)" and
    k: "ins_key (resource_key_to_row key) w1 = (Inr (), w2)" and
    s: "ins_share (share_record_to_row share) w2 = (Inr (), w3)" and
    c: "(if clocks = [] then sret () else ins_all ins_clock (map clock_to_row clocks)) w3 = (Inr (), w')"
    using assms
    by (auto simp: save_resource_with_dependencies_def with_conn_def get_conn_def transaction_def sbind_eq_Inr
        split: prod.splits sum.splits if_splits)
  have "w' = put_clocks (t_clocks w3 @ map clock_to_row clocks) w3"
    using c ins_clocks_rows [of "map clock_to_row clocks" w3 w']
    by (auto simp: ins_all_def put_clocks_def split: if_splits prod.splits sum.splits)
  with ins_row [OF r [unfolded ins_resource_def]] ins_row [OF k [unfolded ins_key_def]]
    ins_row [OF s [unfolded ins_share_def]]
  show ?thesis by (simp add: put_defs tables_def)
qed

lemma joined_fresh:
  assumes "\<not> list_ex (resources_clash row) rs" "\<not> list_ex (keys_clash k) ks"
    and "kr_resource_id k = rr_id row" "kr_user_id k = u"
    and w: "t_resources w = rs @ [row]" "t_keys w = ks @ [k]"
  shows "stored_note w u (rr_id row) = Some (row, k)"
proof -
  have old: "\<forall>r \<in> set rs. rr_id r \<noteq> rr_id row"
    using assms(1) by (auto simp: list_ex_iff resources_clash_def)
  have keys: "\<forall>k' \<in> set ks. \<not> (kr_resource_id k' = rr_id row \<and> kr_user_id k' = u)"
    using assms(2-4) by (auto simp: list_ex_iff keys_clash_def)
  have "List.find (\<lambda>(r, k). rr_id r = rr_id row)
      (concat (map (\<lambda>r. concat (map (\<lambda>k. if kr_resource_id k = rr_id r \<and> kr_user_id k = u then [(r, k)] else [])
        (ks @ [k]))) rs)) = None"
    using old by (auto simp: find_None_iff_ex list_ex_iff)
  moreover have "List.find (\<lambda>(r, k). rr_id r = rr_id row)
      (concat (map (\<lambda>k. if kr_resource_id k = rr_id row \<and> kr_user_id k = u then [(row, k)] else []) ks)) = None"
    using keys by (auto simp: find_None_iff_ex list_ex_iff)
  ultimately show ?thesis
    by (simp add: stored_note_def joined_resource_keys_def w find_append assms(3,4))
qed

lemma vc_new_Inr:
  assumes "vc_new i d v w = (Inr c, w')"
  shows "vc_resource_id c = i \<and> vc_device_id c = d \<and> vc_clock_value c = v"
  using assms by (auto simp: vc_new_def sbind_def now_millis_def fresh_uuid_def)

lemma initial_entries:
  assumes "create_initial_entries i ds d w = (Inr cs :: 'e + resource_vector_clock list, w')"
  shows "map vc_device_id cs = ds \<and>
    (\<forall>c \<in> set cs. vc_resource_id c = i \<and> vc_clock_value c = (if vc_device_id c = d then 1 else 0))"
  using assms unfolding create_initial_entries_def
proof (induction ds arbitrary: cs w)
  case (Cons a ds)
  obtain c w1 cs' where first: "vc_new i a (if a = d then 1 else 0) w = (Inr c :: 'e + resource_vector_clock, w1)"
    and rest: "smap (\<lambda>e. vc_new i e (if e = d then 1 else 0)) ds w1 =
      (Inr cs' :: 'e + resource_vector_clock list, w')" "cs = c # cs'"
    using Cons.prems by (auto simp: sbind_eq_Inr)
  from vc_new_Inr [OF first] Cons.IH [OF rest(1)] rest(2) show ?case by simp
qed simp

text \<open>
  C10. A new note is stored: what the operation answers is the data of the user, read back from the
  database and decrypted; the database got one resource, the key of the user to it, her record as its
  owner, and for each of her devices a clock, at one for the device the note was made on and at zero
  for the others; and nothing else.
\<close>

theorem created_note_reads_back:
  assumes laws: "codec_ok L" "aes_ok L" "key_pair L (usr_public_key user) c" and cert: "cu_cert cu = Some c"
    and utf: "is_text payload"
    and run: "create_resource L Y cu payload rtype folder_id user d domain w = (Inr dr, w')"
  shows "dcr_data dr = shown_note Y payload \<and> dcr_resource_type dr = resource_type_from_str rtype \<and>
    dcr_folder_id dr = folder_id \<and>
    (\<exists>row key share cs devices. tables w' = tables (w\<lparr>t_resources := t_resources w @ [row], t_keys := t_keys w @ [key],
       t_shares := t_shares w @ [share_record_to_row share], t_clocks := t_clocks w @ map clock_to_row cs\<rparr>) \<and>
     rr_id row = dcr_id dr \<and> rr_created_by row = usr_id user \<and> \<not> rr_deleted row \<and>
     kr_resource_id key = dcr_id dr \<and> kr_user_id key = usr_id user \<and>
     shr_resource_id share = dcr_id dr \<and> shr_recipient_user_id share = usr_id user \<and>
     shr_permission_level share = Admin \<and>
     mset devices = mset (filter (\<lambda>r. dr_user_id r = usr_id user) (t_devices w)) \<and>
     map vc_device_id cs = map dr_id devices \<and>
     (\<forall>c \<in> set cs. vc_resource_id c = dcr_id dr \<and> vc_clock_value c = (if vc_device_id c = d then 1 else 0)))"
proof -
  obtain e ek w1 res w2 sg w3 key w4 ucan w5 tok cid w6 share w7 ds w8 cs w9 w10 where
    enc: "encrypt_data_for_user L payload (usr_public_key user) w = (Inr (e, ek), w1)" and
    res: "resource_new rtype e folder_id ''signature'' (usr_id user) w1 = (Inr res :: service_error + resource, w2)" and
    sg: "sign_and_hash_message L cu (res_id res) w2 = (Inr sg, w3)" and
    key: "resource_key_new (res_id res) (usr_id user) ek True w3 = (Inr key :: service_error + resource_key, w4)" and
    ucan: "get_ucan_key w4 = (Inr ucan, w5)" and
    tok: "cu_generate_resource_owner_ucan L cu ucan (res_id res) domain w5 = (Inr (tok, cid), w6)" and
    share: "prepare_share_record (res_id res) (usr_id user) (usr_id user) Admin tok cid w6 =
      (Inr share :: service_error + share_record, w7)" and
    ds: "get_devices_by_user_id (usr_id user) w7 = (Inr ds, w8)" and
    cs: "create_initial_entries (res_id res) (map dev_id ds) d w8 =
      (Inr cs :: service_error + resource_vector_clock list, w9)" and
    save: "save_resource_with_dependencies (res\<lparr>res_signature := sg\<rparr>) key share cs w9 = (Inr (), w10)" and
    get: "get_resource_by_id_direct L Y cu (res_id res) (usr_id user) w10 = (Inr dr, w')"
    using run by (auto simp: create_resource_def sbind_eq_Inr Let_def)
  have t7: "tables w7 = tables w"
    using leaves_tablesD [OF leaves_crypto(1) enc] leaves_tablesD [OF leaves_new_values(1) res]
      leaves_tablesD [OF leaves_crypto(2) sg] leaves_tablesD [OF leaves_new_values(2) key]
      leaves_tablesD [OF leaves_reads(9) ucan] leaves_tablesD [OF leaves_crypto(6) tok]
      leaves_tablesD [OF leaves_new_values(3) share]
    by simp
  have t9: "tables w9 = tables w"
    using leaves_tablesD [OF leaves_reads(4) ds] leaves_tablesD [OF leaves_new_values(4) cs] t7 by simp
  let ?row = "resource_to_row (res\<lparr>res_signature := sg\<rparr>)" and ?key = "resource_key_to_row key"
  note rows = save_resource_rows [OF save]
  have row: "rr_id ?row = res_id res" "rr_created_by ?row = usr_id user" "\<not> rr_deleted ?row"
    "res_data res = e" "res_folder_id res = folder_id" "res_resource_type res = resource_type_from_str rtype"
    using res by (auto simp: resource_new_def resource_to_row_def sbind_def now_millis_def fresh_uuid_def)
  have k: "kr_resource_id ?key = res_id res" "kr_user_id ?key = usr_id user" "kr_encrypted_key ?key = ek"
    using key by (auto simp: resource_key_new_def resource_key_to_row_def sbind_def now_millis_def fresh_uuid_def)
  have sh: "shr_resource_id share = res_id res" "shr_recipient_user_id share = usr_id user"
    "shr_permission_level share = Admin"
    using share by (auto simp: prepare_share_record_def sbind_def now_millis_def fresh_uuid_def)
  have stored: "stored_note w10 (usr_id user) (res_id res) = Some (?row, ?key)"
    using joined_fresh [of ?row "t_resources w9" ?key "t_keys w9" "usr_id user" w10] rows row(1) k(1,2)
    by (simp add: tables_def)
  obtain new w11 where read: "resource_find_by_id (res_id res) (usr_id user) w10 = (Inr new, w11)"
    "decrypt_single_resource L Y cu new w11 = (Inr dr, w')"
    using get by (auto simp: get_resource_by_id_direct_def sbind_eq_Inr)
  have new: "new = with_key (?row, ?key)"
    using resource_find_by_id_stored [OF read(1)] stored by (metis option.inject)
  have fields: "res_data (rwk_resource new) = e" "rwk_encrypted_key new = ek" "res_id (rwk_resource new) = res_id res"
    "res_folder_id (rwk_resource new) = folder_id" "res_resource_type (rwk_resource new) = resource_type_from_str rtype"
    using row(4-6) k(3) by (simp_all add: new with_key_def)
  obtain key0 r seed and t u :: world where key0: "length key0 = 32" "encrypt_with_aes L key0 payload t = (Inr e, u)"
    "pgp_recipient L (usr_public_key user) = Inr r" "pgp_encrypt L r (b64_encode L key0) seed = Inr ek"
    using encrypt_data_for_user_ok [OF enc] by metis
  obtain bs where "decrypt_for_cert L cu ek = Inr bs"
    using read(2) by (auto simp: decrypt_single_resource_def crypto_call_def sbind_eq_Inr decrypt_resource_def
        rbind_eq_Inr fields smap_err_def split: sum.splits)
  then obtain dk where "pgp_decryption_key L c = Inr dk" using loaded_decryption_key cert by blast
  then have "decrypt_for_cert L cu ek = Inr key0"
    using decrypt_for_cert_encrypted [OF laws(1,3) cert _ key0(3,4)] by blast
  then have "decrypt_resource L cu (res_data (rwk_resource new)) (rwk_encrypted_key new) = Inr payload"
    using encrypt_with_aes_decrypts [OF laws(1,2) key0(1) utf key0(2)] by (simp add: decrypt_resource_def fields)
  note shown = decrypt_single_resource_ok [OF read(2) this]
  have t': "tables w' = tables w10" using leaves_tablesD [OF leaves_reading_services(2) get] .
  let ?devices = "sort_key (\<lambda>r. - dr_created_at r) (filter (\<lambda>r. dr_user_id r = usr_id user) (t_devices w))"
  have devices: "map dev_id ds = map dr_id ?devices"
    using ds t7 by (auto simp: get_devices_by_user_id_def with_conn_def get_conn_def load_rows_def sbind_eq_Inr
        device_load_def devices_columns_def tables_def split: if_splits)
  have "tables w' = tables (w\<lparr>t_resources := t_resources w @ [?row], t_keys := t_keys w @ [?key],
      t_shares := t_shares w @ [share_record_to_row share], t_clocks := t_clocks w @ map clock_to_row cs\<rparr>)"
    using rows t9 t' by (simp add: tables_def)
  then show ?thesis
    using shown row k sh initial_entries [OF cs] devices fields
    by (intro conjI exI [of _ ?row] exI [of _ ?key] exI [of _ share] exI [of _ cs] exI [of _ ?devices]) simp_all
qed

end
