(* ===== verification/Sample_App.thy ===== *)
theory Sample_App
  imports Sample_Editor Sample_Search Sample_Net App_Safety App_Properties Note_Roundtrip
begin

text \<open>
  The application put together from the samples of its parts, and the theorems about it and about the
  way of a note through all layers applied to it.
\<close>

section \<open>A note of Ann\<close>

text \<open>The database of Ann's laptop, with the key to her note and her key for tokens readable.\<close>

definition diary :: world where
  "diary = laptop\<lparr>t_keys := [(key_sample ''k1'' ''ann'')\<lparr>kr_encrypted_key := nibbles (replicate 32 7)\<rparr>],
     t_store := [\<lparr>st_key = ''ucan_key'', st_value = nibbles (replicate 32 9), st_updated_at = 0\<rparr>]\<rparr>"

lemma diary_inv: "db_inv diary"
  by (simp add: diary_def samples db_inv_defs clash_free_def clash_defs refs_defs has_defs)

lemma key_readable: "decrypt_for_cert (sample_lib []) (loaded n) (nibbles bs) = Inr bs"
  by (simp add: crypto_simps loaded_def rbind_def)

lemma news_text: "is_text ''news''"
  by (simp add: is_text_def)

lemma diary_updates:
  assumes "is_text dat"
  obtains dr w' where "update_resource (sample_lib []) sample_yrs (loaded ''ann'') ''note'' dat ''ann'' ''lap'' diary =
    (Inr dr, w')"
  using assms
  by (simp add: update_resource_def resource_find_by_id_def cu_update_resource_def repo_update_resource_def
      increment_vector_clock_def get_resource_by_id_direct_def joined_resource_keys_def decrypt_aes_key_def
      key_readable encrypt_with_aes_def lib_call_def fill_bytes_def upd_resources_def upd_clocks_def crypto_run_def
      decrypt_single_resource_def crypto_call_def decrypt_resource_def decrypt_with_aes_def with_key_def
      resource_load_def news_text parse_call_def sample_yrs_def
      run_simps diary_def samples del: upt.simps)

lemma updated_note_reads_back_witness:
  "\<exists>dr w'. update_resource (sample_lib []) sample_yrs (loaded ''ann'') ''note'' ''news'' ''ann'' ''lap'' diary = (Inr dr, w') \<and>
     dcr_data dr = shown_note sample_yrs ''news'' \<and> stored_view w' ''note'' ''lap'' = Some 3"
proof -
  obtain dr w' where run: "update_resource (sample_lib []) sample_yrs (loaded ''ann'') ''note'' ''news'' ''ann'' ''lap'' diary =
    (Inr dr, w')" by (rule diary_updates [OF news_text])
  have view: "stored_view diary ''note'' ''lap'' = Some 2"
    by (simp add: stored_view_find diary_def samples)
  have "dcr_data dr = shown_note sample_yrs ''news'' \<and>
    stored_view w' = (stored_view diary)(''note'' := (stored_view diary ''note'')(''lap'' \<mapsto> 3))"
    using updated_note_reads_back [OF sample_laws(1,2) news_text diary_inv run] by (simp add: view clock_fits_def)
  then show ?thesis using run by simp
qed

definition ann :: user where
  "ann = user_load (user_sample ''ann'' True)"

lemma ann_fields: "usr_id ann = ''ann''" "usr_public_key ann = ''pk''"
  by (simp_all add: ann_def user_load_def user_queryable.simps users_columns_def user_sample_def)

lemma sample_hash_and_build:
  "pgp_hash (sample_lib ts) m = Inr (as_bytes m)"
  "ucan_build (sample_lib ts) uc now = Inr \<lparr>u_issuer = ''did:key:z'' @ nibbles ([0xed, 1] @ uc_issued_by uc),
     u_audience = uc_for_audience uc, u_capabilities = uc_claims uc,
     u_proofs = (if uc_witnessed_by uc = [] then None else Some (map u_audience (uc_witnessed_by uc))),
     u_facts = Some (uc_facts uc)\<rparr>"
  by (simp_all add: sample_lib_def)

lemma loaded_cert: "with_cert (loaded n) f = f (as_bytes n)"
  by (simp add: with_cert_def get_cert_def loaded_def)

definition new_diary :: world where
  "new_diary = blank\<lparr>t_users := [user_sample ''ann'' True], t_folders := [folder_sample ''inbox'' True],
     t_devices := [device_sample ''lap'' ''ann''],
     t_store := [\<lparr>st_key = ''ucan_key'', st_value = nibbles (replicate 32 9), st_updated_at = 0\<rparr>]\<rparr>"

lemma diary_grows:
  obtains dr w' where "create_resource (sample_lib []) sample_yrs (loaded ''ann'') ''news'' ''notes'' ''inbox'' ann ''lap'' ''osv''
    new_diary = (Inr dr, w')"
  by (simp add: create_resource_def resource_find_by_id_def get_resource_by_id_direct_def joined_resource_keys_def
      encrypt_data_for_user_def generate_aes_key_def draw_seed_def ann_fields resource_new_def sign_and_hash_message_def
      cu_sign_message_def resource_key_new_def get_ucan_key_def get_item_def cu_generate_resource_owner_ucan_def
      decrypt_ucan_key_def generate_resource_owner_ucan_def build_and_sign_def cid_then_encode_def now_secs_def
      prepare_share_record_def get_devices_by_user_id_def create_initial_entries_def vc_new_def
      save_resource_with_dependencies_def ins_resource_def ins_key_def ins_share_def ins_clock_def
      resource_to_row_def resource_key_to_row_def share_record_to_row_def clock_to_row_def
      sample_hash_and_build key_readable encrypt_with_aes_def lib_call_def fill_bytes_def crypto_run_def
      decrypt_single_resource_def crypto_call_def decrypt_resource_def decrypt_with_aes_def with_key_def
      resource_load_def news_text parse_call_def sample_yrs_def loaded_cert device_load_def device_queryable.simps devices_columns_def
      run_simps new_diary_def sample_rows blank_def del: upt.simps)

lemma created_note_reads_back_witness:
  "\<exists>dr w'. create_resource (sample_lib []) sample_yrs (loaded ''ann'') ''news'' ''notes'' ''inbox'' ann ''lap'' ''osv'' new_diary =
       (Inr dr, w') \<and>
     dcr_data dr = shown_note sample_yrs ''news'' \<and> map rr_id (t_resources w') = [dcr_id dr] \<and>
     map kr_resource_id (t_keys w') = [dcr_id dr] \<and>
     map (\<lambda>r. (cr_device_id r, cr_clock_value r)) (t_clocks w') = [(''lap'', 1)]"
proof -
  obtain dr w' where run: "create_resource (sample_lib []) sample_yrs (loaded ''ann'') ''news'' ''notes'' ''inbox'' ann ''lap''
    ''osv'' new_diary = (Inr dr, w')" by (rule diary_grows)
  have cert: "cu_cert (loaded ''ann'') = Some (as_bytes ''ann'')" by (simp add: loaded_def)
  obtain row key share cs devices where dr: "dcr_data dr = shown_note sample_yrs ''news''"
    and w': "tables w' = tables (new_diary\<lparr>t_resources := t_resources new_diary @ [row], t_keys := t_keys new_diary @ [key],
       t_shares := t_shares new_diary @ [share_record_to_row share], t_clocks := t_clocks new_diary @ map clock_to_row cs\<rparr>)"
    and rows: "rr_id row = dcr_id dr" "kr_resource_id key = dcr_id dr"
    and ds: "mset devices = mset (filter (\<lambda>r. dr_user_id r = usr_id ann) (t_devices new_diary))"
    and cs: "map vc_device_id cs = map dr_id devices"
      "\<forall>c \<in> set cs. vc_resource_id c = dcr_id dr \<and> vc_clock_value c = (if vc_device_id c = ''lap'' then 1 else 0)"
    using created_note_reads_back [OF sample_laws(1,2,3) cert news_text run] by blast
  have "devices = [device_sample ''lap'' ''ann'']"
    using ds by (simp add: ann_fields new_diary_def device_sample_def)
  then obtain c where "cs = [c]" "vc_device_id c = ''lap''" using cs(1) by (auto simp: device_sample_def)
  then show ?thesis
    using run dr w' rows cs(2) by (simp add: tables_def new_diary_def blank_def clock_to_row_def)
qed

section \<open>The application\<close>

definition sample_app :: "(bytes, bytes, bytes, sample_ix) app_lib" where
  "sample_app = \<lparr>al_edit = sample_edit, al_net = sample_net_lib, al_search = sample_search, al_p2p_text = (\<lambda>_. ''p2p''),
     al_index_text = (\<lambda>_. ''index''), al_user_details = (\<lambda>_. Inl ''no details'')\<rparr>"

definition started_app :: "(bytes, sample_ix) app" where
  "started_app = app_new sample_app paired (node None) None (\<lambda>_. None) (\<lambda>_. None)"

lemma application_sound_witness:
  "db_inv (app_world (snd (invoke sample_app (Sign_up ''ann'' ''secret'') started_app)))"
proof -
  have "app_reach sample_app started_app []"
    unfolding started_app_def by (rule app_start) (simp_all add: db_inv_samples honest_def transport_sample_def)
  from application_sound [OF app_command [OF this]] show ?thesis by blast
qed

lemma all_notes_sent_witness:
  "\<exists>order. mset order = {#''a'', ''b'', ''c''#} \<and>
    emission_loop sample_app [2, 1, 0, 0] [''a'', ''b'', ''c''] [] ''ann'' =
      sbind (sfor (emit_note sample_app ''ann'') order)
        (\<lambda>_. or_logged (app_emit (Emit_json ''resources-loading-complete'' JNull)))"
proof -
  have "length [''a'', ''b'', ''c''] < length [2, 1, 0, 0 :: nat]" by simp
  from all_notes_sent [OF this, of sample_app "''ann''"] show ?thesis by (simp add: MAX_CONCURRENT_TASKS_def)
qed

end
