(* ===== verification/Chat_State.thy ===== *)
theory Chat_State
  imports Note_State Account_Services
begin

text \<open>
  \<open>libremot/src-tauri/src/chat_state.rs\<close>: the live copies of the chats of the messenger, several at a
  time, and the devices each of them is shared with. As in \<open>Note_State\<close> a \<open>yrs::Doc\<close> is a handle into a
  store of documents: the buffers of a chat are two handles, a clone is the same handle, and what is
  applied through one is seen through all.
\<close>

record resource_buffers =
  rb_main_doc :: nat
  rb_image_doc :: nat

record subscription_cache =
  sc_device_ids :: "ident list"
  sc_last_updated :: millis

record 'd chats =
  ch_docs :: "'d list"
  ch_buffers :: "ident \<rightharpoonup> resource_buffers"
  ch_cache :: "ident \<rightharpoonup> subscription_cache"
  ch_current_chat :: "ident option"
  ch_user_id :: "ident option"
  ch_device_id :: "ident option"

type_synonym ('d, 'a) chatting = "('d chats, string, 'a) sm"

definition chats_new :: "'d chats" where
  "chats_new = \<lparr>ch_docs = [], ch_buffers = Map.empty, ch_cache = Map.empty, ch_current_chat = None,
     ch_user_id = None, ch_device_id = None\<rparr>"

definition chat_doc :: "nat \<Rightarrow> 'd chats \<Rightarrow> 'd" where
  "chat_doc r s = ch_docs s ! r"

definition set_chat_user :: "ident \<Rightarrow> ident \<Rightarrow> 'd chats \<Rightarrow> 'd chats" where
  "set_chat_user user_id device_id s = s\<lparr>ch_user_id := Some user_id, ch_device_id := Some device_id\<rparr>"

definition set_current_chat :: "ident option \<Rightarrow> 'd chats \<Rightarrow> 'd chats" where
  "set_current_chat chat_id s = s\<lparr>ch_current_chat := chat_id\<rparr>"

section \<open>Buffers\<close>

text \<open>Two new documents at the end of the store.\<close>

definition insert_buffers :: "ident \<Rightarrow> 'd \<Rightarrow> 'd \<Rightarrow> 'd chats \<Rightarrow> 'd chats" where
  "insert_buffers resource_id main pictures s = (let n = length (ch_docs s) in
     s\<lparr>ch_docs := ch_docs s @ [main, pictures],
       ch_buffers := (ch_buffers s)(resource_id \<mapsto> \<lparr>rb_main_doc = n, rb_image_doc = Suc n\<rparr>)\<rparr>)"

definition load_chat_resource ::
  "('d, 'u, 'v) yrs \<Rightarrow> ident \<Rightarrow> bytes option \<Rightarrow> bytes option \<Rightarrow> 'd chats \<Rightarrow> 'd chats" where
  "load_chat_resource Y resource_id main_doc_state image_state s =
     insert_buffers resource_id (doc_of_state Y main_doc_state) (doc_of_state Y image_state) s"

definition is_image_doc :: "string \<Rightarrow> bool" where
  "is_image_doc doc_type \<longleftrightarrow> doc_type = ''images'' \<or> doc_type = ''image_state''"

definition chosen_doc :: "bool \<Rightarrow> resource_buffers \<Rightarrow> nat" where
  "chosen_doc is_image rb = (if is_image then rb_image_doc rb else rb_main_doc rb)"

definition choose_doc :: "bool \<Rightarrow> nat \<Rightarrow> resource_buffers \<Rightarrow> resource_buffers" where
  "choose_doc is_image r rb = (if is_image then rb\<lparr>rb_image_doc := r\<rparr> else rb\<lparr>rb_main_doc := r\<rparr>)"

definition chat_apply_at :: "('d, 'u, 'v) yrs \<Rightarrow> nat \<Rightarrow> bytes \<Rightarrow> ('d, unit) chatting" where
  "chat_apply_at Y r update = sbind (sget (chat_doc r)) (\<lambda>d.
     sbind (slift (apply_update_v2 Y d update)) (\<lambda>d'. smodify (\<lambda>s. s\<lparr>ch_docs := (ch_docs s)[r := d']\<rparr>)))"

text \<open>
  \<open>apply_update\<close> in its three phases: the handle, of new buffers where the chat has none yet; the
  update; the handle put back.
\<close>

definition chat_update_fetch :: "('d, 'u, 'v) yrs \<Rightarrow> ident \<Rightarrow> string \<Rightarrow> ('d, nat) chatting" where
  "chat_update_fetch Y resource_id doc_type =
     sbind (smodify (\<lambda>s. if ch_buffers s resource_id = None
              then insert_buffers resource_id (y_new Y) (y_new Y) s else s)) (\<lambda>_.
     sget (\<lambda>s. chosen_doc (is_image_doc doc_type) (the (ch_buffers s resource_id))))"

definition chat_update_swap :: "ident \<Rightarrow> string \<Rightarrow> nat \<Rightarrow> 'd chats \<Rightarrow> 'd chats" where
  "chat_update_swap resource_id doc_type r s = (case ch_buffers s resource_id of
     Some rb \<Rightarrow> s\<lparr>ch_buffers := (ch_buffers s)(resource_id \<mapsto> choose_doc (is_image_doc doc_type) r rb)\<rparr>
   | None \<Rightarrow> s)"

definition chat_apply_update :: "('d, 'u, 'v) yrs \<Rightarrow> ident \<Rightarrow> bytes \<Rightarrow> string \<Rightarrow> ('d, unit) chatting" where
  "chat_apply_update Y resource_id new_updates doc_type =
     (if new_updates = [] then sret ()
      else sbind (chat_update_fetch Y resource_id doc_type) (\<lambda>temp_doc.
        scatch (chat_apply_at Y temp_doc new_updates)
          (\<lambda>_. smodify (chat_update_swap resource_id doc_type temp_doc)) (\<lambda>_. sret ())))"

definition chat_buffers :: "ident \<Rightarrow> ('d, resource_buffers) chatting" where
  "chat_buffers resource_id = sbind (sget (\<lambda>s. ch_buffers s resource_id)) (\<lambda>rb. case rb of
     Some rb \<Rightarrow> sret rb | None \<Rightarrow> sthrow (''No buffers found for resource: '' @ resource_id))"

definition chat_state_vectors :: "('d, 'u, 'v) yrs \<Rightarrow> ident \<Rightarrow> ('d, string) chatting" where
  "chat_state_vectors Y resource_id =
     sbind (chat_buffers resource_id) (\<lambda>resource_buffers.
     sbind (sget (\<lambda>s. (y_state_vector Y (chat_doc (rb_main_doc resource_buffers) s),
                       y_state_vector Y (chat_doc (rb_image_doc resource_buffers) s)))) (\<lambda>(main_sv, image_sv).
       (let result = (if main_sv \<noteq> [] then obj_insert ''chat'' (JObject (create_doc_result [] main_sv)) []
                      else []);
            result = (if image_sv \<noteq> []
                      then obj_insert ''image_state'' (JObject (create_doc_result [] image_sv)) result
                      else result)
        in sret (json_print Y (JObject result)))))"

definition export_document_state :: "('d, 'u, 'v) yrs \<Rightarrow> ident \<Rightarrow> ('d, bytes) chatting" where
  "export_document_state Y resource_id =
     sbind (chat_buffers resource_id) (\<lambda>resource_buffers.
     sget (\<lambda>s. y_encode_state Y (chat_doc (rb_main_doc resource_buffers) s)))"

section \<open>The exchange with a peer\<close>

definition chat_answer ::
  "('d, 'u, 'v) yrs \<Rightarrow> 'd \<Rightarrow> bytes \<Rightarrow> string \<Rightarrow> json_map \<Rightarrow> string + json_map" where
  "chat_answer Y d peer_state_vector doc_name result =
     rbind (rmap_err (\<lambda>e. ''Failed to generate '' @ doc_name @ '' diff: '' @ e)
              (get_diff_update_v2 Y d peer_state_vector)) (\<lambda>updates_for_peer.
     Inr (obj_insert doc_name (JObject (create_doc_result updates_for_peer (y_state_vector Y d))) result))"

definition chat_process_state_vectors ::
  "('d, 'u, 'v) yrs \<Rightarrow> 'd \<Rightarrow> json option \<Rightarrow> string \<Rightarrow> json_map \<Rightarrow> string + json_map" where
  "chat_process_state_vectors Y d doc_data doc_name result = (case doc_data of
     None \<Rightarrow> Inr result
   | Some data \<Rightarrow>
       (let peer_state_vector = parse_byte_array (json_get ''state_vector'' data) in
        if peer_state_vector \<noteq> [] then chat_answer Y d peer_state_vector doc_name result else Inr result))"

definition chat_generate_updates :: "('d, 'u, 'v) yrs \<Rightarrow> ident \<Rightarrow> string \<Rightarrow> ('d, string) chatting" where
  "chat_generate_updates Y resource_id peer_state_vectors_json =
     sbind (slift (rmap_err (\<lambda>e. ''Failed to parse peer state vectors: '' @ e)
              (json_read_map Y peer_state_vectors_json))) (\<lambda>peer_data.
     sbind (chat_buffers resource_id) (\<lambda>resource_buffers.
     sbind (sget (\<lambda>s. (chat_doc (rb_main_doc resource_buffers) s, chat_doc (rb_image_doc resource_buffers) s)))
       (\<lambda>(main_doc, image_doc).
     sbind (slift (chat_process_state_vectors Y main_doc (map_of peer_data ''chat'') ''chat'' [])) (\<lambda>result.
     sbind (slift (chat_process_state_vectors Y image_doc (map_of peer_data ''image_state'') ''image_state'' result))
       (\<lambda>result. sret (json_print Y (JObject result)))))))"

definition chat_process_updates_and_diff ::
  "('d, 'u, 'v) yrs \<Rightarrow> nat \<Rightarrow> json option \<Rightarrow> string \<Rightarrow> json_map \<Rightarrow> ('d, nat option \<times> json_map) chatting" where
  "chat_process_updates_and_diff Y doc doc_data doc_name result = (case doc_data of
     None \<Rightarrow> sret (None, result)
   | Some data \<Rightarrow>
       (let peer_updates = parse_byte_array (json_get ''updates'' data);
            peer_state_vector = parse_byte_array (json_get ''state_vector'' data) in
        sbind (if peer_updates \<noteq> []
               then smap_err (\<lambda>e. ''Failed to apply '' @ doc_name @ '' updates: '' @ e)
                      (chat_apply_at Y doc peer_updates)
               else sret ()) (\<lambda>_.
        if peer_state_vector \<noteq> []
        then sbind (sget (chat_doc doc)) (\<lambda>d.
             sbind (slift (chat_answer Y d peer_state_vector doc_name result)) (\<lambda>result.
             sret (Some doc, result)))
        else sret (None, result))))"

text \<open>One document of \<open>apply_updates_and_generate_diff\<close>: its handle, the work, the handle put back.\<close>

definition chat_doc_diff ::
  "('d, 'u, 'v) yrs \<Rightarrow> ident \<Rightarrow> bool \<Rightarrow> string \<Rightarrow> json_map \<Rightarrow> json_map \<Rightarrow> ('d, json_map) chatting" where
  "chat_doc_diff Y resource_id is_image doc_name peer_data result =
     sbind (chat_buffers resource_id) (\<lambda>rb.
     sbind (chat_process_updates_and_diff Y (chosen_doc is_image rb) (map_of peer_data doc_name) doc_name result)
       (\<lambda>(updated_doc, result).
     sbind (case updated_doc of
              Some d \<Rightarrow> smodify (\<lambda>s. case ch_buffers s resource_id of
                  Some rb \<Rightarrow> s\<lparr>ch_buffers := (ch_buffers s)(resource_id \<mapsto> choose_doc is_image d rb)\<rparr>
                | None \<Rightarrow> s)
            | None \<Rightarrow> sret ()) (\<lambda>_.
     sret result)))"

definition chat_apply_and_diff :: "('d, 'u, 'v) yrs \<Rightarrow> ident \<Rightarrow> string \<Rightarrow> ('d, string) chatting" where
  "chat_apply_and_diff Y resource_id peer_updates_json =
     sbind (slift (rmap_err (\<lambda>e. ''Failed to parse peer updates: '' @ e)
              (json_read_map Y peer_updates_json))) (\<lambda>peer_data.
     sbind (chat_doc_diff Y resource_id False ''chat'' peer_data []) (\<lambda>result.
     sbind (chat_doc_diff Y resource_id True ''image_state'' peer_data result) (\<lambda>result.
     sret (json_print Y (JObject result)))))"

text \<open>A failed update is logged by \<open>apply_update\<close>, so only the reading can fail.\<close>

definition chat_peer_doc ::
  "('d, 'u, 'v) yrs \<Rightarrow> ident \<Rightarrow> string \<Rightarrow> json_map \<Rightarrow> ('d, unit) chatting" where
  "chat_peer_doc Y resource_id doc_name peer_data = (case map_of peer_data doc_name of
     None \<Rightarrow> sret ()
   | Some data \<Rightarrow>
       (let peer_updates = parse_byte_array (json_get ''updates'' data) in
        if peer_updates \<noteq> [] then chat_apply_update Y resource_id peer_updates doc_name else sret ()))"

definition chat_apply_peer_updates :: "('d, 'u, 'v) yrs \<Rightarrow> ident \<Rightarrow> string \<Rightarrow> ('d, unit) chatting" where
  "chat_apply_peer_updates Y resource_id peer_updates_json =
     sbind (slift (rmap_err (\<lambda>e. ''Failed to parse peer updates: '' @ e)
              (json_read_map Y peer_updates_json))) (\<lambda>peer_data.
     sbind (chat_peer_doc Y resource_id ''chat'' peer_data) (\<lambda>_.
     chat_peer_doc Y resource_id ''image_state'' peer_data))"

section \<open>Subscribers\<close>

text \<open>
  The devices a chat is shared with, from the database or from the answer of the last five minutes.
  \<open>Instant\<close> reads the same clock as the database, and the time that has passed is never negative.
\<close>

definition cache_seconds :: int where
  "cache_seconds = 300"

definition elapsed_secs :: "millis \<Rightarrow> millis \<Rightarrow> int" where
  "elapsed_secs since now = max 0 (now - since) div 1000"

definition cached_subscribers :: "ident \<Rightarrow> ('d chats \<times> world, string, ident list option) sm" where
  "cached_subscribers resource_id = (\<lambda>(s, w). case ch_cache s resource_id of
     None \<Rightarrow> (Inr None, (s, w))
   | Some cached \<Rightarrow> (case now_millis w of
       (Inl e, w') \<Rightarrow> (Inl e, (s, w'))
     | (Inr now, w') \<Rightarrow> (Inr (if elapsed_secs (sc_last_updated cached) now < cache_seconds
         then Some (sc_device_ids cached) else None), (s, w'))))"

definition fetch_subscribers ::
  "(service_error \<Rightarrow> string) \<Rightarrow> ident \<Rightarrow> ('d chats \<times> world, string, ident list) sm" where
  "fetch_subscribers V resource_id = (\<lambda>(s, w). case (ch_user_id s, ch_device_id s) of
     (None, _) \<Rightarrow> (Inl ''Current user ID not set'', (s, w))
   | (Some _, None) \<Rightarrow> (Inl ''Current device ID not set'', (s, w))
   | (Some user_id, Some device_id) \<Rightarrow>
       (case get_shared_user_devices_for_note resource_id user_id device_id True w of
          (Inl e, w') \<Rightarrow> (Inl (''Failed to get shared devices: '' @ V e), (s, w'))
        | (Inr (device_ids, _), w') \<Rightarrow> (case now_millis w' of
            (Inl e, w'') \<Rightarrow> (Inl e, (s, w''))
          | (Inr now, w'') \<Rightarrow> (Inr device_ids,
              (s\<lparr>ch_cache := (ch_cache s)(resource_id \<mapsto>
                   \<lparr>sc_device_ids = device_ids, sc_last_updated = now\<rparr>)\<rparr>, w'')))))"

definition get_subscribers ::
  "(service_error \<Rightarrow> string) \<Rightarrow> ident \<Rightarrow> ('d chats \<times> world, string, ident list) sm" where
  "get_subscribers V resource_id =
     sbind (cached_subscribers resource_id) (\<lambda>cached. case cached of
       Some device_ids \<Rightarrow> sret device_ids
     | None \<Rightarrow> fetch_subscribers V resource_id)"

text \<open>Nothing in the repository calls these two.\<close>

definition invalidate_subscription_cache :: "ident \<Rightarrow> 'd chats \<Rightarrow> 'd chats" where
  "invalidate_subscription_cache resource_id s = s\<lparr>ch_cache := (ch_cache s)(resource_id := None)\<rparr>"

definition clear_subscription_cache :: "'d chats \<Rightarrow> 'd chats" where
  "clear_subscription_cache s = s\<lparr>ch_cache := Map.empty\<rparr>"

section \<open>Handles\<close>

text \<open>The handles of all buffers are in the store, and no document is behind two of them.\<close>

definition chats_ok :: "'d chats \<Rightarrow> bool" where
  "chats_ok s \<longleftrightarrow> (\<forall>i rb. ch_buffers s i = Some rb \<longrightarrow> (\<forall>b. chosen_doc b rb < length (ch_docs s))) \<and>
     (\<forall>i j rb rb' b b'. ch_buffers s i = Some rb \<longrightarrow> ch_buffers s j = Some rb' \<longrightarrow>
        chosen_doc b rb = chosen_doc b' rb' \<longrightarrow> i = j \<and> b = b')"

text \<open>The document of a chat, if it has buffers.\<close>

definition live_doc :: "ident \<Rightarrow> bool \<Rightarrow> 'd chats \<Rightarrow> 'd option" where
  "live_doc i b s = map_option (\<lambda>rb. chat_doc (chosen_doc b rb) s) (ch_buffers s i)"

lemma chosen_choose [simp]: "chosen_doc b (choose_doc b' r rb) = (if b = b' then r else chosen_doc b rb)"
  by (simp add: chosen_doc_def choose_doc_def)

lemma choose_same [simp]: "choose_doc b (chosen_doc b rb) rb = rb"
  by (simp add: chosen_doc_def choose_doc_def)

lemma chosen_new [simp]: "chosen_doc b \<lparr>rb_main_doc = n, rb_image_doc = Suc n\<rparr> = (if b then Suc n else n)"
  by (simp add: chosen_doc_def)

lemma chats_ok_new [simp]: "chats_ok chats_new"
  by (simp add: chats_ok_def chats_new_def)

lemma chats_okI:
  assumes "\<And>i rb b. ch_buffers s i = Some rb \<Longrightarrow> chosen_doc b rb < length (ch_docs s)"
    and "\<And>i j rb rb' b b'. ch_buffers s i = Some rb \<Longrightarrow> ch_buffers s j = Some rb' \<Longrightarrow>
      chosen_doc b rb = chosen_doc b' rb' \<Longrightarrow> i = j \<and> b = b'"
  shows "chats_ok s"
  using assms unfolding chats_ok_def by blast

lemma chats_ok_bound:
  "chats_ok s \<Longrightarrow> ch_buffers s i = Some rb \<Longrightarrow> chosen_doc b rb < length (ch_docs s)"
  by (simp add: chats_ok_def)

lemma chats_ok_inj:
  assumes "chats_ok s" "ch_buffers s i = Some rb" "ch_buffers s j = Some rb'"
  shows "chosen_doc b rb = chosen_doc b' rb' \<longleftrightarrow> i = j \<and> b = b'"
proof
  show "chosen_doc b rb = chosen_doc b' rb' \<Longrightarrow> i = j \<and> b = b'"
    using assms unfolding chats_ok_def by blast
  show "i = j \<and> b = b' \<Longrightarrow> chosen_doc b rb = chosen_doc b' rb'" using assms(2,3) by auto
qed

lemma chats_ok_insert [simp]:
  assumes ok: "chats_ok s"
  shows "chats_ok (insert_buffers i m im s)"
proof (rule chats_okI)
  let ?n = "length (ch_docs s)" and ?s = "insert_buffers i m im s"
  have buf: "ch_buffers ?s j = (if j = i then Some \<lparr>rb_main_doc = ?n, rb_image_doc = Suc ?n\<rparr> else ch_buffers s j)" for j
    by (simp add: insert_buffers_def Let_def)
  show "chosen_doc b rb < length (ch_docs ?s)" if "ch_buffers ?s j = Some rb" for j rb b
    using that chats_ok_bound [OF ok, of j rb b] by (auto simp: buf split: if_splits) (auto simp: insert_buffers_def Let_def)
  show "j = k \<and> b = b'" if "ch_buffers ?s j = Some rb" "ch_buffers ?s k = Some rb'" "chosen_doc b rb = chosen_doc b' rb'"
    for j k rb rb' b b'
    using that chats_ok_bound [OF ok, of j rb b] chats_ok_bound [OF ok, of k rb' b'] chats_ok_inj [OF ok, of j rb k rb' b b']
    by (auto simp: buf split: if_splits)
qed

lemma live_doc_insert:
  assumes ok: "chats_ok s"
  shows "live_doc j b (insert_buffers i m im s) = (if j = i then Some (if b then im else m) else live_doc j b s)"
proof (cases "ch_buffers s j")
  case (Some rb)
  from chats_ok_bound [OF ok this, of b] Some show ?thesis
    by (simp add: live_doc_def insert_buffers_def Let_def chat_doc_def nth_append)
qed (simp add: live_doc_def insert_buffers_def Let_def chat_doc_def nth_append)

end
