(* ===== verification/Chat_Preview.thy ===== *)
theory Chat_Preview
  imports Crdt_Resource "HOL-Library.AList" "HOL-Library.Multiset"
begin

text \<open>
  \<open>libremot/src-tauri/src/chat_preview_generator.rs\<close>: what the list of chats shows of a chat. The
  messages are the entries of the map \<open>messages\<close> of its document; reading and writing this map is the
  parameter \<open>C\<close>. A hash set is iterated in the order \<open>ord\<close> gives it.
\<close>

section \<open>Messages\<close>

text \<open>\<open>yrs::Any\<close>; a \<open>Number\<close>, which is a floating point number, is given by its cast to \<open>i64\<close>.\<close>

datatype chat_any =
    CA_String string
  | CA_Number int
  | CA_BigInt int
  | CA_Array "chat_any list"
  | CA_Map "(string \<times> chat_any) list"
  | CA_Other

text \<open>
  \<open>cl_messages\<close> lists the map with the values as JSON, in the order of its iteration, \<open>cl_message\<close> is the value under a key
  if it is a plain one, \<open>cl_set_message\<close> inserts one.
\<close>

record 'd chat_lib =
  cl_messages :: "'d \<Rightarrow> (string \<times> chat_any) list option"
  cl_message :: "'d \<Rightarrow> string \<Rightarrow> chat_any option"
  cl_set_message :: "'d \<Rightarrow> string \<Rightarrow> chat_any \<Rightarrow> 'd"

record chat_message =
  cms_id :: string
  cms_author_id :: ident
  cms_author_name :: string
  cms_content :: string
  cms_timestamp :: int
  cms_type :: string
  cms_image_id :: "string option"
  cms_read_by :: "ident list option"

record chat_preview_data =
  cpd_last_message :: string
  cpd_last_message_time :: int
  cpd_participants :: "string list"
  cpd_participant_ids :: "ident list"
  cpd_unread_count :: i32

text \<open>The strings of an array; other entries are passed over.\<close>

definition any_strings :: "chat_any list \<Rightarrow> string list" where
  "any_strings = List.map_filter (\<lambda>v. case v of CA_String s \<Rightarrow> Some s | _ \<Rightarrow> None)"

definition string_entry :: "string \<Rightarrow> (string \<times> chat_any) list \<Rightarrow> string option" where
  "string_entry k m = (case map_of m k of Some (CA_String s) \<Rightarrow> Some s | _ \<Rightarrow> None)"

definition required :: "string \<Rightarrow> 'a option \<Rightarrow> string + 'a" where
  "required k v = (case v of Some x \<Rightarrow> Inr x | None \<Rightarrow> Inl (''Missing '' @ k))"

definition readers_of :: "(string \<times> chat_any) list \<Rightarrow> ident list option" where
  "readers_of m = (case map_of m ''readBy'' of Some (CA_Array arr) \<Rightarrow> Some (any_strings arr) | _ \<Rightarrow> None)"

definition parse_message :: "string \<Rightarrow> (string \<times> chat_any) list \<Rightarrow> string + chat_message" where
  "parse_message i m =
     rbind (required ''authorId'' (string_entry ''authorId'' m)) (\<lambda>author_id.
     rbind (required ''authorName'' (string_entry ''authorName'' m)) (\<lambda>author_name.
     rbind (required ''content'' (string_entry ''content'' m)) (\<lambda>content.
     rbind (required ''timestamp'' (case map_of m ''timestamp'' of
              Some (CA_Number n) \<Rightarrow> Some n | Some (CA_BigInt n) \<Rightarrow> Some n | _ \<Rightarrow> None)) (\<lambda>timestamp.
     Inr \<lparr>cms_id = i, cms_author_id = author_id, cms_author_name = author_name, cms_content = content,
       cms_timestamp = timestamp,
       cms_type = (case string_entry ''type'' m of Some s \<Rightarrow> s | None \<Rightarrow> ''text''),
       cms_image_id = string_entry ''imageId'' m, cms_read_by = readers_of m\<rparr>))))"

text \<open>The first entry that is no message ends the whole extraction with its error.\<close>

fun extract_entries :: "(string \<times> chat_any) list \<Rightarrow> string + chat_message list" where
  "extract_entries [] = Inr []"
| "extract_entries ((k, CA_Map m) # es) =
     rbind (parse_message k m) (\<lambda>message. rbind (extract_entries es) (\<lambda>messages. Inr (message # messages)))"
| "extract_entries (e # es) = extract_entries es"

definition extract_messages :: "'d chat_lib \<Rightarrow> 'd \<Rightarrow> string + chat_message list" where
  "extract_messages C d = (case cl_messages C d of
     None \<Rightarrow> Inr [] | Some entries \<Rightarrow> rbind (extract_entries entries) (\<lambda>ms. Inr (sort_key cms_timestamp ms)))"

section \<open>The preview\<close>

definition empty_preview :: chat_preview_data where
  "empty_preview = \<lparr>cpd_last_message = [], cpd_last_message_time = 0, cpd_participants = [],
     cpd_participant_ids = [], cpd_unread_count = 0\<rparr>"

text \<open>\<open>max_by_key\<close>: the last of the newest messages.\<close>

fun newest :: "chat_message list \<Rightarrow> chat_message option" where
  "newest [] = None"
| "newest (m # ms) = (case newest ms of
     None \<Rightarrow> Some m | Some n \<Rightarrow> if cms_timestamp m > cms_timestamp n then Some m else Some n)"

definition unread_by :: "ident \<Rightarrow> chat_message \<Rightarrow> bool" where
  "unread_by user_id m \<longleftrightarrow> cms_author_id m \<noteq> user_id \<and>
     \<not> (case cms_read_by m of Some readers \<Rightarrow> user_id \<in> set readers | None \<Rightarrow> False)"

definition load_chat_doc :: "('d, 'u, 'v) yrs \<Rightarrow> bytes \<Rightarrow> string + 'd" where
  "load_chat_doc Y chat_state =
     rmap_err (\<lambda>e. ''Failed to apply chat state: '' @ e) (apply_update_v2 Y (y_new Y) chat_state)"

definition preview_of_messages :: "(string set \<Rightarrow> string list) \<Rightarrow> ident \<Rightarrow> chat_message list \<Rightarrow> string + chat_preview_data" where
  "preview_of_messages ord current_user_id messages =
     (if messages = [] then Inr empty_preview
      else case newest messages of
          None \<Rightarrow> Inl ''No messages found''
        | Some last_message \<Rightarrow>
            (let others = filter (\<lambda>m. cms_author_id m \<noteq> current_user_id) messages in
             Inr \<lparr>cpd_last_message = cms_content last_message,
               cpd_last_message_time = cms_timestamp last_message,
               cpd_participants = ord (set (map cms_author_name others)),
               cpd_participant_ids = ord (set (map cms_author_id others)),
               cpd_unread_count = word_of_nat (length (filter (unread_by current_user_id) messages))\<rparr>))"

definition generate_chat_preview ::
  "('d, 'u, 'v) yrs \<Rightarrow> 'd chat_lib \<Rightarrow> (string set \<Rightarrow> string list) \<Rightarrow> bytes \<Rightarrow> ident \<Rightarrow> string + chat_preview_data" where
  "generate_chat_preview Y C ord chat_state current_user_id =
     (if chat_state = [] then Inr empty_preview
      else rbind (load_chat_doc Y chat_state) (\<lambda>chat_doc.
           rbind (extract_messages C chat_doc) (preview_of_messages ord current_user_id)))"

text \<open>The preview of the data of a resource.\<close>

definition chat_preview_of_data ::
  "('d, 'u, 'v) yrs \<Rightarrow> 'd chat_lib \<Rightarrow> (string set \<Rightarrow> string list) \<Rightarrow> json \<Rightarrow> ident \<Rightarrow> string + chat_preview_data" where
  "chat_preview_of_data Y C ord data current_user_id =
     generate_chat_preview Y C ord
       (case json_get ''chat'' data of Some (JArray arr) \<Rightarrow> array_bytes arr | _ \<Rightarrow> []) current_user_id"

section \<open>Marking a message as read\<close>

definition mark_message_read ::
  "('d, 'u, 'v) yrs \<Rightarrow> 'd chat_lib \<Rightarrow> bytes \<Rightarrow> string \<Rightarrow> ident \<Rightarrow> string + bytes" where
  "mark_message_read Y C chat_state message_id user_id =
     rbind (if chat_state = [] then Inr (y_new Y) else load_chat_doc Y chat_state) (\<lambda>chat_doc.
       (let chat_doc' = (case cl_message C chat_doc message_id of
            Some (CA_Map m) \<Rightarrow>
              (let read_by = (case readers_of m of Some rs \<Rightarrow> rs | None \<Rightarrow> []) in
               if user_id \<in> set read_by then chat_doc
               else cl_set_message C chat_doc message_id
                 (CA_Map (AList.update ''readBy'' (CA_Array (map CA_String (read_by @ [user_id]))) m)))
          | _ \<Rightarrow> chat_doc)
        in Inr (y_encode_state Y chat_doc')))"

end
