(* ===== verification/Chat_Events.thy ===== *)
theory Chat_Events
  imports Chat_State Chat_Preview Interface_Events
begin

text \<open>
  \<open>libremot/src-tauri/src/listners\<close>: the manager of the messenger. It is the one of \<open>Live_Edit\<close> and
  \<open>Interface_Events\<close>, whose state it keeps in \<open>cg_editor\<close>, with the chats next to it: live updates go to
  the buffers of their chat, whether it is open or not, are saved, and are sent to the devices the chat
  is shared with. Each event is handled to its end before the next.
\<close>

section \<open>The state\<close>

record 'd chat_manager =
  cg_editor :: "'d editor"
  cg_chats :: "'d chats"

type_synonym ('d, 'a) messaging = "('d chat_manager, string, 'a) sm"

record ('d, 'u, 'v) chat_app_lib =
  kl_edit :: "('d, 'u, 'v) edit_lib"
  kl_chat :: "'d chat_lib"

abbreviation kl_docs :: "('d, 'u, 'v) chat_app_lib \<Rightarrow> ('d, 'u, 'v) yrs" where
  "kl_docs K \<equiv> el_docs (kl_edit K)"

definition in_base :: "('d, 'a) editing \<Rightarrow> ('d, 'a) messaging" where
  "in_base m s = (case m (cg_editor s) of (r, e) \<Rightarrow> (r, s\<lparr>cg_editor := e\<rparr>))"

definition on_chats :: "('d, 'a) chatting \<Rightarrow> ('d, 'a) messaging" where
  "on_chats m s = (case m (cg_chats s) of (r, c) \<Rightarrow> (r, s\<lparr>cg_chats := c\<rparr>))"

definition change_chats :: "('d chats \<Rightarrow> 'd chats) \<Rightarrow> ('d, unit) messaging" where
  "change_chats f = smodify (\<lambda>s. s\<lparr>cg_chats := f (cg_chats s)\<rparr>)"

definition subscribers :: "('d, 'u, 'v) chat_app_lib \<Rightarrow> ident \<Rightarrow> ('d, ident list) messaging" where
  "subscribers K resource_id s =
     (case get_subscribers (el_text (kl_edit K)) resource_id (cg_chats s, ed_world (cg_editor s)) of
        (r, (c, w)) \<Rightarrow> (r, s\<lparr>cg_chats := c, cg_editor := (cg_editor s)\<lparr>ed_world := w\<rparr>\<rparr>))"

definition chat_logged :: "('d, unit) messaging \<Rightarrow> ('d, unit) messaging" where
  "chat_logged m = scatch m sret (\<lambda>_. sret ())"

definition chat_emit :: "string \<Rightarrow> json \<Rightarrow> ('d, unit) messaging" where
  "chat_emit event_name payload = in_base (emit_json event_name payload)"

section \<open>Previews\<close>

text \<open>\<open>ResourcePreview\<close> of \<open>types.rs\<close> as it is serialized: what is \<open>None\<close> is left out.\<close>

record chat_resource_preview =
  crp_id :: ident
  crp_preview :: string
  crp_title :: string
  crp_folder_id :: ident
  crp_favourite :: bool
  crp_last_modified :: millis
  crp_last_accessed :: millis
  crp_last_message :: "string option"
  crp_last_message_time :: "int option"
  crp_participant_name :: "string option"
  crp_participant_id :: "ident option"
  crp_unread_count :: "i32 option"
  crp_is_online :: "bool option"

definition chat_preview_json :: "chat_resource_preview \<Rightarrow> json" where
  "chat_preview_json p = json_object
     ([(''id'', JString (crp_id p)), (''preview'', JString (crp_preview p)), (''title'', JString (crp_title p)),
       (''folderId'', JString (crp_folder_id p)), (''favourite'', JBool (crp_favourite p)),
       (''lastModified'', JInt (crp_last_modified p)), (''lastAccessed'', JInt (crp_last_accessed p))] @
      (case crp_last_message p of Some x \<Rightarrow> [(''lastMessage'', JString x)] | None \<Rightarrow> []) @
      (case crp_last_message_time p of Some x \<Rightarrow> [(''lastMessageTime'', JInt x)] | None \<Rightarrow> []) @
      (case crp_participant_name p of Some x \<Rightarrow> [(''participantName'', JString x)] | None \<Rightarrow> []) @
      (case crp_participant_id p of Some x \<Rightarrow> [(''participantId'', JString x)] | None \<Rightarrow> []) @
      (case crp_unread_count p of Some x \<Rightarrow> [(''unreadCount'', JInt (sint x))] | None \<Rightarrow> []) @
      (case crp_is_online p of Some x \<Rightarrow> [(''isOnline'', JBool x)] | None \<Rightarrow> []))"

fun joined_names :: "string list \<Rightarrow> string" where
  "joined_names [] = []"
| "joined_names [n] = n"
| "joined_names (n # ns) = n @ '', '' @ joined_names ns"

text \<open>A preview that cannot be made is the empty one.\<close>

definition chat_resource_preview_of ::
  "('d, 'u, 'v) chat_app_lib \<Rightarrow> decrypted_resource \<Rightarrow> ident \<Rightarrow> chat_resource_preview" where
  "chat_resource_preview_of K dr user_id =
     (let data = (case chat_preview_of_data (kl_docs K) (kl_chat K) (el_order (kl_edit K)) (dcr_data dr) user_id of
            Inr d \<Rightarrow> d | Inl _ \<Rightarrow> empty_preview)
      in \<lparr>crp_id = dcr_id dr, crp_preview = [], crp_title = [], crp_folder_id = dcr_folder_id dr,
          crp_favourite = dcr_favourite dr, crp_last_modified = dcr_last_accessed dr,
          crp_last_accessed = dcr_last_accessed dr, crp_last_message = Some (cpd_last_message data),
          crp_last_message_time = Some (cpd_last_message_time data),
          crp_participant_name = Some (joined_names (cpd_participants data)),
          crp_participant_id = (case cpd_participant_ids data of i # _ \<Rightarrow> Some i | [] \<Rightarrow> None),
          crp_unread_count = Some (cpd_unread_count data), crp_is_online = Some False\<rparr>)"

definition read_resource ::
  "('d, 'u, 'v) chat_app_lib \<Rightarrow> ident \<Rightarrow> user \<Rightarrow> ('d, decrypted_resource) messaging" where
  "read_resource K resource_id user = in_base (sbind (sget ed_crypto) (\<lambda>crypto.
     on_data (kl_edit K) (get_resource_by_id_direct (el_crypto (kl_edit K)) (kl_docs K) crypto resource_id
       (usr_id user))))"

definition chat_resource_emission ::
  "('d, 'u, 'v) chat_app_lib \<Rightarrow> ident \<Rightarrow> string \<Rightarrow> ('d, unit) messaging" where
  "chat_resource_emission K resource_id event_name =
     sbind (smap_err (\<lambda>e. ''Failed to get current user: '' @ e) (in_base get_user)) (\<lambda>current_user.
     sbind (smap_err (\<lambda>e. ''Failed to get resource: '' @ e) (read_resource K resource_id current_user)) (\<lambda>dr.
     sbind (chat_emit event_name (chat_preview_json (chat_resource_preview_of K dr (usr_id current_user)))) (\<lambda>_.
     in_base (smodify (\<lambda>s. s\<lparr>ed_index := ed_index s @ [(dcr_id dr, dcr_data dr, dcr_folder_id dr)]\<rparr>)))))"

section \<open>Live updates\<close>

definition emit_chat_preview_update :: "('d, 'u, 'v) chat_app_lib \<Rightarrow> ident \<Rightarrow> ('d, unit) messaging" where
  "emit_chat_preview_update K resource_id =
     chat_logged (sbind (in_base get_user) (\<lambda>user.
     sbind (on_chats (export_document_state (kl_docs K) resource_id)) (\<lambda>chat_state_bytes.
     sbind (slift (generate_chat_preview (kl_docs K) (kl_chat K) (el_order (kl_edit K)) chat_state_bytes
              (usr_id user))) (\<lambda>preview.
     chat_emit ''chat-preview-update'' (json_object
       [(''resource_id'', JString resource_id), (''last_message'', JString (cpd_last_message preview)),
        (''last_message_time'', JInt (cpd_last_message_time preview)),
        (''unread_count'', JInt (sint (cpd_unread_count preview))),
        (''participants'', JArray (map JString (cpd_participants preview))),
        (''participant_ids'', JArray (map JString (cpd_participant_ids preview)))])))))"

text \<open>The state of the chat is stored as a text in base64, and no images.\<close>

definition chat_data :: "crypto_lib \<Rightarrow> bytes \<Rightarrow> json" where
  "chat_data L chat_state_bytes =
     json_object [(''chat'', JString (b64_encode L chat_state_bytes)), (''image_state'', JString [])]"

definition save_chat_to_database :: "('d, 'u, 'v) chat_app_lib \<Rightarrow> ident \<Rightarrow> ('d, unit) messaging" where
  "save_chat_to_database K resource_id =
     chat_logged (sbind (in_base get_user) (\<lambda>user.
     sbind (in_base get_device) (\<lambda>device.
     sbind (on_chats (export_document_state (kl_docs K) resource_id)) (\<lambda>chat_state_bytes.
     sbind (in_base (sbind (sget ed_crypto) (\<lambda>crypto. on_data (kl_edit K)
        (update_resource (el_crypto (kl_edit K)) (kl_docs K) crypto resource_id
          (json_print (kl_docs K) (chat_data (el_crypto (kl_edit K)) chat_state_bytes)) (usr_id user) (dev_id device)))))
       (\<lambda>_. sret ())))))"

definition chat_editing_event ::
  "('d, 'u, 'v) chat_app_lib \<Rightarrow> ident \<Rightarrow> 32 word \<Rightarrow> bytes \<Rightarrow> string \<Rightarrow> ('d, unit) messaging" where
  "chat_editing_event K resource_id client_id updates doc_type =
     sbind (on_chats (chat_apply_update (kl_docs K) resource_id updates doc_type)) (\<lambda>_.
     sbind (chat_emit ''live-updates'' (json_object
       [(''resource_id'', JString resource_id), (''updates'', json_bytes updates),
        (''client_id'', JString (decimal (unat client_id))), (''doc_type'', JString doc_type)])) (\<lambda>_.
     sbind (emit_chat_preview_update K resource_id) (\<lambda>_.
     if doc_type = ''chat'' then save_chat_to_database K resource_id else sret ())))"

definition chat_awareness_event :: "ident \<Rightarrow> 32 word \<Rightarrow> bytes \<Rightarrow> ('d, unit) messaging" where
  "chat_awareness_event resource_id client_id awareness_data =
     chat_emit ''awareness-updates'' (json_object
       [(''resource_id'', JString resource_id), (''updates'', json_bytes awareness_data),
        (''client_id'', JString (decimal (unat client_id)))])"

definition chat_update_event ::
  "('d, 'u, 'v) chat_app_lib \<Rightarrow> ident \<Rightarrow> string \<Rightarrow> 32 word \<Rightarrow> ('d, unit) messaging" where
  "chat_update_event K resource_id updates client_id =
     sbind (sget (\<lambda>s. get_current_note (ed_buffers (cg_editor s)))) (\<lambda>current. case current of
       Some current_resource_id \<Rightarrow>
         chat_emit ''document-updates'' (json_object
           [(''resource_id'', JString current_resource_id), (''updates'', JString updates),
            (''client_id'', JInt (uint client_id))])
     | None \<Rightarrow> chat_logged (chat_resource_emission K resource_id ''resource-update''))"

definition chat_resource_added ::
  "('d, 'u, 'v) chat_app_lib \<Rightarrow> ident \<Rightarrow> string \<Rightarrow> ('d, unit) messaging" where
  "chat_resource_added K resource_id username =
     sbind (chat_logged (chat_resource_emission K resource_id ''resource-added'')) (\<lambda>_.
     chat_emit ''resource-added-notification'' (json_object
       [(''username'', JString username), (''resource_id'', JString resource_id)]))"

section \<open>Negotiating with a peer\<close>

text \<open>A chat without buffers is answered as one that does not match.\<close>

definition chat_document_check ::
  "('d, 'u, 'v) chat_app_lib \<Rightarrow> ident \<Rightarrow> string \<Rightarrow> ('d, unit) messaging" where
  "chat_document_check K resource_id connection_id =
     sbind (scatch (on_chats (chat_state_vectors (kl_docs K) resource_id)) sret (\<lambda>_. sret [])) (\<lambda>state_vectors.
       (let is_match = (state_vectors \<noteq> []) in
        chat_logged (sbind (in_base (on_sender
          (send_live_edit_document_check_response connection_id resource_id is_match state_vectors))) (\<lambda>_.
        chat_emit ''document-check'' (json_object
          [(''connection_id'', JString connection_id), (''resource_id'', JString resource_id),
           (''is_match'', JBool is_match)])))))"

definition chat_update_request ::
  "('d, 'u, 'v) chat_app_lib \<Rightarrow> ident \<Rightarrow> string \<Rightarrow> string \<Rightarrow> ('d, unit) messaging" where
  "chat_update_request K resource_id connection_id state_vectors =
     chat_logged (sbind (on_chats (chat_generate_updates (kl_docs K) resource_id state_vectors)) (\<lambda>peer_updates.
       in_base (on_sender (send_live_edit_update_exchange connection_id resource_id peer_updates))))"

definition chat_process_update ::
  "('d, 'u, 'v) chat_app_lib \<Rightarrow> ident \<Rightarrow> string \<Rightarrow> string \<Rightarrow> 32 word \<Rightarrow> ('d, unit) messaging" where
  "chat_process_update K resource_id connection_id remote_updates client_id =
     scatch (on_chats (chat_apply_and_diff (kl_docs K) resource_id remote_updates))
       (\<lambda>peer_updates.
          sbind (in_base (change_note (add_active_connection connection_id))) (\<lambda>_.
          sbind (chat_update_event K resource_id remote_updates client_id) (\<lambda>_.
          chat_logged (in_base (on_sender
            (send_live_edit_update_exchange_response connection_id resource_id peer_updates))))))
       (\<lambda>_. sret ())"

definition chat_process_update_response ::
  "('d, 'u, 'v) chat_app_lib \<Rightarrow> ident \<Rightarrow> string \<Rightarrow> string \<Rightarrow> 32 word \<Rightarrow> ('d, unit) messaging" where
  "chat_process_update_response K resource_id connection_id updates client_id =
     sbind (chat_logged (on_chats (chat_apply_peer_updates (kl_docs K) resource_id updates))) (\<lambda>_.
     sbind (in_base (change_note (add_active_connection connection_id))) (\<lambda>_.
     sbind (if updates \<noteq> [] then chat_update_event K resource_id updates client_id else sret ()) (\<lambda>_.
     chat_emit ''live-edit-active'' (json_object
       [(''connection_id'', JString connection_id), (''resource_id'', JString resource_id)]))))"

text \<open>The loop of \<open>p2p_reciever.rs\<close>; what does not concern chats is handled as in \<open>livnote\<close>.\<close>

definition chat_p2p_event :: "('d, 'u, 'v) chat_app_lib \<Rightarrow> p2p_event \<Rightarrow> ('d, unit) messaging" where
  "chat_p2p_event K event = (case event of
       DocumentCheckEvent resource_id connection_id \<Rightarrow> chat_document_check K resource_id connection_id
     | UpdateRequest resource_id connection_id state_vectors _ \<Rightarrow>
         chat_update_request K resource_id connection_id state_vectors
     | ProcessUpdate resource_id connection_id updates client_id \<Rightarrow>
         chat_process_update K resource_id connection_id updates client_id
     | ProcessUpdateResponse resource_id connection_id updates client_id \<Rightarrow>
         chat_process_update_response K resource_id connection_id updates client_id
     | EditingEvent resource_id client_id updates doc_type \<Rightarrow>
         chat_editing_event K resource_id client_id updates doc_type
     | AwarenessEvent resource_id client_id awareness_data \<Rightarrow>
         chat_awareness_event resource_id client_id awareness_data
     | UpdatesEvent resource_id updates client_id \<Rightarrow> chat_update_event K resource_id updates client_id
     | ResourceAdded resource_id username \<Rightarrow> chat_resource_added K resource_id username
     | _ \<Rightarrow> in_base (handle_p2p_event (kl_edit K) event))"

section \<open>Events of the interface\<close>

text \<open>\<open>sync-update\<close>: the subscribers are devices, the connections have node ids.\<close>

definition connection_ids :: "crypto_lib \<Rightarrow> ident list \<Rightarrow> string list" where
  "connection_ids L device_ids = List.map_filter (\<lambda>device_id. case derive_node_id_from_public_key L device_id of
     Inr node_id_bytes \<Rightarrow> Some (concat (map hex_byte node_id_bytes)) | Inl _ \<Rightarrow> None) device_ids"

definition chat_sync_update ::
  "('d, 'u, 'v) chat_app_lib \<Rightarrow> string \<Rightarrow> ('d, unit) messaging" where
  "chat_sync_update K payload_str = (case parse_update_payload (kl_edit K) payload_str of
       None \<Rightarrow> sret ()
     | Some payload \<Rightarrow>
         sbind (on_chats (chat_apply_update (kl_docs K) (up_resource_id payload) (up_update_bytes payload)
                  (up_doc_type payload))) (\<lambda>_.
         chat_logged (sbind (subscribers K (up_resource_id payload)) (\<lambda>device_ids.
           (let ids = connection_ids (el_crypto (kl_edit K)) device_ids in
            if device_ids = [] \<or> ids = [] then sret ()
            else in_base (on_sender (send_sync_update_to_connections (up_resource_id payload)
              (up_client_id payload) (up_update_bytes payload) ids (up_doc_type payload))))))))"

text \<open>The devices of the chat are asked to connect, and then sent the state vectors.\<close>

definition reconcile_chat_on_open :: "('d, 'u, 'v) chat_app_lib \<Rightarrow> ident \<Rightarrow> ('d, unit) messaging" where
  "reconcile_chat_on_open K chat_id =
     chat_logged (sbind (subscribers K chat_id) (\<lambda>device_ids.
       if device_ids = [] then sret ()
       else sbind (on_chats (chat_state_vectors (kl_docs K) chat_id)) (\<lambda>state_vectors.
         sbind (chat_logged (in_base (on_sender (send_live_edit_requests device_ids)))) (\<lambda>_.
         sfor (\<lambda>device_id. chat_logged (in_base (on_sender
           (send_live_edit_document_check_response device_id chat_id True state_vectors)))) device_ids))))"

text \<open>
  The open chat is also set as the open note, whose third document the messenger does not have and
  never reads.
\<close>

definition open_as_note ::
  "('d, 'u, 'v) chat_app_lib \<Rightarrow> ident option \<Rightarrow> bytes option \<Rightarrow> bytes option \<Rightarrow> ('d, unit) messaging" where
  "open_as_note K chat_id main_doc_state image_state =
     in_base (change_note (set_current_note (kl_docs K) chat_id main_doc_state image_state None))"

definition open_chat :: "('d, 'u, 'v) chat_app_lib \<Rightarrow> ident \<Rightarrow> user \<Rightarrow> ('d, unit) messaging" where
  "open_chat K chat_id current_user =
     scatch (read_resource K chat_id current_user)
       (\<lambda>dr. (let main_doc_state = get_document_state ''main_doc'' dr;
                 image_state = get_document_state ''image_state'' dr in
          sbind (change_chats (load_chat_resource (kl_docs K) chat_id main_doc_state image_state)) (\<lambda>_.
          open_as_note K (Some chat_id) main_doc_state image_state)))
       (\<lambda>_. sbind (change_chats (set_current_chat (Some chat_id))) (\<lambda>_.
          open_as_note K (Some chat_id) None None))"

definition chat_change_listener :: "('d, 'u, 'v) chat_app_lib \<Rightarrow> string \<Rightarrow> ('d, unit) messaging" where
  "chat_change_listener K payload = (case parse_note_id payload of
       None \<Rightarrow> sbind (change_chats (set_current_chat None)) (\<lambda>_. open_as_note K None None None)
     | Some chat_id \<Rightarrow>
         sbind (change_chats (set_current_chat (Some chat_id))) (\<lambda>_.
         chat_logged (sbind (in_base get_user) (\<lambda>current_user. sbind (in_base get_device) (\<lambda>current_device.
         sbind (change_chats (set_chat_user (usr_id current_user) (dev_id current_device))) (\<lambda>_.
         sbind (open_chat K chat_id current_user) (\<lambda>_.
         reconcile_chat_on_open K chat_id)))))))"

text \<open>The state vectors of the two documents of the open note, sent by the timer.\<close>

definition chat_note_vectors :: "('d, 'u, 'v) yrs \<Rightarrow> ('d, string) noting" where
  "chat_note_vectors Y =
     sbind (sget (\<lambda>s. (nb_main s, nb_image s))) (\<lambda>(main_doc, image_doc).
     sbind (get_doc_state_vector Y main_doc ''main_doc'' []) (\<lambda>result.
     sbind (get_doc_state_vector Y image_doc ''image_state'' result) (\<lambda>result.
     sret (json_print Y (JObject result)))))"

definition chat_timer_tick :: "('d, 'u, 'v) chat_app_lib \<Rightarrow> ('d, unit) messaging" where
  "chat_timer_tick K = in_base
     (sbind (sget (\<lambda>s. get_current_note (ed_buffers s))) (\<lambda>current. case current of
        None \<Rightarrow> sret ()
      | Some resource_id \<Rightarrow>
          sbind (sget (\<lambda>s. get_active_connections (el_order (kl_edit K)) (ed_buffers s))) (\<lambda>active_connections.
            if active_connections = [] then sret ()
            else logged (sbind (on_note (chat_note_vectors (kl_docs K))) (\<lambda>local_state_vectors.
              sfor (\<lambda>connection_id. logged (on_sender
                (send_live_edit_document_check_response connection_id resource_id True local_state_vectors)))
                active_connections)))))"

section \<open>The manager\<close>

datatype (plugins only: code size) chat_event =
    From_peer p2p_event
  | Chat_update string
  | Chat_awareness string
  | Chat_change string
  | Chat_timer

definition handle_chat_event :: "('d, 'u, 'v) chat_app_lib \<Rightarrow> chat_event \<Rightarrow> ('d, unit) messaging" where
  "handle_chat_event K event = (case event of
       From_peer e \<Rightarrow> chat_p2p_event K e
     | Chat_update payload \<Rightarrow> chat_sync_update K payload
     | Chat_awareness payload \<Rightarrow> in_base (update_listener (kl_edit K) AwarenessUpdateType payload)
     | Chat_change payload \<Rightarrow> chat_change_listener K payload
     | Chat_timer \<Rightarrow> chat_timer_tick K)"

definition chat_manager_new :: "('d, 'u, 'v) yrs \<Rightarrow> p2p_sender \<Rightarrow> world \<Rightarrow> crypto_utils \<Rightarrow> 'd chat_manager" where
  "chat_manager_new Y sender w crypto = \<lparr>cg_editor = editor_new Y sender w crypto, cg_chats = chats_new\<rparr>"

end
