(* ===== verification/Chat_Convergence.thy ===== *)
theory Chat_Convergence
  imports Chat_State Note_Convergence
begin

text \<open>
  The exchange that brings the copies of a chat on two devices together, and that it leaves the other
  chats alone. The laws of documents and of JSON text are those of \<open>Crdt_Convergence\<close>.
\<close>

section \<open>Changing one document\<close>

definition put_live :: "ident \<Rightarrow> bool \<Rightarrow> 'd \<Rightarrow> 'd chats \<Rightarrow> 'd chats" where
  "put_live i p d s = (case ch_buffers s i of
     Some rb \<Rightarrow> s\<lparr>ch_docs := (ch_docs s)[chosen_doc p rb := d]\<rparr> | None \<Rightarrow> s)"

lemma put_live_buffers [simp]: "ch_buffers (put_live i p d s) = ch_buffers s"
  by (simp add: put_live_def split: option.split)

lemma chats_ok_put_live [simp]: "chats_ok s \<Longrightarrow> chats_ok (put_live i p d s)"
  by (auto simp: chats_ok_def put_live_def split: option.split)

lemma live_doc_put_live:
  assumes ok: "chats_ok s" and i: "ch_buffers s i = Some rb"
  shows "live_doc j q (put_live i p d s) = (if j = i \<and> q = p then Some d else live_doc j q s)"
proof (cases "ch_buffers s j")
  case (Some rb')
  then show ?thesis
    using chats_ok_bound [OF ok i, of p] chats_ok_inj [OF ok i Some, of p q] i
    by (auto simp: live_doc_def put_live_def chat_doc_def nth_list_update)
qed (use i in \<open>auto simp: live_doc_def\<close>)

lemma live_docE:
  assumes "ch_buffers s i = Some rb"
  shows "live_doc i p s = Some (chat_doc (chosen_doc p rb) s)"
  using assms by (simp add: live_doc_def)

lemma same_handle [simp]:
  "ch_buffers s i = Some rb \<Longrightarrow> s\<lparr>ch_buffers := (ch_buffers s)(i \<mapsto> rb)\<rparr> = s"
  by (simp add: fun_upd_idem)

lemma same_handle_put [simp]:
  assumes "ch_buffers s i = Some rb"
  shows "(put_live j p d s)\<lparr>ch_buffers := (ch_buffers s)(i \<mapsto> rb)\<rparr> = put_live j p d s"
  using same_handle [of "put_live j p d s" i rb] assms by simp

lemma chat_slots: "is_image_doc ''chat'' = False" "is_image_doc ''image_state'' = True"
  by (simp_all add: is_image_doc_def)

text \<open>What the steps of the exchange do with one document, when the message has its entry.\<close>

lemma chat_apply_diff:
  assumes laws: "yrs_laws Y ops" and v: "y_decode_sv Y (y_state_vector Y d0) = Inr v"
    and s: "ch_buffers s i = Some rb" "live_doc i p s = Some d" and sub: "ops d0 \<subseteq> ops d"
  obtains d1 where "ops d1 = ops d \<union> ops d2" "y_diff Y d2 v \<noteq> []"
    "chat_apply_at Y (chosen_doc p rb) (y_diff Y d2 v) s = (Inr (), put_live i p d1 s)"
proof -
  obtain w where w: "y_decode_sv Y (y_state_vector Y d0) = Inr w" "\<And>d2. y_diff Y d2 w \<noteq> []"
    "\<And>d2 d3. ops d0 \<subseteq> ops d3 \<Longrightarrow>
       \<exists>d1. apply_update_v2 Y d3 (y_diff Y d2 w) = Inr d1 \<and> ops d1 = ops d3 \<union> ops d2"
    using diff_answers [OF laws, of d0] by metis
  have "w = v" using w(1) v by simp
  with w(3) [OF sub, of d2] obtain d1 where "apply_update_v2 Y d (y_diff Y d2 v) = Inr d1" "ops d1 = ops d \<union> ops d2"
    by blast
  with w(2) \<open>w = v\<close> s show thesis
    by (intro that [of d1]) (simp_all add: chat_apply_at_def sbind_def live_doc_def put_live_def)
qed

lemma chat_answer_ok:
  assumes laws: "yrs_laws Y ops" and v: "y_decode_sv Y (y_state_vector Y d') = Inr v"
  shows "chat_answer Y d (y_state_vector Y d') n res =
    Inr (obj_insert n (doc_entry (y_diff Y d v) (y_state_vector Y d)) res)"
  using v by (simp add: chat_answer_def get_diff_update_v2_def vector_nonempty [OF laws] create_doc_result_entry)

lemma chat_doc_diff_ok:
  assumes laws: "yrs_laws Y ops" and ok: "chats_ok s" "ch_buffers s i = Some rb" "live_doc i p s = Some d"
    and v: "y_decode_sv Y (y_state_vector Y d) = Inr v" and v': "y_decode_sv Y (y_state_vector Y d') = Inr v'"
    and entry: "map_of msg n = Some (doc_entry (y_diff Y d2 v) (y_state_vector Y d'))"
  obtains d1 where "ops d1 = ops d \<union> ops d2"
    "\<And>res. chat_doc_diff Y i p n msg res s =
       (Inr (obj_insert n (doc_entry (y_diff Y d1 v') (y_state_vector Y d1)) res), put_live i p d1 s)"
proof -
  obtain d1 where d1: "ops d1 = ops d \<union> ops d2" "y_diff Y d2 v \<noteq> []"
    "chat_apply_at Y (chosen_doc p rb) (y_diff Y d2 v) s = (Inr (), put_live i p d1 s)"
    using chat_apply_diff [OF laws v ok(2,3) order_refl] by metis
  have "chat_doc (chosen_doc p rb) (put_live i p d1 s) = d1"
    using live_doc_put_live [OF ok(1,2), of i p p d1] ok(2) by (simp add: live_doc_def)
  with d1 ok(2) show thesis
    by (intro that [of d1]) (simp_all add: chat_doc_diff_def chat_buffers_def chat_process_updates_and_diff_def entry
        parse_byte_array_field sbind_def smap_err_def Let_def vector_nonempty [OF laws] chat_answer_ok [OF laws v'])
qed

lemma chat_peer_doc_ok:
  assumes laws: "yrs_laws Y ops" and s: "ch_buffers s i = Some rb" "live_doc i p s = Some d"
    and v: "y_decode_sv Y (y_state_vector Y d0) = Inr v" and sub: "ops d0 \<subseteq> ops d"
    and entry: "map_of msg n = Some (doc_entry (y_diff Y d2 v) sv)" and slot: "is_image_doc n = p"
  obtains d1 where "ops d1 = ops d \<union> ops d2" "chat_peer_doc Y i n msg s = (Inr (), put_live i p d1 s)"
proof -
  obtain d1 where d1: "ops d1 = ops d \<union> ops d2" "y_diff Y d2 v \<noteq> []"
    "chat_apply_at Y (chosen_doc p rb) (y_diff Y d2 v) s = (Inr (), put_live i p d1 s)"
    using chat_apply_diff [OF laws v s sub] by metis
  then show thesis using s(1) slot
    by (intro that [of d1]) (simp_all add: chat_peer_doc_def entry parse_byte_array_field chat_apply_update_def
        chat_update_fetch_def chat_update_swap_def sbind_def scatch_def Let_def)
qed

section \<open>The exchange\<close>

definition chat_docs :: "json \<Rightarrow> json \<Rightarrow> json_map" where
  "chat_docs m i = obj_insert ''image_state'' i (obj_insert ''chat'' m [])"

lemma chat_docs_entries [simp]:
  "map_of (chat_docs m i) ''chat'' = Some m" "map_of (chat_docs m i) ''image_state'' = Some i"
  by (simp_all add: chat_docs_def)

lemma chat_docs_read:
  assumes "json_laws Y" "json_canonical m" "json_canonical i"
  shows "json_read_map Y (json_print Y (JObject (chat_docs m i))) = Inr (chat_docs m i)"
  unfolding chat_docs_def by (intro json_read_printed obj_insert_canonical empty_canonical assms)

text \<open>
  C19. The exchange of state vectors and updates about one chat succeeds between any two devices that
  have it in their buffers, and afterwards its messages and its images have on both the operations that
  either had. The other chats on the two devices are as before.
\<close>

theorem chat_exchange_converges:
  assumes laws: "yrs_laws Y ops" "json_laws Y" and ok: "chats_ok a" "chats_ok b"
    and a: "\<And>p. live_doc i p a = Some (da p)" and b: "\<And>p. live_doc i p b = Some (db p)"
  shows "\<exists>m1 m2 m3 a' b' da' db'. chat_state_vectors Y i a = (Inr m1, a) \<and> chat_generate_updates Y i m1 b = (Inr m2, b) \<and>
    chat_apply_and_diff Y i m2 a = (Inr m3, a') \<and> chat_apply_peer_updates Y i m3 b = (Inr (), b') \<and>
    (\<forall>p. live_doc i p a' = Some (da' p) \<and> live_doc i p b' = Some (db' p) \<and>
       ops (da' p) = ops (da p) \<union> ops (db p) \<and> ops (db' p) = ops (da p) \<union> ops (db p)) \<and>
    (\<forall>j p. j \<noteq> i \<longrightarrow> live_doc j p a' = live_doc j p a \<and> live_doc j p b' = live_doc j p b)"
proof -
  let ?sv = "\<lambda>d. y_state_vector Y d"
  let ?vec = "\<lambda>d. projr (y_decode_sv Y (?sv d))"
  note vec = vector_decodes [OF laws(1)]
  obtain ra rb where bufs: "ch_buffers a i = Some ra" "ch_buffers b i = Some rb"
    using a [of False] b [of False] by (auto simp: live_doc_def)
  have doc: "chat_doc (rb_main_doc ra) a = da False" "chat_doc (rb_image_doc ra) a = da True"
    "chat_doc (rb_main_doc rb) b = db False" "chat_doc (rb_image_doc rb) b = db True"
    using a [of False] a [of True] b [of False] b [of True] bufs by (simp_all add: live_doc_def chosen_doc_def)
  let ?r1 = "chat_docs (doc_entry [] (?sv (da False))) (doc_entry [] (?sv (da True)))"
  have m1: "chat_state_vectors Y i a = (Inr (json_print Y (JObject ?r1)), a)"
    by (simp add: chat_state_vectors_def chat_buffers_def sbind_def bufs doc vector_nonempty [OF laws(1)]
        create_doc_result_entry chat_docs_def Let_def del: obj_insert.simps)
  let ?e2 = "\<lambda>p. doc_entry (y_diff Y (db p) (?vec (da p))) (?sv (db p))"
  let ?r2 = "chat_docs (?e2 False) (?e2 True)"
  have m2: "chat_generate_updates Y i (json_print Y (JObject ?r1)) b = (Inr (json_print Y (JObject ?r2)), b)"
    by (simp add: chat_generate_updates_def chat_buffers_def sbind_def bufs doc chat_docs_read [OF laws(2)]
        chat_process_state_vectors_def parse_byte_array_field vector_nonempty [OF laws(1)] Let_def
        chat_answer_ok [OF laws(1) vec]) (simp add: chat_docs_def)
  obtain d1 where d1: "ops d1 = ops (da False) \<union> ops (db False)"
    "\<And>res. chat_doc_diff Y i False ''chat'' ?r2 res a =
       (Inr (obj_insert ''chat'' (doc_entry (y_diff Y d1 (?vec (db False))) (?sv d1)) res), put_live i False d1 a)"
    by (rule chat_doc_diff_ok [OF laws(1) ok(1) bufs(1) a vec vec chat_docs_entries(1)]) (rule that; assumption)
  define a1 where "a1 = put_live i False d1 a"
  have a1: "chats_ok a1" "ch_buffers a1 i = Some ra" "live_doc i True a1 = Some (da True)"
    using ok(1) bufs(1) a by (simp_all add: a1_def live_doc_put_live [OF ok(1) bufs(1)])
  obtain d2 where d2: "ops d2 = ops (da True) \<union> ops (db True)"
    "\<And>res. chat_doc_diff Y i True ''image_state'' ?r2 res a1 =
       (Inr (obj_insert ''image_state'' (doc_entry (y_diff Y d2 (?vec (db True))) (?sv d2)) res), put_live i True d2 a1)"
    by (rule chat_doc_diff_ok [OF laws(1) a1 vec vec chat_docs_entries(2)]) (rule that; assumption)
  define a' where "a' = put_live i True d2 a1"
  let ?r3 = "chat_docs (doc_entry (y_diff Y d1 (?vec (db False))) (?sv d1)) (doc_entry (y_diff Y d2 (?vec (db True))) (?sv d2))"
  have m3: "chat_apply_and_diff Y i (json_print Y (JObject ?r2)) a = (Inr (json_print Y (JObject ?r3)), a')"
    using d1(2) d2(2) by (simp add: chat_apply_and_diff_def sbind_def chat_docs_read [OF laws(2)] a1_def a'_def)
      (simp add: chat_docs_def)
  obtain e1 where e1: "ops e1 = ops (db False) \<union> ops d1"
    "chat_peer_doc Y i ''chat'' ?r3 b = (Inr (), put_live i False e1 b)"
    by (rule chat_peer_doc_ok [OF laws(1) bufs(2) b vec order_refl chat_docs_entries(1) chat_slots(1)]) (rule that; assumption)
  define b1 where "b1 = put_live i False e1 b"
  have b1: "chats_ok b1" "ch_buffers b1 i = Some rb" "live_doc i True b1 = Some (db True)"
    using ok(2) bufs(2) b by (simp_all add: b1_def live_doc_put_live [OF ok(2) bufs(2)])
  obtain e2 where e2: "ops e2 = ops (db True) \<union> ops d2"
    "chat_peer_doc Y i ''image_state'' ?r3 b1 = (Inr (), put_live i True e2 b1)"
    by (rule chat_peer_doc_ok [OF laws(1) b1(2,3) vec order_refl chat_docs_entries(2) chat_slots(2)]) (rule that; assumption)
  define b' where "b' = put_live i True e2 b1"
  have m4: "chat_apply_peer_updates Y i (json_print Y (JObject ?r3)) b = (Inr (), b')"
    using e1(2) e2(2) by (simp add: chat_apply_peer_updates_def sbind_def chat_docs_read [OF laws(2)] b1_def b'_def)
  have "live_doc j p a1 = (if j = i \<and> \<not> p then Some d1 else live_doc j p a)"
    "live_doc j p b1 = (if j = i \<and> \<not> p then Some e1 else live_doc j p b)" for j p
    by (auto simp: a1_def live_doc_put_live [OF ok(1) bufs(1)] b1_def live_doc_put_live [OF ok(2) bufs(2)])
  then have live: "live_doc j p a' = (if j = i then Some (if p then d2 else d1) else live_doc j p a)"
    "live_doc j p b' = (if j = i then Some (if p then e2 else e1) else live_doc j p b)" for j p
    by (auto simp: a'_def live_doc_put_live [OF a1(1,2)] b'_def live_doc_put_live [OF b1(1,2)])
  have "ops (if p then d2 else d1) = ops (da p) \<union> ops (db p)" "ops (if p then e2 else e1) = ops (da p) \<union> ops (db p)" for p
    using d1(1) d2(1) e1(1) e2(1) by (cases p; auto)+
  with m1 m2 m3 m4 live show ?thesis
    by (intro exI [of _ "json_print Y (JObject ?r1)"] exI [of _ "json_print Y (JObject ?r2)"]
        exI [of _ "json_print Y (JObject ?r3)"] exI [of _ a'] exI [of _ b'] exI [of _ "\<lambda>p. if p then d2 else d1"]
        exI [of _ "\<lambda>p. if p then e2 else e1"]) simp
qed

end
