(* ===== verification/Chat_Properties.thy ===== *)
theory Chat_Properties
  imports Chat_Events Chat_Convergence Note_Roundtrip
begin

text \<open>
  What the messenger does with the history of a chat when the chat is opened and when it is saved, and
  for how long it keeps sending to the devices it once looked up.
\<close>

section \<open>Subscribers\<close>

lemma elapsed_within: "elapsed_secs since now < cache_seconds \<longleftrightarrow> now - since < 300000"
  unfolding elapsed_secs_def cache_seconds_def by linarith

text \<open>What a lookup reads, and the entry it leaves: stamped by the clock right after the reading.\<close>

lemma fetch_subscribers_cached:
  assumes "fetch_subscribers V i (s, w) = (Inr ids, (s', w'))"
  obtains u d us w0 where "ch_user_id s = Some u" "ch_device_id s = Some d"
    "get_shared_user_devices_for_note i u d True w = (Inr (ids, us), w0)"
    "w' = w0\<lparr>time_n := Suc (time_n w0)\<rparr>"
    "s' = s\<lparr>ch_cache := (ch_cache s)(i \<mapsto> \<lparr>sc_device_ids = ids, sc_last_updated = time_src w0 (time_n w0)\<rparr>)\<rparr>"
  using assms
  by (auto simp: fetch_subscribers_def now_millis_def split: option.splits prod.splits sum.splits)

text \<open>
  C40. The devices of a chat that are not cached are looked up in the database, for the user and the
  device that are set, and kept with the time read at the end of the lookup. For 300000 milliseconds
  from then on, to the millisecond, the answer is the same, whatever happens to the database in the
  meantime: who is given the chat later is sent nothing, and who lost it still is. After that the
  answer comes from the database again.
\<close>

theorem subscribers_cached:
  assumes "get_subscribers V i (s, w) = (Inr ids, (s1, w1))" "ch_cache s i = None"
  shows "\<exists>u d us w0. ch_user_id s = Some u \<and> ch_device_id s = Some d \<and>
    get_shared_user_devices_for_note i u d True w = (Inr (ids, us), w0) \<and> w1 = w0\<lparr>time_n := Suc (time_n w0)\<rparr> \<and>
    s1 = s\<lparr>ch_cache := (ch_cache s)(i \<mapsto> \<lparr>sc_device_ids = ids, sc_last_updated = time_src w0 (time_n w0)\<rparr>)\<rparr> \<and>
    (\<forall>s2 w2. ch_cache s2 i = ch_cache s1 i \<longrightarrow>
       get_subscribers V i (s2, w2) =
         (if time_src w2 (time_n w2) - time_src w0 (time_n w0) < 300000
          then (Inr ids, (s2, w2\<lparr>time_n := Suc (time_n w2)\<rparr>))
          else fetch_subscribers V i (s2, w2\<lparr>time_n := Suc (time_n w2)\<rparr>)))"
proof -
  have "fetch_subscribers V i (s, w) = (Inr ids, (s1, w1))"
    using assms by (simp add: get_subscribers_def cached_subscribers_def sbind_def)
  then obtain u d us w0 where l: "ch_user_id s = Some u" "ch_device_id s = Some d"
    "get_shared_user_devices_for_note i u d True w = (Inr (ids, us), w0)" "w1 = w0\<lparr>time_n := Suc (time_n w0)\<rparr>"
    "s1 = s\<lparr>ch_cache := (ch_cache s)(i \<mapsto> \<lparr>sc_device_ids = ids, sc_last_updated = time_src w0 (time_n w0)\<rparr>)\<rparr>"
    by (rule fetch_subscribers_cached)
  then show ?thesis
    by (intro exI [of _ u] exI [of _ d] exI [of _ us] exI [of _ w0])
       (simp add: get_subscribers_def cached_subscribers_def sbind_def now_millis_def elapsed_within)
qed

section \<open>Opening a chat\<close>

text \<open>What leaves the buffers of the chats alone.\<close>

definition same_buffers :: "'d chats \<Rightarrow> 'd chat_manager \<Rightarrow> bool" where
  "same_buffers c s \<longleftrightarrow> ch_docs (cg_chats s) = ch_docs c \<and> ch_buffers (cg_chats s) = ch_buffers c"

named_theorems buffers_kept \<open>steps of the messenger that leave the buffers alone\<close>

lemma kept_monad [buffers_kept]:
  "keeps (same_buffers c) (sret x)" "keeps (same_buffers c) (sthrow e)" "keeps (same_buffers c) (slift r)"
  "keeps (same_buffers c) (sget f)"
  by (auto simp: keeps_def)

lemma kept_sbind [buffers_kept]:
  "keeps (same_buffers c) m \<Longrightarrow> (\<And>x. keeps (same_buffers c) (f x)) \<Longrightarrow> keeps (same_buffers c) (sbind m f)"
  by (rule keeps_sbind)

lemma kept_chat_logged [buffers_kept]:
  "keeps (same_buffers c) m \<Longrightarrow> keeps (same_buffers c) (chat_logged m)"
  unfolding chat_logged_def by (rule keeps_scatch) (auto simp: keeps_def)

lemma kept_if [buffers_kept]:
  "keeps (same_buffers c) m \<Longrightarrow> keeps (same_buffers c) n \<Longrightarrow> keeps (same_buffers c) (if b then m else n)"
  by simp

lemma kept_sfor [buffers_kept]:
  "(\<And>x. keeps (same_buffers c) (g x)) \<Longrightarrow> keeps (same_buffers c) (sfor g xs)"
  by (rule keeps_sfor)

lemma kept_base [buffers_kept]: "keeps (same_buffers c) (in_base k)"
  by (auto simp: keeps_def in_base_def same_buffers_def split: prod.splits)

lemma kept_steps [buffers_kept]:
  "keeps (same_buffers c) (chat_emit ev payload)" "keeps (same_buffers c) (subscribers K i)"
  "keeps (same_buffers c) (on_chats (chat_state_vectors Y i))"
  "keeps (same_buffers c) (on_chats (export_document_state Y i))"
proof -
  show "keeps (same_buffers c) (chat_emit ev payload)" by (simp add: chat_emit_def kept_base)
  show "keeps (same_buffers c) (subscribers K i)"
    by (auto simp: keeps_def subscribers_def get_subscribers_def cached_subscribers_def fetch_subscribers_def
        sbind_def now_millis_def same_buffers_def split: prod.splits option.splits sum.splits if_splits)
  show "keeps (same_buffers c) (on_chats (chat_state_vectors Y i))"
    "keeps (same_buffers c) (on_chats (export_document_state Y i))"
    by (auto simp: keeps_def on_chats_def chat_state_vectors_def export_document_state_def chat_buffers_def
        sbind_def Let_def split: prod.splits option.splits sum.splits)
qed

lemma kept_reconcile [buffers_kept]: "keeps (same_buffers c) (reconcile_chat_on_open K i)"
  unfolding reconcile_chat_on_open_def by (intro buffers_kept)

lemma kept_saving [buffers_kept]:
  "keeps (same_buffers c) (emit_chat_preview_update K i)" "keeps (same_buffers c) (save_chat_to_database K i)"
  unfolding emit_chat_preview_update_def save_chat_to_database_def by (intro buffers_kept)+

lemma same_buffers_live: "same_buffers c s \<Longrightarrow> live_doc i p (cg_chats s) = live_doc i p c"
  by (simp add: same_buffers_def live_doc_def chat_doc_def)

lemma reconcile_total: "\<exists>t. reconcile_chat_on_open K i s = (Inr (), t)"
  by (auto simp: reconcile_chat_on_open_def chat_logged_def scatch_def split: prod.splits sum.splits)

lemma chat_logged_total: "\<exists>t. chat_logged m s = (Inr (), t)"
  by (auto simp: chat_logged_def scatch_def split: prod.splits sum.splits)

lemma chats_ok_same: "same_buffers c s \<Longrightarrow> chats_ok (cg_chats s) \<longleftrightarrow> chats_ok c"
  by (simp add: same_buffers_def chats_ok_def)

lemma chat_change_opens:
  assumes i: "parse_note_id payload = Some i"
    and user: "ed_user (cg_editor s) = Some u" "ed_device (cg_editor s) = Some d"
    and read: "get_resource_by_id_direct (el_crypto (kl_edit K)) (kl_docs K) (ed_crypto (cg_editor s)) i (usr_id u)
      (ed_world (cg_editor s)) = (Inr dr, w)"
  obtains t where "chat_change_listener K payload s = (Inr (), t)"
    "same_buffers (load_chat_resource (kl_docs K) i (get_document_state ''main_doc'' dr)
       (get_document_state ''image_state'' dr) (cg_chats s)) t"
proof -
  let ?c = "load_chat_resource (kl_docs K) i (get_document_state ''main_doc'' dr) (get_document_state ''image_state'' dr)
    (set_chat_user (usr_id u) (dev_id d) (set_current_chat (Some i) (cg_chats s)))"
  let ?s = "s\<lparr>cg_chats := ?c, cg_editor := (cg_editor s)\<lparr>ed_world := w, ed_buffers := set_current_note (kl_docs K)
     (Some i) (get_document_state ''main_doc'' dr) (get_document_state ''image_state'' dr) None
     (ed_buffers (cg_editor s))\<rparr>\<rparr>"
  obtain t where t: "reconcile_chat_on_open K i ?s = (Inr (), t)" using reconcile_total by blast
  have "chat_change_listener K payload s = (Inr (), t)"
    using t by (simp add: chat_change_listener_def i chat_logged_def change_chats_def in_base_def get_user_def
        get_device_def user open_chat_def read_resource_def on_data_def read open_as_note_def change_note_def
        sbind_def scatch_def Let_def)
  moreover have "same_buffers ?c t"
  proof -
    have "same_buffers ?c ?s" by (simp add: same_buffers_def)
    with kept_reconcile [of ?c K i] t show ?thesis unfolding keeps_def by (metis snd_conv)
  qed
  ultimately show thesis
    by (intro that [of t])
       (simp_all add: same_buffers_def load_chat_resource_def insert_buffers_def Let_def set_chat_user_def set_current_chat_def)
qed

lemma chat_apply_update_live:
  assumes "ch_buffers c i = Some rb" "live_doc i (is_image_doc n) c = Some d" "apply_update_v2 Y d upd = Inr d1" "upd \<noteq> []"
  shows "chat_apply_update Y i upd n c = (Inr (), put_live i (is_image_doc n) d1 c)"
  using assms same_handle [of "c\<lparr>ch_docs := (ch_docs c)[chosen_doc (is_image_doc n) rb := d1]\<rparr>" i rb]
  by (simp add: chat_apply_update_def chat_update_fetch_def chat_update_swap_def chat_apply_at_def sbind_def
      scatch_def live_doc_def put_live_def)

lemma total_steps:
  "\<exists>t. chat_emit ev payload s = (Inr (), t)" "\<exists>t. emit_chat_preview_update K i s = (Inr (), t)"
  "\<exists>t. save_chat_to_database K i s = (Inr (), t)"
  by (simp add: chat_emit_def in_base_def emit_json_def)
    (simp_all only: emit_chat_preview_update_def save_chat_to_database_def chat_logged_total)

lemma chat_editing_event_buffers:
  assumes c: "ch_buffers (cg_chats s) i = Some rb" "live_doc i (is_image_doc n) (cg_chats s) = Some d"
    and upd: "apply_update_v2 (kl_docs K) d upd = Inr d1" "upd \<noteq> []"
  obtains t where "chat_editing_event K i cid upd n s = (Inr (), t)"
    "same_buffers (put_live i (is_image_doc n) d1 (cg_chats s)) t"
proof -
  let ?c = "put_live i (is_image_doc n) d1 (cg_chats s)"
  let ?rest = "sbind (chat_emit ''live-updates'' (json_object
       [(''resource_id'', JString i), (''updates'', json_bytes upd),
        (''client_id'', JString (decimal (unat cid))), (''doc_type'', JString n)])) (\<lambda>_.
     sbind (emit_chat_preview_update K i) (\<lambda>_.
     if n = ''chat'' then save_chat_to_database K i else sret ()))"
  have run: "chat_editing_event K i cid upd n s = ?rest (s\<lparr>cg_chats := ?c\<rparr>)"
    by (simp add: chat_editing_event_def on_chats_def sbind_def chat_apply_update_live [OF c upd])
  obtain t where t: "?rest (s\<lparr>cg_chats := ?c\<rparr>) = (Inr (), t)"
  proof -
    obtain t1 where 1: "chat_emit ''live-updates'' (json_object
       [(''resource_id'', JString i), (''updates'', json_bytes upd),
        (''client_id'', JString (decimal (unat cid))), (''doc_type'', JString n)]) (s\<lparr>cg_chats := ?c\<rparr>) = (Inr (), t1)"
      using total_steps(1) by blast
    obtain t2 where 2: "emit_chat_preview_update K i t1 = (Inr (), t2)" using total_steps(2) by blast
    obtain t3 where 3: "save_chat_to_database K i t2 = (Inr (), t3)" using total_steps(3) by blast
    show thesis by (rule that [of "if n = ''chat'' then t3 else t2"]) (simp add: sbind_def 1 2 3)
  qed
  have "keeps (same_buffers ?c) ?rest" by (intro buffers_kept)
  moreover have "same_buffers ?c (s\<lparr>cg_chats := ?c\<rparr>)" by (simp add: same_buffers_def)
  ultimately have "same_buffers ?c t" using t unfolding keeps_def by (metis snd_conv)
  with t run show thesis by (intro that [of t]) simp_all
qed

text \<open>
  C36. A chat is opened without its history: whatever its stored data has under \<open>chat\<close>, the copy the
  messenger works on is a new document, because the data is asked for \<open>main_doc\<close>, which a chat does not
  have. The first message that comes in is then the only one in the copy. The other chats keep theirs.
\<close>

theorem opening_chat_drops_history:
  assumes ok: "chats_ok (cg_chats s)" and i: "parse_note_id payload = Some i"
    and user: "ed_user (cg_editor s) = Some u" "ed_device (cg_editor s) = Some d"
    and read: "get_resource_by_id_direct (el_crypto (kl_edit K)) (kl_docs K) (ed_crypto (cg_editor s)) i (usr_id u)
      (ed_world (cg_editor s)) = (Inr dr, w)" and chat: "get_document_state ''main_doc'' dr = None"
    and upd: "apply_update_v2 (kl_docs K) (y_new (kl_docs K)) message = Inr d1" "message \<noteq> []"
  shows "\<exists>s1 s2. handle_chat_event K (Chat_change payload) s = (Inr (), s1) \<and>
    live_doc i False (cg_chats s1) = Some (y_new (kl_docs K)) \<and>
    handle_chat_event K (From_peer (EditingEvent i client_id message ''chat'')) s1 = (Inr (), s2) \<and>
    live_doc i False (cg_chats s2) = Some d1 \<and>
    (\<forall>j p. j \<noteq> i \<longrightarrow> live_doc j p (cg_chats s2) = live_doc j p (cg_chats s))"
proof -
  let ?Y = "kl_docs K"
  let ?c = "load_chat_resource ?Y i None (get_document_state ''image_state'' dr) (cg_chats s)"
  obtain s1 where s1: "chat_change_listener K payload s = (Inr (), s1)" "same_buffers ?c s1"
    using chat_change_opens [OF i user read] chat by metis
  have okc: "chats_ok ?c" using ok by (simp add: load_chat_resource_def)
  have live: "live_doc j p (cg_chats s1) = (if j = i then Some (if p then
      doc_of_state ?Y (get_document_state ''image_state'' dr) else y_new ?Y) else live_doc j p (cg_chats s))" for j p
    using live_doc_insert [OF ok] by (simp add: same_buffers_live [OF s1(2)] load_chat_resource_def doc_of_state_def)
  then obtain rb where rb: "ch_buffers (cg_chats s1) i = Some rb"
    using live [of i False] unfolding live_doc_def by (cases "ch_buffers (cg_chats s1) i") auto
  have doc: "live_doc i (is_image_doc ''chat'') (cg_chats s1) = Some (y_new ?Y)" by (simp add: live chat_slots)
  obtain s2 where s2: "chat_editing_event K i client_id message ''chat'' s1 = (Inr (), s2)"
    "same_buffers (put_live i False d1 (cg_chats s1)) s2"
    using chat_editing_event_buffers [OF rb doc upd] chat_slots by metis
  have ok1: "chats_ok (cg_chats s1)" using chats_ok_same [OF s1(2)] okc by simp
  have "live_doc j p (cg_chats s2) = (if j = i \<and> \<not> p then Some d1 else live_doc j p (cg_chats s1))" for j p
    using live_doc_put_live [OF ok1 rb] by (auto simp: same_buffers_live [OF s2(2)])
  with s1(1) s2(1) live show ?thesis
    by (intro exI [of _ s1] exI [of _ s2]) (simp add: handle_chat_event_def chat_p2p_event_def)
qed

section \<open>Saving a chat\<close>

lemma chat_data_fields:
  "json_get ''chat'' (chat_data L st) = Some (JString (b64_encode L st))"
  "json_get ''image_state'' (chat_data L st) = Some (JString [])"
  "json_get ''main_doc'' (chat_data L st) = None"
  by (simp_all add: chat_data_def json_object_def)

lemma chat_data_canonical: "json_canonical (chat_data L st)"
  unfolding chat_data_def json_object_def by (simp add: obj_insert_canonical)

text \<open>
  C37. What the messenger saves of a chat it cannot read: after a successful save the stored data has the
  messages as a text, where every reader of the data looks for an array of bytes, so that the chat has
  neither messages nor images and its preview is the empty one, for whatever user it is made.
\<close>

theorem saved_chat_unreadable:
  assumes laws: "codec_ok (el_crypto (kl_edit K))" "aes_ok (el_crypto (kl_edit K))" "json_laws (kl_docs K)"
    and user: "ed_user (cg_editor s) = Some u" "ed_device (cg_editor s) = Some d"
    and doc: "live_doc i False (cg_chats s) = Some doc"
    and utf: "is_text (json_print (kl_docs K) (chat_data (el_crypto (kl_edit K)) (y_encode_state (kl_docs K) doc)))"
    and run: "update_resource (el_crypto (kl_edit K)) (kl_docs K) (ed_crypto (cg_editor s)) i
      (json_print (kl_docs K) (chat_data (el_crypto (kl_edit K)) (y_encode_state (kl_docs K) doc)))
      (usr_id u) (dev_id d) (ed_world (cg_editor s)) = (Inr dr, w')"
  shows "save_chat_to_database K i s = (Inr (), s\<lparr>cg_editor := (cg_editor s)\<lparr>ed_world := w'\<rparr>\<rparr>) \<and> dcr_id dr = i \<and>
    (\<forall>k \<in> {''chat'', ''image_state'', ''main_doc''}. get_document_state k dr = None) \<and>
    (\<forall>v. chat_preview_of_data (kl_docs K) C ord (dcr_data dr) v = Inr empty_preview)"
proof -
  let ?L = "el_crypto (kl_edit K)" and ?Y = "kl_docs K"
  let ?data = "chat_data ?L (y_encode_state ?Y doc)"
  obtain rb where rb: "ch_buffers (cg_chats s) i = Some rb" "chat_doc (rb_main_doc rb) (cg_chats s) = doc"
    using doc by (auto simp: live_doc_def chosen_doc_def)
  have "save_chat_to_database K i s = (Inr (), s\<lparr>cg_editor := (cg_editor s)\<lparr>ed_world := w'\<rparr>\<rparr>)"
    using run by (simp add: save_chat_to_database_def chat_logged_def scatch_def sbind_def in_base_def get_user_def
        get_device_def user on_chats_def export_document_state_def chat_buffers_def rb on_data_def)
  moreover have "dcr_id dr = i \<and> dcr_data dr = ?data"
  proof -
    have "json_read ?Y (json_print ?Y ?data) = Inr ?data"
      using laws(3) chat_data_canonical by (simp add: json_laws_def)
    then show ?thesis using update_resource_data [OF laws(1,2) utf run] by (simp add: shown_note_def)
  qed
  ultimately show ?thesis
    by (simp add: get_document_state_def chat_data_fields chat_preview_of_data_def generate_chat_preview_def)
qed

end
