(* ===== verification/Chat_Reading.thy ===== *)
theory Chat_Reading
  imports Chat_Preview
begin

text \<open>
  The preview of a chat as a function of its messages, whatever order the map of messages is iterated
  in, and what marking a message as read does to it.
\<close>

section \<open>The messages of a document\<close>

definition message_entries :: "'d chat_lib \<Rightarrow> 'd \<Rightarrow> (string \<times> chat_any) list" where
  "message_entries C d = (case cl_messages C d of None \<Rightarrow> [] | Some es \<Rightarrow> es)"

text \<open>
  What is assumed of documents: the keys of the map differ, a plain value is in it, an insertion
  replaces the entry of its key, an encoded document has the same entries when it is loaded, and a
  new document has none.
\<close>

definition chat_laws :: "('d, 'u, 'v) yrs \<Rightarrow> 'd chat_lib \<Rightarrow> bool" where
  "chat_laws Y C \<longleftrightarrow> (\<forall>d. distinct (map fst (message_entries C d))) \<and>
     (\<forall>d i v. cl_message C d i = Some v \<longrightarrow> (i, v) \<in> set (message_entries C d)) \<and>
     (\<forall>d i v. mset (message_entries C (cl_set_message C d i v)) =
        add_mset (i, v) (mset (filter (\<lambda>e. fst e \<noteq> i) (message_entries C d)))) \<and>
     (\<forall>d. y_encode_state Y d \<noteq> [] \<and> (\<exists>d'. apply_update_v2 Y (y_new Y) (y_encode_state Y d) = Inr d' \<and>
        mset (message_entries C d') = mset (message_entries C d))) \<and>
     message_entries C (y_new Y) = []"

fun entry_message :: "string \<times> chat_any \<Rightarrow> (string + chat_message) option" where
  "entry_message (k, CA_Map m) = Some (parse_message k m)"
| "entry_message _ = None"

definition message_ok :: "string \<times> chat_any \<Rightarrow> bool" where
  "message_ok e \<longleftrightarrow> (case entry_message e of Some r \<Rightarrow> \<not> isl r | None \<Rightarrow> True)"

definition entries_messages :: "(string \<times> chat_any) list \<Rightarrow> chat_message list" where
  "entries_messages = List.map_filter (\<lambda>e. map_option projr (entry_message e))"

lemma entries_messages_simps [simp]:
  "entries_messages [] = []"
  "entries_messages (e # es) = (case entry_message e of
     Some r \<Rightarrow> projr r # entries_messages es | None \<Rightarrow> entries_messages es)"
  by (simp_all add: entries_messages_def map_filter_simps split: option.split)

lemma extract_entries_Inr:
  "extract_entries es = Inr ms \<longleftrightarrow> list_all message_ok es \<and> ms = entries_messages es"
proof (induction es arbitrary: ms rule: extract_entries.induct)
  case (2 k m es)
  then show ?case by (cases "parse_message k m") (auto simp: message_ok_def rbind_eq_Inr)
qed (auto simp: message_ok_def)

lemma mset_entries_messages:
  "mset es = mset es' \<Longrightarrow> mset (entries_messages es) = mset (entries_messages es')"
  by (simp add: entries_messages_def map_filter_def)

lemma message_ok_mset: "mset es = mset es' \<Longrightarrow> list_all message_ok es \<longleftrightarrow> list_all message_ok es'"
  by (metis list.pred_set set_mset_mset)

lemma extract_messages_Inr:
  "extract_messages C d = Inr ms \<longleftrightarrow> list_all message_ok (message_entries C d) \<and>
     ms = sort_key cms_timestamp (entries_messages (message_entries C d))"
  by (auto simp: extract_messages_def message_entries_def rbind_eq_Inr extract_entries_Inr split: option.splits)

lemma parse_message_id: "parse_message i m = Inr msg \<Longrightarrow> cms_id msg = i"
  by (auto simp: parse_message_def rbind_eq_Inr)

section \<open>The preview of a multiset of messages\<close>

lemma newest_time:
  "ms \<noteq> [] \<Longrightarrow> \<exists>n. newest ms = Some n \<and> n \<in> set ms \<and> cms_timestamp n = Max (cms_timestamp ` set ms)"
proof (induction ms)
  case (Cons m ms)
  show ?case
  proof (cases "ms = []")
    case False
    with Cons.IH obtain n where "newest ms = Some n" "n \<in> set ms" "cms_timestamp n = Max (cms_timestamp ` set ms)" by blast
    moreover have "Max (cms_timestamp ` set (m # ms)) = max (cms_timestamp m) (Max (cms_timestamp ` set ms))"
      using False by simp
    ultimately show ?thesis by (auto simp: max_def)
  qed simp
qed simp

definition preview_time :: "chat_message list \<Rightarrow> int" where
  "preview_time ms = (if ms = [] then 0 else Max (cms_timestamp ` set ms))"

lemma preview_of_messages_values:
  assumes "ord {} = []"
  obtains p where "preview_of_messages ord u ms = Inr p"
    "cpd_last_message_time p = preview_time ms"
    "cpd_participants p = ord (cms_author_name ` {m \<in> set ms. cms_author_id m \<noteq> u})"
    "cpd_participant_ids p = ord (cms_author_id ` {m \<in> set ms. cms_author_id m \<noteq> u})"
    "cpd_unread_count p = word_of_nat (size (filter_mset (unread_by u) (mset ms)))"
    "ms \<noteq> [] \<Longrightarrow> \<exists>n \<in> set ms. cms_timestamp n = preview_time ms \<and> cpd_last_message p = cms_content n"
proof (cases "ms = []")
  case True
  then show ?thesis using assms
    by (intro that [of empty_preview]) (simp_all add: preview_of_messages_def empty_preview_def preview_time_def)
next
  case False
  with newest_time [OF this] obtain n where "newest ms = Some n" "n \<in> set ms" "cms_timestamp n = Max (cms_timestamp ` set ms)"
    by blast
  with False that show ?thesis
    by (auto simp: preview_of_messages_def preview_time_def Let_def simp flip: mset_filter)
qed

section \<open>Marking as read\<close>

lemma any_strings_strings [simp]: "any_strings (map CA_String xs) = xs"
  by (induction xs) (simp_all add: any_strings_def map_filter_simps)

definition with_reader :: "ident \<Rightarrow> chat_message \<Rightarrow> chat_message" where
  "with_reader u m = m\<lparr>cms_read_by := Some ((case cms_read_by m of Some rs \<Rightarrow> rs | None \<Rightarrow> []) @ [u])\<rparr>"

lemma with_reader_fields [simp]:
  "cms_id (with_reader u m) = cms_id m" "cms_author_id (with_reader u m) = cms_author_id m"
  "cms_author_name (with_reader u m) = cms_author_name m" "cms_timestamp (with_reader u m) = cms_timestamp m"
  "cms_content (with_reader u m) = cms_content m" "\<not> unread_by u (with_reader u m)"
  by (simp_all add: with_reader_def unread_by_def)

lemma parse_message_with_reader:
  assumes "parse_message i m = Inr msg"
  shows "parse_message i (AList.update ''readBy'' (CA_Array (map CA_String
      ((case readers_of m of Some rs \<Rightarrow> rs | None \<Rightarrow> []) @ [u]))) m) = Inr (with_reader u msg)"
  using assms
  by (auto simp: parse_message_def rbind_eq_Inr string_entry_def readers_of_def update_conv' with_reader_def
      simp del: map_append)

lemma entries_messages_replace:
  assumes d: "distinct (map fst es)" and i: "(i, CA_Map m) \<in> set es" and ok: "list_all message_ok es"
    and msg: "parse_message i m = Inr msg" and msg': "parse_message i m' = Inr msg'"
    and es': "mset es' = add_mset (i, CA_Map m') (mset (filter (\<lambda>e. fst e \<noteq> i) es))"
  shows "list_all message_ok es'"
    "mset (entries_messages es') = add_mset msg' (mset (filter (\<lambda>x. cms_id x \<noteq> i) (entries_messages es)))"
    "mset (entries_messages es) = add_mset msg (mset (filter (\<lambda>x. cms_id x \<noteq> i) (entries_messages es)))"
proof -
  have ids: "cms_id (projr r) = fst e" if "entry_message e = Some r" "message_ok e" for e r
    using that
    by (cases e rule: entry_message.cases; cases r) (auto simp: message_ok_def dest: parse_message_id)
  have rest: "entries_messages (filter (\<lambda>e. fst e \<noteq> i) es) = filter (\<lambda>x. cms_id x \<noteq> i) (entries_messages es)"
    using ok ids by (induction es) (auto split: option.splits)
  have same: "mset es' = mset ((i, CA_Map m') # filter (\<lambda>e. fst e \<noteq> i) es)" by (simp add: es')
  have "mset es = add_mset (i, CA_Map m) (mset (filter (\<lambda>e. fst e \<noteq> i) es))"
    using d i
  proof (induction es)
    case (Cons e es)
    then show ?case
    proof (cases "fst e = i")
      case True
      then have rest: "\<forall>x \<in> set es. fst x \<noteq> i" using Cons.prems(1) by (metis distinct.simps(2) image_eqI list.map(2) set_map)
      then have "filter (\<lambda>e. fst e \<noteq> i) es = es" by (simp add: filter_id_conv)
      moreover have "e = (i, CA_Map m)" using Cons.prems(2) rest by auto
      ultimately show ?thesis by simp
    qed auto
  qed simp
  then have old: "mset es = mset ((i, CA_Map m) # filter (\<lambda>e. fst e \<noteq> i) es)" by simp
  have "list_all message_ok ((i, CA_Map m') # filter (\<lambda>e. fst e \<noteq> i) es)"
    using ok msg' by (auto simp: list_all_iff message_ok_def)
  then show "list_all message_ok es'" using message_ok_mset [OF same] by simp
  show "mset (entries_messages es') = add_mset msg' (mset (filter (\<lambda>x. cms_id x \<noteq> i) (entries_messages es)))"
    using mset_entries_messages [OF same] by (simp add: msg' rest)
  show "mset (entries_messages es) = add_mset msg (mset (filter (\<lambda>x. cms_id x \<noteq> i) (entries_messages es)))"
    using mset_entries_messages [OF old] by (simp add: msg rest)
qed

text \<open>What the two previews are about: the messages before and after.\<close>

lemma preview_of_loaded:
  assumes "st \<noteq> []" "load_chat_doc Y st = Inr d" "list_all message_ok (message_entries C d)"
  shows "generate_chat_preview Y C ord st u =
    preview_of_messages ord u (sort_key cms_timestamp (entries_messages (message_entries C d)))"
proof -
  have "extract_messages C d = Inr (sort_key cms_timestamp (entries_messages (message_entries C d)))"
    using assms(3) by (simp only: extract_messages_Inr simp_thms)
  with assms(1,2) show ?thesis by (simp add: generate_chat_preview_def)
qed

lemma preview_of_encoded:
  assumes laws: "chat_laws Y C" and ok: "list_all message_ok (message_entries C d)"
  obtains ms where "generate_chat_preview Y C ord (y_encode_state Y d) u = preview_of_messages ord u ms"
    "mset ms = mset (entries_messages (message_entries C d))"
proof -
  obtain d' where d': "apply_update_v2 Y (y_new Y) (y_encode_state Y d) = Inr d'"
    "mset (message_entries C d') = mset (message_entries C d)" "y_encode_state Y d \<noteq> []"
    using laws unfolding chat_laws_def by blast
  have "list_all message_ok (message_entries C d')" using message_ok_mset [OF d'(2)] ok by simp
  from preview_of_loaded [OF d'(3) _ this, of Y ord u] d'(1) mset_entries_messages [OF d'(2)]
  show ?thesis
    by (intro that [of "sort_key cms_timestamp (entries_messages (message_entries C d'))"]) (simp_all add: load_chat_doc_def)
qed

text \<open>The preview when some messages were replaced by ones of the same author and time.\<close>

lemma preview_marked:
  assumes ord: "ord {} = []" and p: "preview_of_messages ord u ms = Inr p" and q: "preview_of_messages ord u ms' = Inr q"
    and ms': "mset ms' = image_mset (\<lambda>m. if cms_id m = i then g m else m) (mset ms)"
    and g: "\<And>m. cms_author_id (g m) = cms_author_id m" "\<And>m. cms_author_name (g m) = cms_author_name m"
      "\<And>m. cms_timestamp (g m) = cms_timestamp m"
    and read: "\<forall>m \<in> set ms. cms_id m = i \<longrightarrow> \<not> unread_by u (g m)"
  shows "cpd_last_message_time q = cpd_last_message_time p" "cpd_participants q = cpd_participants p"
    "cpd_participant_ids q = cpd_participant_ids p"
    "cpd_unread_count p = word_of_nat (length (filter (unread_by u) ms))"
    "cpd_unread_count q = word_of_nat (length (filter (\<lambda>m. unread_by u m \<and> cms_id m \<noteq> i) ms))"
proof -
  define h where "h m = (if cms_id m = i then g m else m)" for m
  have h: "cms_author_id (h m) = cms_author_id m" "cms_author_name (h m) = cms_author_name m"
    "cms_timestamp (h m) = cms_timestamp m" for m by (simp_all add: g h_def)
  have mset: "mset ms' = image_mset h (mset ms)" using ms' by (simp add: h_def [abs_def])
  then have sets: "set ms' = h ` set ms" by (metis set_image_mset set_mset_mset)
  obtain p' where p': "preview_of_messages ord u ms = Inr p'" "cpd_last_message_time p' = preview_time ms"
    "cpd_participants p' = ord (cms_author_name ` {m \<in> set ms. cms_author_id m \<noteq> u})"
    "cpd_participant_ids p' = ord (cms_author_id ` {m \<in> set ms. cms_author_id m \<noteq> u})"
    "cpd_unread_count p' = word_of_nat (size (filter_mset (unread_by u) (mset ms)))"
    by (rule preview_of_messages_values [where ord = ord, OF ord]) (rule that; assumption)
  obtain q' where q': "preview_of_messages ord u ms' = Inr q'" "cpd_last_message_time q' = preview_time ms'"
    "cpd_participants q' = ord (cms_author_name ` {m \<in> set ms'. cms_author_id m \<noteq> u})"
    "cpd_participant_ids q' = ord (cms_author_id ` {m \<in> set ms'. cms_author_id m \<noteq> u})"
    "cpd_unread_count q' = word_of_nat (size (filter_mset (unread_by u) (mset ms')))"
    by (rule preview_of_messages_values [where ord = ord, OF ord]) (rule that; assumption)
  have pq: "p' = p" "q' = q" using p q p'(1) q'(1) by simp_all
  have "cms_timestamp ` set ms' = cms_timestamp ` set ms" by (simp only: sets image_image h)
  moreover from this have "ms' = [] \<longleftrightarrow> ms = []" by (metis image_is_empty set_empty)
  ultimately have "preview_time ms' = preview_time ms" by (simp add: preview_time_def)
  moreover have "{m \<in> set ms'. cms_author_id m \<noteq> u} = h ` {m \<in> set ms. cms_author_id m \<noteq> u}"
    by (auto simp: sets h)
  then have "cms_author_name ` {m \<in> set ms'. cms_author_id m \<noteq> u} = cms_author_name ` {m \<in> set ms. cms_author_id m \<noteq> u}"
    "cms_author_id ` {m \<in> set ms'. cms_author_id m \<noteq> u} = cms_author_id ` {m \<in> set ms. cms_author_id m \<noteq> u}"
    by (simp_all only: image_image h)
  moreover have "filter_mset (\<lambda>m. unread_by u (h m)) (mset ms) = filter_mset (\<lambda>m. unread_by u m \<and> cms_id m \<noteq> i) (mset ms)"
    using read by (intro filter_mset_cong) (auto simp: h_def)
  then have "size (filter_mset (unread_by u) (mset ms')) = length (filter (\<lambda>m. unread_by u m \<and> cms_id m \<noteq> i) ms)"
    by (simp add: mset filter_mset_image_mset) (simp flip: mset_filter)
  ultimately show "cpd_last_message_time q = cpd_last_message_time p" "cpd_participants q = cpd_participants p"
    "cpd_participant_ids q = cpd_participant_ids p"
    "cpd_unread_count p = word_of_nat (length (filter (unread_by u) ms))"
    "cpd_unread_count q = word_of_nat (length (filter (\<lambda>m. unread_by u m \<and> cms_id m \<noteq> i) ms))"
    using p'(2-) q'(2-) by (simp_all add: pq flip: mset_filter)
qed

text \<open>The document that marking leaves, and its messages.\<close>

definition marked_doc :: "'d chat_lib \<Rightarrow> string \<Rightarrow> ident \<Rightarrow> 'd \<Rightarrow> 'd" where
  "marked_doc C i u d = (case cl_message C d i of
     Some (CA_Map m) \<Rightarrow>
       (let read_by = (case readers_of m of Some rs \<Rightarrow> rs | None \<Rightarrow> []) in
        if u \<in> set read_by then d
        else cl_set_message C d i (CA_Map (AList.update ''readBy'' (CA_Array (map CA_String (read_by @ [u]))) m)))
   | _ \<Rightarrow> d)"

lemma mark_message_read_Inr:
  "mark_message_read Y C st i u = Inr st' \<longleftrightarrow>
    (\<exists>d. (if st = [] then Inr (y_new Y) else load_chat_doc Y st) = Inr d \<and> st' = y_encode_state Y (marked_doc C i u d))"
  by (auto simp: mark_message_read_def rbind_eq_Inr marked_doc_def Let_def)

lemma message_id_entry:
  assumes "x \<in> set (entries_messages es)" "cms_id x = i" "list_all message_ok es"
  obtains m where "(i, CA_Map m) \<in> set es" "parse_message i m = Inr x"
proof -
  obtain e r where e: "e \<in> set es" "entry_message e = Some r" "x = projr r"
    using assms(1) by (auto simp: entries_messages_def map_filter_def)
  then obtain k m where "e = (k, CA_Map m)" "r = parse_message k m" by (cases e rule: entry_message.cases) auto
  moreover have "\<not> isl r" using e assms(3) by (auto simp: list_all_iff message_ok_def)
  ultimately show thesis
    using that [of m] e assms(2) parse_message_id [of k m] by (cases "parse_message k m") auto
qed

lemma marked_messages:
  assumes laws: "chat_laws Y C" and ok: "list_all message_ok (message_entries C d)"
    and plain: "\<forall>v. (i, v) \<in> set (message_entries C d) \<longrightarrow> cl_message C d i = Some v"
  obtains g where "list_all message_ok (message_entries C (marked_doc C i u d))"
    "mset (entries_messages (message_entries C (marked_doc C i u d))) =
      image_mset (\<lambda>m. if cms_id m = i then g m else m) (mset (entries_messages (message_entries C d)))"
    "g = id \<or> g = with_reader u"
    "\<forall>m \<in> set (entries_messages (message_entries C d)). cms_id m = i \<longrightarrow> \<not> unread_by u (g m)"
proof (cases "\<exists>m. cl_message C d i = Some (CA_Map m) \<and> u \<notin> set (case readers_of m of Some rs \<Rightarrow> rs | None \<Rightarrow> [])")
  case False
  then have same: "marked_doc C i u d = d"
    by (auto simp: marked_doc_def Let_def split: option.splits chat_any.splits)
  have "\<not> unread_by u x" if x: "x \<in> set (entries_messages (message_entries C d))" "cms_id x = i" for x
  proof -
    from message_id_entry [OF x ok] obtain m where m: "(i, CA_Map m) \<in> set (message_entries C d)" "parse_message i m = Inr x"
      by blast
    have "u \<in> set (case readers_of m of Some rs \<Rightarrow> rs | None \<Rightarrow> [])" using False plain m(1) by blast
    moreover have "cms_read_by x = readers_of m" using m(2) by (auto simp: parse_message_def rbind_eq_Inr)
    ultimately show ?thesis by (auto simp: unread_by_def split: option.splits)
  qed
  moreover have id: "(\<lambda>m. if cms_id m = i then id m else m) = id" by auto
  ultimately show ?thesis using ok by (intro that [of id]) (unfold id, simp_all add: same)
next
  case True
  then obtain m where m: "cl_message C d i = Some (CA_Map m)"
    "u \<notin> set (case readers_of m of Some rs \<Rightarrow> rs | None \<Rightarrow> [])" by blast
  then have marked: "marked_doc C i u d = cl_set_message C d i (CA_Map (AList.update ''readBy'' (CA_Array (map CA_String
       ((case readers_of m of Some rs \<Rightarrow> rs | None \<Rightarrow> []) @ [u]))) m))"
    by (auto simp: marked_doc_def Let_def split: option.splits)
  have es: "distinct (map fst (message_entries C d))" using laws by (simp add: chat_laws_def)
  have entry: "(i, CA_Map m) \<in> set (message_entries C d)" using laws m(1) by (simp add: chat_laws_def)
  have new_entries: "mset (message_entries C (marked_doc C i u d)) =
      add_mset (i, CA_Map (AList.update ''readBy'' (CA_Array (map CA_String
       ((case readers_of m of Some rs \<Rightarrow> rs | None \<Rightarrow> []) @ [u]))) m)) (mset (filter (\<lambda>e. fst e \<noteq> i) (message_entries C d)))"
    using laws unfolding marked by (simp only: chat_laws_def)
  obtain msg where msg: "parse_message i m = Inr msg"
    using ok entry by (cases "parse_message i m") (auto simp: list_all_iff message_ok_def)
  note new = entries_messages_replace [OF es entry ok msg parse_message_with_reader [OF msg] new_entries]
  have id: "cms_id msg = i" using parse_message_id [OF msg] .
  show ?thesis
  proof (rule that [of "with_reader u"])
    show "mset (entries_messages (message_entries C (marked_doc C i u d))) =
      image_mset (\<lambda>m. if cms_id m = i then with_reader u m else m) (mset (entries_messages (message_entries C d)))"
    proof -
      have "map (\<lambda>m. if cms_id m = i then with_reader u m else m) (filter (\<lambda>x. cms_id x \<noteq> i) xs) =
          filter (\<lambda>x. cms_id x \<noteq> i) xs" for xs
        by (rule map_idI) simp
      then show ?thesis unfolding new(2) by (subst new(3)) (simp add: id flip: mset_map mset_filter)
    qed
  qed (use new(1) in simp_all)
qed

text \<open>
  C28. When a user reads a message of a chat, the preview of the chat that is stored then counts one
  message less as unread, if it counted this one, and is otherwise the preview from before: the time
  of the newest message and the participants are the same.
\<close>

theorem reading_a_message:
  assumes laws: "chat_laws Y C" and ord: "ord {} = []"
    and d: "if st = [] then d = y_new Y else load_chat_doc Y st = Inr d"
    and plain: "\<forall>v. (i, v) \<in> set (message_entries C d) \<longrightarrow> cl_message C d i = Some v"
    and p: "generate_chat_preview Y C ord st u = Inr p"
    and mark: "mark_message_read Y C st i u = Inr st'"
  shows "\<exists>p' ms. generate_chat_preview Y C ord st' u = Inr p' \<and> extract_messages C d = Inr ms \<and>
    cpd_last_message_time p' = cpd_last_message_time p \<and> cpd_participants p' = cpd_participants p \<and>
    cpd_participant_ids p' = cpd_participant_ids p \<and>
    cpd_unread_count p = word_of_nat (length (filter (unread_by u) ms)) \<and>
    cpd_unread_count p' = word_of_nat (length (filter (\<lambda>m. unread_by u m \<and> cms_id m \<noteq> i) ms))"
proof -
  let ?es = "message_entries C d"
  let ?ms = "sort_key cms_timestamp (entries_messages ?es)"
  have load: "(if st = [] then Inr (y_new Y) else load_chat_doc Y st) = Inr d" using d by simp
  have ok: "list_all message_ok ?es"
    using p d laws
    by (auto simp: generate_chat_preview_def rbind_eq_Inr extract_messages_Inr chat_laws_def split: if_splits)
  have old: "preview_of_messages ord u ?ms = Inr p"
    using p d laws ok preview_of_loaded [of st Y d C ord u]
    by (cases "st = []") (auto simp: generate_chat_preview_def preview_of_messages_def chat_laws_def)
  have st': "st' = y_encode_state Y (marked_doc C i u d)"
    using mark load by (auto simp: mark_message_read_Inr)
  obtain g where g: "list_all message_ok (message_entries C (marked_doc C i u d))"
    "mset (entries_messages (message_entries C (marked_doc C i u d))) =
      image_mset (\<lambda>m. if cms_id m = i then g m else m) (mset (entries_messages ?es))"
    "g = id \<or> g = with_reader u" "\<forall>m \<in> set (entries_messages ?es). cms_id m = i \<longrightarrow> \<not> unread_by u (g m)"
    by (rule marked_messages [OF laws ok plain])
  obtain ms' where ms': "generate_chat_preview Y C ord st' u = preview_of_messages ord u ms'"
    "mset ms' = mset (entries_messages (message_entries C (marked_doc C i u d)))"
    using preview_of_encoded [OF laws g(1)] st' by metis
  obtain q where q: "preview_of_messages ord u ms' = Inr q" by (rule preview_of_messages_values [where ord = ord, OF ord])
  have "mset ms' = image_mset (\<lambda>m. if cms_id m = i then g m else m) (mset ?ms)" using ms'(2) g(2) by simp
  note new = preview_marked [OF ord old q this]
  have "extract_messages C d = Inr ?ms" using ok by (simp only: extract_messages_Inr simp_thms)
  with ms'(1) q new g(3,4) show ?thesis by auto
qed

end
