(* ===== verification/Sample_Chat.thy ===== *)
theory Sample_Chat
  imports Sample_App Chat_Properties Chat_Reading
begin

text \<open>
  The theorems about chats applied to a chat of Ann and Bob.
\<close>

section \<open>Reading\<close>

text \<open>A document that is the list of its entries, encoded by its number.\<close>

instance chat_any :: countable
  by countable_datatype

type_synonym entries = "(string \<times> chat_any) list"

definition entries_yrs :: "(entries, entries, bytes) yrs" where
  "entries_yrs = \<lparr>json_read = (\<lambda>_. Inl ''no json''), json_read_map = (\<lambda>_. Inl ''no json''), json_print = (\<lambda>_. []),
     y_new = [], y_decode_update = (\<lambda>bs. Inr (from_nat (length bs - 1))), y_apply = (\<lambda>d u. Inr (d @ u)),
     y_state_vector = (\<lambda>_. [0]), y_decode_sv = Inr, y_diff = (\<lambda>_ _. [0]),
     y_encode_state = (\<lambda>d. replicate (Suc (to_nat d)) 1)\<rparr>"

definition entries_chat :: "entries chat_lib" where
  "entries_chat = \<lparr>cl_messages = (\<lambda>d. Some (AList.clearjunk d)), cl_message = map_of,
     cl_set_message = (\<lambda>d i v. (i, v) # d)\<rparr>"

lemma entries_load: "apply_update_v2 entries_yrs (y_new entries_yrs) (y_encode_state entries_yrs d) = Inr d"
  by (simp add: entries_yrs_def apply_update_v2_def)

lemma entries_laws: "chat_laws entries_yrs entries_chat"
proof -
  have "AList.clearjunk (AList.delete i d) = filter (\<lambda>e. fst e \<noteq> i) (AList.clearjunk d)" for i and d :: entries
    using AList.clearjunk_delete [of i d] by (simp add: AList.delete_eq split_def eq_commute)
  moreover have "map_of d i = Some v \<Longrightarrow> (i, v) \<in> set (AList.clearjunk d)" for d i v
    by (metis map_of_clearjunk map_of_SomeD)
  moreover have "y_encode_state entries_yrs d \<noteq> []" for d by (simp add: entries_yrs_def)
  ultimately show ?thesis
    using entries_load unfolding chat_laws_def
    by (auto simp: message_entries_def entries_chat_def distinct_clearjunk) (simp_all add: entries_yrs_def)
qed

definition said :: "ident \<Rightarrow> string \<Rightarrow> int \<Rightarrow> chat_any" where
  "said author content time = CA_Map [(''authorId'', CA_String author), (''authorName'', CA_String author),
     (''content'', CA_String content), (''timestamp'', CA_Number time)]"

definition talk :: entries where
  "talk = [(''m1'', said ''bob'' ''hi'' 1), (''m2'', said ''bob'' ''tea?'' 2), (''m3'', said ''ann'' ''yes'' 3)]"

lemma reading_a_message_witness:
  "\<exists>p st' p'. generate_chat_preview entries_yrs entries_chat sorted_list_of_set (y_encode_state entries_yrs talk) ''ann'' = Inr p \<and>
     mark_message_read entries_yrs entries_chat (y_encode_state entries_yrs talk) ''m2'' ''ann'' = Inr st' \<and>
     generate_chat_preview entries_yrs entries_chat sorted_list_of_set st' ''ann'' = Inr p' \<and>
     cpd_unread_count p = 2 \<and> cpd_unread_count p' = 1 \<and> cpd_last_message_time p' = 3"
proof -
  let ?st = "y_encode_state entries_yrs talk"
  have st: "?st \<noteq> []" "load_chat_doc entries_yrs ?st = Inr talk"
    using entries_load [of talk] by (simp_all add: load_chat_doc_def) (simp add: entries_yrs_def)
  have junk: "AList.clearjunk talk = talk" by (simp add: talk_def)
  obtain ms where ms: "extract_messages entries_chat talk = Inr ms"
    "length (filter (unread_by ''ann'') ms) = 2" "length (filter (\<lambda>m. unread_by ''ann'' m \<and> cms_id m \<noteq> ''m2'') ms) = 1"
    "ms \<noteq> []" "\<exists>n. newest ms = Some n \<and> cms_timestamp n = 3"
    unfolding extract_messages_def entries_chat_def chat_lib.simps option.case junk
    by (simp add: talk_def said_def parse_message_def string_entry_def required_def readers_of_def unread_by_def)
  obtain p where p: "generate_chat_preview entries_yrs entries_chat sorted_list_of_set ?st ''ann'' = Inr p"
    "cpd_last_message_time p = 3"
    using st ms(1,4,5) by (auto simp: generate_chat_preview_def preview_of_messages_def Let_def)
  obtain st' where mark: "mark_message_read entries_yrs entries_chat ?st ''m2'' ''ann'' = Inr st'"
    using st by (simp add: mark_message_read_def)
  have plain: "\<forall>v. (''m2'', v) \<in> set (message_entries entries_chat talk) \<longrightarrow> cl_message entries_chat talk ''m2'' = Some v"
    by (auto simp: message_entries_def entries_chat_def junk) (auto simp: talk_def)
  have "if ?st = [] then talk = y_new entries_yrs else load_chat_doc entries_yrs ?st = Inr talk" using st by simp
  from reading_a_message [OF entries_laws _ this plain p(1) mark] ms(1,2,3) p mark show ?thesis by auto
qed

section \<open>The exchange\<close>

definition chat_copy :: "bytes \<Rightarrow> bytes chats" where
  "chat_copy d = insert_buffers ''chat'' d [] (insert_buffers ''other'' [9] [] chats_new)"

lemma chat_copy_docs: "chats_ok (chat_copy d)" "live_doc ''chat'' p (chat_copy d) = Some (if p then [] else d)"
  "live_doc ''other'' p (chat_copy d) = Some (if p then [] else [9])"
  by (simp_all add: chat_copy_def live_doc_insert)

lemma chat_exchange_converges_witness:
  "\<exists>m1 m2 m3 a b da db. chat_state_vectors sample_yrs ''chat'' (chat_copy [1]) = (Inr m1, chat_copy [1]) \<and>
     chat_generate_updates sample_yrs ''chat'' m1 (chat_copy [2]) = (Inr m2, chat_copy [2]) \<and>
     chat_apply_and_diff sample_yrs ''chat'' m2 (chat_copy [1]) = (Inr m3, a) \<and>
     chat_apply_peer_updates sample_yrs ''chat'' m3 (chat_copy [2]) = (Inr (), b) \<and>
     live_doc ''chat'' False a = Some da \<and> live_doc ''chat'' False b = Some db \<and> set da = {1, 2} \<and> set db = {1, 2} \<and>
     live_doc ''other'' False b = Some [9]"
proof -
  from chat_exchange_converges [OF sample_yrs_laws chat_copy_docs(1) [of "[1]"] chat_copy_docs(1) [of "[2]"]
      chat_copy_docs(2) chat_copy_docs(2)]
  obtain m1 m2 m3 a b da db where run: "chat_state_vectors sample_yrs ''chat'' (chat_copy [1]) = (Inr m1, chat_copy [1])"
     "chat_generate_updates sample_yrs ''chat'' m1 (chat_copy [2]) = (Inr m2, chat_copy [2])"
     "chat_apply_and_diff sample_yrs ''chat'' m2 (chat_copy [1]) = (Inr m3, a)"
     "chat_apply_peer_updates sample_yrs ''chat'' m3 (chat_copy [2]) = (Inr (), b)"
    and docs: "\<forall>p. live_doc ''chat'' p a = Some (da p) \<and> live_doc ''chat'' p b = Some (db p) \<and>
       set (da p) = set (if p then [] else [1]) \<union> set (if p then [] else [2]) \<and>
       set (db p) = set (if p then [] else [1]) \<union> set (if p then [] else [2])"
      "\<forall>j p. j \<noteq> ''chat'' \<longrightarrow> live_doc j p a = live_doc j p (chat_copy [1]) \<and> live_doc j p b = live_doc j p (chat_copy [2])"
    by (elim exE conjE) (rule that)
  have "{1} \<union> {2} = {1, 2 :: byte}" by blast
  then have "live_doc ''chat'' False a = Some (da False) \<and> live_doc ''chat'' False b = Some (db False) \<and>
      set (da False) = {1, 2} \<and> set (db False) = {1, 2} \<and> live_doc ''other'' False b = Some [9]"
    using docs by (simp add: chat_copy_docs insert_commute)
  with run show ?thesis by blast
qed

section \<open>Subscribers\<close>

lemma subscribers_cached_witness:
  "\<exists>s1 w1. get_subscribers (\<lambda>_. []) ''note'' (set_chat_user ''ann'' ''lap'' (chats_new :: bytes chats), laptop) =
       (Inr [''pc''], (s1, w1)) \<and>
     get_subscribers (\<lambda>_. []) ''note'' (s1, laptop\<lparr>t_shares := []\<rparr>) = (Inr [''pc''], (s1, laptop\<lparr>t_shares := [], time_n := 1\<rparr>))"
proof -
  let ?s = "set_chat_user ''ann'' ''lap'' (chats_new :: bytes chats)"
  obtain s1 w1 where run: "get_subscribers (\<lambda>_. []) ''note'' (?s, laptop) = (Inr [''pc''], (s1, w1))"
    "map_option sc_last_updated (ch_cache s1 ''note'') = Some 0"
    by (simp add: get_subscribers_def cached_subscribers_def fetch_subscribers_def set_chat_user_def chats_new_def
        get_shared_user_devices_for_note_def find_by_resource_and_operation_def get_users_by_ids_def
        devices_of_shared_user_def get_device_ids_by_user_id_def get_devices_by_user_id_def share_record_load_def
        device_load_def device_queryable.simps devices_columns_def user_load_def user_queryable.simps users_columns_def
        run_simps samples)
  have "ch_cache ?s ''note'' = None" by (simp add: set_chat_user_def chats_new_def)
  from subscribers_cached [OF run(1) this] obtain w0 :: world where
    c: "s1 = ?s\<lparr>ch_cache := (ch_cache ?s)(''note'' \<mapsto>
      \<lparr>sc_device_ids = [''pc''], sc_last_updated = time_src w0 (time_n w0)\<rparr>)\<rparr>"
    "\<forall>(s2 :: bytes chats) w2. ch_cache s2 ''note'' = ch_cache s1 ''note'' \<longrightarrow> get_subscribers (\<lambda>_. []) ''note'' (s2, w2) =
       (if time_src w2 (time_n w2) - time_src w0 (time_n w0) < 300000
        then (Inr [''pc''], (s2, w2\<lparr>time_n := Suc (time_n w2)\<rparr>))
        else fetch_subscribers (\<lambda>_. []) ''note'' (s2, w2\<lparr>time_n := Suc (time_n w2)\<rparr>))"
    by (elim exE conjE) (rule that; assumption)
  note again = c(2) [rule_format, of s1 "laptop\<lparr>t_shares := []\<rparr>", OF refl]
  have "time_src w0 (time_n w0) = 0" using run(2) c(1) by simp
  moreover have "time_src laptop (time_n laptop) = 0" "time_n laptop = 0" by (simp_all add: samples)
  ultimately have "get_subscribers (\<lambda>_. []) ''note'' (s1, laptop\<lparr>t_shares := []\<rparr>) =
      (Inr [''pc''], (s1, laptop\<lparr>t_shares := [], time_n := 1\<rparr>))" using again by simp
  with run(1) show ?thesis by blast
qed

section \<open>Opening and saving\<close>

definition no_messages :: "bytes chat_lib" where
  "no_messages = \<lparr>cl_messages = (\<lambda>_. None), cl_message = (\<lambda>_ _. None), cl_set_message = (\<lambda>d _ _. d)\<rparr>"

definition messenger :: "(bytes, bytes, bytes) yrs \<Rightarrow> (bytes, bytes, bytes) chat_app_lib" where
  "messenger Y = \<lparr>kl_edit = sample_edit\<lparr>el_docs := Y\<rparr>, kl_chat = no_messages\<rparr>"

lemma messenger_fields: "kl_docs (messenger Y) = Y" "el_crypto (kl_edit (messenger Y)) = sample_lib []"
  by (simp_all add: messenger_def sample_edit_def)

definition lap :: device where
  "lap = device_load (device_sample ''lap'' ''ann'')"

definition messaging :: "world \<Rightarrow> bytes chat_manager" where
  "messaging w = \<lparr>cg_editor = ann_editing\<lparr>ed_user := Some ann, ed_device := Some lap, ed_world := w\<rparr>,
     cg_chats = insert_buffers ''note'' [1] [] chats_new\<rparr>"

lemma messaging_fields:
  "ed_user (cg_editor (messaging w)) = Some ann" "ed_device (cg_editor (messaging w)) = Some lap"
  "ed_world (cg_editor (messaging w)) = w" "ed_crypto (cg_editor (messaging w)) = loaded ''ann''"
  "chats_ok (cg_chats (messaging w))" "live_doc ''note'' False (cg_chats (messaging w)) = Some [1]" "dev_id lap = ''lap''"
  by (simp_all add: messaging_def ann_editing_def live_doc_insert lap_def device_load_def device_queryable.simps
      devices_columns_def device_sample_def)

text \<open>The note of the diary with a text that can be read; every text is read as \<open>null\<close>.\<close>

definition read_diary :: world where
  "read_diary = diary\<lparr>t_resources :=
     [(resource_sample ''note'' ''inbox'')\<lparr>rr_data := nibbles (replicate 12 0 @ as_bytes ''news'')\<rparr>]\<rparr>"

abbreviation null_yrs :: "(bytes, bytes, bytes) yrs" where
  "null_yrs \<equiv> sample_yrs\<lparr>json_read := (\<lambda>_. Inr JNull)\<rparr>"

lemma diary_readable:
  obtains dr w where "get_resource_by_id_direct (sample_lib []) null_yrs (loaded ''ann'') ''note'' ''ann'' read_diary = (Inr dr, w)"
    "dcr_data dr = JNull"
  by (simp add: get_resource_by_id_direct_def resource_find_by_id_def joined_resource_keys_def key_readable
      decrypt_single_resource_def crypto_call_def decrypt_resource_def decrypt_with_aes_def with_key_def
      resource_load_def news_text run_simps read_diary_def diary_def samples)

lemma opening_chat_drops_history_witness:
  "\<exists>s1 s2. handle_chat_event (messenger null_yrs) (Chat_change ''note'') (messaging read_diary) = (Inr (), s1) \<and>
     live_doc ''note'' False (cg_chats (messaging read_diary)) = Some [1] \<and> live_doc ''note'' False (cg_chats s1) = Some [] \<and>
     handle_chat_event (messenger null_yrs) (From_peer (EditingEvent ''note'' 7 [0, 5] ''chat'')) s1 = (Inr (), s2) \<and>
     live_doc ''note'' False (cg_chats s2) = Some [5]"
proof -
  obtain dr w where read: "get_resource_by_id_direct (sample_lib []) null_yrs (loaded ''ann'') ''note'' ''ann'' read_diary =
    (Inr dr, w)" "dcr_data dr = JNull" by (rule diary_readable)
  have i: "parse_note_id ''note'' = Some ''note''" by (simp add: parse_note_id_def trim_quotes_def)
  have new: "y_new (kl_docs (messenger null_yrs)) = []" by (simp add: messenger_fields sample_yrs_def)
  have "apply_update_v2 (kl_docs (messenger null_yrs)) (y_new (kl_docs (messenger null_yrs))) [0, 5] = Inr [5]" "[0, 5] \<noteq> []"
    by (simp_all add: messenger_fields sample_yrs_def apply_update_v2_def)
  note opened = opening_chat_drops_history [OF messaging_fields(5) i messaging_fields(1,2) _ _ this, of "read_diary" dr w 7]
  have "get_document_state ''main_doc'' dr = None" by (simp add: get_document_state_def read(2))
  with opened obtain s1 s2 where "handle_chat_event (messenger null_yrs) (Chat_change ''note'') (messaging read_diary) = (Inr (), s1)"
    "live_doc ''note'' False (cg_chats s1) = Some (y_new (kl_docs (messenger null_yrs)))"
    "handle_chat_event (messenger null_yrs) (From_peer (EditingEvent ''note'' 7 [0, 5] ''chat'')) s1 = (Inr (), s2)"
    "live_doc ''note'' False (cg_chats s2) = Some [5]"
    by (auto simp: messaging_fields messenger_fields ann_fields read(1))
  then show ?thesis unfolding new using messaging_fields(6) by blast
qed

lemma saved_chat_unreadable_witness:
  "\<exists>dr w'. save_chat_to_database (messenger sample_yrs) ''note'' (messaging diary) =
       (Inr (), (messaging diary)\<lparr>cg_editor := (cg_editor (messaging diary))\<lparr>ed_world := w'\<rparr>\<rparr>) \<and>
     get_document_state ''chat'' dr = None \<and>
     chat_preview_of_data sample_yrs no_messages sorted_list_of_set (dcr_data dr) ''ann'' = Inr empty_preview"
proof -
  let ?Y = "kl_docs (messenger sample_yrs)" and ?L = "el_crypto (kl_edit (messenger sample_yrs))"
  let ?dat = "json_print ?Y (chat_data ?L (y_encode_state ?Y [1]))"
  have "utf8_ok (map of_char (replicate n (CHR ''1'')))" for n by (induction n) simp_all
  then have utf: "is_text ?dat" by (simp add: is_text_def messenger_fields sample_yrs_def)
  obtain dr w' where run: "update_resource (sample_lib []) sample_yrs (loaded ''ann'') ''note'' ?dat ''ann'' ''lap'' diary =
    (Inr dr, w')" by (rule diary_updates [OF utf])
  have run': "update_resource ?L ?Y (ed_crypto (cg_editor (messaging diary))) ''note'' ?dat (usr_id ann) (dev_id lap)
      (ed_world (cg_editor (messaging diary))) = (Inr dr, w')"
    using run by (simp add: messaging_fields messenger_fields ann_fields)
  have "codec_ok ?L" "aes_ok ?L" "json_laws ?Y" by (simp_all add: messenger_fields sample_yrs_laws)
  from saved_chat_unreadable [OF this messaging_fields(1,2,6) utf run', of no_messages sorted_list_of_set]
  show ?thesis by (auto simp: messenger_fields)
qed

end
