(* ===== verification/Spec2Isabelle.thy ===== *)
theory Spec2Isabelle
  imports Samples Sample_Peer Sample_Net Sample_Editor Sample_Search Sample_App Sample_Chat Folder_Service
    Account_Services Service_Frame
begin

text \<open>
  A verification development of osvauld: two desktop applications, the notes of \<open>livnote\<close> and the
  messenger \<open>libremot\<close>, over shared crates. Notes and chats are encrypted on the device of the user,
  kept in a local SQLite database, and synchronised with other devices and other users over peer to peer
  connections; who may do what is decided by signed UCAN tokens.

  \<^bold>\<open>The parts and how they interact\<close>

  A command of the interface (\<open>handlers\<close>) calls the services (\<open>services\<close>), which encrypt and sign with
  \<open>crypto_utils\<close> and read and write through the repositories (\<open>persistance\<close>). Changes are sent to peers
  by the service of the network (\<open>network\<close>), whose connections answer the messages of peers with the same
  services and report to the editor (\<open>listners\<close>) by events. The editor holds the note that is open, sends
  the edits of the user to the connected peers by requests, and shows theirs. A search index keeps the
  text of the notes. All share one database and one loaded certificate.

  \<^bold>\<open>Theories and code\<close>

  \<^item> \<open>Osv_Prelude\<close>: the monad of results and state, the calls to the clock, to random numbers and to
    \<open>Uuid::new_v4\<close>, iteration over hash sets, shared lemmas. \<open>Core_Models\<close>, \<open>Vector_Clock\<close>: the types of
    \<open>core/src/models\<close> and the merge of \<open>vector_clock.rs\<close>.
  \<^item> \<open>Sql_Table\<close>, \<open>Database\<close>, \<open>Db_Integrity\<close>, \<open>Row_Models\<close>: tables with their keys (a locale, interpreted
    for each table), the schema and migration, the statements of diesel, the rows of \<open>models.rs\<close>.
    \<open>Repo_Clocks\<close>, \<open>Repo_Sharing\<close>, \<open>Repo_Users_Devices\<close>, \<open>Repo_Folders\<close>, \<open>Repo_Resources\<close>: every operation
    of the files of \<open>persistance/src/repositories\<close>. \<open>Repo_Properties\<close>: what holds of all of them.
  \<^item> \<open>Crypto_Lib\<close>, \<open>Crypto_Utils\<close>, \<open>Ucan\<close>, \<open>Crypto_Frame\<close>, \<open>Crypto_Properties\<close>, \<open>Authority\<close>: \<open>crypto_utils\<close>,
    with the proof stores of resources and folders as two interpretations of one locale.
  \<^item> \<open>Crdt_Resource\<close>, \<open>Crdt_Convergence\<close>: the documents in the data of a resource (\<open>resource.rs\<close>,
    \<open>document.rs\<close>) and the exchange that makes them equal.
  \<^item> \<open>Service_Errors\<close>, \<open>Sync_Compare\<close>, \<open>Sync_Service\<close>, \<open>Replica_Merge\<close>, \<open>Resource_Service\<close>,
    \<open>Folder_Service\<close>, \<open>Account_Services\<close>, \<open>Service_Frame\<close>, \<open>Note_Roundtrip\<close>: the services. \<open>Replica_Merge\<close>
    states what the exchange of clocks needs of a store as a locale, interpreted on the repository.
  \<^item> \<open>Text_Json\<close>, \<open>P2P_Messages\<close>, \<open>Peer_Sync\<close>, \<open>Peer_Connection\<close>, \<open>Peer_Safety\<close>, \<open>Peer_Handshake_Gap\<close>: one
    connection: its streams, the handshake, the exchanges of manifests, payloads and resources.
    \<open>Connection_Manager\<close>, \<open>P2P_Service\<close>, \<open>P2P_Incoming\<close>, \<open>Net_Safety\<close>, \<open>Net_Properties\<close>: the service with
    all its connections and the requests of the editor.
  \<^item> \<open>Note_State\<close>, \<open>Note_Convergence\<close>, \<open>Preview\<close>, \<open>Preview_Render\<close>, \<open>Live_Edit\<close>, \<open>Interface_Events\<close>,
    \<open>Editor_Properties\<close>: the editor of \<open>livnote\<close>.
  \<^item> \<open>Search_Extract\<close>, \<open>Search_Index\<close>, \<open>Search_Properties\<close>: \<open>search_indexer\<close>.
  \<^item> \<open>App_State\<close>, \<open>App_Handlers\<close>, \<open>App_Safety\<close>, \<open>App_Properties\<close>: the application \<open>livnote\<close> as a whole: its
    commands, the tasks they spawn, and the channels between the editor and the network.
  \<^item> \<open>Chat_State\<close>, \<open>Chat_Preview\<close>, \<open>Chat_Events\<close>, \<open>Chat_Convergence\<close>, \<open>Chat_Reading\<close>, \<open>Chat_Properties\<close>: what
    \<open>libremot\<close> does differently: live copies of several chats, their previews and their subscribers.
  \<^item> \<open>Samples\<close> and the theories whose names begin with \<open>Sample_\<close>: small databases, libraries and messages, and the theorems
    applied to them.

  A struct is a record and an enum a datatype with the names of the source; field names have a prefix per
  type. An operation has the name of its function, with a prefix where two files use the same one
  (\<open>folder_find_by_id\<close>, \<open>service_get_known_users\<close>, \<open>note_generate_updates\<close>, \<open>chat_generate_updates\<close>).
\<close>

text \<open>
  \<^bold>\<open>Modelling choices\<close>

  \<^item> An asynchronous function is a function of the state to a result and the state after it; what was
    written before an error stays written, except in a transaction, which restores the tables. One
    command, message, event or task step is one atomic step; their order is arbitrary and is what the
    reachable states (\<open>net_reach\<close>, \<open>editor_reach\<close>, \<open>app_reach\<close>) quantify over. A function
    that waits where others can interfere is split there: an attempt to connect around the call of the
    transport, the update of a document around its application, the sending of all notes at each note.
  \<^item> The database is the list of the rows of each table in the order in which SQLite lists them; whether a
    connection of the pool is obtained, whether foreign keys are enforced (\<open>fk_on\<close>), the clock and the
    random bytes are inputs in the state. Clock values are 32 bit words and \<open>+= 1\<close> wraps around as in a
    release build; other counters of the code that fit no bound are integers.
  \<^item> A hash set or hash map is iterated in the order a parameter \<open>ord\<close> gives it, about which nothing or only
    that it lists the set is assumed.
  \<^item> Code outside the repository is a field of a record of functions: \<open>crypto_lib\<close> (base64, AES, Argon2,
    OpenPGP, UCAN text), \<open>yrs\<close> (documents and JSON text), \<open>peer_lib\<close> and \<open>net_lib\<close> (texts of messages, the
    transport), \<open>edit_lib\<close>, \<open>search_lib\<close>, \<open>chat_lib\<close> and their unions \<open>app_lib\<close>, \<open>chat_app_lib\<close>. Their laws
    are the named hypotheses \<open>codec_ok\<close>, \<open>aes_ok\<close>, \<open>key_pair\<close>, \<open>yrs_laws\<close>, \<open>json_laws\<close>, \<open>chat_laws\<close>, \<open>tv_laws\<close>;
    the sample libraries satisfy them. The calls of the search index may fail and list documents in any order.
  \<^item> A \<open>yrs::Doc\<close> that is cloned is shared, so live documents are handles into a store; the operations on
    stored documents work on values.
  \<^item> Sending, emitting and writing a file may fail; the failure is an input. A panic is an error value.
  \<^item> Recursion is structural, or by \<open>function\<close> with a measure (\<open>chunks\<close>, \<open>split_words\<close>,
    \<open>replace_images\<close>). The validation of stored proofs recurses along tokens a peer names and need not
    end; it runs on \<open>chain_fuel\<close> and the end of the fuel is an error of its own. Enough fuel is more than
    the depth of the chain, which exists when every proof is older than its token, as a CID, the hash of
    the token, implies; then the result is never that error. Embedded proofs are parts of the text of
    their token, so its length is enough.

  \<^bold>\<open>What is shown\<close>

  \<^item> Database: writes that fail change nothing, replication of a resource, share records that
    become equal, exact listings and deletions.
  \<^item> Authority: accepted tokens are signed, in their time, and head a chain from the owner, with the capability
    and to the key of the peer; the check returns.
  \<^item> Encryption: shared data decrypts, a new passphrase keeps the certificate.
  \<^item> Synchronisation: manifests find every difference, clocks and documents converge, stored and live.
  \<^item> Network: integrity and session under every input of peers, only admitted peers complete the handshake
    (and that the flag protects nothing), reassembly of messages, after an attempt no device is
    blocked, and which devices are connected to after signing in.
  \<^item> Editor and application: the documents of the open note stay apart, closing tells the peers, previews
    and indexed text equal a recursive rendering of the tree, a saved index of at most 10000 notes is
    restored, a note that is written is read back, the whole application keeps its invariant.
  \<^item> Chats: previews, the exchange of updates, and that saving and opening do not fit together.

  \<^bold>\<open>Not modelled\<close>

  OpenPGP, Argon2, AES, base64, UCAN text, the tantivy index, XML and JSON text, yrs and the transport, which
  are libraries; the calls to sequoia in \<open>pgp_utils.rs\<close> and \<open>signature_utils.rs\<close>, which have no logic of
  the program; logging, the endpoint and its relays, the plugins and the window of tauri; the build
  scripts, the command line program \<open>kunki\<close>; the files of \<open>libremot\<close> that are copies of those of \<open>livnote\<close>;
  \<open>get_system_locale\<close>. Timers are events without a time, except for the age of cached subscribers.
\<close>

end
